(* ===== verification/Py_Prelude.thy ===== *)
theory Py_Prelude
  imports Main "HOL-Library.AList" "HOL-Library.Word"
begin

text \<open>
  The value model shared by every component: Python values, strings, dictionaries, exceptions and
  the few standard-library operations the backend uses on them.

  \<^item> A \<open>str\<close> is a list of characters, each read as the code point 0..255 (Latin-1); the
    operations below (\<open>strip\<close>, \<open>lower\<close>) follow Python on that range.
  \<^item> A \<open>dict[str, Any]\<close> is an association list in insertion order. \<open>d[k] = v\<close> keeps the position of
    a present key and appends a new one, which is what \<open>AList.update\<close> does; \<open>d.pop(k, None)\<close> is
    \<open>AList.delete\<close>. Nothing forces distinct keys in the type; where it matters it is an invariant.
  \<^item> An \<open>int\<close> is unbounded; a \<open>float\<close> is its IEEE bit pattern, since the code only passes it on.
  \<^item> An exception is the left injection of a sum type.
\<close>

section \<open>Values\<close>

datatype pyval =
    PNone
  | PBool bool
  | PInt int
  | PFloat "64 word"
  | PStr string
  | PBytes string
  | PList "pyval list"
  | PTuple "pyval list"
  | PSet "pyval list"
  | PDict "(string \<times> pyval) list"
  | PObj string

type_synonym pydict = "(string \<times> pyval) list"

text \<open>The exception classes that the modelled code raises or catches, with the message.\<close>

datatype pyerr =
    ConfigurationError string
  | AttributeError
  | TypeError
  | ValueError
  | KeyError
  | PolicyDeniedError string
  | PolicyApprovalRequiredError string
  | LimitExceeded string
  | TimedOut string

type_synonym 'a res = "pyerr + 'a"

text \<open>Sequencing of calls that may raise.\<close>

fun try_bind :: "'e + 'a \<Rightarrow> ('a \<Rightarrow> 'e + 'b) \<Rightarrow> 'e + 'b" where
  "try_bind (Inl e) f = Inl e"
| "try_bind (Inr x) f = f x"

text \<open>The parts of a conjunction of facts that are evaluated together.\<close>

lemmas parts2 = conjunct1 conjunct2
lemmas parts3 = conjunct1 parts2 [OF conjunct2]
lemmas parts4 = conjunct1 parts3 [OF conjunct2]
lemmas parts5 = conjunct1 parts4 [OF conjunct2]
lemmas parts6 = conjunct1 parts5 [OF conjunct2]
lemmas parts7 = conjunct1 parts6 [OF conjunct2]
lemmas parts8 = conjunct1 parts7 [OF conjunct2]

text \<open>For evaluation, as a case distinction, whose branches are looked at only once the first part is known.\<close>

lemma try_bind_case [code_unfold]: "try_bind r f = (case r of Inl e \<Rightarrow> Inl e | Inr x \<Rightarrow> f x)"
  by (cases r) simp_all

lemma try_bind_eq_Inr [simp]:
  "try_bind m f = Inr y \<longleftrightarrow> (\<exists>x. m = Inr x \<and> f x = Inr y)"
  by (cases m) auto

lemma try_bind_eq_Inl [simp]:
  "try_bind m f = Inl e \<longleftrightarrow> m = Inl e \<or> (\<exists>x. m = Inr x \<and> f x = Inl e)"
  by (cases m) auto

lemma try_bind_cong [fundef_cong]:
  "m = m' \<Longrightarrow> (\<And>x. m' = Inr x \<Longrightarrow> f x = f' x) \<Longrightarrow> try_bind m f = try_bind m' f'"
  by (cases m') auto

section \<open>Strings\<close>

text \<open>\<open>str.isspace\<close> on code points 0..255.\<close>

definition py_space :: "char \<Rightarrow> bool" where
  "py_space c \<longleftrightarrow> (of_char c :: nat) \<in> {9, 10, 11, 12, 13, 28, 29, 30, 31, 32, 133, 160}"

definition rstrip :: "string \<Rightarrow> string" where
  "rstrip s = rev (dropWhile py_space (rev s))"

definition strip :: "string \<Rightarrow> string" where
  "strip s = rstrip (dropWhile py_space s)"

text \<open>\<open>str.lower\<close>: the letters A-Z and the Latin-1 capitals.\<close>

definition lower_char :: "char \<Rightarrow> char" where
  "lower_char c =
    (let n = (of_char c :: nat)
     in if (65 \<le> n \<and> n \<le> 90) \<or> (192 \<le> n \<and> n \<le> 222 \<and> n \<noteq> 215) then char_of (n + 32) else c)"

definition lower :: "string \<Rightarrow> string" where
  "lower s = List.map lower_char s"

text \<open>\<open>str.casefold\<close>: as \<open>lower\<close>, with the sharp s folded to two letters. (The micro sign, whose
  folding lies outside the modelled range, is left as it is.)\<close>

definition casefold :: "string \<Rightarrow> string" where
  "casefold s = concat (List.map (\<lambda>c. if (of_char c :: nat) = 223 then ''ss'' else [lower_char c]) s)"

text \<open>Code equations that read a character by its eight bits, for evaluation in the kernel.\<close>

definition char_code :: "char \<Rightarrow> nat" where
  "char_code c =
    (case c of Char b0 b1 b2 b3 b4 b5 b6 b7 \<Rightarrow>
       (if b0 then 1 else 0) + (if b1 then 2 else 0) + (if b2 then 4 else 0) + (if b3 then 8 else 0)
       + (if b4 then 16 else 0) + (if b5 then 32 else 0) + (if b6 then 64 else 0) + (if b7 then 128 else 0))"

lemma of_char_code [code_unfold]: "(of_char :: char \<Rightarrow> nat) = char_code"
  by (rule ext) (simp add: char_code_def of_char_def split: char.splits)

lemma lower_char_code [code]:
  "lower_char (Char b0 b1 b2 b3 b4 b5 b6 b7) =
    (if b6 \<and> \<not> b5
        \<and> (if b7 then \<not> (b0 \<and> b1 \<and> b2 \<and> b4)
           else (b0 \<or> b1 \<or> b2 \<or> b3 \<or> b4) \<and> \<not> (b3 \<and> b4 \<and> (b2 \<or> b0 \<and> b1)))
     then Char b0 b1 b2 b3 b4 True b6 b7 else Char b0 b1 b2 b3 b4 b5 b6 b7)"
  by (cases b0; cases b1; cases b2; cases b3; cases b4; cases b5; cases b6; cases b7;
      simp add: lower_char_def char_of_def bit_iff_odd_drop_bit)

fun startswith :: "string \<Rightarrow> string \<Rightarrow> bool" where
  "startswith s [] = True"
| "startswith [] (p # ps) = False"
| "startswith (c # s) (p # ps) = (c = p \<and> startswith s ps)"

definition startswith_any :: "string \<Rightarrow> string list \<Rightarrow> bool" where
  "startswith_any s ps = list_ex (startswith s) ps"

fun contains :: "string \<Rightarrow> string \<Rightarrow> bool" where
  "contains [] p = (p = [])"
| "contains (c # s) p = (startswith (c # s) p \<or> contains s p)"

text \<open>\<open>str.split(sep)\<close> for a one-character separator.\<close>

fun split_on :: "char \<Rightarrow> string \<Rightarrow> string list" where
  "split_on sep [] = [[]]"
| "split_on sep (c # s) =
    (if c = sep then [] # split_on sep s
     else (case split_on sep s of [] \<Rightarrow> [[c]] | w # ws \<Rightarrow> (c # w) # ws))"

text \<open>A name between single quotes, as the f-strings of the messages print it.\<close>

definition quoted :: "string \<Rightarrow> string" where
  "quoted s = CHR 0x27 # s @ [CHR 0x27]"

lemma dropWhile_idem [simp]: "dropWhile P (dropWhile P s) = dropWhile P s"
  by (induction s) auto

lemma rstrip_hd: "rstrip s \<noteq> [] \<Longrightarrow> hd (rstrip s) = hd s"
proof -
  assume ne: "rstrip s \<noteq> []"
  have "s = rstrip s @ rev (takeWhile py_space (rev s))"
    unfolding rstrip_def by (metis rev_append rev_rev_ident takeWhile_dropWhile_id)
  with ne show ?thesis by (metis hd_append2)
qed

lemma rstrip_idem [simp]: "rstrip (rstrip s) = rstrip s"
  by (simp add: rstrip_def)

lemma dropWhile_hd_not: "s = [] \<or> \<not> P (hd s) \<Longrightarrow> dropWhile P s = s"
  by (cases s) auto

lemma strip_Nil [simp]: "strip [] = []"
  by (simp add: strip_def rstrip_def)

lemma strip_idem [simp]: "strip (strip s) = strip s"
proof (cases "strip s = []")
  case True
  then show ?thesis by simp
next
  case False
  let ?d = "dropWhile py_space s"
  have ne: "?d \<noteq> []" using False by (cases "?d = []") (auto simp: strip_def rstrip_def)
  have "hd (strip s) = hd ?d"
    using False rstrip_hd [of ?d] by (simp add: strip_def)
  then have "\<not> py_space (hd (strip s))"
    using ne hd_dropWhile by metis
  then have "dropWhile py_space (strip s) = strip s"
    by (simp add: dropWhile_hd_not)
  then show ?thesis by (simp add: strip_def)
qed

lemma length_strip_le: "length (strip s) \<le> length s"
  unfolding strip_def rstrip_def
  by (metis length_dropWhile_le length_rev le_trans)

lemma startswith_append: "startswith s p \<longleftrightarrow> (\<exists>t. s = p @ t)"
  by (induction s p rule: startswith.induct) auto

lemma split_on_nonempty [simp]: "split_on sep s \<noteq> []"
  by (induction s) (auto split: list.splits)

lemma split_on_no_sep: "sep \<notin> set s \<Longrightarrow> split_on sep s = [s]"
  by (induction s) auto

lemma split_on_append:
  "sep \<notin> set s \<Longrightarrow> split_on sep (s @ sep # t) = s # split_on sep t"
  by (induction s) auto

section \<open>Optional values and truth\<close>

text \<open>\<open>x or y\<close> for an \<open>x: str | None\<close>: an absent or empty string gives way to \<open>y\<close>.\<close>

fun str_or :: "string option \<Rightarrow> string option \<Rightarrow> string option" where
  "str_or (Some (c # s)) y = Some (c # s)"
| "str_or _ y = y"

definition str_default :: "string option \<Rightarrow> string \<Rightarrow> string" where
  "str_default x d = (case x of Some (c # s) \<Rightarrow> c # s | _ \<Rightarrow> d)"

definition truthy :: "string option \<Rightarrow> bool" where
  "truthy x = (case x of Some (c # s) \<Rightarrow> True | _ \<Rightarrow> False)"

definition py_opt_str :: "string option \<Rightarrow> pyval" where
  "py_opt_str x = (case x of None \<Rightarrow> PNone | Some s \<Rightarrow> PStr s)"

definition py_strs :: "string list \<Rightarrow> pyval" where
  "py_strs xs = PTuple (List.map PStr xs)"

text \<open>\<open>x or y\<close> on integers: an absent value and 0 give way.\<close>

definition int_else :: "int option \<Rightarrow> int \<Rightarrow> int" where
  "int_else x y = (case x of None \<Rightarrow> y | Some i \<Rightarrow> if i = 0 then y else i)"

definition int_or_opt :: "int option \<Rightarrow> int option \<Rightarrow> int option" where
  "int_or_opt x y = (case x of None \<Rightarrow> y | Some i \<Rightarrow> if i = 0 then y else x)"

text \<open>\<open>_normalized_text\<close>: a text stripped, \<open>None\<close> if nothing is left.\<close>

definition norm_text :: "string option \<Rightarrow> string option" where
  "norm_text x = (case x of None \<Rightarrow> None | Some s \<Rightarrow> let n = strip s in if n = [] then None else Some n)"

text \<open>\<open>bool(value)\<close>; a float is false exactly at the two zeros.\<close>

fun py_truth :: "pyval \<Rightarrow> bool" where
  "py_truth PNone = False"
| "py_truth (PBool b) = b"
| "py_truth (PInt i) = (i \<noteq> 0)"
| "py_truth (PFloat w) = (push_bit 1 w \<noteq> 0)"
| "py_truth (PStr s) = (s \<noteq> [])"
| "py_truth (PBytes s) = (s \<noteq> [])"
| "py_truth (PList xs) = (xs \<noteq> [])"
| "py_truth (PTuple xs) = (xs \<noteq> [])"
| "py_truth (PSet xs) = (xs \<noteq> [])"
| "py_truth (PDict d) = (d \<noteq> [])"
| "py_truth (PObj c) = True"

section \<open>The size of a value\<close>

text \<open>The measure of the functions that descend into a value.\<close>

definition py_size :: "pyval \<Rightarrow> nat" where
  "py_size v = size v"

lemma py_size_dict: "(k, v) \<in> set d \<Longrightarrow> py_size v < py_size (PDict d)"
  unfolding py_size_def by (induction d) auto

lemma py_size_list: "x \<in> set xs \<Longrightarrow> py_size x < py_size (PList xs)"
  unfolding py_size_def by (induction xs) auto

lemma py_size_tuple: "x \<in> set xs \<Longrightarrow> py_size x < py_size (PTuple xs)"
  unfolding py_size_def by (induction xs) auto

lemmas py_size_member = py_size_dict py_size_list py_size_tuple

section \<open>Dictionaries\<close>

definition dict_get :: "pydict \<Rightarrow> string \<Rightarrow> pyval" where
  "dict_get d k = (case map_of d k of None \<Rightarrow> PNone | Some v \<Rightarrow> v)"

definition dict_has :: "pydict \<Rightarrow> string \<Rightarrow> bool" where
  "dict_has d k = (map_of d k \<noteq> None)"

definition dict_set :: "string \<Rightarrow> 'v \<Rightarrow> (string \<times> 'v) list \<Rightarrow> (string \<times> 'v) list" where
  "dict_set k v d = AList.update k v d"

definition dict_pop :: "string \<Rightarrow> (string \<times> 'v) list \<Rightarrow> (string \<times> 'v) list" where
  "dict_pop k d = AList.delete k d"

definition dict_setdefault :: "string \<Rightarrow> 'v \<Rightarrow> (string \<times> 'v) list \<Rightarrow> (string \<times> 'v) list" where
  "dict_setdefault k v d = (case map_of d k of None \<Rightarrow> d @ [(k, v)] | Some _ \<Rightarrow> d)"

text \<open>\<open>d.update(e)\<close>: the pairs of \<open>e\<close> stored one after the other.\<close>

definition dict_merge :: "(string \<times> 'v) list \<Rightarrow> (string \<times> 'v) list \<Rightarrow> (string \<times> 'v) list" where
  "dict_merge d e = fold (\<lambda>(k, v) acc. dict_set k v acc) e d"

lemma map_of_dict_set [simp]: "map_of (dict_set k v d) = (map_of d)(k \<mapsto> v)"
  by (simp add: dict_set_def update_conv' fun_eq_iff)

lemma map_of_dict_pop [simp]: "map_of (dict_pop k d) = (map_of d)(k := None)"
  by (simp add: dict_pop_def delete_conv' fun_eq_iff)

lemma map_of_dict_setdefault [simp]:
  "map_of (dict_setdefault k v d) = (if map_of d k = None then (map_of d)(k \<mapsto> v) else map_of d)"
  by (auto simp: dict_setdefault_def fun_eq_iff map_add_def split: option.splits)

lemma dict_set_mem: "(k', v') \<in> set (dict_set k v d) \<Longrightarrow> k' = k \<and> v' = v \<or> (k', v') \<in> set d"
  by (induction d) (auto simp: dict_set_def split: if_splits)

lemma fst_dict_set: "fst ` set (dict_set k v d) = insert k (fst ` set d)"
  by (metis dom_map_of_conv_image_fst dom_fun_upd map_of_dict_set option.discI)

lemma dict_get_set [simp]: "dict_get (dict_set k v d) k' = (if k' = k then v else dict_get d k')"
  by (simp add: dict_get_def)

lemma dict_get_Nil [simp]: "dict_get [] k = PNone"
  by (simp add: dict_get_def)

lemma dict_get_Cons [simp]: "dict_get ((k, v) # d) k' = (if k' = k then v else dict_get d k')"
  by (simp add: dict_get_def)

lemma distinct_dict_set [simp]: "distinct (List.map fst (dict_set k v d)) = distinct (List.map fst d)"
proof -
  have "distinct (List.map fst (AList.update k v d)) \<Longrightarrow> distinct (List.map fst d)"
    by (induction d) (auto simp: dom_update split: if_splits)
  then show ?thesis by (auto simp: dict_set_def intro: distinct_update)
qed

lemma distinct_dict_pop: "distinct (List.map fst d) \<Longrightarrow> distinct (List.map fst (dict_pop k d))"
  by (simp add: dict_pop_def distinct_delete)

section \<open>Readers shared by the policy modules\<close>

text \<open>
  \<open>_read_optional_text\<close>, \<open>_optional_text\<close>, \<open>_read_optional_str\<close>, \<open>_normalize_safe_text\<close> and
  \<open>_normalize_optional_name\<close> are the same function, repeated module by module.
\<close>

definition read_optional_text :: "pyval \<Rightarrow> string option" where
  "read_optional_text v =
    (case v of PStr s \<Rightarrow> (let n = strip s in if n = [] then None else Some n) | _ \<Rightarrow> None)"

definition read_bool :: "pyval \<Rightarrow> bool \<Rightarrow> bool" where
  "read_bool v d = (case v of PBool b \<Rightarrow> b | _ \<Rightarrow> d)"

text \<open>The elements of a \<open>Sequence\<close> that is not a string or bytes; \<open>None\<close> for anything else.\<close>

definition seq_items :: "pyval \<Rightarrow> pyval list option" where
  "seq_items v = (case v of PList xs \<Rightarrow> Some xs | PTuple xs \<Rightarrow> Some xs | _ \<Rightarrow> None)"

text \<open>The elements an \<open>Iterable\<close> that is not a string or bytes yields; a mapping yields its keys.\<close>

definition iter_items :: "pyval \<Rightarrow> pyval list option" where
  "iter_items v =
    (case v of PList xs \<Rightarrow> Some xs | PTuple xs \<Rightarrow> Some xs | PSet xs \<Rightarrow> Some xs
     | PDict d \<Rightarrow> Some (List.map (\<lambda>kv. PStr (fst kv)) d) | _ \<Rightarrow> None)"

text \<open>The loop that keeps the first occurrence of every readable text.\<close>

fun collect_texts :: "pyval list \<Rightarrow> string list \<Rightarrow> string list" where
  "collect_texts [] acc = acc"
| "collect_texts (x # xs) acc =
    collect_texts xs
      (case read_optional_text x of
         None \<Rightarrow> acc
       | Some t \<Rightarrow> if t \<in> set acc then acc else acc @ [t])"

definition read_text_tuple :: "pyval \<Rightarrow> string list" where
  "read_text_tuple v = (case seq_items v of None \<Rightarrow> [] | Some xs \<Rightarrow> collect_texts xs [])"

definition read_field_names :: "pyval \<Rightarrow> string list" where
  "read_field_names v = (case iter_items v of None \<Rightarrow> [] | Some xs \<Rightarrow> collect_texts xs [])"

lemma read_optional_text_normal:
  "read_optional_text v = Some t \<Longrightarrow> t \<noteq> [] \<and> strip t = t"
  by (auto simp: read_optional_text_def Let_def split: pyval.splits if_splits)

lemma read_optional_text_PNone [simp]: "read_optional_text PNone = None"
  by (simp add: read_optional_text_def)

lemma distinct_collect_texts: "distinct acc \<Longrightarrow> distinct (collect_texts xs acc)"
  by (induction xs arbitrary: acc) (auto split: option.splits)

lemma set_collect_texts:
  "set (collect_texts xs acc) = set acc \<union> {t. \<exists>x \<in> set xs. read_optional_text x = Some t}"
  by (induction xs arbitrary: acc) (auto split: option.splits)

lemma collect_texts_normal:
  "\<forall>t \<in> set acc. t \<noteq> [] \<and> strip t = t \<Longrightarrow> \<forall>t \<in> set (collect_texts xs acc). t \<noteq> [] \<and> strip t = t"
  by (auto simp: set_collect_texts dest: read_optional_text_normal)

lemma read_bool_simps [simp]:
  "read_bool (PBool b) d = b" "read_bool PNone d = d"
  by (simp_all add: read_bool_def)

section \<open>Collections of rules\<close>

text \<open>
  \<open>reader_defs\<close> unfolds the readers when a concrete request is evaluated;
  \<open>rule_defs\<close> collects the evaluators of the policy rules, \<open>wf_intros\<close> the facts that what an
  operation returns is well formed.
\<close>

named_theorems reader_defs
named_theorems rule_defs
named_theorems wf_intros

declare read_optional_text_def [reader_defs] dict_get_def [reader_defs] strip_def [reader_defs]
  rstrip_def [reader_defs] py_space_def [reader_defs] read_bool_def [reader_defs]
  str_default_def [reader_defs] py_opt_str_def [reader_defs] seq_items_def [reader_defs]
  iter_items_def [reader_defs] read_text_tuple_def [reader_defs] read_field_names_def [reader_defs]
  py_strs_def [reader_defs] truthy_def [reader_defs]

end
