(* ===== verification/Policy_Contracts.thy ===== *)
theory Policy_Contracts
  imports Py_Prelude
begin

text \<open>
  The data of the policy domain: \<open>contracts/policy.py\<close> (actor, scope, evaluation context,
  obligation, request, decision) and \<open>contracts/context.py\<close>, with the operations of these classes.

  The \<open>Literal\<close> types of the source are strings, so actions, actor types and exposure levels are
  strings here; the three decision values are a datatype. A decision is built only through its
  constructor \<open>policy_decision\<close>, which runs \<open>__post_init__\<close>; \<open>wf_decision\<close> is what that method
  establishes between the decision value and the two boolean flags, and every rule and every
  operation of the engine and the cache keeps it.
\<close>

section \<open>Data\<close>

datatype decision_value = Allow | Deny | ApprovalRequired

record policy_actor =
  actor_type :: string
  actor_id :: "string option"
  actor_user_id :: "string option"
  actor_tenant_id :: "string option"
  actor_session_id :: "string option"
  actor_roles :: "string list"
  actor_attributes :: pydict

record policy_scope =
  scope_tenant_id :: "string option"
  scope_project_id :: "string option"
  scope_user_id :: "string option"
  scope_session_id :: "string option"
  scope_usecase_name :: "string option"
  scope_strategy_name :: "string option"
  scope_agent_name :: "string option"
  scope_memory_scope :: "string option"
  scope_resource_id :: "string option"
  scope_attributes :: pydict

record policy_evaluation_context =
  eval_trace_id :: "string option"
  eval_request_id :: "string option"
  eval_usecase_name :: "string option"
  eval_strategy_name :: "string option"
  eval_agent_name :: "string option"
  eval_llm_profile :: "string option"
  eval_tool_name :: "string option"
  eval_risk_level :: "string option"
  eval_exposure_level :: string
  eval_tags :: "string list"
  eval_metadata :: pydict

record policy_obligation =
  obl_kind :: string
  obl_target :: "string option"
  obl_value :: pyval
  obl_metadata :: pydict

record policy_request =
  req_action :: string
  req_component :: string
  req_resource :: "string option"
  req_scope :: pydict
  req_metadata :: pydict
  req_actor :: "policy_actor option"
  req_evaluation :: "policy_evaluation_context option"

record policy_decision =
  dec_allowed :: bool
  dec_reason :: "string option"
  dec_requires_approval :: bool
  dec_metadata :: pydict
  dec_decision :: "decision_value option"
  dec_reason_code :: "string option"
  dec_obligations :: "policy_obligation list"
  dec_actor :: "policy_actor option"
  dec_scope :: "policy_scope option"

text \<open>The request and the capability container that rules read. Of \<open>OrchestrationContext\<close> the policy
  modules read the request, the runtime metadata and the configuration.\<close>

record request_context =
  rc_user_id :: string
  rc_session_id :: string
  rc_message :: string
  rc_usecase :: "string option"
  rc_trace_id :: "string option"
  rc_metadata :: pydict

record orchestration_context =
  octx_request :: request_context
  octx_runtime_metadata :: pydict
  octx_config :: pyval

section \<open>Readers\<close>

definition read_mapping :: "pyval \<Rightarrow> pydict" where
  "read_mapping v = (case v of PDict d \<Rightarrow> d | _ \<Rightarrow> [])"

definition read_exposure_level :: "pyval \<Rightarrow> string" where
  "read_exposure_level v =
    (case read_optional_text v of
       Some n \<Rightarrow> if n \<in> set [''none'', ''metadata'', ''summary''] then n else ''summary''
     | None \<Rightarrow> ''summary'')"

definition actor_types :: "string list" where
  "actor_types = [''anonymous'', ''user'', ''service'', ''system'', ''agent'']"

declare read_mapping_def [reader_defs] read_exposure_level_def [reader_defs]
  actor_types_def [reader_defs]

section \<open>Request views\<close>

definition resolved_actor :: "policy_request \<Rightarrow> policy_actor" where
  "resolved_actor r =
    (case req_actor r of
       Some a \<Rightarrow> a
     | None \<Rightarrow>
        (let user_id = read_optional_text (dict_get (req_scope r) ''user_id'');
             atype = read_optional_text (dict_get (req_metadata r) ''actor_type'');
             resolved_actor_type =
               (case atype of
                  Some t \<Rightarrow> if t \<in> set actor_types then t
                            else (if user_id \<noteq> None then ''user'' else ''anonymous'')
                | None \<Rightarrow> (if user_id \<noteq> None then ''user'' else ''anonymous''))
         in \<lparr>actor_type = resolved_actor_type,
             actor_id = str_or (read_optional_text (dict_get (req_metadata r) ''actor_id'')) user_id,
             actor_user_id = user_id,
             actor_tenant_id = read_optional_text (dict_get (req_scope r) ''tenant_id''),
             actor_session_id = read_optional_text (dict_get (req_scope r) ''session_id''),
             actor_roles = read_text_tuple (dict_get (req_metadata r) ''roles''),
             actor_attributes = read_mapping (dict_get (req_metadata r) ''actor_attributes'')\<rparr>))"

definition resolved_scope :: "policy_request \<Rightarrow> policy_scope" where
  "resolved_scope r =
    \<lparr>scope_tenant_id = read_optional_text (dict_get (req_scope r) ''tenant_id''),
     scope_project_id = read_optional_text (dict_get (req_scope r) ''project_id''),
     scope_user_id = read_optional_text (dict_get (req_scope r) ''user_id''),
     scope_session_id = read_optional_text (dict_get (req_scope r) ''session_id''),
     scope_usecase_name =
       str_or (read_optional_text (dict_get (req_scope r) ''usecase_name''))
         (read_optional_text (dict_get (req_scope r) ''usecase'')),
     scope_strategy_name = read_optional_text (dict_get (req_scope r) ''strategy_name''),
     scope_agent_name = read_optional_text (dict_get (req_scope r) ''agent_name''),
     scope_memory_scope = read_optional_text (dict_get (req_scope r) ''memory_scope''),
     scope_resource_id = req_resource r,
     scope_attributes = req_scope r\<rparr>"

definition resolved_evaluation :: "policy_request \<Rightarrow> policy_evaluation_context" where
  "resolved_evaluation r =
    (case req_evaluation r of
       Some e \<Rightarrow> e
     | None \<Rightarrow>
        (let scope = resolved_scope r
         in \<lparr>eval_trace_id = read_optional_text (dict_get (req_metadata r) ''trace_id''),
             eval_request_id = read_optional_text (dict_get (req_metadata r) ''request_id''),
             eval_usecase_name = scope_usecase_name scope,
             eval_strategy_name = scope_strategy_name scope,
             eval_agent_name = scope_agent_name scope,
             eval_llm_profile =
               (if req_action r \<in> set [''llm.complete'', ''llm.stream''] then req_resource r else None),
             eval_tool_name =
               (if req_action r \<in> set [''tool.get'', ''tool.call'', ''tool.execute'', ''tool.stream_execute'']
                then req_resource r
                else read_optional_text (dict_get (req_metadata r) ''tool_name'')),
             eval_risk_level = read_optional_text (dict_get (req_metadata r) ''risk_level''),
             eval_exposure_level = read_exposure_level (dict_get (req_metadata r) ''exposure_level''),
             eval_tags = read_text_tuple (dict_get (req_metadata r) ''tags''),
             eval_metadata = req_metadata r\<rparr>))"

section \<open>Decisions\<close>

text \<open>\<open>__post_init__\<close>: the decision value is derived from the flags when it is absent, and the flags
  are then forced to agree with it.\<close>

definition decision_post_init :: "policy_decision \<Rightarrow> policy_decision" where
  "decision_post_init d =
    (let v = (case dec_decision d of
                Some v \<Rightarrow> v
              | None \<Rightarrow> if dec_requires_approval d then ApprovalRequired
                        else if dec_allowed d then Allow else Deny)
     in (case v of
           Allow \<Rightarrow> d\<lparr>dec_decision := Some v, dec_allowed := True, dec_requires_approval := False\<rparr>
         | ApprovalRequired \<Rightarrow>
             d\<lparr>dec_decision := Some v, dec_allowed := False, dec_requires_approval := True\<rparr>
         | Deny \<Rightarrow> d\<lparr>dec_decision := Some v, dec_allowed := False, dec_requires_approval := False\<rparr>))"

definition policy_decision ::
  "bool \<Rightarrow> string option \<Rightarrow> bool \<Rightarrow> pydict \<Rightarrow> decision_value option \<Rightarrow> string option \<Rightarrow>
   policy_obligation list \<Rightarrow> policy_actor option \<Rightarrow> policy_scope option \<Rightarrow> policy_decision" where
  "policy_decision allowed reason requires_approval metadata dec reason_code obligations actor scope =
    decision_post_init
      \<lparr>dec_allowed = allowed, dec_reason = reason, dec_requires_approval = requires_approval,
       dec_metadata = metadata, dec_decision = dec, dec_reason_code = reason_code,
       dec_obligations = obligations, dec_actor = actor, dec_scope = scope\<rparr>"

definition wf_decision :: "policy_decision \<Rightarrow> bool" where
  "wf_decision d \<longleftrightarrow>
    dec_decision d \<noteq> None
    \<and> dec_allowed d = (dec_decision d = Some Allow)
    \<and> dec_requires_approval d = (dec_decision d = Some ApprovalRequired)"

text \<open>The class methods, with the keyword arguments in the source's order.\<close>

definition decision_allow ::
  "string option \<Rightarrow> string option \<Rightarrow> pydict \<Rightarrow> policy_obligation list \<Rightarrow> policy_actor option \<Rightarrow>
   policy_scope option \<Rightarrow> policy_decision" where
  "decision_allow reason reason_code metadata obligations actor scope =
    policy_decision True reason False metadata (Some Allow) reason_code obligations actor scope"

definition decision_deny ::
  "string option \<Rightarrow> string option \<Rightarrow> pydict \<Rightarrow> policy_obligation list \<Rightarrow> policy_actor option \<Rightarrow>
   policy_scope option \<Rightarrow> policy_decision" where
  "decision_deny reason reason_code metadata obligations actor scope =
    policy_decision False reason False metadata (Some Deny) reason_code obligations actor scope"

definition decision_approval_required ::
  "string option \<Rightarrow> string option \<Rightarrow> pydict \<Rightarrow> policy_obligation list \<Rightarrow> policy_actor option \<Rightarrow>
   policy_scope option \<Rightarrow> policy_decision" where
  "decision_approval_required reason reason_code metadata obligations actor scope =
    policy_decision False reason True metadata (Some ApprovalRequired) reason_code obligations actor scope"

definition is_allowed :: "policy_decision \<Rightarrow> bool" where
  "is_allowed d \<longleftrightarrow> dec_decision d = Some Allow"

definition is_denied :: "policy_decision \<Rightarrow> bool" where
  "is_denied d \<longleftrightarrow> dec_decision d = Some Deny"

definition is_approval_required :: "policy_decision \<Rightarrow> bool" where
  "is_approval_required d \<longleftrightarrow> dec_decision d = Some ApprovalRequired"

definition safe_reason :: "policy_decision \<Rightarrow> string" where
  "safe_reason d =
    (if truthy (dec_reason d) then the (dec_reason d)
     else if truthy (dec_reason_code d) then the (dec_reason_code d)
     else if dec_requires_approval d then ''Approval required by policy.''
     else ''Policy denied.'')"

section \<open>The approval helpers (\<open>policy/approval_policy.py\<close>, \<open>policy/decisions.py\<close>)\<close>

definition allow_decision ::
  "string option \<Rightarrow> string option \<Rightarrow> pydict \<Rightarrow> policy_obligation list \<Rightarrow> policy_decision" where
  "allow_decision reason reason_code metadata obligations =
    decision_allow reason reason_code metadata obligations None None"

definition deny_decision ::
  "string option \<Rightarrow> string option \<Rightarrow> pydict \<Rightarrow> policy_obligation list \<Rightarrow> policy_decision" where
  "deny_decision reason reason_code metadata obligations =
    decision_deny reason reason_code metadata obligations None None"

definition approval_required_decision ::
  "string option \<Rightarrow> string option \<Rightarrow> pydict \<Rightarrow> policy_obligation list \<Rightarrow> policy_decision" where
  "approval_required_decision reason reason_code metadata obligations =
    decision_approval_required reason reason_code metadata obligations None None"

definition approval_required_obligation :: "string \<Rightarrow> pyval \<Rightarrow> policy_obligation" where
  "approval_required_obligation target value =
    \<lparr>obl_kind = ''require_approval'', obl_target = Some target, obl_value = value, obl_metadata = []\<rparr>"

definition build_approval_required_decision ::
  "string \<Rightarrow> string \<Rightarrow> string \<Rightarrow> pydict \<Rightarrow> pyval \<Rightarrow> policy_decision" where
  "build_approval_required_decision reason reason_code target metadata value =
    approval_required_decision (Some reason) (Some reason_code) metadata
      [approval_required_obligation target value]"

definition raise_for_approval_required :: "policy_decision \<Rightarrow> unit res" where
  "raise_for_approval_required d =
    (if dec_requires_approval d then Inl (PolicyApprovalRequiredError (safe_reason d)) else Inr ())"

section \<open>What the constructor establishes\<close>

lemma wf_decision_post_init [simp, wf_intros]: "wf_decision (decision_post_init d)"
  by (auto simp: wf_decision_def decision_post_init_def Let_def split: option.splits decision_value.splits)

lemma wf_policy_decision [simp, wf_intros]:
  "wf_decision (policy_decision al rs ra md dv rc obs ac sc)"
  by (simp add: policy_decision_def)

lemma decision_post_init_wf: "wf_decision d \<Longrightarrow> decision_post_init d = d"
  by (cases d) (auto simp: wf_decision_def decision_post_init_def split: decision_value.splits)

lemma policy_decision_fields [simp]:
  "dec_reason (policy_decision al rs ra md dv rc obs ac sc) = rs"
  "dec_metadata (policy_decision al rs ra md dv rc obs ac sc) = md"
  "dec_reason_code (policy_decision al rs ra md dv rc obs ac sc) = rc"
  "dec_obligations (policy_decision al rs ra md dv rc obs ac sc) = obs"
  "dec_actor (policy_decision al rs ra md dv rc obs ac sc) = ac"
  "dec_scope (policy_decision al rs ra md dv rc obs ac sc) = sc"
  "dec_decision (policy_decision al rs ra md (Some v) rc obs ac sc) = Some v"
  by (auto simp: policy_decision_def decision_post_init_def Let_def
      split: option.splits decision_value.splits)

lemmas decision_makers =
  decision_allow_def decision_deny_def decision_approval_required_def allow_decision_def
  deny_decision_def approval_required_decision_def build_approval_required_decision_def

lemma wf_decision_makers [simp, wf_intros]:
  "wf_decision (decision_allow r c m obs ac sc)"
  "wf_decision (decision_deny r c m obs ac sc)"
  "wf_decision (decision_approval_required r c m obs ac sc)"
  "wf_decision (build_approval_required_decision r' c' t m v)"
  by (simp_all add: decision_makers)

lemma decision_makers_value [simp]:
  "dec_decision (decision_allow r c m obs ac sc) = Some Allow"
  "dec_decision (decision_deny r c m obs ac sc) = Some Deny"
  "dec_decision (decision_approval_required r c m obs ac sc) = Some ApprovalRequired"
  "dec_decision (build_approval_required_decision r' c' t m v) = Some ApprovalRequired"
  by (simp_all add: decision_makers)

lemma decision_makers_code [simp]:
  "dec_reason_code (decision_allow r c m obs ac sc) = c"
  "dec_reason_code (decision_deny r c m obs ac sc) = c"
  "dec_reason_code (build_approval_required_decision r' c' t m v) = Some c'"
  by (simp_all add: decision_makers)

lemma decision_makers_metadata [simp]:
  "dec_metadata (decision_allow r c m obs ac sc) = m"
  "dec_metadata (decision_deny r c m obs ac sc) = m"
  "dec_metadata (build_approval_required_decision r' c' t m v) = m"
  by (simp_all add: decision_makers)

lemma decision_allow_neq_deny [simp]:
  "decision_allow r c m obs ac sc \<noteq> decision_deny r' c' m' obs' ac' sc'"
  "decision_deny r' c' m' obs' ac' sc' \<noteq> decision_allow r c m obs ac sc"
  by (metis decision_makers_value(1,2) decision_value.distinct(1) option.inject)+

lemma wf_decision_allowed:
  "wf_decision d \<Longrightarrow> dec_allowed d \<longleftrightarrow> dec_decision d = Some Allow"
  by (simp add: wf_decision_def)

lemma wf_decision_approval:
  "wf_decision d \<Longrightarrow> dec_requires_approval d \<longleftrightarrow> dec_decision d = Some ApprovalRequired"
  by (simp add: wf_decision_def)

lemma wf_decision_cases:
  assumes "wf_decision d"
  obtains "dec_decision d = Some Allow" "dec_allowed d" "\<not> dec_requires_approval d"
  | "dec_decision d = Some Deny" "\<not> dec_allowed d" "\<not> dec_requires_approval d"
  | "dec_decision d = Some ApprovalRequired" "\<not> dec_allowed d" "dec_requires_approval d"
  using assms by (cases "dec_decision d") (auto simp: wf_decision_def intro: decision_value.exhaust)

end
