(* ===== verification/Policy_Settings.thy ===== *)
theory Policy_Settings
  imports Policy_Contracts
begin

text \<open>
  The typed settings of a policy profile (\<open>policy/settings.py\<close>), with the defaults of the
  dataclasses. Every record field is the field of the source with a prefix for its class; the
  \<open>default_*\<close> constants are the values a constructor call without arguments gives.
\<close>

type_synonym policy_named_access_settings = "string list"

record policy_llm_settings =
  pl_deny_unknown_profiles :: bool
  pl_allowed_profiles :: "string list"
  pl_allow_prompt_trace :: bool
  pl_allow_completion_trace :: bool

record policy_memory_settings =
  pm_require_scope :: bool
  pm_allow_writes :: bool
  pm_allowed_read_scopes :: "string list"
  pm_allowed_write_scopes :: "string list"

record policy_tool_settings =
  pt_deny_unknown_tools :: bool
  pt_allowed_tools :: "string list"
  pt_allow_write_tools :: bool
  pt_allow_destructive_tools :: bool
  pt_allow_external_side_effect_tools :: bool
  pt_allow_approval_required_tools :: bool

record policy_approval_settings =
  pa_require_approval_for_write_tools :: bool
  pa_require_approval_for_destructive_tools :: bool
  pa_require_approval_for_external_side_effect_tools :: bool
  pa_require_approval_for_memory_writes :: bool

record policy_fallback_settings =
  pf_allow_fallbacks :: bool
  pf_allow_after_denial :: bool
  pf_allow_after_external_side_effects :: bool
  pf_allowed_strategies :: "string list"

record policy_trace_settings =
  ptr_allow_trace :: bool
  ptr_expose_raw_payloads :: bool
  ptr_expose_prompt_text :: bool
  ptr_expose_completion_text :: bool

record policy_stream_settings =
  ps_allow_stream_events :: bool
  ps_expose_internal_events :: bool
  ps_expose_raw_deltas :: bool

record policy_visualization_settings =
  pv_enabled :: bool
  pv_deny_unknown_chart_types :: bool
  pv_deny_unknown_renderers :: bool
  pv_require_data_source :: bool
  pv_allow_memory_data :: bool
  pv_allow_tool_data :: bool
  pv_allow_uploaded_file_data :: bool
  pv_allow_reference_data_mode :: bool
  pv_allow_exact_followup_retrieval :: bool
  pv_allow_data_export :: bool
  pv_allow_full_dataset_in_context :: bool
  pv_allowed_chart_types :: "string list"
  pv_allowed_renderers :: "string list"
  pv_allowed_data_sources :: "string list"
  pv_sensitive_fields :: "string list"
  pv_max_rows_inline :: int
  pv_max_rows_artifact_store :: int
  pv_max_series :: int
  pv_max_categories :: int
  pv_max_context_summary_tokens :: int
  pv_max_artifacts_per_response :: int

record policy_capability_settings =
  pc_expose_enabled :: bool
  pc_include_policy_profiles :: bool
  pc_include_denied_actions :: bool

record policy_health_settings =
  ph_expose_enabled :: bool
  ph_include_profile_names :: bool
  ph_include_decision_counts :: bool

record policy_audit_settings =
  pau_enabled :: bool
  pau_include_reason_codes :: bool
  pau_include_actor_identifiers :: bool
  pau_include_resource_names :: bool

record policy_decision_cache_settings =
  pdc_enabled :: bool
  pdc_ttl_seconds :: int
  pdc_max_entries :: int

text \<open>Of the profile, the flat fields repeat what the nested sections hold (see the configuration
  reader, which sets both from one value).\<close>

record policy_profile_settings =
  pp_name :: string
  pp_enabled :: bool
  pp_mode :: string
  pp_default_decision :: string
  pp_fail_closed :: bool
  pp_deny_unknown_tools :: bool
  pp_deny_unknown_llm_profiles :: bool
  pp_require_memory_scope :: bool
  pp_allow_memory_writes :: bool
  pp_allow_write_tools :: bool
  pp_allow_destructive_tools :: bool
  pp_allow_external_side_effect_tools :: bool
  pp_allow_approval_required_tools :: bool
  pp_usecases :: policy_named_access_settings
  pp_strategies :: policy_named_access_settings
  pp_agents :: policy_named_access_settings
  pp_llm :: policy_llm_settings
  pp_memory :: policy_memory_settings
  pp_tools :: policy_tool_settings
  pp_approval :: policy_approval_settings
  pp_fallback :: policy_fallback_settings
  pp_trace :: policy_trace_settings
  pp_stream :: policy_stream_settings
  pp_visualization :: policy_visualization_settings
  pp_capabilities :: policy_capability_settings
  pp_health :: policy_health_settings
  pp_audit :: policy_audit_settings
  pp_decision_cache :: policy_decision_cache_settings

record policy_settings =
  pset_enabled :: bool
  pset_mode :: string
  pset_default_profile :: string
  pset_default_decision :: string
  pset_fail_closed :: bool
  pset_profiles :: "(string \<times> policy_profile_settings) list"

section \<open>Defaults\<close>

definition default_llm_settings :: policy_llm_settings where
  "default_llm_settings =
    \<lparr>pl_deny_unknown_profiles = True, pl_allowed_profiles = [], pl_allow_prompt_trace = False,
     pl_allow_completion_trace = False\<rparr>"

definition default_memory_settings :: policy_memory_settings where
  "default_memory_settings =
    \<lparr>pm_require_scope = True, pm_allow_writes = False, pm_allowed_read_scopes = [],
     pm_allowed_write_scopes = []\<rparr>"

definition default_tool_settings :: policy_tool_settings where
  "default_tool_settings =
    \<lparr>pt_deny_unknown_tools = True, pt_allowed_tools = [], pt_allow_write_tools = False,
     pt_allow_destructive_tools = False, pt_allow_external_side_effect_tools = False,
     pt_allow_approval_required_tools = False\<rparr>"

definition default_approval_settings :: policy_approval_settings where
  "default_approval_settings =
    \<lparr>pa_require_approval_for_write_tools = True, pa_require_approval_for_destructive_tools = True,
     pa_require_approval_for_external_side_effect_tools = True,
     pa_require_approval_for_memory_writes = False\<rparr>"

definition default_fallback_settings :: policy_fallback_settings where
  "default_fallback_settings =
    \<lparr>pf_allow_fallbacks = True, pf_allow_after_denial = False,
     pf_allow_after_external_side_effects = False, pf_allowed_strategies = []\<rparr>"

definition default_trace_settings :: policy_trace_settings where
  "default_trace_settings =
    \<lparr>ptr_allow_trace = True, ptr_expose_raw_payloads = False, ptr_expose_prompt_text = False,
     ptr_expose_completion_text = False\<rparr>"

definition default_stream_settings :: policy_stream_settings where
  "default_stream_settings =
    \<lparr>ps_allow_stream_events = True, ps_expose_internal_events = False, ps_expose_raw_deltas = False\<rparr>"

definition default_visualization_settings :: policy_visualization_settings where
  "default_visualization_settings =
    \<lparr>pv_enabled = False, pv_deny_unknown_chart_types = True, pv_deny_unknown_renderers = True,
     pv_require_data_source = True, pv_allow_memory_data = False, pv_allow_tool_data = False,
     pv_allow_uploaded_file_data = False, pv_allow_reference_data_mode = False,
     pv_allow_exact_followup_retrieval = False, pv_allow_data_export = False,
     pv_allow_full_dataset_in_context = False, pv_allowed_chart_types = [],
     pv_allowed_renderers = [], pv_allowed_data_sources = [], pv_sensitive_fields = [],
     pv_max_rows_inline = 500, pv_max_rows_artifact_store = 5000, pv_max_series = 12,
     pv_max_categories = 100, pv_max_context_summary_tokens = 600,
     pv_max_artifacts_per_response = 1\<rparr>"

definition default_capability_settings :: policy_capability_settings where
  "default_capability_settings =
    \<lparr>pc_expose_enabled = True, pc_include_policy_profiles = False, pc_include_denied_actions = False\<rparr>"

definition default_health_settings :: policy_health_settings where
  "default_health_settings =
    \<lparr>ph_expose_enabled = True, ph_include_profile_names = True, ph_include_decision_counts = False\<rparr>"

definition default_audit_settings :: policy_audit_settings where
  "default_audit_settings =
    \<lparr>pau_enabled = True, pau_include_reason_codes = True, pau_include_actor_identifiers = False,
     pau_include_resource_names = True\<rparr>"

definition default_decision_cache_settings :: policy_decision_cache_settings where
  "default_decision_cache_settings =
    \<lparr>pdc_enabled = True, pdc_ttl_seconds = 30, pdc_max_entries = 1024\<rparr>"

text \<open>The profile a constructor call with only a name gives.\<close>

definition default_profile_settings :: "string \<Rightarrow> policy_profile_settings" where
  "default_profile_settings name =
    \<lparr>pp_name = name, pp_enabled = True, pp_mode = ''enforce'', pp_default_decision = ''deny'',
     pp_fail_closed = True, pp_deny_unknown_tools = True, pp_deny_unknown_llm_profiles = True,
     pp_require_memory_scope = True, pp_allow_memory_writes = False, pp_allow_write_tools = False,
     pp_allow_destructive_tools = False, pp_allow_external_side_effect_tools = False,
     pp_allow_approval_required_tools = False, pp_usecases = [], pp_strategies = [], pp_agents = [],
     pp_llm = default_llm_settings, pp_memory = default_memory_settings,
     pp_tools = default_tool_settings, pp_approval = default_approval_settings,
     pp_fallback = default_fallback_settings, pp_trace = default_trace_settings,
     pp_stream = default_stream_settings, pp_visualization = default_visualization_settings,
     pp_capabilities = default_capability_settings, pp_health = default_health_settings,
     pp_audit = default_audit_settings, pp_decision_cache = default_decision_cache_settings\<rparr>"

named_theorems setting_defs

declare default_llm_settings_def [setting_defs] default_memory_settings_def [setting_defs]
  default_tool_settings_def [setting_defs] default_approval_settings_def [setting_defs]
  default_fallback_settings_def [setting_defs] default_trace_settings_def [setting_defs]
  default_stream_settings_def [setting_defs] default_visualization_settings_def [setting_defs]
  default_capability_settings_def [setting_defs] default_health_settings_def [setting_defs]
  default_audit_settings_def [setting_defs] default_decision_cache_settings_def [setting_defs]
  default_profile_settings_def [setting_defs]

end
