(* ===== verification/Policy_Matching.thy ===== *)
theory Policy_Matching
  imports Policy_Settings
begin

text \<open>
  How rules are selected and how they read a request: the rule descriptor (\<open>policy/rule.py\<close>), the
  matcher and the allowlist helpers (\<open>policy/rule_matcher.py\<close>), the ordered registry
  (\<open>policy/registry.py\<close>) and the scope resolution of \<open>policy/context.py\<close>.

  A rule evaluator is a record of its descriptor and its callback. The callback may raise, so its
  result is an error or an optional decision. The configuration is an argument of every callback.
\<close>

section \<open>Rules and evaluators\<close>

record policy_rule =
  rule_name :: string
  rule_actions :: "string list"
  rule_component_prefixes :: "string list"
  rule_priority :: int

type_synonym rule_callback =
  "policy_request \<Rightarrow> orchestration_context \<Rightarrow> policy_profile_settings \<Rightarrow> pyval \<Rightarrow> policy_decision option res"

record rule_evaluator =
  ev_rule :: policy_rule
  ev_callback :: rule_callback

definition evaluator_evaluate :: "rule_evaluator \<Rightarrow> rule_callback" where
  "evaluator_evaluate ev request context profile config = ev_callback ev request context profile config"

section \<open>Matching\<close>

definition matcher_matches :: "string list \<Rightarrow> string list \<Rightarrow> policy_request \<Rightarrow> bool" where
  "matcher_matches actions component_prefixes request =
    (if req_action request \<notin> set actions then False
     else if component_prefixes = [] then True
     else list_ex (startswith (req_component request)) component_prefixes)"

fun normalize_names :: "pyval list \<Rightarrow> string list \<Rightarrow> string list" where
  "normalize_names [] acc = acc"
| "normalize_names (PStr s # xs) acc =
    (let current = strip s
     in normalize_names xs (if current \<noteq> [] \<and> current \<notin> set acc then acc @ [current] else acc))"
| "normalize_names (_ # xs) acc = normalize_names xs acc"

definition normalize_name_list :: "pyval \<Rightarrow> string list option" where
  "normalize_name_list v = (case seq_items v of None \<Rightarrow> None | Some xs \<Rightarrow> Some (normalize_names xs []))"

definition is_name_allowed :: "pyval \<Rightarrow> string option \<Rightarrow> bool" where
  "is_name_allowed raw_values v =
    (case normalize_name_list raw_values of
       None \<Rightarrow> True
     | Some names \<Rightarrow>
         if names = [] then True
         else (case v of None \<Rightarrow> False | Some n \<Rightarrow> n \<in> set names))"

text \<open>\<open>has_memory_scope\<close> on a typed scope and on a plain mapping.\<close>

definition memory_scope_keys :: "string list" where
  "memory_scope_keys =
    [''user_id'', ''project_id'', ''tenant_id'', ''usecase'', ''usecase_name'', ''session_id'', ''memory_scope'']"

definition has_memory_scope_mapping :: "pydict \<Rightarrow> bool" where
  "has_memory_scope_mapping values = list_ex (\<lambda>k. py_truth (dict_get values k)) memory_scope_keys"

definition has_memory_scope :: "policy_scope \<Rightarrow> bool" where
  "has_memory_scope s =
    has_memory_scope_mapping
      [(''user_id'', py_opt_str (scope_user_id s)),
       (''project_id'', py_opt_str (scope_project_id s)),
       (''tenant_id'', py_opt_str (scope_tenant_id s)),
       (''session_id'', py_opt_str (scope_session_id s)),
       (''usecase_name'', py_opt_str (scope_usecase_name s)),
       (''memory_scope'', py_opt_str (scope_memory_scope s))]"

section \<open>The registry\<close>

text \<open>The registry is the list of its evaluators in registration order. \<open>list.sort\<close> is stable, and so
  is \<open>sort_key\<close>.\<close>

type_synonym policy_registry = "rule_evaluator list"

definition register_rule :: "policy_registry \<Rightarrow> rule_evaluator \<Rightarrow> policy_registry" where
  "register_rule registry evaluator = registry @ [evaluator]"

definition registry_extend :: "policy_registry \<Rightarrow> rule_evaluator list \<Rightarrow> policy_registry" where
  "registry_extend registry evaluators = fold (\<lambda>ev reg. register_rule reg ev) evaluators registry"

definition evaluator_matches :: "policy_request \<Rightarrow> rule_evaluator \<Rightarrow> bool" where
  "evaluator_matches request ev =
    matcher_matches (rule_actions (ev_rule ev)) (rule_component_prefixes (ev_rule ev)) request"

definition registry_matching :: "policy_registry \<Rightarrow> policy_request \<Rightarrow> rule_evaluator list" where
  "registry_matching registry request =
    sort_key (\<lambda>ev. rule_priority (ev_rule ev)) (filter (evaluator_matches request) registry)"

section \<open>Scope resolution\<close>

definition nonblank_str :: "pyval \<Rightarrow> string option" where
  "nonblank_str v = (case v of PStr s \<Rightarrow> (if strip s \<noteq> [] then Some (strip s) else None) | _ \<Rightarrow> None)"

definition resolve_scope_value ::
  "policy_request \<Rightarrow> orchestration_context \<Rightarrow> string \<Rightarrow> string option \<Rightarrow> string option" where
  "resolve_scope_value request context key fallback =
    (case nonblank_str (dict_get (req_scope request) key) of
       Some v \<Rightarrow> Some v
     | None \<Rightarrow>
        (case nonblank_str (dict_get (octx_runtime_metadata context) key) of
           Some v \<Rightarrow> Some v
         | None \<Rightarrow> fallback))"

text \<open>The nested call every rule and the engine make for the active use case.\<close>

definition resolve_usecase_name :: "policy_request \<Rightarrow> orchestration_context \<Rightarrow> string option" where
  "resolve_usecase_name request context =
    resolve_scope_value request context ''usecase_name''
      (resolve_scope_value request context ''usecase'' (rc_usecase (octx_request context)))"

record resolved_policy_context =
  rpc_actor :: policy_actor
  rpc_scope :: policy_scope
  rpc_evaluation :: policy_evaluation_context

definition resolve_policy_context :: "policy_request \<Rightarrow> resolved_policy_context" where
  "resolve_policy_context request =
    \<lparr>rpc_actor = resolved_actor request, rpc_scope = resolved_scope request,
     rpc_evaluation = resolved_evaluation request\<rparr>"

text \<open>The minimal context of read-only checks at API boundaries: an absent user or session id becomes
  the empty string, and the gateways are absent.\<close>

definition build_readonly_policy_context ::
  "pyval \<Rightarrow> string option \<Rightarrow> string option \<Rightarrow> string option \<Rightarrow> string option \<Rightarrow> orchestration_context" where
  "build_readonly_policy_context config trace_id user_id session_id usecase_name =
    \<lparr>octx_request =
       \<lparr>rc_user_id = str_default user_id [], rc_session_id = str_default session_id [],
        rc_message = [], rc_usecase = usecase_name, rc_trace_id = trace_id, rc_metadata = []\<rparr>,
     octx_runtime_metadata = [], octx_config = config\<rparr>"

declare nonblank_str_def [reader_defs] resolve_scope_value_def [reader_defs]
  resolve_usecase_name_def [reader_defs] is_name_allowed_def [reader_defs]
  normalize_name_list_def [reader_defs] matcher_matches_def [reader_defs]
  resolve_policy_context_def [reader_defs]

section \<open>Lemmas\<close>

lemma set_registry_matching:
  "set (registry_matching registry request) = {ev \<in> set registry. evaluator_matches request ev}"
  by (auto simp: registry_matching_def)

lemma registry_matching_sorted:
  "sorted (List.map (\<lambda>ev. rule_priority (ev_rule ev)) (registry_matching registry request))"
  by (simp add: registry_matching_def)

lemma registry_matching_stable:
  "filter (\<lambda>ev. rule_priority (ev_rule ev) = p) (registry_matching registry request)
   = filter (\<lambda>ev. evaluator_matches request ev \<and> rule_priority (ev_rule ev) = p) registry"
proof -
  have "filter (\<lambda>ev. rule_priority (ev_rule ev) = p) (registry_matching registry request)
      = filter (\<lambda>ev. rule_priority (ev_rule ev) = p) (filter (evaluator_matches request) registry)"
    unfolding registry_matching_def by (rule sort_key_stable)
  then show ?thesis by (simp add: conj_commute)
qed

lemma set_normalize_names:
  "set (normalize_names xs acc) = set acc \<union> {strip s |s. PStr s \<in> set xs \<and> strip s \<noteq> []}"
  by (induction xs acc rule: normalize_names.induct) (auto simp: Let_def)

lemma distinct_normalize_names: "distinct acc \<Longrightarrow> distinct (normalize_names xs acc)"
  by (induction xs acc rule: normalize_names.induct) (auto simp: Let_def)

lemma is_name_allowed_strs:
  "is_name_allowed (py_strs xs) v \<longleftrightarrow>
    (\<forall>x \<in> set xs. strip x = []) \<or> (\<exists>n. v = Some n \<and> n \<in> strip ` set xs \<and> n \<noteq> [])"
proof -
  have eq: "set (normalize_names (List.map PStr xs) []) = {strip s |s. s \<in> set xs \<and> strip s \<noteq> []}"
    by (auto simp: set_normalize_names)
  have "normalize_names (List.map PStr xs) [] = [] \<longleftrightarrow> (\<forall>x \<in> set xs. strip x = [])"
    unfolding set_empty [symmetric] eq by blast
  with eq show ?thesis
    by (auto simp: is_name_allowed_def normalize_name_list_def py_strs_def seq_items_def
        split: option.splits)
qed

lemma resolve_scope_value_first:
  "nonblank_str (dict_get (req_scope r) k) = Some v \<Longrightarrow> resolve_scope_value r c k fb = Some v"
  by (simp add: resolve_scope_value_def)

lemma nonblank_str_eq: "nonblank_str v = read_optional_text v"
  by (auto simp: nonblank_str_def read_optional_text_def Let_def split: pyval.splits)

end
