(* ===== verification/Config_View.thy ===== *)
theory Config_View
  imports Py_Prelude
begin

text \<open>
  The read-only view of the validated configuration (\<open>config/view.py\<close>, class
  \<open>ValidatedConfigurationView\<close> and the typed readers of the module): the values are frozen, a
  dotted path is walked part by part, and a typed reader raises \<open>ConfigurationError\<close> on a value of the
  wrong type.

  A frozen mapping is a \<open>PDict\<close> like a plain one (the mapping proxy differs only in being read-only,
  and values here are immutable); a frozen list is a tuple.
\<close>

section \<open>Freezing\<close>

fun freeze :: "pyval \<Rightarrow> pyval" where
  "freeze (PDict d) = PDict (List.map (\<lambda>(k, v). (k, freeze v)) d)"
| "freeze (PList xs) = PTuple (List.map freeze xs)"
| "freeze (PTuple xs) = PTuple (List.map freeze xs)"
| "freeze v = v"

fun unfreeze :: "pyval \<Rightarrow> pyval" where
  "unfreeze (PDict d) = PDict (List.map (\<lambda>(k, v). (k, unfreeze v)) d)"
| "unfreeze (PTuple xs) = PList (List.map unfreeze xs)"
| "unfreeze v = v"


section \<open>The view\<close>

text \<open>The constructor: \<open>ValidatedConfigurationView(values)\<close>.\<close>

definition config_view :: "pydict \<Rightarrow> pyval" where
  "config_view values = freeze (PDict values)"

definition agent_plugin_compatibility_value :: "pydict \<Rightarrow> string \<Rightarrow> pyval" where
  "agent_plugin_compatibility_value current part =
    (case dict_get current ''plugins'' of
       PDict plugins \<Rightarrow>
         (if part \<in> set [''defaults'', ''plugins''] then PNone else dict_get plugins part)
     | _ \<Rightarrow> PNone)"

fun config_walk :: "pyval \<Rightarrow> string list \<Rightarrow> pyval option" where
  "config_walk current [] = Some current"
| "config_walk (PDict d) (part # parts) =
    (case map_of d part of
       Some v \<Rightarrow> config_walk v parts
     | None \<Rightarrow>
        (let compatibility_value = agent_plugin_compatibility_value d part
         in if compatibility_value = PNone then None else config_walk compatibility_value parts))"
| "config_walk _ (part # parts) = None"

definition config_get :: "pyval \<Rightarrow> string \<Rightarrow> pyval \<Rightarrow> pyval" where
  "config_get config path dflt =
    (if path = [] then config
     else (case config_walk config (split_on (CHR ''.'') path) of None \<Rightarrow> dflt | Some v \<Rightarrow> v))"

definition config_require :: "pyval \<Rightarrow> string \<Rightarrow> pyval res" where
  "config_require config path =
    (if config_get config path PNone = PNone
     then Inl (ConfigurationError (''Missing required config path: '' @ path))
     else Inr (config_get config path PNone))"

definition config_section :: "pyval \<Rightarrow> string \<Rightarrow> pydict res" where
  "config_section config path =
    try_bind (config_require config path)
      (\<lambda>v. case unfreeze v of
             PDict d \<Rightarrow> Inr d
           | _ \<Rightarrow> Inl (ConfigurationError (''Config path is not a section: '' @ path)))"

section \<open>Typed readers\<close>

definition invalid_value :: "string \<Rightarrow> string \<Rightarrow> 'a res" where
  "invalid_value path expected =
    Inl (ConfigurationError (''Invalid config value at '' @ path @ '': expected '' @ expected @ ''.''))"

definition cfg_bool :: "pyval \<Rightarrow> string \<Rightarrow> bool \<Rightarrow> bool res" where
  "cfg_bool config path dflt =
    (case config_get config path (PBool dflt) of PBool b \<Rightarrow> Inr b | _ \<Rightarrow> invalid_value path ''bool'')"

definition cfg_int :: "pyval \<Rightarrow> string \<Rightarrow> int \<Rightarrow> int res" where
  "cfg_int config path dflt =
    (case config_get config path (PInt dflt) of PInt i \<Rightarrow> Inr i | _ \<Rightarrow> invalid_value path ''int'')"

definition cfg_str :: "pyval \<Rightarrow> string \<Rightarrow> string \<Rightarrow> string res" where
  "cfg_str config path dflt =
    (case config_get config path (PStr dflt) of PStr s \<Rightarrow> Inr s | _ \<Rightarrow> invalid_value path ''str'')"

definition cfg_required_str :: "pyval \<Rightarrow> string \<Rightarrow> string res" where
  "cfg_required_str config path =
    try_bind (config_require config path)
      (\<lambda>v. case v of PStr s \<Rightarrow> Inr s | _ \<Rightarrow> invalid_value path ''str'')"

definition cfg_optional_str :: "pyval \<Rightarrow> string \<Rightarrow> string \<Rightarrow> string res" where
  "cfg_optional_str config path fallback =
    (case config_get config path PNone of
       PNone \<Rightarrow> Inr fallback | PStr s \<Rightarrow> Inr s | _ \<Rightarrow> invalid_value path ''str'')"

definition cfg_optional_str_or_none :: "pyval \<Rightarrow> string \<Rightarrow> string option res" where
  "cfg_optional_str_or_none config path =
    (case config_get config path PNone of
       PNone \<Rightarrow> Inr None | PStr s \<Rightarrow> Inr (Some s) | _ \<Rightarrow> invalid_value path ''str'')"

definition cfg_optional_int :: "pyval \<Rightarrow> string \<Rightarrow> int option res" where
  "cfg_optional_int config path =
    (case config_get config path PNone of
       PNone \<Rightarrow> Inr None | PInt i \<Rightarrow> Inr (Some i) | _ \<Rightarrow> invalid_value path ''int'')"

definition cfg_optional_bool :: "pyval \<Rightarrow> string \<Rightarrow> bool option res" where
  "cfg_optional_bool config path =
    (case config_get config path PNone of
       PNone \<Rightarrow> Inr None | PBool b \<Rightarrow> Inr (Some b) | _ \<Rightarrow> invalid_value path ''bool'')"

fun all_strs :: "pyval list \<Rightarrow> string list option" where
  "all_strs [] = Some []"
| "all_strs (PStr s # xs) = map_option ((#) s) (all_strs xs)"
| "all_strs (_ # xs) = None"

definition cfg_str_tuple :: "pyval \<Rightarrow> string \<Rightarrow> string list \<Rightarrow> string list res" where
  "cfg_str_tuple config path dflt =
    (case seq_items (config_get config path (py_strs dflt)) of
       None \<Rightarrow> invalid_value path ''list[str]''
     | Some items \<Rightarrow>
        (case all_strs items of None \<Rightarrow> invalid_value path ''list[str]'' | Some ss \<Rightarrow> Inr ss))"

text \<open>\<open>float(value)\<close> of an integer is kept as the integer it equals; the model does not compute with it.\<close>

definition cfg_optional_float :: "pyval \<Rightarrow> string \<Rightarrow> pyval option res" where
  "cfg_optional_float config path =
    (case config_get config path PNone of
       PNone \<Rightarrow> Inr None | PInt i \<Rightarrow> Inr (Some (PInt i)) | PFloat w \<Rightarrow> Inr (Some (PFloat w))
     | _ \<Rightarrow> invalid_value path ''float'')"

fun str_items :: "pydict \<Rightarrow> (string \<times> string) list option" where
  "str_items [] = Some []"
| "str_items ((k, PStr s) # d) = map_option ((#) (k, s)) (str_items d)"
| "str_items (_ # d) = None"

definition cfg_str_mapping :: "pyval \<Rightarrow> string \<Rightarrow> (string \<times> string) list res" where
  "cfg_str_mapping config path =
    (case config_get config path (PDict []) of
       PDict d \<Rightarrow> (case str_items d of Some m \<Rightarrow> Inr m | None \<Rightarrow> invalid_value path ''dict[str, str]'')
     | _ \<Rightarrow> invalid_value path ''dict[str, str]'')"

definition cfg_mapping_section :: "pyval \<Rightarrow> string \<Rightarrow> string \<Rightarrow> pydict res" where
  "cfg_mapping_section config primary_path fallback_path =
    (let primary = config_get config primary_path PNone;
         value = (if primary = PNone then config_get config fallback_path (PDict []) else primary);
         resolved_path = (if primary = PNone then fallback_path else primary_path)
     in case value of PDict d \<Rightarrow> Inr d | _ \<Rightarrow> invalid_value resolved_path ''mapping'')"

definition cfg_mapping_dict :: "pyval \<Rightarrow> string \<Rightarrow> pydict res" where
  "cfg_mapping_dict config path =
    (case config_get config path (PDict []) of
       PDict d \<Rightarrow> (case unfreeze (PDict d) of PDict e \<Rightarrow> Inr e | _ \<Rightarrow> Inr [])
     | _ \<Rightarrow> invalid_value path ''mapping'')"

definition cfg_optional_mapping_dict :: "pyval \<Rightarrow> string \<Rightarrow> pydict option res" where
  "cfg_optional_mapping_dict config path =
    (case config_get config path PNone of
       PNone \<Rightarrow> Inr None
     | PDict d \<Rightarrow> (case unfreeze (PDict d) of PDict e \<Rightarrow> Inr (Some e) | _ \<Rightarrow> Inr None)
     | _ \<Rightarrow> invalid_value path ''mapping'')"

declare config_get_def [reader_defs] config_require_def [reader_defs] config_section_def [reader_defs]
  invalid_value_def [reader_defs] cfg_bool_def [reader_defs] cfg_int_def [reader_defs]
  cfg_str_def [reader_defs] cfg_required_str_def [reader_defs] cfg_optional_str_def [reader_defs]
  cfg_optional_str_or_none_def [reader_defs] cfg_optional_int_def [reader_defs]
  cfg_optional_bool_def [reader_defs] cfg_str_tuple_def [reader_defs] config_view_def [reader_defs]
  agent_plugin_compatibility_value_def [reader_defs] cfg_optional_float_def [reader_defs]
  cfg_str_mapping_def [reader_defs] cfg_mapping_section_def [reader_defs] cfg_mapping_dict_def [reader_defs]
  cfg_optional_mapping_dict_def [reader_defs]

section \<open>Lemmas\<close>


lemma freeze_idem: "freeze (freeze v) = freeze v"
  by (induction v rule: freeze.induct) auto



lemma freeze_eq_PNone [simp]: "freeze v = PNone \<longleftrightarrow> v = PNone"
  by (cases v) auto



lemma config_walk_append:
  "config_walk v (ps @ qs) = Option.bind (config_walk v ps) (\<lambda>w. config_walk w qs)"
proof (induction v ps rule: config_walk.induct)
  case (2 d part parts)
  then show ?case by (auto simp: Let_def split: option.splits)
qed (auto split: option.splits)

lemma all_strs_map [simp]: "all_strs (List.map PStr xs) = Some xs"
  by (induction xs) auto

lemma cfg_readers_default:
  assumes "path \<noteq> []" "config_walk config (split_on (CHR ''.'') path) = None"
  shows "cfg_bool config path b = Inr b" "cfg_int config path i = Inr i" "cfg_str config path s = Inr s"
    "cfg_str_tuple config path xs = Inr xs" "cfg_optional_bool config path = Inr None"
    "cfg_optional_int config path = Inr None" "cfg_optional_str config path s = Inr s"
  using assms
  by (simp_all add: cfg_bool_def cfg_int_def cfg_str_def cfg_str_tuple_def cfg_optional_bool_def
      cfg_optional_int_def cfg_optional_str_def config_get_def py_strs_def seq_items_def)

section \<open>Properties\<close>




text \<open>The value that a document has at a path, read off the document itself, the value a path leads to and then misses,
  and the dotted form of a path.\<close>

inductive value_at :: "pyval \<Rightarrow> string list \<Rightarrow> pyval \<Rightarrow> bool" where
  here: "value_at v [] v"
| below: "map_of d k = Some w \<Longrightarrow> value_at w ks v \<Longrightarrow> value_at (PDict d) (k # ks) v"

inductive_cases value_at_elims: "value_at v [] w" "value_at v (k # ks) w"








end
