(* ===== verification/Orch_Config.thy ===== *)
theory Orch_Config
  imports Config_View
begin

text \<open>
  \<open>get_orchestration_settings\<close> of \<open>config/view.py\<close>: the strategies, use cases and defaults of the
  orchestration read into typed settings, one definition per settings class, the reads in the order
  of the source, so that the first malformed value decides the error. A use case without an allowlist
  of agents allows its own agent only; a missing default strategy is taken from the active use case.
\<close>

section \<open>Settings\<close>

record conversation_context_settings =
  cc_enabled :: bool
  cc_mode :: string
  cc_max_messages :: int
  cc_max_chars :: int
  cc_include_assistant_messages :: bool
  cc_summary_threshold_messages :: int
  cc_summary_max_chars :: int

record orchestration_defaults =
  od_strategy :: string
  od_fallback_strategy :: string
  od_max_steps :: int
  od_max_tool_calls :: int
  od_max_memory_searches :: int
  od_max_memory_writes :: int
  od_max_llm_calls :: int
  od_max_tool_loop_iterations :: int
  od_max_context_bytes :: int
  od_max_turn_duration_seconds :: int
  od_max_stream_duration_seconds :: int
  od_emit_step_events :: bool
  od_emit_tool_events :: bool
  od_emit_memory_events :: bool
  od_stream_strategy_events :: bool
  od_expose_strategy_metadata :: bool
  od_expose_chain_of_thought :: bool
  od_save_runtime_snapshots :: bool
  od_conversation_context :: conversation_context_settings

record strategy_memory_settings =
  sm_default_limit :: int
  sm_include_document_chunks :: bool
  sm_include_user_memory :: bool
  sm_min_score :: "pyval option"
  sm_max_context_items :: "int option"
  sm_max_context_bytes :: "int option"

record strategy_tool_settings =
  stl_max_calls :: "int option"
  stl_max_tool_loop_iterations :: "int option"
  stl_allowed_safety_levels :: "string list"
  stl_allowed_tools :: "string list"
  stl_stream_tool_events :: bool

record usecase_memory_settings =
  um_enabled :: bool
  um_include_document_chunks :: bool
  um_default_limit :: int
  um_allowed_project_ids :: "string list"
  um_default_project_id :: "string option"

record usecase_tool_settings =
  ut_enabled :: bool
  ut_allowed_tools :: "string list"

datatype strategy_type =
    EchoStrategy
  | DirectAgentStrategy
  | RetrievalAugmentedStrategy
  | ToolAssistedStrategy
  | RouterStrategy
  | BoundedPlannerStrategy
  | MemoryUpdateStrategy
  | FallbackAnswerStrategy

record strategy_settings =
  ss_name :: string
  ss_enabled :: bool
  ss_type :: strategy_type
  ss_description :: "string option"
  ss_default_agent :: "string option"
  ss_allowed_usecases :: "string list"
  ss_llm_profile :: "string option"
  ss_planner_llm_profile :: "string option"
  ss_executor_llm_profile :: "string option"
  ss_memory_enabled :: bool
  ss_memory_write_enabled :: bool
  ss_tools_enabled :: bool
  ss_max_steps :: "int option"
  ss_max_tool_calls :: "int option"
  ss_max_memory_searches :: "int option"
  ss_max_memory_writes :: "int option"
  ss_max_llm_calls :: "int option"
  ss_max_tool_loop_iterations :: "int option"
  ss_max_context_bytes :: "int option"
  ss_max_plan_steps :: "int option"
  ss_max_execute_steps :: "int option"
  ss_max_candidate_agents :: "int option"
  ss_candidate_limit :: "int option"
  ss_candidate_strategies :: "string list"
  ss_fallback_strategy :: "string option"
  ss_require_policy_approval :: bool
  ss_stream_llm_deltas :: bool
  ss_stream_tool_events :: bool
  ss_stream_strategy_events :: "bool option"
  ss_expose_strategy_metadata :: bool
  ss_message :: "string option"
  ss_memory :: strategy_memory_settings
  ss_tools :: strategy_tool_settings
  ss_metadata :: pydict

record usecase_settings =
  us_name :: string
  us_enabled :: bool
  us_strategy :: string
  us_agent :: "string option"
  us_llm_profile :: "string option"
  us_display_name :: "string option"
  us_description :: "string option"
  us_allowed_agents :: "string list"
  us_allowed_strategies :: "string list"
  us_policy_profile :: string
  us_memory :: usecase_memory_settings
  us_tools :: usecase_tool_settings
  us_metadata :: pydict

record orchestration_settings =
  os_enabled :: bool
  os_defaults :: orchestration_defaults
  os_strategies :: "(string \<times> strategy_settings) list"
  os_usecases :: "(string \<times> usecase_settings) list"

section \<open>Strategies\<close>

definition strategy_types :: "(string \<times> strategy_type) list" where
  "strategy_types =
    [(''echo'', EchoStrategy), (''direct_agent'', DirectAgentStrategy),
     (''retrieval_augmented'', RetrievalAugmentedStrategy), (''tool_assisted'', ToolAssistedStrategy),
     (''router'', RouterStrategy), (''bounded_planner'', BoundedPlannerStrategy),
     (''memory_update'', MemoryUpdateStrategy), (''fallback_answer'', FallbackAnswerStrategy)]"

definition normalize_strategy_type :: "string \<Rightarrow> string \<Rightarrow> strategy_type res" where
  "normalize_strategy_type value path =
    (let normalized = (if lower (strip value) = ''direct'' then ''direct_agent'' else lower (strip value))
     in case map_of strategy_types normalized of
          Some t \<Rightarrow> Inr t
        | None \<Rightarrow>
            Inl (ConfigurationError (''Invalid config value at '' @ path
              @ '': unsupported strategy type '' @ quoted value @ ''.'')))"

definition read_strategy_memory :: "pyval \<Rightarrow> strategy_memory_settings res" where
  "read_strategy_memory view =
    try_bind (cfg_int view ''strategy.memory.default_limit'' 10) (\<lambda>default_limit.
    try_bind (cfg_bool view ''strategy.memory.include_document_chunks'' True) (\<lambda>include_document_chunks.
    try_bind (cfg_bool view ''strategy.memory.include_user_memory'' True) (\<lambda>include_user_memory.
    try_bind (cfg_optional_float view ''strategy.memory.min_score'') (\<lambda>min_score.
    try_bind (cfg_optional_int view ''strategy.memory.max_context_items'') (\<lambda>max_context_items.
    try_bind (cfg_optional_int view ''strategy.memory.max_context_bytes'') (\<lambda>max_context_bytes.
    Inr \<lparr>sm_default_limit = default_limit,
      sm_include_document_chunks = include_document_chunks,
      sm_include_user_memory = include_user_memory,
      sm_min_score = min_score,
      sm_max_context_items = max_context_items,
      sm_max_context_bytes = max_context_bytes\<rparr>))))))"

definition read_strategy_tools :: "pyval \<Rightarrow> strategy_tool_settings res" where
  "read_strategy_tools view =
    try_bind (cfg_optional_int view ''strategy.tools.max_calls'') (\<lambda>max_calls.
    try_bind (cfg_optional_int view ''strategy.tools.max_tool_loop_iterations'') (\<lambda>max_tool_loop_iterations.
    try_bind (cfg_str_tuple view ''strategy.tools.allowed_safety_levels'' []) (\<lambda>allowed_safety_levels.
    try_bind (cfg_str_tuple view ''strategy.tools.allowed_tools'' []) (\<lambda>allowed_tools.
    try_bind (cfg_bool view ''strategy.tools.stream_tool_events'' True) (\<lambda>stream_tool_events.
    Inr \<lparr>stl_max_calls = max_calls,
      stl_max_tool_loop_iterations = max_tool_loop_iterations,
      stl_allowed_safety_levels = allowed_safety_levels,
      stl_allowed_tools = allowed_tools,
      stl_stream_tool_events = stream_tool_events\<rparr>)))))"

definition read_strategy :: "string \<Rightarrow> pyval \<Rightarrow> strategy_settings res" where
  "read_strategy name view =
    try_bind (cfg_str view ''strategy.type'' ''direct_agent'') (\<lambda>type_text.
    try_bind (normalize_strategy_type type_text (''orchestration.strategies.'' @ name @ ''.type'')) (\<lambda>strategy_type.
    try_bind (cfg_bool view ''strategy.enabled'' True) (\<lambda>enabled.
    try_bind (cfg_optional_str_or_none view ''strategy.description'') (\<lambda>description.
    try_bind (cfg_optional_str_or_none view ''strategy.default_agent'') (\<lambda>default_agent.
    try_bind (cfg_str_tuple view ''strategy.allowed_usecases'' []) (\<lambda>allowed_usecases.
    try_bind (cfg_optional_str_or_none view ''strategy.llm_profile'') (\<lambda>llm_profile.
    try_bind (cfg_optional_str_or_none view ''strategy.planner_llm_profile'') (\<lambda>planner_llm_profile.
    try_bind (cfg_optional_str_or_none view ''strategy.executor_llm_profile'') (\<lambda>executor_llm_profile.
    try_bind (cfg_bool view ''strategy.memory_enabled'' False) (\<lambda>memory_enabled.
    try_bind (cfg_bool view ''strategy.memory_write_enabled'' False) (\<lambda>memory_write_enabled.
    try_bind (cfg_bool view ''strategy.tools_enabled'' False) (\<lambda>tools_enabled.
    try_bind (cfg_optional_int view ''strategy.max_steps'') (\<lambda>max_steps.
    try_bind (cfg_optional_int view ''strategy.max_tool_calls'') (\<lambda>max_tool_calls.
    try_bind (cfg_optional_int view ''strategy.max_memory_searches'') (\<lambda>max_memory_searches.
    try_bind (cfg_optional_int view ''strategy.max_memory_writes'') (\<lambda>max_memory_writes.
    try_bind (cfg_optional_int view ''strategy.max_llm_calls'') (\<lambda>max_llm_calls.
    try_bind (cfg_optional_int view ''strategy.max_tool_loop_iterations'') (\<lambda>max_tool_loop_iterations.
    try_bind (cfg_optional_int view ''strategy.max_context_bytes'') (\<lambda>max_context_bytes.
    try_bind (cfg_optional_int view ''strategy.max_plan_steps'') (\<lambda>max_plan_steps.
    try_bind (cfg_optional_int view ''strategy.max_execute_steps'') (\<lambda>max_execute_steps.
    try_bind (cfg_optional_int view ''strategy.max_candidate_agents'') (\<lambda>max_candidate_agents.
    try_bind (cfg_optional_int view ''strategy.candidate_limit'') (\<lambda>candidate_limit.
    try_bind (cfg_str_tuple view ''strategy.candidate_strategies'' []) (\<lambda>candidate_strategies.
    try_bind (cfg_optional_str_or_none view ''strategy.fallback_strategy'') (\<lambda>fallback_strategy.
    try_bind (cfg_bool view ''strategy.require_policy_approval'' False) (\<lambda>require_policy_approval.
    try_bind (cfg_bool view ''strategy.stream_llm_deltas'' True) (\<lambda>stream_llm_deltas.
    try_bind (cfg_bool view ''strategy.stream_tool_events'' True) (\<lambda>stream_tool_events.
    try_bind (cfg_optional_bool view ''strategy.stream_strategy_events'') (\<lambda>stream_strategy_events.
    try_bind (cfg_bool view ''strategy.expose_strategy_metadata'' True) (\<lambda>expose_strategy_metadata.
    try_bind (cfg_optional_str_or_none view ''strategy.message'') (\<lambda>message.
    try_bind (read_strategy_memory view) (\<lambda>memory.
    try_bind (read_strategy_tools view) (\<lambda>tools.
    try_bind (cfg_mapping_dict view ''strategy.metadata'') (\<lambda>metadata.
    Inr \<lparr>ss_name = name,
      ss_enabled = enabled,
      ss_type = strategy_type,
      ss_description = description,
      ss_default_agent = default_agent,
      ss_allowed_usecases = allowed_usecases,
      ss_llm_profile = llm_profile,
      ss_planner_llm_profile = planner_llm_profile,
      ss_executor_llm_profile = executor_llm_profile,
      ss_memory_enabled = memory_enabled,
      ss_memory_write_enabled = memory_write_enabled,
      ss_tools_enabled = tools_enabled,
      ss_max_steps = max_steps,
      ss_max_tool_calls = max_tool_calls,
      ss_max_memory_searches = max_memory_searches,
      ss_max_memory_writes = max_memory_writes,
      ss_max_llm_calls = max_llm_calls,
      ss_max_tool_loop_iterations = max_tool_loop_iterations,
      ss_max_context_bytes = max_context_bytes,
      ss_max_plan_steps = max_plan_steps,
      ss_max_execute_steps = max_execute_steps,
      ss_max_candidate_agents = max_candidate_agents,
      ss_candidate_limit = candidate_limit,
      ss_candidate_strategies = candidate_strategies,
      ss_fallback_strategy = fallback_strategy,
      ss_require_policy_approval = require_policy_approval,
      ss_stream_llm_deltas = stream_llm_deltas,
      ss_stream_tool_events = stream_tool_events,
      ss_stream_strategy_events = stream_strategy_events,
      ss_expose_strategy_metadata = expose_strategy_metadata,
      ss_message = message,
      ss_memory = memory,
      ss_tools = tools,
      ss_metadata = metadata\<rparr>))))))))))))))))))))))))))))))))))"

fun read_strategies ::
  "pydict \<Rightarrow> (string \<times> strategy_settings) list \<Rightarrow> (string \<times> strategy_settings) list res" where
  "read_strategies [] strategies = Inr strategies"
| "read_strategies ((name, PDict section_value) # rest) strategies =
    try_bind (read_strategy name (config_view [(''strategy'', unfreeze (PDict section_value))]))
      (\<lambda>s. read_strategies rest (dict_set name s strategies))"
| "read_strategies ((name, _) # rest) strategies =
    invalid_value (''orchestration.strategies.'' @ name) ''mapping''"

section \<open>Use cases\<close>

definition read_usecase_memory :: "pyval \<Rightarrow> usecase_memory_settings res" where
  "read_usecase_memory view =
    try_bind (cfg_bool view ''usecase.memory.enabled'' True) (\<lambda>enabled.
    try_bind (cfg_bool view ''usecase.memory.include_document_chunks'' True) (\<lambda>include_document_chunks.
    try_bind (cfg_int view ''usecase.memory.default_limit'' 10) (\<lambda>default_limit.
    try_bind (cfg_str_tuple view ''usecase.memory.allowed_project_ids'' []) (\<lambda>allowed_project_ids.
    try_bind (cfg_optional_str_or_none view ''usecase.memory.default_project_id'') (\<lambda>default_project_id.
    Inr \<lparr>um_enabled = enabled,
      um_include_document_chunks = include_document_chunks,
      um_default_limit = default_limit,
      um_allowed_project_ids = allowed_project_ids,
      um_default_project_id = default_project_id\<rparr>)))))"

definition read_usecase_tools :: "pyval \<Rightarrow> usecase_tool_settings res" where
  "read_usecase_tools view =
    try_bind (cfg_bool view ''usecase.tools.enabled'' True) (\<lambda>enabled.
    try_bind (cfg_str_tuple view ''usecase.tools.allowed_tools'' []) (\<lambda>allowed_tools.
    Inr \<lparr>ut_enabled = enabled,
      ut_allowed_tools = allowed_tools\<rparr>))"

text \<open>\<open>read(first) or read(second)\<close>: the second key is read only if the first is absent or empty.\<close>

definition cfg_str_or :: "pyval \<Rightarrow> string \<Rightarrow> string \<Rightarrow> string option res" where
  "cfg_str_or view first second =
    try_bind (cfg_optional_str_or_none view first) (\<lambda>v.
      if truthy v then Inr v else cfg_optional_str_or_none view second)"

definition usecase_agents :: "string list \<Rightarrow> string option \<Rightarrow> string list" where
  "usecase_agents allowed_agents agent_name =
    (if allowed_agents = [] then (case agent_name of None \<Rightarrow> [] | Some a \<Rightarrow> [a]) else allowed_agents)"

definition read_usecase :: "string \<Rightarrow> pyval \<Rightarrow> usecase_settings res" where
  "read_usecase name view =
    try_bind (cfg_str_or view ''usecase.agent'' ''usecase.default_agent'') (\<lambda>agent.
    try_bind (cfg_str_tuple view ''usecase.allowed_agents'' []) (\<lambda>allowed_agents.
    try_bind (cfg_bool view ''usecase.enabled'' True) (\<lambda>enabled.
    try_bind (cfg_str view ''usecase.strategy'' []) (\<lambda>strategy.
    try_bind (cfg_str_or view ''usecase.llm_profile'' ''usecase.orchestrator_llm_profile'') (\<lambda>llm_profile.
    try_bind (cfg_optional_str_or_none view ''usecase.display_name'') (\<lambda>display_name.
    try_bind (cfg_optional_str_or_none view ''usecase.description'') (\<lambda>description.
    try_bind (cfg_str_tuple view ''usecase.allowed_strategies'' []) (\<lambda>allowed_strategies.
    try_bind (cfg_str view ''usecase.policy_profile'' ''default'') (\<lambda>policy_profile.
    try_bind (read_usecase_memory view) (\<lambda>memory.
    try_bind (read_usecase_tools view) (\<lambda>tools.
    try_bind (cfg_mapping_dict view ''usecase.metadata'') (\<lambda>metadata.
    Inr \<lparr>us_name = name,
      us_enabled = enabled,
      us_strategy = strategy,
      us_agent = agent,
      us_llm_profile = llm_profile,
      us_display_name = display_name,
      us_description = description,
      us_allowed_agents = usecase_agents allowed_agents agent,
      us_allowed_strategies = allowed_strategies,
      us_policy_profile = policy_profile,
      us_memory = memory,
      us_tools = tools,
      us_metadata = metadata\<rparr>))))))))))))"

fun read_usecases ::
  "pydict \<Rightarrow> (string \<times> usecase_settings) list \<Rightarrow> (string \<times> usecase_settings) list res" where
  "read_usecases [] usecases = Inr usecases"
| "read_usecases ((name, PDict section_value) # rest) usecases =
    try_bind (read_usecase name (config_view [(''usecase'', unfreeze (PDict section_value))]))
      (\<lambda>u. read_usecases rest (dict_set name u usecases))"
| "read_usecases ((name, _) # rest) usecases =
    invalid_value (''orchestration.usecases.'' @ name) ''mapping''"

section \<open>Defaults and the whole section\<close>

definition read_conversation_context :: "pyval \<Rightarrow> conversation_context_settings res" where
  "read_conversation_context config =
    try_bind (cfg_bool config ''orchestration.defaults.conversation_context.enabled'' False) (\<lambda>enabled.
    try_bind (cfg_str config ''orchestration.defaults.conversation_context.mode'' ''window'') (\<lambda>mode.
    try_bind (cfg_int config ''orchestration.defaults.conversation_context.max_messages'' 12) (\<lambda>max_messages.
    try_bind (cfg_int config ''orchestration.defaults.conversation_context.max_chars'' 12000) (\<lambda>max_chars.
    try_bind (cfg_bool config ''orchestration.defaults.conversation_context.include_assistant_messages'' True) (\<lambda>include_assistant_messages.
    try_bind (cfg_int config ''orchestration.defaults.conversation_context.summary_threshold_messages'' 24) (\<lambda>summary_threshold_messages.
    try_bind (cfg_int config ''orchestration.defaults.conversation_context.summary_max_chars'' 2000) (\<lambda>summary_max_chars.
    Inr \<lparr>cc_enabled = enabled,
      cc_mode = mode,
      cc_max_messages = max_messages,
      cc_max_chars = max_chars,
      cc_include_assistant_messages = include_assistant_messages,
      cc_summary_threshold_messages = summary_threshold_messages,
      cc_summary_max_chars = summary_max_chars\<rparr>)))))))"

definition read_orchestration_defaults ::
  "pyval \<Rightarrow> string \<Rightarrow> string \<Rightarrow> orchestration_defaults res" where
  "read_orchestration_defaults config strategy fallback_strategy =
    try_bind (cfg_int config ''orchestration.defaults.max_steps'' 8) (\<lambda>max_steps.
    try_bind (cfg_int config ''orchestration.defaults.max_tool_calls'' 4) (\<lambda>max_tool_calls.
    try_bind (cfg_int config ''orchestration.defaults.max_memory_searches'' 3) (\<lambda>max_memory_searches.
    try_bind (cfg_int config ''orchestration.defaults.max_memory_writes'' 1) (\<lambda>max_memory_writes.
    try_bind (cfg_int config ''orchestration.defaults.max_llm_calls'' 6) (\<lambda>max_llm_calls.
    try_bind (cfg_int config ''orchestration.defaults.max_tool_loop_iterations'' 3) (\<lambda>max_tool_loop_iterations.
    try_bind (cfg_int config ''orchestration.defaults.max_context_bytes'' 64000) (\<lambda>max_context_bytes.
    try_bind (cfg_int config ''orchestration.defaults.max_turn_duration_seconds'' 120) (\<lambda>max_turn_duration_seconds.
    try_bind (cfg_int config ''orchestration.defaults.max_stream_duration_seconds'' 300) (\<lambda>max_stream_duration_seconds.
    try_bind (cfg_bool config ''orchestration.defaults.emit_step_events'' True) (\<lambda>emit_step_events.
    try_bind (cfg_bool config ''orchestration.defaults.emit_tool_events'' True) (\<lambda>emit_tool_events.
    try_bind (cfg_bool config ''orchestration.defaults.emit_memory_events'' True) (\<lambda>emit_memory_events.
    try_bind (cfg_bool config ''orchestration.defaults.stream_strategy_events'' True) (\<lambda>stream_strategy_events.
    try_bind (cfg_bool config ''orchestration.defaults.expose_strategy_metadata'' True) (\<lambda>expose_strategy_metadata.
    try_bind (cfg_bool config ''orchestration.defaults.expose_chain_of_thought'' False) (\<lambda>expose_chain_of_thought.
    try_bind (cfg_bool config ''orchestration.defaults.save_runtime_snapshots'' False) (\<lambda>save_runtime_snapshots.
    try_bind (read_conversation_context config) (\<lambda>conversation_context.
    Inr \<lparr>od_strategy = strategy,
      od_fallback_strategy = fallback_strategy,
      od_max_steps = max_steps,
      od_max_tool_calls = max_tool_calls,
      od_max_memory_searches = max_memory_searches,
      od_max_memory_writes = max_memory_writes,
      od_max_llm_calls = max_llm_calls,
      od_max_tool_loop_iterations = max_tool_loop_iterations,
      od_max_context_bytes = max_context_bytes,
      od_max_turn_duration_seconds = max_turn_duration_seconds,
      od_max_stream_duration_seconds = max_stream_duration_seconds,
      od_emit_step_events = emit_step_events,
      od_emit_tool_events = emit_tool_events,
      od_emit_memory_events = emit_memory_events,
      od_stream_strategy_events = stream_strategy_events,
      od_expose_strategy_metadata = expose_strategy_metadata,
      od_expose_chain_of_thought = expose_chain_of_thought,
      od_save_runtime_snapshots = save_runtime_snapshots,
      od_conversation_context = conversation_context\<rparr>)))))))))))))))))"

definition default_strategy ::
  "pyval \<Rightarrow> (string \<times> usecase_settings) list \<Rightarrow> string res" where
  "default_strategy config usecases =
    try_bind (cfg_optional_str_or_none config ''orchestration.defaults.strategy'') (\<lambda>configured.
      case configured of
        Some s \<Rightarrow> Inr s
      | None \<Rightarrow>
          try_bind (cfg_str_or config ''session.defaults.default_usecase'' ''app.active_usecase'') (\<lambda>active.
            case (case active of None \<Rightarrow> None | Some u \<Rightarrow> map_of usecases u) of
              Some usecase \<Rightarrow> Inr (us_strategy usecase)
            | None \<Rightarrow>
                Inl (ConfigurationError ''Missing required config path: orchestration.defaults.strategy'')))"

definition get_orchestration_settings :: "pyval \<Rightarrow> orchestration_settings res" where
  "get_orchestration_settings config =
    try_bind (cfg_mapping_section config ''orchestration.strategies'' ''strategies'') (\<lambda>strategy_sections.
    try_bind (cfg_mapping_section config ''orchestration.usecases'' ''usecases'') (\<lambda>usecase_sections.
    try_bind (read_strategies strategy_sections []) (\<lambda>strategies.
    try_bind (read_usecases usecase_sections []) (\<lambda>usecases.
    try_bind (default_strategy config usecases) (\<lambda>strategy.
    try_bind (cfg_optional_str_or_none config ''orchestration.defaults.fallback_strategy'') (\<lambda>fallback.
    try_bind (cfg_bool config ''orchestration.enabled'' True) (\<lambda>enabled.
    try_bind (read_orchestration_defaults config strategy (str_default fallback strategy)) (\<lambda>defaults.
    Inr \<lparr>os_enabled = enabled, os_defaults = defaults, os_strategies = strategies,
         os_usecases = usecases\<rparr>))))))))"

declare get_orchestration_settings_def [reader_defs] default_strategy_def [reader_defs]
  read_orchestration_defaults_def [reader_defs] read_conversation_context_def [reader_defs]
  read_usecase_def [reader_defs] read_usecase_tools_def [reader_defs] read_usecase_memory_def [reader_defs]
  read_strategy_def [reader_defs] read_strategy_tools_def [reader_defs] read_strategy_memory_def [reader_defs]
  normalize_strategy_type_def [reader_defs] cfg_str_or_def [reader_defs]


end
