(* ===== verification/Policy_Access_Rules.thy ===== *)
theory Policy_Access_Rules
  imports Policy_Matching Orch_Config
begin

text \<open>
  The rules that decide who may run what: use case (\<open>policy/usecase_policy.py\<close>), session
  (\<open>policy/session_policy.py\<close>), strategy (\<open>policy/strategy_policy.py\<close>), agent
  (\<open>policy/agent_policy.py\<close>) and LLM profile (\<open>policy/llm_policy.py\<close>). Each definition has the
  source's checks in the source's order; \<open>Inr None\<close> is the rule that has no opinion.
\<close>

text \<open>What a rule returns: an allow or a deny with reason, code and metadata.\<close>

abbreviation allow_with :: "string \<Rightarrow> pydict \<Rightarrow> policy_decision option res" where
  "allow_with code metadata \<equiv> Inr (Some (decision_allow None (Some code) metadata [] None None))"

abbreviation deny_with :: "string \<Rightarrow> string \<Rightarrow> pydict \<Rightarrow> policy_decision option res" where
  "deny_with reason code metadata \<equiv>
    Inr (Some (decision_deny (Some reason) (Some code) metadata [] None None))"

abbreviation approval_with ::
  "string \<Rightarrow> string \<Rightarrow> string \<Rightarrow> pydict \<Rightarrow> pyval \<Rightarrow> policy_decision option res" where
  "approval_with reason code target metadata v \<equiv>
    Inr (Some (build_approval_required_decision reason code target metadata v))"

abbreviation not_mapping :: "pyval \<Rightarrow> bool" where
  "not_mapping v \<equiv> (case v of PDict d \<Rightarrow> False | _ \<Rightarrow> True)"

section \<open>Use case\<close>

definition evaluate_usecase_access :: rule_callback where
  "evaluate_usecase_access request context profile config =
    (let allowed_usecases = pp_usecases profile;
         usecase_only = read_bool (dict_get (req_metadata request) ''usecase_only'') False
     in if allowed_usecases = [] \<and> \<not> usecase_only then Inr None
        else
          (case resolve_usecase_name request context of
             None \<Rightarrow> deny_with ''The active use case is not configured.'' ''policy.usecase.missing'' []
           | Some usecase_name \<Rightarrow>
              (case config_get config (''orchestration.usecases.'' @ usecase_name) PNone of
                 PDict usecase_config \<Rightarrow>
                   (if \<not> read_bool (dict_get usecase_config ''enabled'') True then
                      deny_with (''Use case '' @ quoted usecase_name @ '' is disabled.'')
                        ''policy.usecase.disabled'' [(''resource'', PStr usecase_name)]
                    else if allowed_usecases = [] then
                      allow_with ''policy.usecase.allowed'' [(''resource'', PStr usecase_name)]
                    else if is_name_allowed (py_strs allowed_usecases) (Some usecase_name) then
                      allow_with ''policy.usecase.allowed'' [(''resource'', PStr usecase_name)]
                    else
                      deny_with (''Use case '' @ quoted (str_default (Some usecase_name) ''unknown'')
                          @ '' is not allowed by policy.'')
                        ''policy.usecase.denied'' [(''resource'', PStr usecase_name)])
               | _ \<Rightarrow>
                   deny_with (''Use case '' @ quoted usecase_name @ '' is not configured.'')
                     ''policy.usecase.unknown'' [(''resource'', PStr usecase_name)])))"

section \<open>Session\<close>

definition evaluate_session_access :: rule_callback where
  "evaluate_session_access request context profile config =
    (if req_action request \<notin> set [''session.reset'', ''session.read_history''] then Inr None
     else
       (let session_id = str_or (req_resource request)
              (read_optional_text (dict_get (req_scope request) ''session_id''));
            actor = resolved_actor request;
            owner_user_id = read_optional_text (dict_get (req_metadata request) ''owner_user_id'');
            owner_user_id_hash =
              read_optional_text (dict_get (req_metadata request) ''owner_user_id_hash'');
            actor_hash = read_optional_text (dict_get (actor_attributes actor) ''user_id_hash'')
        in if session_id = None then
             deny_with ''The session identifier is required.'' ''policy.session.missing_session_id'' []
           else if actor_type actor = ''anonymous'' then
             deny_with ''Anonymous session access is not allowed.'' ''policy.session.anonymous_denied''
               [(''resource'', py_opt_str session_id)]
           else if owner_user_id \<noteq> None \<and> actor_user_id actor \<noteq> None
                   \<and> owner_user_id \<noteq> actor_user_id actor then
             deny_with ''The requested session is owned by another user.''
               ''policy.session.owner_mismatch'' [(''resource'', py_opt_str session_id)]
           else if owner_user_id_hash \<noteq> None \<and> actor_hash \<noteq> None
                   \<and> owner_user_id_hash \<noteq> actor_hash then
             deny_with ''The requested session is not accessible to this actor.''
               ''policy.session.owner_hash_mismatch'' [(''resource'', py_opt_str session_id)]
           else
             allow_with
               (if req_action request = ''session.reset'' then ''policy.session.reset_allowed''
                else ''policy.session.history_allowed'')
               [(''resource'', py_opt_str session_id)]))"

section \<open>Strategy\<close>

definition strategy_agent_check ::
  "policy_profile_settings \<Rightarrow> pyval \<Rightarrow> usecase_settings \<Rightarrow> string \<Rightarrow> string option \<Rightarrow>
   policy_decision option res \<Rightarrow> policy_decision option res" where
  "strategy_agent_check profile config usecase usecase_name agent_name otherwise =
    (case agent_name of
       None \<Rightarrow> otherwise
     | Some agent \<Rightarrow>
         (if \<not> is_name_allowed (py_strs (pp_agents profile)) (Some agent) then
            deny_with (''Agent '' @ quoted agent @ '' is not allowed by policy.'')
              ''policy.strategy.agent_profile_denied'' [(''resource'', PStr agent)]
          else if not_mapping (config_get config (''agents.'' @ agent) PNone) then
            deny_with (''Agent '' @ quoted agent @ '' is not configured.'')
              ''policy.strategy.unknown_agent'' [(''resource'', PStr agent)]
          else if us_allowed_agents usecase \<noteq> [] \<and> agent \<notin> set (us_allowed_agents usecase) then
            deny_with (''Agent '' @ quoted agent @ '' is not allowed for use case ''
                @ quoted usecase_name @ ''.'')
              ''policy.strategy.agent_usecase_mismatch'' [(''resource'', PStr agent)]
          else otherwise))"

definition strategy_selected_check ::
  "policy_profile_settings \<Rightarrow> pyval \<Rightarrow> orchestration_settings \<Rightarrow> usecase_settings \<Rightarrow> string \<Rightarrow>
   string \<Rightarrow> string option \<Rightarrow> policy_decision option res" where
  "strategy_selected_check profile config settings usecase usecase_name strategy_name agent_name =
    (if \<not> is_name_allowed (py_strs (pp_strategies profile)) (Some strategy_name) then
       deny_with (''Strategy '' @ quoted strategy_name @ '' is not allowed by policy.'')
         ''policy.strategy.profile_denied'' [(''resource'', PStr strategy_name)]
     else
       (case map_of (os_strategies settings) strategy_name of
          None \<Rightarrow>
            deny_with (''Strategy '' @ quoted strategy_name @ '' is not configured.'')
              ''policy.strategy.unknown_strategy'' [(''resource'', PStr strategy_name)]
        | Some strategy \<Rightarrow>
           (if \<not> ss_enabled strategy then
              deny_with (''Strategy '' @ quoted strategy_name @ '' is disabled.'')
                ''policy.strategy.disabled'' [(''resource'', PStr strategy_name)]
            else if us_allowed_strategies usecase \<noteq> []
                    \<and> strategy_name \<notin> set (us_allowed_strategies usecase) then
              deny_with (''Strategy '' @ quoted strategy_name @ '' is not allowed for use case ''
                  @ quoted usecase_name @ ''.'')
                ''policy.strategy.usecase_allowlist_denied'' [(''resource'', PStr strategy_name)]
            else if ss_allowed_usecases strategy \<noteq> []
                    \<and> usecase_name \<notin> set (ss_allowed_usecases strategy) then
              deny_with (''Strategy '' @ quoted strategy_name @ '' is not allowed for use case ''
                  @ quoted usecase_name @ ''.'')
                ''policy.strategy.usecase_mismatch'' [(''resource'', PStr strategy_name)]
            else
              strategy_agent_check profile config usecase usecase_name agent_name
                (allow_with ''policy.strategy.allowed''
                  [(''resource'', PStr strategy_name), (''usecase'', PStr usecase_name),
                   (''agent_name'', py_opt_str agent_name)]))))"

definition evaluate_strategy_access :: rule_callback where
  "evaluate_strategy_access request context profile config =
    (if read_bool (dict_get (req_metadata request) ''usecase_only'') False then Inr None
     else
       (let usecase = resolve_usecase_name request context;
            strategy =
              str_or (req_resource request) (resolve_scope_value request context ''strategy_name'' None);
            agent_name = resolve_scope_value request context ''agent_name'' None
        in case get_orchestration_settings config of
             Inl (ConfigurationError m) \<Rightarrow>
               deny_with ''Orchestration configuration is invalid.'' ''policy.strategy.invalid_config'' []
           | Inl e \<Rightarrow> Inl e
           | Inr settings \<Rightarrow>
              (if \<not> os_enabled settings then
                 deny_with ''Orchestration is disabled.'' ''policy.strategy.orchestration_disabled'' []
               else
                 (case usecase of
                    None \<Rightarrow>
                      deny_with ''The active use case is not configured.''
                        ''policy.strategy.missing_usecase'' []
                  | Some usecase_name \<Rightarrow>
                     (case map_of (os_usecases settings) usecase_name of
                        None \<Rightarrow>
                          deny_with (''Use case '' @ quoted usecase_name @ '' is not configured.'')
                            ''policy.strategy.unknown_usecase'' [(''resource'', PStr usecase_name)]
                      | Some us \<Rightarrow>
                         (if \<not> us_enabled us then
                            deny_with (''Use case '' @ quoted usecase_name @ '' is disabled.'')
                              ''policy.strategy.usecase_disabled'' [(''resource'', PStr usecase_name)]
                          else
                            (case strategy of
                               None \<Rightarrow>
                                 deny_with ''No orchestration strategy was selected.''
                                   ''policy.strategy.missing_strategy'' []
                             | Some strategy_name \<Rightarrow>
                                 strategy_selected_check profile config settings us usecase_name
                                   strategy_name agent_name)))))))"

section \<open>Agent\<close>

definition evaluate_agent_access :: rule_callback where
  "evaluate_agent_access request context profile config =
    (case str_or (req_resource request) (resolve_scope_value request context ''agent_name'' None) of
       None \<Rightarrow> deny_with ''No agent was selected.'' ''policy.agent.missing_agent'' []
     | Some agent_name \<Rightarrow>
        (if \<not> is_name_allowed (py_strs (pp_agents profile)) (Some agent_name) then
           deny_with (''Agent '' @ quoted agent_name @ '' is not allowed by policy.'')
             ''policy.agent.profile_denied'' [(''resource'', PStr agent_name)]
         else if not_mapping (config_get config (''agents.'' @ agent_name) PNone) then
           deny_with (''Agent '' @ quoted agent_name @ '' is not configured.'')
             ''policy.agent.unknown'' [(''resource'', PStr agent_name)]
         else
           (case resolve_usecase_name request context of
              None \<Rightarrow> allow_with ''policy.agent.allowed'' [(''resource'', PStr agent_name)]
            | Some usecase_name \<Rightarrow>
               (case get_orchestration_settings config of
                  Inl (ConfigurationError m) \<Rightarrow>
                    deny_with ''Orchestration configuration is invalid.''
                      ''policy.agent.invalid_config'' [(''resource'', PStr agent_name)]
                | Inl e \<Rightarrow> Inl e
                | Inr settings \<Rightarrow>
                   (case map_of (os_usecases settings) usecase_name of
                      Some usecase \<Rightarrow>
                        (if us_allowed_agents usecase \<noteq> []
                            \<and> agent_name \<notin> set (us_allowed_agents usecase) then
                           deny_with (''Agent '' @ quoted agent_name @ '' is not allowed for use case ''
                               @ quoted usecase_name @ ''.'')
                             ''policy.agent.usecase_mismatch'' [(''resource'', PStr agent_name)]
                         else
                           allow_with ''policy.agent.allowed''
                             [(''resource'', PStr agent_name), (''usecase'', PStr usecase_name)])
                    | None \<Rightarrow>
                        allow_with ''policy.agent.allowed''
                          [(''resource'', PStr agent_name), (''usecase'', PStr usecase_name)])))))"

section \<open>LLM profile\<close>

text \<open>The checks against the allowlists of the profile configuration. \<open>allowed_for\<close> may be any value of
  the configuration; calling \<open>get\<close> on one that is not a mapping raises \<open>AttributeError\<close>.\<close>

definition llm_allowlist_check ::
  "policy_request \<Rightarrow> orchestration_context \<Rightarrow> policy_profile_settings \<Rightarrow> string \<Rightarrow> pydict \<Rightarrow>
   policy_decision option res" where
  "llm_allowlist_check request context profile llm_profile_name profile_config =
    (let usecase_name = resolve_usecase_name request context;
         agent_name = resolve_scope_value request context ''agent_name'' None;
         strategy_name = resolve_scope_value request context ''strategy_name'' None;
         fallback_from_profile =
           read_optional_text (dict_get (req_metadata request) ''fallback_from_profile'');
         resource = (''resource'', PStr llm_profile_name)
     in case (case map_of profile_config ''allowed_for'' of None \<Rightarrow> PDict [] | Some v \<Rightarrow> v) of
          PDict allowed_for \<Rightarrow>
            (if \<not> is_name_allowed (dict_get allowed_for ''usecases'') usecase_name then
               deny_with (''LLM profile '' @ quoted llm_profile_name
                   @ '' is not allowed for the active use case.'') ''policy.llm.usecase_denied'' [resource]
             else if \<not> is_name_allowed (dict_get allowed_for ''agents'') agent_name then
               deny_with (''LLM profile '' @ quoted llm_profile_name
                   @ '' is not allowed for the active agent.'') ''policy.llm.agent_denied'' [resource]
             else if \<not> is_name_allowed (dict_get allowed_for ''strategies'') strategy_name then
               deny_with (''LLM profile '' @ quoted llm_profile_name
                   @ '' is not allowed for the active strategy.'') ''policy.llm.strategy_denied'' [resource]
             else if req_action request = ''llm.stream''
                     \<and> \<not> read_bool (dict_get profile_config ''supports_streaming'') False then
               deny_with (''LLM profile '' @ quoted llm_profile_name @ '' does not allow streaming.'')
                 ''policy.llm.streaming_denied'' [resource]
             else if fallback_from_profile \<noteq> None \<and> \<not> pf_allow_fallbacks (pp_fallback profile) then
               deny_with ''LLM fallback is denied by policy.'' ''policy.llm.fallback_denied''
                 [resource, (''fallback_from_profile'', py_opt_str fallback_from_profile)]
             else
               allow_with ''policy.llm.allowed''
                 [resource, (''fallback_from_profile'', py_opt_str fallback_from_profile)])
        | _ \<Rightarrow> Inl AttributeError)"

definition evaluate_llm_request ::
  "policy_request \<Rightarrow> orchestration_context \<Rightarrow> policy_profile_settings \<Rightarrow> policy_decision option res" where
  "evaluate_llm_request request context profile =
    (case req_resource request of
       None \<Rightarrow> deny_with ''No LLM profile was selected.'' ''policy.llm.missing_profile'' []
     | Some llm_profile_name \<Rightarrow>
        try_bind (config_section (octx_config context) ''llm.profiles'')
          (\<lambda>llm_profiles.
            case map_of llm_profiles llm_profile_name of
              None \<Rightarrow>
                (if pl_deny_unknown_profiles (pp_llm profile) then
                   deny_with ''Unknown LLM profile is denied by policy.'' ''policy.llm.unknown_profile''
                     [(''resource'', PStr llm_profile_name)]
                 else
                   allow_with ''policy.llm.unknown_profile_allowed''
                     [(''resource'', PStr llm_profile_name)])
            | Some (PDict profile_config) \<Rightarrow>
                (if pl_allowed_profiles (pp_llm profile) \<noteq> []
                    \<and> llm_profile_name \<notin> set (pl_allowed_profiles (pp_llm profile)) then
                   deny_with (''LLM profile '' @ quoted llm_profile_name @ '' is not allowed by policy.'')
                     ''policy.llm.profile_denied'' [(''resource'', PStr llm_profile_name)]
                 else llm_allowlist_check request context profile llm_profile_name profile_config)
            | Some _ \<Rightarrow>
                deny_with ''LLM profile config is malformed.'' ''policy.llm.invalid_profile_config''
                  [(''resource'', PStr llm_profile_name)]))"

declare evaluate_usecase_access_def [rule_defs] evaluate_session_access_def [rule_defs]
  strategy_agent_check_def [rule_defs] strategy_selected_check_def [rule_defs]
  evaluate_strategy_access_def [rule_defs] evaluate_agent_access_def [rule_defs]
  llm_allowlist_check_def [rule_defs] evaluate_llm_request_def [rule_defs]

end
