(* ===== verification/Policy_Data_Rules.thy ===== *)
theory Policy_Data_Rules
  imports Policy_Access_Rules
begin

text \<open>
  The rules over data and side effects: long-term memory (\<open>policy/memory_policy.py\<close>), tools
  (\<open>policy/tool_policy.py\<close>) and fallback strategies (\<open>policy/fallback_policy.py\<close>).
\<close>

section \<open>Memory\<close>

definition memory_write_actions :: "string list" where
  "memory_write_actions =
    [''memory.upsert'', ''memory.promote'', ''memory.supersede'', ''memory.contradict'', ''memory.expire'',
     ''memory.forget'', ''memory.ingest_document'', ''memory.delete_by_scope'', ''memory.export_by_scope'']"

definition memory_read_actions :: "string list" where
  "memory_read_actions = [''memory.search'', ''memory.get'', ''memory.stats'']"

definition memory_admin_actions :: "string list" where
  "memory_admin_actions = [''memory.delete_by_scope'', ''memory.export_by_scope'']"

definition memory_scope_type :: "policy_request \<Rightarrow> orchestration_context \<Rightarrow> string" where
  "memory_scope_type request context =
    (case read_optional_text (dict_get (req_scope request) ''memory_scope'') of
       Some explicit \<Rightarrow> explicit
     | None \<Rightarrow>
        (if resolve_scope_value request context ''project_id'' None \<noteq> None then ''project'' else ''global''))"

definition policy_scope_names :: "string \<Rightarrow> string list" where
  "policy_scope_names scope_type =
    (if scope_type = ''project_user'' then [''project'', ''user'']
     else if scope_type = ''document'' then [''document'', ''source'']
     else [scope_type])"

definition scope_names_allowed :: "string list \<Rightarrow> string list \<Rightarrow> bool" where
  "scope_names_allowed scope_names allowed = list_ex (\<lambda>n. n \<in> set allowed) scope_names"

definition evaluate_memory_request ::
  "policy_request \<Rightarrow> orchestration_context \<Rightarrow> policy_profile_settings \<Rightarrow> policy_decision option res" where
  "evaluate_memory_request request context profile =
    (let scope_type = memory_scope_type request context;
         scope_allowed_names = policy_scope_names scope_type;
         is_write = (req_action request \<in> set memory_write_actions);
         is_read = (req_action request \<in> set memory_read_actions);
         sensitivity = read_optional_text (dict_get (req_metadata request) ''memory_sensitivity'');
         scope_md = (''scope_type'', PStr scope_type)
     in if startswith (req_action request) ''memory.'' \<and> pm_require_scope (pp_memory profile)
           \<and> scope_type = ''global'' then
          deny_with ''Memory scope is required by policy.'' ''policy.memory.scope_required'' [scope_md]
        else if is_read \<and> pm_allowed_read_scopes (pp_memory profile) \<noteq> []
           \<and> \<not> scope_names_allowed scope_allowed_names (pm_allowed_read_scopes (pp_memory profile)) then
          deny_with (''Memory scope '' @ quoted scope_type @ '' is not allowed for reads.'')
            ''policy.memory.read_scope_denied'' [scope_md]
        else if is_write \<and> \<not> pm_allow_writes (pp_memory profile) then
          deny_with ''Memory writes are disabled by policy.'' ''policy.memory.write_denied'' [scope_md]
        else if is_write \<and> pm_allowed_write_scopes (pp_memory profile) \<noteq> []
           \<and> \<not> scope_names_allowed scope_allowed_names (pm_allowed_write_scopes (pp_memory profile)) then
          deny_with (''Memory scope '' @ quoted scope_type @ '' is not allowed for writes.'')
            ''policy.memory.write_scope_denied'' [scope_md]
        else if is_write \<and> sensitivity = Some ''sensitive'' then
          deny_with ''Sensitive memory writes are denied by default.'' ''policy.memory.sensitive_denied''
            [scope_md, (''sensitivity'', py_opt_str sensitivity)]
        else if is_write \<and> read_bool (dict_get (req_metadata request) ''memory_admin'') False then
          approval_with ''Administrative memory operations require approval.''
            ''policy.memory.approval_required'' (req_action request) [scope_md] (PStr scope_type)
        else if is_write \<and> pa_require_approval_for_memory_writes (pp_approval profile) then
          approval_with ''Memory writes require approval.'' ''policy.memory.approval_required''
            (req_action request) [scope_md] (PStr scope_type)
        else allow_with ''policy.memory.allowed'' [scope_md])"

section \<open>Tools\<close>

definition tool_execution_actions :: "string list" where
  "tool_execution_actions = [''tool.call'', ''tool.execute'', ''tool.stream_execute'']"

definition raw_tool_prefixes :: "string list" where
  "raw_tool_prefixes = [''mcp:'', ''mcp/'', ''tool://'']"

text \<open>The checks of an execution action: the approval flag of the tool, then its safety level.\<close>

definition tool_execution_check ::
  "policy_request \<Rightarrow> policy_profile_settings \<Rightarrow> string option \<Rightarrow> string \<Rightarrow> bool \<Rightarrow> bool \<Rightarrow>
   policy_decision option res \<Rightarrow> policy_decision option res" where
  "tool_execution_check request profile tool_name safety_level tool_approval_required
     idempotency_key_present otherwise =
    (let shown = quoted (str_default tool_name ''unknown'');
         metadata = [(''resource'', py_opt_str tool_name), (''safety_level'', PStr safety_level)];
         needs_approval =
           approval_with (''Tool '' @ shown @ '' requires approval.'') ''policy.tool.approval_required''
             (str_default tool_name (req_action request)) metadata (PStr safety_level)
     in if tool_approval_required \<and> \<not> pt_allow_approval_required_tools (pp_tools profile) then
          needs_approval
        else if safety_level = ''write'' \<and> \<not> pt_allow_write_tools (pp_tools profile) then
          deny_with (''Tool '' @ shown @ '' is denied by policy.'') ''policy.tool.write_denied'' metadata
        else if safety_level = ''write''
                \<and> pa_require_approval_for_write_tools (pp_approval profile)
                \<and> \<not> idempotency_key_present then
          needs_approval
        else if safety_level = ''destructive'' \<and> \<not> pt_allow_destructive_tools (pp_tools profile) then
          deny_with (''Tool '' @ shown @ '' is destructive and denied by policy.'')
            ''policy.tool.destructive_denied'' metadata
        else if safety_level = ''destructive''
                \<and> pa_require_approval_for_destructive_tools (pp_approval profile) then
          needs_approval
        else if safety_level = ''external_side_effect''
                \<and> \<not> pt_allow_external_side_effect_tools (pp_tools profile) then
          deny_with (''Tool '' @ shown @ '' has external side effects and is denied by policy.'')
            ''policy.tool.external_side_effect_denied'' metadata
        else if safety_level = ''external_side_effect''
                \<and> pa_require_approval_for_external_side_effect_tools (pp_approval profile) then
          needs_approval
        else otherwise)"

definition evaluate_tool_request ::
  "policy_request \<Rightarrow> orchestration_context \<Rightarrow> policy_profile_settings \<Rightarrow> policy_decision option res" where
  "evaluate_tool_request request context profile =
    (let md = req_metadata request;
         tool_name = str_or (read_optional_text (py_opt_str (req_resource request)))
           (read_optional_text (dict_get md ''tool_name''));
         safety_level = str_default (read_optional_text (dict_get md ''tool_safety_level'')) ''read_only'';
         tool_known = read_bool (dict_get md ''tool_known'') True;
         tool_enabled = read_bool (dict_get md ''tool_enabled'') True;
         tool_supports_streaming = read_bool (dict_get md ''tool_supports_streaming'') False;
         tool_approval_required = read_bool (dict_get md ''tool_approval_required'') False;
         idempotency_key_present = read_bool (dict_get md ''idempotency_key_present'') False;
         usecase_name = resolve_usecase_name request context;
         agent_name = resolve_scope_value request context ''agent_name'' None;
         strategy_name = resolve_scope_value request context ''strategy_name'' None;
         shown = quoted (str_default tool_name ''unknown'');
         resource = [(''resource'', py_opt_str tool_name)];
         allowed = allow_with ''policy.tool.allowed''
           [(''resource'', py_opt_str tool_name), (''safety_level'', PStr safety_level)]
     in if (case tool_name of None \<Rightarrow> False | Some n \<Rightarrow> startswith_any (casefold n) raw_tool_prefixes) then
          deny_with ''Raw MCP tool names are denied by policy.'' ''policy.tool.raw_name_denied'' resource
        else if \<not> tool_known \<and> pt_deny_unknown_tools (pp_tools profile) then
          deny_with (''Unknown logical tool '' @ shown @ '' is denied by policy.'')
            ''policy.tool.unknown'' resource
        else if pt_allowed_tools (pp_tools profile) \<noteq> []
                \<and> tool_name \<notin> Some ` set (pt_allowed_tools (pp_tools profile)) then
          deny_with (''Tool '' @ shown @ '' is not allowed by policy.'')
            ''policy.tool.profile_denied'' resource
        else if \<not> tool_enabled then
          deny_with (''Tool '' @ shown @ '' is disabled.'') ''policy.tool.disabled'' resource
        else if req_action request = ''tool.stream_execute'' \<and> \<not> tool_supports_streaming then
          deny_with (''Tool '' @ shown @ '' does not support streaming.'')
            ''policy.tool.streaming_unsupported'' resource
        else if \<not> is_name_allowed (dict_get md ''allowed_usecases'') usecase_name then
          deny_with (''Tool '' @ shown @ '' is not allowed for the active use case.'')
            ''policy.tool.usecase_denied'' resource
        else if \<not> is_name_allowed (dict_get md ''allowed_agents'') agent_name then
          deny_with (''Tool '' @ shown @ '' is not allowed for the active agent.'')
            ''policy.tool.agent_denied'' resource
        else if \<not> is_name_allowed (dict_get md ''allowed_strategies'') strategy_name then
          deny_with (''Tool '' @ shown @ '' is not allowed for the active strategy.'')
            ''policy.tool.strategy_denied'' resource
        else if req_action request \<in> set tool_execution_actions then
          tool_execution_check request profile tool_name safety_level tool_approval_required
            idempotency_key_present allowed
        else allowed)"

section \<open>Fallback\<close>

definition degradable_failure_types :: "string list" where
  "degradable_failure_types =
    [''dependency_unavailable'', ''orchestration_timeout'', ''agent_execution_failed'', ''agent_not_found'']"

definition evaluate_fallback_request ::
  "policy_request \<Rightarrow> orchestration_context \<Rightarrow> policy_profile_settings \<Rightarrow> policy_decision option res" where
  "evaluate_fallback_request request context profile =
    (let md = req_metadata request;
         settings = pp_fallback profile;
         fallback_strategy = req_resource request;
         failure_type = str_default (read_optional_text (dict_get md ''failure_type'')) ''unknown'';
         policy_denied = read_bool (dict_get md ''policy_denied'') False;
         side_effect_may_have_started = read_bool (dict_get md ''side_effect_may_have_started'') False;
         response_started = read_bool (dict_get md ''response_started'') False;
         broader_permissions = read_bool (dict_get md ''fallback_requires_broader_permissions'') False;
         both = [(''resource'', py_opt_str fallback_strategy), (''failure_type'', PStr failure_type)]
     in if \<not> pf_allow_fallbacks settings then
          deny_with ''Fallback is disabled by policy.'' ''policy.fallback.disabled'' both
        else if fallback_strategy = None then
          deny_with ''No fallback strategy is configured.'' ''policy.fallback.not_configured''
            [(''failure_type'', PStr failure_type)]
        else if pf_allowed_strategies settings \<noteq> []
                \<and> fallback_strategy \<notin> Some ` set (pf_allowed_strategies settings) then
          deny_with (''Fallback strategy '' @ quoted (the fallback_strategy)
              @ '' is not allowed by policy.'') ''policy.fallback.strategy_denied'' both
        else if policy_denied \<and> \<not> pf_allow_after_denial settings then
          deny_with ''Fallback after policy denial is not allowed.''
            ''policy.fallback.after_denial_denied'' both
        else if side_effect_may_have_started \<and> \<not> pf_allow_after_external_side_effects settings then
          deny_with ''Fallback after a possible side effect is not allowed.''
            ''policy.fallback.side_effect_denied'' both
        else if response_started then
          deny_with ''Fallback after response emission is not allowed.''
            ''policy.fallback.response_started_denied'' both
        else if broader_permissions then
          deny_with ''Fallback that requires broader permissions is not allowed.''
            ''policy.fallback.broader_permissions_denied'' both
        else if failure_type \<notin> set degradable_failure_types then
          deny_with ''Fallback is not allowed for this failure type.''
            ''policy.fallback.failure_type_denied'' both
        else allow_with ''policy.fallback.allowed'' both)"

declare evaluate_memory_request_def [rule_defs] evaluate_tool_request_def [rule_defs]
  tool_execution_check_def [rule_defs] evaluate_fallback_request_def [rule_defs]

declare memory_write_actions_def [reader_defs] memory_read_actions_def [reader_defs]
  memory_admin_actions_def [reader_defs] memory_scope_type_def [reader_defs]
  policy_scope_names_def [reader_defs] scope_names_allowed_def [reader_defs]
  tool_execution_actions_def [reader_defs] raw_tool_prefixes_def [reader_defs]
  degradable_failure_types_def [reader_defs] startswith_any_def [reader_defs]
  casefold_def [reader_defs] lower_char_def [reader_defs]

end
