(* ===== verification/Policy_Exposure_Rules.thy ===== *)
theory Policy_Exposure_Rules
  imports Policy_Data_Rules
begin

text \<open>
  The rules over what may leave the backend: trace payloads (\<open>policy/trace_policy.py\<close>), stream
  events (\<open>policy/stream_policy.py\<close>), the capability and health responses
  (\<open>policy/capabilities.py\<close>, \<open>policy/health.py\<close>), and charts
  (\<open>policy/visualization_policy.py\<close>).
\<close>

section \<open>Trace\<close>

definition trace_raw_denied_categories :: "string list" where
  "trace_raw_denied_categories =
    [''raw_prompt'', ''raw_completion'', ''raw_tool_payload'', ''raw_memory_record'',
     ''raw_workflow_state'', ''provider_response'', ''mcp_payload'', ''stack_trace'', ''hidden_scratchpad'']"

definition stack_trace_fields :: "string list" where
  "stack_trace_fields = [''stack_trace'', ''traceback'']"

text \<open>Whether two collections of names meet (\<open>set.intersection\<close> as a truth value).\<close>

definition meets :: "string list \<Rightarrow> string list \<Rightarrow> bool" where
  "meets xs ys = list_ex (\<lambda>x. x \<in> set ys) xs"

definition evaluate_trace_request ::
  "policy_request \<Rightarrow> orchestration_context \<Rightarrow> policy_profile_settings \<Rightarrow> policy_decision option res" where
  "evaluate_trace_request request context profile =
    (let payload_category =
           str_default (read_optional_text (dict_get (req_metadata request) ''payload_category'')) ''safe_summary'';
         field_names = read_field_names (dict_get (req_metadata request) ''field_names'');
         md = [(''resource'', py_opt_str (req_resource request)), (''payload_category'', PStr payload_category)]
     in if \<not> ptr_allow_trace (pp_trace profile) then
          deny_with ''Trace emission is disabled by policy.'' ''policy.trace.disabled'' md
        else if payload_category \<in> set trace_raw_denied_categories
                \<and> \<not> ptr_expose_raw_payloads (pp_trace profile) then
          deny_with ''Raw trace payloads are denied by policy.'' ''policy.trace.raw_payload_denied'' md
        else if payload_category = ''raw_prompt'' \<and> \<not> pl_allow_prompt_trace (pp_llm profile) then
          deny_with ''Prompt trace payloads are denied by policy.'' ''policy.trace.prompt_denied'' md
        else if payload_category = ''raw_completion'' \<and> \<not> pl_allow_completion_trace (pp_llm profile) then
          deny_with ''Completion trace payloads are denied by policy.'' ''policy.trace.completion_denied'' md
        else if meets stack_trace_fields field_names then
          deny_with ''Stack traces are denied by policy.'' ''policy.trace.stack_trace_denied'' md
        else allow_with ''policy.trace.allowed'' md)"

definition infer_trace_payload_category :: "pydict \<Rightarrow> string" where
  "infer_trace_payload_category payload =
    (let field_names = List.map fst payload
     in if payload = [] then ''safe_summary''
        else if meets [''prompt'', ''prompts'', ''messages'', ''system_prompt''] field_names then ''raw_prompt''
        else if meets [''completion'', ''content'', ''response_text'', ''provider_response''] field_names
          then ''raw_completion''
        else if meets [''tool_arguments'', ''tool_result'', ''tool_payload''] field_names
          then ''raw_tool_payload''
        else if meets [''memory_record'', ''memory_text'', ''memory_results''] field_names
          then ''raw_memory_record''
        else if meets [''workflow_state'', ''state_document''] field_names then ''raw_workflow_state''
        else if meets stack_trace_fields field_names then ''stack_trace''
        else ''safe_summary'')"

section \<open>Stream\<close>

definition allowed_event_types :: "string list" where
  "allowed_event_types =
    [''response.started'', ''response.delta'', ''response.metadata'', ''artifact.started'',
     ''artifact.completed'', ''artifact.failed'', ''response.completed'', ''response.error'', ''heartbeat'']"

definition internal_only_event_types :: "string list" where
  "internal_only_event_types =
    [''strategy.started'', ''strategy.completed'', ''agent.started'', ''agent.completed'']"

definition stream_raw_denied_categories :: "string list" where
  "stream_raw_denied_categories =
    [''raw_provider_chunk'', ''raw_prompt'', ''raw_tool_payload'', ''raw_memory_record'',
     ''raw_workflow_state'', ''stack_trace'', ''hidden_scratchpad'']"

definition evaluate_stream_request ::
  "policy_request \<Rightarrow> orchestration_context \<Rightarrow> policy_profile_settings \<Rightarrow> policy_decision option res" where
  "evaluate_stream_request request context profile =
    (let event_type = str_or (read_optional_text (py_opt_str (req_resource request)))
           (read_optional_text (dict_get (req_metadata request) ''event_type''));
         payload_category =
           str_default (read_optional_text (dict_get (req_metadata request) ''payload_category'')) ''safe_summary'';
         field_names = read_field_names (dict_get (req_metadata request) ''field_names'');
         md = [(''resource'', py_opt_str event_type), (''payload_category'', PStr payload_category)]
     in if \<not> ps_allow_stream_events (pp_stream profile) then
          deny_with ''Stream events are disabled by policy.'' ''policy.stream.disabled'' md
        else if event_type \<notin> Some ` set allowed_event_types then
          deny_with ''Stream event type is not allowed by policy.'' ''policy.stream.event_denied'' md
        else if event_type \<in> Some ` set internal_only_event_types
                \<and> \<not> ps_expose_internal_events (pp_stream profile) then
          deny_with ''Internal stream events are denied by policy.''
            ''policy.stream.internal_event_denied'' md
        else if payload_category \<in> set stream_raw_denied_categories then
          deny_with ''Raw stream payloads are denied by policy.'' ''policy.stream.raw_payload_denied'' md
        else if event_type = Some ''response.delta'' \<and> payload_category = ''raw_provider_chunk''
                \<and> \<not> ps_expose_raw_deltas (pp_stream profile) then
          deny_with ''Raw stream deltas are denied by policy.'' ''policy.stream.raw_delta_denied'' md
        else if ''stack_trace'' \<in> set field_names \<or> ''traceback'' \<in> set field_names then
          deny_with ''Stack traces are denied in stream payloads.'' ''policy.stream.stack_trace_denied'' md
        else allow_with ''policy.stream.allowed'' md)"

text \<open>The stream event of \<open>session/models.py\<close> and the category inferred from its fields.\<close>

record session_stream_event =
  sse_event_type :: string
  sse_trace_id :: string
  sse_session_id :: string
  sse_data :: pydict
  sse_sequence_no :: "int option"

definition infer_stream_payload_category :: "session_stream_event \<Rightarrow> string" where
  "infer_stream_payload_category event =
    (let field_names = List.map fst (sse_data event)
     in if sse_event_type event = ''response.delta'' \<and> ''provider_chunk'' \<in> set field_names
          then ''raw_provider_chunk''
        else if meets [''prompt'', ''messages'', ''system_prompt''] field_names then ''raw_prompt''
        else if meets [''tool_arguments'', ''tool_result'', ''tool_payload''] field_names
          then ''raw_tool_payload''
        else if meets [''memory_record'', ''memory_results'', ''memory_text''] field_names
          then ''raw_memory_record''
        else if meets [''workflow_state'', ''state_document''] field_names then ''raw_workflow_state''
        else if meets [''stack_trace'', ''traceback''] field_names then ''stack_trace''
        else ''safe_summary'')"

section \<open>Capabilities and health\<close>

definition evaluate_capabilities_request ::
  "policy_request \<Rightarrow> orchestration_context \<Rightarrow> policy_profile_settings \<Rightarrow> policy_decision option res" where
  "evaluate_capabilities_request request context profile =
    (let md = [(''resource'', py_opt_str (req_resource request))]
     in if \<not> pc_expose_enabled (pp_capabilities profile) then
          deny_with ''Capabilities exposure is disabled by policy.'' ''policy.capabilities.disabled'' md
        else allow_with ''policy.capabilities.allowed'' md)"

definition evaluate_health_request ::
  "policy_request \<Rightarrow> orchestration_context \<Rightarrow> policy_profile_settings \<Rightarrow> policy_decision option res" where
  "evaluate_health_request request context profile =
    (let md = [(''resource'', py_opt_str (req_resource request))]
     in if \<not> ph_expose_enabled (pp_health profile) then
          deny_with ''Health exposure is disabled by policy.'' ''policy.health.disabled'' md
        else allow_with ''policy.health.allowed'' md)"

section \<open>Visualization\<close>

definition supported_chart_data_sources :: "string list" where
  "supported_chart_data_sources =
    [''deterministic_synthesis'', ''user_provided'', ''workflow_state'', ''memory'', ''tool'',
     ''uploaded_file'', ''unknown'']"

definition optional_int :: "pyval \<Rightarrow> int option" where
  "optional_int v = (case v of PInt i \<Rightarrow> Some i | _ \<Rightarrow> None)"

definition text_tuple :: "pyval \<Rightarrow> string list" where
  "text_tuple v = (case seq_items v of None \<Rightarrow> [] | Some xs \<Rightarrow> normalize_names xs [])"

definition has_sensitive_fields :: "policy_visualization_settings \<Rightarrow> string list \<Rightarrow> bool" where
  "has_sensitive_fields settings field_names =
    (if pv_sensitive_fields settings = [] then False
     else list_ex (\<lambda>item. lower (strip item) \<in> (\<lambda>s. lower (strip s)) ` set (pv_sensitive_fields settings))
            field_names)"

text \<open>\<open>limit_exceeded n limit\<close>: a count that is present and above its limit.\<close>

definition limit_exceeded :: "int option \<Rightarrow> int \<Rightarrow> bool" where
  "limit_exceeded n limit = (case n of None \<Rightarrow> False | Some i \<Rightarrow> i > limit)"

definition py_opt_int :: "int option \<Rightarrow> pyval" where
  "py_opt_int n = (case n of None \<Rightarrow> PNone | Some i \<Rightarrow> PInt i)"

definition evaluate_data_source ::
  "policy_visualization_settings \<Rightarrow> string option \<Rightarrow> policy_decision option" where
  "evaluate_data_source settings data_source =
    (case data_source of
       None \<Rightarrow> None
     | Some source \<Rightarrow>
        (let normalized = lower (strip source);
             deny = (\<lambda>reason code md. Some (decision_deny (Some reason) (Some code) md [] None None))
         in if normalized \<notin> set supported_chart_data_sources then
              (if pv_require_data_source settings then
                 deny ''Visualization requires an approved data source.''
                   ''policy.visualization.data_source_unknown'' [(''resource'', PStr normalized)]
               else None)
            else if pv_allowed_data_sources settings \<noteq> []
                    \<and> normalized \<notin> set (pv_allowed_data_sources settings) then
              deny (''Data source '' @ quoted normalized @ '' is not allowed for this use case.'')
                ''policy.visualization.data_source_denied'' [(''resource'', PStr normalized)]
            else if normalized = ''memory'' \<and> \<not> pv_allow_memory_data settings then
              deny ''Memory data cannot be used for visualization in this use case.''
                ''policy.visualization.memory_denied'' []
            else if normalized = ''tool'' \<and> \<not> pv_allow_tool_data settings then
              deny ''Tool-derived data cannot be used for visualization in this use case.''
                ''policy.visualization.tool_denied'' []
            else if normalized = ''uploaded_file'' \<and> \<not> pv_allow_uploaded_file_data settings then
              deny ''Uploaded-file data cannot be used for visualization in this use case.''
                ''policy.visualization.uploaded_file_denied'' []
            else None))"

text \<open>The build branch after the chart type and renderer checks.\<close>

definition visualization_build_check ::
  "policy_visualization_settings \<Rightarrow> pydict \<Rightarrow> policy_decision option res" where
  "visualization_build_check settings md =
    (let chart_type = read_optional_text (dict_get md ''chart_type'');
         renderer = read_optional_text (dict_get md ''renderer'');
         data_source = read_optional_text (dict_get md ''data_source'');
         data_mode = read_optional_text (dict_get md ''data_mode'');
         stage = str_default (read_optional_text (dict_get md ''stage'')) ''pre_build'';
         row_count = optional_int (dict_get md ''row_count'');
         series_count = optional_int (dict_get md ''series_count'');
         category_count = optional_int (dict_get md ''category_count'');
         summary_token_estimate = optional_int (dict_get md ''summary_token_estimate'');
         field_names = text_tuple (dict_get md ''field_names'')
     in if pv_require_data_source settings
           \<and> (data_source = None \<or> data_source \<in> {Some [], Some ''unknown''}) then
          deny_with ''Visualization requires an approved data source.''
            ''policy.visualization.data_source_required'' []
        else if evaluate_data_source settings data_source \<noteq> None then
          Inr (evaluate_data_source settings data_source)
        else if data_mode = Some ''reference'' \<and> \<not> pv_allow_reference_data_mode settings then
          deny_with ''Reference-mode chart delivery is not allowed for this use case.''
            ''policy.visualization.reference_mode_denied'' []
        else if limit_exceeded row_count (pv_max_rows_artifact_store settings) then
          deny_with ''The chart dataset exceeds the allowed visualization row limit.''
            ''policy.visualization.row_limit_exceeded'' [(''row_count'', py_opt_int row_count)]
        else if stage \<in> set [''pre_build'', ''post_artifact''] \<and> data_mode = Some ''inline''
                \<and> limit_exceeded row_count (pv_max_rows_inline settings) then
          deny_with ''The chart dataset is too large to return inline for this use case.''
            ''policy.visualization.inline_row_limit_exceeded'' [(''row_count'', py_opt_int row_count)]
        else if limit_exceeded series_count (pv_max_series settings) then
          deny_with ''The chart exceeds the allowed series limit for this use case.''
            ''policy.visualization.series_limit_exceeded'' [(''series_count'', py_opt_int series_count)]
        else if limit_exceeded category_count (pv_max_categories settings) then
          deny_with ''The chart exceeds the allowed category limit for this use case.''
            ''policy.visualization.category_limit_exceeded'' [(''category_count'', py_opt_int category_count)]
        else if stage = ''post_summary''
                \<and> limit_exceeded summary_token_estimate (pv_max_context_summary_tokens settings) then
          deny_with ''The chart summary exceeds the allowed context budget for this use case.''
            ''policy.visualization.summary_limit_exceeded''
            [(''summary_token_estimate'', py_opt_int summary_token_estimate)]
        else if has_sensitive_fields settings field_names then
          deny_with ''The requested chart includes fields that are not allowed to be visualized.''
            ''policy.visualization.sensitive_field_denied'' []
        else if pv_allow_full_dataset_in_context settings then
          deny_with ''Full chart datasets are not allowed in prompt context.''
            ''policy.visualization.full_dataset_context_denied'' []
        else
          allow_with ''policy.visualization.allowed''
            [(''chart_type'', py_opt_str chart_type), (''renderer'', py_opt_str renderer),
             (''data_source'', py_opt_str data_source), (''stage'', PStr stage)])"

definition visualization_retrieve_check ::
  "policy_visualization_settings \<Rightarrow> pydict \<Rightarrow> policy_decision option res" where
  "visualization_retrieve_check settings md =
    (let chart_type = read_optional_text (dict_get md ''chart_type'');
         renderer = read_optional_text (dict_get md ''renderer'');
         data_source = read_optional_text (dict_get md ''data_source'');
         return_type = str_default (read_optional_text (dict_get md ''return_type'')) ''artifact'';
         row_count = optional_int (dict_get md ''row_count'');
         fields = text_tuple (dict_get md ''fields'');
         value_fields = text_tuple (dict_get md ''value_fields'')
     in if return_type \<in> set [''data_slice'', ''computed_facts'']
           \<and> \<not> pv_allow_exact_followup_retrieval settings then
          deny_with ''Exact chart follow-up retrieval is not allowed for this use case.''
            ''policy.visualization.followup_retrieval_denied'' []
        else if return_type = ''data_slice'' \<and> \<not> pv_allow_data_export settings then
          deny_with ''Chart data export is not allowed for this use case.''
            ''policy.visualization.data_export_denied'' []
        else if fields \<noteq> [] \<and> has_sensitive_fields settings fields then
          deny_with ''The requested chart fields are not allowed to be retrieved.''
            ''policy.visualization.retrieval_sensitive_field_denied'' []
        else if value_fields \<noteq> [] \<and> has_sensitive_fields settings value_fields then
          deny_with ''The requested chart fields are not allowed to be retrieved.''
            ''policy.visualization.retrieval_sensitive_field_denied'' []
        else if limit_exceeded row_count (pv_max_rows_artifact_store settings) then
          deny_with ''The requested chart retrieval exceeds the allowed row limit.''
            ''policy.visualization.retrieval_row_limit_exceeded'' [(''row_count'', py_opt_int row_count)]
        else
          allow_with ''policy.visualization.allowed''
            [(''chart_type'', py_opt_str chart_type), (''renderer'', py_opt_str renderer),
             (''data_source'', py_opt_str data_source), (''return_type'', PStr return_type)])"

definition evaluate_visualization_request :: rule_callback where
  "evaluate_visualization_request request context profile config =
    (if req_action request \<notin> set [''visualization.build'', ''visualization.retrieve''] then Inr None
     else
       (let settings = pp_visualization profile;
            md = req_metadata request;
            chart_type = read_optional_text (dict_get md ''chart_type'');
            renderer = read_optional_text (dict_get md ''renderer'');
            build = (req_action request = ''visualization.build'')
        in if \<not> pv_enabled settings then
             deny_with ''Visualization is disabled for this use case.'' ''policy.visualization.disabled'' []
           else if pv_deny_unknown_chart_types settings \<and> build \<and> \<not> truthy chart_type then
             deny_with ''Visualization requests must resolve to a supported chart type.''
               ''policy.visualization.chart_type_required'' []
           else if truthy chart_type
                   \<and> \<not> is_name_allowed (py_strs (pv_allowed_chart_types settings)) chart_type then
             deny_with (''Chart type '' @ quoted (the chart_type) @ '' is not allowed for this use case.'')
               ''policy.visualization.chart_type_denied'' [(''resource'', py_opt_str chart_type)]
           else if pv_deny_unknown_renderers settings \<and> build \<and> \<not> truthy renderer then
             deny_with ''Visualization requests must resolve to a supported renderer.''
               ''policy.visualization.renderer_required'' []
           else if truthy renderer
                   \<and> \<not> is_name_allowed (py_strs (pv_allowed_renderers settings)) renderer then
             deny_with (''Renderer '' @ quoted (the renderer) @ '' is not allowed for this use case.'')
               ''policy.visualization.renderer_denied'' [(''resource'', py_opt_str renderer)]
           else if build then visualization_build_check settings md
           else visualization_retrieve_check settings md))"

declare evaluate_trace_request_def [rule_defs] evaluate_stream_request_def [rule_defs]
  evaluate_capabilities_request_def [rule_defs] evaluate_health_request_def [rule_defs]
  evaluate_data_source_def [rule_defs] visualization_build_check_def [rule_defs]
  visualization_retrieve_check_def [rule_defs] evaluate_visualization_request_def [rule_defs]

declare trace_raw_denied_categories_def [reader_defs] stack_trace_fields_def [reader_defs]
  meets_def [reader_defs] allowed_event_types_def [reader_defs]
  internal_only_event_types_def [reader_defs] stream_raw_denied_categories_def [reader_defs]
  supported_chart_data_sources_def [reader_defs] optional_int_def [reader_defs]
  text_tuple_def [reader_defs] has_sensitive_fields_def [reader_defs]
  limit_exceeded_def [reader_defs] py_opt_int_def [reader_defs] lower_def [reader_defs]

lemma meets_iff: "meets xs ys \<longleftrightarrow> set xs \<inter> set ys \<noteq> {}"
  by (auto simp: meets_def list_ex_iff)

end
