(* ===== verification/Policy_Engine.thy ===== *)
theory Policy_Engine
  imports Policy_Exposure_Rules
begin

text \<open>
  The policy engine: the default rule registry (\<open>policy/rule_loader.py\<close>), the resolution of the
  profile of a request and the evaluation with its precedence
  (\<open>policy/engine.py\<close>, class \<open>DefaultPolicyEngine\<close>).

  The rules of the registry are one constant each, registered in the order of the loader. The
  evaluation runs every matching rule in priority order; a rule that raises ends it with that error.

  The interface between the engine and its rules is the locale \<open>rule_contract\<close> (a rule returns a
  well-formed decision without actor and scope, and does not read the mode flags of the profile). It
  is interpreted on each of the thirteen rules. The locale \<open>rule_registry\<close> is the same contract for a
  whole registry; the engine's lemmas are proved there and reach the default registry by its
  interpretation.
\<close>

section \<open>The default registry\<close>

definition usecase_access_rule :: rule_evaluator where
  "usecase_access_rule =
    \<lparr>ev_rule =
       \<lparr>rule_name = ''usecase_access'',
        rule_actions =
          [''orchestration.run_strategy'', ''agent.invoke'', ''llm.complete'', ''llm.stream'',
           ''visualization.build'', ''visualization.retrieve'', ''memory.search'', ''memory.get'',
           ''memory.upsert'', ''memory.promote'', ''memory.supersede'', ''memory.contradict'',
           ''memory.expire'', ''memory.forget'', ''memory.ingest_document'',
           ''memory.delete_by_scope'', ''memory.export_by_scope'', ''memory.stats'', ''tool.list'',
           ''tool.get'', ''tool.call'', ''tool.execute'', ''tool.stream_execute''],
        rule_component_prefixes =
          [],
        rule_priority = 10\<rparr>,
     ev_callback = (evaluate_usecase_access)\<rparr>"

definition session_access_rule :: rule_evaluator where
  "session_access_rule =
    \<lparr>ev_rule =
       \<lparr>rule_name = ''session_access'',
        rule_actions =
          [''session.reset'', ''session.read_history''],
        rule_component_prefixes =
          [''session.'', ''app.session'', ''api.sessions'', ''app.api.routes_sessions''],
        rule_priority = 15\<rparr>,
     ev_callback = (evaluate_session_access)\<rparr>"

definition strategy_access_rule :: rule_evaluator where
  "strategy_access_rule =
    \<lparr>ev_rule =
       \<lparr>rule_name = ''strategy_access'',
        rule_actions =
          [''orchestration.run_strategy''],
        rule_component_prefixes =
          [],
        rule_priority = 20\<rparr>,
     ev_callback = (evaluate_strategy_access)\<rparr>"

definition agent_access_rule :: rule_evaluator where
  "agent_access_rule =
    \<lparr>ev_rule =
       \<lparr>rule_name = ''agent_access'',
        rule_actions =
          [''agent.invoke'', ''visualization.build'', ''visualization.retrieve''],
        rule_component_prefixes =
          [],
        rule_priority = 20\<rparr>,
     ev_callback = (evaluate_agent_access)\<rparr>"

definition llm_access_rule :: rule_evaluator where
  "llm_access_rule =
    \<lparr>ev_rule =
       \<lparr>rule_name = ''llm_access'',
        rule_actions =
          [''llm.complete'', ''llm.stream''],
        rule_component_prefixes =
          [''app.llm'', ''llm.'', ''app.agents'', ''agents.'', ''agent.'', ''app.orchestration'',
           ''orchestration.''],
        rule_priority = 30\<rparr>,
     ev_callback = (\<lambda>r c p cfg. evaluate_llm_request r c p)\<rparr>"

definition memory_access_rule :: rule_evaluator where
  "memory_access_rule =
    \<lparr>ev_rule =
       \<lparr>rule_name = ''memory_access'',
        rule_actions =
          [''memory.search'', ''memory.get'', ''memory.upsert'', ''memory.promote'',
           ''memory.supersede'', ''memory.contradict'', ''memory.expire'', ''memory.forget'',
           ''memory.ingest_document'', ''memory.delete_by_scope'', ''memory.export_by_scope'',
           ''memory.stats''],
        rule_component_prefixes =
          [''app.memory'', ''memory.'', ''app.orchestration'', ''orchestration.''],
        rule_priority = 30\<rparr>,
     ev_callback = (\<lambda>r c p cfg. evaluate_memory_request r c p)\<rparr>"

definition tool_access_rule :: rule_evaluator where
  "tool_access_rule =
    \<lparr>ev_rule =
       \<lparr>rule_name = ''tool_access'',
        rule_actions =
          [''tool.list'', ''tool.get'', ''tool.call'', ''tool.execute'', ''tool.stream_execute''],
        rule_component_prefixes =
          [''app.tools'', ''tools.'', ''app.orchestration'', ''orchestration.'', ''app.agents'',
           ''agents.''],
        rule_priority = 30\<rparr>,
     ev_callback = (\<lambda>r c p cfg. evaluate_tool_request r c p)\<rparr>"

definition visualization_access_rule :: rule_evaluator where
  "visualization_access_rule =
    \<lparr>ev_rule =
       \<lparr>rule_name = ''visualization_access'',
        rule_actions =
          [''visualization.build'', ''visualization.retrieve''],
        rule_component_prefixes =
          [''app.visualization'', ''visualization.'', ''app.agents'', ''agents.'',
           ''app.orchestration'', ''orchestration.''],
        rule_priority = 32\<rparr>,
     ev_callback = (evaluate_visualization_request)\<rparr>"

definition fallback_access_rule :: rule_evaluator where
  "fallback_access_rule =
    \<lparr>ev_rule =
       \<lparr>rule_name = ''fallback_access'',
        rule_actions =
          [''fallback.execute''],
        rule_component_prefixes =
          [''orchestration.'', ''app.orchestration''],
        rule_priority = 25\<rparr>,
     ev_callback = (\<lambda>r c p cfg. evaluate_fallback_request r c p)\<rparr>"

definition trace_access_rule :: rule_evaluator where
  "trace_access_rule =
    \<lparr>ev_rule =
       \<lparr>rule_name = ''trace_access'',
        rule_actions =
          [''trace.emit''],
        rule_component_prefixes =
          [''api.'', ''app.api'', ''observability.'', ''app.observability'', ''orchestration.'',
           ''app.orchestration'', ''session.'', ''app.session'', ''persistence.'',
           ''app.persistence'', ''agents.'', ''app.agents'', ''llm.'', ''app.llm'',
           ''visualization.'', ''app.visualization''],
        rule_priority = 35\<rparr>,
     ev_callback = (\<lambda>r c p cfg. evaluate_trace_request r c p)\<rparr>"

definition stream_access_rule :: rule_evaluator where
  "stream_access_rule =
    \<lparr>ev_rule =
       \<lparr>rule_name = ''stream_access'',
        rule_actions =
          [''stream.emit''],
        rule_component_prefixes =
          [''api.'', ''app.api'', ''session.'', ''app.session''],
        rule_priority = 35\<rparr>,
     ev_callback = (\<lambda>r c p cfg. evaluate_stream_request r c p)\<rparr>"

definition capabilities_access_rule :: rule_evaluator where
  "capabilities_access_rule =
    \<lparr>ev_rule =
       \<lparr>rule_name = ''capabilities_access'',
        rule_actions =
          [''capabilities.read''],
        rule_component_prefixes =
          [''api.'', ''app.api'', ''foundation.'', ''app.foundation''],
        rule_priority = 35\<rparr>,
     ev_callback = (\<lambda>r c p cfg. evaluate_capabilities_request r c p)\<rparr>"

definition health_access_rule :: rule_evaluator where
  "health_access_rule =
    \<lparr>ev_rule =
       \<lparr>rule_name = ''health_access'',
        rule_actions =
          [''health.read''],
        rule_component_prefixes =
          [''api.'', ''app.api'', ''foundation.'', ''app.foundation''],
        rule_priority = 35\<rparr>,
     ev_callback = (\<lambda>r c p cfg. evaluate_health_request r c p)\<rparr>"

definition load_default_policy_registry :: policy_registry where
  "load_default_policy_registry =
    fold (\<lambda>ev registry. register_rule registry ev)
      [usecase_access_rule,
       session_access_rule,
       strategy_access_rule,
       agent_access_rule,
       llm_access_rule,
       memory_access_rule,
       tool_access_rule,
       visualization_access_rule,
       fallback_access_rule,
       trace_access_rule,
       stream_access_rule,
       capabilities_access_rule,
       health_access_rule] []"

lemmas registry_rule_defs =
  usecase_access_rule_def
  session_access_rule_def
  strategy_access_rule_def
  agent_access_rule_def
  llm_access_rule_def
  memory_access_rule_def
  tool_access_rule_def
  visualization_access_rule_def
  fallback_access_rule_def
  trace_access_rule_def
  stream_access_rule_def
  capabilities_access_rule_def
  health_access_rule_def

section \<open>The engine\<close>

record policy_engine =
  eng_config :: pyval
  eng_settings :: policy_settings
  eng_registry :: policy_registry

text \<open>The profile of a request: the profile named by the configured use case, else the default one;
  a name that is not configured gets a profile with the dataclass defaults and the root flags.\<close>

definition fallback_profile :: "policy_settings \<Rightarrow> string \<Rightarrow> policy_profile_settings" where
  "fallback_profile settings name =
    (default_profile_settings name)
      \<lparr>pp_enabled := pset_enabled settings, pp_mode := pset_mode settings,
       pp_default_decision := pset_default_decision settings, pp_fail_closed := pset_fail_closed settings\<rparr>"

definition configured_profile_name :: "pyval \<Rightarrow> string option \<Rightarrow> string option" where
  "configured_profile_name config usecase_name =
    (case usecase_name of
       None \<Rightarrow> None
     | Some u \<Rightarrow>
        (case read_optional_text (config_get config (''usecases.'' @ u @ ''.policy_profile'') PNone) of
           Some n \<Rightarrow> Some n
         | None \<Rightarrow>
            read_optional_text
              (config_get config (''orchestration.usecases.'' @ u @ ''.policy_profile'') PNone)))"

definition resolved_profile_name ::
  "policy_engine \<Rightarrow> policy_request \<Rightarrow> orchestration_context \<Rightarrow> string" where
  "resolved_profile_name eng request context =
    str_default
      (str_or (configured_profile_name (eng_config eng) (resolve_usecase_name request context))
        (Some (pset_default_profile (eng_settings eng))))
      ''default''"

definition resolve_policy_profile ::
  "policy_engine \<Rightarrow> policy_request \<Rightarrow> orchestration_context \<Rightarrow> policy_profile_settings" where
  "resolve_policy_profile eng request context =
    (let name = resolved_profile_name eng request context
     in case map_of (pset_profiles (eng_settings eng)) name of
          Some p \<Rightarrow> p
        | None \<Rightarrow> fallback_profile (eng_settings eng) name)"

definition opt_or :: "'a option \<Rightarrow> 'a \<Rightarrow> 'a option" where
  "opt_or x y = (case x of None \<Rightarrow> Some y | Some a \<Rightarrow> Some a)"

definition tag_decision ::
  "rule_evaluator \<Rightarrow> policy_profile_settings \<Rightarrow> policy_actor \<Rightarrow> policy_scope \<Rightarrow> policy_decision \<Rightarrow> policy_decision" where
  "tag_decision ev profile actor scope d =
    policy_decision (dec_allowed d) (dec_reason d) (dec_requires_approval d)
      (dict_setdefault ''rule'' (PStr (rule_name (ev_rule ev)))
        (dict_setdefault ''policy_profile'' (PStr (pp_name profile)) (dec_metadata d)))
      (dec_decision d) (dec_reason_code d) (dec_obligations d)
      (opt_or (dec_actor d) actor) (opt_or (dec_scope d) scope)"

definition evaluate_one ::
  "rule_evaluator \<Rightarrow> policy_request \<Rightarrow> orchestration_context \<Rightarrow> policy_profile_settings \<Rightarrow> pyval \<Rightarrow>
   policy_actor \<Rightarrow> policy_scope \<Rightarrow> policy_decision option res" where
  "evaluate_one ev request context profile config actor scope =
    try_bind (evaluator_evaluate ev request context profile config)
      (\<lambda>d. Inr (map_option (tag_decision ev profile actor scope) d))"

text \<open>The loop over the matching evaluators, which collects the decisions.\<close>

fun collect_decisions ::
  "rule_evaluator list \<Rightarrow> policy_request \<Rightarrow> orchestration_context \<Rightarrow> policy_profile_settings \<Rightarrow> pyval \<Rightarrow>
   policy_actor \<Rightarrow> policy_scope \<Rightarrow> policy_decision list \<Rightarrow> policy_decision list res" where
  "collect_decisions [] request context profile config actor scope decisions = Inr decisions"
| "collect_decisions (ev # evs) request context profile config actor scope decisions =
    try_bind (evaluate_one ev request context profile config actor scope)
      (\<lambda>d. collect_decisions evs request context profile config actor scope
             (case d of None \<Rightarrow> decisions | Some x \<Rightarrow> decisions @ [x]))"

text \<open>The two nested loops of the precedence: the first decision of the first kind that occurs.\<close>

definition first_of_kind :: "decision_value \<Rightarrow> policy_decision list \<Rightarrow> policy_decision option" where
  "first_of_kind kind decisions = List.find (\<lambda>d. dec_decision d = Some kind) decisions"

fun select_decision :: "decision_value list \<Rightarrow> policy_decision list \<Rightarrow> policy_decision option" where
  "select_decision [] decisions = None"
| "select_decision (kind # kinds) decisions =
    (case first_of_kind kind decisions of
       Some d \<Rightarrow> Some d
     | None \<Rightarrow> select_decision kinds decisions)"

definition default_policy_decision ::
  "policy_profile_settings \<Rightarrow> policy_actor \<Rightarrow> policy_scope \<Rightarrow> policy_decision" where
  "default_policy_decision profile actor scope =
    (if pp_default_decision profile = ''allow'' then
       decision_allow None (Some ''policy.default_allow'')
         [(''policy_profile'', PStr (pp_name profile))] [] (Some actor) (Some scope)
     else
       decision_deny (Some ''Policy denied by default.'') (Some ''policy.default_deny'')
         [(''policy_profile'', PStr (pp_name profile))] [] (Some actor) (Some scope))"

text \<open>The order in which the kinds of decisions are searched.\<close>

definition decision_precedence :: "decision_value list" where
  "decision_precedence = [Deny, ApprovalRequired, Allow]"

definition engine_evaluate ::
  "policy_engine \<Rightarrow> policy_request \<Rightarrow> orchestration_context \<Rightarrow> policy_decision res" where
  "engine_evaluate eng request context =
    (let profile = resolve_policy_profile eng request context;
         resolved = resolve_policy_context request
     in try_bind
          (collect_decisions (registry_matching (eng_registry eng) request) request context profile
            (eng_config eng) (rpc_actor resolved) (rpc_scope resolved) [])
          (\<lambda>decisions.
            case select_decision decision_precedence decisions of
              Some d \<Rightarrow> Inr d
            | None \<Rightarrow> Inr (default_policy_decision profile (rpc_actor resolved) (rpc_scope resolved))))"

declare fallback_profile_def [reader_defs] configured_profile_name_def [reader_defs]
  resolved_profile_name_def [reader_defs] resolve_policy_profile_def [reader_defs]

section \<open>The abstract specification\<close>

text \<open>What the documentation states as \<open>explicit deny > approval_required > explicit allow > default\<close>:
  the verdict depends only on which kinds of decisions the matching rules gave.\<close>

definition precedence_verdict :: "decision_value set \<Rightarrow> string \<Rightarrow> decision_value" where
  "precedence_verdict kinds dflt =
    (if Deny \<in> kinds then Deny
     else if ApprovalRequired \<in> kinds then ApprovalRequired
     else if Allow \<in> kinds then Allow
     else if dflt = ''allow'' then Allow else Deny)"

definition decision_kinds :: "policy_decision list \<Rightarrow> decision_value set" where
  "decision_kinds decisions = {k. \<exists>d \<in> set decisions. dec_decision d = Some k}"

section \<open>Selection implements the precedence\<close>

lemma first_of_kind_Some:
  "first_of_kind k ds = Some d \<Longrightarrow> d \<in> set ds \<and> dec_decision d = Some k"
  by (auto simp: first_of_kind_def find_Some_iff in_set_conv_nth)

lemma first_of_kind_None: "first_of_kind k ds = None \<longleftrightarrow> k \<notin> decision_kinds ds"
  by (auto simp: first_of_kind_def decision_kinds_def find_None_iff)

lemma select_decision_mem: "select_decision ks ds = Some d \<Longrightarrow> d \<in> set ds"
  by (induction ks) (auto split: option.splits dest: first_of_kind_Some)

lemma select_decision_kind:
  "select_decision decision_precedence ds = Some d \<Longrightarrow>
   dec_decision d = Some (precedence_verdict (decision_kinds ds) dflt)"
  unfolding decision_precedence_def
  by (auto simp: precedence_verdict_def first_of_kind_None split: option.splits
      dest!: first_of_kind_Some) (auto simp: decision_kinds_def)

lemma select_decision_None:
  "select_decision decision_precedence ds = None \<longleftrightarrow> decision_kinds ds = {}"
proof -
  have "(\<forall>k. k \<notin> decision_kinds ds) \<longleftrightarrow>
        Deny \<notin> decision_kinds ds \<and> ApprovalRequired \<notin> decision_kinds ds \<and> Allow \<notin> decision_kinds ds"
    by (metis decision_value.exhaust)
  then have "decision_kinds ds = {} \<longleftrightarrow> first_of_kind Deny ds = None
      \<and> first_of_kind ApprovalRequired ds = None \<and> first_of_kind Allow ds = None"
    unfolding first_of_kind_None by blast
  then show ?thesis by (simp add: decision_precedence_def split: option.splits)
qed

lemma default_policy_decision_verdict:
  "dec_decision (default_policy_decision p a s) = Some (precedence_verdict {} (pp_default_decision p))"
  by (simp add: default_policy_decision_def precedence_verdict_def)

lemma wf_default_policy_decision [simp, wf_intros]: "wf_decision (default_policy_decision p a s)"
  by (simp add: default_policy_decision_def)

lemma wf_tag_decision [simp, wf_intros]: "wf_decision (tag_decision ev p a s d)"
  by (simp add: tag_decision_def)

lemma tag_decision_value [simp]:
  "wf_decision d \<Longrightarrow> dec_decision (tag_decision ev p a s d) = dec_decision d"
  by (auto simp: tag_decision_def wf_decision_def)

lemma tag_decision_code [simp]:
  "dec_reason_code (tag_decision ev p a s d) = dec_reason_code d"
  by (simp add: tag_decision_def)

section \<open>The collected decisions\<close>

lemma set_map_filter_image: "set (List.map_filter f xs) = {y. \<exists>x \<in> set xs. f x = Some y}"
  by (induction xs) (auto simp: map_filter_simps split: option.splits)

text \<open>What a rule has to say about a request, errors aside.\<close>

definition rule_opinion ::
  "rule_evaluator \<Rightarrow> policy_request \<Rightarrow> orchestration_context \<Rightarrow> policy_profile_settings \<Rightarrow> pyval \<Rightarrow>
   policy_decision option" where
  "rule_opinion ev r c p cfg = (case ev_callback ev r c p cfg of Inl e \<Rightarrow> None | Inr x \<Rightarrow> x)"

lemma rule_opinion_Some: "rule_opinion ev r c p cfg = Some d \<longleftrightarrow> ev_callback ev r c p cfg = Inr (Some d)"
  by (auto simp: rule_opinion_def split: sum.splits)

text \<open>A successful collection is the tagged decisions of the evaluators, in their order.\<close>

lemma collect_decisions_Inr:
  "collect_decisions evs r c p cfg a s acc = Inr ds \<Longrightarrow>
   (\<forall>ev \<in> set evs. \<exists>d. ev_callback ev r c p cfg = Inr d) \<and>
   ds = acc @ List.map_filter
     (\<lambda>ev. map_option (tag_decision ev p a s) (rule_opinion ev r c p cfg)) evs"
proof (induction evs arbitrary: acc)
  case Nil
  then show ?case by (simp add: map_filter_simps)
next
  case (Cons ev evs)
  from Cons.prems obtain x where
    one: "evaluate_one ev r c p cfg a s = Inr x" and
    rest: "collect_decisions evs r c p cfg a s (case x of None \<Rightarrow> acc | Some y \<Rightarrow> acc @ [y]) = Inr ds"
    by auto
  from one obtain d where
    d: "ev_callback ev r c p cfg = Inr d" "x = map_option (tag_decision ev p a s) d"
    by (auto simp: evaluate_one_def evaluator_evaluate_def)
  from Cons.IH [OF rest] d show ?case
    by (cases d) (auto simp: map_filter_simps rule_opinion_def)
qed

lemma collect_decisions_total:
  "(\<And>ev. ev \<in> set evs \<Longrightarrow> \<exists>d. ev_callback ev r c p cfg = Inr d) \<Longrightarrow>
   \<exists>ds. collect_decisions evs r c p cfg a s acc = Inr ds"
proof (induction evs arbitrary: acc)
  case (Cons ev evs)
  from Cons.prems [of ev] obtain d where "ev_callback ev r c p cfg = Inr d" by auto
  then have "evaluate_one ev r c p cfg a s = Inr (map_option (tag_decision ev p a s) d)"
    by (simp add: evaluate_one_def evaluator_evaluate_def)
  with Cons show ?case by simp
qed simp

section \<open>The contract of a rule and of a registry\<close>

text \<open>The mode flags of a profile, which the documentation gives a meaning and no rule reads.\<close>

definition with_mode ::
  "bool \<Rightarrow> string \<Rightarrow> bool \<Rightarrow> policy_profile_settings \<Rightarrow> policy_profile_settings" where
  "with_mode en mode fc p = p\<lparr>pp_enabled := en, pp_mode := mode, pp_fail_closed := fc\<rparr>"

locale rule_contract =
  fixes callback :: rule_callback
  assumes wf: "callback r c p cfg = Inr (Some d) \<Longrightarrow> wf_decision d"
    and bare: "callback r c p cfg = Inr (Some d) \<Longrightarrow> dec_actor d = None \<and> dec_scope d = None"
    and mode_blind: "callback r c (with_mode en mode fc p) cfg = callback r c p cfg"
begin

lemma tagged_verdict:
  assumes "callback r c p cfg = Inr (Some d)"
  shows "dec_decision (tag_decision ev p a s d) = dec_decision d
    \<and> dec_actor (tag_decision ev p a s d) = Some a \<and> dec_scope (tag_decision ev p a s d) = Some s"
  using wf [OF assms] bare [OF assms] by (simp add: tag_decision_def [of ev p a s d] opt_or_def)
     (auto simp: wf_decision_def)

end

locale rule_registry =
  fixes rules :: "rule_evaluator list"
  assumes contract: "ev \<in> set rules \<Longrightarrow> rule_contract (ev_callback ev)"
begin

lemma rule_wf: "ev \<in> set rules \<Longrightarrow> ev_callback ev r c p cfg = Inr (Some d) \<Longrightarrow> wf_decision d"
  using contract rule_contract.wf by blast

lemma rule_mode_blind:
  "ev \<in> set rules \<Longrightarrow> ev_callback ev r c (with_mode en mode fc p) cfg = ev_callback ev r c p cfg"
  using contract rule_contract.mode_blind by blast

text \<open>The kinds the collection yields are the kinds the matching rules returned.\<close>

lemma collected_kinds:
  assumes "set evs \<subseteq> set rules" and "collect_decisions evs r c p cfg a s [] = Inr ds"
  shows "decision_kinds ds =
    {k. \<exists>ev \<in> set evs. \<exists>d. ev_callback ev r c p cfg = Inr (Some d) \<and> dec_decision d = Some k}"
proof -
  have ds: "ds = List.map_filter (\<lambda>ev. map_option (tag_decision ev p a s) (rule_opinion ev r c p cfg)) evs"
    using collect_decisions_Inr [OF assms(2)] by simp
  have value_kept: "dec_decision (tag_decision ev p a s d) = dec_decision d"
    if "ev \<in> set evs" "rule_opinion ev r c p cfg = Some d" for ev d
    using that assms(1) rule_wf unfolding rule_opinion_Some by (metis subsetD tag_decision_value)
  have "x \<in> set ds \<longleftrightarrow> (\<exists>ev \<in> set evs. \<exists>d. rule_opinion ev r c p cfg = Some d
      \<and> x = tag_decision ev p a s d)" for x
    unfolding ds set_map_filter_image by auto
  then have "decision_kinds ds =
    {k. \<exists>ev \<in> set evs. \<exists>d. rule_opinion ev r c p cfg = Some d \<and> dec_decision d = Some k}"
    unfolding decision_kinds_def using value_kept by (auto; metis)
  then show ?thesis by (simp only: rule_opinion_Some)
qed

text \<open>The engine over this registry implements the precedence specification.\<close>

lemma engine_verdict:
  assumes reg: "eng_registry eng = rules"
    and ev: "engine_evaluate eng r c = Inr d"
  defines "p \<equiv> resolve_policy_profile eng r c"
  shows "wf_decision d \<and> dec_decision d = Some (precedence_verdict
     {k. \<exists>ev \<in> set (registry_matching rules r). \<exists>d. ev_callback ev r c p (eng_config eng) = Inr (Some d)
          \<and> dec_decision d = Some k} (pp_default_decision p))"
proof -
  let ?a = "rpc_actor (resolve_policy_context r)" and ?s = "rpc_scope (resolve_policy_context r)"
  let ?sel = "select_decision decision_precedence"
  from ev obtain ds where
    col: "collect_decisions (registry_matching rules r) r c p (eng_config eng) ?a ?s [] = Inr ds" and
    out: "d = (case ?sel ds of Some x \<Rightarrow> x | None \<Rightarrow> default_policy_decision p ?a ?s)"
    unfolding engine_evaluate_def p_def reg by (auto simp: Let_def split: option.splits)
  have sub: "set (registry_matching rules r) \<subseteq> set rules" by (auto simp: set_registry_matching)
  note kinds = collected_kinds [OF sub col]
  have wf_ds: "wf_decision x" if "x \<in> set ds" for x
    using collect_decisions_Inr [OF col] that by (auto simp: set_map_filter_image)
  show ?thesis
  proof (cases "?sel ds")
    case None
    with out have "d = default_policy_decision p ?a ?s" by simp
    moreover from None have "decision_kinds ds = {}" by (simp only: select_decision_None)
    ultimately show ?thesis unfolding p_def [symmetric] kinds [symmetric] by (simp add: default_policy_decision_verdict)
  next
    case (Some x)
    with out have "x = d" by simp
    with Some select_decision_kind [OF Some, of "pp_default_decision p"] select_decision_mem [OF Some]
    show ?thesis unfolding kinds [symmetric] using wf_ds by simp
  qed
qed

lemma engine_total:
  assumes "eng_registry eng = rules"
    and "\<And>ev. ev \<in> set (registry_matching rules r) \<Longrightarrow>
      \<exists>d. ev_callback ev r c (resolve_policy_profile eng r c) (eng_config eng) = Inr d"
  shows "\<exists>d. engine_evaluate eng r c = Inr d"
proof -
  from assms(2) obtain ds where
    "collect_decisions (registry_matching rules r) r c (resolve_policy_profile eng r c) (eng_config eng)
       (rpc_actor (resolve_policy_context r)) (rpc_scope (resolve_policy_context r)) [] = Inr ds"
    using collect_decisions_total by blast
  then show ?thesis
    by (simp add: engine_evaluate_def assms(1) Let_def split: option.splits)
qed

text \<open>Two engines over the same configuration whose registries hold the same rules, in any order.\<close>

lemma engine_order_irrelevant:
  assumes "eng_registry eng = rules" "eng_registry eng' = rules'" "set rules' = set rules"
    and "eng_config eng' = eng_config eng" "eng_settings eng' = eng_settings eng"
    and "engine_evaluate eng r c = Inr d" "engine_evaluate eng' r c = Inr d'"
  shows "dec_decision d = dec_decision d'"
proof -
  have other: "rule_registry rules'"
    using assms(3) contract by (simp add: rule_registry_def)
  have same_profile: "resolve_policy_profile eng' r c = resolve_policy_profile eng r c"
    unfolding resolve_policy_profile_def resolved_profile_name_def assms(4,5) by (rule refl)
  show ?thesis
    using engine_verdict [OF assms(1,6)] rule_registry.engine_verdict [OF other assms(2,7)]
    by (simp add: same_profile assms(3,4) set_registry_matching)
qed

end

section \<open>Every rule keeps the contract\<close>

lemma with_mode_fields [simp]:
  "pp_name (with_mode en mode fc p) = pp_name p"
  "pp_default_decision (with_mode en mode fc p) = pp_default_decision p"
  "pp_usecases (with_mode en mode fc p) = pp_usecases p"
  "pp_strategies (with_mode en mode fc p) = pp_strategies p"
  "pp_agents (with_mode en mode fc p) = pp_agents p"
  "pp_llm (with_mode en mode fc p) = pp_llm p"
  "pp_memory (with_mode en mode fc p) = pp_memory p"
  "pp_tools (with_mode en mode fc p) = pp_tools p"
  "pp_approval (with_mode en mode fc p) = pp_approval p"
  "pp_fallback (with_mode en mode fc p) = pp_fallback p"
  "pp_trace (with_mode en mode fc p) = pp_trace p"
  "pp_stream (with_mode en mode fc p) = pp_stream p"
  "pp_visualization (with_mode en mode fc p) = pp_visualization p"
  "pp_capabilities (with_mode en mode fc p) = pp_capabilities p"
  "pp_health (with_mode en mode fc p) = pp_health p"
  by (simp_all add: with_mode_def)

text \<open>A result that is an error, no opinion, or a decision as the class methods build it.\<close>

definition sound_result :: "policy_decision option res \<Rightarrow> bool" where
  "sound_result res =
    (case res of Inr (Some d) \<Rightarrow> wf_decision d \<and> dec_actor d = None \<and> dec_scope d = None | _ \<Rightarrow> True)"

lemma sound_result_simps [simp]:
  "sound_result (Inl e)"
  "sound_result (Inr None)"
  "sound_result (Inr (Some (decision_allow rs rc md obs None None)))"
  "sound_result (Inr (Some (decision_deny rs rc md obs None None)))"
  "sound_result (Inr (Some (build_approval_required_decision r' c' t md v)))"
  by (simp_all add: sound_result_def) (simp_all add: decision_makers)

lemma rule_contractI:
  assumes "\<And>r c p cfg. sound_result (cb r c p cfg)"
    and "\<And>r c p cfg en mode fc. cb r c (with_mode en mode fc p) cfg = cb r c p cfg"
  shows "rule_contract cb"
proof
  fix r c p cfg d
  assume "cb r c p cfg = Inr (Some d)"
  with assms(1) [of r c p cfg] show "wf_decision d" and "dec_actor d = None \<and> dec_scope d = None"
    by (simp_all add: sound_result_def)
qed (rule assms(2))

lemmas rule_splits = if_split option.split sum.split pyval.split pyerr.split

lemma usecase_contract: "rule_contract evaluate_usecase_access"
proof (rule rule_contractI)
  show "sound_result (evaluate_usecase_access r c p cfg)" for r c p cfg
    by (simp add: evaluate_usecase_access_def Let_def split: rule_splits)
qed (unfold evaluate_usecase_access_def with_mode_fields, rule refl)

lemma session_contract: "rule_contract evaluate_session_access"
proof (rule rule_contractI)
  show "sound_result (evaluate_session_access r c p cfg)" for r c p cfg
    by (simp add: evaluate_session_access_def Let_def)
qed (unfold evaluate_session_access_def with_mode_fields, rule refl)

lemma strategy_contract: "rule_contract (evaluate_strategy_access)"
proof (rule rule_contractI)
  have agent: "sound_result (strategy_agent_check p cfg u un an ow)" if "sound_result ow"
    for p cfg u un an ow
    using that by (simp add: strategy_agent_check_def split: option.split)
  have "sound_result (strategy_selected_check p cfg s u un sn an)" for p cfg s u un sn an
    by (simp add: strategy_selected_check_def agent split: option.split)
  then show "sound_result (evaluate_strategy_access r c p cfg)" for r c p cfg
    by (simp add: evaluate_strategy_access_def Let_def split: option.split sum.split pyerr.split)
qed (unfold evaluate_strategy_access_def strategy_selected_check_def strategy_agent_check_def
    with_mode_fields, rule refl)

lemma agent_contract: "rule_contract (evaluate_agent_access)"
proof (rule rule_contractI)
  show "sound_result (evaluate_agent_access r c p cfg)" for r c p cfg
    by (simp add: evaluate_agent_access_def Let_def split: option.split sum.split pyerr.split)
qed (unfold evaluate_agent_access_def with_mode_fields, rule refl)

lemma llm_contract: "rule_contract (\<lambda>r c p cfg. evaluate_llm_request r c p)"
proof (rule rule_contractI)
  have allow: "sound_result (llm_allowlist_check r c p n pc)" for r c p n pc
    unfolding llm_allowlist_check_def Let_def
    by (simp split: pyval.split)
  have bound: "sound_result (try_bind m f)" if "\<And>x. sound_result (f x)" for m :: "pydict res" and f
    using that by (cases m) simp_all
  show "sound_result (evaluate_llm_request r c p)" for r c p
    unfolding evaluate_llm_request_def
    by (simp add: allow bound split: option.split pyval.split)
qed (unfold evaluate_llm_request_def llm_allowlist_check_def with_mode_fields, rule refl)

lemma memory_contract: "rule_contract (\<lambda>r c p cfg. evaluate_memory_request r c p)"
proof (rule rule_contractI)
  show "sound_result (evaluate_memory_request r c p)" for r c p
    by (simp add: evaluate_memory_request_def Let_def)
qed (unfold evaluate_memory_request_def with_mode_fields, rule refl)

lemma tool_contract: "rule_contract (\<lambda>r c p cfg. evaluate_tool_request r c p)"
proof (rule rule_contractI)
  have "sound_result (tool_execution_check r p tn sl ap ik ow)" if "sound_result ow"
    for r p tn sl ap ik ow
    using that by (simp add: tool_execution_check_def Let_def)
  then show "sound_result (evaluate_tool_request r c p)" for r c p
    by (simp add: evaluate_tool_request_def Let_def)
qed (unfold evaluate_tool_request_def tool_execution_check_def with_mode_fields, rule refl)

lemma visualization_contract: "rule_contract evaluate_visualization_request"
proof (rule rule_contractI)
  have source: "sound_result (Inr (evaluate_data_source s ds))" for s ds
    by (simp add: evaluate_data_source_def Let_def split: option.split)
  have build: "sound_result (visualization_build_check s md)" for s md
    by (simp add: visualization_build_check_def Let_def source)
  have retrieve: "sound_result (visualization_retrieve_check s md)" for s md
    by (simp add: visualization_retrieve_check_def Let_def)
  show "sound_result (evaluate_visualization_request r c p cfg)" for r c p cfg
    by (simp add: evaluate_visualization_request_def Let_def build retrieve)
qed (unfold evaluate_visualization_request_def with_mode_fields, rule refl)

lemma fallback_contract: "rule_contract (\<lambda>r c p cfg. evaluate_fallback_request r c p)"
proof (rule rule_contractI)
  show "sound_result (evaluate_fallback_request r c p)" for r c p
    by (simp add: evaluate_fallback_request_def Let_def)
qed (unfold evaluate_fallback_request_def with_mode_fields, rule refl)

lemma trace_contract: "rule_contract (\<lambda>r c p cfg. evaluate_trace_request r c p)"
proof (rule rule_contractI)
  show "sound_result (evaluate_trace_request r c p)" for r c p
    by (simp add: evaluate_trace_request_def Let_def)
qed (unfold evaluate_trace_request_def with_mode_fields, rule refl)

lemma stream_contract: "rule_contract (\<lambda>r c p cfg. evaluate_stream_request r c p)"
proof (rule rule_contractI)
  show "sound_result (evaluate_stream_request r c p)" for r c p
    by (simp add: evaluate_stream_request_def Let_def)
qed (unfold evaluate_stream_request_def with_mode_fields, rule refl)

lemma capabilities_contract: "rule_contract (\<lambda>r c p cfg. evaluate_capabilities_request r c p)"
proof (rule rule_contractI)
  show "sound_result (evaluate_capabilities_request r c p)" for r c p
    by (simp add: evaluate_capabilities_request_def Let_def)
qed (unfold evaluate_capabilities_request_def with_mode_fields, rule refl)

lemma health_contract: "rule_contract (\<lambda>r c p cfg. evaluate_health_request r c p)"
proof (rule rule_contractI)
  show "sound_result (evaluate_health_request r c p)" for r c p
    by (simp add: evaluate_health_request_def Let_def)
qed (unfold evaluate_health_request_def with_mode_fields, rule refl)

section \<open>The interpretations\<close>

interpretation usecase_rule: rule_contract evaluate_usecase_access
  by (rule usecase_contract)

interpretation session_rule: rule_contract evaluate_session_access
  by (rule session_contract)

interpretation strategy_rule: rule_contract "evaluate_strategy_access"
  by (rule strategy_contract)

interpretation agent_rule: rule_contract "evaluate_agent_access"
  by (rule agent_contract)

interpretation llm_rule: rule_contract "\<lambda>r c p cfg. evaluate_llm_request r c p"
  by (rule llm_contract)

interpretation memory_rule: rule_contract "\<lambda>r c p cfg. evaluate_memory_request r c p"
  by (rule memory_contract)

interpretation tool_rule: rule_contract "\<lambda>r c p cfg. evaluate_tool_request r c p"
  by (rule tool_contract)

interpretation visualization_rule: rule_contract evaluate_visualization_request
  by (rule visualization_contract)

interpretation fallback_rule: rule_contract "\<lambda>r c p cfg. evaluate_fallback_request r c p"
  by (rule fallback_contract)

interpretation trace_rule: rule_contract "\<lambda>r c p cfg. evaluate_trace_request r c p"
  by (rule trace_contract)

interpretation stream_rule: rule_contract "\<lambda>r c p cfg. evaluate_stream_request r c p"
  by (rule stream_contract)

interpretation capabilities_rule: rule_contract "\<lambda>r c p cfg. evaluate_capabilities_request r c p"
  by (rule capabilities_contract)

interpretation health_rule: rule_contract "\<lambda>r c p cfg. evaluate_health_request r c p"
  by (rule health_contract)

lemma set_default_registry:
  "set (load_default_policy_registry) =
    {usecase_access_rule, session_access_rule, strategy_access_rule, agent_access_rule,
     llm_access_rule, memory_access_rule, tool_access_rule, visualization_access_rule,
     fallback_access_rule, trace_access_rule, stream_access_rule, capabilities_access_rule,
     health_access_rule}"
  by (simp add: load_default_policy_registry_def register_rule_def)

interpretation default_registry: rule_registry "load_default_policy_registry"
proof (rule rule_registry.intro)
  fix ev
  assume "ev \<in> set (load_default_policy_registry)"
  then show "rule_contract (ev_callback ev)"
    unfolding set_default_registry
    by (auto simp: registry_rule_defs usecase_contract session_contract strategy_contract
        agent_contract llm_contract memory_contract tool_contract visualization_contract
        fallback_contract trace_contract stream_contract capabilities_contract health_contract)
qed

end
