(* ===== verification/Py_Text.thy ===== *)
theory Py_Text
  imports Py_Prelude "HOL-Library.List_Lexorder" "HOL-Library.Char_ord"
begin

text \<open>
  The textual forms of the standard library that the policy cache and the audit trail depend on:
  decimal numbers, UTF-8, \<open>json.dumps\<close> with sorted keys and compact separators, and the ISO form of a
  UTC time in microseconds since 1970. Three functions come from outside the repository's code and
  are fields of \<open>py_texts\<close>: the digest (\<open>hashlib.sha256(...).hexdigest()\<close>, computed by OpenSSL), the
  shortest decimal form of a float, and \<open>str\<close> of an object that JSON does not know.
\<close>

record py_texts =
  tx_digest :: "string \<Rightarrow> string"
  tx_float_repr :: "64 word \<Rightarrow> string"
  tx_str :: "pyval \<Rightarrow> string"

section \<open>Numbers\<close>

definition digit :: "nat \<Rightarrow> char" where
  "digit n = ''0123456789abcdef'' ! n"

fun show_nat :: "nat \<Rightarrow> string" where
  "show_nat n = (if n < 10 then [digit n] else show_nat (n div 10) @ [digit (n mod 10)])"

declare show_nat.simps [simp del]

definition show_int :: "int \<Rightarrow> string" where
  "show_int i = (if i < 0 then CHR ''-'' # show_nat (nat (- i)) else show_nat (nat i))"

text \<open>\<open>f"{n:0wd}"\<close> for a natural number.\<close>

definition pad_nat :: "nat \<Rightarrow> nat \<Rightarrow> string" where
  "pad_nat w n = replicate (w - length (show_nat n)) (CHR ''0'') @ show_nat n"

definition digit_value :: "char \<Rightarrow> nat" where
  "digit_value c = of_char c - 48"

definition read_nat :: "string \<Rightarrow> nat" where
  "read_nat s = foldl (\<lambda>n c. 10 * n + digit_value c) 0 s"

lemma digit_value_digit: "n < 10 \<Longrightarrow> digit_value (digit n) = n"
proof -
  assume "n < 10"
  then have "n = 0 \<or> n = 1 \<or> n = 2 \<or> n = 3 \<or> n = 4 \<or> n = 5 \<or> n = 6 \<or> n = 7 \<or> n = 8 \<or> n = 9" by presburger
  then show ?thesis by (elim disjE) (simp_all add: digit_value_def digit_def)
qed

lemma read_nat_snoc: "read_nat (s @ [c]) = 10 * read_nat s + digit_value c"
  by (simp add: read_nat_def)

lemma read_show_nat [simp]: "read_nat (show_nat n) = n"
proof (induction n rule: show_nat.induct)
  case (1 n)
  show ?case
  proof (cases "n < 10")
    case True
    then show ?thesis by (simp add: show_nat.simps [of n] read_nat_def digit_value_digit)
  next
    case False
    with 1 have "read_nat (show_nat (n div 10)) = n div 10" by simp
    with False show ?thesis
      by (simp add: show_nat.simps [of n] read_nat_snoc digit_value_digit)
  qed
qed

lemma show_nat_inject: "show_nat m = show_nat n \<longleftrightarrow> m = n"
  by (metis read_show_nat)

section \<open>UTF-8\<close>

definition utf8_char :: "char \<Rightarrow> string" where
  "utf8_char c =
    (let n = (of_char c :: nat)
     in if n < 128 then [c] else [char_of (192 + n div 64), char_of (128 + n mod 64)])"

lemma utf8_char_code [code]:
  "utf8_char (Char b0 b1 b2 b3 b4 b5 b6 b7) =
    (if b7 then [Char b6 b7 False False False False True True, Char b0 b1 b2 b3 b4 b5 False True]
     else [Char b0 b1 b2 b3 b4 b5 b6 b7])"
  by (cases b0; cases b1; cases b2; cases b3; cases b4; cases b5; cases b6; cases b7;
      simp add: utf8_char_def char_of_def bit_iff_odd_drop_bit)

definition utf8 :: "string \<Rightarrow> string" where
  "utf8 s = concat (List.map utf8_char s)"

lemma utf8_ascii: "\<forall>c \<in> set s. (of_char c :: nat) < 128 \<Longrightarrow> utf8 s = s"
  by (induction s) (auto simp: utf8_def utf8_char_def Let_def)

section \<open>JSON\<close>

definition json_char :: "char \<Rightarrow> string" where
  "json_char c =
    (let n = (of_char c :: nat)
     in if n = 34 then [CHR 0x5C, CHR 0x22]
        else if n = 92 then [CHR 0x5C, CHR 0x5C]
        else if n = 10 then [CHR 0x5C, CHR ''n'']
        else if n = 13 then [CHR 0x5C, CHR ''r'']
        else if n = 9 then [CHR 0x5C, CHR ''t'']
        else if n = 12 then [CHR 0x5C, CHR ''f'']
        else if n = 8 then [CHR 0x5C, CHR ''b'']
        else if 32 \<le> n \<and> n \<le> 126 then [c]
        else CHR 0x5C # ''u00'' @ [digit (n div 16), digit (n mod 16)])"

definition json_str :: "string \<Rightarrow> string" where
  "json_str s = CHR 0x22 # concat (List.map json_char s) @ [CHR 0x22]"

fun join :: "string \<Rightarrow> string list \<Rightarrow> string" where
  "join sep [] = []"
| "join sep [x] = x"
| "join sep (x # y # ys) = x @ sep @ join sep (y # ys)"

text \<open>\<open>json.dumps(v, sort_keys=True, separators=(",", ":"), default=str)\<close>.\<close>

fun json_dumps :: "py_texts \<Rightarrow> pyval \<Rightarrow> string" where
  "json_dumps tx PNone = ''null''"
| "json_dumps tx (PBool b) = (if b then ''true'' else ''false'')"
| "json_dumps tx (PInt i) = show_int i"
| "json_dumps tx (PFloat w) = tx_float_repr tx w"
| "json_dumps tx (PStr s) = json_str s"
| "json_dumps tx (PList xs) = ''['' @ join '','' (List.map (json_dumps tx) xs) @ '']''"
| "json_dumps tx (PTuple xs) = ''['' @ join '','' (List.map (json_dumps tx) xs) @ '']''"
| "json_dumps tx (PDict d) =
    CHR 0x7B # join '',''
      (List.map (\<lambda>kv. json_str (fst kv) @ '':'' @ snd kv)
        (sort_key fst (List.map (\<lambda>(k, v). (k, json_dumps tx v)) d))) @ [CHR 0x7D]"
| "json_dumps tx v = json_str (tx_str tx v)"

text \<open>What is printed is ASCII when the float forms are, so that encoding it changes nothing.\<close>

definition ascii :: "string \<Rightarrow> bool" where
  "ascii s \<longleftrightarrow> (\<forall>c \<in> set s. (of_char c :: nat) < 128)"

lemma ascii_simps [simp]:
  "ascii []" "ascii (c # s) \<longleftrightarrow> (of_char c :: nat) < 128 \<and> ascii s"
  "ascii (s @ t) \<longleftrightarrow> ascii s \<and> ascii t"
  by (auto simp: ascii_def)

lemma ascii_digit: "n < 16 \<Longrightarrow> (of_char (digit n) :: nat) < 128"
proof -
  assume "n < 16"
  then have "digit n \<in> set ''0123456789abcdef''" unfolding digit_def by (intro nth_mem) simp
  then show ?thesis by auto
qed

lemma ascii_show_nat: "ascii (show_nat n)"
proof (induction n rule: show_nat.induct)
  case (1 n)
  then show ?case by (cases "n < 10") (simp_all add: show_nat.simps [of n] ascii_digit)
qed

lemma ascii_json_char: "ascii (json_char c)"
proof -
  have "(of_char c :: nat) < 256" by (metis of_char_mod_256 mod_less_divisor zero_less_numeral)
  then have "(of_char c :: nat) div 16 < 16" by (simp add: less_mult_imp_div_less)
  then show ?thesis by (simp add: json_char_def Let_def ascii_digit)
qed

lemma ascii_concat: "(\<And>x. x \<in> set xs \<Longrightarrow> ascii x) \<Longrightarrow> ascii (concat xs)"
  by (induction xs) auto

lemma ascii_json_str: "ascii (json_str s)"
  by (auto simp: json_str_def intro!: ascii_concat ascii_json_char)

lemma ascii_join: "ascii sep \<Longrightarrow> (\<And>x. x \<in> set xs \<Longrightarrow> ascii x) \<Longrightarrow> ascii (join sep xs)"
  by (induction sep xs rule: join.induct) auto

lemma ascii_json_dumps:
  "(\<And>w. ascii (tx_float_repr tx w)) \<Longrightarrow> ascii (json_dumps tx v)"
proof (induction tx v rule: json_dumps.induct)
  case (8 tx d)
  then show ?case by (auto intro!: ascii_join ascii_json_str)
qed (auto simp: show_int_def ascii_show_nat ascii_json_str intro!: ascii_join)

section \<open>The ISO form of a UTC time\<close>

text \<open>The civil date of a day counted from 1970-01-01 (proleptic Gregorian calendar).\<close>

definition civil_of_days :: "int \<Rightarrow> int \<times> int \<times> int" where
  "civil_of_days z0 =
    (let z = z0 + 719468;
         era = z div 146097;
         doe = z mod 146097;
         yoe = (doe - doe div 1460 + doe div 36524 - doe div 146096) div 365;
         doy = doe - (365 * yoe + yoe div 4 - yoe div 100);
         mp = (5 * doy + 2) div 153;
         d = doy - (153 * mp + 2) div 5 + 1;
         m = (if mp < 10 then mp + 3 else mp - 9);
         y = yoe + era * 400 + (if m \<le> 2 then 1 else 0)
     in (y, m, d))"

text \<open>\<open>datetime.isoformat()\<close> of an aware UTC time given in microseconds since the epoch.\<close>

definition isoformat :: "int \<Rightarrow> string" where
  "isoformat t =
    (let (y, m, d) = civil_of_days (t div 86400000000);
         r = t mod 86400000000;
         s = r div 1000000;
         us = r mod 1000000
     in pad_nat 4 (nat y) @ ''-'' @ pad_nat 2 (nat m) @ ''-'' @ pad_nat 2 (nat d) @ ''T''
        @ pad_nat 2 (nat (s div 3600)) @ '':'' @ pad_nat 2 (nat (s div 60 mod 60)) @ '':''
        @ pad_nat 2 (nat (s mod 60))
        @ (if us = 0 then [] else ''.'' @ pad_nat 6 (nat us)) @ ''+00:00'')"

end
