(* ===== verification/Policy_Cache.thy ===== *)
theory Policy_Cache
  imports Policy_Matching Py_Text
begin

text \<open>
  The decision cache (\<open>policy/decision_cache.py\<close>): the cache key built from the stable dimensions of a
  request, the sanitized copy that is stored, and the bounded \<open>OrderedDict\<close> with its time to live.

  The entries are an association list in the order of the \<open>OrderedDict\<close>, oldest use first. Every call
  of \<open>datetime.now(UTC)\<close> is an argument, in microseconds: \<open>get\<close> reads the clock once, \<open>put\<close> twice (the
  expiry and the purge). The lemmas show the bound, the order of eviction, what \<open>get\<close> returns after
  \<open>put\<close>, and which entries a cache can hold; the last is the contract \<open>decision_store\<close> that the policy
  service relies on, interpreted at the end on this cache.
\<close>

section \<open>Sanitizing\<close>

definition safe_metadata_keys :: "string list" where
  "safe_metadata_keys =
    [''policy_profile'', ''rule'', ''resource'', ''payload_category'', ''scope_type'', ''safety_level'',
     ''fallback_blocked'', ''tool_known'', ''tool_enabled'', ''tool_supports_streaming'',
     ''tool_approval_required'', ''stream_requested'', ''memory_scope_type'', ''memory_scope_present'',
     ''memory_write'', ''memory_admin'', ''memory_type'', ''stable_key_present'', ''allow_retrieval'',
     ''allow_llm_context'', ''memory_intent_explicit'', ''memory_sensitivity'', ''event_name'',
     ''event_type'', ''field_names'', ''provider'', ''tool_group'', ''configured'']"

definition normalize_safe_text :: "string option \<Rightarrow> string option" where
  "normalize_safe_text v = (case v of None \<Rightarrow> None | Some s \<Rightarrow> read_optional_text (PStr s))"

fun sanitize_value :: "pyval \<Rightarrow> pyval" where
  "sanitize_value PNone = PNone"
| "sanitize_value (PBool b) = PBool b"
| "sanitize_value (PInt i) = PInt i"
| "sanitize_value (PFloat w) = PFloat w"
| "sanitize_value (PStr s) = py_opt_str (normalize_safe_text (Some s))"
| "sanitize_value (PDict d) = PDict (List.map (\<lambda>(k, v). (k, sanitize_value v)) d)"
| "sanitize_value (PTuple xs) = PList (List.map sanitize_value xs)"
| "sanitize_value (PList xs) = PList (List.map sanitize_value xs)"
| "sanitize_value (PSet xs) = PList (List.map sanitize_value xs)"
| "sanitize_value (PBytes s) = PStr ''bytes''"
| "sanitize_value (PObj c) = PStr c"

text \<open>\<open>_safe_metadata_for_storage\<close> and \<open>_safe_metadata_for_key\<close> have the same body.\<close>

fun safe_metadata :: "pydict \<Rightarrow> pydict" where
  "safe_metadata [] = []"
| "safe_metadata ((k, v) # d) =
    (if k \<in> set safe_metadata_keys then (k, sanitize_value v) # safe_metadata d else safe_metadata d)"

definition sanitize_obligation :: "policy_obligation \<Rightarrow> policy_obligation" where
  "sanitize_obligation ob =
    \<lparr>obl_kind = obl_kind ob, obl_target = normalize_safe_text (obl_target ob),
     obl_value = sanitize_value (obl_value ob), obl_metadata = safe_metadata (obl_metadata ob)\<rparr>"

definition sanitize_decision :: "policy_decision \<Rightarrow> policy_decision" where
  "sanitize_decision d =
    policy_decision (dec_allowed d) (dec_reason d) (dec_requires_approval d)
      (safe_metadata (dec_metadata d)) (dec_decision d) (dec_reason_code d)
      (List.map sanitize_obligation (dec_obligations d)) None None"

section \<open>The key\<close>

definition hash_mapping :: "py_texts \<Rightarrow> pydict \<Rightarrow> string" where
  "hash_mapping tx d = tx_digest tx (utf8 (json_dumps tx (PDict d)))"

definition hash_optional_text :: "py_texts \<Rightarrow> string option \<Rightarrow> string option" where
  "hash_optional_text tx v = map_option (\<lambda>s. tx_digest tx (utf8 s)) (normalize_safe_text v)"

definition scope_dimensions :: "policy_scope \<Rightarrow> pydict" where
  "scope_dimensions s =
    [(''tenant_id'', py_opt_str (scope_tenant_id s)), (''project_id'', py_opt_str (scope_project_id s)),
     (''user_id'', py_opt_str (scope_user_id s)), (''session_id'', py_opt_str (scope_session_id s)),
     (''usecase_name'', py_opt_str (scope_usecase_name s)),
     (''strategy_name'', py_opt_str (scope_strategy_name s)),
     (''agent_name'', py_opt_str (scope_agent_name s)),
     (''memory_scope'', py_opt_str (scope_memory_scope s))]"

definition build_policy_cache_key ::
  "py_texts \<Rightarrow> policy_request \<Rightarrow> orchestration_context \<Rightarrow> string \<Rightarrow> string" where
  "build_policy_cache_key tx request context profile_name =
    (let resolved = resolve_policy_context request;
         evaluation = rpc_evaluation resolved;
         hashed = (\<lambda>v. py_opt_str (hash_optional_text tx v));
         safe_payload =
           [(''action'', PStr (req_action request)),
            (''component'', PStr (req_component request)),
            (''resource'', hashed (req_resource request)),
            (''profile'', PStr profile_name),
            (''trace_id'', hashed (str_or (eval_trace_id evaluation) (rc_trace_id (octx_request context)))),
            (''usecase'', hashed (eval_usecase_name evaluation)),
            (''strategy_name'', hashed (eval_strategy_name evaluation)),
            (''agent_name'', hashed (eval_agent_name evaluation)),
            (''risk_level'', hashed (eval_risk_level evaluation)),
            (''tags'', py_strs (sort (eval_tags evaluation))),
            (''actor_roles'', py_strs (sort (actor_roles (rpc_actor resolved)))),
            (''actor_type'', PStr (actor_type (rpc_actor resolved))),
            (''scope_hash'', PStr (hash_mapping tx (scope_dimensions (rpc_scope resolved)))),
            (''metadata_hash'', PStr (hash_mapping tx (safe_metadata (req_metadata request)))),
            (''context_usecase'', hashed (rc_usecase (octx_request context)))]
     in tx_digest tx (utf8 (json_dumps tx (PDict safe_payload))))"

section \<open>The cache\<close>

record cached_decision =
  ce_decision :: policy_decision
  ce_expires_at :: int

record decision_cache =
  dc_settings :: policy_decision_cache_settings
  dc_entries :: "(string \<times> cached_decision) list"
  dc_hits :: int
  dc_misses :: int
  dc_evictions :: int

definition new_cache :: "policy_decision_cache_settings \<Rightarrow> decision_cache" where
  "new_cache settings =
    \<lparr>dc_settings = settings, dc_entries = [], dc_hits = 0, dc_misses = 0, dc_evictions = 0\<rparr>"

definition cache_enabled :: "decision_cache \<Rightarrow> bool" where
  "cache_enabled c = pdc_enabled (dc_settings c)"

definition move_to_end :: "string \<Rightarrow> (string \<times> 'v) list \<Rightarrow> (string \<times> 'v) list" where
  "move_to_end k d = (case map_of d k of None \<Rightarrow> d | Some v \<Rightarrow> dict_pop k d @ [(k, v)])"

definition cache_get ::
  "py_texts \<Rightarrow> int \<Rightarrow> decision_cache \<Rightarrow> policy_request \<Rightarrow> orchestration_context \<Rightarrow> string \<Rightarrow>
   policy_decision option \<times> decision_cache" where
  "cache_get tx now c request context profile_name =
    (if \<not> cache_enabled c then (None, c\<lparr>dc_misses := dc_misses c + 1\<rparr>)
     else
       let key = build_policy_cache_key tx request context profile_name
       in case map_of (dc_entries c) key of
            None \<Rightarrow> (None, c\<lparr>dc_misses := dc_misses c + 1\<rparr>)
          | Some entry \<Rightarrow>
              if ce_expires_at entry \<le> now then
                (None, c\<lparr>dc_entries := dict_pop key (dc_entries c), dc_misses := dc_misses c + 1\<rparr>)
              else
                (Some (ce_decision entry),
                 c\<lparr>dc_entries := move_to_end key (dc_entries c), dc_hits := dc_hits c + 1\<rparr>))"

definition purge_expired :: "int \<Rightarrow> decision_cache \<Rightarrow> decision_cache" where
  "purge_expired now c =
    c\<lparr>dc_entries := filter (\<lambda>(k, e). \<not> ce_expires_at e \<le> now) (dc_entries c)\<rparr>"

text \<open>The loop \<open>while len(entries) > max_entries: popitem(last=False)\<close>.\<close>

fun trim_loop :: "nat \<Rightarrow> (string \<times> 'v) list \<Rightarrow> int \<Rightarrow> (string \<times> 'v) list \<times> int" where
  "trim_loop max_entries [] evictions = ([], evictions)"
| "trim_loop max_entries (e # es) evictions =
    (if length (e # es) > max_entries then trim_loop max_entries es (evictions + 1)
     else (e # es, evictions))"

definition cache_limit :: "decision_cache \<Rightarrow> nat" where
  "cache_limit c = nat (max (pdc_max_entries (dc_settings c)) 0)"

definition cache_trim :: "int \<Rightarrow> decision_cache \<Rightarrow> decision_cache" where
  "cache_trim now c0 =
    (let c = purge_expired now c0;
         (es, ev) = trim_loop (cache_limit c) (dc_entries c) (dc_evictions c)
     in c\<lparr>dc_entries := es, dc_evictions := ev\<rparr>)"

definition cache_ttl :: "decision_cache \<Rightarrow> int" where
  "cache_ttl c = 1000000 * max (pdc_ttl_seconds (dc_settings c)) 1"

definition cache_put ::
  "py_texts \<Rightarrow> int \<Rightarrow> int \<Rightarrow> decision_cache \<Rightarrow> policy_request \<Rightarrow> orchestration_context \<Rightarrow> string \<Rightarrow>
   policy_decision \<Rightarrow> policy_decision \<times> decision_cache" where
  "cache_put tx now now_trim c request context profile_name d =
    (if \<not> cache_enabled c then (d, c)
     else
       let key = build_policy_cache_key tx request context profile_name;
           stored = sanitize_decision d;
           entry = \<lparr>ce_decision = stored, ce_expires_at = now + cache_ttl c\<rparr>;
           entries = move_to_end key (dict_set key entry (dc_entries c))
       in (stored, cache_trim now_trim (c\<lparr>dc_entries := entries\<rparr>)))"

record cache_stats =
  cs_enabled :: bool
  cs_size :: int
  cs_max_entries :: int
  cs_ttl_seconds :: int
  cs_hits :: int
  cs_misses :: int
  cs_evictions :: int

definition cache_snapshot :: "int \<Rightarrow> decision_cache \<Rightarrow> cache_stats \<times> decision_cache" where
  "cache_snapshot now c0 =
    (let c = purge_expired now c0
     in (\<lparr>cs_enabled = cache_enabled c, cs_size = int (length (dc_entries c)),
          cs_max_entries = pdc_max_entries (dc_settings c),
          cs_ttl_seconds = pdc_ttl_seconds (dc_settings c),
          cs_hits = dc_hits c, cs_misses = dc_misses c, cs_evictions = dc_evictions c\<rparr>, c))"

section \<open>Lemmas on sanitizing\<close>

lemma normalize_safe_text_idem [simp]:
  "normalize_safe_text (normalize_safe_text v) = normalize_safe_text v"
  by (auto simp: normalize_safe_text_def read_optional_text_def Let_def split: option.splits)

lemma sanitize_py_opt_str [simp]:
  "sanitize_value (py_opt_str (normalize_safe_text v)) = py_opt_str (normalize_safe_text v)"
  using normalize_safe_text_idem [of v]
  by (cases "normalize_safe_text v") (auto simp: py_opt_str_def)

text \<open>A class name is an identifier, so sanitizing it again leaves it as it is.\<close>

fun class_names_ok :: "pyval \<Rightarrow> bool" where
  "class_names_ok (PObj c) = (c \<noteq> [] \<and> strip c = c)"
| "class_names_ok (PDict d) = (\<forall>(k, v) \<in> set d. class_names_ok v)"
| "class_names_ok (PTuple xs) = (\<forall>x \<in> set xs. class_names_ok x)"
| "class_names_ok (PList xs) = (\<forall>x \<in> set xs. class_names_ok x)"
| "class_names_ok (PSet xs) = (\<forall>x \<in> set xs. class_names_ok x)"
| "class_names_ok _ = True"

lemma sanitize_value_idem: "class_names_ok v \<Longrightarrow> sanitize_value (sanitize_value v) = sanitize_value v"
proof (induction v rule: sanitize_value.induct)
  case (5 s)
  then show ?case by (simp del: sanitize_value.simps(5) add: sanitize_value.simps(5) [of s])
qed (force simp: normalize_safe_text_def read_optional_text_def strip_def rstrip_def py_space_def
      py_opt_str_def Let_def)+

lemma map_of_safe_metadata:
  "map_of (safe_metadata d) k =
    (if k \<in> set safe_metadata_keys then map_option sanitize_value (map_of d k) else None)"
  by (induction d rule: safe_metadata.induct) auto

lemma safe_metadata_dom: "fst ` set (safe_metadata d) \<subseteq> set safe_metadata_keys"
  by (induction d rule: safe_metadata.induct) auto

lemma safe_metadata_unsafe_key:
  "k \<notin> set safe_metadata_keys \<Longrightarrow> safe_metadata (dict_set k v d) = safe_metadata d"
  by (induction d rule: safe_metadata.induct) (auto simp: dict_set_def)

lemma sanitize_decision_keeps [simp]:
  "dec_reason (sanitize_decision d) = dec_reason d"
  "dec_reason_code (sanitize_decision d) = dec_reason_code d"
  "dec_metadata (sanitize_decision d) = safe_metadata (dec_metadata d)"
  "dec_actor (sanitize_decision d) = None" "dec_scope (sanitize_decision d) = None"
  "wf_decision (sanitize_decision d)"
  by (simp_all add: sanitize_decision_def)

lemma sanitize_decision_value [simp]:
  "wf_decision d \<Longrightarrow> dec_decision (sanitize_decision d) = dec_decision d"
  by (auto simp: sanitize_decision_def wf_decision_def [of d])

lemma sanitize_decision_flags [simp]:
  "wf_decision d \<Longrightarrow> dec_allowed (sanitize_decision d) = dec_allowed d"
  "wf_decision d \<Longrightarrow> dec_requires_approval (sanitize_decision d) = dec_requires_approval d"
  using sanitize_decision_keeps(6) [of d] sanitize_decision_value [of d] unfolding wf_decision_def by auto

text \<open>Metadata under a key outside the safe ones does not reach the cache key of a typed request.\<close>

lemma cache_key_unsafe_metadata:
  assumes "req_actor r = Some a" "req_evaluation r = Some e" "k \<notin> set safe_metadata_keys"
  shows "build_policy_cache_key tx (r\<lparr>req_metadata := dict_set k v (req_metadata r)\<rparr>) c n =
    build_policy_cache_key tx r c n"
  using assms
  by (simp add: build_policy_cache_key_def resolve_policy_context_def resolved_actor_def
      resolved_evaluation_def resolved_scope_def safe_metadata_unsafe_key Let_def)

section \<open>Lemmas on the cache\<close>

definition cache_wf :: "decision_cache \<Rightarrow> bool" where
  "cache_wf c \<longleftrightarrow> distinct (List.map fst (dc_entries c)) \<and> length (dc_entries c) \<le> cache_limit c"

lemma trim_loop_eq:
  "trim_loop n es ev = (drop (length es - n) es, ev + int (length es - n))"
  by (induction n es ev rule: trim_loop.induct) (auto simp: Suc_diff_le)

lemma map_of_move_to_end [simp]: "map_of (move_to_end k d) = map_of d"
  by (auto simp: move_to_end_def fun_eq_iff map_add_def split: option.splits)

lemma dict_pop_keys: "fst ` set (dict_pop k d) = fst ` set d - {k}"
  by (induction d) (auto simp: dict_pop_def)

lemma length_dict_pop: "distinct (List.map fst d) \<Longrightarrow> k \<in> fst ` set d \<Longrightarrow> Suc (length (dict_pop k d)) = length d"
proof (induction d)
  case (Cons p d)
  have "k \<notin> fst ` set d \<Longrightarrow> dict_pop k d = d" by (simp add: dict_pop_def delete_id)
  with Cons show ?case by (cases "fst p = k") (auto simp: dict_pop_def)
qed simp

lemma move_to_end_keeps:
  assumes "distinct (List.map fst d)"
  shows "distinct (List.map fst (move_to_end k d)) \<and> length (move_to_end k d) = length d"
proof (cases "map_of d k")
  case None
  then show ?thesis using assms by (simp add: move_to_end_def)
next
  case (Some v)
  then have "k \<in> fst ` set d" by (force dest: map_of_SomeD)
  with Some assms show ?thesis
    by (auto simp: move_to_end_def distinct_dict_pop dict_pop_keys length_dict_pop)
qed

lemma distinct_filter_keys: "distinct (List.map fst d) \<Longrightarrow> distinct (List.map fst (filter P d))"
  by (induction d) auto

lemma map_of_filter_distinct:
  assumes "distinct (List.map fst d)" "map_of d k = Some v" "P (k, v)"
  shows "map_of (filter P d) k = Some v"
  using assms by (intro map_of_is_SomeI distinct_filter_keys) (auto dest: map_of_SomeD)

lemma cache_trim_entries:
  "dc_entries (cache_trim t c) =
     (let es = filter (\<lambda>(k, e). \<not> ce_expires_at e \<le> t) (dc_entries c)
      in drop (length es - cache_limit c) es)"
  "dc_settings (cache_trim t c) = dc_settings c"
  by (simp_all add: cache_trim_def purge_expired_def cache_limit_def trim_loop_eq Let_def)

lemma cache_limit_settings: "dc_settings c' = dc_settings c \<Longrightarrow> cache_limit c' = cache_limit c"
  by (simp add: cache_limit_def)

lemma cache_wf_new: "cache_wf (new_cache s)"
  by (simp add: cache_wf_def new_cache_def)

lemma cache_get_settings: "dc_settings (snd (cache_get tx t c r ctx n)) = dc_settings c"
  by (simp add: cache_get_def Let_def split: option.split)

lemma cache_put_settings: "dc_settings (snd (cache_put tx t t' c r ctx n d)) = dc_settings c"
  by (simp add: cache_put_def cache_trim_entries Let_def)

lemma cache_get_wf:
  assumes "cache_wf c"
  shows "cache_wf (snd (cache_get tx t c r ctx n))"
proof -
  let ?k = "build_policy_cache_key tx r ctx n"
  have "length (dict_pop ?k (dc_entries c)) \<le> length (dc_entries c)"
    by (simp add: dict_pop_def length_delete_le)
  with assms show ?thesis
    using move_to_end_keeps [of "dc_entries c" ?k] distinct_dict_pop [of "dc_entries c" ?k]
    by (auto simp: cache_wf_def cache_limit_def cache_get_def Let_def split: option.split)
qed

lemma cache_put_wf:
  assumes "cache_wf c"
  shows "cache_wf (snd (cache_put tx t t' c r ctx n d))"
proof -
  let ?k = "build_policy_cache_key tx r ctx n"
  have "distinct (List.map fst (move_to_end ?k (dict_set ?k e (dc_entries c))))" for e
    using assms by (simp add: cache_wf_def move_to_end_keeps)
  then have "distinct (List.map fst (drop m (filter P (move_to_end ?k (dict_set ?k e (dc_entries c))))))"
    for m P e by (simp add: drop_map [symmetric] distinct_filter_keys distinct_drop)
  moreover have "length (drop (length es - m) es) \<le> m" for m and es :: "(string \<times> cached_decision) list"
    by simp
  ultimately show ?thesis
    using assms by (auto simp: cache_wf_def cache_put_def cache_trim_entries cache_limit_def Let_def)
qed

text \<open>A stored decision is the last entry, so the trim keeps it as long as the limit is positive and
  the entry has not run out between the two readings of the clock.\<close>

lemma drop_snoc: "m \<le> length xs \<Longrightarrow> drop m (xs @ [x]) = drop m xs @ [x]"
  by simp

lemma cache_put_last:
  assumes "cache_enabled c" "0 < cache_limit c" "t' < t + cache_ttl c"
  shows "\<exists>es. dc_entries (snd (cache_put tx t t' c r ctx n d)) =
      es @ [(build_policy_cache_key tx r ctx n,
             \<lparr>ce_decision = sanitize_decision d, ce_expires_at = t + cache_ttl c\<rparr>)]"
proof -
  let ?k = "build_policy_cache_key tx r ctx n"
  let ?e = "\<lparr>ce_decision = sanitize_decision d, ce_expires_at = t + cache_ttl c\<rparr>"
  define live where "live = filter (\<lambda>(k, e). \<not> ce_expires_at e \<le> t') (dict_pop ?k (dict_set ?k ?e (dc_entries c)))"
  have "move_to_end ?k (dict_set ?k ?e (dc_entries c)) =
      dict_pop ?k (dict_set ?k ?e (dc_entries c)) @ [(?k, ?e)]"
    by (simp add: move_to_end_def)
  with assms(3) have "filter (\<lambda>(k, e). \<not> ce_expires_at e \<le> t')
      (move_to_end ?k (dict_set ?k ?e (dc_entries c))) = live @ [(?k, ?e)]"
    by (simp add: live_def)
  then have "dc_entries (snd (cache_put tx t t' c r ctx n d)) =
      drop (length live + 1 - cache_limit c) (live @ [(?k, ?e)])"
    using assms(1) by (simp add: cache_put_def cache_trim_entries cache_limit_def Let_def)
  with assms(2) show ?thesis by (simp add: drop_snoc)
qed

lemma map_of_last: "distinct (List.map fst (es @ [(k, v)])) \<Longrightarrow> map_of (es @ [(k, v)]) k = Some v"
  by (intro map_of_is_SomeI) auto

lemma cache_get_after_put:
  assumes "cache_wf c" "cache_enabled c" "0 < cache_limit c" "t' < t + cache_ttl c" "t'' < t + cache_ttl c"
  shows "fst (cache_get tx t'' (snd (cache_put tx t t' c r ctx n d)) r ctx n) = Some (sanitize_decision d)"
proof -
  let ?k = "build_policy_cache_key tx r ctx n"
  let ?e = "\<lparr>ce_decision = sanitize_decision d, ce_expires_at = t + cache_ttl c\<rparr>"
  let ?c = "snd (cache_put tx t t' c r ctx n d)"
  obtain es where es: "dc_entries ?c = es @ [(?k, ?e)]"
    using cache_put_last [OF assms(2-4)] by blast
  have "distinct (List.map fst (dc_entries ?c))"
    using cache_put_wf [OF assms(1)] by (simp add: cache_wf_def)
  then have "map_of (dc_entries ?c) ?k = Some ?e" unfolding es by (rule map_of_last)
  moreover have "cache_enabled ?c" using assms(2) by (simp add: cache_enabled_def cache_put_settings)
  ultimately show ?thesis using assms(5) by (simp add: cache_get_def Let_def)
qed

text \<open>A full cache without expired entries gives up exactly its least recently used entry.\<close>

lemma cache_put_evicts_oldest:
  assumes "cache_enabled c" "dc_entries c = (k0, e0) # es" "Suc (length es) = cache_limit c"
    and "build_policy_cache_key tx r ctx n \<notin> fst ` set (dc_entries c)"
    and "t' < t + cache_ttl c" "\<forall>(k, e) \<in> set (dc_entries c). t' < ce_expires_at e"
  shows "dc_entries (snd (cache_put tx t t' c r ctx n d)) =
      es @ [(build_policy_cache_key tx r ctx n,
             \<lparr>ce_decision = sanitize_decision d, ce_expires_at = t + cache_ttl c\<rparr>)]"
proof -
  let ?k = "build_policy_cache_key tx r ctx n"
  let ?e = "\<lparr>ce_decision = sanitize_decision d, ce_expires_at = t + cache_ttl c\<rparr>"
  have pop: "k \<notin> fst ` set xs \<Longrightarrow> dict_pop k (xs @ [(k, v)]) = xs" for k v and xs :: "(string \<times> 'a) list"
    by (induction xs) (auto simp: dict_pop_def)
  have set: "k \<notin> fst ` set xs \<Longrightarrow> dict_set k v xs = xs @ [(k, v)]" for k v and xs :: "(string \<times> 'a) list"
    by (induction xs) (auto simp: dict_set_def)
  have "move_to_end ?k (dict_set ?k ?e (dc_entries c)) = dc_entries c @ [(?k, ?e)]"
    unfolding set [OF assms(4)]
    by (simp add: move_to_end_def pop [OF assms(4)] map_add_def map_of_eq_None_iff [THEN iffD2, OF assms(4)])
  moreover have "filter (\<lambda>(k, e). \<not> ce_expires_at e \<le> t') (dc_entries c @ [(?k, ?e)])
      = dc_entries c @ [(?k, ?e)]"
    using assms(5,6) by (subst filter_True) (auto simp: not_le)
  ultimately have "dc_entries (snd (cache_put tx t t' c r ctx n d)) =
      drop (length (dc_entries c @ [(?k, ?e)]) - cache_limit c) (dc_entries c @ [(?k, ?e)])"
    using assms(1) by (simp add: cache_put_def cache_trim_entries cache_limit_def Let_def)
  then show ?thesis by (simp add: assms(2) assms(3) [symmetric])
qed

section \<open>The contract of a decision store\<close>

text \<open>
  What the policy service needs of its cache: a hit returns something held under the key of the
  request and not yet expired, a lookup adds nothing, and a store adds at most the stored form of
  the decision under the key of the request. \<open>held\<close> lists the key, the value and the expiry.
\<close>

locale decision_store =
  fixes key :: "'q \<Rightarrow> 'k"
    and stored_form :: "'v \<Rightarrow> 'v"
    and lookup :: "int \<Rightarrow> 's \<Rightarrow> 'q \<Rightarrow> 'v option \<times> 's"
    and store :: "int \<Rightarrow> int \<Rightarrow> 's \<Rightarrow> 'q \<Rightarrow> 'v \<Rightarrow> 'v \<times> 's"
    and ttl :: "'s \<Rightarrow> int"
    and held :: "'s \<Rightarrow> ('k \<times> 'v \<times> int) set"
  assumes lookup_hit: "lookup t s q = (Some v, s') \<Longrightarrow> \<exists>e. t < e \<and> (key q, v, e) \<in> held s"
    and lookup_keeps: "held (snd (lookup t s q)) \<subseteq> held s"
    and lookup_ttl: "ttl (snd (lookup t s q)) = ttl s"
    and store_keeps: "held (snd (store t t' s q v)) \<subseteq> insert (key q, stored_form v, t + ttl s) (held s)"
    and store_ttl: "ttl (snd (store t t' s q v)) = ttl s"
    and store_result: "fst (store t t' s q v) \<in> {v, stored_form v}"
begin

text \<open>A store whose held entries all come from a relation \<open>P\<close> keeps that under both operations.\<close>

definition backed :: "('q \<Rightarrow> 'v \<Rightarrow> int \<Rightarrow> bool) \<Rightarrow> 's \<Rightarrow> bool" where
  "backed P s \<longleftrightarrow>
    (\<forall>k v e. (k, v, e) \<in> held s \<longrightarrow> (\<exists>q v0 t. P q v0 t \<and> k = key q \<and> v = stored_form v0 \<and> e = t + ttl s))"

lemma backed_lookup: "backed P s \<Longrightarrow> backed P (snd (lookup t s q))"
  unfolding backed_def lookup_ttl using lookup_keeps [of t s q] by blast

lemma backed_store: "backed P s \<Longrightarrow> P q v t \<Longrightarrow> backed P (snd (store t t' s q v))"
  unfolding backed_def store_ttl using store_keeps [of t t' s q v] by blast

lemma backed_hit:
  assumes "backed P s" "lookup t s q = (Some v, s')"
  shows "\<exists>q' v0 t0. P q' v0 t0 \<and> key q' = key q \<and> v = stored_form v0 \<and> t < t0 + ttl s"
  using lookup_hit [OF assms(2)] assms(1) unfolding backed_def by metis

lemma backed_shrink: "backed P s \<Longrightarrow> held s' \<subseteq> held s \<Longrightarrow> ttl s' = ttl s \<Longrightarrow> backed P s'"
  unfolding backed_def by force

lemma backed_empty: "held s = {} \<Longrightarrow> backed P s"
  unfolding backed_def by simp

lemma backed_mono: "backed P s \<Longrightarrow> (\<And>q v t. P q v t \<Longrightarrow> Q q v t) \<Longrightarrow> backed Q s"
  unfolding backed_def by metis

end

definition cache_held :: "decision_cache \<Rightarrow> (string \<times> policy_decision \<times> int) set" where
  "cache_held c = (\<lambda>(k, e). (k, ce_decision e, ce_expires_at e)) ` set (dc_entries c)"

type_synonym cache_query = "policy_request \<times> orchestration_context \<times> string"

definition query_key :: "py_texts \<Rightarrow> cache_query \<Rightarrow> string" where
  "query_key tx q = (case q of (r, c, n) \<Rightarrow> build_policy_cache_key tx r c n)"

definition query_get ::
  "py_texts \<Rightarrow> int \<Rightarrow> decision_cache \<Rightarrow> cache_query \<Rightarrow> policy_decision option \<times> decision_cache" where
  "query_get tx t s q = (case q of (r, c, n) \<Rightarrow> cache_get tx t s r c n)"

definition query_put ::
  "py_texts \<Rightarrow> int \<Rightarrow> int \<Rightarrow> decision_cache \<Rightarrow> cache_query \<Rightarrow> policy_decision \<Rightarrow>
   policy_decision \<times> decision_cache" where
  "query_put tx t t' s q d = (case q of (r, c, n) \<Rightarrow> cache_put tx t t' s r c n d)"

lemma cache_held_subset: "set (dc_entries c') \<subseteq> set (dc_entries c) \<Longrightarrow> cache_held c' \<subseteq> cache_held c"
  unfolding cache_held_def by (rule image_mono)

lemma set_dict_pop: "set (dict_pop k d) \<subseteq> set d"
  by (induction d) (auto simp: dict_pop_def)

lemma set_move_to_end: "set (move_to_end k d) \<subseteq> set d"
  using set_dict_pop [of k d] by (auto simp: move_to_end_def dest: map_of_SomeD split: option.splits)

lemma set_dict_set: "set (dict_set k v d) \<subseteq> insert (k, v) (set d)"
  by (induction d) (auto simp: dict_set_def)

lemma cache_get_held: "cache_held (snd (cache_get tx t c r ctx n)) \<subseteq> cache_held c"
  by (auto simp: cache_get_def Let_def set_dict_pop set_move_to_end split: option.split
      intro!: cache_held_subset
      dest: subsetD [OF set_dict_pop] subsetD [OF set_move_to_end])

lemma cache_put_held:
  "cache_held (snd (cache_put tx t t' c r ctx n d)) \<subseteq>
    insert (build_policy_cache_key tx r ctx n, sanitize_decision d, t + cache_ttl c) (cache_held c)"
proof (cases "cache_enabled c")
  case True
  let ?k = "build_policy_cache_key tx r ctx n"
  let ?e = "\<lparr>ce_decision = sanitize_decision d, ce_expires_at = t + cache_ttl c\<rparr>"
  have "set (dc_entries (snd (cache_put tx t t' c r ctx n d))) \<subseteq>
      set (move_to_end ?k (dict_set ?k ?e (dc_entries c)))"
    using True by (auto simp: cache_put_def cache_trim_entries Let_def dest!: in_set_dropD)
  also have "\<dots> \<subseteq> insert (?k, ?e) (set (dc_entries c))"
    using set_move_to_end set_dict_set by fast
  finally show ?thesis unfolding cache_held_def by auto
qed (simp add: cache_put_def subset_insertI)

lemma cache_snapshot_keeps:
  "dc_settings (snd (cache_snapshot t c)) = dc_settings c"
  "cache_held (snd (cache_snapshot t c)) \<subseteq> cache_held c"
  "cache_wf c \<Longrightarrow> cache_wf (snd (cache_snapshot t c))"
  by (auto simp: cache_snapshot_def purge_expired_def cache_wf_def cache_limit_def Let_def
      distinct_filter_keys intro!: cache_held_subset intro: le_trans [OF length_filter_le])

interpretation policy_cache:
  decision_store "query_key tx" sanitize_decision "query_get tx" "query_put tx" cache_ttl cache_held for tx
proof
  fix t s q v s' assume "query_get tx t s q = (Some v, s')"
  then show "\<exists>e. t < e \<and> (query_key tx q, v, e) \<in> cache_held s"
    by (auto simp: query_get_def query_key_def cache_get_def cache_held_def Let_def not_le
        dest!: map_of_SomeD split: prod.splits if_splits option.splits intro!: rev_image_eqI)
next
  show "cache_held (snd (query_get tx t s q)) \<subseteq> cache_held s" for t s q
    by (simp add: query_get_def cache_get_held split: prod.split)
  show "cache_ttl (snd (query_get tx t s q)) = cache_ttl s" for t s q
    by (simp add: query_get_def cache_ttl_def cache_get_settings split: prod.split)
  show "cache_ttl (snd (query_put tx t t' s q v)) = cache_ttl s" for t t' s q v
    by (simp add: query_put_def cache_ttl_def cache_put_settings split: prod.split)
  show "cache_held (snd (query_put tx t t' s q v)) \<subseteq>
      insert (query_key tx q, sanitize_decision v, t + cache_ttl s) (cache_held s)" for t t' s q v
    by (simp add: query_put_def query_key_def cache_put_held split: prod.split)
  show "fst (query_put tx t t' s q v) \<in> {v, sanitize_decision v}" for t t' s q v
    by (simp add: query_put_def cache_put_def Let_def split: prod.split)
qed

section \<open>Properties\<close>

text \<open>The operations of a cache, in any order.\<close>

datatype cache_op =
    CacheGet int policy_request orchestration_context string
  | CachePut int int policy_request orchestration_context string policy_decision
  | CacheSnapshot int

fun cache_step :: "py_texts \<Rightarrow> cache_op \<Rightarrow> decision_cache \<Rightarrow> decision_cache" where
  "cache_step tx (CacheGet t r c n) s = snd (cache_get tx t s r c n)"
| "cache_step tx (CachePut t t' r c n d) s = snd (cache_put tx t t' s r c n d)"
| "cache_step tx (CacheSnapshot t) s = snd (cache_snapshot t s)"

lemma cache_step_keeps:
  "cache_wf s \<Longrightarrow> cache_wf (cache_step tx op s) \<and> dc_settings (cache_step tx op s) = dc_settings s"
  by (cases op) (simp_all add: cache_get_wf cache_put_wf cache_snapshot_keeps cache_get_settings cache_put_settings)

lemma cache_steps_keep:
  "cache_wf s \<Longrightarrow> cache_wf (fold (cache_step tx) ops s) \<and> dc_settings (fold (cache_step tx) ops s) = dc_settings s"
  by (induction ops arbitrary: s) (simp_all add: cache_step_keeps)

lemma new_cache_settings: "dc_settings (new_cache s) = s"
  by (simp add: new_cache_def)

text \<open>C34. A cache that starts empty never holds more entries than \<open>max_entries\<close> (none at all when that
  is negative) and never one key twice, whatever the sequence of operations and clock readings.\<close>

theorem cache_is_bounded:
  "length (dc_entries (fold (cache_step tx) ops (new_cache settings))) \<le> nat (max (pdc_max_entries settings) 0)
   \<and> distinct (List.map fst (dc_entries (fold (cache_step tx) ops (new_cache settings))))"
  using cache_steps_keep [OF cache_wf_new, of tx ops settings]
  by (auto simp: cache_wf_def cache_limit_def new_cache_settings)

text \<open>What is stored is found: within the time to live, a lookup of the request just stored returns
  the sanitized decision, whatever the cache held before.\<close>

theorem stored_decision_is_found:
  assumes "cache_wf s" "cache_enabled s" "0 < cache_limit s"
    and "t' < t + cache_ttl s" "t'' < t + cache_ttl s"
  shows "fst (cache_get tx t'' (snd (cache_put tx t t' s r c n d)) r c n) = Some (sanitize_decision d)"
  by (rule cache_get_after_put [OF assms])

definition plain_texts :: py_texts where
  "plain_texts = \<lparr>tx_digest = (\<lambda>s. s), tx_float_repr = (\<lambda>w. []), tx_str = (\<lambda>v. [])\<rparr>"

definition cache_sample_request :: policy_request where
  "cache_sample_request =
    \<lparr>req_action = ''tool.execute'', req_component = ''tools.gateway'', req_resource = Some ''echo'',
     req_scope = [], req_metadata = [], req_actor = None, req_evaluation = None\<rparr>"

definition cache_sample_context :: orchestration_context where
  "cache_sample_context = build_readonly_policy_context (PDict []) (Some ''t1'') (Some ''u1'') (Some ''s1'') None"

theorem stored_decision_is_found_witness:
  "fst (cache_get plain_texts 29000000
      (snd (cache_put plain_texts 0 1 (new_cache default_decision_cache_settings) cache_sample_request
        cache_sample_context ''default'' (decision_allow None (Some ''ok'') [] [] None None)))
      cache_sample_request cache_sample_context ''default'')
    = Some (sanitize_decision (decision_allow None (Some ''ok'') [] [] None None))"
  by (rule stored_decision_is_found [OF cache_wf_new])
     (simp_all add: cache_enabled_def new_cache_def default_decision_cache_settings_def
       cache_limit_def cache_ttl_def)

text \<open>Eviction is by least recent use: when a new key is stored in a full cache none of whose entries
  has expired, exactly the entry that was used longest ago goes, and the new one is the most recent.\<close>

theorem eviction_is_least_recent:
  assumes "cache_enabled s" "dc_entries s = (oldest, entry) # es" "Suc (length es) = cache_limit s"
    and "build_policy_cache_key tx r c n \<notin> fst ` set (dc_entries s)"
    and "t' < t + cache_ttl s" "\<forall>(k, e) \<in> set (dc_entries s). t' < ce_expires_at e"
  shows "dc_entries (snd (cache_put tx t t' s r c n d)) =
      es @ [(build_policy_cache_key tx r c n,
             \<lparr>ce_decision = sanitize_decision d, ce_expires_at = t + cache_ttl s\<rparr>)]"
  by (rule cache_put_evicts_oldest [OF assms])

definition one_entry_cache :: decision_cache where
  "one_entry_cache = (new_cache \<lparr>pdc_enabled = True, pdc_ttl_seconds = 30, pdc_max_entries = 1\<rparr>)
     \<lparr>dc_entries := [(''old'', \<lparr>ce_decision = decision_allow None None [] [] None None, ce_expires_at = 50\<rparr>)]\<rparr>"

theorem eviction_is_least_recent_witness:
  "List.map fst (dc_entries (snd (cache_put plain_texts 0 1 one_entry_cache cache_sample_request
     cache_sample_context ''default'' (decision_allow None None [] [] None None))))
   = [build_policy_cache_key plain_texts cache_sample_request cache_sample_context ''default'']"
proof -
  have new: "build_policy_cache_key plain_texts cache_sample_request cache_sample_context ''default'' \<noteq> ''old''"
    by code_simp
  show ?thesis
    by (subst eviction_is_least_recent [where oldest = "''old''" and es = "[]" and
          entry = "\<lparr>ce_decision = decision_allow None None [] [] None None, ce_expires_at = 50\<rparr>"])
       (use new in \<open>simp_all add: one_entry_cache_def new_cache_def cache_enabled_def cache_limit_def cache_ttl_def\<close>)
qed

text \<open>Nothing private enters the cache, and nothing that decides is lost: the stored form of a well
  formed decision has the same verdict, reason and reason code, is well formed, names no actor and no
  scope, and has metadata only under the safe keys.\<close>

theorem stored_form_is_safe:
  assumes "wf_decision d"
  shows "dec_decision (sanitize_decision d) = dec_decision d \<and> dec_reason (sanitize_decision d) = dec_reason d
    \<and> dec_reason_code (sanitize_decision d) = dec_reason_code d \<and> wf_decision (sanitize_decision d)
    \<and> dec_actor (sanitize_decision d) = None \<and> dec_scope (sanitize_decision d) = None
    \<and> fst ` set (dec_metadata (sanitize_decision d)) \<subseteq> set safe_metadata_keys"
  using assms safe_metadata_dom by simp

theorem stored_form_is_safe_witness:
  "dec_decision (sanitize_decision (decision_deny (Some ''no'') None [(''owner_user_id'', PStr ''u1'')] [] None None))
    = Some Deny
   \<and> fst ` set (dec_metadata (sanitize_decision
       (decision_deny (Some ''no'') None [(''owner_user_id'', PStr ''u1'')] [] None None))) \<subseteq> set safe_metadata_keys"
  using stored_form_is_safe [OF wf_decision_makers(2)] by simp

text \<open>The cache key of a request with a typed actor and evaluation is blind to every metadata entry
  whose name is not one of the safe keys, although rules read such entries (the idempotency flag of a
  tool request, the broader-permission flag of a fallback).\<close>

theorem cache_key_ignores_unsafe_metadata:
  assumes "req_actor r = Some a" "req_evaluation r = Some e" "k \<notin> set safe_metadata_keys"
  shows "build_policy_cache_key tx (r\<lparr>req_metadata := dict_set k v (req_metadata r)\<rparr>) c n =
    build_policy_cache_key tx r c n"
  by (rule cache_key_unsafe_metadata [OF assms])

theorem cache_key_ignores_unsafe_metadata_witness:
  "build_policy_cache_key plain_texts
     ((cache_sample_request\<lparr>req_actor := Some (resolved_actor cache_sample_request),
        req_evaluation := Some (resolved_evaluation cache_sample_request)\<rparr>)
      \<lparr>req_metadata := [(''idempotency_key_present'', PBool True)]\<rparr>) cache_sample_context ''default'' =
   build_policy_cache_key plain_texts
     (cache_sample_request\<lparr>req_actor := Some (resolved_actor cache_sample_request),
        req_evaluation := Some (resolved_evaluation cache_sample_request)\<rparr>) cache_sample_context ''default''"
  using cache_key_ignores_unsafe_metadata [of
      "cache_sample_request\<lparr>req_actor := Some (resolved_actor cache_sample_request),
        req_evaluation := Some (resolved_evaluation cache_sample_request)\<rparr>"
      "resolved_actor cache_sample_request" "resolved_evaluation cache_sample_request" "''idempotency_key_present''"
      plain_texts "PBool True" cache_sample_context "''default''"]
  by (simp add: cache_sample_request_def dict_set_def safe_metadata_keys_def)

end
