(* ===== verification/Policy_Audit.thy ===== *)
theory Policy_Audit
  imports Policy_Cache
begin

text \<open>
  The audit trail (\<open>policy/audit.py\<close>): a recorder keeps the summaries of the last 256 decisions in a
  bounded deque. The reading of the clock is an argument, in microseconds. The lemmas state the bound,
  that the newest events are kept in order, and what the counters of a snapshot count.
\<close>

section \<open>Data\<close>

record policy_audit_event =
  ae_recorded_at :: int
  ae_trace_id :: "string option"
  ae_domain :: string
  ae_action :: string
  ae_decision :: string
  ae_reason_code :: "string option"
  ae_resource :: "string option"
  ae_resource_hash :: "string option"
  ae_policy_profile :: "string option"
  ae_rule_id :: "string option"
  ae_risk_level :: "string option"
  ae_actor_hash :: "string option"
  ae_scope_hash :: "string option"

record audit_recorder =
  ar_settings :: policy_audit_settings
  ar_events :: "policy_audit_event list"

definition max_audit_events :: nat where
  "max_audit_events = 256"

definition new_recorder :: "policy_audit_settings \<Rightarrow> audit_recorder" where
  "new_recorder settings = \<lparr>ar_settings = settings, ar_events = []\<rparr>"

section \<open>Operations\<close>

text \<open>\<open>deque(maxlen=n).append\<close>.\<close>

definition deque_append :: "nat \<Rightarrow> 'a list \<Rightarrow> 'a \<Rightarrow> 'a list" where
  "deque_append n xs x = drop (length xs + 1 - n) (xs @ [x])"

text \<open>\<open>action.split(".", 1)[0]\<close>, or the action itself when it has no dot.\<close>

definition policy_domain :: "string \<Rightarrow> string" where
  "policy_domain action =
    (if CHR ''.'' \<in> set action then takeWhile (\<lambda>c. c \<noteq> CHR ''.'') action else action)"

fun decision_text :: "decision_value \<Rightarrow> string" where
  "decision_text Allow = ''allow''"
| "decision_text Deny = ''deny''"
| "decision_text ApprovalRequired = ''approval_required''"

definition decision_label :: "policy_decision \<Rightarrow> string" where
  "decision_label d =
    (case dec_decision d of Some v \<Rightarrow> decision_text v
     | None \<Rightarrow> if dec_allowed d then ''allow'' else ''deny'')"

definition audit_event ::
  "py_texts \<Rightarrow> int \<Rightarrow> policy_audit_settings \<Rightarrow> policy_request \<Rightarrow> orchestration_context \<Rightarrow>
   policy_decision \<Rightarrow> policy_audit_event" where
  "audit_event tx now settings request context d =
    (let resolved = resolve_policy_context request;
         actor = rpc_actor resolved
     in \<lparr>ae_recorded_at = now,
         ae_trace_id = str_or (eval_trace_id (rpc_evaluation resolved)) (rc_trace_id (octx_request context)),
         ae_domain = policy_domain (req_action request),
         ae_action = req_action request,
         ae_decision = decision_label d,
         ae_reason_code = (if pau_include_reason_codes settings then dec_reason_code d else None),
         ae_resource = (if pau_include_resource_names settings then req_resource request else None),
         ae_resource_hash = hash_optional_text tx (req_resource request),
         ae_policy_profile = read_optional_text (dict_get (dec_metadata d) ''policy_profile''),
         ae_rule_id = read_optional_text (dict_get (dec_metadata d) ''rule''),
         ae_risk_level = eval_risk_level (rpc_evaluation resolved),
         ae_actor_hash =
           (if pau_include_actor_identifiers settings
            then hash_optional_text tx (str_or (actor_id actor) (actor_user_id actor)) else None),
         ae_scope_hash = Some (hash_mapping tx (scope_dimensions (rpc_scope resolved)))\<rparr>)"

definition audit_record ::
  "py_texts \<Rightarrow> int \<Rightarrow> audit_recorder \<Rightarrow> policy_request \<Rightarrow> orchestration_context \<Rightarrow> policy_decision \<Rightarrow>
   policy_audit_event option \<times> audit_recorder" where
  "audit_record tx now a request context d =
    (if \<not> pau_enabled (ar_settings a) then (None, a)
     else
       let event = audit_event tx now (ar_settings a) request context d
       in (Some event, a\<lparr>ar_events := deque_append max_audit_events (ar_events a) event\<rparr>))"

definition event_payload :: "policy_audit_event \<Rightarrow> pydict" where
  "event_payload e =
    [(''recorded_at'', PStr (isoformat (ae_recorded_at e))), (''trace_id'', py_opt_str (ae_trace_id e)),
     (''domain'', PStr (ae_domain e)), (''action'', PStr (ae_action e)),
     (''decision'', PStr (ae_decision e)), (''reason_code'', py_opt_str (ae_reason_code e)),
     (''resource'', py_opt_str (ae_resource e)), (''resource_hash'', py_opt_str (ae_resource_hash e)),
     (''policy_profile'', py_opt_str (ae_policy_profile e)), (''rule_id'', py_opt_str (ae_rule_id e)),
     (''risk_level'', py_opt_str (ae_risk_level e)), (''actor_hash'', py_opt_str (ae_actor_hash e)),
     (''scope_hash'', py_opt_str (ae_scope_hash e))]"

text \<open>\<open>counts[k] = counts.get(k, 0) + n\<close>, in the order of the dictionary.\<close>

definition count_add :: "string \<Rightarrow> int \<Rightarrow> (string \<times> int) list \<Rightarrow> (string \<times> int) list" where
  "count_add k n counts = dict_set k ((case map_of counts k of None \<Rightarrow> 0 | Some m \<Rightarrow> m) + n) counts"

definition zero_counts :: "(string \<times> int) list" where
  "zero_counts = [(''allow'', 0), (''deny'', 0), (''approval_required'', 0)]"

definition audit_decision_counts :: "audit_recorder \<Rightarrow> (string \<times> int) list" where
  "audit_decision_counts a =
    fold (\<lambda>e counts. count_add (ae_decision e) 1 counts) (ar_events a) zero_counts"

record audit_snapshot =
  as_enabled :: bool
  as_event_count :: int
  as_decision_counts :: "(string \<times> int) list"
  as_last_event :: "pydict option"

definition audit_snapshot_of :: "audit_recorder \<Rightarrow> audit_snapshot" where
  "audit_snapshot_of a =
    \<lparr>as_enabled = pau_enabled (ar_settings a),
     as_event_count = int (length (ar_events a)),
     as_decision_counts = audit_decision_counts a,
     as_last_event = (if ar_events a = [] then None else Some (event_payload (last (ar_events a))))\<rparr>"

section \<open>Lemmas\<close>

definition audit_wf :: "audit_recorder \<Rightarrow> bool" where
  "audit_wf a \<longleftrightarrow> length (ar_events a) \<le> max_audit_events"

lemma length_deque_append: "length (deque_append n xs x) \<le> n"
  by (simp add: deque_append_def)

text \<open>Appending one event after another keeps the newest \<open>n\<close> of them.\<close>

lemma deque_append_drop:
  "deque_append n (drop (length zs - n) zs) y = drop (length (zs @ [y]) - n) (zs @ [y])"
proof (cases "n \<le> length zs")
  case True
  have "drop (length zs - n) zs @ [y] = drop (length zs - n) (zs @ [y])" by simp
  moreover have "length (drop (length zs - n) zs) + 1 - n + (length zs - n) = length (zs @ [y]) - n"
    using True by simp
  ultimately show ?thesis by (simp only: deque_append_def drop_drop)
qed (simp add: deque_append_def)

lemma deque_append_fold:
  assumes "length xs \<le> n"
  shows "fold (\<lambda>x acc. deque_append n acc x) ys xs = drop (length (xs @ ys) - n) (xs @ ys)"
proof (induction ys rule: rev_induct)
  case Nil
  with assms show ?case by simp
next
  case (snoc y ys)
  then show ?case using deque_append_drop [of n "xs @ ys" y] by (simp only: fold_append append_assoc o_apply fold_simps)
qed

lemma audit_record_wf: "audit_wf a \<Longrightarrow> audit_wf (snd (audit_record tx t a r c d))"
  by (simp add: audit_record_def audit_wf_def Let_def length_deque_append)

lemma audit_record_settings [simp]: "ar_settings (snd (audit_record tx t a r c d)) = ar_settings a"
  by (simp add: audit_record_def Let_def)

lemma map_of_count_add: "map_of (count_add k n counts) k' =
    (if k' = k then Some ((case map_of counts k of None \<Rightarrow> 0 | Some m \<Rightarrow> m) + n) else map_of counts k')"
  by (simp add: count_add_def)

definition count_of :: "(string \<times> int) list \<Rightarrow> string \<Rightarrow> int" where
  "count_of counts k = (case map_of counts k of None \<Rightarrow> 0 | Some m \<Rightarrow> m)"

lemma count_of_count_add: "count_of (count_add k n counts) k' = count_of counts k' + (if k' = k then n else 0)"
  by (simp add: count_of_def map_of_count_add)

lemma count_of_zero: "count_of zero_counts k = 0"
  by (simp add: count_of_def zero_counts_def)

lemma count_of_fold:
  "count_of (fold (\<lambda>e counts. count_add (ae_decision e) 1 counts) es counts) k =
    count_of counts k + int (length (filter (\<lambda>e. ae_decision e = k) es))"
  by (induction es arbitrary: counts) (auto simp: count_of_count_add)

lemma audit_decision_counts_eq:
  "count_of (audit_decision_counts a) k = int (length (filter (\<lambda>e. ae_decision e = k) (ar_events a)))"
  by (simp add: audit_decision_counts_def count_of_fold count_of_zero)

lemma decision_label_wf: "wf_decision d \<Longrightarrow> decision_label d \<in> {''allow'', ''deny'', ''approval_required''}"
  by (auto simp: decision_label_def split: option.split decision_value.split)
     (metis decision_text.simps decision_value.exhaust)

section \<open>Properties\<close>

definition audit_log ::
  "py_texts \<Rightarrow> (int \<times> policy_request \<times> orchestration_context \<times> policy_decision) list \<Rightarrow>
   audit_recorder \<Rightarrow> audit_recorder" where
  "audit_log tx log a = fold (\<lambda>(t, r, c, d) a. snd (audit_record tx t a r c d)) log a"

lemma audit_log_settings: "ar_settings (audit_log tx log a) = ar_settings a"
  by (induction log arbitrary: a) (auto simp: audit_log_def)

lemma audit_log_events:
  "ar_events (audit_log tx log a) =
    (if pau_enabled (ar_settings a)
     then fold (\<lambda>e es. deque_append max_audit_events es e)
            (List.map (\<lambda>(t, r, c, d). audit_event tx t (ar_settings a) r c d) log) (ar_events a)
     else ar_events a)"
  by (induction log arbitrary: a) (auto simp: audit_log_def audit_record_def Let_def)

text \<open>The audit trail of a new recorder is exactly the last 256 decisions recorded, oldest first, as
  their safe summaries; a disabled recorder keeps nothing. The counters of its snapshot are the
  numbers of kept events of each kind.\<close>

theorem audit_keeps_the_newest:
  "ar_events (audit_log tx log (new_recorder settings)) =
    (if pau_enabled settings
     then drop (length log - max_audit_events)
            (List.map (\<lambda>(t, r, c, d). audit_event tx t settings r c d) log)
     else [])
   \<and> count_of (as_decision_counts (audit_snapshot_of (audit_log tx log (new_recorder settings)))) k =
     int (length (filter (\<lambda>e. ae_decision e = k) (ar_events (audit_log tx log (new_recorder settings)))))"
  using deque_append_fold [of "[]" max_audit_events
      "List.map (\<lambda>(t, r, c, d). audit_event tx t settings r c d) log"]
  by (simp add: audit_log_events new_recorder_def audit_snapshot_of_def audit_decision_counts_eq)

end
