(* ===== verification/Policy_Config.thy ===== *)
theory Policy_Config
  imports Policy_Settings Config_View
begin

text \<open>
  \<open>get_policy_settings\<close> of \<open>config/view.py\<close>: the policy section of the configuration read into the
  typed settings. One definition per settings class, the reads in the order of the source, so that
  the first malformed value decides the error. A nested key overrides the flat key it replaced, and
  the visualization section of a profile overrides the root one, which overrides the limits of the
  visualization section.
\<close>

section \<open>Reading with a fallback\<close>

text \<open>\<open>_read_bool(view, nested, _read_bool(view, flat, default))\<close>.\<close>

definition nested_or_flat_bool :: "pyval \<Rightarrow> string \<Rightarrow> string \<Rightarrow> bool \<Rightarrow> bool res" where
  "nested_or_flat_bool view nested flat dflt =
    try_bind (cfg_bool view flat dflt) (\<lambda>d. cfg_bool view nested d)"

text \<open>The value of the profile over the value of \<open>policy.visualization\<close> over a default, which is itself
  read from the configuration and may raise.\<close>

definition profile_over_root_bool :: "pyval \<Rightarrow> pyval \<Rightarrow> string \<Rightarrow> bool res \<Rightarrow> bool res" where
  "profile_over_root_bool view defaults key dflt =
    try_bind dflt (\<lambda>d.
    try_bind (cfg_bool defaults (''visualization.'' @ key) d) (\<lambda>d'.
    cfg_bool view (''profile.visualization.'' @ key) d'))"

definition profile_over_root_strs ::
  "pyval \<Rightarrow> pyval \<Rightarrow> string \<Rightarrow> string list res \<Rightarrow> string list res" where
  "profile_over_root_strs view defaults key dflt =
    try_bind dflt (\<lambda>d.
    try_bind (cfg_str_tuple defaults (''visualization.'' @ key) d) (\<lambda>d'.
    cfg_str_tuple view (''profile.visualization.'' @ key) d'))"

text \<open>\<open>x or y\<close> for an optional integer: an absent value and 0 give way to \<open>y\<close>.\<close>

definition int_or :: "int option res \<Rightarrow> int res \<Rightarrow> int res" where
  "int_or x y =
    try_bind x (\<lambda>v. case v of Some i \<Rightarrow> if i \<noteq> 0 then Inr i else y | None \<Rightarrow> y)"

definition profile_over_root_int ::
  "pyval \<Rightarrow> pyval \<Rightarrow> pyval \<Rightarrow> string \<Rightarrow> int res \<Rightarrow> int res" where
  "profile_over_root_int view own defaults key dflt =
    try_bind
      (int_or (cfg_optional_int own (''visualization.'' @ key))
        (int_or (cfg_optional_int defaults (''visualization.'' @ key)) dflt))
      (\<lambda>d. cfg_int view (''profile.visualization.'' @ key) d)"

definition visualization_only :: "pyval \<Rightarrow> pyval" where
  "visualization_only section_value =
    config_view
      [(''visualization'', case section_value of PDict d \<Rightarrow> unfreeze (PDict d) | _ \<Rightarrow> PDict [])]"

definition canonical_chart_types :: "string list" where
  "canonical_chart_types =
    [''bar'', ''grouped_bar'', ''stacked_bar'', ''horizontal_bar'', ''line'', ''multi_line'', ''area'',
     ''pie'', ''donut'', ''scatter'', ''bubble'', ''histogram'', ''box_plot'', ''heatmap'', ''treemap'',
     ''waterfall'', ''gantt'', ''radar'', ''table'']"

definition supported_chart_renderers :: "string list" where
  "supported_chart_renderers = [''echarts'']"

section \<open>The sections of a profile\<close>

definition read_approval_settings :: "pyval \<Rightarrow> policy_approval_settings res" where
  "read_approval_settings view =
    try_bind (cfg_bool view ''profile.approval.require_approval_for_write_tools'' True) (\<lambda>require_approval_for_write_tools.
    try_bind (cfg_bool view ''profile.approval.require_approval_for_destructive_tools'' True) (\<lambda>require_approval_for_destructive_tools.
    try_bind (cfg_bool view ''profile.approval.require_approval_for_external_side_effect_tools'' True) (\<lambda>require_approval_for_external_side_effect_tools.
    try_bind (cfg_bool view ''profile.approval.require_approval_for_memory_writes'' False) (\<lambda>require_approval_for_memory_writes.
    Inr \<lparr>pa_require_approval_for_write_tools = require_approval_for_write_tools,
      pa_require_approval_for_destructive_tools = require_approval_for_destructive_tools,
      pa_require_approval_for_external_side_effect_tools = require_approval_for_external_side_effect_tools,
      pa_require_approval_for_memory_writes = require_approval_for_memory_writes\<rparr>))))"

definition read_fallback_settings :: "pyval \<Rightarrow> policy_fallback_settings res" where
  "read_fallback_settings view =
    try_bind (cfg_bool view ''profile.fallback.allow_fallbacks'' True) (\<lambda>allow_fallbacks.
    try_bind (cfg_bool view ''profile.fallback.allow_after_denial'' False) (\<lambda>allow_after_denial.
    try_bind (cfg_bool view ''profile.fallback.allow_after_external_side_effects'' False) (\<lambda>allow_after_external_side_effects.
    try_bind (cfg_str_tuple view ''profile.fallback.allowed_strategies'' []) (\<lambda>allowed_strategies.
    Inr \<lparr>pf_allow_fallbacks = allow_fallbacks,
      pf_allow_after_denial = allow_after_denial,
      pf_allow_after_external_side_effects = allow_after_external_side_effects,
      pf_allowed_strategies = allowed_strategies\<rparr>))))"

definition read_trace_settings :: "pyval \<Rightarrow> policy_trace_settings res" where
  "read_trace_settings view =
    try_bind (cfg_bool view ''profile.trace.allow_trace'' True) (\<lambda>allow_trace.
    try_bind (cfg_bool view ''profile.trace.expose_raw_payloads'' False) (\<lambda>expose_raw_payloads.
    try_bind (cfg_bool view ''profile.trace.expose_prompt_text'' False) (\<lambda>expose_prompt_text.
    try_bind (cfg_bool view ''profile.trace.expose_completion_text'' False) (\<lambda>expose_completion_text.
    Inr \<lparr>ptr_allow_trace = allow_trace,
      ptr_expose_raw_payloads = expose_raw_payloads,
      ptr_expose_prompt_text = expose_prompt_text,
      ptr_expose_completion_text = expose_completion_text\<rparr>))))"

definition read_stream_settings :: "pyval \<Rightarrow> policy_stream_settings res" where
  "read_stream_settings view =
    try_bind (cfg_bool view ''profile.stream.allow_stream_events'' True) (\<lambda>allow_stream_events.
    try_bind (cfg_bool view ''profile.stream.expose_internal_events'' False) (\<lambda>expose_internal_events.
    try_bind (cfg_bool view ''profile.stream.expose_raw_deltas'' False) (\<lambda>expose_raw_deltas.
    Inr \<lparr>ps_allow_stream_events = allow_stream_events,
      ps_expose_internal_events = expose_internal_events,
      ps_expose_raw_deltas = expose_raw_deltas\<rparr>)))"

definition read_capability_settings :: "pyval \<Rightarrow> policy_capability_settings res" where
  "read_capability_settings view =
    try_bind (cfg_bool view ''profile.capabilities.expose_enabled'' True) (\<lambda>expose_enabled.
    try_bind (cfg_bool view ''profile.capabilities.include_policy_profiles'' False) (\<lambda>include_policy_profiles.
    try_bind (cfg_bool view ''profile.capabilities.include_denied_actions'' False) (\<lambda>include_denied_actions.
    Inr \<lparr>pc_expose_enabled = expose_enabled,
      pc_include_policy_profiles = include_policy_profiles,
      pc_include_denied_actions = include_denied_actions\<rparr>)))"

definition read_health_settings :: "pyval \<Rightarrow> policy_health_settings res" where
  "read_health_settings view =
    try_bind (cfg_bool view ''profile.health.expose_enabled'' True) (\<lambda>expose_enabled.
    try_bind (cfg_bool view ''profile.health.include_profile_names'' True) (\<lambda>include_profile_names.
    try_bind (cfg_bool view ''profile.health.include_decision_counts'' False) (\<lambda>include_decision_counts.
    Inr \<lparr>ph_expose_enabled = expose_enabled,
      ph_include_profile_names = include_profile_names,
      ph_include_decision_counts = include_decision_counts\<rparr>)))"

definition read_audit_settings :: "pyval \<Rightarrow> policy_audit_settings res" where
  "read_audit_settings view =
    try_bind (cfg_bool view ''profile.audit.enabled'' True) (\<lambda>enabled.
    try_bind (cfg_bool view ''profile.audit.include_reason_codes'' True) (\<lambda>include_reason_codes.
    try_bind (cfg_bool view ''profile.audit.include_actor_identifiers'' False) (\<lambda>include_actor_identifiers.
    try_bind (cfg_bool view ''profile.audit.include_resource_names'' True) (\<lambda>include_resource_names.
    Inr \<lparr>pau_enabled = enabled,
      pau_include_reason_codes = include_reason_codes,
      pau_include_actor_identifiers = include_actor_identifiers,
      pau_include_resource_names = include_resource_names\<rparr>))))"

definition read_decision_cache_settings :: "pyval \<Rightarrow> policy_decision_cache_settings res" where
  "read_decision_cache_settings view =
    try_bind (cfg_bool view ''profile.decision_cache.enabled'' True) (\<lambda>enabled.
    try_bind (cfg_int view ''profile.decision_cache.ttl_seconds'' 30) (\<lambda>ttl_seconds.
    try_bind (cfg_int view ''profile.decision_cache.max_entries'' 1024) (\<lambda>max_entries.
    Inr \<lparr>pdc_enabled = enabled,
      pdc_ttl_seconds = ttl_seconds,
      pdc_max_entries = max_entries\<rparr>)))"

definition read_visualization_settings ::
  "pyval \<Rightarrow> pyval \<Rightarrow> pyval \<Rightarrow> pyval \<Rightarrow> policy_visualization_settings res" where
  "read_visualization_settings config view own defaults =
    try_bind (profile_over_root_bool view defaults ''enabled'' (Inr False)) (\<lambda>enabled.
    try_bind (profile_over_root_bool view defaults ''deny_unknown_chart_types'' (Inr True)) (\<lambda>deny_unknown_chart_types.
    try_bind (profile_over_root_bool view defaults ''deny_unknown_renderers'' (Inr True)) (\<lambda>deny_unknown_renderers.
    try_bind (profile_over_root_bool view defaults ''require_data_source'' (Inr True)) (\<lambda>require_data_source.
    try_bind (profile_over_root_bool view defaults ''allow_memory_data'' (Inr False)) (\<lambda>allow_memory_data.
    try_bind (profile_over_root_bool view defaults ''allow_tool_data'' (Inr False)) (\<lambda>allow_tool_data.
    try_bind (profile_over_root_bool view defaults ''allow_uploaded_file_data'' (Inr False)) (\<lambda>allow_uploaded_file_data.
    try_bind (profile_over_root_bool view defaults ''allow_reference_data_mode'' (cfg_bool config ''visualization.artifact_store.allow_reference_data_mode'' False)) (\<lambda>allow_reference_data_mode.
    try_bind (profile_over_root_bool view defaults ''allow_exact_followup_retrieval'' (cfg_bool config ''visualization.artifact_store.exact_followup_retrieval_enabled'' True)) (\<lambda>allow_exact_followup_retrieval.
    try_bind (profile_over_root_bool view defaults ''allow_data_export'' (Inr False)) (\<lambda>allow_data_export.
    try_bind (profile_over_root_bool view defaults ''allow_full_dataset_in_context'' (cfg_bool config ''visualization.context_summary.allow_full_dataset_in_context'' False)) (\<lambda>allow_full_dataset_in_context.
    try_bind (profile_over_root_strs view defaults ''allowed_chart_types'' (cfg_str_tuple config ''visualization.allowed_chart_types'' canonical_chart_types)) (\<lambda>allowed_chart_types.
    try_bind (profile_over_root_strs view defaults ''allowed_renderers'' (cfg_str_tuple config ''visualization.allowed_renderers'' supported_chart_renderers)) (\<lambda>allowed_renderers.
    try_bind (profile_over_root_strs view defaults ''allowed_data_sources'' (Inr [])) (\<lambda>allowed_data_sources.
    try_bind (profile_over_root_strs view defaults ''sensitive_fields'' (Inr [])) (\<lambda>sensitive_fields.
    try_bind (profile_over_root_int view own defaults ''max_rows_inline'' (cfg_int config ''visualization.limits.max_rows_inline'' 500)) (\<lambda>max_rows_inline.
    try_bind (profile_over_root_int view own defaults ''max_rows_artifact_store'' (cfg_int config ''visualization.limits.max_rows_artifact_store'' 5000)) (\<lambda>max_rows_artifact_store.
    try_bind (profile_over_root_int view own defaults ''max_series'' (cfg_int config ''visualization.limits.max_series'' 12)) (\<lambda>max_series.
    try_bind (profile_over_root_int view own defaults ''max_categories'' (cfg_int config ''visualization.limits.max_categories'' 100)) (\<lambda>max_categories.
    try_bind (profile_over_root_int view own defaults ''max_context_summary_tokens'' (cfg_int config ''visualization.context_summary.max_tokens_per_chart_summary'' 600)) (\<lambda>max_context_summary_tokens.
    try_bind (profile_over_root_int view own defaults ''max_artifacts_per_response'' (Inr 1)) (\<lambda>max_artifacts_per_response.
    Inr \<lparr>pv_enabled = enabled,
      pv_deny_unknown_chart_types = deny_unknown_chart_types,
      pv_deny_unknown_renderers = deny_unknown_renderers,
      pv_require_data_source = require_data_source,
      pv_allow_memory_data = allow_memory_data,
      pv_allow_tool_data = allow_tool_data,
      pv_allow_uploaded_file_data = allow_uploaded_file_data,
      pv_allow_reference_data_mode = allow_reference_data_mode,
      pv_allow_exact_followup_retrieval = allow_exact_followup_retrieval,
      pv_allow_data_export = allow_data_export,
      pv_allow_full_dataset_in_context = allow_full_dataset_in_context,
      pv_allowed_chart_types = allowed_chart_types,
      pv_allowed_renderers = allowed_renderers,
      pv_allowed_data_sources = allowed_data_sources,
      pv_sensitive_fields = sensitive_fields,
      pv_max_rows_inline = max_rows_inline,
      pv_max_rows_artifact_store = max_rows_artifact_store,
      pv_max_series = max_series,
      pv_max_categories = max_categories,
      pv_max_context_summary_tokens = max_context_summary_tokens,
      pv_max_artifacts_per_response = max_artifacts_per_response\<rparr>)))))))))))))))))))))"

definition read_policy_profile ::
  "pyval \<Rightarrow> string \<Rightarrow> string \<Rightarrow> bool \<Rightarrow> string \<Rightarrow> pyval \<Rightarrow> policy_profile_settings res" where
  "read_policy_profile config root_mode root_default_decision root_fail_closed name view =
    try_bind (nested_or_flat_bool view ''profile.tools.deny_unknown_tools'' ''profile.deny_unknown_tools'' True) (\<lambda>deny_unknown_tools.
    try_bind (nested_or_flat_bool view ''profile.llm.deny_unknown_profiles'' ''profile.deny_unknown_llm_profiles'' True) (\<lambda>deny_unknown_llm_profiles.
    try_bind (nested_or_flat_bool view ''profile.memory.require_scope'' ''profile.require_memory_scope'' True) (\<lambda>require_memory_scope.
    try_bind (nested_or_flat_bool view ''profile.memory.allow_writes'' ''profile.allow_memory_writes'' False) (\<lambda>allow_memory_writes.
    try_bind (nested_or_flat_bool view ''profile.tools.allow_write_tools'' ''profile.allow_write_tools'' False) (\<lambda>allow_write_tools.
    try_bind (nested_or_flat_bool view ''profile.tools.allow_destructive_tools'' ''profile.allow_destructive_tools'' False) (\<lambda>allow_destructive_tools.
    try_bind (nested_or_flat_bool view ''profile.tools.allow_external_side_effect_tools'' ''profile.allow_external_side_effect_tools'' False) (\<lambda>allow_external_side_effect_tools.
    try_bind (nested_or_flat_bool view ''profile.tools.allow_approval_required_tools'' ''profile.allow_approval_required_tools'' False) (\<lambda>allow_approval_required_tools.
    try_bind (cfg_optional_bool view ''profile.fail_closed'') (\<lambda>profile_fail_closed.
    try_bind (cfg_bool view ''profile.enabled'' True) (\<lambda>enabled.
    try_bind (cfg_optional_str view ''profile.mode'' root_mode) (\<lambda>mode.
    try_bind (cfg_optional_str view ''profile.default_decision'' root_default_decision) (\<lambda>default_decision.
    try_bind (cfg_str_tuple view ''profile.usecases.allowed'' []) (\<lambda>usecases.
    try_bind (cfg_str_tuple view ''profile.strategies.allowed'' []) (\<lambda>strategies.
    try_bind (cfg_str_tuple view ''profile.agents.allowed'' []) (\<lambda>agents.
    try_bind (cfg_str_tuple view ''profile.llm.allowed_profiles'' []) (\<lambda>allowed_profiles.
    try_bind (cfg_bool view ''profile.llm.allow_prompt_trace'' False) (\<lambda>allow_prompt_trace.
    try_bind (cfg_bool view ''profile.llm.allow_completion_trace'' False) (\<lambda>allow_completion_trace.
    try_bind (cfg_str_tuple view ''profile.memory.allowed_read_scopes'' []) (\<lambda>allowed_read_scopes.
    try_bind (cfg_str_tuple view ''profile.memory.allowed_write_scopes'' []) (\<lambda>allowed_write_scopes.
    try_bind (cfg_str_tuple view ''profile.tools.allowed_tools'' []) (\<lambda>allowed_tools.
    try_bind (read_approval_settings view) (\<lambda>approval.
    try_bind (read_fallback_settings view) (\<lambda>fallback.
    try_bind (read_trace_settings view) (\<lambda>trace.
    try_bind (read_stream_settings view) (\<lambda>stream.
    try_bind (read_visualization_settings config view
        (visualization_only (config_get view ''profile.visualization'' PNone))
        (visualization_only (config_get config ''policy.visualization'' PNone))) (\<lambda>visualization.
    try_bind (read_capability_settings view) (\<lambda>capabilities.
    try_bind (read_health_settings view) (\<lambda>health.
    try_bind (read_audit_settings view) (\<lambda>audit.
    try_bind (read_decision_cache_settings view) (\<lambda>decision_cache.
    Inr \<lparr>pp_name = name,
      pp_enabled = enabled,
      pp_mode = mode,
      pp_default_decision = default_decision,
      pp_fail_closed = (case profile_fail_closed of None \<Rightarrow> root_fail_closed | Some b \<Rightarrow> b),
      pp_deny_unknown_tools = deny_unknown_tools,
      pp_deny_unknown_llm_profiles = deny_unknown_llm_profiles,
      pp_require_memory_scope = require_memory_scope,
      pp_allow_memory_writes = allow_memory_writes,
      pp_allow_write_tools = allow_write_tools,
      pp_allow_destructive_tools = allow_destructive_tools,
      pp_allow_external_side_effect_tools = allow_external_side_effect_tools,
      pp_allow_approval_required_tools = allow_approval_required_tools,
      pp_usecases = usecases,
      pp_strategies = strategies,
      pp_agents = agents,
      pp_llm = \<lparr>pl_deny_unknown_profiles = deny_unknown_llm_profiles, pl_allowed_profiles = allowed_profiles,
        pl_allow_prompt_trace = allow_prompt_trace, pl_allow_completion_trace = allow_completion_trace\<rparr>,
      pp_memory = \<lparr>pm_require_scope = require_memory_scope, pm_allow_writes = allow_memory_writes,
        pm_allowed_read_scopes = allowed_read_scopes, pm_allowed_write_scopes = allowed_write_scopes\<rparr>,
      pp_tools = \<lparr>pt_deny_unknown_tools = deny_unknown_tools, pt_allowed_tools = allowed_tools,
        pt_allow_write_tools = allow_write_tools, pt_allow_destructive_tools = allow_destructive_tools,
        pt_allow_external_side_effect_tools = allow_external_side_effect_tools,
        pt_allow_approval_required_tools = allow_approval_required_tools\<rparr>,
      pp_approval = approval,
      pp_fallback = fallback,
      pp_trace = trace,
      pp_stream = stream,
      pp_visualization = visualization,
      pp_capabilities = capabilities,
      pp_health = health,
      pp_audit = audit,
      pp_decision_cache = decision_cache\<rparr>))))))))))))))))))))))))))))))"

section \<open>The profiles and the root\<close>

fun read_policy_profiles ::
  "pyval \<Rightarrow> string \<Rightarrow> string \<Rightarrow> bool \<Rightarrow> pydict \<Rightarrow> (string \<times> policy_profile_settings) list \<Rightarrow>
   (string \<times> policy_profile_settings) list res" where
  "read_policy_profiles config root_mode root_default_decision root_fail_closed [] profiles = Inr profiles"
| "read_policy_profiles config root_mode root_default_decision root_fail_closed
     ((profile_name, PDict profile_section) # rest) profiles =
    try_bind
      (read_policy_profile config root_mode root_default_decision root_fail_closed profile_name
        (config_view [(''profile'', unfreeze (PDict profile_section))]))
      (\<lambda>p. read_policy_profiles config root_mode root_default_decision root_fail_closed rest
             (dict_set profile_name p profiles))"
| "read_policy_profiles config root_mode root_default_decision root_fail_closed
     ((profile_name, _) # rest) profiles =
    Inl (ConfigurationError
      (''Invalid config value at policy.profiles.'' @ profile_name @ '': expected mapping.''))"

definition get_policy_settings :: "pyval \<Rightarrow> policy_settings res" where
  "get_policy_settings config =
    (case config_get config ''policy.profiles'' (PDict []) of
       PDict profile_sections \<Rightarrow>
         try_bind (cfg_str config ''policy.mode'' ''enforce'') (\<lambda>root_mode.
         try_bind (cfg_str config ''policy.default_decision'' ''deny'') (\<lambda>root_default_decision.
         try_bind (cfg_bool config ''policy.fail_closed'' True) (\<lambda>root_fail_closed.
         try_bind
           (read_policy_profiles config root_mode root_default_decision root_fail_closed
             profile_sections []) (\<lambda>profiles.
         try_bind (cfg_bool config ''policy.enabled'' True) (\<lambda>enabled.
         try_bind (cfg_str config ''policy.default_profile'' ''default'') (\<lambda>default_profile.
         Inr \<lparr>pset_enabled = enabled, pset_mode = root_mode, pset_default_profile = default_profile,
              pset_default_decision = root_default_decision, pset_fail_closed = root_fail_closed,
              pset_profiles = profiles\<rparr>))))))
     | _ \<Rightarrow> Inl (ConfigurationError ''Invalid config value at policy.profiles: expected mapping.''))"

section \<open>Properties\<close>

text \<open>Where a flag can be written flat or nested, the two fields of the profile that hold it agree.\<close>

definition flags_agree :: "policy_profile_settings \<Rightarrow> bool" where
  "flags_agree p \<longleftrightarrow>
    pp_deny_unknown_tools p = pt_deny_unknown_tools (pp_tools p)
    \<and> pp_deny_unknown_llm_profiles p = pl_deny_unknown_profiles (pp_llm p)
    \<and> pp_require_memory_scope p = pm_require_scope (pp_memory p)
    \<and> pp_allow_memory_writes p = pm_allow_writes (pp_memory p)
    \<and> pp_allow_write_tools p = pt_allow_write_tools (pp_tools p)
    \<and> pp_allow_destructive_tools p = pt_allow_destructive_tools (pp_tools p)
    \<and> pp_allow_external_side_effect_tools p = pt_allow_external_side_effect_tools (pp_tools p)
    \<and> pp_allow_approval_required_tools p = pt_allow_approval_required_tools (pp_tools p)"

lemma read_policy_profile_ok:
  "read_policy_profile config m dd fc name view = Inr p \<Longrightarrow> pp_name p = name \<and> flags_agree p"
  unfolding read_policy_profile_def flags_agree_def try_bind_eq_Inr
  by (elim exE conjE, simp only: sum.inject, hypsubst, simp (no_asm))

lemma dict_set_entries: "set (dict_set k v d) \<subseteq> insert (k, v) (set d)"
  by (induction d) (auto simp: dict_set_def)

lemma read_policy_profiles_ok:
  "read_policy_profiles config m dd fc sections acc = Inr ps \<Longrightarrow>
    distinct (List.map fst acc) \<Longrightarrow> \<forall>(n, p) \<in> set acc. pp_name p = n \<and> flags_agree p \<Longrightarrow>
    distinct (List.map fst ps) \<and> (\<forall>(n, p) \<in> set ps. pp_name p = n \<and> flags_agree p)"
proof (induction config m dd fc sections acc rule: read_policy_profiles.induct)
  case (2 config m dd fc n section_dict rest acc)
  from 2(2) obtain p where p: "read_policy_profile config m dd fc n
      (config_view [(''profile'', unfreeze (PDict section_dict))]) = Inr p"
    "read_policy_profiles config m dd fc rest (dict_set n p acc) = Inr ps"
    by (auto simp del: unfreeze.simps)
  have "\<forall>(n', p') \<in> set (dict_set n p acc). pp_name p' = n' \<and> flags_agree p'"
    using read_policy_profile_ok [OF p(1)] 2(4) dict_set_entries [of n p acc] by blast
  with 2(1) [OF p(1,2)] 2(3) show ?case by simp
qed auto

text \<open>The policy settings read from a configuration are keyed by the names of their profiles, no name
  occurs twice, and in every profile the flat flags and the nested sections say the same.\<close>

theorem policy_profiles_consistent:
  assumes "get_policy_settings config = Inr s"
  shows "distinct (List.map fst (pset_profiles s))
    \<and> (\<forall>(n, p) \<in> set (pset_profiles s). pp_name p = n \<and> flags_agree p)"
proof -
  obtain m dd fc sections where "read_policy_profiles config m dd fc sections [] = Inr (pset_profiles s)"
    using assms by (auto simp: get_policy_settings_def split: pyval.splits)
  from read_policy_profiles_ok [OF this] show ?thesis by simp
qed

definition minimal_config :: pyval where
  "minimal_config = config_view [(''policy'', PDict [(''profiles'', PDict [(''default'', PDict [])])])]"

definition settings_summary :: "policy_settings res \<Rightarrow> (string \<times> (string \<times> policy_profile_settings) list) option" where
  "settings_summary res =
    (case res of Inl e \<Rightarrow> None
     | Inr s \<Rightarrow> Some (pset_default_decision s,
         List.map (\<lambda>(n, p). (n, p\<lparr>pp_visualization := default_visualization_settings\<rparr>)) (pset_profiles s)))"

definition minimal_visualization :: "policy_settings res \<Rightarrow> (bool \<times> bool \<times> bool \<times> bool) list" where
  "minimal_visualization res =
    (case res of Inl e \<Rightarrow> []
     | Inr s \<Rightarrow> List.map (\<lambda>(n, p). (pv_enabled (pp_visualization p), pv_require_data_source (pp_visualization p),
         pv_allow_data_export (pp_visualization p), pv_allow_exact_followup_retrieval (pp_visualization p)))
         (pset_profiles s))"

lemma minimal_config_summary:
  "settings_summary (get_policy_settings minimal_config) =
    Some (''deny'', [(''default'', default_profile_settings ''default'')])
   \<and> minimal_visualization (get_policy_settings minimal_config) = [(False, True, False, True)]"
  by code_simp

lemma settings_summary_Some:
  "settings_summary res = Some (dd, ps) \<longleftrightarrow> (\<exists>s. res = Inr s \<and> pset_default_decision s = dd
    \<and> List.map (\<lambda>(n, p). (n, p\<lparr>pp_visualization := default_visualization_settings\<rparr>)) (pset_profiles s) = ps)"
  by (auto simp: settings_summary_def split: sum.splits)

theorem policy_profiles_consistent_witness:
  "\<exists>s. get_policy_settings minimal_config = Inr s
    \<and> list_all (\<lambda>(n, p). pp_name p = n \<and> flags_agree p) (pset_profiles s)"
proof -
  obtain s where "get_policy_settings minimal_config = Inr s"
    using minimal_config_summary unfolding settings_summary_Some by blast
  with policy_profiles_consistent [OF this] show ?thesis unfolding list_all_iff by blast
qed

text \<open>A configuration that only names one profile is secure by default: the settings read from it are
  the dataclass defaults (unknown tools and profiles denied, memory writes, write, destructive and
  externally effective tools off, approval policies on) and the default decision is to deny. The
  visualization section alone differs from its dataclass: charts are off and exports denied, but
  exact follow-up retrieval is on, where the dataclass default is off.\<close>

theorem minimal_config_is_secure:
  "(\<exists>s. get_policy_settings minimal_config = Inr s \<and> pset_default_decision s = ''deny''
     \<and> List.map (\<lambda>(n, p). (n, p\<lparr>pp_visualization := default_visualization_settings\<rparr>)) (pset_profiles s)
       = [(''default'', default_profile_settings ''default'')])
   \<and> minimal_visualization (get_policy_settings minimal_config) = [(False, True, False, True)]
   \<and> \<not> pv_allow_exact_followup_retrieval default_visualization_settings"
proof (intro conjI)
  show "\<exists>s. get_policy_settings minimal_config = Inr s \<and> pset_default_decision s = ''deny''
     \<and> List.map (\<lambda>(n, p). (n, p\<lparr>pp_visualization := default_visualization_settings\<rparr>)) (pset_profiles s)
       = [(''default'', default_profile_settings ''default'')]"
    using minimal_config_summary unfolding settings_summary_Some by blast
  show "minimal_visualization (get_policy_settings minimal_config) = [(False, True, False, True)]"
    using minimal_config_summary by blast
  show "\<not> pv_allow_exact_followup_retrieval default_visualization_settings"
    by (simp add: default_visualization_settings_def)
qed

end
