(* ===== verification/Policy_Service.thy ===== *)
theory Policy_Service
  imports Policy_Engine Policy_Audit Policy_Config
begin

text \<open>
  The policy service (\<open>policy/service.py\<close>): one decision cache and one audit recorder per profile name,
  created on first use, in front of the engine; the calls on the metrics recorder are a log. What the
  code reads from the clocks is an argument of the operation. An exception of a rule leaves the
  service with what was changed before the engine was called: the cache lookup, the new cache or
  recorder, the miss in the log.

  The last section gives the transition relation of a running service (evaluations and health checks
  in any order, with any clock readings) and its invariant: everything in a cache is the stored form of
  a decision the engine gave in this run for a request with the same cache key under the same profile.
\<close>

section \<open>State\<close>

datatype metric =
    Increment string int "(string \<times> string) list"
  | Timing string int "(string \<times> string) list"

record policy_service =
  sv_config :: pyval
  sv_settings :: policy_settings
  sv_engine :: policy_engine
  sv_caches :: "(string \<times> decision_cache) list"
  sv_audits :: "(string \<times> audit_recorder) list"
  sv_metrics :: "metric list"

record clock_readings =
  ck_get :: int
  ck_put :: int
  ck_trim :: int
  ck_audit :: int
  ck_duration_ms :: int

definition build_policy_service :: "pyval \<Rightarrow> policy_service res" where
  "build_policy_service config =
    try_bind (get_policy_settings config) (\<lambda>settings.
      Inr \<lparr>sv_config = config, sv_settings = settings,
           sv_engine = \<lparr>eng_config = config, eng_settings = settings,
                        eng_registry = load_default_policy_registry\<rparr>,
           sv_caches = [], sv_audits = [], sv_metrics = []\<rparr>)"

section \<open>Evaluation\<close>

definition decision_cache_for_profile ::
  "policy_service \<Rightarrow> policy_profile_settings \<Rightarrow> decision_cache" where
  "decision_cache_for_profile sv profile =
    (case map_of (sv_caches sv) (pp_name profile) of
       Some c \<Rightarrow> c | None \<Rightarrow> new_cache (pp_decision_cache profile))"

definition audit_recorder_for_profile ::
  "policy_service \<Rightarrow> policy_profile_settings \<Rightarrow> audit_recorder" where
  "audit_recorder_for_profile sv profile =
    (case map_of (sv_audits sv) (pp_name profile) of
       Some a \<Rightarrow> a | None \<Rightarrow> new_recorder (pp_audit profile))"

definition decision_metrics :: "policy_request \<Rightarrow> policy_decision \<Rightarrow> metric list" where
  "decision_metrics request d =
    (let value = decision_label d;
         tags = [(''component'', req_component request), (''operation'', req_action request),
                 (''provider'', policy_domain (req_action request)),
                 (''success'', if dec_allowed d then ''true'' else ''false'')]
     in (if value = ''deny'' then [Increment ''backend.policy.denials.total'' 1 tags]
         else if value = ''approval_required'' then
           [Increment ''backend.policy.approvals_required.total'' 1 tags]
         else [])
        @ (if dec_obligations d = [] then []
           else [Increment ''backend.policy.obligations.total'' (int (length (dec_obligations d))) tags]))"

definition service_evaluate ::
  "py_texts \<Rightarrow> clock_readings \<Rightarrow> policy_service \<Rightarrow> policy_request \<Rightarrow> orchestration_context \<Rightarrow>
   policy_decision res \<times> policy_service" where
  "service_evaluate tx ck sv request context =
    (let profile = resolve_policy_profile (sv_engine sv) request context;
         name = pp_name profile;
         audit = audit_recorder_for_profile sv profile;
         (cached, cache) = cache_get tx (ck_get ck) (decision_cache_for_profile sv profile)
                             request context name;
         sv1 = sv\<lparr>sv_caches := dict_set name cache (sv_caches sv),
                  sv_audits := dict_set name audit (sv_audits sv)\<rparr>;
         tags = [(''component'', req_component request), (''operation'', req_action request)]
     in case cached of
          Some d \<Rightarrow>
            (Inr d, sv1\<lparr>sv_metrics := sv_metrics sv1
               @ [Increment ''backend.policy.cache.hits.total'' 1 tags] @ decision_metrics request d\<rparr>)
        | None \<Rightarrow>
            (let sv2 = sv1\<lparr>sv_metrics := sv_metrics sv1
                         @ [Increment ''backend.policy.cache.misses.total'' 1 tags]\<rparr>
             in case engine_evaluate (sv_engine sv) request context of
                  Inl e \<Rightarrow> (Inl e, sv2)
                | Inr d \<Rightarrow>
                    (let (stored, cache') = cache_put tx (ck_put ck) (ck_trim ck) cache request context name d;
                         (event, audit') = audit_record tx (ck_audit ck) audit request context d
                     in (Inr stored,
                         sv2\<lparr>sv_caches := dict_set name cache' (sv_caches sv2),
                             sv_audits := dict_set name audit' (sv_audits sv2),
                             sv_metrics := sv_metrics sv2 @ decision_metrics request d
                               @ [Timing ''backend.policy.evaluation.duration_ms'' (ck_duration_ms ck)
                                    (tags @ [(''provider'', policy_domain (req_action request))])]\<rparr>))))"

definition service_require_allowed ::
  "py_texts \<Rightarrow> clock_readings \<Rightarrow> policy_service \<Rightarrow> policy_request \<Rightarrow> orchestration_context \<Rightarrow>
   unit res \<times> policy_service" where
  "service_require_allowed tx ck sv request context =
    (case service_evaluate tx ck sv request context of
       (Inl e, sv') \<Rightarrow> (Inl e, sv')
     | (Inr d, sv') \<Rightarrow>
         (try_bind (if dec_requires_approval d then raise_for_approval_required d else Inr ())
            (\<lambda>_. if \<not> dec_allowed d
                 then Inl (PolicyDeniedError (str_default (dec_reason d) ''Policy denied''))
                 else Inr ()), sv'))"

section \<open>Health\<close>

definition service_fallback_profile :: "policy_service \<Rightarrow> string \<Rightarrow> policy_profile_settings" where
  "service_fallback_profile sv name = fallback_profile (sv_settings sv) name"

definition health_profile :: "policy_service \<Rightarrow> policy_profile_settings" where
  "health_profile sv =
    (let name = (if pset_default_profile (sv_settings sv) = [] then ''default''
                 else pset_default_profile (sv_settings sv))
     in case map_of (pset_profiles (sv_settings sv)) name of
          Some p \<Rightarrow> p | None \<Rightarrow> service_fallback_profile sv name)"

record cache_health =
  ch_profile_count :: int
  ch_stats :: cache_stats

text \<open>The clock is read once per cache; \<open>clock n\<close> is the reading for the cache of profile \<open>n\<close>.\<close>

fun snapshot_caches ::
  "(string \<Rightarrow> int) \<Rightarrow> (string \<times> decision_cache) list \<Rightarrow> cache_stats list \<times> (string \<times> decision_cache) list" where
  "snapshot_caches clock [] = ([], [])"
| "snapshot_caches clock ((n, c) # cs) =
    (let (s, c') = cache_snapshot (clock n) c;
         (ss, cs') = snapshot_caches clock cs
     in (s # ss, (n, c') # cs'))"

definition sum_stats :: "(cache_stats \<Rightarrow> int) \<Rightarrow> cache_stats list \<Rightarrow> int" where
  "sum_stats f ss = sum_list (List.map f ss)"

definition cache_health_snapshot :: "(string \<Rightarrow> int) \<Rightarrow> policy_service \<Rightarrow> cache_health \<times> policy_service" where
  "cache_health_snapshot clock sv =
    (if sv_caches sv = [] then
       (\<lparr>ch_profile_count = 1,
         ch_stats = fst (cache_snapshot (clock (pp_name (health_profile sv)))
                      (new_cache (pp_decision_cache (health_profile sv))))\<rparr>, sv)
     else
       let (ss, cs) = snapshot_caches clock (sv_caches sv)
       in (\<lparr>ch_profile_count = int (length ss),
            ch_stats =
              \<lparr>cs_enabled = list_ex cs_enabled ss, cs_size = sum_stats cs_size ss,
               cs_max_entries = sum_stats cs_max_entries ss,
               cs_ttl_seconds = (case List.map cs_ttl_seconds ss of [] \<Rightarrow> 0 | x # xs \<Rightarrow> fold max xs x),
               cs_hits = sum_stats cs_hits ss, cs_misses = sum_stats cs_misses ss,
               cs_evictions = sum_stats cs_evictions ss\<rparr>\<rparr>,
           sv\<lparr>sv_caches := cs\<rparr>))"

definition event_time_text :: "pydict \<Rightarrow> string" where
  "event_time_text e = (case dict_get e ''recorded_at'' of PStr s \<Rightarrow> s | _ \<Rightarrow> [])"

definition later_event :: "pydict option \<Rightarrow> pydict option \<Rightarrow> pydict option" where
  "later_event current candidate =
    (case candidate of
       None \<Rightarrow> current
     | Some e \<Rightarrow>
        (case current of
           None \<Rightarrow> Some e
         | Some l \<Rightarrow> if event_time_text e > event_time_text l then Some e else Some l))"

definition merge_audit :: "audit_snapshot \<Rightarrow> audit_snapshot \<Rightarrow> audit_snapshot" where
  "merge_audit acc s =
    \<lparr>as_enabled = (as_enabled acc \<or> as_enabled s),
     as_event_count = as_event_count acc + as_event_count s,
     as_decision_counts =
       fold (\<lambda>(k, n) counts. count_add k n counts) (as_decision_counts s) (as_decision_counts acc),
     as_last_event = later_event (as_last_event acc) (as_last_event s)\<rparr>"

definition audit_health_snapshot :: "policy_service \<Rightarrow> audit_snapshot" where
  "audit_health_snapshot sv =
    (if sv_audits sv = [] then audit_snapshot_of (new_recorder (pp_audit (health_profile sv)))
     else fold (\<lambda>(n, a) acc. merge_audit acc (audit_snapshot_of a)) (sv_audits sv)
            \<lparr>as_enabled = False, as_event_count = 0, as_decision_counts = zero_counts,
             as_last_event = None\<rparr>)"

record policy_service_health =
  sh_configured :: bool
  sh_healthy :: bool
  sh_enabled :: bool
  sh_mode :: string
  sh_default_profile :: string
  sh_profile_count :: int
  sh_rule_count :: int
  sh_cache :: cache_health
  sh_audit :: audit_snapshot

definition service_health :: "(string \<Rightarrow> int) \<Rightarrow> policy_service \<Rightarrow> policy_service_health \<times> policy_service" where
  "service_health clock sv =
    (let (cache, sv') = cache_health_snapshot clock sv;
         audit = audit_health_snapshot sv'
     in (\<lparr>sh_configured = True, sh_healthy = True, sh_enabled = pset_enabled (sv_settings sv),
          sh_mode = pset_mode (sv_settings sv),
          sh_default_profile = (if pset_default_profile (sv_settings sv) = [] then ''default''
                                else pset_default_profile (sv_settings sv)),
          sh_profile_count = int (length (pset_profiles (sv_settings sv))),
          sh_rule_count = int (length (eng_registry (sv_engine sv))),
          sh_cache = cache, sh_audit = audit\<rparr>, sv'))"

section \<open>A running service\<close>

text \<open>The log of a run is the list of the questions the engine answered: the clock reading with which the
  answer was stored, the request, the context and the decision, newest first.\<close>

type_synonym engine_log = "(int \<times> policy_request \<times> orchestration_context \<times> policy_decision) list"

definition engine_answers ::
  "py_texts \<Rightarrow> clock_readings \<Rightarrow> policy_service \<Rightarrow> policy_request \<Rightarrow> orchestration_context \<Rightarrow> engine_log" where
  "engine_answers tx ck sv r c =
    (let profile = resolve_policy_profile (sv_engine sv) r c
     in case fst (cache_get tx (ck_get ck) (decision_cache_for_profile sv profile) r c (pp_name profile)) of
          Some d \<Rightarrow> []
        | None \<Rightarrow> (case engine_evaluate (sv_engine sv) r c of Inl e \<Rightarrow> [] | Inr d \<Rightarrow> [(ck_put ck, r, c, d)]))"

inductive service_runs :: "py_texts \<Rightarrow> policy_service \<Rightarrow> engine_log \<Rightarrow> policy_service \<Rightarrow> bool" for tx where
  start: "service_runs tx sv [] sv"
| evaluate: "service_runs tx sv log sv' \<Longrightarrow>
    service_runs tx sv (engine_answers tx ck sv' r c @ log) (snd (service_evaluate tx ck sv' r c))"
| health: "service_runs tx sv log sv' \<Longrightarrow> service_runs tx sv log (snd (service_health clock sv'))"

text \<open>An answer of the log, given under profile \<open>n\<close> and stored at time \<open>t\<close>.\<close>

definition engine_gave ::
  "policy_engine \<Rightarrow> engine_log \<Rightarrow> string \<Rightarrow> cache_query \<Rightarrow> policy_decision \<Rightarrow> int \<Rightarrow> bool" where
  "engine_gave eng log n q d t =
    (case q of (r, c, m) \<Rightarrow>
       (t, r, c, d) \<in> set log \<and> m = n \<and> pp_name (resolve_policy_profile eng r c) = n
       \<and> engine_evaluate eng r c = Inr d)"

definition cache_ok :: "py_texts \<Rightarrow> policy_engine \<Rightarrow> engine_log \<Rightarrow> string \<Rightarrow> decision_cache \<Rightarrow> bool" where
  "cache_ok tx eng log n c \<longleftrightarrow> cache_wf c \<and> policy_cache.backed tx (engine_gave eng log n) c"

definition service_ok :: "py_texts \<Rightarrow> engine_log \<Rightarrow> policy_service \<Rightarrow> bool" where
  "service_ok tx log sv \<longleftrightarrow>
    (\<forall>n c. map_of (sv_caches sv) n = Some c \<longrightarrow> cache_ok tx (sv_engine sv) log n c)
    \<and> (\<forall>n a. map_of (sv_audits sv) n = Some a \<longrightarrow> audit_wf a)"

lemma cache_held_new: "cache_held (new_cache s) = {}"
  by (simp add: cache_held_def new_cache_def)

lemma cache_ok_new: "cache_ok tx eng log n (new_cache s)"
  by (simp add: cache_ok_def cache_wf_new policy_cache.backed_empty cache_held_new)

lemma cache_ok_get: "cache_ok tx eng log n c \<Longrightarrow> cache_ok tx eng log n (snd (cache_get tx t c r ctx m))"
  using policy_cache.backed_lookup [of tx "engine_gave eng log n" c t "(r, ctx, m)"]
  by (simp add: cache_ok_def cache_get_wf query_get_def)

lemma cache_ok_put:
  "cache_ok tx eng log n c \<Longrightarrow> engine_gave eng log n (r, ctx, n) d t \<Longrightarrow>
    cache_ok tx eng log n (snd (cache_put tx t t' c r ctx n d))"
  using policy_cache.backed_store [of tx "engine_gave eng log n" c "(r, ctx, n)" d t t']
  by (simp add: cache_ok_def cache_put_wf query_put_def)

lemma cache_ok_snapshot: "cache_ok tx eng log n c \<Longrightarrow> cache_ok tx eng log n (snd (cache_snapshot t c))"
  using policy_cache.backed_shrink [of tx "engine_gave eng log n" c "snd (cache_snapshot t c)"]
  by (simp add: cache_ok_def cache_snapshot_keeps cache_ttl_def)

lemma cache_for_profile_ok:
  "service_ok tx log sv \<Longrightarrow> cache_ok tx (sv_engine sv) log (pp_name p) (decision_cache_for_profile sv p)"
  by (auto simp: service_ok_def decision_cache_for_profile_def cache_ok_new split: option.split)

lemma audit_for_profile_ok: "service_ok tx log sv \<Longrightarrow> audit_wf (audit_recorder_for_profile sv p)"
  by (auto simp: service_ok_def audit_recorder_for_profile_def audit_wf_def new_recorder_def split: option.split)

lemma cache_ok_mono: "cache_ok tx eng log n c \<Longrightarrow> set log \<subseteq> set log' \<Longrightarrow> cache_ok tx eng log' n c"
  unfolding cache_ok_def
  by (elim conjE, intro conjI, assumption, erule policy_cache.backed_mono) (auto simp: engine_gave_def)

lemma service_ok_mono: "service_ok tx log sv \<Longrightarrow> set log \<subseteq> set log' \<Longrightarrow> service_ok tx log' sv"
  unfolding service_ok_def using cache_ok_mono by blast

section \<open>The branches of an evaluation\<close>

text \<open>The profile and the cache an evaluation works with.\<close>

abbreviation "profile_of sv r c \<equiv> resolve_policy_profile (sv_engine sv) r c"

abbreviation "lookup_of tx ck sv r c \<equiv>
  cache_get tx (ck_get ck) (decision_cache_for_profile sv (profile_of sv r c)) r c (pp_name (profile_of sv r c))"

lemma service_evaluate_hit:
  assumes "lookup_of tx ck sv r c = (Some d, cache)"
  shows "fst (service_evaluate tx ck sv r c) = Inr d"
    and "map_of (sv_caches (snd (service_evaluate tx ck sv r c))) =
      (map_of (sv_caches sv))(pp_name (profile_of sv r c) \<mapsto> cache)"
    and "map_of (sv_audits (snd (service_evaluate tx ck sv r c))) =
      (map_of (sv_audits sv))(pp_name (profile_of sv r c) \<mapsto> audit_recorder_for_profile sv (profile_of sv r c))"
  using assms by (simp_all add: service_evaluate_def Let_def)

lemma service_evaluate_error:
  assumes "lookup_of tx ck sv r c = (None, cache)" "engine_evaluate (sv_engine sv) r c = Inl e"
  shows "fst (service_evaluate tx ck sv r c) = Inl e"
    and "map_of (sv_caches (snd (service_evaluate tx ck sv r c))) =
      (map_of (sv_caches sv))(pp_name (profile_of sv r c) \<mapsto> cache)"
    and "map_of (sv_audits (snd (service_evaluate tx ck sv r c))) =
      (map_of (sv_audits sv))(pp_name (profile_of sv r c) \<mapsto> audit_recorder_for_profile sv (profile_of sv r c))"
  using assms by (simp_all add: service_evaluate_def Let_def)

lemma service_evaluate_miss:
  assumes "lookup_of tx ck sv r c = (None, cache)" "engine_evaluate (sv_engine sv) r c = Inr d"
  shows "fst (service_evaluate tx ck sv r c) =
      Inr (fst (cache_put tx (ck_put ck) (ck_trim ck) cache r c (pp_name (profile_of sv r c)) d))"
    and "map_of (sv_caches (snd (service_evaluate tx ck sv r c))) =
      (map_of (sv_caches sv))(pp_name (profile_of sv r c) \<mapsto>
        snd (cache_put tx (ck_put ck) (ck_trim ck) cache r c (pp_name (profile_of sv r c)) d))"
    and "map_of (sv_audits (snd (service_evaluate tx ck sv r c))) =
      (map_of (sv_audits sv))(pp_name (profile_of sv r c) \<mapsto>
        snd (audit_record tx (ck_audit ck) (audit_recorder_for_profile sv (profile_of sv r c)) r c d))"
  using assms by (simp_all add: service_evaluate_def Let_def split: prod.split)

lemma service_evaluate_engine [simp]:
  "sv_engine (snd (service_evaluate tx ck sv r c)) = sv_engine sv"
  by (simp add: service_evaluate_def Let_def split: prod.split option.split sum.split)

lemma service_ok_update:
  assumes "service_ok tx log sv" "sv_engine sv' = sv_engine sv"
    and "map_of (sv_caches sv') = (map_of (sv_caches sv))(n \<mapsto> c)" "cache_ok tx (sv_engine sv) log n c"
    and "map_of (sv_audits sv') = (map_of (sv_audits sv))(n \<mapsto> a)" "audit_wf a"
  shows "service_ok tx log sv'"
  using assms by (simp add: service_ok_def)

lemma service_evaluate_ok:
  assumes before: "service_ok tx log0 sv"
  shows "service_ok tx (engine_answers tx ck sv r c @ log0) (snd (service_evaluate tx ck sv r c))"
proof -
  define log where "log = engine_answers tx ck sv r c @ log0"
  have ok: "service_ok tx log sv" by (rule service_ok_mono [OF before]) (simp add: log_def)
  let ?n = "pp_name (profile_of sv r c)" and ?a = "audit_recorder_for_profile sv (profile_of sv r c)"
  obtain cached cache where look: "lookup_of tx ck sv r c = (cached, cache)" by fastforce
  have cache: "cache_ok tx (sv_engine sv) log ?n cache"
    using cache_ok_get [OF cache_for_profile_ok [OF ok], of "profile_of sv r c" "ck_get ck" r c ?n] look by simp
  have audit: "audit_wf ?a" by (rule audit_for_profile_ok [OF ok])
  have "service_ok tx log (snd (service_evaluate tx ck sv r c))"
  proof (cases cached)
    case (Some d)
    note h = service_evaluate_hit [OF look [unfolded Some]]
    show ?thesis by (rule service_ok_update [OF ok service_evaluate_engine h(2) cache h(3) audit])
  next
    case None
    note look = look [unfolded None]
    show ?thesis
    proof (cases "engine_evaluate (sv_engine sv) r c")
      case (Inl e)
      note h = service_evaluate_error [OF look Inl]
      show ?thesis by (rule service_ok_update [OF ok service_evaluate_engine h(2) cache h(3) audit])
    next
      case (Inr d)
      note h = service_evaluate_miss [OF look Inr]
      have gave: "engine_gave (sv_engine sv) log ?n (r, c, ?n) d (ck_put ck)"
        using Inr look by (simp add: engine_gave_def log_def engine_answers_def Let_def)
      show ?thesis
        by (rule service_ok_update [OF ok service_evaluate_engine h(2) cache_ok_put [OF cache gave] h(3)
              audit_record_wf [OF audit]])
    qed
  qed
  then show ?thesis by (simp add: log_def)
qed

lemma snapshot_caches_snd:
  "snd (snapshot_caches clock cs) = List.map (\<lambda>(n, c). (n, snd (cache_snapshot (clock n) c))) cs"
  by (induction cs) (auto split: prod.splits)

lemma map_of_map_snd: "map_of (List.map (\<lambda>(n, c). (n, f n c)) cs) n = map_option (f n) (map_of cs n)"
  by (induction cs) auto

lemma service_health_snd:
  "snd (service_health clock sv) =
    sv\<lparr>sv_caches := List.map (\<lambda>(n, c). (n, snd (cache_snapshot (clock n) c))) (sv_caches sv)\<rparr>"
  by (simp add: service_health_def cache_health_snapshot_def Let_def split_beta snapshot_caches_snd)

lemma service_health_fields:
  "sv_engine (snd (service_health clock sv)) = sv_engine sv"
  "sv_audits (snd (service_health clock sv)) = sv_audits sv"
  "map_of (sv_caches (snd (service_health clock sv))) n =
    map_option (\<lambda>c. snd (cache_snapshot (clock n) c)) (map_of (sv_caches sv) n)"
  by (simp_all add: service_health_snd map_of_map_snd)

lemma service_health_ok: "service_ok tx log sv \<Longrightarrow> service_ok tx log (snd (service_health clock sv))"
  by (auto simp: service_ok_def service_health_fields cache_ok_snapshot)

lemma service_runs_ok: "service_runs tx sv log sv' \<Longrightarrow> service_ok tx [] sv \<Longrightarrow> service_ok tx log sv'"
  by (induction rule: service_runs.induct) (auto intro: service_evaluate_ok service_health_ok)

lemma service_runs_engine: "service_runs tx sv log sv' \<Longrightarrow> sv_engine sv' = sv_engine sv"
  by (induction rule: service_runs.induct) (auto simp: service_health_fields)

lemma build_policy_service_ok: "build_policy_service config = Inr sv \<Longrightarrow> service_ok tx log sv"
  by (auto simp: build_policy_service_def service_ok_def)

lemma build_policy_service_registry:
  "build_policy_service config = Inr sv \<Longrightarrow> eng_registry (sv_engine sv) = load_default_policy_registry"
  by (auto simp: build_policy_service_def)

text \<open>What an evaluation returns: the engine's decision for this request, plain or in its stored form,
  or the stored form of a decision the engine gave for a request with the same key and profile, not
  longer ago than the time to live.\<close>

lemma service_evaluate_source:
  assumes ok: "service_ok tx log sv" and ev: "service_evaluate tx ck sv r c = (Inr d, sv')"
  defines "n \<equiv> pp_name (profile_of sv r c)"
  obtains (computed) d0 where "engine_evaluate (sv_engine sv) r c = Inr d0" "d \<in> {d0, sanitize_decision d0}"
  | (cached) r' c' d0 t where "engine_evaluate (sv_engine sv) r' c' = Inr d0" "d = sanitize_decision d0"
      "(t, r', c', d0) \<in> set log"
      "build_policy_cache_key tx r' c' n = build_policy_cache_key tx r c n"
      "pp_name (profile_of sv r' c') = n"
      "ck_get ck < t + cache_ttl (decision_cache_for_profile sv (profile_of sv r c))"
proof -
  let ?cache = "decision_cache_for_profile sv (profile_of sv r c)"
  obtain found cache where look: "lookup_of tx ck sv r c = (found, cache)" by fastforce
  show ?thesis
  proof (cases found)
    case (Some x)
    with service_evaluate_hit(1) [OF look [unfolded Some]] ev have "x = d" by simp
    with look Some have "query_get tx (ck_get ck) ?cache (r, c, n) = (Some d, cache)"
      by (simp add: query_get_def n_def)
    moreover have "policy_cache.backed tx (engine_gave (sv_engine sv) log n) ?cache"
      using cache_for_profile_ok [OF ok] by (simp add: cache_ok_def n_def)
    ultimately obtain q d0 t where q: "engine_gave (sv_engine sv) log n q d0 t" "query_key tx q = query_key tx (r, c, n)"
      "d = sanitize_decision d0" "ck_get ck < t + cache_ttl ?cache"
      using policy_cache.backed_hit by blast
    obtain r' c' m where "q = (r', c', m)" by (cases q)
    with q cached [of r' c' d0 t] show ?thesis by (auto simp: engine_gave_def query_key_def)
  next
    case None
    note look = look [unfolded None]
    show ?thesis
    proof (cases "engine_evaluate (sv_engine sv) r c")
      case (Inl e)
      with service_evaluate_error(1) [OF look Inl] ev show ?thesis by simp
    next
      case (Inr d0)
      then have "fst (cache_put tx (ck_put ck) (ck_trim ck) cache r c n d0) = d"
        using service_evaluate_miss(1) [OF look Inr] ev by (simp add: n_def)
      then have "d \<in> {d0, sanitize_decision d0}" by (auto simp: cache_put_def Let_def split: if_splits)
      with Inr computed show ?thesis by blast
    qed
  qed
qed

end
