(* ===== verification/LLM_Config.thy ===== *)
theory LLM_Config
  imports Config_View
begin

text \<open>
  \<open>get_llm_settings\<close> of \<open>config/view.py\<close>: the defaults, the providers and the logical profiles of the LLM
  gateway. The reader takes the names from the section and reads each setting through a dotted path
  that it builds from the name, so a name that itself contains a dot loses its settings to the
  defaults; the last section proves it.
\<close>

section \<open>Settings\<close>

record llm_defaults =
  ld_profile :: string
  ld_timeout_seconds :: int
  ld_stream_timeout_seconds :: int
  ld_max_retries :: int
  ld_trace_prompts :: bool
  ld_trace_completions :: bool

record llm_provider_settings =
  lv_name :: string
  lv_type :: string
  lv_enabled :: bool
  lv_base_url :: "string option"
  lv_endpoint :: "string option"
  lv_api_key :: "string option"
  lv_auth_header :: "string option"
  lv_auth_token :: "string option"
  lv_timeout_seconds :: int
  lv_stream_timeout_seconds :: int
  lv_headers :: "(string \<times> string) list"
  lv_extra :: pydict

record llm_profile_allowlist =
  la_usecases :: "string list"
  la_agents :: "string list"
  la_strategies :: "string list"

record llm_profile_settings =
  lp_name :: string
  lp_enabled :: bool
  lp_provider :: string
  lp_model :: string
  lp_temperature :: "pyval option"
  lp_top_p :: "pyval option"
  lp_max_output_tokens :: "int option"
  lp_max_input_tokens :: "int option"
  lp_max_total_tokens :: "int option"
  lp_timeout_seconds :: "int option"
  lp_stream_timeout_seconds :: "int option"
  lp_supports_streaming :: bool
  lp_supports_json_schema :: bool
  lp_supports_tool_calling :: bool
  lp_allowed_for :: llm_profile_allowlist
  lp_fallback_profiles :: "string list"
  lp_extra :: pydict

record llm_settings =
  ls_defaults :: llm_defaults
  ls_providers :: "(string \<times> llm_provider_settings) list"
  ls_profiles :: "(string \<times> llm_profile_settings) list"

section \<open>Reading\<close>

definition read_llm_provider :: "pyval \<Rightarrow> string \<Rightarrow> llm_provider_settings res" where
  "read_llm_provider config name =
    try_bind (cfg_str config (''llm.providers.'' @ name @ ''.type'') ''openai_compatible'') (\<lambda>type_text.
    try_bind (cfg_bool config (''llm.providers.'' @ name @ ''.enabled'') True) (\<lambda>enabled.
    try_bind (cfg_optional_str_or_none config (''llm.providers.'' @ name @ ''.base_url'')) (\<lambda>base_url.
    try_bind (cfg_optional_str_or_none config (''llm.providers.'' @ name @ ''.endpoint'')) (\<lambda>endpoint.
    try_bind (cfg_optional_str_or_none config (''llm.providers.'' @ name @ ''.api_key'')) (\<lambda>api_key.
    try_bind (cfg_optional_str_or_none config (''llm.providers.'' @ name @ ''.auth_header'')) (\<lambda>auth_header.
    try_bind (cfg_optional_str_or_none config (''llm.providers.'' @ name @ ''.auth_token'')) (\<lambda>auth_token.
    try_bind (cfg_int config (''llm.providers.'' @ name @ ''.timeout_seconds'') 120) (\<lambda>timeout_seconds.
    try_bind (cfg_int config (''llm.providers.'' @ name @ ''.stream_timeout_seconds'') 300) (\<lambda>stream_timeout_seconds.
    try_bind (cfg_str_mapping config (''llm.providers.'' @ name @ ''.headers'')) (\<lambda>headers.
    try_bind (cfg_mapping_dict config (''llm.providers.'' @ name @ ''.extra'')) (\<lambda>extra.
    Inr \<lparr>lv_name = name,
      lv_type = type_text,
      lv_enabled = enabled,
      lv_base_url = base_url,
      lv_endpoint = endpoint,
      lv_api_key = api_key,
      lv_auth_header = auth_header,
      lv_auth_token = auth_token,
      lv_timeout_seconds = timeout_seconds,
      lv_stream_timeout_seconds = stream_timeout_seconds,
      lv_headers = headers,
      lv_extra = extra\<rparr>)))))))))))"

definition read_llm_allowlist :: "pyval \<Rightarrow> string \<Rightarrow> llm_profile_allowlist res" where
  "read_llm_allowlist config name =
    try_bind (cfg_str_tuple config (''llm.profiles.'' @ name @ ''.allowed_for.usecases'') []) (\<lambda>usecases.
    try_bind (cfg_str_tuple config (''llm.profiles.'' @ name @ ''.allowed_for.agents'') []) (\<lambda>agents.
    try_bind (cfg_str_tuple config (''llm.profiles.'' @ name @ ''.allowed_for.strategies'') []) (\<lambda>strategies.
    Inr \<lparr>la_usecases = usecases,
      la_agents = agents,
      la_strategies = strategies\<rparr>)))"

definition read_llm_profile :: "pyval \<Rightarrow> string \<Rightarrow> llm_profile_settings res" where
  "read_llm_profile config name =
    try_bind (cfg_bool config (''llm.profiles.'' @ name @ ''.enabled'') True) (\<lambda>enabled.
    try_bind (cfg_str config (''llm.profiles.'' @ name @ ''.provider'') []) (\<lambda>provider.
    try_bind (cfg_str config (''llm.profiles.'' @ name @ ''.model'') []) (\<lambda>model.
    try_bind (cfg_optional_float config (''llm.profiles.'' @ name @ ''.temperature'')) (\<lambda>temperature.
    try_bind (cfg_optional_float config (''llm.profiles.'' @ name @ ''.top_p'')) (\<lambda>top_p.
    try_bind (cfg_optional_int config (''llm.profiles.'' @ name @ ''.max_output_tokens'')) (\<lambda>max_output_tokens.
    try_bind (cfg_optional_int config (''llm.profiles.'' @ name @ ''.max_input_tokens'')) (\<lambda>max_input_tokens.
    try_bind (cfg_optional_int config (''llm.profiles.'' @ name @ ''.max_total_tokens'')) (\<lambda>max_total_tokens.
    try_bind (cfg_optional_int config (''llm.profiles.'' @ name @ ''.timeout_seconds'')) (\<lambda>timeout_seconds.
    try_bind (cfg_optional_int config (''llm.profiles.'' @ name @ ''.stream_timeout_seconds'')) (\<lambda>stream_timeout_seconds.
    try_bind (cfg_bool config (''llm.profiles.'' @ name @ ''.supports_streaming'') True) (\<lambda>supports_streaming.
    try_bind (cfg_bool config (''llm.profiles.'' @ name @ ''.supports_json_schema'') False) (\<lambda>supports_json_schema.
    try_bind (cfg_bool config (''llm.profiles.'' @ name @ ''.supports_tool_calling'') False) (\<lambda>supports_tool_calling.
    try_bind (read_llm_allowlist config name) (\<lambda>allowed_for.
    try_bind (cfg_str_tuple config (''llm.profiles.'' @ name @ ''.fallback_profiles'') []) (\<lambda>fallback_profiles.
    try_bind (cfg_mapping_dict config (''llm.profiles.'' @ name @ ''.extra'')) (\<lambda>extra.
    Inr \<lparr>lp_name = name,
      lp_enabled = enabled,
      lp_provider = provider,
      lp_model = model,
      lp_temperature = temperature,
      lp_top_p = top_p,
      lp_max_output_tokens = max_output_tokens,
      lp_max_input_tokens = max_input_tokens,
      lp_max_total_tokens = max_total_tokens,
      lp_timeout_seconds = timeout_seconds,
      lp_stream_timeout_seconds = stream_timeout_seconds,
      lp_supports_streaming = supports_streaming,
      lp_supports_json_schema = supports_json_schema,
      lp_supports_tool_calling = supports_tool_calling,
      lp_allowed_for = allowed_for,
      lp_fallback_profiles = fallback_profiles,
      lp_extra = extra\<rparr>))))))))))))))))"

text \<open>The loop over the names of a section, for the reader of one entry.\<close>

fun read_named :: "(string \<Rightarrow> 'a res) \<Rightarrow> string list \<Rightarrow> (string \<times> 'a) list \<Rightarrow> (string \<times> 'a) list res" where
  "read_named reader [] acc = Inr acc"
| "read_named reader (name # names) acc =
    try_bind (reader name) (\<lambda>x. read_named reader names (dict_set name x acc))"

definition read_llm_defaults :: "pyval \<Rightarrow> string \<Rightarrow> llm_defaults res" where
  "read_llm_defaults config profile =
    try_bind (cfg_int config ''llm.defaults.timeout_seconds'' 120) (\<lambda>timeout_seconds.
    try_bind (cfg_int config ''llm.defaults.stream_timeout_seconds'' 300) (\<lambda>stream_timeout_seconds.
    try_bind (cfg_int config ''llm.defaults.max_retries'' 1) (\<lambda>max_retries.
    try_bind (cfg_bool config ''llm.defaults.trace_prompts'' False) (\<lambda>trace_prompts.
    try_bind (cfg_bool config ''llm.defaults.trace_completions'' False) (\<lambda>trace_completions.
    Inr \<lparr>ld_profile = profile,
      ld_timeout_seconds = timeout_seconds,
      ld_stream_timeout_seconds = stream_timeout_seconds,
      ld_max_retries = max_retries,
      ld_trace_prompts = trace_prompts,
      ld_trace_completions = trace_completions\<rparr>)))))"

definition get_llm_settings :: "pyval \<Rightarrow> llm_settings res" where
  "get_llm_settings config =
    try_bind (config_section config ''llm.providers'') (\<lambda>provider_sections.
    try_bind (config_section config ''llm.profiles'') (\<lambda>profile_sections.
    (case config_get config ''llm.defaults.profile'' (config_get config ''llm.default_profile'' PNone) of
       PStr default_profile \<Rightarrow>
         try_bind (read_named (read_llm_provider config) (List.map fst provider_sections) []) (\<lambda>providers.
         try_bind (read_named (read_llm_profile config) (List.map fst profile_sections) []) (\<lambda>profiles.
         try_bind (read_llm_defaults config default_profile) (\<lambda>defaults.
         Inr \<lparr>ls_defaults = defaults, ls_providers = providers, ls_profiles = profiles\<rparr>)))
     | _ \<Rightarrow> Inl (ConfigurationError ''Missing required config path: llm.defaults.profile''))))"

declare get_llm_settings_def [reader_defs] read_llm_defaults_def [reader_defs]
  read_llm_profile_def [reader_defs] read_llm_allowlist_def [reader_defs] read_llm_provider_def [reader_defs]

section \<open>Lemmas\<close>

lemma read_named_entries:
  assumes "read_named reader names acc = Inr out" "distinct (List.map fst acc)"
    and "\<And>n x. (n, x) \<in> set acc \<Longrightarrow> P n x" "\<And>n x. reader n = Inr x \<Longrightarrow> P n x"
  shows "distinct (List.map fst out) \<and> (\<forall>(n, x) \<in> set out. P n x)
    \<and> fst ` set out = fst ` set acc \<union> set names"
  using assms
proof (induction names arbitrary: acc)
  case Nil
  then show ?case by auto
next
  case (Cons n names)
  from Cons.prems(1) obtain x where x: "reader n = Inr x" "read_named reader names (dict_set n x acc) = Inr out"
    by auto
  have "(m, y) \<in> set (dict_set n x acc) \<Longrightarrow> P m y" for m y
    using Cons.prems(3) Cons.prems(4) [OF x(1)] dict_set_mem [of m y n x acc] by blast
  with Cons.IH [OF x(2)] Cons.prems(2,4) show ?case by (auto simp: fst_dict_set)
qed

lemma read_llm_profile_name: "read_llm_profile config name = Inr p \<Longrightarrow> lp_name p = name"
  by (auto simp: read_llm_profile_def)

lemma read_llm_provider_name: "read_llm_provider config name = Inr p \<Longrightarrow> lv_name p = name"
  by (auto simp: read_llm_provider_def)

lemma llm_settings_entries:
  assumes "get_llm_settings config = Inr s"
  shows "distinct (List.map fst (ls_profiles s)) \<and> (\<forall>(n, p) \<in> set (ls_profiles s). lp_name p = n)"
    and "distinct (List.map fst (ls_providers s)) \<and> (\<forall>(n, p) \<in> set (ls_providers s). lv_name p = n)"
proof -
  from assms obtain provs profs where
    "read_named (read_llm_provider config) provs [] = Inr (ls_providers s)"
    "read_named (read_llm_profile config) profs [] = Inr (ls_profiles s)"
    by (cases "config_get config ''llm.defaults.profile'' (config_get config ''llm.default_profile'' PNone)")
       (auto simp: get_llm_settings_def)
  from read_named_entries [OF this(1), of "\<lambda>n p. lv_name p = n"] read_llm_provider_name
    read_named_entries [OF this(2), of "\<lambda>n p. lp_name p = n"] read_llm_profile_name
  show "distinct (List.map fst (ls_profiles s)) \<and> (\<forall>(n, p) \<in> set (ls_profiles s). lp_name p = n)"
    "distinct (List.map fst (ls_providers s)) \<and> (\<forall>(n, p) \<in> set (ls_providers s). lv_name p = n)"
    by auto
qed

text \<open>A dotted name is read past: the walk below the section fails at the part before the dot.\<close>

lemma split_on_join: "split_on sep (s @ sep # t) = split_on sep s @ split_on sep t"
  by (induction s) (auto split: list.splits)

lemma config_get_below:
  assumes "config_walk config (split_on (CHR ''.'') path) = Some (PDict d)"
    and "CHR ''.'' \<notin> set part" "map_of d part = None" "map_of d ''plugins'' = None"
  shows "config_get config (path @ CHR ''.'' # part @ CHR ''.'' # rest) dflt = dflt"
proof -
  have "config_walk (PDict d) (part # split_on (CHR ''.'') rest) = None"
    using assms(3,4) by (simp add: agent_plugin_compatibility_value_def dict_get_def)
  then have "config_walk config (split_on (CHR ''.'') (path @ CHR ''.'' # part @ CHR ''.'' # rest)) = None"
    using assms(1,2) by (simp add: split_on_join split_on_no_sep config_walk_append del: config_walk.simps)
  then show ?thesis by (simp add: config_get_def)
qed

definition bare_llm_profile :: "string \<Rightarrow> llm_profile_settings" where
  "bare_llm_profile name =
    \<lparr>lp_name = name, lp_enabled = True, lp_provider = [], lp_model = [], lp_temperature = None, lp_top_p = None,
     lp_max_output_tokens = None, lp_max_input_tokens = None, lp_max_total_tokens = None,
     lp_timeout_seconds = None, lp_stream_timeout_seconds = None, lp_supports_streaming = True,
     lp_supports_json_schema = False, lp_supports_tool_calling = False,
     lp_allowed_for = \<lparr>la_usecases = [], la_agents = [], la_strategies = []\<rparr>, lp_fallback_profiles = [],
     lp_extra = []\<rparr>"

lemma dotted_llm_profile:
  assumes "config_walk config [''llm'', ''profiles''] = Some (PDict d)"
    and "CHR ''.'' \<notin> set part" "map_of d part = None" "map_of d ''plugins'' = None"
  shows "read_llm_profile config (part @ CHR ''.'' # rest) = Inr (bare_llm_profile (part @ CHR ''.'' # rest))"
proof -
  have "config_walk config (split_on (CHR ''.'') ''llm.profiles'') = Some (PDict d)"
    using assms(1) by simp
  from config_get_below [OF this assms(2-4)]
  have get: "config_get config (''llm.profiles.'' @ (part @ CHR ''.'' # rest) @ more) dflt = dflt" for more dflt
    by simp
  show ?thesis
    unfolding read_llm_profile_def read_llm_allowlist_def cfg_bool_def cfg_str_def cfg_optional_float_def
      cfg_optional_int_def cfg_str_tuple_def cfg_mapping_dict_def get
    by (simp add: bare_llm_profile_def py_strs_def seq_items_def)
qed

end
