(* ===== verification/LLM_Models.thy ===== *)
theory LLM_Models
  imports LLM_Config Policy_Contracts Py_Text
begin

text \<open>
  What the LLM gateway passes around (\<open>contracts/llm.py\<close>, \<open>llm/models.py\<close>), its normalized errors
  (\<open>llm/errors.py\<close>) and their classification (\<open>llm/retry.py\<close>). The dataclass annotations are taken at
  their word: a field annotated \<open>str | None\<close> is an optional string.
\<close>

section \<open>Requests\<close>

record llm_content_part =
  part_type :: string
  part_text :: "string option"
  part_image_url :: "string option"
  part_json_value :: pyval

record llm_tool_call =
  tcall_id :: "string option"
  tcall_name :: string
  tcall_arguments :: string
  tcall_metadata :: pydict

datatype llm_content = TextContent string | PartsContent "llm_content_part list"

record llm_message =
  msg_role :: string
  msg_content :: llm_content
  msg_name :: "string option"
  msg_tool_call_id :: "string option"
  msg_tool_calls :: "llm_tool_call list"

record llm_response_format =
  rf_type :: string
  rf_schema_name :: "string option"
  rf_json_schema :: "pydict option"
  rf_strict :: bool

record llm_tool_definition =
  tdef_name :: string
  tdef_description :: "string option"
  tdef_parameters :: "pydict option"

record llm_tool_choice =
  tch_type :: string
  tch_function_name :: "string option"

record llm_request =
  lr_messages :: "llm_message list"
  lr_component :: "string option"
  lr_profile :: "string option"
  lr_temperature :: "pyval option"
  lr_top_p :: "pyval option"
  lr_max_output_tokens :: "int option"
  lr_response_format :: "llm_response_format option"
  lr_tools :: "llm_tool_definition list"
  lr_tool_choice :: "llm_tool_choice option"
  lr_stream :: bool
  lr_timeout_seconds :: "int option"
  lr_metadata :: pydict
  lr_max_tokens :: "int option"

text \<open>The last lines of \<open>LLMRequest.__post_init__\<close>: the two names of the output limit are aligned.\<close>

definition align_max_tokens :: "llm_request \<Rightarrow> llm_request" where
  "align_max_tokens q =
    (if lr_max_output_tokens q = None \<and> lr_max_tokens q \<noteq> None then q\<lparr>lr_max_output_tokens := lr_max_tokens q\<rparr>
     else if lr_max_tokens q = None \<and> lr_max_output_tokens q \<noteq> None then
       q\<lparr>lr_max_tokens := lr_max_output_tokens q\<rparr>
     else q)"

section \<open>Resolved requests\<close>

record resolved_llm_request =
  rlr_request :: llm_request
  rlr_defaults :: llm_defaults
  rlr_provider :: llm_provider_settings
  rlr_profile :: llm_profile_settings
  rlr_profile_name :: string
  rlr_provider_name :: string
  rlr_model :: string
  rlr_timeout_seconds :: int
  rlr_stream_timeout_seconds :: int
  rlr_max_retries :: int
  rlr_response_format :: "llm_response_format option"
  rlr_max_output_tokens :: "int option"
  rlr_agent_name :: "string option"
  rlr_strategy_name :: "string option"
  rlr_usecase_name :: "string option"
  rlr_resolution_source :: string
  rlr_metadata :: pydict

definition rlr_component :: "resolved_llm_request \<Rightarrow> string" where
  "rlr_component q = str_default (lr_component (rlr_request q)) ''llm.gateway''"

definition rlr_temperature :: "resolved_llm_request \<Rightarrow> pyval option" where
  "rlr_temperature q =
    (case lr_temperature (rlr_request q) of Some t \<Rightarrow> Some t | None \<Rightarrow> lp_temperature (rlr_profile q))"

definition rlr_top_p :: "resolved_llm_request \<Rightarrow> pyval option" where
  "rlr_top_p q = (case lr_top_p (rlr_request q) of Some t \<Rightarrow> Some t | None \<Rightarrow> lp_top_p (rlr_profile q))"

definition rlr_stream :: "resolved_llm_request \<Rightarrow> bool" where
  "rlr_stream q = lr_stream (rlr_request q)"

section \<open>Responses and stream events\<close>

record llm_usage =
  usage_input_tokens :: "int option"
  usage_output_tokens :: "int option"
  usage_total_tokens :: "int option"

record provider_response =
  pr_text :: string
  pr_tool_calls :: "llm_tool_call list"
  pr_finish_reason :: "string option"
  pr_reasoning :: pydict
  pr_usage :: "llm_usage option"
  pr_raw_id :: "string option"
  pr_metadata :: pydict

record llm_response =
  lres_text :: string
  lres_profile :: string
  lres_provider :: string
  lres_model :: string
  lres_tool_calls :: "llm_tool_call list"
  lres_finish_reason :: "string option"
  lres_reasoning :: pydict
  lres_usage :: "llm_usage option"
  lres_raw_id :: "string option"
  lres_metadata :: pydict

datatype stream_event_type = SStarted | SDelta | SMetadata | SCompleted | SError

record provider_stream_event =
  pse_type :: stream_event_type
  pse_text :: "string option"
  pse_tool_calls :: "llm_tool_call list"
  pse_finish_reason :: "string option"
  pse_reasoning :: pydict
  pse_usage :: "llm_usage option"
  pse_metadata :: pydict

section \<open>Errors\<close>

datatype llm_error_class =
    LLMRuntimeErrorBase
  | LLMProfileResolutionError
  | LLMPolicyDeniedError
  | LLMProviderUnavailableError
  | LLMProviderTimeoutError
  | LLMRateLimitError
  | LLMAuthenticationError
  | LLMBadRequestError
  | LLMUnsupportedCapabilityError
  | LLMContextLengthError
  | LLMMalformedResponseError
  | LLMStreamingError
  | LLMCancelledError

fun llm_default_code :: "llm_error_class \<Rightarrow> string" where
  "llm_default_code LLMRuntimeErrorBase = ''llm_runtime_error''"
| "llm_default_code LLMProfileResolutionError = ''llm_profile_resolution_error''"
| "llm_default_code LLMPolicyDeniedError = ''llm_policy_denied''"
| "llm_default_code LLMProviderUnavailableError = ''llm_provider_unavailable''"
| "llm_default_code LLMProviderTimeoutError = ''llm_provider_timeout''"
| "llm_default_code LLMRateLimitError = ''llm_rate_limited''"
| "llm_default_code LLMAuthenticationError = ''llm_authentication_error''"
| "llm_default_code LLMBadRequestError = ''llm_bad_request''"
| "llm_default_code LLMUnsupportedCapabilityError = ''llm_unsupported_capability''"
| "llm_default_code LLMContextLengthError = ''llm_context_length_exceeded''"
| "llm_default_code LLMMalformedResponseError = ''llm_malformed_response''"
| "llm_default_code LLMStreamingError = ''llm_streaming_error''"
| "llm_default_code LLMCancelledError = ''llm_cancelled''"

definition llm_default_retryable :: "llm_error_class \<Rightarrow> bool" where
  "llm_default_retryable k \<longleftrightarrow>
    k \<in> {LLMProviderUnavailableError, LLMProviderTimeoutError, LLMRateLimitError, LLMStreamingError}"

record llm_error =
  le_class :: llm_error_class
  le_message :: string
  le_code :: string
  le_retryable :: bool
  le_metadata :: pydict

text \<open>The constructor with its defaults (\<open>code or default\<close>, \<open>retryable\<close> unless \<open>None\<close>).\<close>

definition new_llm_error ::
  "llm_error_class \<Rightarrow> string \<Rightarrow> string option \<Rightarrow> bool option \<Rightarrow> pydict \<Rightarrow> llm_error" where
  "new_llm_error k message code retryable metadata =
    \<lparr>le_class = k, le_message = message, le_code = str_default code (llm_default_code k),
     le_retryable = (case retryable of None \<Rightarrow> llm_default_retryable k | Some b \<Rightarrow> b),
     le_metadata = metadata\<rparr>"

abbreviation llm_err :: "llm_error_class \<Rightarrow> string \<Rightarrow> pydict \<Rightarrow> llm_error" where
  "llm_err k message metadata \<equiv> new_llm_error k message None None metadata"

text \<open>The exceptions that reach the gateway: its own, the builtin families it tells apart, the exceptions
  of the policy service and of the configuration, the closing of a generator by its consumer, and any
  other class.\<close>

datatype llm_exn =
    LlmExn llm_error
  | AsyncCancelled
  | BuiltinTimeout
  | BuiltinConnection
  | BuiltinValue string
  | PyExn pyerr
  | GeneratorClosed
  | RuntimeExn string
  | OtherExn string

fun exn_type_name :: "llm_exn \<Rightarrow> string" where
  "exn_type_name (PyExn (ConfigurationError m)) = ''ConfigurationError''"
| "exn_type_name (PyExn AttributeError) = ''AttributeError''"
| "exn_type_name (PyExn TypeError) = ''TypeError''"
| "exn_type_name (PyExn KeyError) = ''KeyError''"
| "exn_type_name (PyExn (PolicyDeniedError m)) = ''PolicyDeniedError''"
| "exn_type_name (PyExn (PolicyApprovalRequiredError m)) = ''PolicyApprovalRequiredError''"
| "exn_type_name GeneratorClosed = ''GeneratorExit''"
| "exn_type_name (RuntimeExn m) = ''RuntimeError''"
| "exn_type_name (OtherExn c) = c"
| "exn_type_name _ = ''Exception''"

definition normalize_llm_error :: "bool \<Rightarrow> llm_exn \<Rightarrow> llm_error" where
  "normalize_llm_error streaming error =
    (case error of
       LlmExn e \<Rightarrow> e
     | AsyncCancelled \<Rightarrow> llm_err LLMCancelledError ''LLM operation was cancelled.'' []
     | BuiltinTimeout \<Rightarrow> llm_err LLMProviderTimeoutError ''LLM provider timed out.'' []
     | BuiltinConnection \<Rightarrow> llm_err LLMProviderUnavailableError ''LLM provider is unavailable.'' []
     | BuiltinValue m \<Rightarrow>
         llm_err LLMBadRequestError (if m = [] then ''LLM provider rejected the request.'' else m) []
     | PyExn ValueError \<Rightarrow> llm_err LLMBadRequestError ''LLM provider rejected the request.'' []
     | _ \<Rightarrow>
        (let metadata = [(''error_type'', PStr (exn_type_name error))]
         in if streaming then llm_err LLMStreamingError ''LLM streaming failed.'' metadata
            else llm_err LLMMalformedResponseError ''LLM provider returned an unexpected response.'' metadata))"

definition is_retryable_llm :: "llm_error \<Rightarrow> bool" where
  "is_retryable_llm e = le_retryable e"

definition is_fallback_eligible :: "llm_error \<Rightarrow> bool" where
  "is_fallback_eligible e \<longleftrightarrow>
    le_class e \<in> {LLMProviderUnavailableError, LLMProviderTimeoutError, LLMRateLimitError, LLMStreamingError}"

lemma default_error_eligible:
  "is_fallback_eligible (llm_err k m md) = is_retryable_llm (llm_err k m md)"
  by (simp add: is_fallback_eligible_def is_retryable_llm_def new_llm_error_def llm_default_retryable_def)

lemma normalized_class [simp]: "normalize_llm_error s (LlmExn e) = e"
  by (simp add: normalize_llm_error_def)

end
