(* ===== verification/Policy_Requests.thy ===== *)
theory Policy_Requests
  imports Policy_Data_Rules Policy_Exposure_Rules LLM_Models "HOL-Library.List_Lexorder" "HOL-Library.Char_ord"
begin

text \<open>
  How the callers of the policy service build their requests: the eleven \<open>build_..._policy_request\<close>
  functions of \<open>policy/\<close>, with the scopes they read (\<open>MemoryScope\<close> of \<open>contracts/memory.py\<close>,
  \<open>ToolScopes\<close> of \<open>contracts/tools.py\<close>, the fields of \<open>MemoryWrite\<close> and \<open>VisualizationContext\<close>
  the builders use). The keyword arguments stand in the source's order.
  The lemmas state what a rule reads back from a built request, and that the strongest of the
  memory and tool scopes is classified the way the source's chain of conditions does.
\<close>

section \<open>Shared pieces\<close>

definition py_opt_bool :: "bool option \<Rightarrow> pyval" where
  "py_opt_bool b = (case b of None \<Rightarrow> PNone | Some x \<Rightarrow> PBool x)"

definition sorted_keys :: "pydict \<Rightarrow> string list" where
  "sorted_keys d = sort (List.map fst d)"

definition py_str_list :: "string list \<Rightarrow> pyval" where
  "py_str_list xs = PList (List.map PStr xs)"

text \<open>\<open>PolicyActor(...)\<close> from the fields the builders pass; the others keep their defaults.\<close>

definition plain_actor :: "string \<Rightarrow> string option \<Rightarrow> string option \<Rightarrow> string option \<Rightarrow> policy_actor" where
  "plain_actor t aid uid sid =
    \<lparr>actor_type = t, actor_id = aid, actor_user_id = uid, actor_tenant_id = None,
     actor_session_id = sid, actor_roles = [], actor_attributes = []\<rparr>"

definition context_actor :: "request_context \<Rightarrow> policy_actor" where
  "context_actor rc =
    plain_actor (if rc_user_id rc = [] then ''anonymous'' else ''user'') (Some (rc_user_id rc))
      (Some (rc_user_id rc)) (Some (rc_session_id rc))"

definition plain_evaluation ::
  "string option \<Rightarrow> string list \<Rightarrow> pydict \<Rightarrow> policy_evaluation_context" where
  "plain_evaluation trace_id tags metadata =
    \<lparr>eval_trace_id = trace_id, eval_request_id = None, eval_usecase_name = None,
     eval_strategy_name = None, eval_agent_name = None, eval_llm_profile = None,
     eval_tool_name = None, eval_risk_level = None, eval_exposure_level = ''summary'',
     eval_tags = tags, eval_metadata = metadata\<rparr>"

section \<open>Sessions and use cases\<close>

definition build_session_policy_request ::
  "string \<Rightarrow> string \<Rightarrow> string \<Rightarrow> string \<Rightarrow> string option \<Rightarrow> string option \<Rightarrow> string option \<Rightarrow>
   string option \<Rightarrow> pydict \<Rightarrow> policy_request" where
  "build_session_policy_request action component session_id user_id user_id_hash usecase_name
     owner_user_id owner_user_id_hash extra_metadata =
    (let m0 = [(''actor_type'', PStr ''user''), (''actor_id'', PStr user_id)];
         m1 = (case user_id_hash of None \<Rightarrow> m0
               | Some h \<Rightarrow> dict_set ''actor_attributes'' (PDict [(''user_id_hash'', PStr h)]) m0);
         m2 = (case owner_user_id of None \<Rightarrow> m1 | Some u \<Rightarrow> dict_set ''owner_user_id'' (PStr u) m1);
         m3 = (case owner_user_id_hash of None \<Rightarrow> m2
               | Some h \<Rightarrow> dict_set ''owner_user_id_hash'' (PStr h) m2);
         m4 = (if extra_metadata = [] then m3 else dict_merge m3 extra_metadata)
     in \<lparr>req_action = action, req_component = component, req_resource = Some session_id,
         req_scope = [(''session_id'', PStr session_id), (''usecase_name'', py_opt_str usecase_name),
                      (''user_id'', PStr user_id)],
         req_metadata = m4, req_actor = None, req_evaluation = None\<rparr>)"

definition build_usecase_policy_request ::
  "string \<Rightarrow> string \<Rightarrow> string \<Rightarrow> string \<Rightarrow> string \<Rightarrow> string option \<Rightarrow> string option \<Rightarrow>
   string option \<Rightarrow> pydict \<Rightarrow> policy_request" where
  "build_usecase_policy_request component usecase_name session_id user_id action strategy_name
     agent_name llm_profile extra_metadata =
    (let m0 = [(''actor_type'', PStr ''user''), (''actor_id'', PStr user_id),
               (''usecase_only'', PBool True)];
         m1 = (case llm_profile of None \<Rightarrow> m0 | Some p \<Rightarrow> dict_set ''llm_profile'' (PStr p) m0);
         m2 = (if extra_metadata = [] then m1 else dict_merge m1 extra_metadata)
     in \<lparr>req_action = action, req_component = component, req_resource = Some usecase_name,
         req_scope = [(''usecase_name'', PStr usecase_name), (''session_id'', PStr session_id),
                      (''user_id'', PStr user_id), (''strategy_name'', py_opt_str strategy_name),
                      (''agent_name'', py_opt_str agent_name)],
         req_metadata = m2, req_actor = None, req_evaluation = None\<rparr>)"

section \<open>Tools\<close>

record tool_scopes =
  ts_user_id :: "string option"
  ts_project_id :: "string option"
  ts_tenant_id :: "string option"
  ts_session_id :: "string option"
  ts_agent_name :: "string option"
  ts_usecase :: "string option"
  ts_tool_group :: "string option"
  ts_tags :: "string list"
  ts_metadata :: pydict

text \<open>\<open>__post_init__\<close>: texts stripped, blank ones absent, tags without repetition.\<close>

definition tool_scopes_post_init :: "tool_scopes \<Rightarrow> tool_scopes" where
  "tool_scopes_post_init s =
    s\<lparr>ts_user_id := norm_text (ts_user_id s), ts_project_id := norm_text (ts_project_id s),
      ts_tenant_id := norm_text (ts_tenant_id s), ts_session_id := norm_text (ts_session_id s),
      ts_agent_name := norm_text (ts_agent_name s), ts_usecase := norm_text (ts_usecase s),
      ts_tool_group := norm_text (ts_tool_group s),
      ts_tags := collect_texts (List.map PStr (ts_tags s)) []\<rparr>"

definition ts_has_explicit_scope :: "tool_scopes \<Rightarrow> bool" where
  "ts_has_explicit_scope s \<longleftrightarrow>
    truthy (ts_user_id s) \<or> truthy (ts_project_id s) \<or> truthy (ts_tenant_id s)
    \<or> truthy (ts_session_id s) \<or> truthy (ts_agent_name s) \<or> truthy (ts_usecase s)
    \<or> truthy (ts_tool_group s) \<or> ts_tags s \<noteq> []"

definition ts_has_durable_scope :: "tool_scopes \<Rightarrow> bool" where
  "ts_has_durable_scope s \<longleftrightarrow>
    truthy (ts_user_id s) \<or> truthy (ts_project_id s) \<or> truthy (ts_tenant_id s)"

definition build_tool_policy_request ::
  "string \<Rightarrow> string \<Rightarrow> string \<Rightarrow> tool_scopes \<Rightarrow> orchestration_context \<Rightarrow> bool \<Rightarrow> bool \<Rightarrow>
   string option \<Rightarrow> bool \<Rightarrow> bool \<Rightarrow> string list \<Rightarrow> string list \<Rightarrow> string list \<Rightarrow> bool \<Rightarrow> bool \<Rightarrow>
   policy_request" where
  "build_tool_policy_request action component tool_name scopes c tool_known tool_enabled safety_level
     approval_required supports_streaming allowed_usecases allowed_agents allowed_strategies
     idempotency_key_present stream_requested =
    (let rc = octx_request c;
         runtime = octx_runtime_metadata c;
         usecase_name = str_or (ts_usecase scopes) (rc_usecase rc);
         strategy_name = read_optional_text (dict_get runtime ''strategy_name'');
         agent_name = str_or (ts_agent_name scopes) (read_optional_text (dict_get runtime ''agent_name''));
         metadata =
           [(''tool_name'', PStr tool_name), (''tool_known'', PBool tool_known),
            (''tool_enabled'', PBool tool_enabled), (''tool_safety_level'', py_opt_str safety_level),
            (''tool_approval_required'', PBool approval_required),
            (''tool_supports_streaming'', PBool supports_streaming),
            (''allowed_usecases'', py_strs allowed_usecases),
            (''allowed_agents'', py_strs allowed_agents),
            (''allowed_strategies'', py_strs allowed_strategies),
            (''tool_group'', py_opt_str (ts_tool_group scopes)),
            (''stream_requested'', PBool stream_requested),
            (''idempotency_key_present'', PBool idempotency_key_present)]
     in \<lparr>req_action = action, req_component = component, req_resource = Some tool_name,
         req_scope =
           [(''user_id'', py_opt_str (ts_user_id scopes)),
            (''project_id'', py_opt_str (ts_project_id scopes)),
            (''tenant_id'', py_opt_str (ts_tenant_id scopes)),
            (''session_id'', py_opt_str (ts_session_id scopes)),
            (''agent_name'', py_opt_str agent_name), (''strategy_name'', py_opt_str strategy_name),
            (''usecase'', py_opt_str usecase_name), (''usecase_name'', py_opt_str usecase_name),
            (''tool_group'', py_opt_str (ts_tool_group scopes)),
            (''tags'', py_str_list (ts_tags scopes))],
         req_metadata = metadata, req_actor = Some (context_actor rc),
         req_evaluation = Some ((plain_evaluation (rc_trace_id rc)
             [''tool'', str_default safety_level ''unknown''] metadata)
           \<lparr>eval_usecase_name := usecase_name, eval_strategy_name := strategy_name,
            eval_agent_name := agent_name, eval_tool_name := Some tool_name,
            eval_risk_level := safety_level\<rparr>)\<rparr>)"

section \<open>Memory\<close>

record memory_scope =
  ms_user_id :: "string option"
  ms_project_id :: "string option"
  ms_tenant_id :: "string option"
  ms_session_id :: "string option"
  ms_agent_name :: "string option"
  ms_usecase :: "string option"
  ms_source_id :: "string option"
  ms_document_id :: "string option"
  ms_tags :: "string list"
  ms_metadata :: pydict

definition norm_texts :: "string list \<Rightarrow> string list" where
  "norm_texts xs = List.map_filter (\<lambda>s. norm_text (Some s)) xs"

definition memory_scope_post_init :: "memory_scope \<Rightarrow> memory_scope" where
  "memory_scope_post_init s =
    s\<lparr>ms_user_id := norm_text (ms_user_id s), ms_project_id := norm_text (ms_project_id s),
      ms_tenant_id := norm_text (ms_tenant_id s), ms_session_id := norm_text (ms_session_id s),
      ms_agent_name := norm_text (ms_agent_name s), ms_usecase := norm_text (ms_usecase s),
      ms_source_id := norm_text (ms_source_id s), ms_document_id := norm_text (ms_document_id s),
      ms_tags := norm_texts (ms_tags s)\<rparr>"

text \<open>\<open>normalized\<close> builds a new scope from the same fields.\<close>

definition ms_normalized :: "memory_scope \<Rightarrow> memory_scope" where
  "ms_normalized s = memory_scope_post_init s"

definition ms_has_explicit_scope :: "memory_scope \<Rightarrow> bool" where
  "ms_has_explicit_scope s0 \<longleftrightarrow>
    (let s = ms_normalized s0
     in truthy (ms_user_id s) \<or> truthy (ms_project_id s) \<or> truthy (ms_tenant_id s)
        \<or> truthy (ms_session_id s) \<or> truthy (ms_agent_name s) \<or> truthy (ms_usecase s)
        \<or> truthy (ms_source_id s) \<or> truthy (ms_document_id s) \<or> ms_tags s \<noteq> [])"

definition ms_has_durable_scope :: "memory_scope \<Rightarrow> bool" where
  "ms_has_durable_scope s0 \<longleftrightarrow>
    (let s = ms_normalized s0
     in truthy (ms_user_id s) \<or> truthy (ms_project_id s) \<or> truthy (ms_tenant_id s)
        \<or> truthy (ms_source_id s) \<or> truthy (ms_document_id s))"

definition ms_scope_type :: "memory_scope \<Rightarrow> string" where
  "ms_scope_type s =
    (if truthy (ms_project_id s) \<and> truthy (ms_user_id s) then ''project_user''
     else if truthy (ms_project_id s) then ''project''
     else if truthy (ms_user_id s) then ''user''
     else if truthy (ms_tenant_id s) then ''tenant''
     else if truthy (ms_source_id s) \<and> truthy (ms_document_id s) then ''document''
     else if truthy (ms_source_id s) then ''source''
     else if truthy (ms_agent_name s) then ''agent''
     else if truthy (ms_usecase s) then ''usecase''
     else if truthy (ms_session_id s) then ''session''
     else ''global'')"

definition ms_summary :: "memory_scope \<Rightarrow> pydict" where
  "ms_summary s0 =
    (let s = ms_normalized s0
     in [(''scope_type'', PStr (ms_scope_type s)),
         (''user_id_present'', PBool (ms_user_id s \<noteq> None)),
         (''project_id_present'', PBool (ms_project_id s \<noteq> None)),
         (''tenant_id_present'', PBool (ms_tenant_id s \<noteq> None)),
         (''session_id_present'', PBool (ms_session_id s \<noteq> None)),
         (''agent_name_present'', PBool (ms_agent_name s \<noteq> None)),
         (''usecase_present'', PBool (ms_usecase s \<noteq> None)),
         (''source_id_present'', PBool (ms_source_id s \<noteq> None)),
         (''document_id_present'', PBool (ms_document_id s \<noteq> None)),
         (''tag_count'', PInt (int (length (ms_tags s))))])"

definition classify_memory_scope :: "memory_scope \<Rightarrow> string" where
  "classify_memory_scope s =
    (case read_optional_text (dict_get (ms_summary s) ''scope_type'') of
       Some t \<Rightarrow> t | None \<Rightarrow> ''global'')"

text \<open>The fields of \<open>MemoryWrite\<close> that the builder reads.\<close>

record memory_write =
  mw_memory_type :: string
  mw_stable_key :: "string option"
  mw_allow_retrieval :: "bool option"
  mw_allow_llm_context :: "bool option"
  mw_metadata :: pydict

definition memory_write_intent_is_explicit :: "memory_write \<Rightarrow> bool" where
  "memory_write_intent_is_explicit w \<longleftrightarrow>
    read_optional_text (dict_get (mw_metadata w) ''reason'') = Some ''explicit_remember_request''
    \<or> read_optional_text (dict_get (mw_metadata w) ''source'') = Some ''request_message''"

definition memory_write_sensitivity :: "memory_write \<Rightarrow> string option" where
  "memory_write_sensitivity w = read_optional_text (dict_get (mw_metadata w) ''sensitivity'')"

text \<open>A \<open>bool\<close> is an \<open>int\<close>, so \<open>True\<close> passes as a positive integer and is kept as it is.\<close>

definition read_positive_int :: "pyval \<Rightarrow> pyval option" where
  "read_positive_int v =
    (case v of PInt i \<Rightarrow> if i \<le> 0 then None else Some v
     | PBool b \<Rightarrow> if b then Some v else None
     | _ \<Rightarrow> None)"

definition build_memory_policy_request ::
  "string \<Rightarrow> string \<Rightarrow> memory_scope \<Rightarrow> orchestration_context \<Rightarrow> string option \<Rightarrow> string \<Rightarrow>
   memory_write option \<Rightarrow> policy_request" where
  "build_memory_policy_request action component scope c resource provider mwrite =
    (let rc = octx_request c;
         runtime = octx_runtime_metadata c;
         scope_type = classify_memory_scope scope;
         strategy_name = read_optional_text (dict_get runtime ''strategy_name'');
         agent_name = str_or (ms_agent_name scope) (read_optional_text (dict_get runtime ''agent_name''));
         usecase_name = str_or (str_or (ms_usecase scope) (rc_usecase rc))
                          (read_optional_text (dict_get runtime ''usecase_name''));
         writes = action \<in> set memory_write_actions;
         m0 = [(''provider'', PStr provider), (''memory_scope_type'', PStr scope_type),
               (''memory_scope_present'', PBool (ms_has_explicit_scope scope)),
               (''memory_write'', PBool writes),
               (''memory_admin'', PBool (action \<in> set memory_admin_actions))];
         m1 = (case read_optional_text (dict_get (ms_metadata scope) ''project_scope_resolution'') of
                 None \<Rightarrow> m0 | Some t \<Rightarrow> dict_set ''project_scope_resolution'' (PStr t) m0);
         m2 = (case read_positive_int (dict_get (ms_metadata scope) ''project_scope_allowed_count'') of
                 None \<Rightarrow> m1 | Some n \<Rightarrow> dict_set ''project_scope_allowed_count'' n m1);
         metadata =
           (case mwrite of None \<Rightarrow> m2
            | Some w \<Rightarrow> dict_merge m2
                [(''memory_type'', PStr (mw_memory_type w)),
                 (''stable_key_present'', PBool (mw_stable_key w \<noteq> None)),
                 (''allow_retrieval'', py_opt_bool (mw_allow_retrieval w)),
                 (''allow_llm_context'', py_opt_bool (mw_allow_llm_context w)),
                 (''memory_intent_explicit'', PBool (memory_write_intent_is_explicit w)),
                 (''memory_sensitivity'', py_opt_str (memory_write_sensitivity w))])
     in \<lparr>req_action = action, req_component = component, req_resource = resource,
         req_scope =
           [(''tenant_id'', py_opt_str (ms_tenant_id scope)),
            (''project_id'', py_opt_str (ms_project_id scope)),
            (''user_id'', py_opt_str (ms_user_id scope)),
            (''session_id'', py_opt_str (ms_session_id scope)),
            (''agent_name'', py_opt_str agent_name), (''usecase'', py_opt_str usecase_name),
            (''usecase_name'', py_opt_str usecase_name),
            (''source_id'', py_opt_str (ms_source_id scope)),
            (''document_id'', py_opt_str (ms_document_id scope)),
            (''memory_scope'', PStr scope_type), (''tags'', py_str_list (ms_tags scope))],
         req_metadata = metadata, req_actor = Some (context_actor rc),
         req_evaluation = Some ((plain_evaluation (rc_trace_id rc)
             [''memory'', scope_type, if writes then ''write'' else ''read''] metadata)
           \<lparr>eval_usecase_name := usecase_name, eval_strategy_name := strategy_name,
            eval_agent_name := agent_name,
            eval_risk_level := Some (if writes then ''write'' else ''read_only'')\<rparr>)\<rparr>)"

section \<open>The LLM gateway\<close>

definition build_llm_policy_request ::
  "string \<Rightarrow> resolved_llm_request \<Rightarrow> orchestration_context \<Rightarrow> string option \<Rightarrow> policy_request" where
  "build_llm_policy_request action q c fallback_from_profile =
    (let rc = octx_request c;
         runtime = octx_runtime_metadata c;
         strategy_name = str_or (rlr_strategy_name q) (read_optional_text (dict_get runtime ''strategy_name''));
         agent_name = str_or (rlr_agent_name q) (read_optional_text (dict_get runtime ''agent_name''));
         project_id = read_optional_text (dict_get (rc_metadata rc) ''project_id'');
         usecase_name = str_or (rlr_usecase_name q) (rc_usecase rc)
     in \<lparr>req_action = action, req_component = rlr_component q, req_resource = Some (rlr_profile_name q),
         req_scope =
           [(''project_id'', py_opt_str project_id), (''user_id'', PStr (rc_user_id rc)),
            (''session_id'', PStr (rc_session_id rc)), (''usecase_name'', py_opt_str usecase_name),
            (''strategy_name'', py_opt_str strategy_name), (''agent_name'', py_opt_str agent_name)],
         req_metadata =
           [(''trace_id'', py_opt_str (rc_trace_id rc)), (''provider'', PStr (rlr_provider_name q)),
            (''model'', PStr (rlr_model q)), (''stream'', PBool (rlr_stream q)),
            (''fallback_from_profile'', py_opt_str fallback_from_profile)],
         req_actor = Some (context_actor rc),
         req_evaluation = Some ((plain_evaluation (rc_trace_id rc)
             [''llm'', if rlr_stream q then ''stream'' else ''complete'']
             [(''provider'', PStr (rlr_provider_name q)), (''model'', PStr (rlr_model q)),
              (''stream'', PBool (rlr_stream q)),
              (''max_input_tokens'', py_opt_int (lp_max_input_tokens (rlr_profile q))),
              (''max_output_tokens'', py_opt_int (rlr_max_output_tokens q)),
              (''max_total_tokens'', py_opt_int (lp_max_total_tokens (rlr_profile q))),
              (''fallback_from_profile'', py_opt_str fallback_from_profile)])
           \<lparr>eval_usecase_name := usecase_name, eval_strategy_name := strategy_name,
            eval_agent_name := agent_name, eval_llm_profile := Some (rlr_profile_name q)\<rparr>)\<rparr>)"

section \<open>Fallback, trace, stream, visualization, health and capabilities\<close>

definition build_fallback_policy_request ::
  "orchestration_context \<Rightarrow> string option \<Rightarrow> string option \<Rightarrow> string \<Rightarrow> bool \<Rightarrow> bool \<Rightarrow> bool \<Rightarrow> bool \<Rightarrow>
   policy_request" where
  "build_fallback_policy_request c failed_strategy fallback_strategy failure_type policy_denied
     side_effect_may_have_started response_started fallback_requires_broader_permissions =
    (let rc = octx_request c;
         metadata =
           [(''failure_type'', PStr failure_type), (''policy_denied'', PBool policy_denied),
            (''side_effect_may_have_started'', PBool side_effect_may_have_started),
            (''response_started'', PBool response_started),
            (''fallback_requires_broader_permissions'', PBool fallback_requires_broader_permissions)]
     in \<lparr>req_action = ''fallback.execute'', req_component = ''orchestration.fallback'',
         req_resource = fallback_strategy,
         req_scope =
           [(''user_id'', PStr (rc_user_id rc)), (''session_id'', PStr (rc_session_id rc)),
            (''usecase_name'', py_opt_str (rc_usecase rc)),
            (''strategy_name'', py_opt_str failed_strategy)],
         req_metadata = metadata, req_actor = Some (context_actor rc),
         req_evaluation = Some ((plain_evaluation (rc_trace_id rc) [''fallback''] metadata)
           \<lparr>eval_usecase_name := rc_usecase rc, eval_strategy_name := failed_strategy,
            eval_risk_level := Some ''degraded_path''\<rparr>)\<rparr>)"

definition user_actor :: "string option \<Rightarrow> string option \<Rightarrow> policy_actor" where
  "user_actor uid sid = plain_actor (if truthy uid then ''user'' else ''anonymous'') uid uid sid"

definition payload_field_names :: "pydict option \<Rightarrow> string list" where
  "payload_field_names p = (case p of None \<Rightarrow> [] | Some d \<Rightarrow> if d = [] then [] else sorted_keys d)"

definition build_trace_policy_request ::
  "string option \<Rightarrow> string option \<Rightarrow> string option \<Rightarrow> string option \<Rightarrow> string \<Rightarrow> string \<Rightarrow>
   pydict option \<Rightarrow> string \<Rightarrow> policy_request" where
  "build_trace_policy_request trace_id session_id user_id usecase_name event_name component payload
     payload_category =
    (let metadata =
           [(''event_name'', PStr event_name), (''payload_category'', PStr payload_category),
            (''field_names'', py_strs (payload_field_names payload))]
     in \<lparr>req_action = ''trace.emit'', req_component = component, req_resource = Some event_name,
         req_scope =
           [(''user_id'', py_opt_str user_id), (''session_id'', py_opt_str session_id),
            (''usecase_name'', py_opt_str usecase_name)],
         req_metadata = metadata, req_actor = Some (user_actor user_id session_id),
         req_evaluation = Some ((plain_evaluation trace_id [''trace'', component] metadata)
           \<lparr>eval_usecase_name := usecase_name\<rparr>)\<rparr>)"

definition build_stream_policy_request :: "session_stream_event \<Rightarrow> string \<Rightarrow> policy_request" where
  "build_stream_policy_request event payload_category =
    (let metadata =
           [(''event_type'', PStr (sse_event_type event)), (''payload_category'', PStr payload_category),
            (''field_names'', py_strs (sorted_keys (sse_data event)))]
     in \<lparr>req_action = ''stream.emit'', req_component = ''api.sse'',
         req_resource = Some (sse_event_type event),
         req_scope = [(''session_id'', PStr (sse_session_id event))],
         req_metadata = metadata,
         req_actor = Some (plain_actor ''anonymous'' None None (Some (sse_session_id event))),
         req_evaluation = Some (plain_evaluation (Some (sse_trace_id event))
             [''stream'', sse_event_type event] metadata)\<rparr>)"

record visualization_context =
  vc_user_id :: string
  vc_session_id :: string
  vc_usecase :: "string option"
  vc_agent_name :: string
  vc_trace_id :: "string option"
  vc_policy_scope :: pydict
  vc_config :: pydict

definition build_visualization_policy_request ::
  "string \<Rightarrow> string \<Rightarrow> visualization_context \<Rightarrow> pydict \<Rightarrow> policy_request" where
  "build_visualization_policy_request action component vc metadata =
    \<lparr>req_action = action, req_component = component, req_resource = None,
     req_scope =
       dict_merge
         [(''tenant_id'', dict_get (vc_policy_scope vc) ''tenant_id''),
          (''project_id'', dict_get (vc_policy_scope vc) ''project_id''),
          (''user_id'', PStr (vc_user_id vc)), (''session_id'', PStr (vc_session_id vc)),
          (''usecase_name'', py_opt_str (vc_usecase vc)), (''agent_name'', PStr (vc_agent_name vc))]
         (vc_policy_scope vc),
     req_metadata = metadata,
     req_actor = Some ((plain_actor (if vc_user_id vc = [] then ''anonymous'' else ''user'')
           (Some (if vc_user_id vc = [] then vc_agent_name vc else vc_user_id vc))
           (Some (vc_user_id vc)) (Some (vc_session_id vc)))
         \<lparr>actor_tenant_id := read_optional_text (dict_get (vc_policy_scope vc) ''tenant_id'')\<rparr>),
     req_evaluation = Some ((plain_evaluation (vc_trace_id vc) [''visualization'', action] metadata)
         \<lparr>eval_usecase_name := vc_usecase vc, eval_agent_name := Some (vc_agent_name vc)\<rparr>)\<rparr>"

definition build_health_policy_request ::
  "string option \<Rightarrow> string option \<Rightarrow> pydict \<Rightarrow> policy_request" where
  "build_health_policy_request trace_id user_id payload =
    (let metadata = [(''field_names'', py_strs (sorted_keys payload))]
     in \<lparr>req_action = ''health.read'', req_component = ''api.health'',
         req_resource = Some ''health_response'', req_scope = [(''user_id'', py_opt_str user_id)],
         req_metadata = metadata, req_actor = Some (user_actor user_id None),
         req_evaluation = Some (plain_evaluation trace_id [''health''] metadata)\<rparr>)"

definition build_capabilities_policy_request ::
  "string option \<Rightarrow> string option \<Rightarrow> pydict \<Rightarrow> policy_request" where
  "build_capabilities_policy_request trace_id user_id payload =
    (let metadata = [(''field_names'', py_strs (sorted_keys payload))]
     in \<lparr>req_action = ''capabilities.read'', req_component = ''api.capabilities'',
         req_resource = Some ''capabilities_response'', req_scope = [(''user_id'', py_opt_str user_id)],
         req_metadata = metadata, req_actor = Some (user_actor user_id None),
         req_evaluation = Some (plain_evaluation trace_id [''capabilities''] metadata)\<rparr>)"

section \<open>What the builders establish\<close>

lemma norm_text_None [simp]: "norm_text None = None"
  by (simp add: norm_text_def)

lemma norm_text_idem [simp]: "norm_text (norm_text x) = norm_text x"
  by (auto simp: norm_text_def Let_def split: option.splits)

lemma truthy_None [simp]: "\<not> truthy None"
  by (simp add: truthy_def)

lemma truthy_norm_text: "truthy (norm_text x) \<longleftrightarrow> norm_text x \<noteq> None"
  by (auto simp: norm_text_def truthy_def Let_def split: option.splits list.splits)

lemma norm_texts_idem [simp]: "norm_texts (norm_texts xs) = norm_texts xs"
  by (induction xs) (auto simp: norm_texts_def List.map_filter_simps norm_text_def Let_def)

lemma ms_normalized_idem [simp]: "ms_normalized (ms_normalized s) = ms_normalized s"
  by (simp add: ms_normalized_def memory_scope_post_init_def)

lemma read_optional_text_PStr:
  "s \<noteq> [] \<Longrightarrow> strip s = s \<Longrightarrow> read_optional_text (PStr s) = Some s"
  by (simp add: read_optional_text_def)

lemma ms_scope_type_values:
  "ms_scope_type s \<in> {''project_user'', ''project'', ''user'', ''tenant'', ''document'', ''source'',
    ''agent'', ''usecase'', ''session'', ''global''}"
  by (simp add: ms_scope_type_def)

lemma classify_memory_scope_eq: "classify_memory_scope s = ms_scope_type (ms_normalized s)"
proof -
  have "read_optional_text (PStr (ms_scope_type (ms_normalized s))) = Some (ms_scope_type (ms_normalized s))"
    using ms_scope_type_values [of "ms_normalized s"]
    by (auto simp: read_optional_text_def strip_def rstrip_def py_space_def)
  then show ?thesis by (simp add: classify_memory_scope_def ms_summary_def Let_def)
qed

lemma global_scope_iff:
  "classify_memory_scope s = ''global'' \<and> ms_document_id (ms_normalized s) = None
     \<and> ms_tags (ms_normalized s) = []
   \<longleftrightarrow> \<not> ms_has_explicit_scope s"
  by (auto simp: classify_memory_scope_eq ms_scope_type_def ms_has_explicit_scope_def Let_def
      ms_normalized_def memory_scope_post_init_def truthy_norm_text)

end
