(* ===== verification/Policy_Safety.thy ===== *)
theory Policy_Safety
  imports Policy_Engine Policy_Requests
begin

text \<open>
  What an allowed request has gone through: the engine over the default registry allows a request
  only if every rule that matches it agreed, so each safety condition of a rule carries over to the
  engine. The conditions are stated for the requests the builders of \<open>Policy_Requests\<close> make, in terms
  of what the caller passed.
\<close>

section \<open>The conditions under which a rule allows\<close>

definition allows :: "policy_decision option res \<Rightarrow> bool" where
  "allows res = (case res of Inr (Some d) \<Rightarrow> dec_decision d = Some Allow | _ \<Rightarrow> False)"

lemma allows_simps [simp]:
  "\<not> allows (Inl e)" "\<not> allows (Inr None)"
  "allows (Inr (Some (decision_allow rs rc md obs ac sc)))"
  "\<not> allows (Inr (Some (decision_deny rs rc md obs ac sc)))"
  "\<not> allows (Inr (Some (build_approval_required_decision r' c' t md v)))"
  by (simp_all add: allows_def)

lemma tool_allows:
  assumes "allows (evaluate_tool_request r c p)"
  defines "md \<equiv> req_metadata r"
  defines "level \<equiv> str_default (read_optional_text (dict_get md ''tool_safety_level'')) ''read_only''"
  shows "(read_bool (dict_get md ''tool_known'') True \<or> \<not> pt_deny_unknown_tools (pp_tools p))
    \<and> read_bool (dict_get md ''tool_enabled'') True
    \<and> is_name_allowed (dict_get md ''allowed_usecases'') (resolve_usecase_name r c)
    \<and> is_name_allowed (dict_get md ''allowed_agents'') (resolve_scope_value r c ''agent_name'' None)
    \<and> is_name_allowed (dict_get md ''allowed_strategies'') (resolve_scope_value r c ''strategy_name'' None)
    \<and> (req_action r \<in> set tool_execution_actions \<longrightarrow>
        (read_bool (dict_get md ''tool_approval_required'') False \<longrightarrow> pt_allow_approval_required_tools (pp_tools p))
        \<and> (level = ''write'' \<longrightarrow> pt_allow_write_tools (pp_tools p)
            \<and> (pa_require_approval_for_write_tools (pp_approval p) \<longrightarrow>
                 read_bool (dict_get md ''idempotency_key_present'') False))
        \<and> (level = ''destructive'' \<longrightarrow> pt_allow_destructive_tools (pp_tools p)
            \<and> \<not> pa_require_approval_for_destructive_tools (pp_approval p))
        \<and> (level = ''external_side_effect'' \<longrightarrow> pt_allow_external_side_effect_tools (pp_tools p)
            \<and> \<not> pa_require_approval_for_external_side_effect_tools (pp_approval p)))"
  using assms(1) unfolding md_def level_def evaluate_tool_request_def tool_execution_check_def Let_def
  by (simp split: if_splits)

lemma memory_allows:
  assumes "allows (evaluate_memory_request r c p)"
  shows "(startswith (req_action r) ''memory.'' \<and> pm_require_scope (pp_memory p) \<longrightarrow>
        memory_scope_type r c \<noteq> ''global'')
    \<and> (req_action r \<in> set memory_write_actions \<longrightarrow>
        pm_allow_writes (pp_memory p)
        \<and> read_optional_text (dict_get (req_metadata r) ''memory_sensitivity'') \<noteq> Some ''sensitive''
        \<and> \<not> read_bool (dict_get (req_metadata r) ''memory_admin'') False
        \<and> \<not> pa_require_approval_for_memory_writes (pp_approval p)
        \<and> (pm_allowed_write_scopes (pp_memory p) = []
            \<or> scope_names_allowed (policy_scope_names (memory_scope_type r c)) (pm_allowed_write_scopes (pp_memory p))))"
  using assms unfolding evaluate_memory_request_def Let_def by (simp split: if_splits)

lemma fallback_allows:
  assumes "allows (evaluate_fallback_request r c p)"
  defines "md \<equiv> req_metadata r"
  shows "pf_allow_fallbacks (pp_fallback p) \<and> req_resource r \<noteq> None
    \<and> (pf_allowed_strategies (pp_fallback p) = []
        \<or> req_resource r \<in> Some ` set (pf_allowed_strategies (pp_fallback p)))
    \<and> (read_bool (dict_get md ''policy_denied'') False \<longrightarrow> pf_allow_after_denial (pp_fallback p))
    \<and> (read_bool (dict_get md ''side_effect_may_have_started'') False \<longrightarrow>
        pf_allow_after_external_side_effects (pp_fallback p))
    \<and> \<not> read_bool (dict_get md ''response_started'') False
    \<and> \<not> read_bool (dict_get md ''fallback_requires_broader_permissions'') False
    \<and> str_default (read_optional_text (dict_get md ''failure_type'')) ''unknown'' \<in> set degradable_failure_types"
  using assms(1) unfolding md_def evaluate_fallback_request_def Let_def by (simp split: if_splits)

lemma stream_allows:
  assumes "allows (evaluate_stream_request r c p)"
  shows "ps_allow_stream_events (pp_stream p)
    \<and> str_or (read_optional_text (py_opt_str (req_resource r)))
        (read_optional_text (dict_get (req_metadata r) ''event_type'')) \<in> Some ` set allowed_event_types
    \<and> str_default (read_optional_text (dict_get (req_metadata r) ''payload_category'')) ''safe_summary''
        \<notin> set stream_raw_denied_categories
    \<and> ''stack_trace'' \<notin> set (read_field_names (dict_get (req_metadata r) ''field_names''))
    \<and> ''traceback'' \<notin> set (read_field_names (dict_get (req_metadata r) ''field_names''))"
  using assms unfolding evaluate_stream_request_def Let_def by (simp split: if_splits)

lemma trace_allows:
  assumes "allows (evaluate_trace_request r c p)"
  defines "category \<equiv> str_default (read_optional_text (dict_get (req_metadata r) ''payload_category'')) ''safe_summary''"
  shows "ptr_allow_trace (pp_trace p)
    \<and> (category \<in> set trace_raw_denied_categories \<longrightarrow> ptr_expose_raw_payloads (pp_trace p))
    \<and> (category = ''raw_prompt'' \<longrightarrow> pl_allow_prompt_trace (pp_llm p))
    \<and> (category = ''raw_completion'' \<longrightarrow> pl_allow_completion_trace (pp_llm p))
    \<and> \<not> meets stack_trace_fields (read_field_names (dict_get (req_metadata r) ''field_names''))"
  using assms(1) unfolding category_def evaluate_trace_request_def Let_def by (simp split: if_splits)

lemma session_allows:
  assumes "allows (evaluate_session_access r c p cfg)" "req_action r \<in> {''session.reset'', ''session.read_history''}"
  defines "owner \<equiv> read_optional_text (dict_get (req_metadata r) ''owner_user_id'')"
  defines "owner_hash \<equiv> read_optional_text (dict_get (req_metadata r) ''owner_user_id_hash'')"
  shows "actor_type (resolved_actor r) \<noteq> ''anonymous''
    \<and> (owner \<noteq> None \<and> actor_user_id (resolved_actor r) \<noteq> None \<longrightarrow> owner = actor_user_id (resolved_actor r))
    \<and> (owner_hash \<noteq> None
        \<and> read_optional_text (dict_get (actor_attributes (resolved_actor r)) ''user_id_hash'') \<noteq> None \<longrightarrow>
        owner_hash = read_optional_text (dict_get (actor_attributes (resolved_actor r)) ''user_id_hash''))"
  using assms(1,2) unfolding owner_def owner_hash_def evaluate_session_access_def Let_def
  by (auto split: if_splits)

lemma data_source_not_allow: "evaluate_data_source s src = Some d \<Longrightarrow> \<not> allows (Inr (Some d))"
  by (auto simp: evaluate_data_source_def Let_def split: option.splits if_splits)

lemma visualization_build_allows:
  assumes "allows (visualization_build_check s md)"
  defines "rows \<equiv> optional_int (dict_get md ''row_count'')"
  shows "\<not> limit_exceeded rows (pv_max_rows_artifact_store s)
    \<and> \<not> limit_exceeded (optional_int (dict_get md ''series_count'')) (pv_max_series s)
    \<and> \<not> limit_exceeded (optional_int (dict_get md ''category_count'')) (pv_max_categories s)
    \<and> \<not> has_sensitive_fields s (text_tuple (dict_get md ''field_names''))
    \<and> \<not> pv_allow_full_dataset_in_context s
    \<and> (read_optional_text (dict_get md ''data_mode'') = Some ''reference'' \<longrightarrow> pv_allow_reference_data_mode s)"
  using assms(1)
  unfolding rows_def visualization_build_check_def Let_def
  by (auto dest: data_source_not_allow split: if_splits)

lemma visualization_allows:
  assumes "allows (evaluate_visualization_request r c p cfg)" "req_action r = ''visualization.build''"
  shows "pv_enabled (pp_visualization p) \<and> allows (visualization_build_check (pp_visualization p) (req_metadata r))"
  using assms unfolding evaluate_visualization_request_def Let_def by (auto split: if_splits)

section \<open>From a rule to the engine\<close>

lemma engine_rules_answer:
  assumes "engine_evaluate eng r c = Inr d" "ev \<in> set (eng_registry eng)" "evaluator_matches r ev"
  shows "\<exists>x. ev_callback ev r c (resolve_policy_profile eng r c) (eng_config eng) = Inr x"
  using assms collect_decisions_Inr
  by (fastforce simp: engine_evaluate_def Let_def set_registry_matching split: option.splits)

lemma engine_consent:
  assumes reg: "eng_registry eng = load_default_policy_registry"
    and ev: "engine_evaluate eng r c = Inr d" and allow: "dec_decision d = Some Allow"
    and rule: "rule \<in> set (load_default_policy_registry)" "evaluator_matches r rule"
    and opinion: "ev_callback rule r c (resolve_policy_profile eng r c) (eng_config eng) \<noteq> Inr None"
  shows "allows (ev_callback rule r c (resolve_policy_profile eng r c) (eng_config eng))"
proof -
  obtain x where x: "ev_callback rule r c (resolve_policy_profile eng r c) (eng_config eng) = Inr x"
    using engine_rules_answer [OF ev, of rule] reg rule by auto
  with opinion obtain y where y: "x = Some y" by auto
  have wf: "wf_decision y" using default_registry.rule_wf [OF rule(1)] x y by blast
  then obtain k where k: "dec_decision y = Some k" by (auto simp: wf_decision_def)
  have "k \<noteq> Deny" "k \<noteq> ApprovalRequired"
    using default_registry.engine_verdict [OF reg ev] allow rule x y k
    by (auto simp: precedence_verdict_def set_registry_matching split: if_splits)
  with x y k show ?thesis by (cases k) (auto simp: allows_def)
qed

text \<open>The rules that answer every request they match.\<close>

lemma rules_answer:
  "evaluate_tool_request r c p \<noteq> Inr None" "evaluate_memory_request r c p \<noteq> Inr None"
  "evaluate_fallback_request r c p \<noteq> Inr None" "evaluate_stream_request r c p \<noteq> Inr None"
  "evaluate_trace_request r c p \<noteq> Inr None"
  "req_action r \<in> {''session.reset'', ''session.read_history''} \<Longrightarrow> evaluate_session_access r c p cfg \<noteq> Inr None"
  by (simp_all add: evaluate_tool_request_def tool_execution_check_def evaluate_memory_request_def
      evaluate_fallback_request_def evaluate_stream_request_def evaluate_trace_request_def
      evaluate_session_access_def Let_def)

text \<open>The rule of a domain and the requests it matches.\<close>

lemma domain_rules:
  "tool_access_rule \<in> set (load_default_policy_registry)"
  "memory_access_rule \<in> set (load_default_policy_registry)"
  "fallback_access_rule \<in> set (load_default_policy_registry)"
  "stream_access_rule \<in> set (load_default_policy_registry)"
  "trace_access_rule \<in> set (load_default_policy_registry)"
  "session_access_rule \<in> set (load_default_policy_registry)"
  "visualization_access_rule \<in> set (load_default_policy_registry)"
  "health_access_rule \<in> set (load_default_policy_registry)"
  by (simp_all add: set_default_registry)

section \<open>A sample configuration\<close>

text \<open>The engine of the concrete instances below: the default registry over one profile.\<close>

definition sample_engine :: "policy_profile_settings \<Rightarrow> policy_engine" where
  "sample_engine profile =
    \<lparr>eng_config = PDict [(''agents'', PDict [(''analyst'', PDict [])])],
     eng_settings =
       \<lparr>pset_enabled = True, pset_mode = ''enforce'', pset_default_profile = ''default'',
        pset_default_decision = ''deny'', pset_fail_closed = True,
        pset_profiles = [(''default'', profile)]\<rparr>,
     eng_registry = load_default_policy_registry\<rparr>"

definition sample_profile :: policy_profile_settings where
  "sample_profile = default_profile_settings ''default''"

definition sample_context :: orchestration_context where
  "sample_context =
    \<lparr>octx_request = \<lparr>rc_user_id = ''u1'', rc_session_id = ''s1'', rc_message = ''hi'',
        rc_usecase = None, rc_trace_id = Some ''t1'', rc_metadata = []\<rparr>,
     octx_runtime_metadata = [], octx_config = PDict []\<rparr>"

lemma sample_registry [simp]:
  "eng_registry (sample_engine profile) = load_default_policy_registry"
  by (simp add: sample_engine_def)

definition verdict_of :: "policy_decision res \<Rightarrow> decision_value option" where
  "verdict_of res = (case res of Inl e \<Rightarrow> None | Inr d \<Rightarrow> dec_decision d)"

lemma verdict_of_Some: "verdict_of res = Some v \<longleftrightarrow> (\<exists>d. res = Inr d \<and> dec_decision d = Some v)"
  by (auto simp: verdict_of_def split: sum.splits)

definition raises :: "'a res \<Rightarrow> bool" where
  "raises res = (case res of Inl e \<Rightarrow> True | Inr x \<Rightarrow> False)"

lemma raises_iff: "raises res \<longleftrightarrow> (\<exists>e. res = Inl e)"
  by (auto simp: raises_def split: sum.splits)

definition sample_llm_request :: policy_request where
  "sample_llm_request =
    \<lparr>req_action = ''llm.complete'', req_component = ''llm.gateway'', req_resource = Some ''fast'',
     req_scope = [], req_metadata = [], req_actor = None, req_evaluation = None\<rparr>"

definition sample_state_request :: policy_request where
  "sample_state_request =
    \<lparr>req_action = ''state.save'', req_component = ''state.gateway'', req_resource = None,
     req_scope = [], req_metadata = [], req_actor = None, req_evaluation = None\<rparr>"

definition sample_scopes :: tool_scopes where
  "sample_scopes =
    \<lparr>ts_user_id = Some ''u1'', ts_project_id = None, ts_tenant_id = None, ts_session_id = Some ''s1'',
     ts_agent_name = None, ts_usecase = None, ts_tool_group = None, ts_tags = [], ts_metadata = []\<rparr>"

definition write_profile :: policy_profile_settings where
  "write_profile = sample_profile\<lparr>pp_tools := (pp_tools sample_profile)\<lparr>pt_allow_write_tools := True\<rparr>\<rparr>"

abbreviation "sample_write_request \<equiv>
  build_tool_policy_request ''tool.execute'' ''app.tools.gateway'' ''notes'' sample_scopes sample_context
    True True (Some ''write'') False False [] [] [] True False"

definition memory_profile :: policy_profile_settings where
  "memory_profile = sample_profile\<lparr>pp_memory := (pp_memory sample_profile)\<lparr>pm_allow_writes := True\<rparr>,
     pp_approval := (pp_approval sample_profile)\<lparr>pa_require_approval_for_memory_writes := False\<rparr>\<rparr>"

definition sample_memory_scope :: memory_scope where
  "sample_memory_scope =
    \<lparr>ms_user_id = Some ''u1'', ms_project_id = None, ms_tenant_id = None, ms_session_id = None,
     ms_agent_name = None, ms_usecase = None, ms_source_id = None, ms_document_id = None,
     ms_tags = [], ms_metadata = []\<rparr>"

abbreviation "sample_memory_request \<equiv>
  build_memory_policy_request ''memory.upsert'' ''app.memory.gateway'' sample_memory_scope sample_context
    None ''sqlite'' None"

definition sample_event :: session_stream_event where
  "sample_event =
    \<lparr>sse_event_type = ''response.delta'', sse_trace_id = ''t1'', sse_session_id = ''s1'',
     sse_data = [(''text'', PStr ''hello'')], sse_sequence_no = Some 1\<rparr>"

abbreviation "sample_stream_request \<equiv>
  build_stream_policy_request sample_event (infer_stream_payload_category sample_event)"

abbreviation "sample_trace_request \<equiv>
  build_trace_policy_request (Some ''t1'') (Some ''s1'') (Some ''u1'') None ''turn.started'' ''orchestration.core''
    (Some [(''duration_ms'', PInt 3)]) (infer_trace_payload_category [(''duration_ms'', PInt 3)])"

abbreviation "sample_session_request \<equiv>
  build_session_policy_request ''session.reset'' ''session.service'' ''s1'' ''u1'' None None (Some '' u1 '') None
    [(''reason'', PNone), (''path'', PStr ''/sessions/s1/reset''), (''method'', PStr ''POST'')]"

abbreviation "sample_fallback_request broader \<equiv>
  build_fallback_policy_request sample_context (Some ''planner'') (Some ''direct'') ''orchestration_timeout''
    False False False broader"

definition chart_profile :: policy_profile_settings where
  "chart_profile = sample_profile\<lparr>pp_visualization := (pp_visualization sample_profile)\<lparr>pv_enabled := True\<rparr>\<rparr>"

definition sample_chart_context :: visualization_context where
  "sample_chart_context =
    \<lparr>vc_user_id = ''u1'', vc_session_id = ''s1'', vc_usecase = None, vc_agent_name = ''analyst'',
     vc_trace_id = None, vc_policy_scope = [], vc_config = []\<rparr>"

abbreviation "sample_chart_request \<equiv>
  build_visualization_policy_request ''visualization.build'' ''app.visualization.gateway'' sample_chart_context
    [(''chart_type'', PStr ''bar''), (''renderer'', PStr ''echarts''), (''data_source'', PStr ''user_provided''),
     (''row_count'', PInt 5)]"

abbreviation "sample_health_request \<equiv> build_health_policy_request None None []"

text \<open>What the instances need, evaluated together.\<close>

lemma sample_engine_verdicts:
  "list_all (\<lambda>(p, r). verdict_of (engine_evaluate (sample_engine p) r sample_context) = Some Allow)
    [(sample_profile, sample_health_request), (write_profile, sample_write_request), (sample_profile, sample_stream_request),
     (sample_profile, sample_trace_request), (sample_profile, sample_session_request),
     (sample_profile, sample_fallback_request False), (chart_profile, sample_chart_request)]
   \<and> verdict_of (engine_evaluate ((sample_engine sample_profile)\<lparr>eng_registry := rev (load_default_policy_registry)\<rparr>)
       sample_health_request sample_context) = Some Allow
   \<and> raises (ev_callback llm_access_rule sample_llm_request sample_context
       (resolve_policy_profile (sample_engine sample_profile) sample_llm_request sample_context)
       (eng_config (sample_engine sample_profile)))
   \<and> evaluator_matches sample_health_request health_access_rule \<and> evaluator_matches sample_llm_request llm_access_rule
   \<and> pp_fail_closed (resolve_policy_profile (sample_engine sample_profile) sample_llm_request sample_context)
   \<and> verdict_of (engine_evaluate (sample_engine sample_profile) (sample_fallback_request True) sample_context) = Some Deny
   \<and> pp_decision_cache (resolve_policy_profile (sample_engine sample_profile)
       (sample_fallback_request False) sample_context) = default_decision_cache_settings
   \<and> norm_text (Some '' u1 '') \<noteq> None \<and> norm_text (Some ''u1'') \<noteq> None
   \<and> list_all (\<lambda>s. str_default (read_optional_text (PStr s)) ''safe_summary'' = s)
      (''safe_summary'' # ''raw_completion'' # stream_raw_denied_categories)"
  by code_simp

lemma sample_allowed:
  "(p, r) \<in> set [(sample_profile, sample_health_request), (write_profile, sample_write_request),
     (sample_profile, sample_stream_request), (sample_profile, sample_trace_request), (sample_profile, sample_session_request),
     (sample_profile, sample_fallback_request False), (chart_profile, sample_chart_request)] \<Longrightarrow>
   verdict_of (engine_evaluate (sample_engine p) r sample_context) = Some Allow"
  using sample_engine_verdicts unfolding list_all_iff by blast

section \<open>The engine as a whole\<close>

text \<open>C1. The engine implements the documented precedence: when it returns a decision, that decision is
  well formed and its verdict is determined by the kinds of decisions that the matching rules gave
  (deny, then approval required, then allow, then the default of the profile).\<close>

theorem engine_refines_precedence:
  assumes "eng_registry eng = load_default_policy_registry" "engine_evaluate eng r c = Inr d"
  shows "wf_decision d \<and> dec_decision d = Some (precedence_verdict
     {k. \<exists>rule \<in> set (registry_matching (load_default_policy_registry) r). \<exists>d.
          ev_callback rule r c (resolve_policy_profile eng r c) (eng_config eng) = Inr (Some d)
          \<and> dec_decision d = Some k}
     (pp_default_decision (resolve_policy_profile eng r c)))"
  by (rule default_registry.engine_verdict [OF assms])

theorem engine_refines_precedence_witness:
  "\<exists>d. engine_evaluate (sample_engine sample_profile) (build_health_policy_request None None []) sample_context = Inr d
    \<and> wf_decision d \<and> dec_decision d = Some Allow"
proof -
  have "verdict_of (engine_evaluate (sample_engine sample_profile)
      (build_health_policy_request None None []) sample_context) = Some Allow"
    by (rule sample_allowed) simp
  then obtain d where d: "engine_evaluate (sample_engine sample_profile)
      (build_health_policy_request None None []) sample_context = Inr d" "dec_decision d = Some Allow"
    unfolding verdict_of_Some by blast
  with engine_refines_precedence [OF sample_registry d(1)] show ?thesis by blast
qed

text \<open>C9. No rule is overridden by another one's consent: when the engine allows a request, every rule
  that matches it was evaluated without an error and either had no opinion or allowed it.\<close>

theorem allowed_by_every_rule:
  assumes "eng_registry eng = load_default_policy_registry"
    and "engine_evaluate eng r c = Inr d" "dec_decision d = Some Allow"
    and "rule \<in> set (load_default_policy_registry)" "evaluator_matches r rule"
  shows "\<exists>x. ev_callback rule r c (resolve_policy_profile eng r c) (eng_config eng) = Inr x
    \<and> (\<forall>y. x = Some y \<longrightarrow> dec_decision y = Some Allow)"
proof -
  obtain x where x: "ev_callback rule r c (resolve_policy_profile eng r c) (eng_config eng) = Inr x"
    using engine_rules_answer [OF assms(2), of rule] assms(1,4,5) by auto
  have "dec_decision y = Some Allow" if "x = Some y" for y
    using engine_consent [OF assms] x that by (auto simp: allows_def)
  with x show ?thesis by blast
qed

theorem allowed_by_every_rule_witness:
  "\<exists>x. ev_callback health_access_rule (build_health_policy_request None None []) sample_context
      (resolve_policy_profile (sample_engine sample_profile) (build_health_policy_request None None []) sample_context)
      (eng_config (sample_engine sample_profile)) = Inr x \<and> (\<forall>y. x = Some y \<longrightarrow> dec_decision y = Some Allow)"
proof -
  have "verdict_of (engine_evaluate (sample_engine sample_profile)
      (build_health_policy_request None None []) sample_context) = Some Allow"
    by (rule sample_allowed) simp
  then obtain d where d: "engine_evaluate (sample_engine sample_profile)
      (build_health_policy_request None None []) sample_context = Inr d" "dec_decision d = Some Allow"
    unfolding verdict_of_Some by blast
  have "evaluator_matches (build_health_policy_request None None []) health_access_rule" using sample_engine_verdicts by blast
  from allowed_by_every_rule [OF sample_registry d domain_rules(8) this] show ?thesis .
qed

text \<open>The verdict does not depend on the order in which the rules were registered: two engines over
  the same configuration whose registries hold the same rules agree whenever both return.\<close>

theorem registry_order_irrelevant:
  assumes "eng_registry eng = load_default_policy_registry"
    and "set (eng_registry eng') = set (load_default_policy_registry)"
    and "eng_config eng' = eng_config eng" "eng_settings eng' = eng_settings eng"
    and "engine_evaluate eng r c = Inr d" "engine_evaluate eng' r c = Inr d'"
  shows "dec_decision d = dec_decision d'"
  by (rule default_registry.engine_order_irrelevant [OF assms(1) refl assms(2-6)])

theorem registry_order_irrelevant_witness:
  "\<exists>d d'. engine_evaluate (sample_engine sample_profile) (build_health_policy_request None None []) sample_context = Inr d
    \<and> engine_evaluate ((sample_engine sample_profile)\<lparr>eng_registry := rev (load_default_policy_registry)\<rparr>)
        (build_health_policy_request None None []) sample_context = Inr d'
    \<and> dec_decision d = dec_decision d'"
proof -
  let ?eng' = "(sample_engine sample_profile)\<lparr>eng_registry := rev (load_default_policy_registry)\<rparr>"
  have "verdict_of (engine_evaluate (sample_engine sample_profile)
      (build_health_policy_request None None []) sample_context) = Some Allow"
    by (rule sample_allowed) simp
  then obtain d where d: "engine_evaluate (sample_engine sample_profile)
      (build_health_policy_request None None []) sample_context = Inr d" unfolding verdict_of_Some by blast
  have "verdict_of (engine_evaluate ?eng' (build_health_policy_request None None []) sample_context) = Some Allow"
    using sample_engine_verdicts by blast
  then obtain d' where d': "engine_evaluate ?eng' (build_health_policy_request None None []) sample_context = Inr d'"
    unfolding verdict_of_Some by blast
  have "dec_decision d = dec_decision d'"
    by (rule registry_order_irrelevant [OF sample_registry _ _ _ d d']) simp_all
  with d d' show ?thesis by blast
qed

text \<open>The settings with other mode flags, at the root and in every profile.\<close>

definition settings_with_mode :: "bool \<Rightarrow> string \<Rightarrow> bool \<Rightarrow> policy_settings \<Rightarrow> policy_settings" where
  "settings_with_mode en mode fc s =
    s\<lparr>pset_enabled := en, pset_mode := mode, pset_fail_closed := fc,
      pset_profiles := List.map (\<lambda>(n, p). (n, with_mode en mode fc p)) (pset_profiles s)\<rparr>"

lemma map_of_map_values: "map_of (List.map (\<lambda>(n, p). (n, f p)) d) k = map_option f (map_of d k)"
  by (induction d) auto

lemma resolve_profile_with_mode:
  "resolve_policy_profile (eng\<lparr>eng_settings := settings_with_mode en mode fc (eng_settings eng)\<rparr>) r c =
    with_mode en mode fc (resolve_policy_profile eng r c)"
  by (simp add: resolve_policy_profile_def resolved_profile_name_def settings_with_mode_def
      map_of_map_values fallback_profile_def with_mode_def Let_def split: option.split)

lemma collect_with_mode:
  "set evs \<subseteq> set (load_default_policy_registry) \<Longrightarrow>
    collect_decisions evs r c (with_mode en mode fc p) cfg a s acc = collect_decisions evs r c p cfg a s acc"
proof (induction evs arbitrary: acc)
  case (Cons ev evs)
  have "ev_callback ev r c (with_mode en mode fc p) cfg = ev_callback ev r c p cfg"
    using Cons.prems by (intro default_registry.rule_mode_blind) auto
  moreover have "tag_decision ev (with_mode en mode fc p) a s = tag_decision ev p a s"
    by (rule ext) (simp add: tag_decision_def)
  ultimately have "evaluate_one ev r c (with_mode en mode fc p) cfg a s = evaluate_one ev r c p cfg a s"
    by (simp add: evaluate_one_def evaluator_evaluate_def)
  with Cons show ?case by simp
qed simp

text \<open>C40. The flags \<open>enabled\<close>, \<open>mode\<close> and \<open>fail_closed\<close> of the policy settings have no effect: whatever
  they are set to, at the root and in every profile, the engine gives the same answer (decision or
  exception) to every request. In particular \<open>report_only\<close> enforces like \<open>enforce\<close>.\<close>

theorem mode_flags_have_no_effect:
  "engine_evaluate \<lparr>eng_config = cfg, eng_settings = settings_with_mode en mode fc settings,
      eng_registry = load_default_policy_registry\<rparr> r c =
    engine_evaluate \<lparr>eng_config = cfg, eng_settings = settings,
      eng_registry = load_default_policy_registry\<rparr> r c"
proof -
  let ?eng = "\<lparr>eng_config = cfg, eng_settings = settings, eng_registry = load_default_policy_registry\<rparr>"
  have profile: "resolve_policy_profile \<lparr>eng_config = cfg, eng_settings = settings_with_mode en mode fc settings,
      eng_registry = load_default_policy_registry\<rparr> r c =
    with_mode en mode fc (resolve_policy_profile ?eng r c)"
    using resolve_profile_with_mode [where eng = ?eng and en = en and mode = mode and fc = fc and r = r and c = c] by simp
  have "set (registry_matching (load_default_policy_registry) r) \<subseteq> set (load_default_policy_registry)"
    by (auto simp: set_registry_matching)
  note collect = collect_with_mode [OF this]
  have default: "default_policy_decision (with_mode en mode fc p) a s = default_policy_decision p a s" for p a s
    by (simp add: default_policy_decision_def)
  show ?thesis
    unfolding engine_evaluate_def Let_def profile policy_engine.simps collect default by (rule refl)
qed

text \<open>An exception raised by a matching rule is an exception of the engine, whatever \<open>fail_closed\<close>
  says: it is not turned into a denial.\<close>

theorem rule_error_is_engine_error:
  assumes "eng_registry eng = load_default_policy_registry"
    and "rule \<in> set (load_default_policy_registry)" "evaluator_matches r rule"
    and "ev_callback rule r c (resolve_policy_profile eng r c) (eng_config eng) = Inl e"
  shows "\<exists>e'. engine_evaluate eng r c = Inl e'"
proof (cases "engine_evaluate eng r c")
  case (Inr d)
  then show ?thesis using engine_rules_answer [OF Inr, of rule] assms by auto
qed blast

theorem rule_error_is_engine_error_witness:
  "pp_fail_closed (resolve_policy_profile (sample_engine sample_profile) sample_llm_request sample_context)
   \<and> (\<exists>e. engine_evaluate (sample_engine sample_profile) sample_llm_request sample_context = Inl e)"
proof
  show "pp_fail_closed (resolve_policy_profile (sample_engine sample_profile) sample_llm_request sample_context)"
    using sample_engine_verdicts by blast
  have member: "llm_access_rule \<in> set (load_default_policy_registry)"
    by (simp add: set_default_registry)
  have matches: "evaluator_matches sample_llm_request llm_access_rule" using sample_engine_verdicts by blast
  have "\<exists>e. ev_callback llm_access_rule sample_llm_request sample_context
      (resolve_policy_profile (sample_engine sample_profile) sample_llm_request sample_context)
      (eng_config (sample_engine sample_profile)) = Inl e"
    unfolding raises_iff [symmetric] using sample_engine_verdicts by blast
  then obtain e where "ev_callback llm_access_rule sample_llm_request sample_context
      (resolve_policy_profile (sample_engine sample_profile) sample_llm_request sample_context)
      (eng_config (sample_engine sample_profile)) = Inl e" ..
  from rule_error_is_engine_error [OF sample_registry member matches this]
  show "\<exists>e. engine_evaluate (sample_engine sample_profile) sample_llm_request sample_context = Inl e" .
qed

text \<open>A request whose action no rule lists gets the default decision of its profile, tagged with the
  actor and the scope of the request, and never an exception.\<close>

theorem unlisted_action_gets_default:
  assumes "eng_registry eng = load_default_policy_registry"
    and "\<forall>rule \<in> set (load_default_policy_registry). req_action r \<notin> set (rule_actions (ev_rule rule))"
  shows "engine_evaluate eng r c =
    Inr (default_policy_decision (resolve_policy_profile eng r c) (resolved_actor r) (resolved_scope r))"
proof -
  have "registry_matching (load_default_policy_registry) r = []"
    using assms(2) set_registry_matching [of "load_default_policy_registry" r]
    by (auto simp: evaluator_matches_def matcher_matches_def simp del: set_empty simp: set_empty [symmetric])
  then show ?thesis
    by (simp add: engine_evaluate_def assms(1) Let_def decision_precedence_def first_of_kind_def
        resolve_policy_context_def)
qed

theorem unlisted_action_gets_default_witness:
  "engine_evaluate (sample_engine sample_profile) sample_state_request sample_context =
    Inr (default_policy_decision
      (resolve_policy_profile (sample_engine sample_profile) sample_state_request sample_context)
      (resolved_actor sample_state_request) (resolved_scope sample_state_request))"
  by (rule unlisted_action_gets_default [OF sample_registry])
     (simp add: set_default_registry registry_rule_defs sample_state_request_def)

section \<open>The domains\<close>

text \<open>What the engine allows, the rule of the domain allows.\<close>

lemma domain_consent:
  assumes "eng_registry eng = load_default_policy_registry"
    and "engine_evaluate eng r c = Inr d" "dec_decision d = Some Allow"
  shows "evaluator_matches r tool_access_rule \<Longrightarrow>
      allows (evaluate_tool_request r c (resolve_policy_profile eng r c))"
    and "evaluator_matches r memory_access_rule \<Longrightarrow>
      allows (evaluate_memory_request r c (resolve_policy_profile eng r c))"
    and "evaluator_matches r fallback_access_rule \<Longrightarrow>
      allows (evaluate_fallback_request r c (resolve_policy_profile eng r c))"
    and "evaluator_matches r stream_access_rule \<Longrightarrow>
      allows (evaluate_stream_request r c (resolve_policy_profile eng r c))"
    and "evaluator_matches r trace_access_rule \<Longrightarrow>
      allows (evaluate_trace_request r c (resolve_policy_profile eng r c))"
    and "req_action r \<in> {''session.reset'', ''session.read_history''} \<Longrightarrow>
      evaluator_matches r session_access_rule \<Longrightarrow>
      allows (evaluate_session_access r c (resolve_policy_profile eng r c) (eng_config eng))"
    and "req_action r = ''visualization.build'' \<Longrightarrow> evaluator_matches r visualization_access_rule \<Longrightarrow>
      evaluate_visualization_request r c (resolve_policy_profile eng r c) (eng_config eng) \<noteq> Inr None \<Longrightarrow>
      allows (evaluate_visualization_request r c (resolve_policy_profile eng r c) (eng_config eng))"
  using engine_consent [OF assms domain_rules(1)] engine_consent [OF assms domain_rules(2)]
    engine_consent [OF assms domain_rules(3)] engine_consent [OF assms domain_rules(4)]
    engine_consent [OF assms domain_rules(5)] engine_consent [OF assms domain_rules(6)]
    engine_consent [OF assms domain_rules(7)]
  by (simp_all add: tool_access_rule_def memory_access_rule_def fallback_access_rule_def
      stream_access_rule_def trace_access_rule_def session_access_rule_def
      visualization_access_rule_def rules_answer)

lemma matches_rule:
  "req_action r \<in> set tool_execution_actions \<Longrightarrow> (startswith (req_component r) ''tools.'' \<or> startswith (req_component r) ''app.tools'') \<Longrightarrow>
    evaluator_matches r tool_access_rule"
  "req_action r \<in> set memory_write_actions \<Longrightarrow> (startswith (req_component r) ''memory.'' \<or> startswith (req_component r) ''app.memory'') \<Longrightarrow>
    evaluator_matches r memory_access_rule"
  "req_action r = ''fallback.execute'' \<Longrightarrow> req_component r = ''orchestration.fallback'' \<Longrightarrow>
    evaluator_matches r fallback_access_rule"
  "req_action r = ''stream.emit'' \<Longrightarrow> req_component r = ''api.sse'' \<Longrightarrow> evaluator_matches r stream_access_rule"
  "req_action r = ''trace.emit'' \<Longrightarrow> startswith (req_component r) ''orchestration.'' \<Longrightarrow>
    evaluator_matches r trace_access_rule"
  "req_action r \<in> {''session.reset'', ''session.read_history''} \<Longrightarrow> (startswith (req_component r) ''session.'' \<or> startswith (req_component r) ''app.session'') \<Longrightarrow>
    evaluator_matches r session_access_rule"
  "req_action r = ''visualization.build'' \<Longrightarrow> (startswith (req_component r) ''visualization.'' \<or> startswith (req_component r) ''app.visualization'') \<Longrightarrow>
    evaluator_matches r visualization_access_rule"
  by (auto simp: evaluator_matches_def matcher_matches_def tool_access_rule_def memory_access_rule_def
      fallback_access_rule_def stream_access_rule_def trace_access_rule_def session_access_rule_def
      visualization_access_rule_def tool_execution_actions_def memory_write_actions_def)

lemma tool_execution_consent:
  assumes "eng_registry eng = load_default_policy_registry"
    and "r = build_tool_policy_request action component tool scopes c known enabled level approval
      streaming usecases agents strategies idempotency stream"
    and "action \<in> set tool_execution_actions" "(startswith component ''tools.'' \<or> startswith component ''app.tools'')"
    and "engine_evaluate eng r c = Inr d" "dec_decision d = Some Allow"
    and "p = resolve_policy_profile eng r c"
  shows "(known \<or> \<not> pt_deny_unknown_tools (pp_tools p)) \<and> enabled
    \<and> (approval \<longrightarrow> pt_allow_approval_required_tools (pp_tools p))
    \<and> (level = Some ''write'' \<longrightarrow> pt_allow_write_tools (pp_tools p)
        \<and> (pa_require_approval_for_write_tools (pp_approval p) \<longrightarrow> idempotency))
    \<and> (level = Some ''destructive'' \<longrightarrow> pt_allow_destructive_tools (pp_tools p)
        \<and> \<not> pa_require_approval_for_destructive_tools (pp_approval p))
    \<and> (level = Some ''external_side_effect'' \<longrightarrow> pt_allow_external_side_effect_tools (pp_tools p)
        \<and> \<not> pa_require_approval_for_external_side_effect_tools (pp_approval p))"
proof -
  have fields: "req_action r = action" "req_component r = component"
    "dict_get (req_metadata r) ''tool_known'' = PBool known"
    "dict_get (req_metadata r) ''tool_enabled'' = PBool enabled"
    "dict_get (req_metadata r) ''tool_approval_required'' = PBool approval"
    "dict_get (req_metadata r) ''idempotency_key_present'' = PBool idempotency"
    "dict_get (req_metadata r) ''tool_safety_level'' = py_opt_str level"
    by (simp_all add: assms(2) build_tool_policy_request_def Let_def)
  have level: "str_default (read_optional_text (py_opt_str (Some s))) ''read_only'' = s"
    if "s \<in> {''write'', ''destructive'', ''external_side_effect''}" for s
    using that by (auto simp: py_opt_str_def read_optional_text_def strip_def rstrip_def py_space_def str_default_def)
  have "allows (evaluate_tool_request r c p)"
    unfolding assms(7) using assms(3,4) by (intro domain_consent(1) [OF assms(1,5,6)] matches_rule(1)) (simp_all add: fields)
  from tool_allows [OF this] show ?thesis
    using assms(3) level [of "''write''"] level [of "''destructive''"] level [of "''external_side_effect''"]
    by (auto simp: fields)
qed

text \<open>Tool execution: if the engine allows a tool request of the tool gateway, the tool is known
  (unless the profile admits unknown ones) and enabled, an approval flag is honoured, a write needs
  the profile's permission and either no approval policy or an idempotency key, and a destructive or
  externally effective tool needs the permission and no pending approval policy.\<close>

theorem tool_execution_safety:
  assumes "eng_registry eng = load_default_policy_registry"
    and "r = build_tool_policy_request action component tool scopes c known enabled level approval
      streaming usecases agents strategies idempotency stream"
    and "action \<in> set tool_execution_actions" "(startswith component ''tools.'' \<or> startswith component ''app.tools'')"
    and "engine_evaluate eng r c = Inr d" "dec_decision d = Some Allow"
    and "p = resolve_policy_profile eng r c"
  shows "(known \<or> \<not> pt_deny_unknown_tools (pp_tools p)) \<and> enabled
    \<and> (approval \<longrightarrow> pt_allow_approval_required_tools (pp_tools p))
    \<and> (level = Some ''write'' \<longrightarrow> pt_allow_write_tools (pp_tools p)
        \<and> (pa_require_approval_for_write_tools (pp_approval p) \<longrightarrow> idempotency))
    \<and> (level = Some ''destructive'' \<longrightarrow> pt_allow_destructive_tools (pp_tools p)
        \<and> \<not> pa_require_approval_for_destructive_tools (pp_approval p))
    \<and> (level = Some ''external_side_effect'' \<longrightarrow> pt_allow_external_side_effect_tools (pp_tools p)
        \<and> \<not> pa_require_approval_for_external_side_effect_tools (pp_approval p))"
  using tool_execution_consent [OF assms] .

theorem tool_execution_safety_witness:
  "pt_allow_write_tools (pp_tools (resolve_policy_profile (sample_engine write_profile) sample_write_request sample_context))"
proof -
  have "verdict_of (engine_evaluate (sample_engine write_profile) sample_write_request sample_context) = Some Allow"
    by (rule sample_allowed) simp
  then obtain d where d: "engine_evaluate (sample_engine write_profile) sample_write_request sample_context = Inr d"
    "dec_decision d = Some Allow" unfolding verdict_of_Some by blast
  from tool_execution_safety [OF sample_registry refl _ _ d refl] show ?thesis
    by (simp add: tool_execution_actions_def)
qed

text \<open>Memory writes: if the engine allows a write request of the memory gateway, writes are enabled,
  no approval of memory writes is pending, the operation is not an administrative one, the record is
  not marked sensitive, and the profile either needs no scope or the scope is not the global one.\<close>

lemma memory_write_consent:
  assumes "eng_registry eng = load_default_policy_registry"
    and "r = build_memory_policy_request action component scope c resource provider mwrite"
    and "action \<in> set memory_write_actions" "(startswith component ''memory.'' \<or> startswith component ''app.memory'')"
    and "engine_evaluate eng r c = Inr d" "dec_decision d = Some Allow"
    and "p = resolve_policy_profile eng r c"
  shows "pm_allow_writes (pp_memory p) \<and> \<not> pa_require_approval_for_memory_writes (pp_approval p)
    \<and> action \<notin> set memory_admin_actions
    \<and> (\<forall>w. mwrite = Some w \<longrightarrow> memory_write_sensitivity w \<noteq> Some ''sensitive'')
    \<and> (pm_require_scope (pp_memory p) \<longrightarrow> classify_memory_scope scope \<noteq> ''global'')"
proof -
  have fields: "req_action r = action" "req_component r = component"
    "dict_get (req_scope r) ''memory_scope'' = PStr (classify_memory_scope scope)"
    "dict_get (req_metadata r) ''memory_admin'' = PBool (action \<in> set memory_admin_actions)"
    by (simp_all add: assms(2) build_memory_policy_request_def Let_def dict_merge_def split: option.split)
  have sensitivity: "dict_get (req_metadata r) ''memory_sensitivity'' = py_opt_str (memory_write_sensitivity w)"
    if "mwrite = Some w" for w
    using that by (simp add: assms(2) build_memory_policy_request_def Let_def dict_merge_def)
  have starts: "startswith action ''memory.''"
    using assms(3) by (auto simp: memory_write_actions_def)
  have "read_optional_text (PStr (classify_memory_scope scope)) = Some (classify_memory_scope scope)"
    using ms_scope_type_values [of "ms_normalized scope"]
    by (auto simp: classify_memory_scope_eq read_optional_text_def strip_def rstrip_def py_space_def)
  then have scope_type: "memory_scope_type r c = classify_memory_scope scope"
    by (simp add: memory_scope_type_def fields)
  have "allows (evaluate_memory_request r c p)"
    unfolding assms(7) using assms(3,4)
    by (intro domain_consent(2) [OF assms(1,5,6)] matches_rule(2)) (simp_all add: fields)
  from memory_allows [OF this] have conditions: "pm_require_scope (pp_memory p) \<longrightarrow> classify_memory_scope scope \<noteq> ''global''"
    "pm_allow_writes (pp_memory p)" "\<not> pa_require_approval_for_memory_writes (pp_approval p)"
    "action \<notin> set memory_admin_actions"
    "read_optional_text (dict_get (req_metadata r) ''memory_sensitivity'') \<noteq> Some ''sensitive''"
    using assms(3) starts by (simp_all add: fields scope_type)
  have "memory_write_sensitivity w \<noteq> Some ''sensitive''" if "mwrite = Some w" for w
    using conditions(5) unfolding sensitivity [OF that]
    by (auto simp: py_opt_str_def read_optional_text_def strip_def rstrip_def py_space_def)
  with conditions show ?thesis by blast
qed

lemma read_category:
  assumes "cat \<in> set (''safe_summary'' # ''raw_completion'' # stream_raw_denied_categories)"
  shows "str_default (read_optional_text (PStr cat)) ''safe_summary'' = cat"
  using assms sample_engine_verdicts unfolding list_all_iff by blast

lemma set_read_field_names:
  "set (read_field_names (py_strs xs)) = {t. \<exists>x \<in> set xs. read_optional_text (PStr x) = Some t}"
  by (auto simp: read_field_names_def iter_items_def py_strs_def set_collect_texts)

lemma read_name_literal:
  "read_optional_text (PStr ''stack_trace'') = Some ''stack_trace''"
  "read_optional_text (PStr ''traceback'') = Some ''traceback''"
  by (simp_all add: read_optional_text_def strip_def rstrip_def py_space_def)

lemma field_listed:
  assumes "k \<in> {''stack_trace'', ''traceback''}" "k \<in> fst ` set d"
  shows "k \<in> set (read_field_names (py_strs (sorted_keys d)))"
proof -
  have "read_optional_text (PStr k) = Some k" using assms(1) read_name_literal by auto
  then show ?thesis
    unfolding set_read_field_names sorted_keys_def using assms(2)
    by (intro CollectI bexI [of _ k]) auto
qed

definition stream_secret_fields :: "string list" where
  "stream_secret_fields =
    [''prompt'', ''messages'', ''system_prompt'', ''tool_arguments'', ''tool_result'', ''tool_payload'',
     ''memory_record'', ''memory_results'', ''memory_text'', ''workflow_state'', ''state_document'',
     ''stack_trace'', ''traceback'']"

lemma infer_stream_category_known:
  "infer_stream_payload_category event \<in> set (''safe_summary'' # ''raw_completion'' # stream_raw_denied_categories)"
  by (simp add: infer_stream_payload_category_def stream_raw_denied_categories_def Let_def)

lemma infer_stream_category_safe:
  "infer_stream_payload_category event \<notin> set stream_raw_denied_categories \<Longrightarrow>
    \<forall>k \<in> set stream_secret_fields. k \<notin> fst ` set (sse_data event)"
  by (auto simp: infer_stream_payload_category_def stream_raw_denied_categories_def Let_def
      stream_secret_fields_def meets_def split: if_splits)

text \<open>C20. Streams: if the engine allows an event with the category inferred from its own payload, the
  type of the event is one of the public ones and the payload has no field that holds prompts, tool
  data, memory records, workflow state or a stack trace.\<close>

theorem stream_event_safety:
  assumes "eng_registry eng = load_default_policy_registry"
    and "r = build_stream_policy_request event (infer_stream_payload_category event)"
    and "engine_evaluate eng r c = Inr d" "dec_decision d = Some Allow"
  shows "norm_text (Some (sse_event_type event)) \<in> Some ` set allowed_event_types
    \<and> (\<forall>k \<in> set stream_secret_fields. k \<notin> fst ` set (sse_data event))"
proof -
  have fields: "req_action r = ''stream.emit''" "req_component r = ''api.sse''"
    "req_resource r = Some (sse_event_type event)"
    "dict_get (req_metadata r) ''event_type'' = PStr (sse_event_type event)"
    "dict_get (req_metadata r) ''payload_category'' = PStr (infer_stream_payload_category event)"
    by (simp_all add: assms(2) build_stream_policy_request_def Let_def)
  have "allows (evaluate_stream_request r c (resolve_policy_profile eng r c))"
    by (intro domain_consent(4) [OF assms(1,3,4)] matches_rule(4)) (simp_all add: fields)
  note conditions = stream_allows [OF this, unfolded fields read_category [OF infer_stream_category_known]]
  have type: "str_or x x = x" for x by (cases x; cases "the x") auto
  have "read_optional_text (PStr s) = norm_text (Some s)" for s
    by (simp add: read_optional_text_def norm_text_def)
  with conditions show ?thesis
    using infer_stream_category_safe [of event]
    by (auto simp: type py_opt_str_def)
qed

theorem stream_event_safety_witness:
  "''prompt'' \<notin> fst ` set (sse_data sample_event) \<and> ''stack_trace'' \<notin> fst ` set (sse_data sample_event)"
proof -
  have "verdict_of (engine_evaluate (sample_engine sample_profile) sample_stream_request sample_context) = Some Allow"
    by (rule sample_allowed) simp
  then obtain d where d: "engine_evaluate (sample_engine sample_profile) sample_stream_request sample_context = Inr d"
    "dec_decision d = Some Allow" unfolding verdict_of_Some by blast
  from stream_event_safety [OF sample_registry refl d]
  have "\<forall>k \<in> set stream_secret_fields. k \<notin> fst ` set (sse_data sample_event)" by blast
  then show ?thesis by (simp add: stream_secret_fields_def)
qed

definition trace_secret_fields :: "string list" where
  "trace_secret_fields =
    [''prompt'', ''prompts'', ''messages'', ''system_prompt'', ''completion'', ''content'',
     ''response_text'', ''provider_response'', ''tool_arguments'', ''tool_result'', ''tool_payload'',
     ''memory_record'', ''memory_text'', ''memory_results'', ''workflow_state'', ''state_document'']"

lemma infer_trace_category_known:
  "infer_trace_payload_category payload \<in> set (''safe_summary'' # ''raw_completion'' # stream_raw_denied_categories)"
  by (simp add: infer_trace_payload_category_def stream_raw_denied_categories_def Let_def)

lemma infer_trace_category_safe:
  "infer_trace_payload_category payload \<notin> set trace_raw_denied_categories \<Longrightarrow>
    \<forall>k \<in> set trace_secret_fields. k \<notin> fst ` set payload"
  by (auto simp: infer_trace_payload_category_def trace_raw_denied_categories_def Let_def
      trace_secret_fields_def meets_def split: if_splits)

text \<open>Traces: if the engine allows the trace of an orchestration component with the category inferred
  from its payload, the payload has no stack trace, and unless the profile exposes raw payloads it has
  no field that holds prompts, completions, tool data, memory records or workflow state.\<close>

theorem trace_emission_safety:
  assumes "eng_registry eng = load_default_policy_registry"
    and "r = build_trace_policy_request tid sid uid usecase event component (Some payload)
      (infer_trace_payload_category payload)"
    and "startswith component ''orchestration.''"
    and "engine_evaluate eng r c = Inr d" "dec_decision d = Some Allow"
  shows "''stack_trace'' \<notin> fst ` set payload \<and> ''traceback'' \<notin> fst ` set payload
    \<and> (\<not> ptr_expose_raw_payloads (pp_trace (resolve_policy_profile eng r c)) \<longrightarrow>
        (\<forall>k \<in> set trace_secret_fields. k \<notin> fst ` set payload))"
proof -
  have fields: "req_action r = ''trace.emit''" "req_component r = component"
    "dict_get (req_metadata r) ''payload_category'' = PStr (infer_trace_payload_category payload)"
    "dict_get (req_metadata r) ''field_names'' = py_strs (payload_field_names (Some payload))"
    by (simp_all add: assms(2) build_trace_policy_request_def Let_def)
  have "allows (evaluate_trace_request r c (resolve_policy_profile eng r c))"
    using assms(3) by (intro domain_consent(5) [OF assms(1,4,5)] matches_rule(5)) (simp_all add: fields)
  note conditions = trace_allows [OF this, unfolded fields read_category [OF infer_trace_category_known]]
  have no_stack: "k \<notin> fst ` set payload" if "k \<in> {''stack_trace'', ''traceback''}" for k
  proof
    assume "k \<in> fst ` set payload"
    from field_listed [OF that this] this
    have "k \<in> set (read_field_names (py_strs (payload_field_names (Some payload))))"
      by (auto simp: payload_field_names_def)
    with that have "meets stack_trace_fields (read_field_names (py_strs (payload_field_names (Some payload))))"
      unfolding meets_iff stack_trace_fields_def by auto
    with conditions show False by blast
  qed
  then have "''stack_trace'' \<notin> fst ` set payload" "''traceback'' \<notin> fst ` set payload" by auto
  with conditions infer_trace_category_safe [of payload] show ?thesis by blast
qed

theorem trace_emission_safety_witness:
  "''stack_trace'' \<notin> fst ` set [(''duration_ms'', PInt 3)]"
proof -
  have "verdict_of (engine_evaluate (sample_engine sample_profile) sample_trace_request sample_context) = Some Allow"
    by (rule sample_allowed) simp
  then obtain d where d: "engine_evaluate (sample_engine sample_profile) sample_trace_request sample_context = Inr d"
    "dec_decision d = Some Allow" unfolding verdict_of_Some by blast
  from trace_emission_safety [OF sample_registry refl _ d] show ?thesis by simp
qed

text \<open>The keys of a session request that say who asks and who owns; the service adds the path, the method and the reason.\<close>

definition identity_keys :: "string list" where
  "identity_keys = [''actor_type'', ''actor_id'', ''actor_attributes'', ''owner_user_id'', ''owner_user_id_hash'']"

lemma dict_get_unmerged: "k \<notin> set (List.map fst e) \<Longrightarrow> dict_get (dict_merge d e) k = dict_get d k"
  by (induction e arbitrary: d) (auto simp: dict_merge_def)

lemma session_request_fields:
  assumes "r = build_session_policy_request action component session_id user user_hash usecase owner owner_hash extra"
    and "set (List.map fst extra) \<inter> set identity_keys = {}"
  shows "req_action r = action" "req_component r = component"
    "read_optional_text (dict_get (req_metadata r) ''owner_user_id'') = norm_text owner"
    "read_optional_text (dict_get (req_metadata r) ''owner_user_id_hash'') = norm_text owner_hash"
    "actor_user_id (resolved_actor r) = norm_text (Some user)"
    "read_optional_text (dict_get (actor_attributes (resolved_actor r)) ''user_id_hash'') = norm_text user_hash"
proof -
  have texts: "read_optional_text (PStr s) = norm_text (Some s)" for s
    by (simp add: read_optional_text_def norm_text_def)
  have other: "dict_get (if extra = [] then d else dict_merge d extra) k = dict_get d k" if "k \<in> set identity_keys" for d k
    using that assms(2) dict_get_unmerged [of k extra d] by auto
  have fields: "req_action r = action \<and> req_component r = component
    \<and> read_optional_text (dict_get (req_metadata r) ''owner_user_id'') = norm_text owner
    \<and> read_optional_text (dict_get (req_metadata r) ''owner_user_id_hash'') = norm_text owner_hash
    \<and> actor_user_id (resolved_actor r) = norm_text (Some user)
    \<and> read_optional_text (dict_get (actor_attributes (resolved_actor r)) ''user_id_hash'') = norm_text user_hash"
    by (simp add: assms(1) build_session_policy_request_def resolved_actor_def Let_def texts other identity_keys_def
        read_mapping_def split: option.split)
  then show "req_action r = action" "req_component r = component"
    "read_optional_text (dict_get (req_metadata r) ''owner_user_id'') = norm_text owner"
    "read_optional_text (dict_get (req_metadata r) ''owner_user_id_hash'') = norm_text owner_hash"
    "actor_user_id (resolved_actor r) = norm_text (Some user)"
    "read_optional_text (dict_get (actor_attributes (resolved_actor r)) ''user_id_hash'') = norm_text user_hash"
    by simp_all
qed

text \<open>C33. Sessions: if the engine allows a reset or a history read of a session with a recorded owner to a user with an
  identifier, the two are the same, and so are the recorded hash of the owner and the hash of the user when there are both;
  whatever else the caller reports in the metadata of the request. (A user without an identifier, or an owner without one, is
  not compared.)\<close>

theorem session_owner_safety:
  assumes "eng_registry eng = load_default_policy_registry"
    and "r = build_session_policy_request action component session_id user user_hash usecase owner owner_hash extra"
    and "action \<in> {''session.reset'', ''session.read_history''}" "(startswith component ''session.'' \<or> startswith component ''app.session'')"
    and "set (List.map fst extra) \<inter> set identity_keys = {}"
    and "engine_evaluate eng r c = Inr d" "dec_decision d = Some Allow"
  shows "(norm_text owner \<noteq> None \<and> norm_text (Some user) \<noteq> None \<longrightarrow> norm_text owner = norm_text (Some user))
    \<and> (norm_text owner_hash \<noteq> None \<and> norm_text user_hash \<noteq> None \<longrightarrow> norm_text owner_hash = norm_text user_hash)"
proof -
  note fields = session_request_fields [OF assms(2,5)]
  have "allows (evaluate_session_access r c (resolve_policy_profile eng r c) (eng_config eng))"
    using assms(3,4) by (intro domain_consent(6) [OF assms(1,6,7)] matches_rule(6)) (simp_all add: fields)
  from session_allows [OF this] assms(3) show ?thesis by (auto simp: fields)
qed

theorem session_owner_safety_witness:
  "norm_text (Some '' u1 '') = norm_text (Some ''u1'')"
proof -
  have "verdict_of (engine_evaluate (sample_engine sample_profile) sample_session_request sample_context) = Some Allow"
    by (rule sample_allowed) simp
  then obtain d where d: "engine_evaluate (sample_engine sample_profile) sample_session_request sample_context = Inr d"
    "dec_decision d = Some Allow" unfolding verdict_of_Some by blast
  have some: "norm_text (Some '' u1 '') \<noteq> None" "norm_text (Some ''u1'') \<noteq> None"
    using sample_engine_verdicts by blast+
  from session_owner_safety [OF sample_registry refl _ _ _ d] some show ?thesis by (simp add: identity_keys_def)
qed

text \<open>Fallback: if the engine allows a fallback, fallbacks are enabled, the failure is of a degradable
  type, no response has started, the fallback needs no broader permissions, and after a policy denial
  or a possible side effect the profile permits it explicitly.\<close>

theorem fallback_request_safety:
  assumes "eng_registry eng = load_default_policy_registry"
    and "r = build_fallback_policy_request c failed fallback failure denied side_effect started broader"
    and "engine_evaluate eng r c = Inr d" "dec_decision d = Some Allow"
    and "p = resolve_policy_profile eng r c"
  shows "pf_allow_fallbacks (pp_fallback p) \<and> fallback \<noteq> None \<and> \<not> started \<and> \<not> broader
    \<and> (denied \<longrightarrow> pf_allow_after_denial (pp_fallback p))
    \<and> (side_effect \<longrightarrow> pf_allow_after_external_side_effects (pp_fallback p))
    \<and> (\<exists>t \<in> set degradable_failure_types. norm_text (Some failure) = Some t)"
proof -
  have fields: "req_action r = ''fallback.execute''" "req_component r = ''orchestration.fallback''"
    "req_resource r = fallback"
    "dict_get (req_metadata r) ''policy_denied'' = PBool denied"
    "dict_get (req_metadata r) ''side_effect_may_have_started'' = PBool side_effect"
    "dict_get (req_metadata r) ''response_started'' = PBool started"
    "dict_get (req_metadata r) ''fallback_requires_broader_permissions'' = PBool broader"
    "dict_get (req_metadata r) ''failure_type'' = PStr failure"
    by (simp_all add: assms(2) build_fallback_policy_request_def Let_def)
  have "allows (evaluate_fallback_request r c p)"
    unfolding assms(5) by (intro domain_consent(3) [OF assms(1,3,4)] matches_rule(3)) (simp_all add: fields)
  note conditions = fallback_allows [OF this, unfolded fields]
  have "\<exists>t \<in> set degradable_failure_types. norm_text (Some failure) = Some t"
    using conditions
    by (auto simp: read_optional_text_def norm_text_def str_default_def degradable_failure_types_def Let_def
        split: if_splits list.splits)
  with conditions show ?thesis by simp
qed

theorem fallback_request_safety_witness:
  "pf_allow_fallbacks (pp_fallback (resolve_policy_profile (sample_engine sample_profile)
     (sample_fallback_request False) sample_context))"
proof -
  have "verdict_of (engine_evaluate (sample_engine sample_profile) (sample_fallback_request False) sample_context)
      = Some Allow"
    by (rule sample_allowed) simp
  then obtain d where d: "engine_evaluate (sample_engine sample_profile) (sample_fallback_request False) sample_context
      = Inr d" "dec_decision d = Some Allow" unfolding verdict_of_Some by blast
  from fallback_request_safety [OF sample_registry refl d refl] show ?thesis by blast
qed

text \<open>Charts: if the engine allows a chart build of the visualization gateway, visualization is
  enabled, the rows, series and categories are within the limits of the profile, and no requested
  field is a sensitive one. The flag \<open>allow_full_dataset_in_context\<close> is off: switching it on denies
  every build that is otherwise allowed.\<close>

theorem visualization_build_safety:
  assumes "eng_registry eng = load_default_policy_registry"
    and "r = build_visualization_policy_request ''visualization.build'' component vc md"
    and "(startswith component ''visualization.'' \<or> startswith component ''app.visualization'')"
    and "engine_evaluate eng r c = Inr d" "dec_decision d = Some Allow"
    and "s = pp_visualization (resolve_policy_profile eng r c)"
  shows "pv_enabled s
    \<and> \<not> limit_exceeded (optional_int (dict_get md ''row_count'')) (pv_max_rows_artifact_store s)
    \<and> \<not> limit_exceeded (optional_int (dict_get md ''series_count'')) (pv_max_series s)
    \<and> \<not> limit_exceeded (optional_int (dict_get md ''category_count'')) (pv_max_categories s)
    \<and> \<not> has_sensitive_fields s (text_tuple (dict_get md ''field_names''))
    \<and> \<not> pv_allow_full_dataset_in_context s"
proof -
  have fields: "req_action r = ''visualization.build''" "req_component r = component" "req_metadata r = md"
    by (simp_all add: assms(2) build_visualization_policy_request_def)
  have "evaluate_visualization_request r c (resolve_policy_profile eng r c) (eng_config eng) \<noteq> Inr None"
    by (simp add: evaluate_visualization_request_def visualization_build_check_def fields Let_def)
  then have "allows (evaluate_visualization_request r c (resolve_policy_profile eng r c) (eng_config eng))"
    using assms(3) by (intro domain_consent(7) [OF assms(1,4,5)] matches_rule(7)) (simp_all add: fields)
  from visualization_allows [OF this fields(1)] visualization_build_allows show ?thesis
    unfolding assms(6) fields by blast
qed

theorem visualization_build_safety_witness:
  "\<not> limit_exceeded (Some 5) (pv_max_rows_artifact_store
    (pp_visualization (resolve_policy_profile (sample_engine chart_profile) sample_chart_request sample_context)))"
proof -
  have "verdict_of (engine_evaluate (sample_engine chart_profile) sample_chart_request sample_context) = Some Allow"
    by (rule sample_allowed) simp
  then obtain d where d: "engine_evaluate (sample_engine chart_profile) sample_chart_request sample_context = Inr d"
    "dec_decision d = Some Allow" unfolding verdict_of_Some by blast
  from visualization_build_safety [OF sample_registry refl _ d refl] show ?thesis
    by (simp add: optional_int_def)
qed

end
