(* ===== verification/Service_Facts.thy ===== *)
theory Service_Facts
  imports Policy_Service Policy_Requests Policy_Safety
begin

text \<open>
  Facts about evaluations through the policy service that its callers use: every decision is well formed,
  the first evaluation of a service has the verdict of the engine, and sample services.
\<close>

section \<open>Evaluations through the service\<close>

text \<open>The default service over the sample engine of \<open>Policy_Safety\<close>: no cache, no recorder yet.\<close>

definition fresh_service :: "policy_engine \<Rightarrow> policy_service" where
  "fresh_service eng =
    \<lparr>sv_config = eng_config eng, sv_settings = eng_settings eng, sv_engine = eng,
     sv_caches = [], sv_audits = [], sv_metrics = []\<rparr>"

definition clock_at :: "int \<Rightarrow> clock_readings" where
  "clock_at t = \<lparr>ck_get = t, ck_put = t, ck_trim = t, ck_audit = t, ck_duration_ms = 0\<rparr>"

lemma fresh_service_fields [simp]:
  "sv_engine (fresh_service eng) = eng" "sv_caches (fresh_service eng) = []" "sv_audits (fresh_service eng) = []"
  by (simp_all add: fresh_service_def)

lemma clock_at_fields [simp]: "ck_get (clock_at t) = t" "ck_put (clock_at t) = t" "ck_trim (clock_at t) = t"
  by (simp_all add: clock_at_def)

lemma service_ok_empty: "sv_caches sv = [] \<Longrightarrow> sv_audits sv = [] \<Longrightarrow> service_ok tx log sv"
  by (simp add: service_ok_def)

text \<open>Every decision the service returns has the verdict of an engine decision, so it is well formed.\<close>

lemma service_decision_wf:
  assumes "service_ok tx log sv" "eng_registry (sv_engine sv) = load_default_policy_registry"
    and "service_evaluate tx ck sv r c = (Inr d, sv')"
  shows "wf_decision d"
proof (rule service_evaluate_source [OF assms(1,3)])
  fix d0 assume "engine_evaluate (sv_engine sv) r c = Inr d0" "d \<in> {d0, sanitize_decision d0}"
  then show ?thesis using default_registry.engine_verdict [OF assms(2)] by auto
qed simp

text \<open>Two requests for the same fallback that differ in what the code puts into the metadata only have
  the same profile and the same cache key.\<close>

lemma fallback_profile_same:
  "resolve_policy_profile eng (build_fallback_policy_request c f g ty dn se st br) c =
   resolve_policy_profile eng (build_fallback_policy_request c f g ty' dn' se' st' br') c"
  by (simp add: reader_defs build_fallback_policy_request_def resolve_policy_context_def resolved_evaluation_def
      plain_evaluation_def Let_def)

lemma fallback_key_same:
  "build_policy_cache_key tx (build_fallback_policy_request c f g ty dn se st br) c n =
   build_policy_cache_key tx (build_fallback_policy_request c f g ty' dn' se' st' br') c n"
  by (simp add: build_policy_cache_key_def build_fallback_policy_request_def resolve_policy_context_def
      resolved_actor_def resolved_evaluation_def resolved_scope_def plain_evaluation_def
      safe_metadata_keys_def Let_def)

lemma cache_get_same_key:
  "build_policy_cache_key tx r c n = build_policy_cache_key tx r' c' n \<Longrightarrow>
    cache_get tx t ch r c n = cache_get tx t ch r' c' n"
  by (simp add: cache_get_def)

text \<open>The lookup in a service without caches misses, so the engine decides and the decision is stored.\<close>

lemma fresh_lookup:
  assumes "sv_caches sv = []" "p = profile_of sv r c"
  shows "\<exists>cache. lookup_of tx ck sv r c = (None, cache) \<and> cache_wf cache
    \<and> dc_settings cache = pp_decision_cache p"
  using assms
  by (auto simp: decision_cache_for_profile_def cache_get_def new_cache_def cache_wf_def Let_def)

text \<open>The first evaluation of a service without caches has the verdict of the engine.\<close>

lemma fresh_evaluation:
  assumes "sv_caches sv = []" "eng_registry (sv_engine sv) = load_default_policy_registry"
    and "engine_evaluate (sv_engine sv) r c = Inr d0" "dec_decision d0 = Some v"
  shows "\<exists>d sv'. service_evaluate tx ck sv r c = (Inr d, sv') \<and> wf_decision d \<and> dec_decision d = Some v"
proof -
  let ?n = "pp_name (profile_of sv r c)"
  from fresh_lookup [OF assms(1) refl] obtain cache where "lookup_of tx ck sv r c = (None, cache)" by blast
  from service_evaluate_miss(1) [OF this assms(3)] obtain d sv'
    where ev: "service_evaluate tx ck sv r c = (Inr d, sv')"
      and d: "d = fst (cache_put tx (ck_put ck) (ck_trim ck) cache r c ?n d0)"
    by (cases "service_evaluate tx ck sv r c") auto
  have "wf_decision d0" using default_registry.engine_verdict [OF assms(2,3)] by blast
  then have "wf_decision d \<and> dec_decision d = Some v" using d assms(4) by (simp add: cache_put_def Let_def)
  with ev show ?thesis by blast
qed

text \<open>A service built from the configuration that only names one profile, and its first request.\<close>

definition first_verdict :: "policy_request \<Rightarrow> decision_value option" where
  "first_verdict r =
    (case build_policy_service minimal_config of
       Inl e \<Rightarrow> None
     | Inr sv \<Rightarrow> verdict_of (engine_evaluate (sv_engine sv) r sample_context))"

lemma first_evaluation:
  assumes "first_verdict r = Some v"
  shows "\<exists>sv d sv'. build_policy_service minimal_config = Inr sv
    \<and> service_evaluate plain_texts (clock_at 0) sv r sample_context = (Inr d, sv') \<and> dec_decision d = Some v"
proof -
  from assms obtain sv d0 where sv: "build_policy_service minimal_config = Inr sv"
    and d0: "engine_evaluate (sv_engine sv) r sample_context = Inr d0" "dec_decision d0 = Some v"
    by (auto simp: first_verdict_def verdict_of_Some split: sum.splits)
  have "sv_caches sv = []" "eng_registry (sv_engine sv) = load_default_policy_registry"
    using sv build_policy_service_registry [OF sv] by (auto simp: build_policy_service_def)
  from fresh_evaluation [OF this d0] sv show ?thesis by blast
qed

text \<open>The decision a service without caches gives is the engine's.\<close>

lemma first_answer:
  assumes "build_policy_service config = Inr sv" "fst (service_evaluate tx ck sv r c) = Inr d" "dec_allowed d"
  obtains d0 where "engine_evaluate (sv_engine sv) r c = Inr d0" "dec_decision d0 = Some Allow"
proof -
  obtain sv' where ev: "service_evaluate tx ck sv r c = (Inr d, sv')"
    using assms(2) by (cases "service_evaluate tx ck sv r c") auto
  have ok: "service_ok tx [] sv" by (rule build_policy_service_ok [OF assms(1)])
  have wf: "wf_decision d" by (rule service_decision_wf [OF ok build_policy_service_registry [OF assms(1)] ev])
  show ?thesis
  proof (rule service_evaluate_source [OF ok ev])
    fix d0 assume "engine_evaluate (sv_engine sv) r c = Inr d0" "d \<in> {d0, sanitize_decision d0}"
    moreover from this have "wf_decision d0"
      using default_registry.engine_verdict [OF build_policy_service_registry [OF assms(1)]] by blast
    ultimately show ?thesis using that [of d0] wf assms(3) by (auto simp: wf_decision_allowed)
  qed simp
qed

end
