(* ===== verification/LLM_Resolver.thy ===== *)
theory LLM_Resolver
  imports LLM_Models Policy_Contracts
begin

text \<open>
  The choice of the logical profile of a request (\<open>llm/profile_resolver.py\<close>), the registry of provider
  adapters (\<open>llm/provider_registry.py\<close>) and the token budget (\<open>llm/token_budget.py\<close>). A call returns a value or
  raises; the adapters themselves are code of the provider packages and appear as names only.
\<close>

type_synonym 'a llm_res = "llm_exn + 'a"

definition raise_llm :: "llm_error_class \<Rightarrow> string \<Rightarrow> pydict \<Rightarrow> 'a llm_res" where
  "raise_llm k m md = Inl (LlmExn (llm_err k m md))"

lemma raise_llm_not_Inr [simp]: "raise_llm k m md \<noteq> Inr x" "Inr x \<noteq> raise_llm k m md"
  by (simp_all add: raise_llm_def)

section \<open>Candidates\<close>

definition read_request_name :: "llm_request \<Rightarrow> orchestration_context \<Rightarrow> string \<Rightarrow> string option" where
  "read_request_name q c key =
    (case read_optional_text (dict_get (lr_metadata q) key) of
       Some n \<Rightarrow> Some n
     | None \<Rightarrow> read_optional_text (dict_get (octx_runtime_metadata c) key))"

definition lookup_named_profile :: "orchestration_context \<Rightarrow> string \<Rightarrow> string option \<Rightarrow> string option" where
  "lookup_named_profile c sect name =
    (case name of
       None \<Rightarrow> None
     | Some n \<Rightarrow> read_optional_text (config_get (octx_config c) (sect @ ''.'' @ n @ ''.llm_profile'') PNone))"

definition lookup_orchestrator_profile :: "orchestration_context \<Rightarrow> string option \<Rightarrow> string option" where
  "lookup_orchestrator_profile c usecase_name =
    (case usecase_name of
       None \<Rightarrow> None
     | Some n \<Rightarrow>
         read_optional_text
           (config_get (octx_config c) (''usecases.'' @ n @ ''.orchestrator_llm_profile'') PNone))"

definition llm_candidate :: "string option \<Rightarrow> string \<Rightarrow> (string \<times> string) option" where
  "llm_candidate v source = map_option (\<lambda>p. (p, source)) v"

fun dedupe_candidates :: "string list \<Rightarrow> (string \<times> string) option list \<Rightarrow> (string \<times> string) list" where
  "dedupe_candidates seen [] = []"
| "dedupe_candidates seen (None # cs) = dedupe_candidates seen cs"
| "dedupe_candidates seen (Some (p, source) # cs) =
    (if p \<in> set seen then dedupe_candidates seen cs
     else (p, source) # dedupe_candidates (p # seen) cs)"

definition active_usecase :: "orchestration_context \<Rightarrow> string option" where
  "active_usecase c =
    str_or (rc_usecase (octx_request c)) (read_optional_text (config_get (octx_config c) ''app.active_usecase'' PNone))"

definition llm_candidates :: "llm_request \<Rightarrow> orchestration_context \<Rightarrow> llm_settings \<Rightarrow> (string \<times> string) list" where
  "llm_candidates q c settings =
    dedupe_candidates []
      [llm_candidate (lr_profile q) ''request'',
       llm_candidate (lookup_named_profile c ''agents'' (read_request_name q c ''agent_name'')) ''agent'',
       llm_candidate (lookup_named_profile c ''strategies'' (read_request_name q c ''strategy_name'')) ''strategy'',
       llm_candidate (lookup_orchestrator_profile c (active_usecase c)) ''usecase'',
       llm_candidate (Some (ld_profile (ls_defaults settings))) ''default'']"

section \<open>Resolution\<close>

definition requests_tool_calling :: "llm_request \<Rightarrow> bool" where
  "requests_tool_calling q \<longleftrightarrow> lr_tools q \<noteq> [] \<or> lr_tool_choice q \<noteq> None"

definition resolved_request ::
  "llm_request \<Rightarrow> orchestration_context \<Rightarrow> llm_settings \<Rightarrow> string \<Rightarrow> string \<Rightarrow> llm_profile_settings \<Rightarrow>
   llm_provider_settings \<Rightarrow> resolved_llm_request" where
  "resolved_request q c settings profile_name source profile provider =
    \<lparr>rlr_request = q, rlr_defaults = ls_defaults settings, rlr_provider = provider, rlr_profile = profile,
     rlr_profile_name = profile_name, rlr_provider_name = lv_name provider, rlr_model = lp_model profile,
     rlr_timeout_seconds =
       int_else (lr_timeout_seconds q) (int_else (lp_timeout_seconds profile)
         (int_else (Some (lv_timeout_seconds provider)) (ld_timeout_seconds (ls_defaults settings)))),
     rlr_stream_timeout_seconds =
       int_else (lp_stream_timeout_seconds profile)
         (int_else (Some (lv_stream_timeout_seconds provider)) (ld_stream_timeout_seconds (ls_defaults settings))),
     rlr_max_retries = ld_max_retries (ls_defaults settings),
     rlr_response_format = lr_response_format q,
     rlr_max_output_tokens = int_or_opt (lr_max_output_tokens q) (lp_max_output_tokens profile),
     rlr_agent_name = read_request_name q c ''agent_name'',
     rlr_strategy_name = read_request_name q c ''strategy_name'',
     rlr_usecase_name = active_usecase c, rlr_resolution_source = source,
     rlr_metadata = [(''profile'', PStr profile_name), (''source'', PStr source)]\<rparr>"

text \<open>The checks of one defined candidate.\<close>

definition check_candidate ::
  "llm_request \<Rightarrow> orchestration_context \<Rightarrow> llm_settings \<Rightarrow> string \<Rightarrow> string \<Rightarrow> llm_profile_settings \<Rightarrow>
   resolved_llm_request llm_res" where
  "check_candidate q c settings profile_name source profile =
    (if \<not> lp_enabled profile then
       raise_llm LLMProfileResolutionError (''Resolved LLM profile '' @ quoted profile_name @ '' is disabled.'')
         [(''profile'', PStr profile_name), (''source'', PStr source)]
     else
       (case map_of (ls_providers settings) (lp_provider profile) of
          None \<Rightarrow>
            raise_llm LLMProviderUnavailableError
              (''Resolved LLM provider '' @ quoted (lp_provider profile) @ '' is unavailable.'')
              [(''profile'', PStr profile_name), (''provider'', PStr (lp_provider profile))]
        | Some provider \<Rightarrow>
           (if \<not> lv_enabled provider then
              raise_llm LLMProviderUnavailableError
                (''Resolved LLM provider '' @ quoted (lp_provider profile) @ '' is unavailable.'')
                [(''profile'', PStr profile_name), (''provider'', PStr (lp_provider profile))]
            else if (case lr_response_format q of None \<Rightarrow> False | Some f \<Rightarrow> rf_type f \<noteq> ''text'')
                    \<and> \<not> lp_supports_json_schema profile then
              raise_llm LLMUnsupportedCapabilityError
                (''LLM profile '' @ quoted profile_name @ '' does not support structured output.'')
                [(''profile'', PStr profile_name),
                 (''response_format'', py_opt_str (map_option rf_type (lr_response_format q))),
                 (''capability'', PStr ''structured_output'')]
            else if requests_tool_calling q \<and> \<not> lp_supports_tool_calling profile then
              raise_llm LLMUnsupportedCapabilityError
                (''LLM profile '' @ quoted profile_name @ '' does not support native tool calling.'')
                [(''profile'', PStr profile_name), (''capability'', PStr ''tool_calling'')]
            else if lr_stream q \<and> \<not> lp_supports_streaming profile then
              raise_llm LLMUnsupportedCapabilityError
                (''LLM profile '' @ quoted profile_name @ '' does not support streaming.'')
                [(''profile'', PStr profile_name), (''capability'', PStr ''streaming'')]
            else Inr (resolved_request q c settings profile_name source profile provider))))"

fun resolve_candidates ::
  "llm_request \<Rightarrow> orchestration_context \<Rightarrow> llm_settings \<Rightarrow> (string \<times> string) list \<Rightarrow>
   resolved_llm_request llm_res" where
  "resolve_candidates q c settings [] =
    raise_llm LLMProfileResolutionError ''No enabled LLM profile could be resolved.'' []"
| "resolve_candidates q c settings ((profile_name, source) # rest) =
    (case map_of (ls_profiles settings) profile_name of
       None \<Rightarrow>
         (if source = ''request'' then
            raise_llm LLMProfileResolutionError
              (''Requested LLM profile '' @ quoted profile_name @ '' is not defined.'')
              [(''profile'', PStr profile_name)]
          else resolve_candidates q c settings rest)
     | Some profile \<Rightarrow> check_candidate q c settings profile_name source profile)"

definition resolve_llm :: "llm_request \<Rightarrow> orchestration_context \<Rightarrow> resolved_llm_request llm_res" where
  "resolve_llm q c =
    (case get_llm_settings (octx_config c) of
       Inl e \<Rightarrow> Inl (PyExn e)
     | Inr settings \<Rightarrow> resolve_candidates q c settings (llm_candidates q c settings))"

section \<open>The registry of adapters\<close>

record provider_registry =
  reg_providers :: "(string \<times> llm_provider_settings) list"
  reg_adapters :: "string list"

definition registry_provider_settings :: "provider_registry \<Rightarrow> string \<Rightarrow> llm_provider_settings llm_res" where
  "registry_provider_settings reg name =
    (case map_of (reg_providers reg) name of
       Some p \<Rightarrow> Inr p
     | None \<Rightarrow>
         raise_llm LLMProviderUnavailableError
           (''LLM provider '' @ quoted name @ '' is not defined in configuration.'') [(''provider'', PStr name)])"

definition register_adapter :: "provider_registry \<Rightarrow> string \<Rightarrow> provider_registry llm_res" where
  "register_adapter reg name =
    (if map_of (reg_providers reg) name = None then
       raise_llm LLMProviderUnavailableError
         (''LLM provider '' @ quoted name @ '' is not defined in configuration.'') []
     else if name \<in> set (reg_adapters reg) then
       Inl (BuiltinValue (''LLM provider '' @ quoted name @ '' is already registered.''))
     else Inr (reg\<lparr>reg_adapters := reg_adapters reg @ [name]\<rparr>))"

definition registry_has :: "provider_registry \<Rightarrow> string \<Rightarrow> bool" where
  "registry_has reg name \<longleftrightarrow> name \<in> set (reg_adapters reg)"

definition registry_get :: "provider_registry \<Rightarrow> string \<Rightarrow> bool \<Rightarrow> string llm_res" where
  "registry_get reg name allow_disabled =
    try_bind (registry_provider_settings reg name) (\<lambda>p.
      if \<not> lv_enabled p \<and> \<not> allow_disabled then
        raise_llm LLMProviderUnavailableError (''LLM provider '' @ quoted name @ '' is disabled.'')
          [(''provider'', PStr name)]
      else if name \<notin> set (reg_adapters reg) then
        raise_llm LLMProviderUnavailableError (''LLM provider '' @ quoted name @ '' has no registered adapter.'')
          [(''provider'', PStr name)]
      else Inr name)"

section \<open>Token budget\<close>

text \<open>\<open>str.split()\<close> without a separator: the maximal runs of characters that are not spaces.\<close>

fun split_spaces :: "string \<Rightarrow> string list" where
  "split_spaces [] = [[]]"
| "split_spaces (c # s) =
    (if py_space c then [] # split_spaces s
     else (case split_spaces s of [] \<Rightarrow> [[c]] | w # ws \<Rightarrow> (c # w) # ws))"

definition py_split :: "string \<Rightarrow> string list" where
  "py_split s = filter (\<lambda>w. w \<noteq> []) (split_spaces s)"

definition estimate_text_tokens :: "string \<Rightarrow> int" where
  "estimate_text_tokens s = (if s = [] then 0 else max (int (length (py_split s))) 1)"

text \<open>\<open>json.dumps(v, sort_keys=True)\<close>: spaced separators, and \<open>TypeError\<close> for what JSON does not know.\<close>

fun json_serializable :: "pyval \<Rightarrow> bool" where
  "json_serializable (PList xs) = (\<forall>x \<in> set xs. json_serializable x)"
| "json_serializable (PTuple xs) = (\<forall>x \<in> set xs. json_serializable x)"
| "json_serializable (PDict d) = (\<forall>(k, v) \<in> set d. json_serializable v)"
| "json_serializable (PBytes s) = False"
| "json_serializable (PSet xs) = False"
| "json_serializable (PObj c) = False"
| "json_serializable v = True"

fun json_spaced :: "py_texts \<Rightarrow> pyval \<Rightarrow> string" where
  "json_spaced tx (PList xs) = ''['' @ join '', '' (List.map (json_spaced tx) xs) @ '']''"
| "json_spaced tx (PTuple xs) = ''['' @ join '', '' (List.map (json_spaced tx) xs) @ '']''"
| "json_spaced tx (PDict d) =
    CHR 0x7B # join '', ''
      (List.map (\<lambda>kv. json_str (fst kv) @ '': '' @ snd kv)
        (sort_key fst (List.map (\<lambda>(k, v). (k, json_spaced tx v)) d))) @ [CHR 0x7D]"
| "json_spaced tx v = json_dumps tx v"

definition estimate_part_tokens :: "py_texts \<Rightarrow> llm_content_part \<Rightarrow> int llm_res" where
  "estimate_part_tokens tx part =
    (case part_text part of
       Some s \<Rightarrow> Inr (estimate_text_tokens s)
     | None \<Rightarrow>
        (case part_image_url part of
           Some s \<Rightarrow> Inr (estimate_text_tokens s)
         | None \<Rightarrow>
            if part_json_value part = PNone then Inr 0
            else if json_serializable (part_json_value part)
              then Inr (estimate_text_tokens (json_spaced tx (part_json_value part)))
            else Inl (PyExn TypeError)))"

fun estimate_parts :: "py_texts \<Rightarrow> llm_content_part list \<Rightarrow> int \<Rightarrow> int llm_res" where
  "estimate_parts tx [] acc = Inr acc"
| "estimate_parts tx (p # ps) acc =
    try_bind (estimate_part_tokens tx p) (\<lambda>n. estimate_parts tx ps (acc + n))"

definition estimate_message_tokens :: "py_texts \<Rightarrow> llm_message \<Rightarrow> int llm_res" where
  "estimate_message_tokens tx m =
    (case msg_content m of
       TextContent s \<Rightarrow> Inr (estimate_text_tokens s)
     | PartsContent parts \<Rightarrow> estimate_parts tx parts 0)"

fun estimate_request_tokens :: "py_texts \<Rightarrow> llm_message list \<Rightarrow> int \<Rightarrow> int llm_res" where
  "estimate_request_tokens tx [] acc = Inr acc"
| "estimate_request_tokens tx (m # ms) acc =
    try_bind (estimate_message_tokens tx m) (\<lambda>n. estimate_request_tokens tx ms (acc + 1 + n))"

record token_budget =
  tb_estimated_input_tokens :: int
  tb_requested_output_tokens :: "int option"

definition enforce_token_budget :: "py_texts \<Rightarrow> resolved_llm_request \<Rightarrow> token_budget llm_res" where
  "enforce_token_budget tx q =
    try_bind (estimate_request_tokens tx (lr_messages (rlr_request q)) 0) (\<lambda>estimated.
      let requested = rlr_max_output_tokens q;
          max_input = lp_max_input_tokens (rlr_profile q);
          output_limit = lp_max_output_tokens (rlr_profile q);
          max_total = lp_max_total_tokens (rlr_profile q);
          profile = quoted (rlr_profile_name q);
          named = (''profile'', PStr (rlr_profile_name q))
      in if (case max_input of None \<Rightarrow> False | Some m \<Rightarrow> estimated > m) then
           raise_llm LLMContextLengthError (''LLM request exceeds the max_input_tokens for profile '' @ profile @ ''.'')
             [named, (''estimated_input_tokens'', PInt estimated), (''max_input_tokens'', PInt (the max_input))]
         else if (case (requested, output_limit) of (Some r, Some l) \<Rightarrow> r > l | _ \<Rightarrow> False) then
           raise_llm LLMBadRequestError
             (''Requested output exceeds the max_output_tokens for profile '' @ profile @ ''.'')
             [named, (''requested_output_tokens'', PInt (the requested)), (''max_output_tokens'', PInt (the output_limit))]
         else if (case (max_total, requested) of (Some m, Some r) \<Rightarrow> estimated + r > m | _ \<Rightarrow> False) then
           raise_llm LLMContextLengthError (''LLM request exceeds the max_total_tokens for profile '' @ profile @ ''.'')
             [named, (''estimated_input_tokens'', PInt estimated),
              (''requested_output_tokens'', PInt (the requested)), (''max_total_tokens'', PInt (the max_total))]
         else Inr \<lparr>tb_estimated_input_tokens = estimated, tb_requested_output_tokens = requested\<rparr>)"

end
