(* ===== verification/Retry_Loop.thy ===== *)
theory Retry_Loop
  imports Py_Prelude
begin

text \<open>
  The contract of the bounded retry loops of the gateways (\<open>for attempt in range(attempts)\<close> with a
  \<open>continue\<close> for a failure that may be tried again): one attempt at a time, a failure is tried again only
  while attempts are left, and every attempt makes one call to the outside. The locale proves once
  what every such loop guarantees; the gateways interpret it on their own loops.
\<close>

locale retry_loop =
  fixes attempt :: "nat \<Rightarrow> 's \<Rightarrow> ('e + 'a) \<times> 's"
    and again :: "'e \<Rightarrow> bool"
    and on_retry :: "nat \<Rightarrow> 'e \<Rightarrow> 's \<Rightarrow> 's"
    and give_up :: "nat \<Rightarrow> 'e \<Rightarrow> 's \<Rightarrow> 's"
    and calls :: "'s \<Rightarrow> nat"
    and loop :: "nat \<Rightarrow> nat \<Rightarrow> 's \<Rightarrow> ('e + 'a) option \<times> 's"
  assumes loop_0: "loop 0 k s = (None, s)"
    and loop_Suc: "loop (Suc n) k s =
      (case attempt k s of
         (Inr x, s') \<Rightarrow> (Some (Inr x), s')
       | (Inl e, s') \<Rightarrow>
           if again e \<and> 0 < n then loop n (Suc k) (on_retry k e s')
           else (Some (Inl e), give_up k e s'))"
    and attempt_calls: "calls (snd (attempt k s)) = calls s + 1"
    and on_retry_calls: "calls (on_retry k e s) = calls s"
    and give_up_calls: "calls (give_up k e s) = calls s"
begin

lemma loop_cases:
  obtains (success) x s' where "attempt k s = (Inr x, s')" "loop (Suc n) k s = (Some (Inr x), s')"
  | (retry) e s' where "attempt k s = (Inl e, s')" "again e" "0 < n"
      "loop (Suc n) k s = loop n (Suc k) (on_retry k e s')"
  | (failure) e s' where "attempt k s = (Inl e, s')" "\<not> (again e \<and> 0 < n)"
      "loop (Suc n) k s = (Some (Inl e), give_up k e s')"
proof (cases "attempt k s")
  case (Pair res s')
  then show ?thesis
    using success retry failure loop_Suc [of n k s] by (cases res) (auto split: if_splits)
qed

text \<open>Termination with a bound: at most \<open>n\<close> calls, and at least one if an attempt is allowed at all.\<close>

lemma loop_calls: "calls s \<le> calls (snd (loop n k s)) \<and> calls (snd (loop n k s)) \<le> calls s + n"
proof (induction n arbitrary: k s)
  case 0
  then show ?case by (simp add: loop_0)
next
  case (Suc n)
  show ?case
  proof (cases rule: loop_cases [of k s n])
    case (success x s')
    then show ?thesis using attempt_calls [of k s] by simp
  next
    case (retry e s')
    then show ?thesis
      using attempt_calls [of k s] on_retry_calls [of k e s'] Suc.IH [where k = "Suc k" and s = "on_retry k e s'"] by simp
  next
    case (failure e s')
    then show ?thesis using attempt_calls [of k s] give_up_calls [of k e s'] by simp
  qed
qed

lemma loop_returns: "0 < n \<Longrightarrow> fst (loop n k s) \<noteq> None"
proof (induction n arbitrary: k s)
  case (Suc n)
  show ?case
  proof (cases rule: loop_cases [of k s n])
    case (retry e s')
    then show ?thesis using Suc.IH [where k = "Suc k" and s = "on_retry k e s'"] by simp
  qed simp_all
qed simp

text \<open>Persistence: a failure that may be tried again is reported only after all attempts were used.\<close>

lemma loop_exhausted:
  "fst (loop n k s) = Some (Inl e) \<Longrightarrow> again e \<Longrightarrow> calls (snd (loop n k s)) = calls s + n"
proof (induction n arbitrary: k s)
  case 0
  then show ?case by (simp add: loop_0)
next
  case (Suc n)
  show ?case
  proof (cases rule: loop_cases [of k s n])
    case (success x s')
    then show ?thesis using Suc.prems by simp
  next
    case (retry e' s')
    then show ?thesis
      using Suc.prems attempt_calls [of k s] on_retry_calls [of k e' s'] Suc.IH [where k = "Suc k" and s = "on_retry k e' s'"]
      by simp
  next
    case (failure e' s')
    then show ?thesis using Suc.prems attempt_calls [of k s] give_up_calls [of k e' s'] by auto
  qed
qed

text \<open>What every attempt and every step between two attempts keeps, the loop keeps.\<close>

lemma loop_invariant:
  assumes "\<And>k s. I s \<Longrightarrow> I (snd (attempt k s))" "\<And>k e s. I s \<Longrightarrow> I (on_retry k e s)"
    and "\<And>k e s. I s \<Longrightarrow> I (give_up k e s)" "I s"
  shows "I (snd (loop n k s))"
  using assms(4)
proof (induction n arbitrary: k s)
  case 0
  then show ?case by (simp add: loop_0)
next
  case (Suc n)
  show ?case
  proof (cases rule: loop_cases [of k s n])
    case (success x s')
    then show ?thesis using assms(1) [OF Suc.prems, of k] by simp
  next
    case (retry e s')
    then show ?thesis
      using assms(1) [OF Suc.prems, of k] Suc.IH [OF assms(2)] by simp
  next
    case (failure e s')
    then show ?thesis using assms(1) [OF Suc.prems, of k] assms(3) by simp
  qed
qed

text \<open>A success is the success of some attempt; a failure is the failure of one.\<close>

lemma loop_result:
  assumes "fst (loop n k s) = Some res"
  shows "\<exists>j s0 s1. k \<le> j \<and> j < k + n \<and> attempt j s0 = (res, s1)"
  using assms
proof (induction n arbitrary: k s)
  case 0
  then show ?case by (simp add: loop_0)
next
  case (Suc n)
  show ?case
  proof (cases rule: loop_cases [of k s n])
    case (retry e s')
    then obtain j s0 s1 where "Suc k \<le> j" "j < Suc k + n" "attempt j s0 = (res, s1)"
      using Suc by metis
    then show ?thesis by (intro exI [of _ j] exI [of _ s0] exI [of _ s1]) simp
  qed (use Suc.prems in \<open>auto intro!: exI [of _ k]\<close>)
qed

text \<open>Two postconditions: what failed attempts keep, and what a success gives from there.\<close>

lemma loop_outcome:
  assumes "\<And>k s x s'. I s \<Longrightarrow> attempt k s = (Inr x, s') \<Longrightarrow> J x s'"
    and "\<And>k s e s'. I s \<Longrightarrow> attempt k s = (Inl e, s') \<Longrightarrow> I s'"
    and "\<And>k e s. I s \<Longrightarrow> I (on_retry k e s)" "\<And>k e s. I s \<Longrightarrow> I (give_up k e s)" "I s"
  shows "(case fst (loop n k s) of Some (Inr x) \<Rightarrow> J x (snd (loop n k s)) | _ \<Rightarrow> I (snd (loop n k s)))"
  using assms(5)
proof (induction n arbitrary: k s)
  case 0
  then show ?case by (simp add: loop_0)
next
  case (Suc n)
  show ?case
  proof (cases rule: loop_cases [of k s n])
    case (success x s')
    then show ?thesis using assms(1) [OF Suc.prems] by simp
  next
    case (retry e s')
    show ?thesis
      unfolding retry(4) by (rule Suc.IH [OF assms(3) [OF assms(2) [OF Suc.prems retry(1)]]])
  next
    case (failure e s')
    then show ?thesis using assms(2) [OF Suc.prems] assms(4) by simp
  qed
qed

lemma loop_skip:
  assumes "attempt k s = (Inl e, s')" "again e" "0 < n"
  shows "loop (Suc n) k s = loop n (Suc k) (on_retry k e s')"
  using assms by (simp add: loop_Suc)

lemma loop_done:
  assumes "attempt k s = (Inr x, s')" "0 < n"
  shows "loop n k s = (Some (Inr x), s')"
  using assms by (cases n) (simp_all add: loop_Suc)

end

end
