(* ===== verification/Fallback_Plan.thy ===== *)
theory Fallback_Plan
  imports Retry_Loop
begin

text \<open>
  The walk over an execution plan, as an interface: the entries are tried in order; an entry is entered
  (for every entry but the first this may refuse), its provider is looked up, and its attempts are run. A
  result ends the walk, an eligible failure moves it to the next entry, any other failure is fatal.
  \<open>llm/gateway.py\<close> has this walk twice, for completions and for streams.
\<close>

locale fallback_plan =
  fixes enter :: "'q option \<Rightarrow> 'q \<Rightarrow> 's \<Rightarrow> ('x + unit) \<times> 's"
    and lookup :: "'q \<Rightarrow> 'x + 'v"
    and attempts :: "'q \<Rightarrow> 's \<Rightarrow> ('e + 'a) option \<times> 's"
    and eligible :: "'e \<Rightarrow> bool"
    and exhausted :: "'e option \<Rightarrow> 'r"
    and refused :: "'x \<Rightarrow> 'r"
    and fatal :: "'e \<Rightarrow> 'r"
    and finished :: "'a \<Rightarrow> 'r"
    and calls :: "'s \<Rightarrow> nat"
    and bound :: "'q \<Rightarrow> nat"
    and plan :: "'q option \<Rightarrow> 'e option \<Rightarrow> 'q list \<Rightarrow> 's \<Rightarrow> 'r \<times> 's"
  assumes plan_Nil: "plan p err [] s = (exhausted err, s)"
    and plan_Cons: "plan p err (q # qs) s =
      (case enter p q s of
         (Inl e, s1) \<Rightarrow> (refused e, s1)
       | (Inr u, s1) \<Rightarrow>
          (case lookup q of
             Inl e \<Rightarrow> (refused e, s1)
           | Inr v \<Rightarrow>
              (case attempts q s1 of
                 (None, s2) \<Rightarrow> plan (Some q) err qs s2
               | (Some (Inr r), s2) \<Rightarrow> (finished r, s2)
               | (Some (Inl e), s2) \<Rightarrow>
                   if eligible e then plan (Some q) (Some e) qs s2 else (fatal e, s2))))"
    and enter_first: "enter None q s = (Inr (), s)"
    and enter_calls: "calls (snd (enter p q s)) = calls s"
    and attempts_calls: "calls (snd (attempts q s)) \<le> calls s + bound q"
begin

lemma plan_cases:
  obtains (refused_entry) e s1 where "enter p q s = (Inl e, s1)" "plan p err (q # qs) s = (refused e, s1)"
  | (no_provider) e s1 where "enter p q s = (Inr (), s1)" "lookup q = Inl e"
      "plan p err (q # qs) s = (refused e, s1)"
  | (no_attempts) v s1 s2 where "enter p q s = (Inr (), s1)" "lookup q = Inr v" "attempts q s1 = (None, s2)"
      "plan p err (q # qs) s = plan (Some q) err qs s2"
  | (result) v s1 r s2 where "enter p q s = (Inr (), s1)" "lookup q = Inr v" "attempts q s1 = (Some (Inr r), s2)"
      "plan p err (q # qs) s = (finished r, s2)"
  | (fallback) v s1 e s2 where "enter p q s = (Inr (), s1)" "lookup q = Inr v"
      "attempts q s1 = (Some (Inl e), s2)" "eligible e"
      "plan p err (q # qs) s = plan (Some q) (Some e) qs s2"
  | (failure) v s1 e s2 where "enter p q s = (Inr (), s1)" "lookup q = Inr v"
      "attempts q s1 = (Some (Inl e), s2)" "\<not> eligible e" "plan p err (q # qs) s = (fatal e, s2)"
proof -
  obtain en s1 where en: "enter p q s = (en, s1)" by force
  obtain at s2 where at: "attempts q s1 = (at, s2)" by force
  show thesis
  proof (cases en)
    case (Inl e)
    then show ?thesis using refused_entry en plan_Cons [of p err q qs s] by simp
  next
    case (Inr u)
    note step = plan_Cons [of p err q qs s, unfolded en Inr at prod.case sum.case]
    show ?thesis
    proof (cases "lookup q")
      case (Inl e)
      then show ?thesis using no_provider step en \<open>en = Inr u\<close> by simp
    next
      case (Inr v)
      note step' = step [unfolded Inr sum.case]
      consider "at = None" | r where "at = Some (Inr r)" | e where "at = Some (Inl e)"
        by (metis option.exhaust sum.exhaust)
      then show ?thesis
        using no_attempts [of s1 v s2] result [of s1 v _ s2] fallback [of s1 v _ s2] failure [of s1 v _ s2]
          step' en at \<open>en = Inr u\<close> Inr
        by cases (auto split: if_splits)
    qed
  qed
qed

text \<open>Termination with a bound: the calls of a walk are bounded by the sum over its entries.\<close>

lemma plan_calls: "calls (snd (plan p err qs s)) \<le> calls s + sum_list (map bound qs)"
proof (induction qs arbitrary: p err s)
  case Nil
  then show ?case by (simp add: plan_Nil)
next
  case (Cons q qs)
  have moved: "calls s1 = calls s" if "enter p q s = (en, s1)" for en s1
    using enter_calls [of p q s] that by simp
  have used: "calls s2 \<le> calls s1 + bound q" if "attempts q s1 = (at, s2)" for s1 at s2
    using attempts_calls [of q s1] that by simp
  show ?case
  proof (cases rule: plan_cases [of p q s err qs])
    case (no_attempts v s1 s2)
    then show ?thesis
      using moved used [of s1 None s2] Cons.IH [of "Some q" err s2] by fastforce
  next
    case (result v s1 r s2)
    then show ?thesis using moved used [of s1 _ s2] by fastforce
  next
    case (fallback v s1 e s2)
    then show ?thesis
      using moved used [of s1 _ s2] Cons.IH [of "Some q" "Some e" s2] by fastforce
  next
    case (failure v s1 e s2)
    then show ?thesis using moved used [of s1 _ s2] by fastforce
  qed (use moved in \<open>auto simp: trans_le_add1\<close>)
qed

text \<open>
  Permission: if entering an entry gives it permission (\<open>A\<close>) or keeps \<open>I\<close>, and attempts run with permission
  keep \<open>I\<close> or end with \<open>J\<close>, a walk that starts with permission for its first entry ends with \<open>J\<close>.
\<close>

lemma plan_invariant:
  assumes "\<And>p q s s'. I s \<Longrightarrow> enter (Some p) q s = (Inr (), s') \<Longrightarrow> A q s'"
    and "\<And>p q s e s'. I s \<Longrightarrow> enter (Some p) q s = (Inl e, s') \<Longrightarrow> J s'"
    and "\<And>q s r s'. A q s \<Longrightarrow> attempts q s = (Some (Inr r), s') \<Longrightarrow> J s'"
    and "\<And>q s s'. A q s \<Longrightarrow> attempts q s = (None, s') \<Longrightarrow> I s'"
    and "\<And>q s e s'. A q s \<Longrightarrow> attempts q s = (Some (Inl e), s') \<Longrightarrow> I s'"
    and "\<And>s. I s \<Longrightarrow> J s" "\<And>q s. A q s \<Longrightarrow> J s"
    and "case p of Some p' \<Rightarrow> I s | None \<Rightarrow> (case qs of [] \<Rightarrow> J s | q # qs' \<Rightarrow> A q s)"
  shows "J (snd (plan p err qs s))"
  using assms(8)
proof (induction qs arbitrary: p err s)
  case Nil
  then show ?case using assms(6) by (simp add: plan_Nil split: option.splits)
next
  case (Cons q qs)
  have entered: "A q s1" if "enter p q s = (Inr (), s1)" for s1
    using Cons.prems that assms(1) by (cases p) (auto simp: enter_first)
  have "J s1" if "enter p q s = (Inl e, s1)" for e s1
    using Cons.prems that assms(2) by (cases p) (auto simp: enter_first)
  then show ?case
    using entered assms(3-7) Cons.IH
    by (cases rule: plan_cases [of p q s err qs]) (metis option.simps(5) snd_conv)+
qed

text \<open>Progress: an eligible failure of an entry hands over to the next one.\<close>

lemma plan_falls_back:
  assumes "enter p q s = (Inr (), s1)" "lookup q = Inr v" "attempts q s1 = (Some (Inl e), s2)" "eligible e"
  shows "plan p err (q # qs) s = plan (Some q) (Some e) qs s2"
  using assms by (simp add: plan_Cons)

lemma plan_succeeds:
  assumes "enter p q s = (Inr (), s1)" "lookup q = Inr v" "attempts q s1 = (Some (Inr r), s2)"
  shows "plan p err (q # qs) s = (finished r, s2)"
  using assms by (simp add: plan_Cons)

end

end
