(* ===== verification/LLM_Gateway.thy ===== *)
theory LLM_Gateway
  imports LLM_Resolver Fallback_Plan Policy_Service Policy_Requests
begin

text \<open>
  The LLM gateway (\<open>llm/gateway.py\<close> with \<open>llm/streaming.py\<close>): resolution, token budget, the consent of the policy
  service, the call of the provider with retries, and the fallback profiles, for a completion and for
  a stream.

  \<^item> A run threads a state through the calls: the policy service, a chronological log (the trace
    events and metrics, reduced to what varies, and the events a stream yields), and counters.
  \<^item> The providers are code of other packages: \<open>env_complete n q\<close> is what the \<open>n\<close>-th adapter call of the run
    returns or raises, \<open>env_stream n q\<close> the events it yields and the exception that ends them, if any.
  \<^item> The consumer of a stream may close it at any yield (\<open>env_closes n\<close>, by the number of events
    yielded before); a generator that yields after that is abandoned (\<open>StreamAbandoned\<close>).
  \<^item> The trace recorder and the metrics are taken not to raise (\<open>trace_store_required\<close> off).
\<close>

section \<open>The environment and the state of a run\<close>

record llm_stream_event =
  lse_type :: stream_event_type
  lse_text :: "string option"
  lse_profile :: string
  lse_provider :: string
  lse_model :: string
  lse_tool_calls :: "llm_tool_call list"
  lse_finish_reason :: "string option"
  lse_reasoning :: pydict
  lse_usage :: "llm_usage option"
  lse_error :: "llm_error option"
  lse_metadata :: pydict

datatype llm_event =
    ProfileResolved string string
  | PolicyChecked string bool "string option"
  | CallStarted string string nat
  | CallCompleted string
  | CallFailed string llm_error
  | RetryScheduled string nat
  | FallbackSelected string string
  | StreamStarted string nat
  | StreamCompleted string string
  | StreamCancelled string
  | CallMetric string string bool
  | Yielded llm_stream_event

record llm_env =
  env_texts :: py_texts
  env_clock :: "nat \<Rightarrow> clock_readings"
  env_registry :: provider_registry
  env_complete :: "nat \<Rightarrow> resolved_llm_request \<Rightarrow> provider_response llm_res"
  env_stream :: "nat \<Rightarrow> resolved_llm_request \<Rightarrow> provider_stream_event list \<times> llm_exn option"
  env_closes :: "nat \<Rightarrow> bool"

record llm_run =
  run_service :: policy_service
  run_checks :: nat
  run_calls :: nat
  run_yields :: nat
  run_closed :: bool
  run_log :: "llm_event list"

definition fresh_run :: "policy_service \<Rightarrow> llm_run" where
  "fresh_run sv =
    \<lparr>run_service = sv, run_checks = 0, run_calls = 0, run_yields = 0, run_closed = False, run_log = []\<rparr>"

definition log_event :: "llm_event \<Rightarrow> llm_run \<Rightarrow> llm_run" where
  "log_event e s = s\<lparr>run_log := run_log s @ [e]\<rparr>"

section \<open>Consent\<close>

definition llm_authorize ::
  "llm_env \<Rightarrow> string \<Rightarrow> resolved_llm_request \<Rightarrow> orchestration_context \<Rightarrow> string option \<Rightarrow> llm_run \<Rightarrow>
   unit llm_res \<times> llm_run" where
  "llm_authorize env action q c fallback_from_profile s =
    (let (res, sv) = service_evaluate (env_texts env) (env_clock env (run_checks s)) (run_service s)
                       (build_llm_policy_request action q c fallback_from_profile) c;
         s1 = s\<lparr>run_service := sv, run_checks := run_checks s + 1\<rparr>
     in case res of
          Inl e \<Rightarrow> (Inl (PyExn e), s1)
        | Inr d \<Rightarrow>
            (let s2 = log_event (PolicyChecked (rlr_profile_name q) (dec_allowed d) fallback_from_profile) s1
             in if \<not> dec_allowed d then
                  (raise_llm LLMPolicyDeniedError (str_default (dec_reason d) ''LLM profile is denied by policy.'')
                     (dict_merge [(''profile'', PStr (rlr_profile_name q))] (dec_metadata d)), s2)
                else (Inr (), s2)))"

section \<open>The execution plan\<close>

fun resolve_fallbacks ::
  "llm_request \<Rightarrow> orchestration_context \<Rightarrow> string list \<Rightarrow> resolved_llm_request list \<Rightarrow>
   resolved_llm_request list llm_res" where
  "resolve_fallbacks q c [] plan = Inr plan"
| "resolve_fallbacks q c (p # ps) plan =
    try_bind (resolve_llm (q\<lparr>lr_profile := Some p\<rparr>) c) (\<lambda>r. resolve_fallbacks q c ps (plan @ [r]))"

definition build_execution_plan ::
  "resolved_llm_request \<Rightarrow> llm_request \<Rightarrow> orchestration_context \<Rightarrow> resolved_llm_request list llm_res" where
  "build_execution_plan resolved q c =
    resolve_fallbacks q c (lp_fallback_profiles (rlr_profile resolved)) [resolved]"

definition plan_attempts :: "resolved_llm_request \<Rightarrow> nat" where
  "plan_attempts q = nat (rlr_max_retries q + 1)"

section \<open>Completion\<close>

definition build_llm_response :: "provider_response \<Rightarrow> resolved_llm_request \<Rightarrow> llm_response" where
  "build_llm_response r q =
    \<lparr>lres_text = pr_text r, lres_profile = rlr_profile_name q, lres_provider = rlr_provider_name q,
     lres_model = rlr_model q, lres_tool_calls = pr_tool_calls r, lres_finish_reason = pr_finish_reason r,
     lres_reasoning = pr_reasoning r, lres_usage = pr_usage r, lres_raw_id = pr_raw_id r,
     lres_metadata = pr_metadata r\<rparr>"

text \<open>One attempt: the call of the adapter, and on success the completed event and the metric.\<close>

definition complete_attempt ::
  "llm_env \<Rightarrow> resolved_llm_request \<Rightarrow> nat \<Rightarrow> llm_run \<Rightarrow> (llm_error + llm_response) \<times> llm_run" where
  "complete_attempt env q k s =
    (let s1 = log_event (CallStarted ''complete'' (rlr_profile_name q) k) s;
         s2 = s1\<lparr>run_calls := run_calls s1 + 1\<rparr>
     in case env_complete env (run_calls s1) q of
          Inr r \<Rightarrow>
            (Inr (build_llm_response r q),
             log_event (CallMetric ''complete'' (rlr_profile_name q) True) (log_event (CallCompleted (rlr_profile_name q)) s2))
        | Inl exn \<Rightarrow> (Inl (normalize_llm_error False exn), s2))"

definition note_retry :: "resolved_llm_request \<Rightarrow> nat \<Rightarrow> llm_error \<Rightarrow> llm_run \<Rightarrow> llm_run" where
  "note_retry q k e s = log_event (RetryScheduled (rlr_profile_name q) (k + 1)) s"

definition note_failure :: "string \<Rightarrow> resolved_llm_request \<Rightarrow> nat \<Rightarrow> llm_error \<Rightarrow> llm_run \<Rightarrow> llm_run" where
  "note_failure operation q k e s =
    log_event (CallMetric operation (rlr_profile_name q) False) (log_event (CallFailed (rlr_profile_name q) e) s)"

text \<open>The loop over the attempts; \<open>left\<close> counts those that remain, \<open>k\<close> is the number of this one.\<close>

fun complete_attempts ::
  "llm_env \<Rightarrow> resolved_llm_request \<Rightarrow> nat \<Rightarrow> nat \<Rightarrow> llm_run \<Rightarrow> (llm_error + llm_response) option \<times> llm_run" where
  "complete_attempts env q 0 k s = (None, s)"
| "complete_attempts env q (Suc left) k s =
    (case complete_attempt env q k s of
       (Inr r, s') \<Rightarrow> (Some (Inr r), s')
     | (Inl e, s') \<Rightarrow>
         if is_retryable_llm e \<and> 0 < left then complete_attempts env q left (Suc k) (note_retry q k e s')
         else (Some (Inl e), note_failure ''complete'' q k e s'))"

text \<open>Before a fallback profile is used: the event, and consent once more.\<close>

definition enter_plan_step ::
  "llm_env \<Rightarrow> string \<Rightarrow> orchestration_context \<Rightarrow> resolved_llm_request option \<Rightarrow> resolved_llm_request \<Rightarrow> llm_run \<Rightarrow>
   unit llm_res \<times> llm_run" where
  "enter_plan_step env action c previous q s =
    (case previous of
       None \<Rightarrow> (Inr (), s)
     | Some p \<Rightarrow>
         llm_authorize env action q c (Some (rlr_profile_name p))
           (log_event (FallbackSelected (rlr_profile_name p) (rlr_profile_name q)) s))"

fun complete_plan ::
  "llm_env \<Rightarrow> orchestration_context \<Rightarrow> resolved_llm_request option \<Rightarrow> llm_error option \<Rightarrow>
   resolved_llm_request list \<Rightarrow> llm_run \<Rightarrow> llm_response llm_res \<times> llm_run" where
  "complete_plan env c previous last_error [] s =
    ((case last_error of
        None \<Rightarrow> Inl (RuntimeExn ''LLM execution plan exhausted without a result.'')
      | Some e \<Rightarrow> Inl (LlmExn e)), s)"
| "complete_plan env c previous last_error (q # qs) s =
    (case enter_plan_step env ''llm.complete'' c previous q s of
       (Inl e, s1) \<Rightarrow> (Inl e, s1)
     | (Inr u, s1) \<Rightarrow>
        (case registry_get (env_registry env) (rlr_provider_name q) False of
           Inl e \<Rightarrow> (Inl e, s1)
         | Inr adapter \<Rightarrow>
            (case complete_attempts env q (plan_attempts q) 1 s1 of
               (None, s2) \<Rightarrow> complete_plan env c (Some q) last_error qs s2
             | (Some (Inr r), s2) \<Rightarrow> (Inr r, s2)
             | (Some (Inl e), s2) \<Rightarrow>
                 if is_fallback_eligible e then complete_plan env c (Some q) (Some e) qs s2
                 else (Inl (LlmExn e), s2))))"

text \<open>The first lines of \<open>complete\<close> and \<open>stream\<close>, which differ in the action only: resolution, token budget,
  consent, and the plan.\<close>

definition llm_prepare ::
  "llm_env \<Rightarrow> string \<Rightarrow> llm_request \<Rightarrow> orchestration_context \<Rightarrow> llm_run \<Rightarrow>
   resolved_llm_request list llm_res \<times> llm_run" where
  "llm_prepare env action q c s =
    (case resolve_llm q c of
       Inl e \<Rightarrow> (Inl e, s)
     | Inr resolved \<Rightarrow>
        (let s1 = log_event (ProfileResolved (rlr_profile_name resolved) (rlr_resolution_source resolved)) s
         in case enforce_token_budget (env_texts env) resolved of
              Inl e \<Rightarrow> (Inl e, s1)
            | Inr budget \<Rightarrow>
               (case llm_authorize env action resolved c None s1 of
                  (Inl e, s2) \<Rightarrow> (Inl e, s2)
                | (Inr u, s2) \<Rightarrow> (build_execution_plan resolved q c, s2))))"

definition llm_complete ::
  "llm_env \<Rightarrow> llm_request \<Rightarrow> orchestration_context \<Rightarrow> llm_run \<Rightarrow> llm_response llm_res \<times> llm_run" where
  "llm_complete env q c s =
    (case llm_prepare env ''llm.complete'' q c s of
       (Inl e, s1) \<Rightarrow> (Inl e, s1)
     | (Inr plan, s1) \<Rightarrow> complete_plan env c None None plan s1)"

section \<open>Streaming\<close>

record stream_assembly =
  sa_text_parts :: "string list"
  sa_tool_calls :: "llm_tool_call list"
  sa_reasoning :: pydict
  sa_usage :: "llm_usage option"
  sa_finish_reason :: "string option"

definition new_assembly :: stream_assembly where
  "new_assembly =
    \<lparr>sa_text_parts = [], sa_tool_calls = [], sa_reasoning = [], sa_usage = None, sa_finish_reason = None\<rparr>"

definition update_stream_assembly :: "provider_stream_event \<Rightarrow> stream_assembly \<Rightarrow> stream_assembly" where
  "update_stream_assembly e a =
    \<lparr>sa_text_parts =
       (if pse_type e = SDelta \<and> truthy (pse_text e) then sa_text_parts a @ [the (pse_text e)] else sa_text_parts a),
     sa_tool_calls = (if pse_tool_calls e \<noteq> [] then pse_tool_calls e else sa_tool_calls a),
     sa_reasoning = (if pse_reasoning e \<noteq> [] then pse_reasoning e else sa_reasoning a),
     sa_usage = (if pse_usage e \<noteq> None then pse_usage e else sa_usage a),
     sa_finish_reason = (if pse_finish_reason e \<noteq> None then pse_finish_reason e else sa_finish_reason a)\<rparr>"

definition llm_stream_event ::
  "stream_event_type \<Rightarrow> resolved_llm_request \<Rightarrow> llm_stream_event" where
  "llm_stream_event t q =
    \<lparr>lse_type = t, lse_text = None, lse_profile = rlr_profile_name q, lse_provider = rlr_provider_name q,
     lse_model = rlr_model q, lse_tool_calls = [], lse_finish_reason = None, lse_reasoning = [],
     lse_usage = None, lse_error = None, lse_metadata = []\<rparr>"

fun normalize_stream_event :: "provider_stream_event \<Rightarrow> resolved_llm_request \<Rightarrow> llm_stream_event" where
  "normalize_stream_event e q =
    (case pse_type e of
       SStarted \<Rightarrow> (llm_stream_event SStarted q)\<lparr>lse_metadata := pse_metadata e\<rparr>
     | SDelta \<Rightarrow>
         (llm_stream_event SDelta q)\<lparr>lse_text := Some (str_default (pse_text e) []),
            lse_tool_calls := pse_tool_calls e, lse_reasoning := pse_reasoning e, lse_metadata := pse_metadata e\<rparr>
     | SMetadata \<Rightarrow>
         (llm_stream_event SMetadata q)\<lparr>lse_tool_calls := pse_tool_calls e, lse_reasoning := pse_reasoning e,
            lse_metadata := pse_metadata e\<rparr>
     | _ \<Rightarrow>
         (llm_stream_event SCompleted q)\<lparr>lse_tool_calls := pse_tool_calls e,
            lse_finish_reason := pse_finish_reason e, lse_reasoning := pse_reasoning e,
            lse_usage := pse_usage e, lse_metadata := pse_metadata e\<rparr>)"

definition completed_event :: "stream_assembly \<Rightarrow> provider_stream_event" where
  "completed_event a =
    \<lparr>pse_type = SCompleted, pse_text = None, pse_tool_calls = sa_tool_calls a,
     pse_finish_reason = sa_finish_reason a, pse_reasoning = sa_reasoning a, pse_usage = sa_usage a,
     pse_metadata = []\<rparr>"

text \<open>A yield: the consumer takes the event, or closes the generator there (\<open>GeneratorExit\<close> is raised at the
  yield), or has closed it already, and the generator is reported for ignoring that and is abandoned.\<close>

datatype yield_result = Taken | Closed | ExitIgnored

definition yield_event :: "llm_env \<Rightarrow> llm_stream_event \<Rightarrow> llm_run \<Rightarrow> yield_result \<times> llm_run" where
  "yield_event env e s =
    (let s1 = (log_event (Yielded e) s)\<lparr>run_yields := run_yields s + 1\<rparr>
     in if run_closed s then (ExitIgnored, s1)
        else if env_closes env (run_yields s) then (Closed, s1\<lparr>run_closed := True\<rparr>)
        else (Taken, s1))"

text \<open>How a stream, and the \<open>try\<close> block of one attempt, ends.\<close>

datatype stream_end = StreamReturned | StreamRaised llm_exn | StreamAbandoned

record stream_progress =
  sp_assembly :: stream_assembly
  sp_saw_delta :: bool
  sp_completed :: bool

text \<open>The body of \<open>async for\<close>, event by event: the local variables, and the yield.\<close>

definition stream_progress_after :: "provider_stream_event \<Rightarrow> stream_progress \<Rightarrow> stream_progress" where
  "stream_progress_after e p =
    \<lparr>sp_assembly = update_stream_assembly e (sp_assembly p),
     sp_saw_delta = (sp_saw_delta p \<or> pse_type e = SDelta),
     sp_completed = (sp_completed p \<or> pse_type e = SCompleted)\<rparr>"

fun forward_events ::
  "llm_env \<Rightarrow> resolved_llm_request \<Rightarrow> nat \<Rightarrow> provider_stream_event list \<Rightarrow> stream_progress \<Rightarrow> llm_run \<Rightarrow>
   yield_result \<times> stream_progress \<times> llm_run" where
  "forward_events env q k [] p s = (Taken, p, s)"
| "forward_events env q k (e # es) p s =
    (let s1 = (if pse_type e = SStarted then log_event (StreamStarted (rlr_profile_name q) k) s else s);
         p1 = stream_progress_after e p
     in case yield_event env (normalize_stream_event e q) s1 of
          (Taken, s2) \<Rightarrow> forward_events env q k es p1 s2
        | (y, s2) \<Rightarrow> (y, p1, s2))"

text \<open>After the last event: the completed event if the provider sent none, and the completed trace.\<close>

definition finish_stream ::
  "llm_env \<Rightarrow> resolved_llm_request \<Rightarrow> stream_progress \<Rightarrow> llm_run \<Rightarrow> stream_end \<times> llm_run" where
  "finish_stream env q p s =
    (let (y, s1) = (if sp_completed p then (Taken, s)
                    else yield_event env (normalize_stream_event (completed_event (sp_assembly p)) q) s)
     in case y of
          Taken \<Rightarrow>
            (StreamReturned,
             log_event (CallMetric ''stream'' (rlr_profile_name q) True)
               (log_event (StreamCompleted (rlr_profile_name q) (concat (sa_text_parts (sp_assembly p)))) s1))
        | Closed \<Rightarrow> (StreamRaised GeneratorClosed, s1)
        | ExitIgnored \<Rightarrow> (StreamAbandoned, s1))"

text \<open>The call of the adapter and the \<open>try\<close> block, with whether a delta was seen.\<close>

definition stream_body ::
  "llm_env \<Rightarrow> resolved_llm_request \<Rightarrow> nat \<Rightarrow> llm_run \<Rightarrow> stream_end \<times> bool \<times> llm_run" where
  "stream_body env q k s =
    (let s1 = log_event (CallStarted ''stream'' (rlr_profile_name q) k) s;
         s2 = s1\<lparr>run_calls := run_calls s1 + 1\<rparr>;
         (events, ending) = env_stream env (run_calls s1) q;
         (y, p, s3) = forward_events env q k events
           \<lparr>sp_assembly = new_assembly, sp_saw_delta = False, sp_completed = False\<rparr> s2
     in case y of
          Closed \<Rightarrow> (StreamRaised GeneratorClosed, sp_saw_delta p, s3)
        | ExitIgnored \<Rightarrow> (StreamAbandoned, sp_saw_delta p, s3)
        | Taken \<Rightarrow>
           (case ending of
              Some exn \<Rightarrow> (StreamRaised exn, sp_saw_delta p, s3)
            | None \<Rightarrow> (let (r, s4) = finish_stream env q p s3 in (r, sp_saw_delta p, s4))))"

definition error_event :: "resolved_llm_request \<Rightarrow> llm_error \<Rightarrow> llm_stream_event" where
  "error_event q e = (llm_stream_event SError q)\<lparr>lse_error := Some e\<rparr>"

text \<open>The handler after a delta: the stream ends with an error event, and nothing is tried again.\<close>

definition report_in_stream ::
  "llm_env \<Rightarrow> resolved_llm_request \<Rightarrow> llm_error \<Rightarrow> llm_run \<Rightarrow> stream_end \<times> llm_run" where
  "report_in_stream env q error s =
    (case yield_event env (error_event q error) (log_event (CallFailed (rlr_profile_name q) error) s) of
       (Taken, s1) \<Rightarrow> (StreamReturned, log_event (CallMetric ''stream'' (rlr_profile_name q) False) s1)
     | (Closed, s1) \<Rightarrow> (StreamRaised GeneratorClosed, s1)
     | (ExitIgnored, s1) \<Rightarrow> (StreamAbandoned, s1))"

text \<open>One attempt of a stream: it ends the stream, or it fails before any delta and may be tried again.\<close>

definition stream_attempt ::
  "llm_env \<Rightarrow> resolved_llm_request \<Rightarrow> nat \<Rightarrow> llm_run \<Rightarrow> (llm_error + stream_end) \<times> llm_run" where
  "stream_attempt env q k s =
    (case stream_body env q k s of
       (StreamReturned, saw_delta, s1) \<Rightarrow> (Inr StreamReturned, s1)
     | (StreamAbandoned, saw_delta, s1) \<Rightarrow> (Inr StreamAbandoned, s1)
     | (StreamRaised exn, saw_delta, s1) \<Rightarrow>
        (let error = normalize_llm_error True exn
         in if exn = AsyncCancelled then
              (Inr (StreamRaised (LlmExn error)), log_event (StreamCancelled (rlr_profile_name q)) s1)
            else if saw_delta then
              (let (r, s2) = report_in_stream env q error s1 in (Inr r, s2))
            else (Inl error, s1)))"

fun stream_attempts ::
  "llm_env \<Rightarrow> resolved_llm_request \<Rightarrow> nat \<Rightarrow> nat \<Rightarrow> llm_run \<Rightarrow> (llm_error + stream_end) option \<times> llm_run" where
  "stream_attempts env q 0 k s = (None, s)"
| "stream_attempts env q (Suc left) k s =
    (case stream_attempt env q k s of
       (Inr r, s') \<Rightarrow> (Some (Inr r), s')
     | (Inl e, s') \<Rightarrow>
         if is_retryable_llm e \<and> 0 < left then stream_attempts env q left (Suc k) (note_retry q k e s')
         else (Some (Inl e), note_failure ''stream'' q k e s'))"

fun stream_plan ::
  "llm_env \<Rightarrow> orchestration_context \<Rightarrow> resolved_llm_request option \<Rightarrow> llm_error option \<Rightarrow>
   resolved_llm_request list \<Rightarrow> llm_run \<Rightarrow> stream_end \<times> llm_run" where
  "stream_plan env c previous last_error [] s =
    ((case last_error of
        None \<Rightarrow> StreamRaised (RuntimeExn ''LLM streaming execution plan exhausted without a result.'')
      | Some e \<Rightarrow> StreamRaised (LlmExn e)), s)"
| "stream_plan env c previous last_error (q # qs) s =
    (case enter_plan_step env ''llm.stream'' c previous q s of
       (Inl e, s1) \<Rightarrow> (StreamRaised e, s1)
     | (Inr u, s1) \<Rightarrow>
        (case registry_get (env_registry env) (rlr_provider_name q) False of
           Inl e \<Rightarrow> (StreamRaised e, s1)
         | Inr adapter \<Rightarrow>
            (case stream_attempts env q (plan_attempts q) 1 s1 of
               (None, s2) \<Rightarrow> stream_plan env c (Some q) last_error qs s2
             | (Some (Inr r), s2) \<Rightarrow> (r, s2)
             | (Some (Inl e), s2) \<Rightarrow>
                 if is_fallback_eligible e then stream_plan env c (Some q) (Some e) qs s2
                 else (StreamRaised (LlmExn e), s2))))"

definition llm_stream ::
  "llm_env \<Rightarrow> llm_request \<Rightarrow> orchestration_context \<Rightarrow> llm_run \<Rightarrow> stream_end \<times> llm_run" where
  "llm_stream env q c s =
    (case llm_prepare env ''llm.stream'' q c s of
       (Inl e, s1) \<Rightarrow> (StreamRaised e, s1)
     | (Inr plan, s1) \<Rightarrow> stream_plan env c None None plan s1)"

section \<open>The state along a run\<close>

lemma log_event_fields [simp]:
  "run_log (log_event e s) = run_log s @ [e]" "run_calls (log_event e s) = run_calls s"
  "run_yields (log_event e s) = run_yields s" "run_closed (log_event e s) = run_closed s"
  "run_service (log_event e s) = run_service s" "run_checks (log_event e s) = run_checks s"
  by (simp_all add: log_event_def)

lemma note_retry_fields [simp]:
  "run_log (note_retry q k e s) = run_log s @ [RetryScheduled (rlr_profile_name q) (k + 1)]"
  "run_calls (note_retry q k e s) = run_calls s" "run_closed (note_retry q k e s) = run_closed s"
  by (simp_all add: note_retry_def)

lemma note_failure_fields [simp]:
  "run_log (note_failure op q k e s) =
    run_log s @ [CallFailed (rlr_profile_name q) e, CallMetric op (rlr_profile_name q) False]"
  "run_calls (note_failure op q k e s) = run_calls s" "run_closed (note_failure op q k e s) = run_closed s"
  by (simp_all add: note_failure_def)

lemma fresh_run_fields [simp]:
  "run_log (fresh_run sv) = []" "run_calls (fresh_run sv) = 0" "run_checks (fresh_run sv) = 0"
  "run_closed (fresh_run sv) = False" "run_service (fresh_run sv) = sv"
  by (simp_all add: fresh_run_def)

lemma llm_authorize_cases:
  obtains (error) e where "fst (llm_authorize env a q c f s) = Inl (PyExn e)"
      "run_log (snd (llm_authorize env a q c f s)) = run_log s"
  | (denied) e where "fst (llm_authorize env a q c f s) = Inl (LlmExn e)" "le_class e = LLMPolicyDeniedError"
      "run_log (snd (llm_authorize env a q c f s)) = run_log s @ [PolicyChecked (rlr_profile_name q) False f]"
  | (allowed) "fst (llm_authorize env a q c f s) = Inr ()"
      "run_log (snd (llm_authorize env a q c f s)) = run_log s @ [PolicyChecked (rlr_profile_name q) True f]"
proof -
  obtain res sv where e: "service_evaluate (env_texts env) (env_clock env (run_checks s)) (run_service s)
      (build_llm_policy_request a q c f) c = (res, sv)" by force
  show thesis
  proof (cases res)
    case (Inl x)
    then show ?thesis using e by (intro error) (simp_all add: llm_authorize_def)
  next
    case (Inr d)
    then show ?thesis
      using e allowed denied
      by (cases "dec_allowed d") (simp_all add: llm_authorize_def raise_llm_def new_llm_error_def Let_def)
  qed
qed

lemma llm_authorize_keeps [simp]:
  "run_calls (snd (llm_authorize env a q c f s)) = run_calls s"
  "run_closed (snd (llm_authorize env a q c f s)) = run_closed s"
  by (auto simp: llm_authorize_def Let_def split: prod.splits sum.splits)

lemma enter_plan_step_keeps [simp]:
  "run_calls (snd (enter_plan_step env a c p q s)) = run_calls s"
  "run_closed (snd (enter_plan_step env a c p q s)) = run_closed s"
  by (auto simp: enter_plan_step_def split: option.splits)

lemma yield_event_fields [simp]:
  "run_calls (snd (yield_event env e s)) = run_calls s"
  "run_log (snd (yield_event env e s)) = run_log s @ [Yielded e]"
  by (simp_all add: yield_event_def Let_def)

lemma complete_attempt_calls [simp]: "run_calls (snd (complete_attempt env q k s)) = run_calls s + 1"
  by (auto simp: complete_attempt_def Let_def split: sum.splits)

text \<open>What the yields and the local variables keep, the events keep.\<close>

lemma forward_events_invariant:
  assumes "\<And>p s. I p s \<Longrightarrow> I p (log_event (StreamStarted (rlr_profile_name q) k) s)"
    and "\<And>e p s. I p s \<Longrightarrow> I (stream_progress_after e p) (snd (yield_event env (normalize_stream_event e q) s))"
    and "I p s" "forward_events env q k es p s = (y, p', s')"
  shows "I p' s'"
  using assms(3,4)
proof (induction es arbitrary: p s)
  case (Cons e es)
  let ?s1 = "if pse_type e = SStarted then log_event (StreamStarted (rlr_profile_name q) k) s else s"
  obtain z s2 where y: "yield_event env (normalize_stream_event e q) ?s1 = (z, s2)" by force
  have "I p ?s1" using Cons.prems(1) assms(1) by simp
  from assms(2) [OF this, of e] have s2: "I (stream_progress_after e p) s2" unfolding y by simp
  have "forward_events env q k (e # es) p s =
      (if z = Taken then forward_events env q k es (stream_progress_after e p) s2
       else (z, stream_progress_after e p, s2))"
    using y by (simp add: Let_def del: normalize_stream_event.simps split: yield_result.split)
  then show ?case using Cons.IH [OF s2] Cons.prems(2) s2 by (auto split: if_splits)
qed simp

lemma finish_stream_cases:
  obtains "finish_stream env q p s = (StreamReturned, snd (finish_stream env q p s))"
  | "finish_stream env q p s = (StreamRaised GeneratorClosed, snd (finish_stream env q p s))"
  | "finish_stream env q p s = (StreamAbandoned, snd (finish_stream env q p s))"
proof -
  obtain y s1 where "(if sp_completed p then (Taken, s)
      else yield_event env (normalize_stream_event (completed_event (sp_assembly p)) q) s) = (y, s1)" by force
  then show thesis using that by (cases y) (auto simp: finish_stream_def simp del: normalize_stream_event.simps)
qed

lemma finish_stream_invariant:
  assumes "\<And>s. I s \<Longrightarrow> I (snd (yield_event env (normalize_stream_event (completed_event (sp_assembly p)) q) s))"
    and "\<And>t s. I s \<Longrightarrow> I (log_event (StreamCompleted (rlr_profile_name q) t) s)"
    and "\<And>s. I s \<Longrightarrow> I (log_event (CallMetric ''stream'' (rlr_profile_name q) True) s)" "I s"
  shows "I (snd (finish_stream env q p s))"
proof -
  obtain y s1 where y: "(if sp_completed p then (Taken, s)
      else yield_event env (normalize_stream_event (completed_event (sp_assembly p)) q) s) = (y, s1)" by force
  then have "I s1" using assms(1) [OF assms(4)] assms(4) by (auto split: if_splits)
  then show ?thesis using y assms(2,3)
    by (cases y) (simp_all add: finish_stream_def del: normalize_stream_event.simps)
qed

lemma report_in_stream_invariant:
  assumes "I (log_event (CallFailed (rlr_profile_name q) e) s)"
    and "\<And>s. I s \<Longrightarrow> J (snd (yield_event env (error_event q e) s))"
    and "\<And>s. J s \<Longrightarrow> J (log_event (CallMetric ''stream'' (rlr_profile_name q) False) s)"
  shows "J (snd (report_in_stream env q e s))"
proof -
  obtain y s1 where y: "yield_event env (error_event q e) (log_event (CallFailed (rlr_profile_name q) e) s) = (y, s1)"
    by force
  then have "J s1" using assms(2) [OF assms(1)] by simp
  then show ?thesis using y assms(3) by (cases y) (simp_all add: report_in_stream_def)
qed

text \<open>An attempt of a stream, by its steps.\<close>

definition start_stream_call :: "resolved_llm_request \<Rightarrow> nat \<Rightarrow> llm_run \<Rightarrow> llm_run" where
  "start_stream_call q k s =
    (log_event (CallStarted ''stream'' (rlr_profile_name q) k) s)\<lparr>run_calls := run_calls s + 1\<rparr>"

abbreviation new_progress :: stream_progress where
  "new_progress \<equiv> \<lparr>sp_assembly = new_assembly, sp_saw_delta = False, sp_completed = False\<rparr>"

lemma stream_body_cases:
  assumes "stream_body env q k s = (r, d, s')"
  obtains (stopped) y p where
      "forward_events env q k (fst (env_stream env (run_calls s) q)) new_progress (start_stream_call q k s) = (y, p, s')"
      "d = sp_saw_delta p" "r \<noteq> StreamReturned"
  | (finished) p s1 where
      "forward_events env q k (fst (env_stream env (run_calls s) q)) new_progress (start_stream_call q k s) = (Taken, p, s1)"
      "snd (env_stream env (run_calls s) q) = None"
      "d = sp_saw_delta p" "finish_stream env q p s1 = (r, s')"
proof -
  obtain y p s1 where f: "forward_events env q k (fst (env_stream env (run_calls s) q)) new_progress
      (start_stream_call q k s) = (y, p, s1)" by (metis prod_cases3)
  show thesis
  proof (cases "y = Taken \<and> snd (env_stream env (run_calls s) q) = None")
    case True
    then show ?thesis
      using assms f by (intro finished [of p s1]) (auto simp: stream_body_def start_stream_call_def Let_def split: prod.splits)
  next
    case False
    then show ?thesis
      using assms f by (intro stopped [of y p])
        (auto simp: stream_body_def start_stream_call_def Let_def split: prod.splits yield_result.splits option.splits)
  qed
qed

lemma start_stream_call_fields [simp]:
  "run_calls (start_stream_call q k s) = run_calls s + 1" "run_closed (start_stream_call q k s) = run_closed s"
  "run_log (start_stream_call q k s) = run_log s @ [CallStarted ''stream'' (rlr_profile_name q) k]"
  by (simp_all add: start_stream_call_def)

lemma stream_body_invariant:
  assumes "\<And>p s. I p s \<Longrightarrow> I p (log_event (StreamStarted (rlr_profile_name q) k) s)"
    and "\<And>e p s. I p s \<Longrightarrow> I (p \<or> pse_type e = SDelta) (snd (yield_event env (normalize_stream_event e q) s))"
    and "\<And>t p s. I p s \<Longrightarrow> I p (log_event (StreamCompleted (rlr_profile_name q) t) s)"
    and "\<And>p s. I p s \<Longrightarrow> I p (log_event (CallMetric ''stream'' (rlr_profile_name q) True) s)"
    and "I False (start_stream_call q k s)" "stream_body env q k s = (r, d, s')"
  shows "I d s'"
  using assms(6)
proof (cases rule: stream_body_cases)
  case (stopped y p)
  show ?thesis unfolding stopped(2)
    by (rule forward_events_invariant [where I = "\<lambda>p. I (sp_saw_delta p)", OF _ _ _ stopped(1)])
      (use assms(1,2,5) in \<open>simp_all add: stream_progress_after_def del: normalize_stream_event.simps\<close>)
next
  case (finished p s1)
  have "I (sp_saw_delta p) s1"
    by (rule forward_events_invariant [where I = "\<lambda>p. I (sp_saw_delta p)", OF _ _ _ finished(1)])
      (use assms(1,2,5) in \<open>simp_all add: stream_progress_after_def del: normalize_stream_event.simps\<close>)
  moreover have "I (sp_saw_delta p) (snd (yield_event env (normalize_stream_event (completed_event a) q) s))"
    if "I (sp_saw_delta p) s" for s a
    using assms(2) [OF that, of "completed_event a"] by (simp add: completed_event_def)
  ultimately have "I (sp_saw_delta p) (snd (finish_stream env q p s1))"
    by (intro finish_stream_invariant [where I = "I (sp_saw_delta p)"] assms(3,4))
  then show ?thesis using finished by simp
qed

lemma stream_body_calls: "stream_body env q k s = (r, d, s') \<Longrightarrow> run_calls s' = run_calls s + 1"
  by (rule stream_body_invariant [where I = "\<lambda>_ s'. run_calls s' = run_calls s + 1"])
    (simp_all del: normalize_stream_event.simps)

lemma stream_attempt_calls [simp]: "run_calls (snd (stream_attempt env q k s)) = run_calls s + 1"
proof -
  obtain r d s1 where b: "stream_body env q k s = (r, d, s1)" by (metis prod_cases3)
  note calls = stream_body_calls [OF b]
  have "run_calls (snd (report_in_stream env q e s1)) = run_calls s1" for e
    by (rule report_in_stream_invariant [where I = "\<lambda>s. run_calls s = run_calls s1"]) simp_all
  then show ?thesis
    using calls b by (cases r) (simp_all add: stream_attempt_def Let_def split_beta)
qed

section \<open>Both loops are retry loops\<close>

interpretation completion: retry_loop "complete_attempt env q" is_retryable_llm "note_retry q"
    "note_failure ''complete'' q" run_calls "complete_attempts env q"
  for env q
  by unfold_locales simp_all

interpretation streaming: retry_loop "stream_attempt env q" is_retryable_llm "note_retry q"
    "note_failure ''stream'' q" run_calls "stream_attempts env q"
  for env q
  by unfold_locales simp_all

text \<open>Both walks over the plan are fallback plans; the entries after the first ask for consent.\<close>

definition plan_exhausted :: "string \<Rightarrow> llm_error option \<Rightarrow> llm_exn" where
  "plan_exhausted what e =
    (case e of
       None \<Rightarrow> RuntimeExn (''LLM '' @ what @ ''execution plan exhausted without a result.'')
     | Some x \<Rightarrow> LlmExn x)"

lemma enter_plan_step_first [simp]: "enter_plan_step env a c None q s = (Inr (), s)"
  by (simp add: enter_plan_step_def)

interpretation complete_walk: fallback_plan "enter_plan_step env ''llm.complete'' c"
    "\<lambda>q. registry_get (env_registry env) (rlr_provider_name q) False"
    "\<lambda>q. complete_attempts env q (plan_attempts q) 1" is_fallback_eligible
    "\<lambda>e. Inl (plan_exhausted [] e)" Inl "\<lambda>e. Inl (LlmExn e)" Inr run_calls plan_attempts
    "complete_plan env c"
  for env c
proof unfold_locales
  show "run_calls (snd (complete_attempts env q (plan_attempts q) 1 s)) \<le> run_calls s + plan_attempts q" for q s
    using completion.loop_calls [of s env q "plan_attempts q" 1] by simp
qed (simp_all add: plan_exhausted_def split: option.split)

interpretation stream_walk: fallback_plan "enter_plan_step env ''llm.stream'' c"
    "\<lambda>q. registry_get (env_registry env) (rlr_provider_name q) False"
    "\<lambda>q. stream_attempts env q (plan_attempts q) 1" is_fallback_eligible
    "\<lambda>e. StreamRaised (plan_exhausted ''streaming '' e)" StreamRaised "\<lambda>e. StreamRaised (LlmExn e)" "\<lambda>r. r" run_calls
    plan_attempts "stream_plan env c"
  for env c
proof unfold_locales
  show "run_calls (snd (stream_attempts env q (plan_attempts q) 1 s)) \<le> run_calls s + plan_attempts q" for q s
    using streaming.loop_calls [of s env q "plan_attempts q" 1] by simp
qed (simp_all add: plan_exhausted_def split: option.split)

end
