(* ===== verification/LLM_Safety.thy ===== *)
theory LLM_Safety
  imports LLM_Gateway Service_Facts
begin

text \<open>
  What the LLM gateway guarantees: calls need consent, are bounded, are not replayed once text has reached
  the consumer, and go to a profile the resolver may choose.
\<close>

section \<open>Consent\<close>

text \<open>Along a log: the profile the last policy check allowed, and whether every call so far was for it.\<close>

fun consent_step :: "string option \<times> bool \<Rightarrow> llm_event \<Rightarrow> string option \<times> bool" where
  "consent_step (cur, ok) (PolicyChecked p allowed f) = (if allowed then Some p else None, ok)"
| "consent_step (cur, ok) (CallStarted operation p k) = (cur, ok \<and> cur = Some p)"
| "consent_step st e = st"

definition consent_of :: "llm_event list \<Rightarrow> string option \<times> bool" where
  "consent_of log = foldl consent_step (None, True) log"

definition consented :: "llm_event list \<Rightarrow> bool" where
  "consented log = snd (consent_of log)"

lemma consent_of_simps [simp]:
  "consent_of [] = (None, True)" "consent_of (log @ es) = foldl consent_step (consent_of log) es"
  by (simp_all add: consent_of_def)

lemma consent_step_other [simp]:
  "consent_step st (Yielded e) = st" "consent_step st (StreamStarted p k) = st"
  "consent_step st (StreamCompleted p t) = st" "consent_step st (StreamCancelled p) = st"
  "consent_step st (CallMetric op p b) = st" "consent_step st (CallCompleted p) = st"
  "consent_step st (CallFailed p x) = st" "consent_step st (RetryScheduled p k) = st"
  "consent_step st (FallbackSelected p p') = st" "consent_step st (ProfileResolved p src) = st"
  by (cases st, simp)+

abbreviation may_call :: "resolved_llm_request \<Rightarrow> llm_run \<Rightarrow> bool" where
  "may_call q s \<equiv> consent_of (run_log s) = (Some (rlr_profile_name q), True)"

lemma authorize_consent:
  assumes "consented (run_log s)"
  shows "fst (llm_authorize env a q c f s) = Inr u \<Longrightarrow> may_call q (snd (llm_authorize env a q c f s))"
    and "consented (run_log (snd (llm_authorize env a q c f s)))"
  using assms
  by (cases rule: llm_authorize_cases [of env a q c f s]; cases "consent_of (run_log s)";
      simp add: consented_def)+

lemma enter_plan_step_consent:
  assumes "consented (run_log s)"
  shows "enter_plan_step env a c (Some p) q s = (Inr u, s') \<Longrightarrow> may_call q s'"
    and "enter_plan_step env a c (Some p) q s = (r, s') \<Longrightarrow> consented (run_log s')"
proof -
  let ?s = "log_event (FallbackSelected (rlr_profile_name p) (rlr_profile_name q)) s"
  have s: "consented (run_log ?s)" using assms by (simp add: consented_def)
  show "may_call q s'" if "enter_plan_step env a c (Some p) q s = (Inr u, s')"
    using authorize_consent(1) [OF s, of env a q c "Some (rlr_profile_name p)" u] that
    by (simp add: enter_plan_step_def)
  show "consented (run_log s')" if "enter_plan_step env a c (Some p) q s = (r, s')"
    using authorize_consent(2) [OF s, of env a q c "Some (rlr_profile_name p)"] that
    by (simp add: enter_plan_step_def)
qed

lemma complete_attempt_may_call: "may_call q s \<Longrightarrow> may_call q (snd (complete_attempt env q k s))"
  by (auto simp: complete_attempt_def Let_def split: sum.split)

lemma complete_attempts_may_call: "may_call q s \<Longrightarrow> may_call q (snd (complete_attempts env q n k s))"
  by (rule completion.loop_invariant [where I = "may_call q"])
    (simp_all add: complete_attempt_may_call)

lemma stream_body_may_call: "may_call q s \<Longrightarrow> stream_body env q k s = (r, d, s') \<Longrightarrow> may_call q s'"
  by (rule stream_body_invariant [where I = "\<lambda>_ s. may_call q s"]) simp_all

lemma stream_attempt_may_call:
  assumes "may_call q s" shows "may_call q (snd (stream_attempt env q k s))"
proof -
  obtain r d s1 where b: "stream_body env q k s = (r, d, s1)" by (metis prod_cases3)
  note s1 = stream_body_may_call [OF assms b]
  have "may_call q (snd (report_in_stream env q e s1))" for e
    by (rule report_in_stream_invariant [where I = "may_call q"]) (simp_all add: s1)
  then show ?thesis using b s1 by (cases r) (simp_all add: stream_attempt_def Let_def split_beta)
qed

lemma stream_attempts_may_call: "may_call q s \<Longrightarrow> may_call q (snd (stream_attempts env q n k s))"
  by (rule streaming.loop_invariant [where I = "may_call q"]) (simp_all add: stream_attempt_may_call)

lemma complete_plan_consented:
  assumes "may_call q s" shows "consented (run_log (snd (complete_plan env c None err (q # qs) s)))"
proof (rule complete_walk.plan_invariant [where I = "\<lambda>s. consented (run_log s)" and A = may_call])
  show "may_call q s'" if "consented (run_log s)" "enter_plan_step env ''llm.complete'' c (Some p) q s = (Inr (), s')"
    for p q s s' using enter_plan_step_consent(1) [OF that] .
  show "consented (run_log s')" if "consented (run_log s)"
    "enter_plan_step env ''llm.complete'' c (Some p) q s = (Inl e, s')" for p q s e s'
    using enter_plan_step_consent(2) [OF that] .
  have "consented (run_log s')" if "may_call q s" "complete_attempts env q (plan_attempts q) 1 s = (r, s')" for q s r s'
    using complete_attempts_may_call [OF that(1), of env "plan_attempts q" 1] that(2) by (simp add: consented_def)
  then show "\<And>q s r s'. may_call q s \<Longrightarrow> complete_attempts env q (plan_attempts q) 1 s = (Some (Inr r), s') \<Longrightarrow>
      consented (run_log s')"
    "\<And>q s s'. may_call q s \<Longrightarrow> complete_attempts env q (plan_attempts q) 1 s = (None, s') \<Longrightarrow> consented (run_log s')"
    "\<And>q s e s'. may_call q s \<Longrightarrow> complete_attempts env q (plan_attempts q) 1 s = (Some (Inl e), s') \<Longrightarrow>
      consented (run_log s')"
    by blast+
qed (use assms in \<open>simp_all add: consented_def\<close>)

lemma stream_plan_consented:
  assumes "may_call q s" shows "consented (run_log (snd (stream_plan env c None err (q # qs) s)))"
proof (rule stream_walk.plan_invariant [where I = "\<lambda>s. consented (run_log s)" and A = may_call])
  show "may_call q s'" if "consented (run_log s)" "enter_plan_step env ''llm.stream'' c (Some p) q s = (Inr (), s')"
    for p q s s' using enter_plan_step_consent(1) [OF that] .
  show "consented (run_log s')" if "consented (run_log s)"
    "enter_plan_step env ''llm.stream'' c (Some p) q s = (Inl e, s')" for p q s e s'
    using enter_plan_step_consent(2) [OF that] .
  have "consented (run_log s')" if "may_call q s" "stream_attempts env q (plan_attempts q) 1 s = (r, s')" for q s r s'
    using stream_attempts_may_call [OF that(1), of env "plan_attempts q" 1] that(2) by (simp add: consented_def)
  then show "\<And>q s r s'. may_call q s \<Longrightarrow> stream_attempts env q (plan_attempts q) 1 s = (Some (Inr r), s') \<Longrightarrow>
      consented (run_log s')"
    "\<And>q s s'. may_call q s \<Longrightarrow> stream_attempts env q (plan_attempts q) 1 s = (None, s') \<Longrightarrow> consented (run_log s')"
    "\<And>q s e s'. may_call q s \<Longrightarrow> stream_attempts env q (plan_attempts q) 1 s = (Some (Inl e), s') \<Longrightarrow>
      consented (run_log s')"
    by blast+
qed (use assms in \<open>simp_all add: consented_def\<close>)

section \<open>The plan\<close>

lemma resolve_fallbacks_shape:
  "resolve_fallbacks q c ps acc = Inr plan \<Longrightarrow>
    \<exists>rest. plan = acc @ rest \<and> list_all2 (\<lambda>p r. resolve_llm (q\<lparr>lr_profile := Some p\<rparr>) c = Inr r) ps rest"
proof (induction ps arbitrary: acc)
  case (Cons p ps)
  then obtain r where r: "resolve_llm (q\<lparr>lr_profile := Some p\<rparr>) c = Inr r"
    "resolve_fallbacks q c ps (acc @ [r]) = Inr plan" by auto
  from Cons.IH [OF r(2)] obtain rest where "plan = (acc @ [r]) @ rest"
    "list_all2 (\<lambda>p r. resolve_llm (q\<lparr>lr_profile := Some p\<rparr>) c = Inr r) ps rest" by blast
  with r(1) show ?case by (intro exI [of _ "r # rest"]) simp
qed simp

lemma execution_plan_shape:
  assumes "build_execution_plan resolved q c = Inr plan"
  shows "\<exists>rest. plan = resolved # rest \<and>
    list_all2 (\<lambda>p r. resolve_llm (q\<lparr>lr_profile := Some p\<rparr>) c = Inr r) (lp_fallback_profiles (rlr_profile resolved)) rest"
  using resolve_fallbacks_shape [OF assms [unfolded build_execution_plan_def]] by simp

lemma llm_prepare_cases:
  obtains (stopped) e where "fst (llm_prepare env a q c s) = Inl e"
      "run_log (snd (llm_prepare env a q c s)) = run_log s \<or>
       (\<exists>p src. run_log (snd (llm_prepare env a q c s)) = run_log s @ [ProfileResolved p src]) \<or>
       (\<exists>p src b. run_log (snd (llm_prepare env a q c s)) = run_log s @ [ProfileResolved p src, PolicyChecked p b None])"
  | (ready) r rest budget where "fst (llm_prepare env a q c s) = Inr (r # rest)" "resolve_llm q c = Inr r"
      "enforce_token_budget (env_texts env) r = Inr budget"
      "list_all2 (\<lambda>p r. resolve_llm (q\<lparr>lr_profile := Some p\<rparr>) c = Inr r) (lp_fallback_profiles (rlr_profile r)) rest"
      "run_log (snd (llm_prepare env a q c s)) = run_log s @
        [ProfileResolved (rlr_profile_name r) (rlr_resolution_source r), PolicyChecked (rlr_profile_name r) True None]"
proof (cases "resolve_llm q c")
  case (Inl e)
  then show ?thesis using stopped by (simp add: llm_prepare_def)
next
  case (Inr r)
  let ?s1 = "log_event (ProfileResolved (rlr_profile_name r) (rlr_resolution_source r)) s"
  show ?thesis
  proof (cases "enforce_token_budget (env_texts env) r")
    case (Inl e)
    then show ?thesis using stopped \<open>resolve_llm q c = Inr r\<close> by (simp add: llm_prepare_def)
  next
    case budget: (Inr b)
    note unfolded = llm_prepare_def [of env a q c s, unfolded \<open>resolve_llm q c = Inr r\<close> budget sum.case Let_def]
    show ?thesis
    proof (cases rule: llm_authorize_cases [of env a r c None ?s1])
      case allowed
      show ?thesis
      proof (cases "build_execution_plan r q c")
        case (Inl e)
        then show ?thesis by (intro stopped [of e]) (use unfolded allowed in \<open>auto simp: split_beta\<close>)
      next
        case (Inr plan)
        then show ?thesis
          using ready [OF _ \<open>resolve_llm q c = Inr r\<close> budget] execution_plan_shape [OF Inr] unfolded allowed
          by (auto simp: split_beta)
      qed
    next
      case (error e)
      then show ?thesis by (intro stopped [of "PyExn e"]) (use unfolded in \<open>auto simp: split_beta\<close>)
    next
      case (denied e)
      then show ?thesis by (intro stopped [of "LlmExn e"]) (use unfolded in \<open>auto simp: split_beta\<close>)
    qed
  qed
qed

lemma llm_prepare_calls [simp]: "run_calls (snd (llm_prepare env a q c s)) = run_calls s"
  by (auto simp: llm_prepare_def Let_def split_beta split: sum.split)

lemma llm_complete_consented:
  assumes "consented (run_log s)" shows "consented (run_log (snd (llm_complete env q c s)))"
  using llm_prepare_cases [of env "''llm.complete''" q c s]
proof cases
  case (stopped e)
  then show ?thesis
    using assms by (cases "consent_of (run_log s)") (auto simp: llm_complete_def consented_def split_beta)
next
  case (ready r rest budget)
  then have "may_call r (snd (llm_prepare env ''llm.complete'' q c s))"
    using assms by (cases "consent_of (run_log s)") (simp add: consented_def)
  from complete_plan_consented [OF this] ready(1) show ?thesis by (simp add: llm_complete_def split_beta)
qed

lemma llm_stream_consented:
  assumes "consented (run_log s)" shows "consented (run_log (snd (llm_stream env q c s)))"
  using llm_prepare_cases [of env "''llm.stream''" q c s]
proof cases
  case (stopped e)
  then show ?thesis
    using assms by (cases "consent_of (run_log s)") (auto simp: llm_stream_def consented_def split_beta)
next
  case (ready r rest budget)
  then have "may_call r (snd (llm_prepare env ''llm.stream'' q c s))"
    using assms by (cases "consent_of (run_log s)") (simp add: consented_def)
  from stream_plan_consented [OF this] ready(1) show ?thesis by (simp add: llm_stream_def split_beta)
qed

section \<open>No replay\<close>

text \<open>Along a log: whether text has reached the consumer, whether an error event ended the stream, and
  whether no call was made after text and nothing was yielded after an error event.\<close>

fun replay_step :: "bool \<times> bool \<times> bool \<Rightarrow> llm_event \<Rightarrow> bool \<times> bool \<times> bool" where
  "replay_step (delta, failed, ok) (Yielded e) =
    (delta \<or> lse_type e = SDelta, failed \<or> lse_type e = SError, ok \<and> \<not> failed)"
| "replay_step (delta, failed, ok) (CallStarted operation p k) = (delta, failed, ok \<and> \<not> delta)"
| "replay_step st e = st"

definition replay_of :: "llm_event list \<Rightarrow> bool \<times> bool \<times> bool" where
  "replay_of log = foldl replay_step (False, False, True) log"

definition never_replayed :: "llm_event list \<Rightarrow> bool" where
  "never_replayed log \<longleftrightarrow> snd (snd (replay_of log))"

lemma replay_of_simps [simp]:
  "replay_of [] = (False, False, True)" "replay_of (log @ es) = foldl replay_step (replay_of log) es"
  by (simp_all add: replay_of_def)

lemma replay_step_other [simp]:
  "replay_step st (PolicyChecked p b f) = st" "replay_step st (StreamStarted p k) = st"
  "replay_step st (StreamCompleted p t) = st" "replay_step st (StreamCancelled p) = st"
  "replay_step st (CallMetric op p b) = st" "replay_step st (CallCompleted p) = st"
  "replay_step st (CallFailed p x) = st" "replay_step st (RetryScheduled p k) = st"
  "replay_step st (FallbackSelected p p') = st" "replay_step st (ProfileResolved p src) = st"
  by (cases st, simp)+

abbreviation clean_run :: "llm_run \<Rightarrow> bool" where
  "clean_run s \<equiv> replay_of (run_log s) = (False, False, True)"

lemma normalized_event_type [simp]:
  "lse_type (normalize_stream_event e q) = SDelta \<longleftrightarrow> pse_type e = SDelta"
  "lse_type (normalize_stream_event e q) \<noteq> SError"
  by (simp_all add: llm_stream_event_def split: stream_event_type.split)

lemma stream_body_replay:
  assumes "clean_run s" "stream_body env q k s = (r, d, s')"
  shows "replay_of (run_log s') = (d, False, True)"
  by (rule stream_body_invariant [where I = "\<lambda>d s. replay_of (run_log s) = (d, False, True)", OF _ _ _ _ _ assms(2)])
    (use assms(1) in \<open>simp_all del: normalize_stream_event.simps\<close>)

lemma stream_attempt_replay:
  assumes "clean_run s" "stream_attempt env q k s = (r, s')"
  shows "case r of Inl e \<Rightarrow> clean_run s' | Inr x \<Rightarrow> never_replayed (run_log s')"
proof -
  obtain x d s1 where b: "stream_body env q k s = (x, d, s1)" by (metis prod_cases3)
  note s1 = stream_body_replay [OF assms(1) b]
  have "never_replayed (run_log (snd (report_in_stream env q e s1)))" for e
    by (rule report_in_stream_invariant [where I = "\<lambda>s. replay_of (run_log s) = (d, False, True)"])
      (simp_all add: s1 never_replayed_def)
  then show ?thesis using b s1 assms(2)
    by (cases x) (auto simp: stream_attempt_def Let_def split_beta never_replayed_def split: if_splits)
qed

lemma stream_attempts_replay:
  assumes "clean_run s" "stream_attempts env q n k s = (r, s')"
  shows "case r of Some (Inr x) \<Rightarrow> never_replayed (run_log s') | _ \<Rightarrow> clean_run s'"
proof -
  have "case fst (stream_attempts env q n k s) of
      Some (Inr x) \<Rightarrow> never_replayed (run_log (snd (stream_attempts env q n k s)))
    | _ \<Rightarrow> clean_run (snd (stream_attempts env q n k s))"
  proof (rule streaming.loop_outcome [where I = clean_run and J = "\<lambda>_ s. never_replayed (run_log s)"])
    show "never_replayed (run_log s')" if "clean_run s" "stream_attempt env q k s = (Inr x, s')" for k s x s'
      using stream_attempt_replay [OF that] by simp
    show "clean_run s'" if "clean_run s" "stream_attempt env q k s = (Inl e, s')" for k s e s'
      using stream_attempt_replay [OF that] by simp
  qed (simp_all add: assms(1))
  then show ?thesis by (simp only: assms(2) fst_conv snd_conv)
qed

lemma enter_plan_step_replay:
  "clean_run s \<Longrightarrow> enter_plan_step env a c p q s = (r, s') \<Longrightarrow> clean_run s'"
proof (cases p)
  case (Some p')
  let ?s = "log_event (FallbackSelected (rlr_profile_name p') (rlr_profile_name q)) s"
  assume s: "clean_run s" and "enter_plan_step env a c p q s = (r, s')"
  then have "s' = snd (llm_authorize env a q c (Some (rlr_profile_name p')) ?s)"
    using Some by (simp add: enter_plan_step_def)
  then show ?thesis
    using s by (cases rule: llm_authorize_cases [of env a q c "Some (rlr_profile_name p')" ?s]) simp_all
qed simp

lemma stream_plan_replay: "clean_run s \<Longrightarrow> never_replayed (run_log (snd (stream_plan env c None err plan s)))"
proof (rule stream_walk.plan_invariant [where I = clean_run and A = "\<lambda>q. clean_run"])
  fix q and s s' :: llm_run and r assume s: "clean_run s"
  show "never_replayed (run_log s')" if "stream_attempts env q (plan_attempts q) 1 s = (Some (Inr r), s')"
    using stream_attempts_replay [OF s that] by simp
  show "clean_run s'" if "stream_attempts env q (plan_attempts q) 1 s = (None, s')"
    using stream_attempts_replay [OF s that] by simp
  show "clean_run s'" if "stream_attempts env q (plan_attempts q) 1 s = (Some (Inl e), s')" for e
    using stream_attempts_replay [OF s that] by simp
  show "clean_run s'" if "enter_plan_step env ''llm.stream'' c (Some p) q s = (Inr (), s')" for p
    using enter_plan_step_replay [OF s that] .
  show "never_replayed (run_log s')" if "enter_plan_step env ''llm.stream'' c (Some p) q s = (Inl e, s')" for p e
    using enter_plan_step_replay [OF s that] by (simp add: never_replayed_def)
qed (simp_all add: never_replayed_def split: list.split)

lemma llm_prepare_replay: "clean_run s \<Longrightarrow> clean_run (snd (llm_prepare env a q c s))"
  using llm_prepare_cases [of env a q c s] by cases auto

section \<open>The reported text\<close>

fun event_text :: "llm_event \<Rightarrow> string" where
  "event_text (Yielded e) = (if lse_type e = SDelta then str_default (lse_text e) [] else [])"
| "event_text e = []"

text \<open>The text the consumer of a stream was given.\<close>

definition delta_text :: "llm_event list \<Rightarrow> string" where
  "delta_text log = concat (List.map event_text log)"

fun reports_completion :: "llm_event \<Rightarrow> bool" where
  "reports_completion (StreamCompleted p t) = True"
| "reports_completion e = False"

definition unreported :: "llm_event list \<Rightarrow> bool" where
  "unreported log \<longleftrightarrow> list_all (\<lambda>e. \<not> reports_completion e) log"

definition reported :: "llm_event list \<Rightarrow> bool" where
  "reported log \<longleftrightarrow> list_all (\<lambda>e. case e of StreamCompleted p t \<Rightarrow> t = delta_text log | _ \<Rightarrow> True) log"

lemma delta_text_simps [simp]: "delta_text [] = []" "delta_text (log @ es) = delta_text log @ delta_text es"
  "delta_text (e # es) = event_text e @ delta_text es"
  by (simp_all add: delta_text_def)

lemma unreported_simps [simp]: "unreported []" "unreported (log @ es) \<longleftrightarrow> unreported log \<and> unreported es"
  "unreported (e # es) \<longleftrightarrow> \<not> reports_completion e \<and> unreported es"
  by (simp_all add: unreported_def)

lemma unreported_reported: "unreported log \<Longrightarrow> reported log"
  unfolding unreported_def reported_def
  by (erule list.pred_mono_strong) (auto split: llm_event.split)

lemma reported_completion: "unreported log \<Longrightarrow> reported (log @ [StreamCompleted p (delta_text log), CallMetric op p' b])"
  using reports_completion.simps(1) unfolding unreported_def reported_def
  by (fastforce simp: list_all_iff split: llm_event.split)

lemma delta_text_before_text: "\<not> fst (replay_of log) \<Longrightarrow> delta_text log = []"
proof (induction log rule: rev_induct)
  case (snoc e log)
  then show ?case by (cases "replay_of log"; cases e) auto
qed simp

lemma text_parts_after:
  "concat (sa_text_parts (sp_assembly (stream_progress_after e p))) =
    concat (sa_text_parts (sp_assembly p)) @ event_text (Yielded (normalize_stream_event e q))"
  by (auto simp: stream_progress_after_def update_stream_assembly_def llm_stream_event_def truthy_def str_default_def
      split: stream_event_type.split option.split list.split)

lemma forward_events_text:
  assumes "unreported (run_log s)" "delta_text (run_log s) = []"
    and "forward_events env q k es new_progress s = (y, p, s')"
  shows "unreported (run_log s') \<and> delta_text (run_log s') = concat (sa_text_parts (sp_assembly p))"
proof (rule forward_events_invariant [where I = "\<lambda>p s. unreported (run_log s) \<and>
    delta_text (run_log s) = concat (sa_text_parts (sp_assembly p))", OF _ _ _ assms(3)])
  show "unreported (run_log (snd (yield_event env (normalize_stream_event e q) s))) \<and>
      delta_text (run_log (snd (yield_event env (normalize_stream_event e q) s))) =
      concat (sa_text_parts (sp_assembly (stream_progress_after e p)))"
    if "unreported (run_log s) \<and> delta_text (run_log s) = concat (sa_text_parts (sp_assembly p))" for e p s
    using that text_parts_after [of e p q] by (simp del: normalize_stream_event.simps)
qed (simp_all add: assms(1,2) new_assembly_def)

lemma finish_stream_text:
  assumes "unreported (run_log s)" "delta_text (run_log s) = concat (sa_text_parts (sp_assembly p))"
    and "finish_stream env q p s = (r, s')"
  shows "if r = StreamReturned then reported (run_log s') else unreported (run_log s')"
proof -
  obtain y s1 where y: "(if sp_completed p then (Taken, s)
      else yield_event env (normalize_stream_event (completed_event (sp_assembly p)) q) s) = (y, s1)" by force
  have "event_text (Yielded (normalize_stream_event (completed_event (sp_assembly p)) q)) = []"
    by (simp add: completed_event_def llm_stream_event_def)
  then have s1: "unreported (run_log s1)" "delta_text (run_log s1) = concat (sa_text_parts (sp_assembly p))"
    using y assms(1,2) yield_event_fields(2) [of env "normalize_stream_event (completed_event (sp_assembly p)) q" s]
    by (auto simp del: normalize_stream_event.simps yield_event_fields split: if_splits)
  show ?thesis
    using assms(3) y s1 reported_completion [OF s1(1)]
    by (cases y) (auto simp: finish_stream_def simp del: normalize_stream_event.simps)
qed

lemma stream_body_text:
  assumes "clean_run s" "unreported (run_log s)" "stream_body env q k s = (r, d, s')"
  shows "if r = StreamReturned then reported (run_log s') else unreported (run_log s')"
proof -
  have start: "unreported (run_log (start_stream_call q k s))" "delta_text (run_log (start_stream_call q k s)) = []"
    using assms(1,2) delta_text_before_text [of "run_log s"] by simp_all
  from assms(3) show ?thesis
  proof (cases rule: stream_body_cases)
    case (stopped y p)
    then show ?thesis using forward_events_text [OF start stopped(1)] by simp
  next
    case (finished p s1)
    from forward_events_text [OF start finished(1)] finish_stream_text [OF _ _ finished(4)] show ?thesis by simp
  qed
qed

lemma stream_attempt_text:
  assumes "clean_run s \<and> unreported (run_log s)" "stream_attempt env q k s = (r, s')"
  shows "case r of Inl e \<Rightarrow> clean_run s' \<and> unreported (run_log s') | Inr x \<Rightarrow> reported (run_log s')"
proof -
  obtain x d s1 where b: "stream_body env q k s = (x, d, s1)" by (metis prod_cases3)
  note s1 = stream_body_text [OF conjunct1 [OF assms(1)] conjunct2 [OF assms(1)] b]
  have "unreported (run_log (snd (report_in_stream env q e s1)))" if "unreported (run_log s1)" for e
    by (rule report_in_stream_invariant [where I = "\<lambda>s. unreported (run_log s)"]) (simp_all add: that)
  moreover have "case r of Inl e \<Rightarrow> clean_run s' | Inr x \<Rightarrow> True"
    using stream_attempt_replay [OF conjunct1 [OF assms(1)] assms(2)] by (simp split: sum.splits)
  ultimately show ?thesis using b s1 assms(2)
    by (cases x) (auto simp: stream_attempt_def Let_def split_beta unreported_reported split: if_splits)
qed

lemma stream_attempts_text:
  assumes "clean_run s \<and> unreported (run_log s)" "stream_attempts env q n k s = (r, s')"
  shows "case r of Some (Inr x) \<Rightarrow> reported (run_log s') | _ \<Rightarrow> clean_run s' \<and> unreported (run_log s')"
proof -
  let ?I = "\<lambda>s. clean_run s \<and> unreported (run_log s)"
  have "case fst (stream_attempts env q n k s) of
      Some (Inr x) \<Rightarrow> reported (run_log (snd (stream_attempts env q n k s)))
    | _ \<Rightarrow> ?I (snd (stream_attempts env q n k s))"
  proof (rule streaming.loop_outcome [where I = ?I and J = "\<lambda>_ s. reported (run_log s)"])
    show "reported (run_log s')" if "?I s" "stream_attempt env q k s = (Inr x, s')" for k s x s'
      using stream_attempt_text [OF that] by simp
    show "?I s'" if "?I s" "stream_attempt env q k s = (Inl e, s')" for k s e s'
      using stream_attempt_text [OF that] by simp
  qed (use assms(1) in simp_all)
  then show ?thesis by (simp only: assms(2) fst_conv snd_conv)
qed

lemma authorize_unreported: "unreported (run_log s) \<Longrightarrow> unreported (run_log (snd (llm_authorize env a q c f s)))"
  by (cases rule: llm_authorize_cases [of env a q c f s]) simp_all

lemma enter_plan_step_unreported:
  "unreported (run_log s) \<Longrightarrow> enter_plan_step env a c p q s = (r, s') \<Longrightarrow> unreported (run_log s')"
  using authorize_unreported [of "log_event (FallbackSelected (rlr_profile_name (the p)) (rlr_profile_name q)) s"
      env a q c "Some (rlr_profile_name (the p))"]
  by (cases p) (simp_all add: enter_plan_step_def)

lemma stream_plan_reported:
  assumes "clean_run s \<and> unreported (run_log s)" shows "reported (run_log (snd (stream_plan env c None err plan s)))"
proof (rule stream_walk.plan_invariant [where I = "\<lambda>s. clean_run s \<and> unreported (run_log s)"
      and A = "\<lambda>q s. clean_run s \<and> unreported (run_log s)"])
  fix q and s s' :: llm_run and r assume s: "clean_run s \<and> unreported (run_log s)"
  show "reported (run_log s')" if "stream_attempts env q (plan_attempts q) 1 s = (Some (Inr r), s')"
    using stream_attempts_text [OF s that] by simp
  show "clean_run s' \<and> unreported (run_log s')" if "stream_attempts env q (plan_attempts q) 1 s = (None, s')"
    using stream_attempts_text [OF s that] by simp
  show "clean_run s' \<and> unreported (run_log s')" if "stream_attempts env q (plan_attempts q) 1 s = (Some (Inl e), s')" for e
    using stream_attempts_text [OF s that] by simp
  show "clean_run s' \<and> unreported (run_log s')" if "enter_plan_step env ''llm.stream'' c (Some p) q s = (Inr (), s')" for p
    using s enter_plan_step_replay [OF _ that] enter_plan_step_unreported [OF _ that] by blast
  show "reported (run_log s')" if "enter_plan_step env ''llm.stream'' c (Some p) q s = (Inl e, s')" for p e
    using s enter_plan_step_unreported [OF _ that] by (blast intro: unreported_reported)
qed (use assms in \<open>simp_all add: unreported_reported split: list.split\<close>)

lemma llm_prepare_unreported: "unreported (run_log s) \<Longrightarrow> unreported (run_log (snd (llm_prepare env a q c s)))"
  using llm_prepare_cases [of env a q c s] by cases auto

section \<open>The resolver\<close>

lemma check_candidate_Inr:
  assumes "check_candidate q c st n src p = Inr r"
  shows "lp_enabled p" "\<exists>v. map_of (ls_providers st) (lp_provider p) = Some v \<and> lv_enabled v
      \<and> r = resolved_request q c st n src p v"
    and "(case lr_response_format q of None \<Rightarrow> False | Some f \<Rightarrow> rf_type f \<noteq> ''text'') \<Longrightarrow> lp_supports_json_schema p"
    and "requests_tool_calling q \<Longrightarrow> lp_supports_tool_calling p"
    and "lr_stream q \<Longrightarrow> lp_supports_streaming p"
  using assms by (auto simp: check_candidate_def split: if_splits option.splits)

lemma resolve_candidates_Inr:
  assumes "resolve_candidates q c st cs = Inr r"
  shows "\<exists>pre src post p. cs = pre @ (rlr_profile_name r, src) # post
    \<and> (\<forall>(n, s) \<in> set pre. map_of (ls_profiles st) n = None \<and> s \<noteq> ''request'')
    \<and> map_of (ls_profiles st) (rlr_profile_name r) = Some p
    \<and> check_candidate q c st (rlr_profile_name r) src p = Inr r"
  using assms
proof (induction q c st cs rule: resolve_candidates.induct)
  case (2 q c st n src rest)
  show ?case
  proof (cases "map_of (ls_profiles st) n")
    case None
    then have "src \<noteq> ''request''" "resolve_candidates q c st rest = Inr r"
      using "2.prems" by (auto split: if_splits)
    from "2.IH" [OF None this] obtain pre src' post p where
      "rest = pre @ (rlr_profile_name r, src') # post"
      "\<forall>(n, s) \<in> set pre. map_of (ls_profiles st) n = None \<and> s \<noteq> ''request''"
      "map_of (ls_profiles st) (rlr_profile_name r) = Some p"
      "check_candidate q c st (rlr_profile_name r) src' p = Inr r" by blast
    then show ?thesis using None \<open>src \<noteq> ''request''\<close>
      by (intro exI [of _ "(n, src) # pre"] exI [of _ src'] exI [of _ post] exI [of _ p]) simp
  next
    case (Some p)
    then have r: "check_candidate q c st n src p = Inr r" using "2.prems" by simp
    then have "rlr_profile_name r = n" using check_candidate_Inr(2) [OF r] by (auto simp: resolved_request_def)
    then show ?thesis using r Some by (intro exI [of _ "[]"] exI [of _ src] exI [of _ rest] exI [of _ p]) simp
  qed
qed simp

lemma resolve_llm_Inr:
  assumes "resolve_llm q c = Inr r"
  obtains st src p v where "get_llm_settings (octx_config c) = Inr st"
    "(rlr_profile_name r, src) \<in> set (llm_candidates q c st)"
    "map_of (ls_profiles st) (rlr_profile_name r) = Some p"
    "check_candidate q c st (rlr_profile_name r) src p = Inr r"
    "map_of (ls_providers st) (lp_provider p) = Some v" "lv_enabled v" "lp_enabled p"
    "r = resolved_request q c st (rlr_profile_name r) src p v"
proof -
  from assms obtain st where st: "get_llm_settings (octx_config c) = Inr st"
    "resolve_candidates q c st (llm_candidates q c st) = Inr r" by (auto simp: resolve_llm_def split: sum.splits)
  from resolve_candidates_Inr [OF st(2)] obtain pre src post p where
    p: "llm_candidates q c st = pre @ (rlr_profile_name r, src) # post"
    "map_of (ls_profiles st) (rlr_profile_name r) = Some p"
    "check_candidate q c st (rlr_profile_name r) src p = Inr r" by blast
  from check_candidate_Inr(1,2) [OF p(3)] p that st(1) show thesis by fastforce
qed

lemma resolved_request_fields [simp]:
  "rlr_request (resolved_request q c st n src p v) = q" "rlr_profile (resolved_request q c st n src p v) = p"
  "rlr_provider (resolved_request q c st n src p v) = v" "rlr_profile_name (resolved_request q c st n src p v) = n"
  "rlr_max_retries (resolved_request q c st n src p v) = ld_max_retries (ls_defaults st)"
  "rlr_provider_name (resolved_request q c st n src p v) = lv_name v"
  by (simp_all add: resolved_request_def)

lemma resolve_llm_request: "resolve_llm q c = Inr r \<Longrightarrow> rlr_request r = q"
  by (elim resolve_llm_Inr) (metis resolved_request_fields(1))

lemma resolve_llm_retries:
  "resolve_llm q c = Inr r \<Longrightarrow> get_llm_settings (octx_config c) = Inr st \<Longrightarrow> rlr_max_retries r = ld_max_retries (ls_defaults st)"
  by (elim resolve_llm_Inr) (metis resolved_request_fields(5) sum.inject(2))

section \<open>A sample\<close>

text \<open>Three profiles of one provider, the second the fallback of the first, and one retry.\<close>

definition hello_config :: pyval where
  "hello_config = config_view
    [(''policy'', PDict [(''profiles'', PDict [(''default'', PDict [])])]),
     (''llm'', PDict
       [(''defaults'', PDict [(''profile'', PStr ''main''), (''max_retries'', PInt 1)]),
        (''providers'', PDict [(''acme'', PDict [])]),
        (''profiles'', PDict
          [(''main'', PDict [(''provider'', PStr ''acme''), (''model'', PStr ''m1''),
              (''fallback_profiles'', PList [PStr ''spare''])]),
           (''spare'', PDict [(''provider'', PStr ''acme''), (''model'', PStr ''m2'')]),
          (''talk'', PDict [(''provider'', PStr ''acme''), (''model'', PStr ''m1''),
              (''supports_streaming'', PBool True)])])])]"

definition hello_request :: llm_request where
  "hello_request =
    \<lparr>lr_messages = [\<lparr>msg_role = ''user'', msg_content = TextContent ''hello there'', msg_name = None,
        msg_tool_call_id = None, msg_tool_calls = []\<rparr>],
     lr_component = None, lr_profile = Some ''main'', lr_temperature = None, lr_top_p = None,
     lr_max_output_tokens = None, lr_response_format = None, lr_tools = [], lr_tool_choice = None,
     lr_stream = False, lr_timeout_seconds = None, lr_metadata = [], lr_max_tokens = None\<rparr>"

definition hello_context :: orchestration_context where
  "hello_context = sample_context\<lparr>octx_config := hello_config\<rparr>"

definition talk_request :: llm_request where
  "talk_request = hello_request\<lparr>lr_profile := Some ''talk'', lr_stream := True\<rparr>"

definition plan_names :: "llm_request \<Rightarrow> (string \<times> int) list option" where
  "plan_names q =
    (case try_bind (resolve_llm q hello_context) (\<lambda>r.
            try_bind (enforce_token_budget plain_texts r) (\<lambda>b. build_execution_plan r q hello_context)) of
       Inl e \<Rightarrow> None
     | Inr plan \<Rightarrow> Some (List.map (\<lambda>r. (rlr_profile_name r, rlr_max_retries r)) plan))"

definition hello_verdict :: "string \<Rightarrow> llm_request \<Rightarrow> decision_value option" where
  "hello_verdict action q =
    (case (build_policy_service hello_config, resolve_llm q hello_context) of
       (Inr sv, Inr r) \<Rightarrow>
         verdict_of (engine_evaluate (sv_engine sv) (build_llm_policy_request action r hello_context None) hello_context)
     | _ \<Rightarrow> None)"

text \<open>A provider that times out once and then answers, and that streams one delta.\<close>

definition slow_env :: llm_env where
  "slow_env =
    \<lparr>env_texts = plain_texts, env_clock = \<lambda>n. clock_at 0,
     env_registry =
       \<lparr>reg_providers = (case get_llm_settings hello_config of Inl e \<Rightarrow> [] | Inr st \<Rightarrow> ls_providers st),
        reg_adapters = [''acme'']\<rparr>,
     env_complete = \<lambda>n q. if n = 0 then Inl BuiltinTimeout
       else Inr \<lparr>pr_text = ''hi'', pr_tool_calls = [], pr_finish_reason = None, pr_reasoning = [], pr_usage = None,
                 pr_raw_id = None, pr_metadata = []\<rparr>,
     env_stream = \<lambda>n q.
       ([\<lparr>pse_type = SDelta, pse_text = Some ''hi'', pse_tool_calls = [], pse_finish_reason = None, pse_reasoning = [],
          pse_usage = None, pse_metadata = []\<rparr>], None),
     env_closes = \<lambda>n. False\<rparr>"

text \<open>What the instances need, evaluated together.\<close>

lemma sample_facts:
  "plan_names hello_request = Some [(''main'', 1), (''spare'', 1)] \<and> plan_names talk_request = Some [(''talk'', 1)]
   \<and> hello_verdict ''llm.complete'' hello_request = Some Allow \<and> hello_verdict ''llm.stream'' talk_request = Some Allow
   \<and> hello_verdict ''llm.stream'' hello_request = Some Deny
   \<and> registry_get (env_registry slow_env) ''acme'' False = Inr ''acme''
   \<and> (case resolve_llm hello_request hello_context of Inl e \<Rightarrow> False
       | Inr r \<Rightarrow> rlr_provider_name r = ''acme'' \<and> length (lp_fallback_profiles (rlr_profile r)) = 1
           \<and> (case enforce_token_budget plain_texts r of Inl e \<Rightarrow> False | Inr b \<Rightarrow> True))
   \<and> (case resolve_llm talk_request hello_context of Inl e \<Rightarrow> False | Inr r \<Rightarrow> rlr_provider_name r = ''acme'')
   \<and> (case get_llm_settings hello_config of Inl e \<Rightarrow> False | Inr st \<Rightarrow> ld_max_retries (ls_defaults st) = 1)"
  by code_simp

lemma sample_plans:
  "plan_names hello_request = Some [(''main'', 1), (''spare'', 1)]" "plan_names talk_request = Some [(''talk'', 1)]"
  using sample_facts by blast+

lemma sample_verdicts:
  "hello_verdict ''llm.complete'' hello_request = Some Allow" "hello_verdict ''llm.stream'' talk_request = Some Allow"
  "hello_verdict ''llm.stream'' hello_request = Some Deny"
  using sample_facts by blast+

lemma sample_evaluation:
  assumes "hello_verdict action q = Some v"
  shows "\<exists>sv r d sv'. build_policy_service hello_config = Inr sv \<and> resolve_llm q hello_context = Inr r
    \<and> service_evaluate (env_texts env) (env_clock env 0) sv
        (build_llm_policy_request action r hello_context None) hello_context = (Inr d, sv')
    \<and> wf_decision d \<and> dec_decision d = Some v"
proof -
  from assms obtain sv r d0 where sv: "build_policy_service hello_config = Inr sv"
    and r: "resolve_llm q hello_context = Inr r"
    and d0: "engine_evaluate (sv_engine sv)
      (build_llm_policy_request action r hello_context None) hello_context = Inr d0" "dec_decision d0 = Some v"
    by (auto simp: hello_verdict_def verdict_of_Some split: sum.splits)
  have "sv_caches sv = []" "eng_registry (sv_engine sv) = load_default_policy_registry"
    using sv build_policy_service_registry [OF sv] by (auto simp: build_policy_service_def)
  from fresh_evaluation [OF this d0] sv r show ?thesis by blast
qed

lemma sample_ready:
  assumes "hello_verdict action q = Some Allow" "plan_names q = Some names" "env_texts env = plain_texts"
  shows "\<exists>sv r rest. build_policy_service hello_config = Inr sv
    \<and> fst (llm_prepare env action q hello_context (fresh_run sv)) = Inr (r # rest)
    \<and> resolve_llm q hello_context = Inr r
    \<and> List.map (\<lambda>r. (rlr_profile_name r, rlr_max_retries r)) (r # rest) = names"
proof -
  from sample_evaluation [OF assms(1), of env] obtain sv r d sv' where sv: "build_policy_service hello_config = Inr sv"
    and r: "resolve_llm q hello_context = Inr r"
    and d: "service_evaluate (env_texts env) (env_clock env 0) sv
      (build_llm_policy_request action r hello_context None) hello_context = (Inr d, sv')"
      "wf_decision d" "dec_decision d = Some Allow" by blast
  from d(2,3) have "dec_allowed d" by (auto elim: wf_decision_cases)
  from assms(2) r obtain b plan where b: "enforce_token_budget plain_texts r = Inr b"
    and plan: "build_execution_plan r q hello_context = Inr plan"
      "List.map (\<lambda>r. (rlr_profile_name r, rlr_max_retries r)) plan = names"
    by (auto simp: plan_names_def split: sum.splits)
  from execution_plan_shape [OF plan(1)] obtain rest where "plan = r # rest" by blast
  then show ?thesis
    using sv r d(1) \<open>dec_allowed d\<close> b plan assms(3)
    by (simp add: llm_prepare_def llm_authorize_def fresh_run_def log_event_def)
qed

lemma slow_env_registry: "registry_get (env_registry slow_env) ''acme'' False = Inr ''acme''"
  using sample_facts by blast

lemma slow_env_texts [simp]: "env_texts slow_env = plain_texts"
  by (simp add: slow_env_def)

lemma sample_provider:
  "resolve_llm hello_request hello_context = Inr r \<Longrightarrow> rlr_provider_name r = ''acme''"
  "resolve_llm talk_request hello_context = Inr r \<Longrightarrow> rlr_provider_name r = ''acme''"
  using sample_facts by (auto split: sum.splits)

section \<open>Properties\<close>

text \<open>C3. No call without consent: along the log of every completion and of every stream, each call of a
  provider is for the profile of the last policy check before it, and that check allowed it; the
  fallback profiles are checked again, one by one.\<close>

theorem provider_calls_need_consent:
  "consented (run_log (snd (llm_complete env q c (fresh_run sv))))
   \<and> consented (run_log (snd (llm_stream env q c (fresh_run sv))))"
proof -
  have "consented (run_log (fresh_run sv))" by (simp add: consented_def)
  then show ?thesis by (simp add: llm_complete_consented llm_stream_consented)
qed

text \<open>No replay: once a delta has been yielded to the consumer of a stream no provider is called again,
  and nothing is yielded after an error event, whatever the providers send and wherever the consumer
  closes the stream.\<close>

theorem no_call_after_text:
  "never_replayed (run_log (snd (llm_stream env q c (fresh_run sv))))"
proof -
  let ?p = "llm_prepare env ''llm.stream'' q c (fresh_run sv)"
  have clean: "clean_run (snd ?p)" by (simp add: llm_prepare_replay)
  show ?thesis
  proof (cases "fst ?p")
    case (Inl e)
    then show ?thesis using clean by (simp add: llm_stream_def never_replayed_def split_beta)
  next
    case (Inr plan)
    then show ?thesis using stream_plan_replay [OF clean, of env c None plan] by (simp add: llm_stream_def split_beta)
  qed
qed

text \<open>The traced text of a completed stream is the text the consumer was given: the concatenation of
  the deltas yielded in the whole run, retries and fallbacks included.\<close>

theorem completed_stream_text:
  assumes "StreamCompleted p t \<in> set (run_log (snd (llm_stream env q c (fresh_run sv))))"
  shows "t = delta_text (run_log (snd (llm_stream env q c (fresh_run sv))))"
proof -
  let ?p = "llm_prepare env ''llm.stream'' q c (fresh_run sv)"
  have clean: "clean_run (snd ?p) \<and> unreported (run_log (snd ?p))"
    by (simp add: llm_prepare_replay llm_prepare_unreported)
  have "reported (run_log (snd (llm_stream env q c (fresh_run sv))))"
  proof (cases "fst ?p")
    case (Inl e)
    then show ?thesis using clean by (simp add: llm_stream_def unreported_reported split_beta)
  next
    case (Inr plan)
    then show ?thesis using stream_plan_reported [OF clean, of env c None plan] by (simp add: llm_stream_def split_beta)
  qed
  with assms show ?thesis by (fastforce simp: reported_def list_all_iff)
qed

theorem completed_stream_text_witness:
  "\<exists>sv. build_policy_service hello_config = Inr sv
    \<and> StreamCompleted ''talk'' ''hi'' \<in> set (run_log (snd (llm_stream slow_env talk_request hello_context (fresh_run sv))))
    \<and> delta_text (run_log (snd (llm_stream slow_env talk_request hello_context (fresh_run sv)))) = ''hi''"
proof -
  from sample_ready [OF sample_verdicts(2) sample_plans(2) slow_env_texts] obtain sv r where
    sv: "build_policy_service hello_config = Inr sv"
    and r: "fst (llm_prepare slow_env ''llm.stream'' talk_request hello_context (fresh_run sv)) = Inr [r]"
      "resolve_llm talk_request hello_context = Inr r" "rlr_profile_name r = ''talk''" "rlr_max_retries r = 1" by auto
  let ?s = "snd (llm_prepare slow_env ''llm.stream'' talk_request hello_context (fresh_run sv))"
  have get: "registry_get (env_registry slow_env) ''acme'' False = Inr ''acme''" by (rule slow_env_registry)
  have open_run: "\<not> run_closed ?s" by (simp add: llm_prepare_def llm_authorize_def Let_def split_beta split: sum.split)
  have "StreamCompleted ''talk'' ''hi'' \<in> set (run_log (snd (stream_attempt slow_env r 1 ?s)))
      \<and> fst (stream_attempt slow_env r 1 ?s) = Inr StreamReturned"
    using r(3) open_run
    by (simp add: stream_attempt_def stream_body_def finish_stream_def yield_event_def slow_env_def Let_def
        stream_progress_after_def update_stream_assembly_def truthy_def new_assembly_def)
  then have "StreamCompleted ''talk'' ''hi'' \<in> set (run_log (snd (stream_attempts slow_env r (plan_attempts r) 1 ?s)))
      \<and> fst (stream_attempts slow_env r (plan_attempts r) 1 ?s) = Some (Inr StreamReturned)"
    using streaming.loop_done [of slow_env r 1 ?s StreamReturned _ "plan_attempts r"] r(4)
    by (cases "stream_attempt slow_env r 1 ?s") (simp add: plan_attempts_def)
  then have "StreamCompleted ''talk'' ''hi'' \<in> set (run_log (snd (llm_stream slow_env talk_request hello_context (fresh_run sv))))"
    using r(1) get sample_provider(2) [OF r(2)] by (simp add: llm_stream_def split_beta)
  with completed_stream_text [OF this] sv show ?thesis by auto
qed

text \<open>C22. Both operations end after a bounded number of provider calls: at most one more than the configured
  retries for each profile of the plan, which is the resolved profile and its fallbacks.\<close>

theorem provider_calls_are_bounded:
  assumes "get_llm_settings (octx_config c) = Inr st" "resolve_llm q c = Inr r"
    and "bound = (1 + length (lp_fallback_profiles (rlr_profile r))) * nat (ld_max_retries (ls_defaults st) + 1)"
  shows "run_calls (snd (llm_complete env q c s)) \<le> run_calls s + bound
    \<and> run_calls (snd (llm_stream env q c s)) \<le> run_calls s + bound"
proof -
  have plan: "sum_list (List.map plan_attempts plan) = bound" if "fst (llm_prepare env a q c s) = Inr plan" for a plan
  proof (cases rule: llm_prepare_cases [of env a q c s])
    case (ready r' rest b)
    then have rest: "plan = r # rest" "list_all2 (\<lambda>p r. resolve_llm (q\<lparr>lr_profile := Some p\<rparr>) c = Inr r)
        (lp_fallback_profiles (rlr_profile r)) rest"
      using that assms(2) by auto
    have "sum_list (List.map plan_attempts rest) =
        length (lp_fallback_profiles (rlr_profile r)) * nat (ld_max_retries (ls_defaults st) + 1)"
      using rest(2) by (induction rule: list_all2_induct)
        (use resolve_llm_retries [OF _ assms(1)] in \<open>auto simp: plan_attempts_def\<close>)
    moreover have "plan_attempts r = nat (ld_max_retries (ls_defaults st) + 1)"
      using resolve_llm_retries [OF assms(2,1)] by (simp add: plan_attempts_def)
    ultimately show ?thesis using rest(1) by (simp add: assms(3))
  qed (use that in simp)
  have "run_calls (snd (llm_complete env q c s)) \<le> run_calls s + bound"
    using complete_walk.plan_calls [of env c None None _ "snd (llm_prepare env ''llm.complete'' q c s)"]
      plan [of "''llm.complete''"]
    by (cases "fst (llm_prepare env ''llm.complete'' q c s)") (fastforce simp: llm_complete_def split_beta)+
  moreover have "run_calls (snd (llm_stream env q c s)) \<le> run_calls s + bound"
    using stream_walk.plan_calls [of env c None None _ "snd (llm_prepare env ''llm.stream'' q c s)"]
      plan [of "''llm.stream''"]
    by (cases "fst (llm_prepare env ''llm.stream'' q c s)") (fastforce simp: llm_stream_def split_beta)+
  ultimately show ?thesis by blast
qed

theorem provider_calls_are_bounded_witness:
  "\<exists>sv. build_policy_service hello_config = Inr sv
    \<and> run_calls (snd (llm_complete slow_env hello_request hello_context (fresh_run sv))) \<le> 4"
proof -
  obtain st r where "get_llm_settings hello_config = Inr st" "resolve_llm hello_request hello_context = Inr r"
    "ld_max_retries (ls_defaults st) = 1" "length (lp_fallback_profiles (rlr_profile r)) = 1"
    using sample_facts by (auto split: sum.splits)
  moreover obtain sv where "build_policy_service hello_config = Inr sv"
    using sample_ready [OF sample_verdicts(1) sample_plans(1) slow_env_texts] by blast
  ultimately show ?thesis
    using provider_calls_are_bounded [of hello_context st hello_request r 4 slow_env "fresh_run sv"]
    by (auto simp: hello_context_def)
qed

lemma complete_attempts_recover:
  assumes "\<forall>i < j. \<exists>e. env_complete env (run_calls s + i) q = Inl e \<and> is_retryable_llm (normalize_llm_error False e)"
    and "env_complete env (run_calls s + j) q = Inr resp" "j < n"
  shows "\<exists>s'. complete_attempts env q n k s = (Some (Inr (build_llm_response resp q)), s') \<and> run_calls s' = run_calls s + j + 1"
  using assms
proof (induction j arbitrary: n k s)
  case 0
  have "fst (complete_attempt env q k s) = Inr (build_llm_response resp q)"
    using 0 by (simp add: complete_attempt_def Let_def)
  then obtain s' where s': "complete_attempt env q k s = (Inr (build_llm_response resp q), s')"
    by (cases "complete_attempt env q k s") simp
  then have "run_calls s' = run_calls s + 1" using complete_attempt_calls [of env q k s] by simp
  then show ?case using completion.loop_done [OF s'] 0 by simp
next
  case (Suc j)
  from Suc.prems(1) obtain e where e: "env_complete env (run_calls s) q = Inl e"
    "is_retryable_llm (normalize_llm_error False e)" by fastforce
  then obtain s' where s': "complete_attempt env q k s = (Inl (normalize_llm_error False e), s')"
    by (simp add: complete_attempt_def Let_def)
  then have calls: "run_calls s' = run_calls s + 1" using complete_attempt_calls [of env q k s] by simp
  obtain m where m: "n = Suc m" "j < m" using Suc.prems(3) by (cases n) auto
  let ?s = "note_retry q k (normalize_llm_error False e) s'"
  have "\<forall>i < j. \<exists>e. env_complete env (run_calls ?s + i) q = Inl e \<and> is_retryable_llm (normalize_llm_error False e)"
    using Suc.prems(1) calls by (metis add.assoc add_Suc_right not_less_eq note_retry_fields(2) plus_1_eq_Suc)
  from Suc.IH [OF this _ m(2), of "Suc k"] show ?case
    using completion.loop_skip [OF s' e(2), of m] Suc.prems(2) m calls by simp
qed

text \<open>C31. A transient failure does not fail a completion: if the first \<open>j\<close> calls of the provider fail with
  retryable errors, \<open>j\<close> is within the retries, and the next call answers, the completion returns that
  answer after exactly \<open>j + 1\<close> calls.\<close>

theorem transient_failures_are_survived:
  assumes "fst (llm_prepare env ''llm.complete'' q c s) = Inr (r # rest)"
    and "registry_get (env_registry env) (rlr_provider_name r) False = Inr adapter"
    and "\<forall>i < j. \<exists>e. env_complete env (run_calls s + i) r = Inl e \<and> is_retryable_llm (normalize_llm_error False e)"
    and "env_complete env (run_calls s + j) r = Inr resp" "int j \<le> rlr_max_retries r"
  shows "fst (llm_complete env q c s) = Inr (build_llm_response resp r)
    \<and> run_calls (snd (llm_complete env q c s)) = run_calls s + j + 1"
proof -
  let ?s = "snd (llm_prepare env ''llm.complete'' q c s)"
  have "j < plan_attempts r" using assms(5) by (simp add: plan_attempts_def)
  with assms(3,4) obtain s' where s': "complete_attempts env r (plan_attempts r) 1 ?s =
      (Some (Inr (build_llm_response resp r)), s')" "run_calls s' = run_calls s + j + 1"
    using complete_attempts_recover [of j env ?s r resp "plan_attempts r" 1] by auto
  from complete_walk.plan_succeeds [OF enter_plan_step_first assms(2) s'(1), of c None rest] s'(2) assms(1)
  show ?thesis by (simp add: llm_complete_def split_beta)
qed

theorem transient_failures_are_survived_witness:
  "\<exists>sv res. build_policy_service hello_config = Inr sv
    \<and> fst (llm_complete slow_env hello_request hello_context (fresh_run sv)) = Inr res \<and> lres_text res = ''hi''
    \<and> run_calls (snd (llm_complete slow_env hello_request hello_context (fresh_run sv))) = 2"
proof -
  from sample_ready [OF sample_verdicts(1) sample_plans(1) slow_env_texts] obtain sv r rest where
    sv: "build_policy_service hello_config = Inr sv"
    and r: "fst (llm_prepare slow_env ''llm.complete'' hello_request hello_context (fresh_run sv)) = Inr (r # rest)"
      "resolve_llm hello_request hello_context = Inr r" "rlr_max_retries r = 1" by auto
  have "registry_get (env_registry slow_env) (rlr_provider_name r) False = Inr ''acme''"
    using sample_provider(1) [OF r(2)] slow_env_registry by simp
  from transient_failures_are_survived [OF r(1) this, of 1] r(3) sv show ?thesis
    by (simp add: slow_env_def normalize_llm_error_def is_retryable_llm_def new_llm_error_def llm_default_retryable_def
        build_llm_response_def)
qed

text \<open>What the resolver returns can be used: the profile is configured and enabled, its provider is
  configured and enabled, it has every capability the request asks for, and a profile the request names
  is the one that is taken.\<close>

theorem resolved_profile_is_usable:
  assumes "resolve_llm q c = Inr r"
  shows "\<exists>st. get_llm_settings (octx_config c) = Inr st
    \<and> map_of (ls_profiles st) (rlr_profile_name r) = Some (rlr_profile r) \<and> lp_enabled (rlr_profile r)
    \<and> map_of (ls_providers st) (lp_provider (rlr_profile r)) = Some (rlr_provider r) \<and> lv_enabled (rlr_provider r)
    \<and> rlr_provider_name r = lp_provider (rlr_profile r)
    \<and> (requests_tool_calling q \<longrightarrow> lp_supports_tool_calling (rlr_profile r))
    \<and> (lr_stream q \<longrightarrow> lp_supports_streaming (rlr_profile r))
    \<and> (\<forall>f. lr_response_format q = Some f \<and> rf_type f \<noteq> ''text'' \<longrightarrow> lp_supports_json_schema (rlr_profile r))
    \<and> (lr_profile q \<noteq> None \<longrightarrow> lr_profile q = Some (rlr_profile_name r))"
proof -
  from assms obtain st where st: "get_llm_settings (octx_config c) = Inr st"
    and cs: "resolve_candidates q c st (llm_candidates q c st) = Inr r"
    by (auto simp: resolve_llm_def split: sum.splits)
  from resolve_candidates_Inr [OF cs] obtain pre src post p where
    split: "llm_candidates q c st = pre @ (rlr_profile_name r, src) # post"
    and skipped: "\<forall>(n, s) \<in> set pre. map_of (ls_profiles st) n = None \<and> s \<noteq> ''request''"
    and p: "map_of (ls_profiles st) (rlr_profile_name r) = Some p"
    and check: "check_candidate q c st (rlr_profile_name r) src p = Inr r" by blast
  from check_candidate_Inr(2) [OF check] obtain v where v: "map_of (ls_providers st) (lp_provider p) = Some v"
    "lv_enabled v" "r = resolved_request q c st (rlr_profile_name r) src p v" by blast
  have r: "rlr_profile r = p" "rlr_provider r = v" "rlr_provider_name r = lv_name v"
    using v(3) by (metis resolved_request_fields)+
  have "lv_name v = lp_provider p"
    using llm_settings_entries(2) [OF st] map_of_SomeD [OF v(1)] by blast
  moreover have "rlr_profile_name r = n" if "lr_profile q = Some n" for n
  proof -
    have "\<exists>rest. llm_candidates q c st = (n, ''request'') # rest"
      using that by (simp add: llm_candidates_def llm_candidate_def)
    then show ?thesis using split skipped by (cases pre) auto
  qed
  ultimately show ?thesis
    using st p v check_candidate_Inr(1,3,4,5) [OF check] by (auto simp: r)
qed

theorem resolved_profile_is_usable_witness:
  "\<exists>r. resolve_llm hello_request hello_context = Inr r \<and> rlr_profile_name r = ''main'' \<and> lp_enabled (rlr_profile r)
    \<and> rlr_provider_name r = lp_provider (rlr_profile r)"
proof -
  from sample_ready [OF sample_verdicts(1) sample_plans(1) slow_env_texts] obtain r where
    r: "resolve_llm hello_request hello_context = Inr r" "rlr_profile_name r = ''main''" by auto
  from resolved_profile_is_usable [OF r(1)] r show ?thesis by blast
qed

text \<open>A request the policy service does not allow reaches no provider: completion and stream end with the
  error of the denial (or of the service), with no call made.\<close>

theorem denied_request_makes_no_call:
  assumes "resolve_llm q c = Inr r" "action \<in> {''llm.complete'', ''llm.stream''}"
    and "fst (service_evaluate (env_texts env) (env_clock env (run_checks s)) (run_service s)
      (build_llm_policy_request action r c None) c) = Inr d" "\<not> dec_allowed d"
    and "enforce_token_budget (env_texts env) r = Inr b"
  shows "\<exists>e. le_class e = LLMPolicyDeniedError \<and> \<not> is_retryable_llm e \<and>
    (if action = ''llm.complete''
     then fst (llm_complete env q c s) = Inl (LlmExn e) \<and> run_calls (snd (llm_complete env q c s)) = run_calls s
     else fst (llm_stream env q c s) = StreamRaised (LlmExn e) \<and> run_calls (snd (llm_stream env q c s)) = run_calls s)"
proof -
  let ?s = "log_event (ProfileResolved (rlr_profile_name r) (rlr_resolution_source r)) s"
  let ?e = "llm_err LLMPolicyDeniedError (str_default (dec_reason d) ''LLM profile is denied by policy.'')
      (dict_merge [(''profile'', PStr (rlr_profile_name r))] (dec_metadata d))"
  have "fst (llm_authorize env action r c None ?s) = Inl (LlmExn ?e)"
    using assms(3,4) by (simp add: llm_authorize_def raise_llm_def Let_def split_beta)
  then have "llm_prepare env action q c s = (Inl (LlmExn ?e), snd (llm_authorize env action r c None ?s))"
    using assms(1,5) by (simp add: llm_prepare_def Let_def split_beta)
  then show ?thesis
    using assms(2) by (intro exI [of _ ?e])
      (auto simp: llm_complete_def llm_stream_def is_retryable_llm_def new_llm_error_def llm_default_retryable_def)
qed

theorem denied_request_makes_no_call_witness:
  "\<exists>sv e. build_policy_service hello_config = Inr sv \<and> le_class e = LLMPolicyDeniedError
    \<and> fst (llm_stream slow_env hello_request hello_context (fresh_run sv)) = StreamRaised (LlmExn e)
    \<and> run_calls (snd (llm_stream slow_env hello_request hello_context (fresh_run sv))) = 0"
proof -
  from sample_evaluation [OF sample_verdicts(3), of slow_env] obtain sv r d sv' where
    sv: "build_policy_service hello_config = Inr sv" and r: "resolve_llm hello_request hello_context = Inr r"
    and "service_evaluate (env_texts slow_env) (env_clock slow_env 0) sv
      (build_llm_policy_request ''llm.stream'' r hello_context None) hello_context = (Inr d, sv')"
    "wf_decision d" "dec_decision d = Some Deny" by blast
  moreover from this have "\<not> dec_allowed d" by (auto elim: wf_decision_cases)
  moreover obtain b where "enforce_token_budget (env_texts slow_env) r = Inr b"
    using r sample_facts by (auto simp: slow_env_def split: sum.splits)
  ultimately show ?thesis
    using denied_request_makes_no_call [OF r, of "''llm.stream''" slow_env "fresh_run sv" d b] sv by auto
qed

text \<open>A consumer that closes the stream at its first event, before any text, does not end the stream: the
  exception of the closing is taken for a retryable failure, the provider is called again, and the
  generator is abandoned at its next event.\<close>

theorem closing_early_calls_again:
  assumes "env_stream env (run_calls s) q = (e # es, ending)" "pse_type e = SStarted"
    and "env_stream env (run_calls s + 1) q = (e' # es', ending')"
    and "env_closes env (run_yields s)" "\<not> run_closed s" "2 \<le> n"
  shows "fst (stream_attempts env q n k s) = Some (Inr StreamAbandoned)
    \<and> run_calls (snd (stream_attempts env q n k s)) = run_calls s + 2"
proof -
  obtain m where m: "n = Suc (Suc m)" using assms(6) by (metis One_nat_def Suc_le_D Suc_le_mono numeral_2_eq_2)
  have "\<exists>s'. stream_attempt env q k s = (Inl (normalize_llm_error True GeneratorClosed), s') \<and> run_closed s'"
    using assms(1,2,4,5)
    by (simp add: stream_attempt_def stream_body_def yield_event_def stream_progress_after_def Let_def
        log_event_def del: normalize_stream_event.simps)
  then obtain s' where s': "stream_attempt env q k s = (Inl (normalize_llm_error True GeneratorClosed), s')" "run_closed s'"
    by blast
  have again: "is_retryable_llm (normalize_llm_error True GeneratorClosed)"
    by (simp add: normalize_llm_error_def is_retryable_llm_def new_llm_error_def llm_default_retryable_def)
  have calls: "run_calls s' = run_calls s + 1" using stream_attempt_calls [of env q k s] s'(1) by simp
  let ?s = "note_retry q k (normalize_llm_error True GeneratorClosed) s'"
  have "run_calls ?s = run_calls s + 1" "run_closed ?s" using calls s'(2) by simp_all
  then have "fst (stream_attempt env q (Suc k) ?s) = Inr StreamAbandoned"
    using assms(3)
    by (simp add: stream_attempt_def stream_body_def yield_event_def Let_def del: normalize_stream_event.simps)
  then obtain s2 where s2: "stream_attempt env q (Suc k) ?s = (Inr StreamAbandoned, s2)"
    by (cases "stream_attempt env q (Suc k) ?s") simp
  have "run_calls s2 = run_calls s + 2" using stream_attempt_calls [of env q "Suc k" ?s] s2 calls by simp
  then show ?thesis
    unfolding m using streaming.loop_skip [OF s'(1) again, of "Suc m"] streaming.loop_done [OF s2, of "Suc m"] by simp
qed

end
