(* ===== verification/LLM_Reports.thy ===== *)
theory LLM_Reports
  imports LLM_Safety
begin

text \<open>
  What the LLM gateway tells about itself: the summaries of requests, responses and errors that go into the
  trace (\<open>llm/redaction.py\<close>), the health result and the profile summaries (\<open>llm/health.py\<close>). What an adapter
  reports of its health is a parameter (status and provider type, by provider name).
\<close>

section \<open>Trace summaries\<close>

definition content_summary :: "llm_content \<Rightarrow> pyval" where
  "content_summary content =
    (case content of
       TextContent s \<Rightarrow> PStr s
     | PartsContent parts \<Rightarrow>
         PDict [(''part_count'', PInt (int (length parts))), (''part_types'', py_strs (List.map part_type parts))])"

definition tool_call_summary :: "llm_tool_call \<Rightarrow> pyval" where
  "tool_call_summary t =
    PDict [(''id'', py_opt_str (tcall_id t)), (''type'', PStr ''function''), (''function_name'', PStr (tcall_name t))]"

definition message_summary :: "llm_message \<Rightarrow> pyval" where
  "message_summary m =
    (case content_summary (msg_content m) of
       PStr s \<Rightarrow>
         if msg_name m = None \<and> msg_tool_call_id m = None \<and> msg_tool_calls m = [] then PStr s
         else PDict ([(''role'', PStr (msg_role m)), (''content'', PStr s)]
           @ (case msg_name m of None \<Rightarrow> [] | Some n \<Rightarrow> [(''name'', PStr n)])
           @ (case msg_tool_call_id m of None \<Rightarrow> [] | Some i \<Rightarrow> [(''tool_call_id'', PStr i)])
           @ (if msg_tool_calls m = [] then []
              else [(''tool_calls'', PList (List.map tool_call_summary (msg_tool_calls m)))]))
     | v \<Rightarrow>
         PDict ([(''role'', PStr (msg_role m)), (''content'', v)]
           @ (case msg_name m of None \<Rightarrow> [] | Some n \<Rightarrow> [(''name'', PStr n)])
           @ (case msg_tool_call_id m of None \<Rightarrow> [] | Some i \<Rightarrow> [(''tool_call_id'', PStr i)])
           @ (if msg_tool_calls m = [] then []
              else [(''tool_calls'', PList (List.map tool_call_summary (msg_tool_calls m)))])))"

text \<open>The names of tool definitions and of tool calls, stripped; a blank name is left out.\<close>

definition tool_entry_names :: "string list \<Rightarrow> string list" where
  "tool_entry_names names = List.map_filter (\<lambda>n. norm_text (Some n)) names"

definition tool_choice_name :: "llm_request \<Rightarrow> pyval" where
  "tool_choice_name q =
    py_opt_str (case lr_tool_choice q of None \<Rightarrow> None | Some t \<Rightarrow> norm_text (tch_function_name t))"

definition assistant_tool_call_count :: "llm_message list \<Rightarrow> int" where
  "assistant_tool_call_count ms =
    sum_list (List.map (\<lambda>m. int (length (msg_tool_calls m))) (filter (\<lambda>m. msg_role m = ''assistant'') ms))"

definition tool_result_message_count :: "llm_message list \<Rightarrow> int" where
  "tool_result_message_count ms = int (length (filter (\<lambda>m. msg_role m = ''tool'') ms))"

fun is_parts :: "llm_content \<Rightarrow> bool" where
  "is_parts (PartsContent parts) = True"
| "is_parts (TextContent s) = False"

definition summarize_request :: "llm_request \<Rightarrow> resolved_llm_request \<Rightarrow> pydict" where
  "summarize_request q r =
    (let ms = lr_messages q in
     [(''component'', PStr (rlr_component r)), (''profile'', PStr (rlr_profile_name r)),
      (''provider'', PStr (rlr_provider_name r)), (''model'', PStr (rlr_model r)),
      (''stream'', PBool (lr_stream q)), (''message_count'', PInt (int (length ms))),
      (''message_roles'', py_strs (List.map msg_role ms)),
      (''has_structured_content'', PBool (\<exists>m \<in> set ms. is_parts (msg_content m))),
      (''tool_count'', PInt (int (length (lr_tools q)))),
      (''tool_names'', py_strs (tool_entry_names (List.map tdef_name (lr_tools q)))),
      (''tool_choice_mode'', py_opt_str (map_option tch_type (lr_tool_choice q))),
      (''tool_choice_name'', tool_choice_name q),
      (''has_assistant_tool_calls'', PBool (assistant_tool_call_count ms > 0)),
      (''assistant_tool_call_count'', PInt (assistant_tool_call_count ms)),
      (''has_tool_result_messages'', PBool (tool_result_message_count ms > 0)),
      (''tool_result_message_count'', PInt (tool_result_message_count ms)),
      (''response_format'', py_opt_str (map_option rf_type (rlr_response_format r))),
      (''timeout_seconds'', PInt (rlr_timeout_seconds r)),
      (''max_output_tokens'', py_opt_int (rlr_max_output_tokens r)),
      (''resolution_source'', PStr (rlr_resolution_source r))]
     @ (if ld_trace_prompts (rlr_defaults r) then [(''messages'', PList (List.map message_summary ms))] else []))"

definition usage_summary :: "llm_usage option \<Rightarrow> pyval" where
  "usage_summary u =
    (case u of
       None \<Rightarrow> PNone
     | Some x \<Rightarrow>
         PDict [(''input_tokens'', py_opt_int (usage_input_tokens x)), (''output_tokens'', py_opt_int (usage_output_tokens x)),
                (''total_tokens'', py_opt_int (usage_total_tokens x))])"

definition summarize_provider_response :: "provider_response \<Rightarrow> bool \<Rightarrow> pydict" where
  "summarize_provider_response resp include_text =
    [(''finish_reason'', py_opt_str (pr_finish_reason resp)), (''usage'', usage_summary (pr_usage resp)),
     (''raw_id_present'', PBool (pr_raw_id resp \<noteq> None)),
     (''tool_call_count'', PInt (int (length (pr_tool_calls resp)))),
     (''tool_call_names'', py_strs (tool_entry_names (List.map tcall_name (pr_tool_calls resp)))),
     (''text_present'', PBool (pr_text resp \<noteq> []))]
    @ (if include_text then [(''text'', PStr (pr_text resp))] else [])"

section \<open>Health\<close>

record provider_health =
  ph_status :: string
  ph_type :: string
  ph_enabled :: bool

record profile_health =
  fh_status :: string
  fh_provider :: string
  fh_enabled :: bool
  fh_supports_streaming :: bool

record llm_health =
  lh_status :: string
  lh_providers_configured :: bool
  lh_profiles_configured :: bool
  lh_default_profile :: string
  lh_providers :: "(string \<times> provider_health) list"
  lh_profiles :: "(string \<times> profile_health) list"

definition provider_health_of ::
  "(string \<Rightarrow> string \<times> string) \<Rightarrow> provider_registry \<Rightarrow> string \<Rightarrow> llm_provider_settings \<Rightarrow> provider_health llm_res" where
  "provider_health_of adapter_health reg name p =
    (if \<not> lv_enabled p then Inr \<lparr>ph_status = ''disabled'', ph_type = lv_type p, ph_enabled = lv_enabled p\<rparr>
     else if registry_has reg name then
       try_bind (registry_get reg name True) (\<lambda>adapter.
         Inr \<lparr>ph_status = fst (adapter_health adapter), ph_type = snd (adapter_health adapter), ph_enabled = lv_enabled p\<rparr>)
     else Inr \<lparr>ph_status = ''unavailable'', ph_type = lv_type p, ph_enabled = lv_enabled p\<rparr>)"

fun provider_healths ::
  "(string \<Rightarrow> string \<times> string) \<Rightarrow> provider_registry \<Rightarrow> (string \<times> llm_provider_settings) list \<Rightarrow>
   (string \<times> provider_health) list \<Rightarrow> (string \<times> provider_health) list llm_res" where
  "provider_healths ah reg [] acc = Inr acc"
| "provider_healths ah reg ((n, p) # ps) acc =
    try_bind (provider_health_of ah reg n p) (\<lambda>h. provider_healths ah reg ps (dict_set n h acc))"

definition profile_health_of :: "(string \<times> provider_health) list \<Rightarrow> llm_profile_settings \<Rightarrow> profile_health" where
  "profile_health_of providers p =
    \<lparr>fh_status =
       (if \<not> lp_enabled p then ''disabled''
        else (case map_of providers (lp_provider p) of
                None \<Rightarrow> ''unavailable''
              | Some h \<Rightarrow> if ph_status h \<in> {''ok'', ''degraded''} then ''ok'' else ''unavailable'')),
     fh_provider = lp_provider p, fh_enabled = lp_enabled p, fh_supports_streaming = lp_supports_streaming p\<rparr>"

definition overall_status :: "(string \<times> provider_health) list \<Rightarrow> (string \<times> profile_health) list \<Rightarrow> string" where
  "overall_status providers profiles =
    (if providers = [] \<or> profiles = [] then ''unavailable''
     else if (\<exists>(n, h) \<in> set providers. ph_status h = ''ok'') \<and> (\<exists>(n, h) \<in> set profiles. fh_status h = ''ok'') then ''ok''
     else if \<exists>(n, h) \<in> set providers. ph_status h = ''degraded'' then ''degraded''
     else ''unavailable'')"

definition build_health_result ::
  "(string \<Rightarrow> string \<times> string) \<Rightarrow> llm_settings \<Rightarrow> provider_registry \<Rightarrow> llm_health llm_res" where
  "build_health_result adapter_health st reg =
    try_bind (provider_healths adapter_health reg (ls_providers st) []) (\<lambda>providers.
      let profiles = List.map (\<lambda>(n, p). (n, profile_health_of providers p)) (ls_profiles st)
      in Inr \<lparr>lh_status = overall_status providers profiles,
              lh_providers_configured = (ls_providers st \<noteq> []), lh_profiles_configured = (ls_profiles st \<noteq> []),
              lh_default_profile = ld_profile (ls_defaults st), lh_providers = providers, lh_profiles = profiles\<rparr>)"

section \<open>Properties\<close>

text \<open>Two conversations of the same shape: the same roles, kinds of content and numbers of tool calls.\<close>

definition same_shape :: "llm_message \<Rightarrow> llm_message \<Rightarrow> bool" where
  "same_shape m m' \<longleftrightarrow> msg_role m = msg_role m' \<and> is_parts (msg_content m) = is_parts (msg_content m')
    \<and> length (msg_tool_calls m) = length (msg_tool_calls m')"

lemma same_shape_counts:
  assumes "list_all2 same_shape ms ms'"
  shows "length ms = length ms' \<and> List.map msg_role ms = List.map msg_role ms'
    \<and> (\<exists>m \<in> set ms. is_parts (msg_content m)) = (\<exists>m \<in> set ms'. is_parts (msg_content m))
    \<and> assistant_tool_call_count ms = assistant_tool_call_count ms'
    \<and> tool_result_message_count ms = tool_result_message_count ms'"
  using assms
  by (induction rule: list_all2_induct)
    (auto simp: same_shape_def assistant_tool_call_count_def tool_result_message_count_def)

text \<open>The trace does not leak prompts: without the \<open>trace_prompts\<close> flag the summary of a request is the same
  for any two conversations of the same shape, so it carries nothing of their text, their names, their
  tool arguments or their tool results; and the summary of a response without the flag is the same for
  any two nonempty texts.\<close>

theorem traces_hide_prompts:
  assumes "\<not> ld_trace_prompts (rlr_defaults r)" "list_all2 same_shape (lr_messages q) ms"
    and "pr_text resp \<noteq> []" "t \<noteq> []"
  shows "summarize_request (q\<lparr>lr_messages := ms\<rparr>) r = summarize_request q r
    \<and> ''messages'' \<notin> fst ` set (summarize_request q r)
    \<and> summarize_provider_response (resp\<lparr>pr_text := t\<rparr>) False = summarize_provider_response resp False
    \<and> ''text'' \<notin> fst ` set (summarize_provider_response resp False)"
  using assms same_shape_counts [OF assms(2)]
  by (simp add: summarize_request_def summarize_provider_response_def tool_choice_name_def Let_def)

theorem traces_hide_prompts_witness:
  "\<exists>r. resolve_llm hello_request hello_context = Inr r
    \<and> summarize_request (hello_request\<lparr>lr_messages := [\<lparr>msg_role = ''user'', msg_content = TextContent ''a secret'',
          msg_name = None, msg_tool_call_id = None, msg_tool_calls = []\<rparr>]\<rparr>) r
      = summarize_request hello_request r"
proof -
  have "case resolve_llm hello_request hello_context of Inl e \<Rightarrow> False
    | Inr r \<Rightarrow> \<not> ld_trace_prompts (rlr_defaults r)" by code_simp
  then obtain r where r: "resolve_llm hello_request hello_context = Inr r" "\<not> ld_trace_prompts (rlr_defaults r)"
    by (auto split: sum.splits)
  have "list_all2 same_shape (lr_messages hello_request) [\<lparr>msg_role = ''user'', msg_content = TextContent ''a secret'',
      msg_name = None, msg_tool_call_id = None, msg_tool_calls = []\<rparr>]"
    by (simp add: hello_request_def same_shape_def)
  from traces_hide_prompts [OF r(2) this,
      of "\<lparr>pr_text = ''x'', pr_tool_calls = [], pr_finish_reason = None, pr_reasoning = [], pr_usage = None,
        pr_raw_id = None, pr_metadata = []\<rparr>" "''y''"] r(1)
  show ?thesis by auto
qed

end
