(* ===== verification/Policy_Redaction.thy ===== *)
theory Policy_Redaction
  imports Policy_Settings Policy_Contracts Py_Text
begin

text \<open>
  What leaves the backend is masked here: the redactor of \<open>observability/redaction.py\<close>, the redaction
  obligations of a policy decision (\<open>policy/redaction_policy.py\<close>) and the sanitizers of the health and
  capabilities payloads (\<open>policy/health.py\<close>, \<open>policy/capabilities.py\<close>).

  The redactor is modelled on the values that can be printed as JSON, on bytes and sets, and on an
  opaque object by its class name; dataclasses, pydantic models, dates, paths, UUIDs and enums are
  objects it would convert first, and are outside the value model. The lemmas show which leaves a redacted
  value has (the mask or \<open>None\<close> below every key that names a secret, and elsewhere what was there), that
  redacting twice is redacting once, and that a sanitized payload has none of the forbidden fields at any reachable depth.
\<close>

section \<open>Sensitive keys\<close>

definition sensitive_key_parts_default :: "string list" where
  "sensitive_key_parts_default =
    [''api_key'', ''apikey'', ''auth'', ''authorization'', ''bearer'', ''client_secret'',
     ''connection_string'', ''cookie'', ''credential'', ''jwt'', ''key'', ''password'',
     ''refresh_token'', ''secret'', ''token'']"

definition non_sensitive_control_keys_default :: "string list" where
  "non_sensitive_control_keys_default =
    [''auth_header'', ''redact_secrets'', ''expose_secret_values'', ''max_input_tokens'',
     ''max_output_tokens'', ''max_total_tokens'', ''timezone_metadata_key'']"

definition redacted_value :: string where
  "redacted_value = ''***REDACTED***''"

definition truncated_value :: string where
  "truncated_value = ''<truncated>''"

definition is_sensitive_key :: "string list \<Rightarrow> string list \<Rightarrow> string \<Rightarrow> bool" where
  "is_sensitive_key parts control key =
    (let normalized = lower (strip key)
     in if normalized = [] then False
        else if normalized \<in> set control then False
        else list_ex (contains normalized) parts)"

section \<open>The redactor\<close>

record redactor =
  rd_redact_secrets :: bool
  rd_max_chars :: "int option"
  rd_sensitive_key_parts :: "string list"
  rd_non_sensitive_control_keys :: "string list"

definition default_redactor :: redactor where
  "default_redactor =
    \<lparr>rd_redact_secrets = True, rd_max_chars = None,
     rd_sensitive_key_parts = sensitive_key_parts_default,
     rd_non_sensitive_control_keys = non_sensitive_control_keys_default\<rparr>"

definition truncate_string :: "redactor \<Rightarrow> string \<Rightarrow> string" where
  "truncate_string rd v =
    (case rd_max_chars rd of
       None \<Rightarrow> v
     | Some m \<Rightarrow> if m < 0 \<or> int (length v) \<le> m then v else take (nat m) v @ truncated_value)"

definition class_tag :: "string \<Rightarrow> string" where
  "class_tag c = ''<'' @ c @ ''>''"

definition serialize_scalar :: "redactor \<Rightarrow> pyval \<Rightarrow> pyval" where
  "serialize_scalar rd v =
    (case v of
       PStr s \<Rightarrow> PStr (truncate_string rd s)
     | PBytes s \<Rightarrow> PStr (class_tag ''bytes'')
     | PObj c \<Rightarrow> PStr (class_tag c)
     | _ \<Rightarrow> v)"

definition child_sensitive :: "redactor \<Rightarrow> bool \<Rightarrow> string \<Rightarrow> bool" where
  "child_sensitive rd sensitive_context key \<longleftrightarrow>
    sensitive_context
    \<or> (rd_redact_secrets rd \<and> lower (strip key) \<notin> set [''auth'', ''oauth'']
       \<and> is_sensitive_key (rd_sensitive_key_parts rd) (rd_non_sensitive_control_keys rd) key)"

fun py_type_name :: "pyval \<Rightarrow> string" where
  "py_type_name PNone = ''NoneType''"
| "py_type_name (PBool b) = ''bool''"
| "py_type_name (PInt i) = ''int''"
| "py_type_name (PFloat w) = ''float''"
| "py_type_name (PStr s) = ''str''"
| "py_type_name (PBytes s) = ''bytes''"
| "py_type_name (PList xs) = ''list''"
| "py_type_name (PTuple xs) = ''tuple''"
| "py_type_name (PSet xs) = ''set''"
| "py_type_name (PDict d) = ''dict''"
| "py_type_name (PObj c) = c"

definition set_sort_key :: "py_texts \<Rightarrow> pyval \<Rightarrow> string" where
  "set_sort_key tx v = py_type_name v @ '':'' @ (case v of PStr s \<Rightarrow> s | PInt i \<Rightarrow> show_int i | _ \<Rightarrow> tx_str tx v)"

fun redact_value :: "py_texts \<Rightarrow> redactor \<Rightarrow> bool \<Rightarrow> pyval \<Rightarrow> pyval" where
  "redact_value tx rd sens (PDict d) =
    PDict (List.map (\<lambda>(k, v). (k, redact_value tx rd (child_sensitive rd sens k) v)) d)"
| "redact_value tx rd sens (PList xs) = PList (List.map (redact_value tx rd sens) xs)"
| "redact_value tx rd sens (PTuple xs) = PTuple (List.map (redact_value tx rd sens) xs)"
| "redact_value tx rd sens (PSet xs) =
    PList (List.map snd
      (sort_key fst (List.map (\<lambda>x. (set_sort_key tx x, redact_value tx rd sens x)) xs)))"
| "redact_value tx rd sens v =
    (if sens \<and> v \<noteq> PNone then PStr redacted_value else serialize_scalar rd v)"

definition redact :: "py_texts \<Rightarrow> redactor \<Rightarrow> pyval \<Rightarrow> pyval" where
  "redact tx rd v = redact_value tx rd False v"

section \<open>Redaction obligations\<close>

definition redact_targets :: "policy_obligation list \<Rightarrow> pydict \<Rightarrow> pydict" where
  "redact_targets obligations result =
    fold (\<lambda>ob acc.
        if obl_kind ob \<noteq> ''redact'' then acc
        else (case obl_target ob of
                Some t \<Rightarrow> if t \<in> fst ` set acc then dict_set t (PStr redacted_value) acc else acc
              | None \<Rightarrow> acc))
      obligations result"

definition apply_redaction_obligations ::
  "py_texts \<Rightarrow> pydict option \<Rightarrow> policy_decision \<Rightarrow> redactor \<Rightarrow> pydict" where
  "apply_redaction_obligations tx payload d rd =
    (case payload of
       None \<Rightarrow> []
     | Some working \<Rightarrow>
        if working = [] then []
        else if list_ex (\<lambda>ob. obl_kind ob = ''omit_payload'') (dec_obligations d) then []
        else (case redact tx rd (PDict working) of
                PDict redacted \<Rightarrow> redact_targets (dec_obligations d) redacted
              | _ \<Rightarrow> [(''value'', PStr redacted_value)]))"

section \<open>Health and capabilities payloads\<close>

text \<open>\<open>_strip_sensitive_fields\<close>: the fields are popped, then every dictionary and every dictionary in
  a list below is treated the same way.\<close>

function strip_fields :: "string list \<Rightarrow> pydict \<Rightarrow> pydict" where
  "strip_fields ks d =
    List.map (\<lambda>(k, v). (k, case v of
        PDict d' \<Rightarrow> PDict (strip_fields ks d')
      | PList xs \<Rightarrow> PList (List.map (\<lambda>x. case x of PDict d' \<Rightarrow> PDict (strip_fields ks d') | _ \<Rightarrow> x) xs)
      | _ \<Rightarrow> v))
      (filter (\<lambda>(k, v). k \<notin> set ks) d)"
  by pat_completeness auto

termination
  by (relation "measure (\<lambda>(ks, d). py_size (PDict d))") (auto intro: py_size_dict less_trans [OF py_size_list py_size_dict])

declare strip_fields.simps [simp del]

definition health_stripped_fields :: "string list" where
  "health_stripped_fields =
    [''endpoint'', ''endpoints'', ''path'', ''paths'', ''database'', ''sqlite_path'',
     ''memory_provider'', ''trace_provider'', ''workflow_state_provider'']"

definition capabilities_stripped_fields :: "string list" where
  "capabilities_stripped_fields = [''endpoint'', ''endpoints'', ''url'', ''urls'', ''schema'']"

definition strip_decision_counts :: "pyval \<Rightarrow> pyval" where
  "strip_decision_counts v =
    (case v of
       PDict d \<Rightarrow> PDict (filter (\<lambda>(k, v). k \<notin> set [''decision_counts'', ''rule_counts'']) d)
     | _ \<Rightarrow> v)"

text \<open>\<open>section = payload.get(name)\<close>; when it is a mapping, \<open>payload[name]\<close> becomes \<open>f section\<close>.\<close>

definition update_mapping :: "string \<Rightarrow> (pydict \<Rightarrow> pydict) \<Rightarrow> pydict \<Rightarrow> pydict" where
  "update_mapping name f payload =
    (case dict_get payload name of PDict d \<Rightarrow> dict_set name (PDict (f d)) payload | _ \<Rightarrow> payload)"

definition sanitize_health_payload :: "pydict \<Rightarrow> policy_profile_settings \<Rightarrow> pydict" where
  "sanitize_health_payload payload profile =
    (let s1 = (if \<not> ph_include_profile_names (pp_health profile) then
                 update_mapping ''policy'' (dict_pop ''default_profile'')
                   (update_mapping ''llm'' (dict_pop ''profiles'') payload)
               else payload);
         s2 = (if \<not> ph_include_decision_counts (pp_health profile) then
                 update_mapping ''checks'' (List.map (\<lambda>(k, v). (k, strip_decision_counts v))) s1
               else s1)
     in strip_fields health_stripped_fields s2)"

definition sanitize_capabilities_payload :: "pydict \<Rightarrow> policy_profile_settings \<Rightarrow> pydict" where
  "sanitize_capabilities_payload payload profile =
    (let s1 = (if \<not> pc_include_policy_profiles (pp_capabilities profile)
               then dict_pop ''policy'' payload else payload);
         s2 = (if \<not> pc_include_denied_actions (pp_capabilities profile) then
                 update_mapping ''debug''
                   (filter (\<lambda>(k, v). k \<notin> set [''denied_actions'', ''policy_profiles''])) s1
               else s1)
     in strip_fields capabilities_stripped_fields s2)"

section \<open>Nothing sensitive remains\<close>

text \<open>The keys that name a secret: those that contain one of the sensitive parts, stripped and in lower case, but are not a
  control key.\<close>

definition names_secret :: "redactor \<Rightarrow> string \<Rightarrow> bool" where
  "names_secret rd key \<longleftrightarrow>
    rd_redact_secrets rd \<and> (let n = lower (strip key)
      in n \<notin> {[], ''auth'', ''oauth''} \<and> n \<notin> set (rd_non_sensitive_control_keys rd)
         \<and> (\<exists>part \<in> set (rd_sensitive_key_parts rd). \<exists>before after. n = before @ part @ after))"

lemma startswith_iff: "startswith s p \<longleftrightarrow> (\<exists>rest. s = p @ rest)"
  by (induction s p rule: startswith.induct) auto

lemma infix_Cons: "(\<exists>b a. c # s = b @ p @ a) \<longleftrightarrow> (\<exists>a. c # s = p @ a) \<or> (\<exists>b a. s = b @ p @ a)"
proof
  assume "\<exists>b a. c # s = b @ p @ a"
  then obtain b a where "c # s = b @ p @ a" by blast
  then show "(\<exists>a. c # s = p @ a) \<or> (\<exists>b a. s = b @ p @ a)" by (cases b) auto
next
  assume "(\<exists>a. c # s = p @ a) \<or> (\<exists>b a. s = b @ p @ a)"
  then show "\<exists>b a. c # s = b @ p @ a"
  proof (elim disjE exE)
    fix a assume "c # s = p @ a"
    then show ?thesis by (intro exI [of _ "[]"] exI [of _ a]) simp
  next
    fix b a assume "s = b @ p @ a"
    then show ?thesis by (intro exI [of _ "c # b"] exI [of _ a]) simp
  qed
qed

lemma contains_iff: "contains s p \<longleftrightarrow> (\<exists>before after. s = before @ p @ after)"
  by (induction s p rule: contains.induct) (simp_all only: contains.simps infix_Cons startswith_iff append_is_Nil_conv, auto)

lemma child_sensitive_iff: "child_sensitive rd sens k \<longleftrightarrow> sens \<or> names_secret rd k"
  by (auto simp: child_sensitive_def names_secret_def is_sensitive_key_def Let_def list_ex_iff contains_iff)

text \<open>Below a sensitive key only \<open>None\<close> and the mask are left.\<close>

fun masked :: "redactor \<Rightarrow> bool \<Rightarrow> pyval \<Rightarrow> bool" where
  "masked rd sens (PDict d) = (\<forall>(k, v) \<in> set d. masked rd (sens \<or> names_secret rd k) v)"
| "masked rd sens (PList xs) = (\<forall>x \<in> set xs. masked rd sens x)"
| "masked rd sens (PTuple xs) = (\<forall>x \<in> set xs. masked rd sens x)"
| "masked rd sens (PSet xs) = False"
| "masked rd sens v = (sens \<longrightarrow> v = PNone \<or> v = PStr redacted_value)"

lemma masked_dict [simp]: "masked rd sens (PDict d) = (\<forall>(k, v) \<in> set d. masked rd (child_sensitive rd sens k) v)"
  by (simp add: child_sensitive_iff)

declare masked.simps(1) [simp del]

lemma masked_serialize_scalar: "masked rd False (serialize_scalar rd v)"
  if "\<And>d. v \<noteq> PDict d" "\<And>xs. v \<noteq> PList xs" "\<And>xs. v \<noteq> PTuple xs" "\<And>xs. v \<noteq> PSet xs"
  using that by (cases v) (auto simp: serialize_scalar_def)

lemma masked_redact_value: "masked rd sens (redact_value tx rd sens v)"
  by (induction tx rd sens v rule: redact_value.induct) (auto simp: serialize_scalar_def)

text \<open>Without truncation of the class tags, redacting again changes nothing.\<close>

lemma truncate_string_idem: "truncate_string rd (truncate_string rd s) = truncate_string rd s"
  by (auto simp: truncate_string_def split: option.splits)

definition class_tags_fit :: "redactor \<Rightarrow> bool" where
  "class_tags_fit rd \<longleftrightarrow> (case rd_max_chars rd of None \<Rightarrow> True | Some m \<Rightarrow> m < 0)"

lemma serialize_scalar_idem:
  "class_tags_fit rd \<Longrightarrow> serialize_scalar rd (serialize_scalar rd v) = serialize_scalar rd v"
  by (auto simp: serialize_scalar_def truncate_string_def class_tags_fit_def split: pyval.splits option.splits)

lemma redact_value_idem:
  "class_tags_fit rd \<Longrightarrow> redact_value tx rd sens (redact_value tx rd sens v) = redact_value tx rd sens v"
proof (induction tx rd sens v rule: redact_value.induct)
  case (4 tx rd sens xs)
  then show ?case by (auto intro!: map_idI)
qed (auto simp: serialize_scalar_def truncate_string_def class_tags_fit_def split: option.splits)

text \<open>A payload none of whose reachable dictionaries has one of the fields.\<close>

function free_of :: "string list \<Rightarrow> pydict \<Rightarrow> bool" where
  "free_of ks d \<longleftrightarrow>
    (\<forall>(k, v) \<in> set d. k \<notin> set ks \<and>
      (case v of
         PDict d' \<Rightarrow> free_of ks d'
       | PList xs \<Rightarrow> (\<forall>x \<in> set xs. case x of PDict d' \<Rightarrow> free_of ks d' | _ \<Rightarrow> True)
       | _ \<Rightarrow> True))"
  by pat_completeness auto
termination
  by (relation "measure (\<lambda>(ks, d). py_size (PDict d))") (auto intro: py_size_dict less_trans [OF py_size_list py_size_dict])

declare free_of.simps [simp del]

lemma strip_fields_free: "free_of ks (strip_fields ks d)"
proof (induction ks d rule: strip_fields.induct)
  case (1 ks d)
  show ?case
    unfolding strip_fields.simps [of ks d] free_of.simps [of ks "List.map _ _"]
    using 1 by (force split: pyval.splits)
qed

lemma strip_fields_id: "free_of ks d \<Longrightarrow> strip_fields ks d = d"
proof (induction ks d rule: strip_fields.induct)
  case (1 ks d)
  note free = 1(3) [unfolded free_of.simps [of ks d]]
  have "filter (\<lambda>(k, v). k \<notin> set ks) d = d" using free by (auto simp: filter_id_conv)
  moreover have "(k, case v of
        PDict d' \<Rightarrow> PDict (strip_fields ks d')
      | PList xs \<Rightarrow> PList (List.map (\<lambda>x. case x of PDict d' \<Rightarrow> PDict (strip_fields ks d') | _ \<Rightarrow> x) xs)
      | _ \<Rightarrow> v) = (k, v)" if "(k, v) \<in> set d" for k v
    using that free 1(1,2) by (fastforce split: pyval.splits intro!: map_idI)
  ultimately show ?case
    unfolding strip_fields.simps [of ks d] by (auto intro!: map_idI)
qed

lemma map_of_strip_fields:
  "k \<in> set ks \<Longrightarrow> map_of (strip_fields ks d) k = None"
  using strip_fields_free [of ks d] unfolding free_of.simps [of ks "strip_fields ks d"]
  by (force simp: map_of_eq_None_iff)

lemma strip_fields_keys: "List.map fst (strip_fields ks d) = filter (\<lambda>k. k \<notin> set ks) (List.map fst d)"
  unfolding strip_fields.simps [of ks d] by (induction d) (auto simp: o_def split_beta)

section \<open>Properties\<close>

text \<open>The leaves of a value, each with the keys above it.\<close>

fun is_leaf :: "pyval \<Rightarrow> bool" where
  "is_leaf (PDict d) = False"
| "is_leaf (PList xs) = False"
| "is_leaf (PTuple xs) = False"
| "is_leaf (PSet xs) = False"
| "is_leaf v = True"

inductive leaf_at :: "pyval \<Rightarrow> string list \<Rightarrow> pyval \<Rightarrow> bool" where
  here: "is_leaf v \<Longrightarrow> leaf_at v [] v"
| field: "(k, v) \<in> set d \<Longrightarrow> leaf_at v ks x \<Longrightarrow> leaf_at (PDict d) (k # ks) x"
| item: "v \<in> set xs \<Longrightarrow> leaf_at v ks x \<Longrightarrow> leaf_at (PList xs) ks x"
| tuple: "v \<in> set xs \<Longrightarrow> leaf_at v ks x \<Longrightarrow> leaf_at (PTuple xs) ks x"
| member: "v \<in> set xs \<Longrightarrow> leaf_at v ks x \<Longrightarrow> leaf_at (PSet xs) ks x"

inductive_simps leaf_at_simps [simp]:
  "leaf_at (PDict d) ks x" "leaf_at (PList xs) ks x" "leaf_at (PTuple xs) ks x" "leaf_at (PSet xs) ks x"

lemma leaf_at_leaf: "is_leaf v \<Longrightarrow> leaf_at v ks x \<longleftrightarrow> ks = [] \<and> x = v"
  by (auto intro: leaf_at.here elim: leaf_at.cases)

text \<open>What becomes of a leaf.\<close>

definition masked_leaf :: "redactor \<Rightarrow> bool \<Rightarrow> pyval \<Rightarrow> pyval" where
  "masked_leaf rd secret x =
    (if secret then if x = PNone then PNone else PStr redacted_value
     else (case x of
             PStr s \<Rightarrow> (case rd_max_chars rd of
                 Some m \<Rightarrow> if 0 \<le> m \<and> m < int (length s) then PStr (take (nat m) s @ truncated_value) else x
               | None \<Rightarrow> x)
           | PBytes s \<Rightarrow> PStr ''<bytes>''
           | PObj c \<Rightarrow> PStr (''<'' @ c @ ''>'')
           | _ \<Rightarrow> x))"

lemma masked_leaf_eq: "masked_leaf rd secret x =
    (if \<not> secret then serialize_scalar rd x else if x = PNone then PNone else PStr redacted_value)"
  by (auto simp: masked_leaf_def serialize_scalar_def truncate_string_def class_tag_def split: pyval.split option.split)

lemma serialize_scalar_leaf: "is_leaf v \<Longrightarrow> is_leaf (serialize_scalar rd v)"
  by (cases v) (simp_all add: serialize_scalar_def)

lemma leaf_at_redacted_leaf:
  assumes "is_leaf v"
  shows "leaf_at (if sens \<and> v \<noteq> PNone then PStr redacted_value else serialize_scalar rd v) ks x \<longleftrightarrow>
    (\<exists>y. leaf_at v ks y \<and> x = masked_leaf rd (sens \<or> (\<exists>k \<in> set ks. names_secret rd k)) y)"
proof -
  have "is_leaf (if sens \<and> v \<noteq> PNone then PStr redacted_value else serialize_scalar rd v)"
    using serialize_scalar_leaf [OF assms] by simp
  then show ?thesis using leaf_at_leaf [OF assms] leaf_at_leaf
    by (auto simp: masked_leaf_eq serialize_scalar_def)
qed

lemma leaf_collect:
  "(\<exists>k v ks'. ks = k # ks' \<and> P k v \<and> (\<exists>y. L v ks' y \<and> Q y)) \<longleftrightarrow> (\<exists>y. (\<exists>k v ks'. ks = k # ks' \<and> P k v \<and> L v ks' y) \<and> Q y)"
  by blast

lemma leaf_collect_items: "(\<exists>v \<in> A. \<exists>y. L v y \<and> Q y) \<longleftrightarrow> (\<exists>y. (\<exists>v \<in> A. L v y) \<and> Q y)"
  by blast

lemma redact_value_leaves:
  "leaf_at (redact_value tx rd sens v) ks x \<longleftrightarrow>
    (\<exists>y. leaf_at v ks y \<and> x = masked_leaf rd (sens \<or> (\<exists>k \<in> set ks. names_secret rd k)) y)"
proof (induction tx rd sens v arbitrary: ks rule: redact_value.induct)
  case (1 tx rd sens d)
  then have ih: "leaf_at (redact_value tx rd (child_sensitive rd sens k) v) ks x \<longleftrightarrow>
      (\<exists>y. leaf_at v ks y \<and> x = masked_leaf rd ((sens \<or> names_secret rd k) \<or> (\<exists>k \<in> set ks. names_secret rd k)) y)"
    if "(k, v) \<in> set d" for k v ks
    using that by (simp add: child_sensitive_iff)
  have "leaf_at (redact_value tx rd sens (PDict d)) ks x \<longleftrightarrow>
    (\<exists>k v ks'. ks = k # ks' \<and> (k, v) \<in> set d \<and> leaf_at (redact_value tx rd (child_sensitive rd sens k) v) ks' x)"
    by force
  also have "\<dots> \<longleftrightarrow> (\<exists>k v ks'. ks = k # ks' \<and> (k, v) \<in> set d \<and> (\<exists>y. leaf_at v ks' y
      \<and> x = masked_leaf rd ((sens \<or> names_secret rd k) \<or> (\<exists>k \<in> set ks'. names_secret rd k)) y))"
    by (intro iff_exI conj_cong refl ih)
  also have "\<dots> \<longleftrightarrow> (\<exists>k v ks'. ks = k # ks' \<and> (k, v) \<in> set d \<and> (\<exists>y. leaf_at v ks' y
      \<and> x = masked_leaf rd (sens \<or> (\<exists>k \<in> set ks. names_secret rd k)) y))"
    by (intro iff_exI conj_cong refl) (simp only: list.set bex_simps disj_assoc)
  also have "\<dots> \<longleftrightarrow> (\<exists>y. (\<exists>k v ks'. ks = k # ks' \<and> (k, v) \<in> set d \<and> leaf_at v ks' y)
      \<and> x = masked_leaf rd (sens \<or> (\<exists>k \<in> set ks. names_secret rd k)) y)"
    by (rule leaf_collect)
  finally show ?case unfolding leaf_at_simps .
next
  case (2 tx rd sens xs)
  have "leaf_at (redact_value tx rd sens (PList xs)) ks x \<longleftrightarrow> (\<exists>v \<in> set xs. leaf_at (redact_value tx rd sens v) ks x)"
    by simp
  also note bex_cong [OF refl 2]
  also note leaf_collect_items
  finally show ?case by (simp only: leaf_at_simps Bex_def)
next
  case (3 tx rd sens xs)
  have "leaf_at (redact_value tx rd sens (PTuple xs)) ks x \<longleftrightarrow> (\<exists>v \<in> set xs. leaf_at (redact_value tx rd sens v) ks x)"
    by simp
  also note bex_cong [OF refl 3]
  also note leaf_collect_items
  finally show ?case by (simp only: leaf_at_simps Bex_def)
next
  case (4 tx rd sens xs)
  let ?ys = "List.map snd (sort_key fst (List.map (\<lambda>x. (set_sort_key tx x, redact_value tx rd sens x)) xs))"
  have "set ?ys = redact_value tx rd sens ` set xs" by force
  then have "leaf_at (redact_value tx rd sens (PSet xs)) ks x \<longleftrightarrow> (\<exists>v \<in> set xs. leaf_at (redact_value tx rd sens v) ks x)"
    by (simp del: set_map set_sort) 
  also note bex_cong [OF refl 4]
  also note leaf_collect_items
  finally show ?case by (simp only: leaf_at_simps Bex_def)
qed (simp_all only: redact_value.simps leaf_at_redacted_leaf is_leaf.simps simp_thms if_False
    leaf_at_redacted_leaf [of PNone, simplified])

text \<open>C35. Redaction masks what is below a secret key and nothing else: a redacted value has the leaves of the value it was
  made of, below the same keys; below a key that names a secret, at whatever depth, each of them is the mask, or \<open>None\<close> where it
  was \<open>None\<close>, and every other leaf is the one that was there, cut to the length limit if it is a text and as its class tag
  if it is bytes or an object.\<close>

theorem redaction_masks_secrets:
  "leaf_at (redact tx rd v) ks x \<longleftrightarrow>
    (\<exists>y. leaf_at v ks y \<and> x = masked_leaf rd (\<exists>k \<in> set ks. names_secret rd k) y)"
  by (simp add: redact_def redact_value_leaves)

text \<open>Redacting a redacted value changes nothing, for a redactor without a length limit.\<close>

theorem redaction_is_idempotent:
  assumes "class_tags_fit rd"
  shows "redact tx rd (redact tx rd v) = redact tx rd v"
  by (simp add: redact_def redact_value_idem [OF assms])

definition sample_texts :: py_texts where
  "sample_texts = \<lparr>tx_digest = (\<lambda>s. s), tx_float_repr = (\<lambda>w. []), tx_str = (\<lambda>v. [])\<rparr>"

definition sample_secret :: pyval where
  "sample_secret = PDict [(''api_key'', PStr ''s3cret''), (''items'', PList [PInt 1, PObj ''Handle''])]"

theorem redaction_is_idempotent_witness:
  "redact sample_texts default_redactor (redact sample_texts default_redactor sample_secret) =
    redact sample_texts default_redactor sample_secret"
  by (rule redaction_is_idempotent) (simp add: class_tags_fit_def default_redactor_def)

lemma redact_targets_fold:
  "redact_targets (ob # obs) d = redact_targets obs
    (if obl_kind ob \<noteq> ''redact'' then d
     else (case obl_target ob of
             Some t \<Rightarrow> if t \<in> fst ` set d then dict_set t (PStr redacted_value) d else d
           | None \<Rightarrow> d))"
  by (simp add: redact_targets_def)

lemma redact_targets_keep:
  "map_of d t \<in> {None, Some (PStr redacted_value)} \<Longrightarrow>
    map_of (redact_targets obs d) t \<in> {None, Some (PStr redacted_value)}"
proof (induction obs arbitrary: d)
  case Nil
  then show ?case by (simp add: redact_targets_def)
next
  case (Cons ob obs)
  show ?case unfolding redact_targets_fold using Cons.prems
    by (intro Cons.IH) (auto split: option.split)
qed

lemma redact_targets_hit:
  "ob \<in> set obs \<Longrightarrow> obl_kind ob = ''redact'' \<Longrightarrow> obl_target ob = Some t \<Longrightarrow>
    map_of (redact_targets obs d) t \<in> {None, Some (PStr redacted_value)}"
proof (induction obs arbitrary: d)
  case (Cons ob' obs)
  show ?case
  proof (cases "ob' = ob")
    case True
    have "map_of (if t \<in> fst ` set d then dict_set t (PStr redacted_value) d else d) t
        \<in> {None, Some (PStr redacted_value)}"
      by (simp add: map_of_eq_None_iff)
    from redact_targets_keep [OF this] show ?thesis
      by (simp add: redact_targets_fold True Cons.prems(2,3))
  next
    case False
    with Cons show ?thesis by (simp add: redact_targets_fold)
  qed
qed simp

lemma masked_dict_set:
  assumes "masked rd False (PDict d)"
  shows "masked rd False (PDict (dict_set t (PStr redacted_value) d))"
proof -
  have "set (dict_set t (PStr redacted_value) d) \<subseteq> insert (t, PStr redacted_value) (set d)"
    by (induction d) (auto simp: dict_set_def)
  with assms show ?thesis by fastforce
qed

lemma redact_targets_masked: "masked rd False (PDict d) \<Longrightarrow> masked rd False (PDict (redact_targets obs d))"
proof (induction obs arbitrary: d)
  case (Cons ob obs)
  show ?case unfolding redact_targets_fold using Cons.prems masked_dict_set [OF Cons.prems]
    by (intro Cons.IH) (simp del: masked.simps split: option.split)
qed (simp add: redact_targets_def)

text \<open>The obligations of a decision are applied to what leaves: an \<open>omit_payload\<close> empties the payload, a
  \<open>redact\<close> leaves at most the mask at its target, and whatever remains has been redacted.\<close>

theorem obligations_are_applied:
  assumes "ob \<in> set (dec_obligations d)"
  shows "(obl_kind ob = ''omit_payload'' \<longrightarrow> apply_redaction_obligations tx payload d rd = [])
    \<and> (obl_kind ob = ''redact'' \<and> obl_target ob = Some t \<longrightarrow>
        map_of (apply_redaction_obligations tx payload d rd) t \<in> {None, Some (PStr redacted_value)})
    \<and> masked rd False (PDict (apply_redaction_obligations tx payload d rd))"
proof (cases payload)
  case None
  then show ?thesis by (simp add: apply_redaction_obligations_def)
next
  case (Some w)
  have "masked rd False (PDict (List.map (\<lambda>(k, v). (k, redact_value tx rd (child_sensitive rd False k) v)) w))"
    using masked_redact_value [of rd False tx "PDict w"] by simp
  note masked = redact_targets_masked [OF this]
  show ?thesis
    using assms redact_targets_hit [OF assms] masked
    by (auto simp: apply_redaction_obligations_def Some redact_def list_ex_iff simp del: masked_dict)
       (simp_all add: redacted_value_def)
qed

theorem obligations_are_applied_witness:
  "map_of (apply_redaction_obligations sample_texts (Some [(''note'', PStr ''private'')])
      (decision_allow None None [] [\<lparr>obl_kind = ''redact'', obl_target = Some ''note'', obl_value = PNone,
        obl_metadata = []\<rparr>] None None) default_redactor) ''note'' \<in> {None, Some (PStr redacted_value)}"
  using obligations_are_applied [of "\<lparr>obl_kind = ''redact'', obl_target = Some ''note'', obl_value = PNone,
        obl_metadata = []\<rparr>" "decision_allow None None [] [\<lparr>obl_kind = ''redact'', obl_target = Some ''note'',
        obl_value = PNone, obl_metadata = []\<rparr>] None None" sample_texts "Some [(''note'', PStr ''private'')]"
        default_redactor "''note''"]
  by (simp add: decision_allow_def)

text \<open>The public payloads are stripped at every depth: no dictionary reachable through dictionaries
  and lists of dictionaries of a sanitized health or capabilities payload has one of the forbidden
  fields, and stripping takes nothing else from the top level.\<close>

theorem public_payloads_are_stripped:
  "free_of health_stripped_fields (sanitize_health_payload payload profile)
   \<and> free_of capabilities_stripped_fields (sanitize_capabilities_payload payload profile)
   \<and> List.map fst (strip_fields forbidden payload) = filter (\<lambda>k. k \<notin> set forbidden) (List.map fst payload)"
  by (simp add: sanitize_health_payload_def sanitize_capabilities_payload_def Let_def strip_fields_free
      strip_fields_keys)

end
