(* ===== verification/Orch_Errors.thy ===== *)
theory Orch_Errors
  imports Py_Prelude "HOL-Library.Sublist"
begin

text \<open>
  The normalized errors of the orchestration runtime (\<open>orchestration/errors.py\<close>) and the metadata
  sanitizer they share with every orchestration model (\<open>orchestration/models.py\<close>, lines 17 to 120).

  The error classes are the constructors of \<open>orch_error_class\<close>; \<open>code\<close>, \<open>default_message\<close> and
  \<open>default_retryable\<close> are functions on it, as the class attributes are. Of a foreign exception the
  code reads the class family, \<open>str(error)\<close> and the attributes \<open>code\<close>, \<open>retryable\<close> and \<open>metadata\<close> when
  they have the expected type. The lemmas show that sanitized metadata has no blocked key at any depth
  and is bounded, that a safe message shows no trace of a stack, and that an error survives the round
  trip through its detail.
\<close>

section \<open>Sanitized metadata\<close>

definition max_text_chars :: nat where "max_text_chars = 8000"
definition max_metadata_items :: nat where "max_metadata_items = 32"
definition max_metadata_depth :: nat where "max_metadata_depth = 4"

definition model_sensitive_key_parts :: "string list" where
  "model_sensitive_key_parts =
    [''secret'', ''token'', ''password'', ''credential'', ''authorization'', ''api_key'', ''apikey'',
     ''cookie'']"

definition unsafe_key_parts :: "string list" where
  "unsafe_key_parts =
    [''traceback'', ''stack_trace'', ''stacktrace'', ''raw_prompt'', ''prompt_messages'',
     ''prompt_template'', ''provider_chunk'', ''raw_chunk'', ''raw_payload'', ''provider_payload'',
     ''provider_response'', ''provider_request'', ''tool_payload'', ''memory_record'',
     ''workflow_state'', ''hidden_reasoning'', ''chain_of_thought'', ''scratchpad'']"

definition is_blocked_key :: "string \<Rightarrow> bool" where
  "is_blocked_key key =
    list_ex (contains (casefold key)) (model_sensitive_key_parts @ unsafe_key_parts)"

text \<open>\<open>_normalize_text\<close> of a string that may be empty.\<close>

definition normalize_text :: "string \<Rightarrow> string" where
  "normalize_text v =
    (let normalized = strip v
     in if length normalized \<le> max_text_chars then normalized
        else rstrip (take (max_text_chars - 1) normalized) @ ''...'')"

fun orch_class_name :: "pyval \<Rightarrow> string" where
  "orch_class_name (PBytes s) = ''bytes''"
| "orch_class_name (PSet xs) = ''set''"
| "orch_class_name (PObj c) = c"
| "orch_class_name _ = []"

definition store_metadata_item :: "string \<times> pyval \<Rightarrow> pydict \<Rightarrow> pydict" where
  "store_metadata_item item acc =
    (let key = strip (fst item)
     in if key = [] \<or> is_blocked_key key then acc else dict_set key (snd item) acc)"

text \<open>\<open>_sanitize_mapping\<close>, \<open>_sanitize_sequence\<close> and \<open>_sanitize_value\<close>; two keys that are equal after
  stripping are stored one over the other.\<close>

function (sequential) sanitize_orch_value :: "nat \<Rightarrow> pyval \<Rightarrow> pyval" where
  "sanitize_orch_value depth (PStr s) = PStr (normalize_text s)"
| "sanitize_orch_value depth (PDict d) =
    (if depth > max_metadata_depth then PDict []
     else PDict (fold store_metadata_item
          (List.map (\<lambda>(k, v). (k, sanitize_orch_value (depth + 1) v)) (take max_metadata_items d)) []))"
| "sanitize_orch_value depth (PList xs) =
    (if depth > max_metadata_depth then PList []
     else PList (List.map (sanitize_orch_value (depth + 1)) (take max_metadata_items xs)))"
| "sanitize_orch_value depth (PTuple xs) =
    (if depth > max_metadata_depth then PList []
     else PList (List.map (sanitize_orch_value (depth + 1)) (take max_metadata_items xs)))"
| "sanitize_orch_value depth PNone = PNone"
| "sanitize_orch_value depth (PBool b) = PBool b"
| "sanitize_orch_value depth (PInt i) = PInt i"
| "sanitize_orch_value depth (PFloat w) = PFloat w"
| "sanitize_orch_value depth v = PStr (orch_class_name v)"
  by pat_completeness auto
termination
  by (relation "measure (\<lambda>(depth, v). py_size v)") (auto intro: py_size_member dest!: in_set_takeD)

definition sanitize_metadata :: "pydict option \<Rightarrow> pydict" where
  "sanitize_metadata metadata =
    (case metadata of
       None \<Rightarrow> []
     | Some d \<Rightarrow> (case sanitize_orch_value 0 (PDict d) of PDict e \<Rightarrow> e | _ \<Rightarrow> []))"

section \<open>The error classes\<close>

datatype orch_error_class =
    OrchestrationErrorBase
  | OrchestrationDisabledError
  | UnknownUseCaseError
  | StrategyNotFoundError
  | StrategyDisabledError
  | StrategyPolicyDeniedError
  | StrategyFallbackNotAllowedError
  | AgentNotFoundError
  | AgentExecutionError
  | OrchestrationLimitExceededError
  | OrchestrationTimeoutError
  | OrchestrationCancelledError
  | OrchestrationDependencyUnavailableError
  | OrchestrationMalformedOutputError
  | OrchestrationPlanValidationError
  | OrchestrationIntentValidationError
  | OrchestrationContextBudgetExceededError

fun class_code :: "orch_error_class \<Rightarrow> string" where
  "class_code OrchestrationErrorBase = ''orchestration_error''"
| "class_code OrchestrationDisabledError = ''orchestration_disabled''"
| "class_code UnknownUseCaseError = ''unknown_usecase''"
| "class_code StrategyNotFoundError = ''strategy_not_found''"
| "class_code StrategyDisabledError = ''strategy_disabled''"
| "class_code StrategyPolicyDeniedError = ''strategy_policy_denied''"
| "class_code StrategyFallbackNotAllowedError = ''strategy_fallback_not_allowed''"
| "class_code AgentNotFoundError = ''agent_not_found''"
| "class_code AgentExecutionError = ''agent_execution_failed''"
| "class_code OrchestrationLimitExceededError = ''orchestration_limit_exceeded''"
| "class_code OrchestrationTimeoutError = ''orchestration_timeout''"
| "class_code OrchestrationCancelledError = ''orchestration_cancelled''"
| "class_code OrchestrationDependencyUnavailableError = ''dependency_unavailable''"
| "class_code OrchestrationMalformedOutputError = ''malformed_orchestration_output''"
| "class_code OrchestrationPlanValidationError = ''strategy_plan_invalid''"
| "class_code OrchestrationIntentValidationError = ''orchestration_intent_invalid''"
| "class_code OrchestrationContextBudgetExceededError = ''orchestration_context_budget_exceeded''"

fun class_message :: "orch_error_class \<Rightarrow> string" where
  "class_message OrchestrationErrorBase = ''The orchestration request failed.''"
| "class_message OrchestrationDisabledError = ''Orchestration is not available.''"
| "class_message UnknownUseCaseError = ''The requested use case is not available.''"
| "class_message StrategyNotFoundError = ''The requested orchestration strategy is not available.''"
| "class_message StrategyDisabledError = ''The selected orchestration strategy is disabled.''"
| "class_message StrategyPolicyDeniedError = ''The request was denied by orchestration policy.''"
| "class_message StrategyFallbackNotAllowedError = ''The strategy fallback path is not allowed.''"
| "class_message AgentNotFoundError = ''The selected agent is not available.''"
| "class_message AgentExecutionError = ''The agent could not complete the request.''"
| "class_message OrchestrationLimitExceededError = ''The request exceeded orchestration limits.''"
| "class_message OrchestrationTimeoutError = ''The orchestration request timed out.''"
| "class_message OrchestrationCancelledError = ''The orchestration request was cancelled.''"
| "class_message OrchestrationDependencyUnavailableError = ''A required orchestration dependency is unavailable.''"
| "class_message OrchestrationMalformedOutputError = ''The orchestration result could not be normalized safely.''"
| "class_message OrchestrationPlanValidationError = ''The planner returned an invalid bounded plan.''"
| "class_message OrchestrationIntentValidationError = ''The orchestration request contained an invalid tool or memory intent.''"
| "class_message OrchestrationContextBudgetExceededError = ''The orchestration context exceeded the configured budget.''"

definition class_retryable :: "orch_error_class \<Rightarrow> bool" where
  "class_retryable k \<longleftrightarrow>
    k \<in> {AgentExecutionError, OrchestrationTimeoutError, OrchestrationDependencyUnavailableError}"

record orchestration_error =
  oe_class :: orch_error_class
  oe_message :: string
  oe_retryable :: bool
  oe_metadata :: pydict

definition oe_code :: "orchestration_error \<Rightarrow> string" where
  "oe_code e = class_code (oe_class e)"

text \<open>The marks of a stack in a message: \<open>traceback\<close>, \<open>stack trace\<close>, \<open>file "\<close>.\<close>

definition stack_marks :: "string list" where
  "stack_marks = [''traceback'', ''stack trace'', ''file '' @ [CHR 0x22]]"

definition normalize_safe_message :: "string option \<Rightarrow> string \<Rightarrow> string" where
  "normalize_safe_message v fallback =
    (case v of
       None \<Rightarrow> fallback
     | Some s \<Rightarrow>
        (let normalized = strip s
         in if normalized = [] then fallback
            else if list_ex (contains (casefold normalized)) stack_marks then fallback
            else if length normalized \<le> 400 then normalized
            else rstrip (take 399 normalized) @ ''...''))"

text \<open>The constructor of every class.\<close>

definition orch_error ::
  "orch_error_class \<Rightarrow> string option \<Rightarrow> bool option \<Rightarrow> pydict option \<Rightarrow> orchestration_error" where
  "orch_error k message retryable metadata =
    \<lparr>oe_class = k, oe_message = normalize_safe_message message (class_message k),
     oe_retryable = (case retryable of None \<Rightarrow> class_retryable k | Some b \<Rightarrow> b),
     oe_metadata = sanitize_metadata metadata\<rparr>"

section \<open>Details\<close>

record error_detail =
  ed_code :: string
  ed_message :: string
  ed_retryable :: bool
  ed_metadata :: pydict

definition normalize_identifier :: "string \<Rightarrow> string res" where
  "normalize_identifier v = (if strip v = [] then Inl ValueError else Inr (strip v))"

definition new_error_detail :: "string \<Rightarrow> string \<Rightarrow> bool \<Rightarrow> pydict \<Rightarrow> error_detail res" where
  "new_error_detail code message retryable metadata =
    try_bind (normalize_identifier code) (\<lambda>c.
      Inr \<lparr>ed_code = c, ed_message = normalize_safe_message (Some message) ''The request failed.'',
           ed_retryable = retryable, ed_metadata = sanitize_metadata (Some metadata)\<rparr>)"

definition to_detail :: "orchestration_error \<Rightarrow> error_detail res" where
  "to_detail e = new_error_detail (oe_code e) (oe_message e) (oe_retryable e) (oe_metadata e)"

definition error_classes :: "orch_error_class list" where
  "error_classes =
    [OrchestrationDisabledError, UnknownUseCaseError, StrategyNotFoundError, StrategyDisabledError,
     StrategyPolicyDeniedError, StrategyFallbackNotAllowedError, AgentNotFoundError,
     AgentExecutionError, OrchestrationLimitExceededError, OrchestrationTimeoutError,
     OrchestrationCancelledError, OrchestrationDependencyUnavailableError,
     OrchestrationMalformedOutputError, OrchestrationPlanValidationError,
     OrchestrationIntentValidationError, OrchestrationContextBudgetExceededError]"

definition error_types_by_code :: "(string \<times> orch_error_class) list" where
  "error_types_by_code = List.map (\<lambda>k. (class_code k, k)) error_classes"

definition orchestration_error_from_detail :: "error_detail \<Rightarrow> orchestration_error" where
  "orchestration_error_from_detail d =
    orch_error
      (case map_of error_types_by_code (ed_code d) of Some k \<Rightarrow> k | None \<Rightarrow> AgentExecutionError)
      (Some (ed_message d)) (Some (ed_retryable d)) (Some (ed_metadata d))"

section \<open>Normalizing an exception\<close>

text \<open>The families the code distinguishes with \<open>isinstance\<close>, in the order of the tests. A class that
  belongs to two of them (\<open>ToolPolicyDeniedError\<close>) is in the one tested first.\<close>

datatype exn_family = PolicyDeniedFamily | ConfigurationFamily | GatewayFamily | OtherFamily

record foreign_exn =
  ex_family :: exn_family
  ex_text :: string
  ex_code :: "string option"
  ex_retryable :: "bool option"
  ex_metadata :: "pydict option"

datatype py_exn =
    OrchExn orchestration_error
  | CancelledExn
  | TimeoutExn
  | ForeignExn foreign_exn

definition error_source_code :: "foreign_exn \<Rightarrow> string option" where
  "error_source_code e =
    (case ex_code e of None \<Rightarrow> None | Some c \<Rightarrow> if strip c = [] then None else Some (strip c))"

definition policy_block_summary :: "string \<Rightarrow> string option" where
  "policy_block_summary message =
    (if strip message = [] then None
     else Some (normalize_safe_message (Some (strip message)) (class_message StrategyPolicyDeniedError)))"

definition error_metadata :: "foreign_exn \<Rightarrow> string option \<Rightarrow> bool \<Rightarrow> pydict" where
  "error_metadata e source_error_code policy_denied =
    (let m0 = sanitize_metadata (ex_metadata e);
         m1 = (case source_error_code of None \<Rightarrow> m0
               | Some c \<Rightarrow> dict_setdefault ''source_error_code'' (PStr c) m0)
     in if policy_denied then
          (let m2 = dict_set ''policy_denied'' (PBool True) m1
           in case policy_block_summary (ex_text e) of
                None \<Rightarrow> m2 | Some t \<Rightarrow> dict_setdefault ''policy_block_summary'' (PStr t) m2)
        else m1)"

definition normalize_orchestration_error :: "py_exn \<Rightarrow> orchestration_error" where
  "normalize_orchestration_error x =
    (case x of
       OrchExn e \<Rightarrow> e
     | CancelledExn \<Rightarrow> orch_error OrchestrationCancelledError None None None
     | TimeoutExn \<Rightarrow> orch_error OrchestrationTimeoutError None None None
     | ForeignExn e \<Rightarrow>
        (let source = error_source_code e
         in if ex_family e = PolicyDeniedFamily then
              orch_error StrategyPolicyDeniedError (Some (ex_text e)) None
                (Some (error_metadata e source True))
            else if (case source of None \<Rightarrow> False | Some c \<Rightarrow> suffix ''_policy_denied'' c) then
              orch_error AgentExecutionError (Some (ex_text e)) (ex_retryable e)
                (Some (error_metadata e source True))
            else if ex_family e = ConfigurationFamily then
              orch_error OrchestrationDisabledError None None None
            else if ex_family e = GatewayFamily then
              orch_error OrchestrationDependencyUnavailableError (Some (ex_text e)) (ex_retryable e)
                (Some (error_metadata e source False))
            else
              orch_error AgentExecutionError (Some (ex_text e)) (ex_retryable e)
                (Some (error_metadata e source False))))"

definition error_detail_from_exception :: "py_exn \<Rightarrow> error_detail res" where
  "error_detail_from_exception x = to_detail (normalize_orchestration_error x)"

section \<open>Sanitized metadata is clean and bounded\<close>

text \<open>At depth \<open>n\<close>: stripped keys, none empty or blocked, none twice; at most 32 items at every level and
  nothing below the depth limit; texts of at most 8002 characters.\<close>

function (sequential) clean_metadata :: "nat \<Rightarrow> pyval \<Rightarrow> bool" where
  "clean_metadata n (PStr s) = (length s \<le> max_text_chars + 2)"
| "clean_metadata n (PDict d) =
    (length d \<le> max_metadata_items \<and> (n > max_metadata_depth \<longrightarrow> d = [])
     \<and> distinct (List.map fst d)
     \<and> (\<forall>(k, v) \<in> set d. k \<noteq> [] \<and> strip k = k \<and> \<not> is_blocked_key k \<and> clean_metadata (n + 1) v))"
| "clean_metadata n (PList xs) =
    (length xs \<le> max_metadata_items \<and> (n > max_metadata_depth \<longrightarrow> xs = [])
     \<and> (\<forall>x \<in> set xs. clean_metadata (n + 1) x))"
| "clean_metadata n (PTuple xs) = False"
| "clean_metadata n (PSet xs) = False"
| "clean_metadata n (PBytes s) = False"
| "clean_metadata n (PObj c) = False"
| "clean_metadata n v = True"
  by pat_completeness auto
termination
  by (relation "measure (\<lambda>(depth, v). py_size v)") (auto intro: py_size_member)

text \<open>Class names are shorter than the limit of a text.\<close>

function (sequential) short_class_names :: "pyval \<Rightarrow> bool" where
  "short_class_names (PObj c) = (length c \<le> max_text_chars)"
| "short_class_names (PDict d) = (\<forall>(k, v) \<in> set d. short_class_names v)"
| "short_class_names (PList xs) = (\<forall>x \<in> set xs. short_class_names x)"
| "short_class_names (PTuple xs) = (\<forall>x \<in> set xs. short_class_names x)"
| "short_class_names v = True"
  by pat_completeness auto
termination
  by (relation "measure py_size") (auto intro: py_size_member)

lemma length_rstrip_le: "length (rstrip s) \<le> length s"
  unfolding rstrip_def by (metis length_dropWhile_le length_rev)

lemma length_normalize_text: "length (normalize_text v) \<le> max_text_chars + 2"
  using length_rstrip_le [of "take (max_text_chars - 1) (strip v)"]
  by (auto simp: normalize_text_def Let_def max_text_chars_def)

lemma length_dict_set_le: "length (dict_set k v d) \<le> Suc (length d)"
  by (induction d) (auto simp: dict_set_def)

lemma set_dict_set_subset: "set (dict_set k v d) \<subseteq> insert (k, v) (set d)"
  by (induction d) (auto simp: dict_set_def)

definition clean_items :: "(pyval \<Rightarrow> bool) \<Rightarrow> pydict \<Rightarrow> bool" where
  "clean_items Q d \<longleftrightarrow> distinct (List.map fst d)
    \<and> (\<forall>(k, v) \<in> set d. k \<noteq> [] \<and> strip k = k \<and> \<not> is_blocked_key k \<and> Q v)"

lemma store_metadata_item_clean:
  "clean_items Q acc \<Longrightarrow> Q (snd item) \<Longrightarrow> clean_items Q (store_metadata_item item acc)"
  using set_dict_set_subset [of "strip (fst item)" "snd item" acc]
  by (auto simp: clean_items_def store_metadata_item_def Let_def)

lemma fold_store_clean:
  "clean_items Q acc \<Longrightarrow> \<forall>(k, v) \<in> set items. Q v \<Longrightarrow> clean_items Q (fold store_metadata_item items acc)"
  by (induction items arbitrary: acc) (auto simp: store_metadata_item_clean)

lemma length_fold_store: "length (fold store_metadata_item items acc) \<le> length acc + length items"
proof (induction items arbitrary: acc)
  case (Cons i items)
  have "length (store_metadata_item i acc) \<le> length acc + 1"
    by (simp add: store_metadata_item_def Let_def length_dict_set_le)
  then show ?case using Cons [of "store_metadata_item i acc"] by simp
qed simp

lemma clean_items_Nil [simp]: "clean_items Q []"
  by (simp add: clean_items_def)

lemma clean_metadata_PDict:
  "clean_metadata n (PDict d) \<longleftrightarrow> length d \<le> max_metadata_items \<and> (n > max_metadata_depth \<longrightarrow> d = [])
     \<and> clean_items (clean_metadata (n + 1)) d"
  by (auto simp: clean_items_def)

lemma sanitize_orch_value_clean: "short_class_names v \<Longrightarrow> clean_metadata n (sanitize_orch_value n v)"
proof (induction n v rule: sanitize_orch_value.induct)
  case (2 n d)
  show ?case
  proof (cases "n > max_metadata_depth")
    case False
    let ?items = "List.map (\<lambda>(k, v). (k, sanitize_orch_value (n + 1) v)) (take max_metadata_items d)"
    have "clean_metadata (n + 1) (sanitize_orch_value (n + 1) v)"
      if "(k, v) \<in> set (take max_metadata_items d)" for k v
    proof -
      have "short_class_names v" using 2(2) that by (auto dest!: in_set_takeD)
      then show ?thesis using 2(1) [OF False that] by simp
    qed
    then have "\<forall>(k, v) \<in> set ?items. clean_metadata (n + 1) v" by auto
    then have "clean_items (clean_metadata (n + 1)) (fold store_metadata_item ?items [])"
      by (intro fold_store_clean) simp_all
    moreover have "length (fold store_metadata_item ?items []) \<le> max_metadata_items"
      using length_fold_store [of ?items "[]"] by simp
    ultimately show ?thesis using False by (simp only: clean_metadata_PDict sanitize_orch_value.simps if_False) simp
  qed (simp add: max_metadata_items_def)
next
  case (3 n xs)
  then show ?case by (simp add: max_metadata_items_def) (blast dest: in_set_takeD)
next
  case (4 n xs)
  then show ?case by (simp add: max_metadata_items_def) (blast dest: in_set_takeD)
qed (use length_normalize_text in \<open>auto simp: max_text_chars_def\<close>)

lemma sanitize_metadata_clean:
  assumes "short_class_names (PDict d)"
  shows "clean_metadata 0 (PDict (sanitize_metadata (Some d)))"
  using sanitize_orch_value_clean [OF assms, of 0]
  by (simp add: sanitize_metadata_def max_metadata_depth_def del: clean_metadata.simps(2))

section \<open>Safe messages\<close>

lemma startswith_prefix: "startswith s p \<longleftrightarrow> prefix p s"
  by (auto simp: startswith_append prefix_def)

lemma contains_sublist: "contains s p \<longleftrightarrow> sublist p s"
  by (induction s) (auto simp: startswith_prefix sublist_Cons_right)

lemma sublist_append_dots:
  assumes "sublist p (s @ ''...'')" "CHR ''.'' \<notin> set p" "p \<noteq> []"
  shows "sublist p s"
proof -
  obtain a b where "s @ ''...'' = (a @ p) @ b" using assms(1) by (auto simp: sublist_def)
  then obtain us where us: "s = (a @ p) @ us \<or> s @ us = a @ p \<and> ''...'' = us @ b"
    unfolding append_eq_append_conv2 by blast
  show ?thesis
  proof (cases "us = []")
    case True
    with us have "s = a @ p" by auto
    then show ?thesis by auto
  next
    case False
    have "set us \<subseteq> {CHR ''.''}" if "''...'' = us @ b" using that by (metis set_append Un_upper1 insert_absorb2 list.set(1,2))
    moreover have "last us = last p" if "s @ us = a @ p" using that False assms(3) by (metis last_appendR)
    ultimately have "\<not> (s @ us = a @ p \<and> ''...'' = us @ b)"
      using False assms(2,3) by (metis last_in_set singletonD subsetD)
    with us have "s = (a @ p) @ us" by blast
    then show ?thesis by (auto simp: sublist_def)
  qed
qed

lemma casefold_append: "casefold (s @ t) = casefold s @ casefold t"
  by (simp add: casefold_def)

lemma casefold_dots: "casefold ''...'' = ''...''"
  by (simp add: casefold_def lower_char_def)

lemma rstrip_prefix: "prefix (rstrip s) s"
proof -
  have "s = rstrip s @ rev (takeWhile py_space (rev s))"
    unfolding rstrip_def by (metis rev_append rev_rev_ident takeWhile_dropWhile_id)
  then show ?thesis by (metis prefixI)
qed

definition no_stack_marks :: "string \<Rightarrow> bool" where
  "no_stack_marks s \<longleftrightarrow> \<not> list_ex (contains (casefold s)) stack_marks"

lemma no_stack_marks_prefix:
  assumes "no_stack_marks s" "prefix t s"
  shows "no_stack_marks t"
proof -
  obtain u where "s = t @ u" using assms(2) by (auto simp: prefix_def)
  then show ?thesis
    using assms(1) by (auto simp: no_stack_marks_def casefold_append contains_sublist list_ex_iff
        intro: sublist_order.order.trans [OF _ sublist_append_rightI])
qed

lemma no_stack_marks_dots: "no_stack_marks s \<Longrightarrow> no_stack_marks (s @ ''...'')"
proof -
  assume clean: "no_stack_marks s"
  have marks: "CHR ''.'' \<notin> set p \<and> p \<noteq> []" if "p \<in> set stack_marks" for p
    using that by (auto simp: stack_marks_def)
  show ?thesis
    using clean sublist_append_dots marks
    unfolding no_stack_marks_def casefold_append casefold_dots list_ex_iff contains_sublist by blast
qed

lemma normalize_safe_message_safe:
  "no_stack_marks fallback \<Longrightarrow> no_stack_marks (normalize_safe_message m fallback)"
  by (auto simp: normalize_safe_message_def Let_def no_stack_marks_def [symmetric]
      intro: no_stack_marks_dots no_stack_marks_prefix [OF _ prefix_order.trans [OF rstrip_prefix take_is_prefix]]
      split: option.split)

lemma class_message_safe: "no_stack_marks (class_message k)"
  by (cases k) (simp_all add: no_stack_marks_def stack_marks_def casefold_def lower_char_def)

lemma length_normalize_safe_message:
  "length fallback \<le> 402 \<Longrightarrow> length (normalize_safe_message m fallback) \<le> 402"
  using length_rstrip_le by (fastforce simp: normalize_safe_message_def Let_def split: option.split
      intro: le_trans [OF length_rstrip_le])

section \<open>Errors and their details\<close>

lemma class_code_normal: "class_code k \<noteq> [] \<and> strip (class_code k) = class_code k"
  by (cases k) (simp_all add: strip_def rstrip_def py_space_def)

lemma class_code_inject: "class_code k = class_code k' \<longleftrightarrow> k = k'"
  by (cases k; cases k') simp_all

lemma error_type_of_code:
  "map_of error_types_by_code (class_code k) = (if k = OrchestrationErrorBase then None else Some k)"
  by (cases k) (simp_all add: error_types_by_code_def error_classes_def)

lemma to_detail_total: "\<exists>d. to_detail e = Inr d \<and> ed_code d = oe_code e \<and> ed_retryable d = oe_retryable e"
  using class_code_normal [of "oe_class e"]
  by (simp add: to_detail_def new_error_detail_def normalize_identifier_def oe_code_def)

text \<open>A message that the normalization leaves as it is.\<close>

definition settled_message :: "string \<Rightarrow> bool" where
  "settled_message m \<longleftrightarrow> m \<noteq> [] \<and> strip m = m \<and> no_stack_marks m \<and> length m \<le> 400"

lemma settled_message_fixed: "settled_message m \<Longrightarrow> normalize_safe_message (Some m) fallback = m"
  by (simp add: settled_message_def normalize_safe_message_def no_stack_marks_def Let_def)

text \<open>Metadata within the limits is left as it is.\<close>

function (sequential) short_texts :: "pyval \<Rightarrow> bool" where
  "short_texts (PStr s) = (strip s = s \<and> length s \<le> max_text_chars)"
| "short_texts (PDict d) = (\<forall>(k, v) \<in> set d. short_texts v)"
| "short_texts (PList xs) = (\<forall>x \<in> set xs. short_texts x)"
| "short_texts v = True"
  by pat_completeness auto
termination
  by (relation "measure py_size") (auto intro: py_size_member)

lemma dict_set_new: "k \<notin> fst ` set d \<Longrightarrow> dict_set k v d = d @ [(k, v)]"
  by (induction d) (auto simp: dict_set_def)

lemma fold_store_id:
  "clean_items Q (acc @ d) \<Longrightarrow> fold store_metadata_item d acc = acc @ d"
proof (induction d arbitrary: acc)
  case (Cons i d)
  have "store_metadata_item i acc = acc @ [i]"
    using Cons.prems by (auto simp: clean_items_def store_metadata_item_def dict_set_new)
  then show ?case using Cons by simp
qed simp

lemma sanitize_orch_value_id:
  "clean_metadata n v \<Longrightarrow> short_texts v \<Longrightarrow> sanitize_orch_value n v = v"
proof (induction n v rule: sanitize_orch_value.induct)
  case (2 n d)
  show ?case
  proof (cases "n > max_metadata_depth")
    case False
    have take: "take max_metadata_items d = d" using 2(2) by (simp add: clean_metadata_PDict)
    have items: "clean_items (clean_metadata (n + 1)) d" using 2(2) by (simp only: clean_metadata_PDict)
    have "sanitize_orch_value (n + 1) v = v" if "(k, v) \<in> set d" for k v
    proof -
      have "clean_metadata (n + 1) v" "short_texts v"
        using that items 2(3) by (auto simp: clean_items_def)
      then show ?thesis using 2(1) [OF False] that unfolding take by auto
    qed
    then have "List.map (\<lambda>(k, v). (k, sanitize_orch_value (n + 1) v)) d = d" by (auto intro!: map_idI)
    then show ?thesis using False fold_store_id [of _ "[]" d] items by (simp add: take)
  qed (use 2 in \<open>simp add: clean_metadata_PDict\<close>)
next
  case (3 n xs)
  then show ?case by (cases "n > max_metadata_depth") (auto intro!: map_idI)
qed (auto simp: normalize_text_def)

text \<open>An error within the limits comes back from its detail unchanged.\<close>

definition settled_error :: "orchestration_error \<Rightarrow> bool" where
  "settled_error e \<longleftrightarrow> oe_class e \<noteq> OrchestrationErrorBase \<and> settled_message (oe_message e)
     \<and> clean_metadata 0 (PDict (oe_metadata e)) \<and> short_texts (PDict (oe_metadata e))"

lemma sanitize_metadata_id:
  "clean_metadata 0 (PDict d) \<Longrightarrow> short_texts (PDict d) \<Longrightarrow> sanitize_metadata (Some d) = d"
  by (simp add: sanitize_metadata_def sanitize_orch_value_id del: sanitize_orch_value.simps)

lemma detail_round_trip:
  "settled_error e \<Longrightarrow> try_bind (to_detail e) (\<lambda>d. Inr (orchestration_error_from_detail d)) = Inr e"
  using class_code_normal [of "oe_class e"]
  by (simp add: settled_error_def to_detail_def new_error_detail_def normalize_identifier_def oe_code_def
      orchestration_error_from_detail_def orch_error_def error_type_of_code settled_message_fixed
      sanitize_metadata_id)

lemma detail_keeps_class:
  assumes "oe_class e \<noteq> OrchestrationErrorBase" "to_detail e = Inr d"
  shows "oe_class (orchestration_error_from_detail d) = oe_class e
    \<and> oe_retryable (orchestration_error_from_detail d) = oe_retryable e"
  using assms class_code_normal [of "oe_class e"]
  by (auto simp: to_detail_def new_error_detail_def normalize_identifier_def oe_code_def
      orchestration_error_from_detail_def orch_error_def error_type_of_code split: if_splits)

lemma orch_error_fields [simp]:
  "oe_class (orch_error k m r md) = k"
  "oe_retryable (orch_error k m None md) = class_retryable k"
  "oe_retryable (orch_error k m (Some b) md) = b"
  by (simp_all add: orch_error_def)

section \<open>Properties\<close>

text \<open>Sanitized metadata is clean and bounded: at every depth at most 32 items, none below the depth
  limit, stripped and distinct keys none of which names a secret or a raw payload, and texts of at
  most 8002 characters (the limit of 8000 is exceeded by two when a text is cut).\<close>

theorem sanitized_metadata_is_clean:
  assumes "short_class_names (PDict d)"
  shows "clean_metadata 0 (PDict (sanitize_metadata (Some d)))"
  by (rule sanitize_metadata_clean [OF assms])

theorem sanitized_metadata_is_clean_witness:
  "clean_metadata 0 (PDict (sanitize_metadata (Some
     [(''access_token'', PStr ''x''), ('' note '', PDict [(''raw_prompt'', PStr ''y''), (''n'', PInt 1)])])))"
  by (rule sanitized_metadata_is_clean) simp

lemma class_message_length: "length (class_message k) \<le> 402"
  by (cases k) simp_all

text \<open>No error shows a stack: the message of every orchestration error, whatever text it was raised
  with, has none of the marks \<open>traceback\<close>, \<open>stack trace\<close> and \<open>file "\<close> in any case of letters, and at most
  402 characters.\<close>

theorem error_messages_are_safe:
  "no_stack_marks (oe_message (orch_error k message retryable metadata))
   \<and> length (oe_message (orch_error k message retryable metadata)) \<le> 402"
  by (simp add: orch_error_def normalize_safe_message_safe class_message_safe
      length_normalize_safe_message class_message_length)

text \<open>C37. An error of a class of its own, with a message that is stripped, not blank, free of stack marks and at most 400
  characters long and with metadata that the sanitizer leaves as it is, survives the boundary: turned into its detail and
  rebuilt from it, it is the same error, class, message, retryable flag and metadata included. (The base class comes back as
  another one, and a longer message, which is kept with up to 402 characters, is cut again.)\<close>

theorem error_round_trip:
  assumes "settled_error e"
  shows "try_bind (to_detail e) (\<lambda>d. Inr (orchestration_error_from_detail d)) = Inr e"
  by (rule detail_round_trip [OF assms])

definition sample_error :: orchestration_error where
  "sample_error =
    \<lparr>oe_class = OrchestrationTimeoutError, oe_message = ''too slow'', oe_retryable = False,
     oe_metadata = [(''step'', PInt 3)]\<rparr>"

theorem error_round_trip_witness:
  "try_bind (to_detail sample_error) (\<lambda>d. Inr (orchestration_error_from_detail d)) = Inr sample_error"
proof (rule error_round_trip)
  have "no_stack_marks ''too slow'' \<and> strip ''too slow'' = ''too slow'' \<and> \<not> is_blocked_key ''step'' \<and> strip ''step'' = ''step''"
    by code_simp
  then show "settled_error sample_error"
    by (simp add: settled_error_def settled_message_def sample_error_def max_metadata_items_def
        max_metadata_depth_def)
qed

end
