(* ===== verification/Orch_Limits.thy ===== *)
theory Orch_Limits
  imports Orch_Errors Py_Text
begin

text \<open>
  The limit tracker of one orchestration turn (\<open>orchestration/limits.py\<close>): the effective limits, the
  counters, and the two deadlines. A reading of \<open>perf_counter\<close> is an argument in microseconds; a
  failing operation raises before it changes the tracker, so an error comes without a new state.

  The five \<open>consume_...\<close> methods share the contract \<open>counted_limit\<close>: its lemmas bound what a sequence of
  calls can consume, and it is interpreted once for each method.
\<close>

section \<open>State\<close>

record limit_tracker =
  lt_max_steps :: int
  lt_max_tool_calls :: int
  lt_max_memory_searches :: int
  lt_max_memory_writes :: int
  lt_max_llm_calls :: int
  lt_max_turn_duration_seconds :: int
  lt_max_stream_duration_seconds :: int
  lt_steps_used :: int
  lt_tool_calls_used :: int
  lt_memory_searches_used :: int
  lt_memory_writes_used :: int
  lt_llm_calls_used :: int
  lt_turns_started :: int
  lt_streams_started :: int
  lt_stream_events_emitted :: int
  lt_turn_started_at :: "int option"
  lt_stream_started_at :: "int option"

text \<open>The limits of \<open>OrchestrationSettings.defaults\<close> and the overrides of \<open>StrategySettings\<close>.\<close>

record default_limits =
  dl_max_steps :: int
  dl_max_tool_calls :: int
  dl_max_memory_searches :: int
  dl_max_memory_writes :: int
  dl_max_llm_calls :: int
  dl_max_turn_duration_seconds :: int
  dl_max_stream_duration_seconds :: int

record strategy_limits =
  sl_max_steps :: "int option"
  sl_max_tool_calls :: "int option"
  sl_max_memory_searches :: "int option"
  sl_max_memory_writes :: "int option"
  sl_max_llm_calls :: "int option"

definition coalesce_limit :: "int option \<Rightarrow> int \<Rightarrow> int" where
  "coalesce_limit override dflt =
    (case override of Some n \<Rightarrow> if n > 0 then n else dflt | None \<Rightarrow> dflt)"

definition tracker_from_settings :: "default_limits \<Rightarrow> strategy_limits \<Rightarrow> limit_tracker" where
  "tracker_from_settings dl sl =
    \<lparr>lt_max_steps = coalesce_limit (sl_max_steps sl) (dl_max_steps dl),
     lt_max_tool_calls = coalesce_limit (sl_max_tool_calls sl) (dl_max_tool_calls dl),
     lt_max_memory_searches = coalesce_limit (sl_max_memory_searches sl) (dl_max_memory_searches dl),
     lt_max_memory_writes = coalesce_limit (sl_max_memory_writes sl) (dl_max_memory_writes dl),
     lt_max_llm_calls = coalesce_limit (sl_max_llm_calls sl) (dl_max_llm_calls dl),
     lt_max_turn_duration_seconds = dl_max_turn_duration_seconds dl,
     lt_max_stream_duration_seconds = dl_max_stream_duration_seconds dl,
     lt_steps_used = 0, lt_tool_calls_used = 0, lt_memory_searches_used = 0,
     lt_memory_writes_used = 0, lt_llm_calls_used = 0, lt_turns_started = 0,
     lt_streams_started = 0, lt_stream_events_emitted = 0,
     lt_turn_started_at = None, lt_stream_started_at = None\<rparr>"

section \<open>Operations\<close>

definition mark_turn_started :: "int \<Rightarrow> limit_tracker \<Rightarrow> limit_tracker" where
  "mark_turn_started now t =
    t\<lparr>lt_turns_started := lt_turns_started t + 1,
      lt_turn_started_at := (case lt_turn_started_at t of None \<Rightarrow> Some now | Some s \<Rightarrow> Some s)\<rparr>"

definition mark_stream_started :: "int \<Rightarrow> limit_tracker \<Rightarrow> limit_tracker" where
  "mark_stream_started now t =
    t\<lparr>lt_streams_started := lt_streams_started t + 1,
      lt_stream_started_at := (case lt_stream_started_at t of None \<Rightarrow> Some now | Some s \<Rightarrow> Some s)\<rparr>"

definition past_deadline :: "int option \<Rightarrow> int \<Rightarrow> int \<Rightarrow> bool" where
  "past_deadline started max_seconds now =
    (case started of None \<Rightarrow> False | Some s \<Rightarrow> now - s > 1000000 * max_seconds)"

definition check_turn_duration :: "int \<Rightarrow> limit_tracker \<Rightarrow> orchestration_error + unit" where
  "check_turn_duration now t =
    (if past_deadline (lt_turn_started_at t) (lt_max_turn_duration_seconds t) now
     then Inl (orch_error OrchestrationTimeoutError
            (Some (''The orchestration request exceeded the configured max turn duration (''
                   @ show_int (lt_max_turn_duration_seconds t) @ ''s).'')) None None)
     else Inr ())"

definition check_stream_duration :: "int \<Rightarrow> limit_tracker \<Rightarrow> orchestration_error + unit" where
  "check_stream_duration now t =
    (if past_deadline (lt_stream_started_at t) (lt_max_stream_duration_seconds t) now
     then Inl (orch_error OrchestrationTimeoutError
            (Some (''The orchestration request exceeded the configured max stream duration (''
                   @ show_int (lt_max_stream_duration_seconds t) @ ''s).'')) None None)
     else Inr ())"

definition mark_stream_event :: "int \<Rightarrow> limit_tracker \<Rightarrow> orchestration_error + limit_tracker" where
  "mark_stream_event now t =
    (case check_stream_duration now t of
       Inl e \<Rightarrow> Inl e
     | Inr _ \<Rightarrow> Inr (t\<lparr>lt_stream_events_emitted := lt_stream_events_emitted t + 1\<rparr>))"

definition limit_error :: "string \<Rightarrow> int \<Rightarrow> orchestration_error" where
  "limit_error what limit =
    orch_error OrchestrationLimitExceededError
      (Some (''The request exceeded the configured '' @ what @ '' ('' @ show_int limit @ '').'')) None None"

definition consume_step :: "int \<Rightarrow> int \<Rightarrow> limit_tracker \<Rightarrow> orchestration_error + limit_tracker" where
  "consume_step now amount t =
    (case check_turn_duration now t of
       Inl e \<Rightarrow> Inl e
     | Inr _ \<Rightarrow>
        (let next_value = lt_steps_used t + amount
         in if next_value > lt_max_steps t then Inl (limit_error ''max step limit'' (lt_max_steps t))
            else Inr (t\<lparr>lt_steps_used := next_value\<rparr>)))"

definition consume_tool_call :: "int \<Rightarrow> int \<Rightarrow> limit_tracker \<Rightarrow> orchestration_error + limit_tracker" where
  "consume_tool_call now amount t =
    (case check_turn_duration now t of
       Inl e \<Rightarrow> Inl e
     | Inr _ \<Rightarrow>
        (let next_value = lt_tool_calls_used t + amount
         in if next_value > lt_max_tool_calls t then Inl (limit_error ''max tool call limit'' (lt_max_tool_calls t))
            else Inr (t\<lparr>lt_tool_calls_used := next_value\<rparr>)))"

definition consume_memory_search :: "int \<Rightarrow> int \<Rightarrow> limit_tracker \<Rightarrow> orchestration_error + limit_tracker" where
  "consume_memory_search now amount t =
    (case check_turn_duration now t of
       Inl e \<Rightarrow> Inl e
     | Inr _ \<Rightarrow>
        (let next_value = lt_memory_searches_used t + amount
         in if next_value > lt_max_memory_searches t then Inl (limit_error ''max memory search limit'' (lt_max_memory_searches t))
            else Inr (t\<lparr>lt_memory_searches_used := next_value\<rparr>)))"

definition consume_memory_write :: "int \<Rightarrow> int \<Rightarrow> limit_tracker \<Rightarrow> orchestration_error + limit_tracker" where
  "consume_memory_write now amount t =
    (case check_turn_duration now t of
       Inl e \<Rightarrow> Inl e
     | Inr _ \<Rightarrow>
        (let next_value = lt_memory_writes_used t + amount
         in if next_value > lt_max_memory_writes t then Inl (limit_error ''max memory write limit'' (lt_max_memory_writes t))
            else Inr (t\<lparr>lt_memory_writes_used := next_value\<rparr>)))"

definition consume_llm_call :: "int \<Rightarrow> int \<Rightarrow> limit_tracker \<Rightarrow> orchestration_error + limit_tracker" where
  "consume_llm_call now amount t =
    (case check_turn_duration now t of
       Inl e \<Rightarrow> Inl e
     | Inr _ \<Rightarrow>
        (let next_value = lt_llm_calls_used t + amount
         in if next_value > lt_max_llm_calls t then Inl (limit_error ''max LLM call limit'' (lt_max_llm_calls t))
            else Inr (t\<lparr>lt_llm_calls_used := next_value\<rparr>)))"

definition tracker_as_dict :: "limit_tracker \<Rightarrow> (string \<times> int) list" where
  "tracker_as_dict t =
    [(''max_steps'', lt_max_steps t), (''max_tool_calls'', lt_max_tool_calls t),
     (''max_memory_searches'', lt_max_memory_searches t), (''max_memory_writes'', lt_max_memory_writes t),
     (''max_llm_calls'', lt_max_llm_calls t),
     (''max_turn_duration_seconds'', lt_max_turn_duration_seconds t),
     (''max_stream_duration_seconds'', lt_max_stream_duration_seconds t),
     (''steps_used'', lt_steps_used t), (''tool_calls_used'', lt_tool_calls_used t),
     (''memory_searches_used'', lt_memory_searches_used t),
     (''memory_writes_used'', lt_memory_writes_used t), (''llm_calls_used'', lt_llm_calls_used t),
     (''turns_started'', lt_turns_started t), (''streams_started'', lt_streams_started t),
     (''stream_events_emitted'', lt_stream_events_emitted t)]"

section \<open>The contract of a counted limit\<close>

definition turn_open :: "int \<Rightarrow> limit_tracker \<Rightarrow> bool" where
  "turn_open now t \<longleftrightarrow> \<not> past_deadline (lt_turn_started_at t) (lt_max_turn_duration_seconds t) now"

lemma check_turn_duration_cases:
  "turn_open now t \<Longrightarrow> check_turn_duration now t = Inr ()"
  "\<not> turn_open now t \<Longrightarrow> \<exists>e. check_turn_duration now t = Inl e \<and> oe_class e = OrchestrationTimeoutError"
  by (simp_all add: turn_open_def check_turn_duration_def)

locale counted_limit =
  fixes consume :: "int \<Rightarrow> int \<Rightarrow> limit_tracker \<Rightarrow> orchestration_error + limit_tracker"
    and used :: "limit_tracker \<Rightarrow> int"
    and limit :: "limit_tracker \<Rightarrow> int"
  assumes counts: "consume now n t = Inr t' \<Longrightarrow>
      used t' = used t + n \<and> used t' \<le> limit t \<and> limit t' = limit t"
    and keeps_deadline: "consume now n t = Inr t' \<Longrightarrow> turn_open m t' = turn_open m t"
    and accepts: "turn_open now t \<Longrightarrow> used t + n \<le> limit t \<Longrightarrow> \<exists>t'. consume now n t = Inr t'"
    and rejects: "consume now n t = Inl e \<Longrightarrow>
      \<not> turn_open now t \<and> oe_class e = OrchestrationTimeoutError
      \<or> turn_open now t \<and> used t + n > limit t \<and> oe_class e = OrchestrationLimitExceededError"
begin

text \<open>A sequence of calls, given by the reading of the clock and the amount of each, that stops at the
  first error.\<close>

fun consume_all :: "(int \<times> int) list \<Rightarrow> limit_tracker \<Rightarrow> orchestration_error + limit_tracker" where
  "consume_all [] t = Inr t"
| "consume_all ((now, n) # calls) t =
    (case consume now n t of Inl e \<Rightarrow> Inl e | Inr t' \<Rightarrow> consume_all calls t')"

lemma consume_all_counts:
  "consume_all calls t = Inr t' \<Longrightarrow>
    used t' = used t + sum_list (List.map snd calls) \<and> limit t' = limit t
    \<and> (calls \<noteq> [] \<longrightarrow> used t' \<le> limit t)"
proof (induction calls arbitrary: t)
  case (Cons c calls)
  obtain now n where c: "c = (now, n)" by (cases c)
  with Cons.prems obtain t1 where t1: "consume now n t = Inr t1" "consume_all calls t1 = Inr t'"
    by (auto split: sum.splits)
  from Cons.IH [OF t1(2)] counts [OF t1(1)] t1(2) show ?case by (cases "calls = []") (auto simp: c)
qed simp

text \<open>Within the turn, unit calls go through exactly as long as the budget lasts.\<close>

lemma unit_calls_accepted:
  assumes "\<forall>now \<in> set readings. turn_open now t" "used t + int (length readings) \<le> limit t"
  shows "\<exists>t'. consume_all (List.map (\<lambda>now. (now, 1)) readings) t = Inr t'"
  using assms
proof (induction readings arbitrary: t)
  case (Cons now readings)
  have "turn_open now t" "used t + 1 \<le> limit t" using Cons.prems by auto
  from accepts [OF this] obtain t1 where t1: "consume now 1 t = Inr t1" by blast
  have "\<forall>m \<in> set readings. turn_open m t1" using Cons.prems(1) keeps_deadline [OF t1] by auto
  moreover have "used t1 + int (length readings) \<le> limit t1" using Cons.prems(2) counts [OF t1] by auto
  ultimately show ?case using Cons.IH [of t1] t1 by simp
qed simp

lemma unit_calls_bounded:
  assumes "consume_all (List.map (\<lambda>now. (now, 1)) readings) t = Inr t'" "readings \<noteq> []"
  shows "used t + int (length readings) \<le> limit t"
  using consume_all_counts [OF assms(1)] assms(2) by (simp add: sum_list_triv o_def)

lemma unit_calls_iff:
  assumes "\<forall>now \<in> set readings. turn_open now t" "readings \<noteq> []"
  shows "(\<exists>t'. consume_all (List.map (\<lambda>now. (now, 1)) readings) t = Inr t') \<longleftrightarrow>
    used t + int (length readings) \<le> limit t"
  using unit_calls_accepted [OF assms(1)] unit_calls_bounded [OF _ assms(2)] by blast

end

lemmas consume_defs = consume_step_def consume_tool_call_def consume_memory_search_def
  consume_memory_write_def consume_llm_call_def

lemma consume_law:
  assumes "\<And>now n t. consume now n t =
      (case check_turn_duration now t of
         Inl e \<Rightarrow> Inl e
       | Inr _ \<Rightarrow> if used t + n > limit t then Inl (limit_error what (limit t)) else Inr (upd (used t + n) t))"
    and "\<And>v t. used (upd v t) = v" "\<And>v t. limit (upd v t) = limit t"
    and "\<And>v t m. turn_open m (upd v t) = turn_open m t"
  shows "counted_limit consume used limit"
proof
  fix now n t t' assume "consume now n t = Inr t'"
  then have upd: "t' = upd (used t + n) t" "used t + n \<le> limit t"
    by (auto simp: assms(1) split: sum.splits if_splits)
  then show "used t' = used t + n \<and> used t' \<le> limit t \<and> limit t' = limit t" by (simp add: assms(2,3))
  show "turn_open m t' = turn_open m t" for m by (simp add: upd assms(4))
next
  fix now n t assume "turn_open now t" "used t + n \<le> limit t"
  then show "\<exists>t'. consume now n t = Inr t'" by (simp add: assms(1) check_turn_duration_cases(1))
next
  fix now n t e assume err: "consume now n t = Inl e"
  show "\<not> turn_open now t \<and> oe_class e = OrchestrationTimeoutError
      \<or> turn_open now t \<and> used t + n > limit t \<and> oe_class e = OrchestrationLimitExceededError"
  proof (cases "turn_open now t")
    case True
    then show ?thesis using err
      by (auto simp: assms(1) check_turn_duration_cases(1) limit_error_def split: if_splits)
  next
    case False
    then show ?thesis using err check_turn_duration_cases(2) [OF False] by (auto simp: assms(1))
  qed
qed

interpretation steps_limit: counted_limit consume_step lt_steps_used lt_max_steps
  by (rule consume_law [where upd = "\<lambda>v t. t\<lparr>lt_steps_used := v\<rparr>" and what = "''max step limit''"])
     (simp_all add: consume_step_def turn_open_def Let_def split: sum.split)

interpretation tool_calls_limit: counted_limit consume_tool_call lt_tool_calls_used lt_max_tool_calls
  by (rule consume_law [where upd = "\<lambda>v t. t\<lparr>lt_tool_calls_used := v\<rparr>" and what = "''max tool call limit''"])
     (simp_all add: consume_tool_call_def turn_open_def Let_def split: sum.split)

interpretation memory_searches_limit: counted_limit consume_memory_search lt_memory_searches_used lt_max_memory_searches
  by (rule consume_law [where upd = "\<lambda>v t. t\<lparr>lt_memory_searches_used := v\<rparr>" and what = "''max memory search limit''"])
     (simp_all add: consume_memory_search_def turn_open_def Let_def split: sum.split)

interpretation memory_writes_limit: counted_limit consume_memory_write lt_memory_writes_used lt_max_memory_writes
  by (rule consume_law [where upd = "\<lambda>v t. t\<lparr>lt_memory_writes_used := v\<rparr>" and what = "''max memory write limit''"])
     (simp_all add: consume_memory_write_def turn_open_def Let_def split: sum.split)

interpretation llm_calls_limit: counted_limit consume_llm_call lt_llm_calls_used lt_max_llm_calls
  by (rule consume_law [where upd = "\<lambda>v t. t\<lparr>lt_llm_calls_used := v\<rparr>" and what = "''max LLM call limit''"])
     (simp_all add: consume_llm_call_def turn_open_def Let_def split: sum.split)

section \<open>A turn in any order of operations\<close>

inductive tracker_step :: "limit_tracker \<Rightarrow> limit_tracker \<Rightarrow> bool" where
  turn_started: "tracker_step t (mark_turn_started now t)"
| stream_started: "tracker_step t (mark_stream_started now t)"
| stream_event: "mark_stream_event now t = Inr t' \<Longrightarrow> tracker_step t t'"
| step: "consume_step now n t = Inr t' \<Longrightarrow> tracker_step t t'"
| tool_call: "consume_tool_call now n t = Inr t' \<Longrightarrow> tracker_step t t'"
| memory_search: "consume_memory_search now n t = Inr t' \<Longrightarrow> tracker_step t t'"
| memory_write: "consume_memory_write now n t = Inr t' \<Longrightarrow> tracker_step t t'"
| llm_call: "consume_llm_call now n t = Inr t' \<Longrightarrow> tracker_step t t'"

definition within_limits :: "limit_tracker \<Rightarrow> bool" where
  "within_limits t \<longleftrightarrow>
    lt_steps_used t \<le> max 0 (lt_max_steps t) \<and> lt_tool_calls_used t \<le> max 0 (lt_max_tool_calls t)
    \<and> lt_memory_searches_used t \<le> max 0 (lt_max_memory_searches t)
    \<and> lt_memory_writes_used t \<le> max 0 (lt_max_memory_writes t)
    \<and> lt_llm_calls_used t \<le> max 0 (lt_max_llm_calls t)"

text \<open>The limits, which no operation changes.\<close>

definition limits_of :: "limit_tracker \<Rightarrow> int list" where
  "limits_of t =
    [lt_max_steps t, lt_max_tool_calls t, lt_max_memory_searches t, lt_max_memory_writes t,
     lt_max_llm_calls t, lt_max_turn_duration_seconds t, lt_max_stream_duration_seconds t]"

lemma consume_results:
  "consume_step now n t = Inr t' \<Longrightarrow>
    t' = t\<lparr>lt_steps_used := lt_steps_used t + n\<rparr> \<and> lt_steps_used t + n \<le> lt_max_steps t"
  "consume_tool_call now n t = Inr t' \<Longrightarrow>
    t' = t\<lparr>lt_tool_calls_used := lt_tool_calls_used t + n\<rparr> \<and> lt_tool_calls_used t + n \<le> lt_max_tool_calls t"
  "consume_memory_search now n t = Inr t' \<Longrightarrow>
    t' = t\<lparr>lt_memory_searches_used := lt_memory_searches_used t + n\<rparr>
    \<and> lt_memory_searches_used t + n \<le> lt_max_memory_searches t"
  "consume_memory_write now n t = Inr t' \<Longrightarrow>
    t' = t\<lparr>lt_memory_writes_used := lt_memory_writes_used t + n\<rparr>
    \<and> lt_memory_writes_used t + n \<le> lt_max_memory_writes t"
  "consume_llm_call now n t = Inr t' \<Longrightarrow>
    t' = t\<lparr>lt_llm_calls_used := lt_llm_calls_used t + n\<rparr> \<and> lt_llm_calls_used t + n \<le> lt_max_llm_calls t"
  by (simp_all add: consume_defs Let_def split: sum.splits if_splits)

lemma stream_event_result:
  "mark_stream_event now t = Inr t' \<Longrightarrow>
    t' = t\<lparr>lt_stream_events_emitted := lt_stream_events_emitted t + 1\<rparr>"
  by (simp add: mark_stream_event_def Let_def split: sum.splits if_splits)

lemma tracker_step_keeps:
  "tracker_step t t' \<Longrightarrow> within_limits t \<Longrightarrow> within_limits t' \<and> limits_of t' = limits_of t"
  by (induction rule: tracker_step.induct)
     (auto dest!: consume_results stream_event_result
       simp: mark_turn_started_def mark_stream_started_def within_limits_def limits_of_def)

lemma tracker_steps_keep:
  "tracker_step\<^sup>*\<^sup>* t t' \<Longrightarrow> within_limits t \<Longrightarrow> within_limits t' \<and> limits_of t' = limits_of t"
  by (induction rule: rtranclp_induct) (auto dest: tracker_step_keeps)

lemma within_limits_start: "within_limits (tracker_from_settings dl sl)"
  by (simp add: within_limits_def tracker_from_settings_def)

section \<open>Properties\<close>

text \<open>C32. A turn stays within its limits: from a fresh tracker, after any sequence of operations that
  succeeded, every counter is at most its limit (or 0), and the limits are those of the settings.\<close>

theorem turn_stays_within_limits:
  assumes "tracker_step\<^sup>*\<^sup>* (tracker_from_settings dl sl) t"
  shows "lt_steps_used t \<le> max 0 (coalesce_limit (sl_max_steps sl) (dl_max_steps dl))
    \<and> lt_tool_calls_used t \<le> max 0 (coalesce_limit (sl_max_tool_calls sl) (dl_max_tool_calls dl))
    \<and> lt_memory_searches_used t \<le> max 0 (coalesce_limit (sl_max_memory_searches sl) (dl_max_memory_searches dl))
    \<and> lt_memory_writes_used t \<le> max 0 (coalesce_limit (sl_max_memory_writes sl) (dl_max_memory_writes dl))
    \<and> lt_llm_calls_used t \<le> max 0 (coalesce_limit (sl_max_llm_calls sl) (dl_max_llm_calls dl))"
  using tracker_steps_keep [OF assms within_limits_start]
  by (auto simp: within_limits_def limits_of_def tracker_from_settings_def)

definition sample_limits :: default_limits where
  "sample_limits =
    \<lparr>dl_max_steps = 8, dl_max_tool_calls = 2, dl_max_memory_searches = 2, dl_max_memory_writes = 1,
     dl_max_llm_calls = 1, dl_max_turn_duration_seconds = 60, dl_max_stream_duration_seconds = 60\<rparr>"

definition no_overrides :: strategy_limits where
  "no_overrides =
    \<lparr>sl_max_steps = Some 3, sl_max_tool_calls = None, sl_max_memory_searches = None,
     sl_max_memory_writes = None, sl_max_llm_calls = Some 0\<rparr>"

definition sample_tracker :: limit_tracker where
  "sample_tracker = mark_turn_started 5 (tracker_from_settings sample_limits no_overrides)"

lemmas sample_tracker_defs = sample_tracker_def mark_turn_started_def tracker_from_settings_def
  sample_limits_def no_overrides_def coalesce_limit_def

theorem turn_stays_within_limits_witness:
  "\<exists>t. tracker_step\<^sup>*\<^sup>* (tracker_from_settings sample_limits no_overrides) t \<and> lt_llm_calls_used t = 1
    \<and> lt_llm_calls_used t \<le> max 0 (coalesce_limit (sl_max_llm_calls no_overrides) (dl_max_llm_calls sample_limits))"
proof -
  have step1: "tracker_step (tracker_from_settings sample_limits no_overrides) sample_tracker"
    unfolding sample_tracker_def by (rule tracker_step.turn_started)
  have call: "consume_llm_call 6 1 sample_tracker = Inr (sample_tracker\<lparr>lt_llm_calls_used := 1\<rparr>)"
    by (simp add: consume_llm_call_def check_turn_duration_def past_deadline_def sample_tracker_defs)
  from step1 tracker_step.llm_call [OF call]
  have steps: "tracker_step\<^sup>*\<^sup>* (tracker_from_settings sample_limits no_overrides)
      (sample_tracker\<lparr>lt_llm_calls_used := 1\<rparr>)"
    by (meson rtranclp.rtrancl_into_rtrancl rtranclp.rtrancl_refl)
  from turn_stays_within_limits [OF steps] steps show ?thesis by (intro exI conjI) auto
qed

text \<open>The budget of LLM calls is exact: within the turn, a sequence of single calls goes through if and
  only if it fits in what is left, so neither is a call lost nor one too many granted.\<close>

theorem llm_call_budget_is_exact:
  assumes "\<forall>now \<in> set readings. turn_open now t" "readings \<noteq> []"
  shows "(\<exists>t'. llm_calls_limit.consume_all (List.map (\<lambda>now. (now, 1)) readings) t = Inr t') \<longleftrightarrow>
    lt_llm_calls_used t + int (length readings) \<le> lt_max_llm_calls t"
  by (rule llm_calls_limit.unit_calls_iff [OF assms])

theorem llm_call_budget_is_exact_witness:
  "\<not> (\<exists>t'. llm_calls_limit.consume_all (List.map (\<lambda>now. (now, 1)) [6, 7]) sample_tracker = Inr t')"
  using llm_call_budget_is_exact [of "[6, 7]" sample_tracker]
  by (simp add: turn_open_def past_deadline_def sample_tracker_defs)

end
