(* ===== verification/Orch_Fallback.thy ===== *)
theory Orch_Fallback
  imports Orch_Errors Policy_Service Policy_Requests
begin

text \<open>
  Fallback and cancellation of a strategy (\<open>orchestration/fallback.py\<close>, \<open>orchestration/cancellation.py\<close>):
  an error is classified, and a fallback that the classification admits still needs the consent of
  the policy service. \<open>context.policy\<close> is the policy service of the model, threaded as a state.
\<close>

section \<open>Cancellation\<close>

text \<open>What the code sees of a token: an \<open>asyncio.Event\<close>, a mapping, or an object with up to three
  members; calling a member yields a value or raises \<open>TypeError\<close>.\<close>

datatype token_member = Absent | BoolMember bool | CallMember "pyval option" | OtherMember

datatype cancel_token =
    NoToken
  | EventToken bool
  | MappingToken pydict
  | ObjectToken token_member token_member token_member

fun first_member :: "token_member list \<Rightarrow> bool" where
  "first_member [] = False"
| "first_member (CallMember (Some v) # ms) = py_truth v"
| "first_member (BoolMember b # ms) = b"
| "first_member (m # ms) = first_member ms"

text \<open>The members are \<open>is_cancelled\<close>, \<open>cancelled\<close> and \<open>is_set\<close>, in the order in which they are tried.\<close>

fun is_cancellation_requested :: "cancel_token \<Rightarrow> bool" where
  "is_cancellation_requested NoToken = False"
| "is_cancellation_requested (EventToken b) = b"
| "is_cancellation_requested (MappingToken d) =
    (py_truth (dict_get d ''cancelled'') \<or> py_truth (dict_get d ''is_cancelled'')
     \<or> py_truth (dict_get d ''is_set''))"
| "is_cancellation_requested (ObjectToken a b c) = first_member [a, b, c]"

definition raise_if_cancelled :: "cancel_token \<Rightarrow> orchestration_error + unit" where
  "raise_if_cancelled token =
    (if is_cancellation_requested token then Inl (orch_error OrchestrationCancelledError None None None)
     else Inr ())"

section \<open>Classification\<close>

definition degradable_error_codes :: "string list" where
  "degradable_error_codes =
    [''dependency_unavailable'', ''orchestration_timeout'', ''agent_execution_failed'', ''agent_not_found'']"

record fallback_decision =
  fd_allowed :: bool
  fd_reason :: string
  fd_error :: orchestration_error
  fd_failed_strategy :: "string option"
  fd_fallback_strategy :: "string option"
  fd_metadata :: pydict

definition normalize_reason :: "string \<Rightarrow> string res" where
  "normalize_reason v = (if strip v = [] then Inl ValueError else Inr (strip v))"

text \<open>The constructor with its \<open>__post_init__\<close>.\<close>

definition new_fallback_decision ::
  "bool \<Rightarrow> string \<Rightarrow> orchestration_error \<Rightarrow> string option \<Rightarrow> string option \<Rightarrow> pydict \<Rightarrow> fallback_decision res" where
  "new_fallback_decision allowed reason error failed fallback metadata =
    try_bind (normalize_reason reason) (\<lambda>rs.
      Inr \<lparr>fd_allowed = allowed, fd_reason = rs, fd_error = error,
           fd_failed_strategy = norm_text failed, fd_fallback_strategy = norm_text fallback,
           fd_metadata = sanitize_metadata (Some metadata)\<rparr>)"

definition decide_fallback ::
  "py_exn \<Rightarrow> string option \<Rightarrow> string option \<Rightarrow> bool \<Rightarrow> bool \<Rightarrow> fallback_decision res" where
  "decide_fallback error failed_strategy fallback_strategy side_effect_pending response_started =
    (let normalized = normalize_orchestration_error error;
         failed = norm_text failed_strategy;
         fallback = norm_text fallback_strategy;
         metadata =
           [(''failed_strategy'', py_opt_str failed), (''fallback_strategy'', py_opt_str fallback),
            (''error_code'', PStr (oe_code normalized)), (''retryable'', PBool (oe_retryable normalized))];
         blocked = (\<lambda>reason. new_fallback_decision False reason normalized failed fallback
                      (dict_set ''fallback_blocked'' (PBool True) metadata))
     in if fallback = None then blocked ''fallback_not_configured''
        else if failed \<noteq> None \<and> failed = fallback then blocked ''fallback_loop''
        else if oe_class normalized = StrategyPolicyDeniedError then blocked ''policy_denied''
        else if oe_class normalized = OrchestrationCancelledError then blocked ''cancelled''
        else if side_effect_pending then blocked ''side_effect_pending''
        else if response_started then blocked ''response_started''
        else if oe_retryable normalized \<or> oe_code normalized \<in> set degradable_error_codes then
          new_fallback_decision True ''degradable_failure'' normalized failed fallback
            (dict_set ''fallback_blocked'' (PBool False) metadata)
        else blocked ''non_degradable_failure'')"

section \<open>Enforcement\<close>

definition blocked_by_policy :: "fallback_decision \<Rightarrow> string \<Rightarrow> fallback_decision res" where
  "blocked_by_policy d reason =
    new_fallback_decision False reason (fd_error d) (fd_failed_strategy d) (fd_fallback_strategy d)
      (dict_set ''fallback_blocked'' (PBool True) (fd_metadata d))"

definition fallback_request ::
  "orchestration_context \<Rightarrow> fallback_decision \<Rightarrow> bool \<Rightarrow> bool \<Rightarrow> bool \<Rightarrow> policy_request" where
  "fallback_request c d side_effect_pending response_started broader =
    build_fallback_policy_request c (fd_failed_strategy d) (fd_fallback_strategy d)
      (oe_code (fd_error d)) (oe_class (fd_error d) = StrategyPolicyDeniedError)
      side_effect_pending response_started broader"

definition enforce_fallback_policy ::
  "py_texts \<Rightarrow> clock_readings \<Rightarrow> policy_service \<Rightarrow> orchestration_context \<Rightarrow> py_exn \<Rightarrow> string option \<Rightarrow>
   string option \<Rightarrow> bool \<Rightarrow> bool \<Rightarrow> bool \<Rightarrow> fallback_decision res \<times> policy_service" where
  "enforce_fallback_policy tx ck sv c error failed_strategy fallback_strategy side_effect_pending
     response_started fallback_requires_broader_permissions =
    (case decide_fallback error failed_strategy fallback_strategy side_effect_pending response_started of
       Inl e \<Rightarrow> (Inl e, sv)
     | Inr d \<Rightarrow>
        (if \<not> fd_allowed d \<or> fd_fallback_strategy d = None then (Inr d, sv)
         else
           (let request = fallback_request c d side_effect_pending response_started
                            fallback_requires_broader_permissions
            in case service_require_allowed tx ck sv request c of
                 (Inl (PolicyApprovalRequiredError m), sv') \<Rightarrow> (blocked_by_policy d ''approval_required'', sv')
               | (Inl (PolicyDeniedError m), sv') \<Rightarrow> (blocked_by_policy d ''policy_denied'', sv')
               | (Inl e, sv') \<Rightarrow> (Inl e, sv')
               | (Inr u, sv') \<Rightarrow> (Inr d, sv'))))"

section \<open>Lemmas\<close>

definition fallback_reasons :: "string list" where
  "fallback_reasons =
    [''fallback_not_configured'', ''fallback_loop'', ''policy_denied'', ''cancelled'',
     ''side_effect_pending'', ''response_started'', ''degradable_failure'', ''non_degradable_failure'',
     ''approval_required'']"

lemma normalize_reason_known: "rs \<in> set fallback_reasons \<Longrightarrow> normalize_reason rs = Inr rs"
  by (auto simp: fallback_reasons_def normalize_reason_def strip_def rstrip_def py_space_def)

lemma new_fallback_decision_known:
  "rs \<in> set fallback_reasons \<Longrightarrow>
    new_fallback_decision al rs e f g md = Inr \<lparr>fd_allowed = al, fd_reason = rs, fd_error = e,
           fd_failed_strategy = norm_text f, fd_fallback_strategy = norm_text g,
           fd_metadata = sanitize_metadata (Some md)\<rparr>"
  by (simp add: new_fallback_decision_def normalize_reason_known)

text \<open>When the classification admits a fallback.\<close>

definition fallback_admitted :: "orchestration_error \<Rightarrow> string option \<Rightarrow> string option \<Rightarrow> bool \<Rightarrow> bool \<Rightarrow> bool" where
  "fallback_admitted e failed fallback side_effect_pending response_started \<longleftrightarrow>
    norm_text fallback \<noteq> None \<and> norm_text failed \<noteq> norm_text fallback
    \<and> oe_class e \<notin> {StrategyPolicyDeniedError, OrchestrationCancelledError}
    \<and> \<not> side_effect_pending \<and> \<not> response_started
    \<and> (oe_retryable e \<or> oe_code e \<in> set degradable_error_codes)"

lemma decide_fallback_total:
  "\<exists>d. decide_fallback x failed fallback se rs = Inr d
    \<and> fd_error d = normalize_orchestration_error x
    \<and> fd_failed_strategy d = norm_text failed \<and> fd_fallback_strategy d = norm_text fallback
    \<and> fd_reason d \<in> set fallback_reasons
    \<and> (fd_allowed d \<longleftrightarrow> fallback_admitted (normalize_orchestration_error x) failed fallback se rs)"
proof -
  have known: "''fallback_not_configured'' \<in> set fallback_reasons" "''fallback_loop'' \<in> set fallback_reasons"
    "''policy_denied'' \<in> set fallback_reasons" "''cancelled'' \<in> set fallback_reasons"
    "''side_effect_pending'' \<in> set fallback_reasons" "''response_started'' \<in> set fallback_reasons"
    "''degradable_failure'' \<in> set fallback_reasons" "''non_degradable_failure'' \<in> set fallback_reasons"
    by (simp_all add: fallback_reasons_def)
  show ?thesis
    by (simp add: decide_fallback_def new_fallback_decision_known known fallback_admitted_def Let_def) auto
qed

lemma require_allowed_cases:
  assumes "service_evaluate tx ck sv r c = (Inr d, sv')" "wf_decision d"
  shows "service_require_allowed tx ck sv r c =
    (case the (dec_decision d) of
       Allow \<Rightarrow> Inr ()
     | Deny \<Rightarrow> Inl (PolicyDeniedError (str_default (dec_reason d) ''Policy denied''))
     | ApprovalRequired \<Rightarrow> Inl (PolicyApprovalRequiredError (safe_reason d)), sv')"
  using assms(2)
  by (rule wf_decision_cases) (simp_all add: service_require_allowed_def assms(1) raise_for_approval_required_def)

section \<open>Properties\<close>

text \<open>The classification of a failure always yields a decision for the normalized error and the two
  normalized strategy names, and it admits the fallback exactly when a different strategy is
  configured, the error is neither a policy denial nor a cancellation, no side effect is pending, no
  response has started, and the error is retryable or of a degradable code.\<close>

theorem fallback_classification:
  "\<exists>d. decide_fallback x failed fallback side_effect_pending response_started = Inr d
    \<and> fd_error d = normalize_orchestration_error x
    \<and> fd_failed_strategy d = norm_text failed \<and> fd_fallback_strategy d = norm_text fallback
    \<and> (fd_allowed d \<longleftrightarrow>
        norm_text fallback \<noteq> None \<and> norm_text failed \<noteq> norm_text fallback
        \<and> oe_class (fd_error d) \<noteq> StrategyPolicyDeniedError \<and> oe_class (fd_error d) \<noteq> OrchestrationCancelledError
        \<and> \<not> side_effect_pending \<and> \<not> response_started
        \<and> (oe_retryable (fd_error d) \<or> oe_code (fd_error d) \<in> set degradable_error_codes))"
  using decide_fallback_total [of x failed fallback side_effect_pending response_started]
  unfolding fallback_admitted_def by auto

text \<open>A denial by the LLM gateway does not stop a fallback: an exception outside the family of
  \<open>PolicyDeniedError\<close> whose code ends in \<open>_policy_denied\<close> (\<open>llm_policy_denied\<close>) is normalized to an agent
  failure, which is degradable, so the fallback is admitted, and the request for the policy service
  says that no policy denied anything.\<close>

theorem llm_denial_admits_fallback:
  assumes "ex_family e \<noteq> PolicyDeniedFamily" "error_source_code e = Some code" "suffix ''_policy_denied'' code"
    and "norm_text fallback \<noteq> None" "norm_text failed \<noteq> norm_text fallback"
  shows "\<exists>d. decide_fallback (ForeignExn e) failed fallback False False = Inr d \<and> fd_allowed d
    \<and> dict_get (req_metadata (fallback_request c d False False broader)) ''policy_denied'' = PBool False"
proof -
  have cls: "oe_class (normalize_orchestration_error (ForeignExn e)) = AgentExecutionError"
    using assms(1-3) by (simp add: normalize_orchestration_error_def Let_def)
  then have "oe_code (normalize_orchestration_error (ForeignExn e)) \<in> set degradable_error_codes"
    by (simp add: oe_code_def degradable_error_codes_def)
  with cls assms(4,5) have "fallback_admitted (normalize_orchestration_error (ForeignExn e)) failed fallback False False"
    by (simp add: fallback_admitted_def)
  then obtain d where d: "decide_fallback (ForeignExn e) failed fallback False False = Inr d" "fd_allowed d"
    "fd_error d = normalize_orchestration_error (ForeignExn e)"
    using decide_fallback_total [of "ForeignExn e" failed fallback False False] by blast
  have "dict_get (req_metadata (fallback_request c d False False broader)) ''policy_denied'' = PBool False"
    by (simp add: fallback_request_def build_fallback_policy_request_def Let_def d(3) cls)
  with d show ?thesis by blast
qed

definition llm_denial :: foreign_exn where
  "llm_denial =
    \<lparr>ex_family = GatewayFamily, ex_text = ''LLM profile is not allowed.'', ex_code = Some ''llm_policy_denied'',
     ex_retryable = Some False, ex_metadata = None\<rparr>"

theorem llm_denial_admits_fallback_witness:
  "\<exists>d. decide_fallback (ForeignExn llm_denial) (Some ''planner'') (Some ''direct'') False False = Inr d \<and> fd_allowed d"
proof -
  have all: "error_source_code llm_denial = Some ''llm_policy_denied''
     \<and> norm_text (Some ''direct'') \<noteq> None
     \<and> norm_text (Some ''planner'') \<noteq> norm_text (Some ''direct'')"
    by code_simp
  note facts = parts3 [OF all]
  have "suffix ''_policy_denied'' ''llm_policy_denied''"
    by (simp add: suffix_def)
  moreover have "ex_family llm_denial \<noteq> PolicyDeniedFamily" by (simp add: llm_denial_def)
  ultimately show ?thesis
    using llm_denial_admits_fallback [OF _ facts(1) _ facts(2,3)] by blast
qed

end
