(* ===== verification/Tool_Config.thy ===== *)
theory Tool_Config
  imports Config_View
begin

text \<open>
  \<open>get_tooling_settings\<close> of \<open>config/view.py\<close>: the defaults, the MCP server with its authentication, and the
  configured tools. Each tool section becomes a view of its own, so (unlike the LLM profiles) a tool
  name may contain a dot.
\<close>

section \<open>Settings\<close>

record tooling_defaults =
  td_timeout_seconds :: int
  td_stream_timeout_seconds :: int
  td_max_retries :: int
  td_max_argument_bytes :: int
  td_max_result_bytes :: int
  td_trace_arguments :: bool
  td_trace_results :: bool
  td_discovery_on_startup :: bool
  td_discovery_refresh_seconds :: int

record mcp_auth_settings =
  ma_mode :: string
  ma_token :: "string option"
  ma_jwt :: "string option"
  ma_token_url :: "string option"
  ma_client_id :: "string option"
  ma_client_secret :: "string option"
  ma_scopes :: "string list"

record mcp_server_settings =
  mv_name :: string
  mv_enabled :: bool
  mv_transport :: string
  mv_timeout_seconds :: int
  mv_stream_timeout_seconds :: int
  mv_tool_discovery_enabled :: bool
  mv_endpoint :: "string option"
  mv_auth :: mcp_auth_settings

record tool_allowed_for =
  ta_usecases :: "string list"
  ta_agents :: "string list"
  ta_strategies :: "string list"

record tool_definition_settings =
  to_name :: string
  to_enabled :: bool
  to_mcp_tool_name :: string
  to_description :: "string option"
  to_timeout_seconds :: "int option"
  to_max_argument_bytes :: "int option"
  to_max_result_bytes :: "int option"
  to_approval_required :: bool
  to_input_schema_override :: "pydict option"
  to_output_schema_override :: "pydict option"
  to_tags :: "string list"
  to_safety_level :: string
  to_extra :: pydict
  to_allowed_for :: tool_allowed_for

record tool_registry_settings =
  trs_allow_discovered_tools :: bool
  trs_require_configured_allowlist :: bool
  trs_tools :: "(string \<times> tool_definition_settings) list"

record tooling_settings =
  tls_enabled :: bool
  tls_defaults :: tooling_defaults
  tls_mcp_server :: mcp_server_settings
  tls_registry :: tool_registry_settings

section \<open>Reading\<close>

definition read_tool_allowed_for :: "pyval \<Rightarrow> tool_allowed_for res" where
  "read_tool_allowed_for view =
    try_bind (cfg_str_tuple view ''definition.allowed_for.usecases'' []) (\<lambda>usecases.
    try_bind (cfg_str_tuple view ''definition.allowed_for.agents'' []) (\<lambda>agents.
    try_bind (cfg_str_tuple view ''definition.allowed_for.strategies'' []) (\<lambda>strategies.
    Inr \<lparr>ta_usecases = usecases,
      ta_agents = agents,
      ta_strategies = strategies\<rparr>)))"

text \<open>One tool: the section is unfrozen and wrapped as a view with the single key \<open>definition\<close>.\<close>

definition read_tool_definition :: "string \<Rightarrow> pydict \<Rightarrow> tool_definition_settings res" where
  "read_tool_definition name tool_section =
    (let view = config_view [(''definition'', unfreeze (PDict tool_section))] in
    try_bind (cfg_bool view ''definition.enabled'' True) (\<lambda>enabled.
    try_bind (cfg_str view ''definition.mcp_tool_name'' []) (\<lambda>mcp_tool_name.
    try_bind (cfg_optional_str_or_none view ''definition.description'') (\<lambda>description.
    try_bind (read_tool_allowed_for view) (\<lambda>allowed_for.
    try_bind (cfg_optional_int view ''definition.timeout_seconds'') (\<lambda>timeout_seconds.
    try_bind (cfg_optional_int view ''definition.max_argument_bytes'') (\<lambda>max_argument_bytes.
    try_bind (cfg_optional_int view ''definition.max_result_bytes'') (\<lambda>max_result_bytes.
    try_bind (cfg_bool view ''definition.approval_required'' False) (\<lambda>approval_required.
    try_bind (cfg_optional_mapping_dict view ''definition.input_schema_override'') (\<lambda>input_schema_override.
    try_bind (cfg_optional_mapping_dict view ''definition.output_schema_override'') (\<lambda>output_schema_override.
    try_bind (cfg_str_tuple view ''definition.tags'' []) (\<lambda>tags.
    try_bind (cfg_str view ''definition.safety_level'' ''read_only'') (\<lambda>safety_level.
    try_bind (cfg_mapping_dict view ''definition.extra'') (\<lambda>extra.
    Inr \<lparr>to_name = name,
      to_enabled = enabled,
      to_mcp_tool_name = mcp_tool_name,
      to_description = description,
      to_timeout_seconds = timeout_seconds,
      to_max_argument_bytes = max_argument_bytes,
      to_max_result_bytes = max_result_bytes,
      to_approval_required = approval_required,
      to_input_schema_override = input_schema_override,
      to_output_schema_override = output_schema_override,
      to_tags = tags,
      to_safety_level = safety_level,
      to_extra = extra,
      to_allowed_for = allowed_for\<rparr>))))))))))))))"

fun read_tools :: "pydict \<Rightarrow> (string \<times> tool_definition_settings) list \<Rightarrow> (string \<times> tool_definition_settings) list res" where
  "read_tools [] acc = Inr acc"
| "read_tools ((name, PDict tool_section) # rest) acc =
    try_bind (read_tool_definition name tool_section) (\<lambda>t. read_tools rest (dict_set name t acc))"
| "read_tools ((name, _) # rest) acc =
    Inl (ConfigurationError
      (''Invalid config value at tooling.registry.tools.'' @ name @ '': expected mapping.''))"

definition read_tooling_defaults :: "pyval \<Rightarrow> tooling_defaults res" where
  "read_tooling_defaults config =
    try_bind (cfg_int config ''tooling.defaults.timeout_seconds'' 60) (\<lambda>timeout_seconds.
    try_bind (cfg_int config ''tooling.defaults.stream_timeout_seconds'' 300) (\<lambda>stream_timeout_seconds.
    try_bind (cfg_int config ''tooling.defaults.max_retries'' 1) (\<lambda>max_retries.
    try_bind (cfg_int config ''tooling.defaults.max_argument_bytes'' 65536) (\<lambda>max_argument_bytes.
    try_bind (cfg_int config ''tooling.defaults.max_result_bytes'' 262144) (\<lambda>max_result_bytes.
    try_bind (cfg_bool config ''tooling.defaults.trace_arguments'' False) (\<lambda>trace_arguments.
    try_bind (cfg_bool config ''tooling.defaults.trace_results'' False) (\<lambda>trace_results.
    try_bind (cfg_bool config ''tooling.defaults.discovery_on_startup'' True) (\<lambda>discovery_on_startup.
    try_bind (cfg_int config ''tooling.defaults.discovery_refresh_seconds'' 300) (\<lambda>discovery_refresh_seconds.
    Inr \<lparr>td_timeout_seconds = timeout_seconds,
      td_stream_timeout_seconds = stream_timeout_seconds,
      td_max_retries = max_retries,
      td_max_argument_bytes = max_argument_bytes,
      td_max_result_bytes = max_result_bytes,
      td_trace_arguments = trace_arguments,
      td_trace_results = trace_results,
      td_discovery_on_startup = discovery_on_startup,
      td_discovery_refresh_seconds = discovery_refresh_seconds\<rparr>)))))))))"

text \<open>\<open>read(primary) or read(secondary)\<close>: the second path is read when the first gives nothing or a blank.\<close>

definition cfg_str_or_none_either :: "pyval \<Rightarrow> string \<Rightarrow> string \<Rightarrow> string option res" where
  "cfg_str_or_none_either config primary secondary =
    try_bind (cfg_optional_str_or_none config primary) (\<lambda>v.
      if truthy v then Inr v else cfg_optional_str_or_none config secondary)"

definition read_mcp_auth :: "pyval \<Rightarrow> string list \<Rightarrow> mcp_auth_settings res" where
  "read_mcp_auth config scopes =
    try_bind (cfg_str config ''mcp.main.auth.mode'' ''none'') (\<lambda>mode.
    try_bind (cfg_optional_str_or_none config ''mcp.main.auth.token'') (\<lambda>token.
    try_bind (cfg_optional_str_or_none config ''mcp.main.auth.jwt'') (\<lambda>jwt.
    try_bind (cfg_str_or_none_either config ''mcp.main.auth.oauth.token_url'' ''mcp.main.auth.token_url'') (\<lambda>token_url.
    try_bind (cfg_str_or_none_either config ''mcp.main.auth.oauth.client_id'' ''mcp.main.auth.client_id'') (\<lambda>client_id.
    try_bind (cfg_str_or_none_either config ''mcp.main.auth.oauth.client_secret'' ''mcp.main.auth.client_secret'') (\<lambda>client_secret.
    Inr \<lparr>ma_mode = mode,
      ma_token = token,
      ma_jwt = jwt,
      ma_token_url = token_url,
      ma_client_id = client_id,
      ma_client_secret = client_secret,
      ma_scopes = scopes\<rparr>))))))"

definition read_mcp_server :: "pyval \<Rightarrow> string list \<Rightarrow> mcp_server_settings res" where
  "read_mcp_server config scopes =
    try_bind (cfg_str config ''mcp.main.name'' ''main'') (\<lambda>name.
    try_bind (cfg_bool config ''mcp.main.enabled'' True) (\<lambda>enabled.
    try_bind (cfg_str_or_none_either config ''mcp.main.url'' ''mcp.main.endpoint'') (\<lambda>endpoint.
    try_bind (cfg_str config ''mcp.main.transport'' ''http'') (\<lambda>transport.
    try_bind (cfg_int config ''mcp.main.timeout_seconds'' 60) (\<lambda>timeout_seconds.
    try_bind (cfg_int config ''mcp.main.stream_timeout_seconds'' 300) (\<lambda>stream_timeout_seconds.
    try_bind (read_mcp_auth config scopes) (\<lambda>auth.
    try_bind (cfg_bool config ''mcp.main.tool_discovery_enabled'' True) (\<lambda>tool_discovery_enabled.
    Inr \<lparr>mv_name = name,
      mv_enabled = enabled,
      mv_transport = transport,
      mv_timeout_seconds = timeout_seconds,
      mv_stream_timeout_seconds = stream_timeout_seconds,
      mv_tool_discovery_enabled = tool_discovery_enabled,
      mv_endpoint = endpoint,
      mv_auth = auth\<rparr>))))))))"

definition get_tooling_settings :: "pyval \<Rightarrow> tooling_settings res" where
  "get_tooling_settings config =
    (case config_get config ''tooling.registry.tools'' (PDict []) of
       PDict tool_sections \<Rightarrow>
         try_bind (read_tools tool_sections []) (\<lambda>tools.
         try_bind (if config_get config ''mcp.main.auth.oauth.scopes'' PNone \<noteq> PNone
                   then cfg_str_tuple config ''mcp.main.auth.oauth.scopes'' []
                   else cfg_str_tuple config ''mcp.main.auth.scopes'' []) (\<lambda>oauth_scopes.
         try_bind (cfg_bool config ''tooling.enabled'' False) (\<lambda>enabled.
         try_bind (read_tooling_defaults config) (\<lambda>defaults.
         try_bind (read_mcp_server config oauth_scopes) (\<lambda>server.
         try_bind (cfg_bool config ''tooling.registry.allow_discovered_tools'' True) (\<lambda>allow_discovered_tools.
         try_bind (cfg_bool config ''tooling.registry.require_configured_allowlist'' True) (\<lambda>require_configured_allowlist.
         Inr \<lparr>tls_enabled = enabled, tls_defaults = defaults, tls_mcp_server = server,
               tls_registry =
                 \<lparr>trs_allow_discovered_tools = allow_discovered_tools,
                  trs_require_configured_allowlist = require_configured_allowlist, trs_tools = tools\<rparr>\<rparr>)))))))
     | _ \<Rightarrow> Inl (ConfigurationError ''Invalid config value at tooling.registry.tools: expected mapping.''))"

declare get_tooling_settings_def [reader_defs] read_mcp_server_def [reader_defs] read_mcp_auth_def [reader_defs]
  cfg_str_or_none_either_def [reader_defs] read_tooling_defaults_def [reader_defs]
  read_tool_definition_def [reader_defs] read_tool_allowed_for_def [reader_defs]

end
