(* ===== verification/Py_Equal.thy ===== *)
theory Py_Equal
  imports Py_Prelude
begin

text \<open>
  Equality and order of Python values as the comparison operators have them: a \<open>bool\<close> is the integer 0 or
  1, an \<open>int\<close> equals the \<open>float\<close> of the same value, a NaN equals nothing, two dictionaries are equal
  whatever the order of their keys, a list never equals a tuple. Every finite double is an integral multiple
  of \<open>2 ^ -1074\<close>, so numbers are compared as integers scaled by \<open>2 ^ 1074\<close>. (Python also takes an object
  found in a container to equal itself; here that concerns NaN only.)
\<close>

section \<open>Numbers\<close>

datatype py_num = Fin int | PosInf | NegInf | Nan

definition float_num :: "64 word \<Rightarrow> py_num" where
  "float_num w =
    (let negative = bit w 63;
         e = unat (take_bit 11 (drop_bit 52 w));
         f = uint (take_bit 52 w);
         m = (if e = 0 then f else (f + 2 ^ 52) * 2 ^ (e - 1))
     in if e = 2047 then (if f \<noteq> 0 then Nan else if negative then NegInf else PosInf)
        else Fin (if negative then - m else m))"

definition int_num :: "int \<Rightarrow> py_num" where
  "int_num i = Fin (i * 2 ^ 1074)"

fun num_of :: "pyval \<Rightarrow> py_num option" where
  "num_of (PBool b) = Some (int_num (if b then 1 else 0))"
| "num_of (PInt i) = Some (int_num i)"
| "num_of (PFloat w) = Some (float_num w)"
| "num_of v = None"

definition num_eq :: "py_num \<Rightarrow> py_num \<Rightarrow> bool" where
  "num_eq a b \<longleftrightarrow> a = b \<and> a \<noteq> Nan"

fun num_less :: "py_num \<Rightarrow> py_num \<Rightarrow> bool" where
  "num_less (Fin a) (Fin b) = (a < b)"
| "num_less (Fin a) PosInf = True"
| "num_less NegInf (Fin b) = True"
| "num_less NegInf PosInf = True"
| "num_less a b = False"

lemma float_num_examples:
  "float_num 0x3FF0000000000000 = int_num 1" "float_num 0xC000000000000000 = int_num (- 2)"
  "float_num 0x7FF0000000000000 = PosInf" "float_num 0x8000000000000000 = int_num 0"
  by code_simp+

section \<open>Equality\<close>

lemma py_size_set: "x \<in> set xs \<Longrightarrow> py_size x < py_size (PSet xs)"
  unfolding py_size_def by (induction xs) auto

function py_eq :: "pyval \<Rightarrow> pyval \<Rightarrow> bool" where
  "py_eq x y =
    (case (num_of x, num_of y) of
       (Some a, Some b) \<Rightarrow> num_eq a b
     | (None, None) \<Rightarrow>
        (case x of
           PNone \<Rightarrow> y = PNone
         | PStr s \<Rightarrow> y = PStr s
         | PBytes s \<Rightarrow> y = PBytes s
         | PList xs \<Rightarrow>
             (case y of
                PList ys \<Rightarrow> length xs = length ys \<and> (\<forall>(a, b) \<in> set (zip xs ys). py_eq a b)
              | _ \<Rightarrow> False)
         | PTuple xs \<Rightarrow>
             (case y of
                PTuple ys \<Rightarrow> length xs = length ys \<and> (\<forall>(a, b) \<in> set (zip xs ys). py_eq a b)
              | _ \<Rightarrow> False)
         | PDict d \<Rightarrow>
             (case y of
                PDict e \<Rightarrow> length d = length e \<and>
                  (\<forall>(k, v) \<in> set d. case map_of e k of None \<Rightarrow> False | Some w \<Rightarrow> py_eq v w)
              | _ \<Rightarrow> False)
         | PSet xs \<Rightarrow>
             (case y of
                PSet ys \<Rightarrow> length xs = length ys \<and> (\<forall>a \<in> set xs. \<exists>b \<in> set ys. py_eq a b)
              | _ \<Rightarrow> False)
         | PObj c \<Rightarrow> y = PObj c
         | _ \<Rightarrow> False)
     | _ \<Rightarrow> False)"
  by pat_completeness auto

termination
  by (relation "measure (\<lambda>(x, y). py_size x)")
    (auto dest!: set_zip_leftD intro: py_size_member py_size_set)

declare py_eq.simps [simp del]

definition py_in :: "pyval \<Rightarrow> pyval list \<Rightarrow> bool" where
  "py_in v xs \<longleftrightarrow> (\<exists>x \<in> set xs. py_eq v x)"

text \<open>Values without floats and with distinct keys equal themselves.\<close>

fun plain_keys :: "pyval \<Rightarrow> bool" where
  "plain_keys (PFloat w) = False"
| "plain_keys (PDict d) = (distinct (List.map fst d) \<and> (\<forall>(k, v) \<in> set d. plain_keys v))"
| "plain_keys (PList xs) = (\<forall>x \<in> set xs. plain_keys x)"
| "plain_keys (PTuple xs) = (\<forall>x \<in> set xs. plain_keys x)"
| "plain_keys (PSet xs) = (\<forall>x \<in> set xs. plain_keys x)"
| "plain_keys v = True"

lemma py_eq_refl: "plain_keys v \<Longrightarrow> py_eq v v"
proof (induction v rule: plain_keys.induct)
  case (2 d)
  then have "\<forall>(k, v) \<in> set d. map_of d k = Some v" by auto
  with 2 show ?case by (fastforce simp: py_eq.simps [of "PDict d"])
next
  case (3 xs)
  then show ?case by (auto simp: py_eq.simps [of "PList xs"] set_zip)
next
  case (4 xs)
  then show ?case by (auto simp: py_eq.simps [of "PTuple xs"] set_zip)
qed (auto simp: py_eq.simps num_eq_def int_num_def)

lemma bool_equals_int: "py_eq (PBool True) (PInt 1)" "py_eq (PFloat 0x3FF0000000000000) (PInt 1)"
  "\<not> py_eq (PList []) (PTuple [])"
  by (simp_all add: py_eq.simps num_eq_def float_num_examples int_num_def)

end
