(* ===== verification/Tool_Registry.thy ===== *)
theory Tool_Registry
  imports Tool_Config Py_Equal
begin

text \<open>
  The logical tools (\<open>tools/models.py\<close>) and their registry (\<open>tools/registry.py\<close>): the configured entries, the
  merge with what an MCP server announces, and the filtered listing. What the server announces is data
  of the model (\<open>mcp_tool\<close>), whatever it is.
\<close>

section \<open>Definitions of tools\<close>

record resolved_tool =
  rt_logical_name :: string
  rt_mcp_tool_name :: string
  rt_description :: "string option"
  rt_enabled :: bool
  rt_execution_modes :: "string list"
  rt_safety_level :: string
  rt_approval_required :: bool
  rt_timeout_seconds :: int
  rt_max_argument_bytes :: int
  rt_max_result_bytes :: int
  rt_input_schema :: "pydict option"
  rt_output_schema :: "pydict option"
  rt_tags :: "string list"
  rt_allowed_usecases :: "string list"
  rt_allowed_agents :: "string list"
  rt_allowed_strategies :: "string list"
  rt_metadata :: pydict

definition valid_execution_modes :: "string list" where
  "valid_execution_modes = [''sync'', ''stream'']"

definition required_text :: "string \<Rightarrow> string res" where
  "required_text s = (case norm_text (Some s) of None \<Rightarrow> Inl ValueError | Some t \<Rightarrow> Inr t)"

definition normalize_text_tuple :: "string list \<Rightarrow> string list" where
  "normalize_text_tuple xs = collect_texts (List.map PStr xs) []"

fun collect_modes :: "string list \<Rightarrow> string list \<Rightarrow> string list res" where
  "collect_modes [] acc = Inr (if acc = [] then [''sync''] else acc)"
| "collect_modes (m # ms) acc =
    (if m \<notin> set valid_execution_modes then Inl ValueError
     else collect_modes ms (if m \<in> set acc then acc else acc @ [m]))"

definition normalize_execution_modes :: "string list \<Rightarrow> string list res" where
  "normalize_execution_modes ms = collect_modes ms []"

text \<open>\<open>ResolvedToolDefinition.__post_init__\<close>.\<close>

definition resolved_tool_post_init :: "resolved_tool \<Rightarrow> resolved_tool res" where
  "resolved_tool_post_init t =
    try_bind (required_text (rt_logical_name t)) (\<lambda>logical_name.
    try_bind (required_text (rt_mcp_tool_name t)) (\<lambda>mcp_tool_name.
    try_bind (normalize_execution_modes (rt_execution_modes t)) (\<lambda>execution_modes.
    Inr (t\<lparr>rt_logical_name := logical_name, rt_mcp_tool_name := mcp_tool_name,
           rt_description := norm_text (rt_description t), rt_execution_modes := execution_modes,
           rt_tags := normalize_text_tuple (rt_tags t),
           rt_allowed_usecases := normalize_text_tuple (rt_allowed_usecases t),
           rt_allowed_agents := normalize_text_tuple (rt_allowed_agents t),
           rt_allowed_strategies := normalize_text_tuple (rt_allowed_strategies t)\<rparr>))))"

definition rt_supports_streaming :: "resolved_tool \<Rightarrow> bool" where
  "rt_supports_streaming t \<longleftrightarrow> ''stream'' \<in> set (rt_execution_modes t)"

text \<open>The modes listed in the configuration; an item that cannot be hashed raises \<open>TypeError\<close>.\<close>

fun listed_modes :: "pyval list \<Rightarrow> string list \<Rightarrow> string list res" where
  "listed_modes [] acc = Inr acc"
| "listed_modes (PStr m # xs) acc =
    listed_modes xs (if m \<in> set valid_execution_modes \<and> m \<notin> set acc then acc @ [m] else acc)"
| "listed_modes (PList ys # xs) acc = Inl TypeError"
| "listed_modes (PDict d # xs) acc = Inl TypeError"
| "listed_modes (PSet ys # xs) acc = Inl TypeError"
| "listed_modes (_ # xs) acc = listed_modes xs acc"

definition resolve_execution_modes :: "pydict \<Rightarrow> string list res" where
  "resolve_execution_modes extra =
    try_bind (case seq_items (dict_get extra ''execution_modes'') of None \<Rightarrow> Inr [] | Some xs \<Rightarrow> listed_modes xs [])
      (\<lambda>collected.
        if collected \<noteq> [] then Inr collected
        else if dict_get extra ''supports_streaming'' = PBool True then Inr [''sync'', ''stream'']
        else Inr [''sync''])"

definition tool_from_settings :: "tool_definition_settings \<Rightarrow> tooling_defaults \<Rightarrow> resolved_tool res" where
  "tool_from_settings s dfl =
    try_bind (resolve_execution_modes (to_extra s)) (\<lambda>modes.
      resolved_tool_post_init
        \<lparr>rt_logical_name = to_name s, rt_mcp_tool_name = to_mcp_tool_name s, rt_description = to_description s,
         rt_enabled = to_enabled s, rt_execution_modes = modes, rt_safety_level = to_safety_level s,
         rt_approval_required = to_approval_required s,
         rt_timeout_seconds = int_else (to_timeout_seconds s) (td_timeout_seconds dfl),
         rt_max_argument_bytes = int_else (to_max_argument_bytes s) (td_max_argument_bytes dfl),
         rt_max_result_bytes = int_else (to_max_result_bytes s) (td_max_result_bytes dfl),
         rt_input_schema = to_input_schema_override s, rt_output_schema = to_output_schema_override s,
         rt_tags = to_tags s, rt_allowed_usecases = ta_usecases (to_allowed_for s),
         rt_allowed_agents = ta_agents (to_allowed_for s), rt_allowed_strategies = ta_strategies (to_allowed_for s),
         rt_metadata = to_extra s\<rparr>)"

section \<open>The registry\<close>

record mcp_tool =
  mt_name :: string
  mt_description :: "string option"
  mt_input_schema :: pydict
  mt_output_schema :: "pydict option"
  mt_supports_streaming :: bool
  mt_metadata :: pydict

record registry_entry =
  re_definition :: resolved_tool
  re_source :: string
  re_metadata :: pydict

record discovery_snapshot =
  sn_server_name :: string
  sn_transport :: string
  sn_discovery_enabled :: bool
  sn_discovered_at :: "int option"
  sn_tools :: "(string \<times> mcp_tool) list"
  sn_error :: "string option"
  sn_metadata :: pydict

record tool_registry =
  tr_configured :: "(string \<times> registry_entry) list"
  tr_entries :: "(string \<times> registry_entry) list"
  tr_snapshot :: "discovery_snapshot option"
  tr_allow_discovered :: bool
  tr_require_allowlist :: bool

definition new_tool_registry ::
  "(string \<times> registry_entry) list \<Rightarrow> discovery_snapshot option \<Rightarrow> bool \<Rightarrow> bool \<Rightarrow> tool_registry" where
  "new_tool_registry entries snapshot allow require_allowlist =
    \<lparr>tr_configured = entries, tr_entries = entries, tr_snapshot = snapshot, tr_allow_discovered = allow,
     tr_require_allowlist = require_allowlist\<rparr>"

definition register_tool :: "tool_registry \<Rightarrow> resolved_tool \<Rightarrow> string \<Rightarrow> pydict \<Rightarrow> tool_registry" where
  "register_tool reg t source metadata =
    (let entry = \<lparr>re_definition = t, re_source = source, re_metadata = metadata\<rparr>
     in reg\<lparr>tr_configured := dict_set (rt_logical_name t) entry (tr_configured reg),
            tr_entries := dict_set (rt_logical_name t) entry (tr_entries reg)\<rparr>)"

text \<open>\<open>None\<close> stands for the \<open>ToolNotFoundError\<close> the lookup raises.\<close>

definition resolve_entry :: "tool_registry \<Rightarrow> string \<Rightarrow> registry_entry option" where
  "resolve_entry reg name = map_of (tr_entries reg) name"

section \<open>Discovery\<close>

text \<open>A schema merged with its override, key by key and below.\<close>

fun merge_schema :: "pydict \<Rightarrow> pydict \<Rightarrow> pydict" where
  "merge_schema base [] = base"
| "merge_schema base ((k, PDict override) # rest) =
    merge_schema
      (dict_set k
        (case map_of base k of Some (PDict existing) \<Rightarrow> PDict (merge_schema existing override) | _ \<Rightarrow> PDict override)
        base) rest"
| "merge_schema base ((k, v) # rest) = merge_schema (dict_set k v base) rest"

definition merge_optional_schema :: "pydict option \<Rightarrow> pydict option \<Rightarrow> pydict option" where
  "merge_optional_schema base override =
    (case (base, override) of
       (None, None) \<Rightarrow> None
     | (None, Some s) \<Rightarrow> Some s
     | (Some b, None) \<Rightarrow> Some b
     | (Some b, Some s) \<Rightarrow> Some (merge_schema b s))"

definition merge_definition :: "resolved_tool \<Rightarrow> mcp_tool \<Rightarrow> resolved_tool res" where
  "merge_definition configured discovered =
    resolved_tool_post_init
      (configured\<lparr>
         rt_description := str_or (rt_description configured) (mt_description discovered),
         rt_execution_modes :=
           (if mt_supports_streaming discovered \<and> ''stream'' \<notin> set (rt_execution_modes configured)
            then rt_execution_modes configured @ [''stream''] else rt_execution_modes configured),
         rt_input_schema := merge_optional_schema (Some (mt_input_schema discovered)) (rt_input_schema configured),
         rt_output_schema := merge_optional_schema (mt_output_schema discovered) (rt_output_schema configured),
         rt_metadata := dict_merge (rt_metadata configured) [(''discovered'', PBool True)]\<rparr>)"

definition discovered_only_definition :: "mcp_tool \<Rightarrow> resolved_tool res" where
  "discovered_only_definition discovered =
    resolved_tool_post_init
      \<lparr>rt_logical_name = mt_name discovered, rt_mcp_tool_name = mt_name discovered,
       rt_description = mt_description discovered, rt_enabled = False,
       rt_execution_modes = (if mt_supports_streaming discovered then [''sync'', ''stream''] else [''sync'']),
       rt_safety_level = ''read_only'', rt_approval_required = False, rt_timeout_seconds = 60,
       rt_max_argument_bytes = 65536, rt_max_result_bytes = 262144,
       rt_input_schema = Some (mt_input_schema discovered), rt_output_schema = mt_output_schema discovered,
       rt_tags = [], rt_allowed_usecases = [], rt_allowed_agents = [], rt_allowed_strategies = [],
       rt_metadata = [(''allowlisted'', PBool False), (''discovered_only'', PBool True)]\<rparr>"

record refresh_progress =
  rp_entries :: "(string \<times> registry_entry) list"
  rp_missing :: "string list"
  rp_matched :: "string list"

text \<open>The loop over the configured entries.\<close>

fun merge_configured ::
  "(string \<times> mcp_tool) list \<Rightarrow> (string \<times> registry_entry) list \<Rightarrow> refresh_progress \<Rightarrow> refresh_progress res" where
  "merge_configured tools [] p = Inr p"
| "merge_configured tools ((name, e) # rest) p =
    (case map_of tools (rt_mcp_tool_name (re_definition e)) of
       None \<Rightarrow>
         merge_configured tools rest
           (p\<lparr>rp_missing := (if rt_enabled (re_definition e) then rp_missing p @ [name] else rp_missing p),
              rp_entries := dict_set name
                \<lparr>re_definition = re_definition e, re_source = ''configured'',
                 re_metadata = dict_merge (re_metadata e) [(''mcp_available'', PBool False)]\<rparr> (rp_entries p)\<rparr>)
     | Some d \<Rightarrow>
         try_bind (merge_definition (re_definition e) d) (\<lambda>merged.
           merge_configured tools rest
             (p\<lparr>rp_matched := mt_name d # rp_matched p,
                rp_entries := dict_set name
                  \<lparr>re_definition = merged, re_source = ''merged'',
                   re_metadata = dict_merge (re_metadata e)
                     [(''mcp_available'', PBool True), (''discovered_tool_name'', PStr (mt_name d))]\<rparr>
                  (rp_entries p)\<rparr>)))"

fun add_discovered ::
  "(string \<times> mcp_tool) list \<Rightarrow> (string \<times> registry_entry) list \<Rightarrow> (string \<times> registry_entry) list res" where
  "add_discovered [] entries = Inr entries"
| "add_discovered ((name, d) # rest) entries =
    try_bind (discovered_only_definition d) (\<lambda>def.
      add_discovered rest
        (dict_set name
          \<lparr>re_definition = def, re_source = ''discovered'',
           re_metadata =
             [(''allowlisted'', PBool False), (''callable'', PBool False), (''mcp_available'', PBool True)]\<rparr> entries))"

record refresh_result =
  rr_snapshot :: discovery_snapshot
  rr_entries :: "(string \<times> registry_entry) list"
  rr_merged_tool_count :: int
  rr_missing :: "string list"
  rr_discovered_only :: "string list"

definition refresh_from_snapshot ::
  "tool_registry \<Rightarrow> discovery_snapshot \<Rightarrow> (refresh_result \<times> tool_registry) res" where
  "refresh_from_snapshot reg snapshot =
    try_bind (merge_configured (sn_tools snapshot) (tr_configured reg)
        \<lparr>rp_entries = [], rp_missing = [], rp_matched = []\<rparr>) (\<lambda>p.
      let only = filter (\<lambda>(n, d). n \<notin> set (rp_matched p)) (sn_tools snapshot)
      in try_bind (if tr_allow_discovered reg then add_discovered only (rp_entries p) else Inr (rp_entries p))
           (\<lambda>entries.
             Inr (\<lparr>rr_snapshot = snapshot, rr_entries = entries, rr_merged_tool_count = int (length entries),
                   rr_missing = rp_missing p, rr_discovered_only = List.map fst only\<rparr>,
                  reg\<lparr>tr_entries := entries, tr_snapshot := Some snapshot\<rparr>)))"

definition registry_status :: "refresh_result \<Rightarrow> string" where
  "registry_status r =
    (if truthy (sn_error (rr_snapshot r)) \<or> rr_missing r \<noteq> [] then ''degraded'' else ''ok'')"

text \<open>Building the registry: the configured entries, and the snapshot that stands in before any discovery.\<close>

fun build_registry_entries ::
  "(string \<times> tool_definition_settings) list \<Rightarrow> tooling_defaults \<Rightarrow> (string \<times> registry_entry) list \<Rightarrow>
   (string \<times> registry_entry) list res" where
  "build_registry_entries [] dfl acc = Inr acc"
| "build_registry_entries ((name, s) # rest) dfl acc =
    try_bind (tool_from_settings s dfl) (\<lambda>t.
      build_registry_entries rest dfl
        (dict_set name \<lparr>re_definition = t, re_source = ''configured'', re_metadata = [(''allowlisted'', PBool True)]\<rparr> acc))"

definition configured_mcp_tool :: "registry_entry \<Rightarrow> mcp_tool" where
  "configured_mcp_tool e =
    (let t = re_definition e in
     \<lparr>mt_name = rt_mcp_tool_name t, mt_description = rt_description t,
      mt_input_schema = (case rt_input_schema t of None \<Rightarrow> [] | Some s \<Rightarrow> s),
      mt_output_schema = rt_output_schema t, mt_supports_streaming = rt_supports_streaming t,
      mt_metadata = [(''logical_name'', PStr (rt_logical_name t))]\<rparr>)"

definition build_discovery_snapshot ::
  "tooling_settings \<Rightarrow> (string \<times> registry_entry) list \<Rightarrow> discovery_snapshot" where
  "build_discovery_snapshot st entries =
    \<lparr>sn_server_name = mv_name (tls_mcp_server st), sn_transport = mv_transport (tls_mcp_server st),
     sn_discovery_enabled = mv_tool_discovery_enabled (tls_mcp_server st), sn_discovered_at = None,
     sn_tools =
       fold (\<lambda>(n, e) acc. if rt_enabled (re_definition e)
                          then dict_set (rt_mcp_tool_name (re_definition e)) (configured_mcp_tool e) acc else acc)
         entries [],
     sn_error = None,
     sn_metadata =
       [(''configured_tool_count'', PInt (int (length entries))),
        (''allow_discovered_tools'', PBool (trs_allow_discovered_tools (tls_registry st))),
        (''require_configured_allowlist'', PBool (trs_require_configured_allowlist (tls_registry st)))]\<rparr>"

definition build_tool_registry :: "tooling_settings \<Rightarrow> tool_registry res" where
  "build_tool_registry st =
    try_bind (build_registry_entries (trs_tools (tls_registry st)) (tls_defaults st) []) (\<lambda>entries.
      Inr (new_tool_registry entries (Some (build_discovery_snapshot st entries))
             (trs_allow_discovered_tools (tls_registry st)) (trs_require_configured_allowlist (tls_registry st))))"

section \<open>Listing\<close>

record tool_filters =
  tf_names :: "string list"
  tf_tags :: "string list"
  tf_enabled_only :: bool
  tf_safety_levels :: "string list"
  tf_execution_mode :: "string option"
  tf_approval_required :: "bool option"
  tf_name_prefix :: "string option"
  tf_metadata :: pydict

definition matches_metadata :: "registry_entry \<Rightarrow> pydict \<Rightarrow> bool" where
  "matches_metadata e expected =
    (let combined = dict_merge (rt_metadata (re_definition e)) (re_metadata e)
     in \<forall>(k, v) \<in> set expected. py_eq (dict_get combined k) v)"

text \<open>The chain of filters, one after the other.\<close>

definition filtered_entries :: "tool_registry \<Rightarrow> tool_filters \<Rightarrow> registry_entry list" where
  "filtered_entries reg f =
    (let e0 = List.map snd (tr_entries reg);
         e1 = (if tf_enabled_only f then filter (\<lambda>e. rt_enabled (re_definition e)) e0 else e0);
         e2 = (if tf_names f \<noteq> [] then filter (\<lambda>e. rt_logical_name (re_definition e) \<in> set (tf_names f)) e1 else e1);
         e3 = (if tf_tags f \<noteq> [] then filter (\<lambda>e. set (tf_tags f) \<subseteq> set (rt_tags (re_definition e))) e2 else e2);
         e4 = (if tf_safety_levels f \<noteq> []
               then filter (\<lambda>e. rt_safety_level (re_definition e) \<in> set (tf_safety_levels f)) e3 else e3);
         e5 = (case tf_execution_mode f of
                 None \<Rightarrow> e4 | Some m \<Rightarrow> filter (\<lambda>e. m \<in> set (rt_execution_modes (re_definition e))) e4);
         e6 = (case tf_approval_required f of
                 None \<Rightarrow> e5 | Some b \<Rightarrow> filter (\<lambda>e. rt_approval_required (re_definition e) = b) e5);
         e7 = (case tf_name_prefix f of
                 None \<Rightarrow> e6 | Some p \<Rightarrow> filter (\<lambda>e. startswith (rt_logical_name (re_definition e)) p) e6)
     in if tf_metadata f \<noteq> [] then filter (\<lambda>e. matches_metadata e (tf_metadata f)) e7 else e7)"

record tool_definition =
  tdf_name :: string
  tdf_description :: "string option"
  tdf_input_schema :: pydict
  tdf_source :: string
  tdf_output_schema :: "pydict option"
  tdf_enabled :: bool
  tdf_execution_modes :: "string list"
  tdf_safety_level :: string
  tdf_approval_required :: bool
  tdf_tags :: "string list"
  tdf_metadata :: pydict

definition internal_metadata_keys :: "string list" where
  "internal_metadata_keys = [''denylisted_fields'', ''denylisted_argument_fields'', ''argument_denylist'']"

definition public_definition :: "registry_entry \<Rightarrow> tool_definition" where
  "public_definition e =
    (let t = re_definition e in
     \<lparr>tdf_name = rt_logical_name t, tdf_description = rt_description t,
      tdf_input_schema = (case rt_input_schema t of None \<Rightarrow> [] | Some s \<Rightarrow> s), tdf_source = re_source e,
      tdf_output_schema = rt_output_schema t, tdf_enabled = rt_enabled t,
      tdf_execution_modes = rt_execution_modes t, tdf_safety_level = rt_safety_level t,
      tdf_approval_required = rt_approval_required t, tdf_tags = rt_tags t,
      tdf_metadata = filter (\<lambda>(k, v). k \<notin> set internal_metadata_keys) (rt_metadata t)\<rparr>)"

definition list_registry :: "tool_registry \<Rightarrow> tool_filters \<Rightarrow> tool_definition list" where
  "list_registry reg f = List.map public_definition (filtered_entries reg f)"

section \<open>Discovery cannot widen a tool\<close>

text \<open>What guards a tool: the flags and limits the gateway and the policy decide on.\<close>

definition same_guards :: "resolved_tool \<Rightarrow> resolved_tool \<Rightarrow> bool" where
  "same_guards t t' \<longleftrightarrow>
    rt_enabled t' = rt_enabled t \<and> rt_safety_level t' = rt_safety_level t
    \<and> rt_approval_required t' = rt_approval_required t \<and> rt_timeout_seconds t' = rt_timeout_seconds t
    \<and> rt_max_argument_bytes t' = rt_max_argument_bytes t \<and> rt_max_result_bytes t' = rt_max_result_bytes t
    \<and> set (rt_allowed_usecases t') = set (normalize_text_tuple (rt_allowed_usecases t))
    \<and> set (rt_allowed_agents t') = set (normalize_text_tuple (rt_allowed_agents t))
    \<and> set (rt_allowed_strategies t') = set (normalize_text_tuple (rt_allowed_strategies t))"

definition settled_tool :: "resolved_tool \<Rightarrow> bool" where
  "settled_tool t \<longleftrightarrow> resolved_tool_post_init t = Inr t"

lemma settled_lists:
  assumes "settled_tool t"
  shows "normalize_text_tuple (rt_allowed_usecases t) = rt_allowed_usecases t"
    "normalize_text_tuple (rt_allowed_agents t) = rt_allowed_agents t"
    "normalize_text_tuple (rt_allowed_strategies t) = rt_allowed_strategies t"
proof -
  from assms obtain l m es where "t\<lparr>rt_logical_name := l, rt_mcp_tool_name := m,
           rt_description := norm_text (rt_description t), rt_execution_modes := es,
           rt_tags := normalize_text_tuple (rt_tags t),
           rt_allowed_usecases := normalize_text_tuple (rt_allowed_usecases t),
           rt_allowed_agents := normalize_text_tuple (rt_allowed_agents t),
           rt_allowed_strategies := normalize_text_tuple (rt_allowed_strategies t)\<rparr> = t" (is "?t = t")
    by (auto simp: settled_tool_def resolved_tool_post_init_def)
  then have "rt_allowed_usecases ?t = rt_allowed_usecases t" "rt_allowed_agents ?t = rt_allowed_agents t"
    "rt_allowed_strategies ?t = rt_allowed_strategies t" by simp_all
  then show "normalize_text_tuple (rt_allowed_usecases t) = rt_allowed_usecases t"
    "normalize_text_tuple (rt_allowed_agents t) = rt_allowed_agents t"
    "normalize_text_tuple (rt_allowed_strategies t) = rt_allowed_strategies t" by simp_all
qed

lemma merged_guards: "merge_definition t d = Inr t' \<Longrightarrow> same_guards t t'"
  by (auto simp: merge_definition_def resolved_tool_post_init_def same_guards_def)

lemma discovered_disabled: "discovered_only_definition d = Inr t \<Longrightarrow> \<not> rt_enabled t"
  by (auto simp: discovered_only_definition_def resolved_tool_post_init_def)

text \<open>The entries of a refreshed registry: disabled, or a configured entry with its guards.\<close>

definition entry_backed :: "(string \<times> registry_entry) list \<Rightarrow> string \<Rightarrow> registry_entry \<Rightarrow> bool" where
  "entry_backed configured n e' \<longleftrightarrow>
    rt_enabled (re_definition e') \<longrightarrow>
      (\<exists>e. (n, e) \<in> set configured
         \<and> (re_definition e' = re_definition e \<or> same_guards (re_definition e) (re_definition e')))"

lemma merge_configured_backed:
  assumes "merge_configured tools rest p = Inr p'" "set rest \<subseteq> set configured"
    and "\<forall>(n, e) \<in> set (rp_entries p). entry_backed configured n e"
  shows "\<forall>(n, e) \<in> set (rp_entries p'). entry_backed configured n e"
  using assms
proof (induction tools rest p rule: merge_configured.induct)
  case (2 tools name e rest p)
  show ?case
  proof (cases "map_of tools (rt_mcp_tool_name (re_definition e))")
    case None
    let ?e = "\<lparr>re_definition = re_definition e, re_source = ''configured'',
      re_metadata = dict_merge (re_metadata e) [(''mcp_available'', PBool False)]\<rparr>"
    have "entry_backed configured name ?e" using "2.prems"(2) by (auto simp: entry_backed_def)
    then have "\<forall>(n, e) \<in> set (dict_set name ?e (rp_entries p)). entry_backed configured n e"
      using "2.prems"(3) by (auto dest!: dict_set_mem)
    then show ?thesis using "2.IH"(1) [OF None] "2.prems"(1,2) None by simp
  next
    case (Some d)
    then obtain t where t: "merge_definition (re_definition e) d = Inr t"
      using "2.prems"(1) by auto
    let ?e = "\<lparr>re_definition = t, re_source = ''merged'', re_metadata = dict_merge (re_metadata e)
      [(''mcp_available'', PBool True), (''discovered_tool_name'', PStr (mt_name d))]\<rparr>"
    have "entry_backed configured name ?e" using "2.prems"(2) merged_guards [OF t] by (auto simp: entry_backed_def)
    then have "\<forall>(n, e) \<in> set (dict_set name ?e (rp_entries p)). entry_backed configured n e"
      using "2.prems"(3) by (auto dest!: dict_set_mem)
    then show ?thesis using "2.IH"(2) [OF Some t] "2.prems"(1,2) Some t by simp
  qed
qed simp

lemma add_discovered_backed:
  assumes "add_discovered only entries = Inr entries'"
    and "\<forall>(n, e) \<in> set entries. entry_backed configured n e"
  shows "\<forall>(n, e) \<in> set entries'. entry_backed configured n e"
  using assms
proof (induction only entries rule: add_discovered.induct)
  case (2 name d rest entries)
  then obtain t where t: "discovered_only_definition d = Inr t" by auto
  let ?e = "\<lparr>re_definition = t, re_source = ''discovered'', re_metadata =
      [(''allowlisted'', PBool False), (''callable'', PBool False), (''mcp_available'', PBool True)]\<rparr>"
  have "entry_backed configured name ?e" using discovered_disabled [OF t] by (simp add: entry_backed_def)
  then have "\<forall>(n, e) \<in> set (dict_set name ?e entries). entry_backed configured n e"
    using "2.prems"(2) by (auto dest!: dict_set_mem)
  then show ?case using "2.IH" [OF t] "2.prems"(1) t by simp
qed simp

text \<open>C18. An MCP server cannot widen what the backend calls: after a refresh with whatever the server
  announces, every enabled tool of the registry was configured under its name, with the same enabled
  flag, safety level, approval flag, time and size limits and allowlists.\<close>

theorem discovery_cannot_widen:
  assumes "refresh_from_snapshot reg snapshot = Inr (result, reg')"
    and "\<forall>(n, e) \<in> set (tr_configured reg). settled_tool (re_definition e)"
    and "resolve_entry reg' name = Some e'" "rt_enabled (re_definition e')"
  shows "\<exists>e. (name, e) \<in> set (tr_configured reg) \<and> rt_enabled (re_definition e)
    \<and> rt_safety_level (re_definition e') = rt_safety_level (re_definition e)
    \<and> rt_approval_required (re_definition e') = rt_approval_required (re_definition e)
    \<and> rt_timeout_seconds (re_definition e') = rt_timeout_seconds (re_definition e)
    \<and> rt_max_argument_bytes (re_definition e') = rt_max_argument_bytes (re_definition e)
    \<and> rt_max_result_bytes (re_definition e') = rt_max_result_bytes (re_definition e)
    \<and> set (rt_allowed_usecases (re_definition e')) = set (rt_allowed_usecases (re_definition e))
    \<and> set (rt_allowed_agents (re_definition e')) = set (rt_allowed_agents (re_definition e))
    \<and> set (rt_allowed_strategies (re_definition e')) = set (rt_allowed_strategies (re_definition e))"
proof -
  from assms(1) obtain p where p: "merge_configured (sn_tools snapshot) (tr_configured reg)
      \<lparr>rp_entries = [], rp_missing = [], rp_matched = []\<rparr> = Inr p"
    and step: "(if tr_allow_discovered reg
      then add_discovered (filter (\<lambda>(n, d). n \<notin> set (rp_matched p)) (sn_tools snapshot)) (rp_entries p)
      else Inr (rp_entries p)) = Inr (tr_entries reg')"
    by (auto simp: refresh_from_snapshot_def Let_def)
  from step have entries: "tr_entries reg' = rp_entries p
      \<or> (\<exists>only. add_discovered only (rp_entries p) = Inr (tr_entries reg'))"
    by (cases "tr_allow_discovered reg") auto
  have "\<forall>(n, e) \<in> set (rp_entries p). entry_backed (tr_configured reg) n e"
    by (rule merge_configured_backed [OF p]) simp_all
  then have "\<forall>(n, e) \<in> set (tr_entries reg'). entry_backed (tr_configured reg) n e"
    using entries add_discovered_backed by metis
  then have "entry_backed (tr_configured reg) name e'"
    using assms(3) by (auto simp: resolve_entry_def dest: map_of_SomeD)
  then obtain e where e: "(name, e) \<in> set (tr_configured reg)"
    "re_definition e' = re_definition e \<or> same_guards (re_definition e) (re_definition e')"
    using assms(4) by (auto simp: entry_backed_def)
  then have "settled_tool (re_definition e)" using assms(2) by auto
  with e assms(4) show ?thesis
    using settled_lists [of "re_definition e"] by (auto simp: same_guards_def)
qed

text \<open>A registry with one configured tool, and a server that announces that tool and a tool whose name is
  the logical name of the configured one.\<close>

definition sample_tool :: "string \<Rightarrow> string \<Rightarrow> resolved_tool" where
  "sample_tool name mcp_name =
    \<lparr>rt_logical_name = name, rt_mcp_tool_name = mcp_name, rt_description = None, rt_enabled = True,
     rt_execution_modes = [''sync''], rt_safety_level = ''read_only'', rt_approval_required = False,
     rt_timeout_seconds = 60, rt_max_argument_bytes = 65536, rt_max_result_bytes = 262144, rt_input_schema = None,
     rt_output_schema = None, rt_tags = [], rt_allowed_usecases = [], rt_allowed_agents = [''analyst''],
     rt_allowed_strategies = [], rt_metadata = []\<rparr>"

definition sample_registry_of :: "string \<Rightarrow> string \<Rightarrow> tool_registry" where
  "sample_registry_of name mcp_name =
    new_tool_registry
      [(name, \<lparr>re_definition = sample_tool name mcp_name, re_source = ''configured'', re_metadata = []\<rparr>)] None True True"

definition announced :: "string list \<Rightarrow> discovery_snapshot" where
  "announced names =
    \<lparr>sn_server_name = ''main'', sn_transport = ''http'', sn_discovery_enabled = True, sn_discovered_at = Some 0,
     sn_tools = List.map (\<lambda>n. (n, \<lparr>mt_name = n, mt_description = None, mt_input_schema = [],
       mt_output_schema = None, mt_supports_streaming = True, mt_metadata = []\<rparr>)) names,
     sn_error = None, sn_metadata = []\<rparr>"

definition refreshed_entry :: "string \<Rightarrow> string \<Rightarrow> string list \<Rightarrow> string \<Rightarrow> registry_entry option" where
  "refreshed_entry name mcp_name names n =
    (case refresh_from_snapshot (sample_registry_of name mcp_name) (announced names) of
       Inl e \<Rightarrow> None | Inr (result, reg) \<Rightarrow> resolve_entry reg n)"

theorem discovery_cannot_widen_witness:
  "\<exists>e'. refreshed_entry ''search'' ''find'' [''find'', ''erase''] ''search'' = Some e'
    \<and> rt_safety_level (re_definition e') = ''read_only'' \<and> set (rt_allowed_agents (re_definition e')) = {''analyst''}"
proof -
  have "case refreshed_entry ''search'' ''find'' [''find'', ''erase''] ''search'' of None \<Rightarrow> False
    | Some e \<Rightarrow> rt_enabled (re_definition e)" by code_simp
  then obtain e' result reg' where
    r: "refresh_from_snapshot (sample_registry_of ''search'' ''find'') (announced [''find'', ''erase'']) = Inr (result, reg')"
      "resolve_entry reg' ''search'' = Some e'" "rt_enabled (re_definition e')"
    by (auto simp: refreshed_entry_def split: option.splits sum.splits)
  have "settled_tool (sample_tool ''search'' ''find'')" unfolding settled_tool_def by code_simp
  then have "\<forall>(n, e) \<in> set (tr_configured (sample_registry_of ''search'' ''find'')). settled_tool (re_definition e)"
    by (simp add: sample_registry_of_def new_tool_registry_def)
  from discovery_cannot_widen [OF r(1) this r(2,3)] obtain e where
    e: "(''search'', e) \<in> set (tr_configured (sample_registry_of ''search'' ''find''))"
      "rt_safety_level (re_definition e') = rt_safety_level (re_definition e)"
      "set (rt_allowed_agents (re_definition e')) = set (rt_allowed_agents (re_definition e))" by blast
  from e(1) have "re_definition e = sample_tool ''search'' ''find''"
    by (simp add: sample_registry_of_def new_tool_registry_def)
  with e r show ?thesis by (auto simp: refreshed_entry_def sample_tool_def)
qed

text \<open>But a server can take a tool away: a tool announced under the logical name of a configured tool replaces
  it by a disabled one, although the configured tool is announced, and works, under its own name.\<close>

theorem discovery_shadows_configured_tool:
  "map_option (\<lambda>e. rt_enabled (re_definition e)) (refreshed_entry ''search'' ''find'' [''find''] ''search'') = Some True
   \<and> map_option (\<lambda>e. (rt_enabled (re_definition e), re_source e))
     (refreshed_entry ''search'' ''find'' [''find'', ''search''] ''search'') = Some (False, ''discovered'')"
  by code_simp

end
