(* ===== verification/Tool_Validation.thy ===== *)
theory Tool_Validation
  imports Tool_Registry Py_Text Policy_Redaction
begin

text \<open>
  The validation of tool arguments (\<open>tools/schema_validation.py\<close>, with \<open>tools/redaction.py\<close>): conversion to
  plain JSON, the size limit, denylisted and secret-like fields, and the subset of JSON Schema.

  An error is kept as a value that says what was wrong and where; the English sentence built from it is
  not modelled. The specification \<open>conforms\<close> says what the schema subset means, without an order of
  checks and without paths; the validator accepts exactly what conforms.
\<close>

section \<open>Faults\<close>

type_synonym path = "string list"

datatype validation_fault =
    UnsupportedType string
  | NotJsonObject
  | NotSerializable
  | TooManyBytes int
  | DenylistedFields "path list"
  | SecretLikeFields "path list"
  | WrongType path "string list"
  | NotInEnum path
  | NotConst path
  | FieldRequired path
  | TooFewProperties path int
  | TooManyProperties path int
  | FieldNotAllowed path
  | TooFewItems path int
  | TooManyItems path int
  | TooShort path int
  | TooLong path int
  | TooSmall path
  | TooLarge path

type_synonym 'a checked = "validation_fault + 'a"

section \<open>Plain JSON\<close>

fun to_plain_json :: "pyval \<Rightarrow> pyval checked"
  and to_plain_items :: "pydict \<Rightarrow> pydict checked"
  and to_plain_list :: "pyval list \<Rightarrow> pyval list checked" where
  "to_plain_json (PDict d) = try_bind (to_plain_items d) (\<lambda>e. Inr (PDict e))"
| "to_plain_json (PList xs) = try_bind (to_plain_list xs) (\<lambda>ys. Inr (PList ys))"
| "to_plain_json (PTuple xs) = try_bind (to_plain_list xs) (\<lambda>ys. Inr (PList ys))"
| "to_plain_json (PBytes s) = Inl (UnsupportedType ''bytes'')"
| "to_plain_json (PSet xs) = Inl (UnsupportedType ''set'')"
| "to_plain_json (PObj c) = Inl (UnsupportedType c)"
| "to_plain_json PNone = Inr PNone"
| "to_plain_json (PBool b) = Inr (PBool b)"
| "to_plain_json (PInt i) = Inr (PInt i)"
| "to_plain_json (PFloat w) = Inr (PFloat w)"
| "to_plain_json (PStr s) = Inr (PStr s)"
| "to_plain_items [] = Inr []"
| "to_plain_items ((k, v) # d) =
    try_bind (to_plain_json v) (\<lambda>w. try_bind (to_plain_items d) (\<lambda>e. Inr ((k, w) # e)))"
| "to_plain_list [] = Inr []"
| "to_plain_list (v # xs) = try_bind (to_plain_json v) (\<lambda>w. try_bind (to_plain_list xs) (\<lambda>ys. Inr (w # ys)))"

text \<open>\<open>json.dumps(v, ensure_ascii=False, allow_nan=False, separators=(",", ":"), sort_keys=True)\<close>.\<close>

definition json_plain_char :: "char \<Rightarrow> string" where
  "json_plain_char c =
    (let n = (of_char c :: nat)
     in if n = 34 then [CHR 0x5C, CHR 0x22]
        else if n = 92 then [CHR 0x5C, CHR 0x5C]
        else if n = 10 then [CHR 0x5C, CHR ''n'']
        else if n = 13 then [CHR 0x5C, CHR ''r'']
        else if n = 9 then [CHR 0x5C, CHR ''t'']
        else if n = 12 then [CHR 0x5C, CHR ''f'']
        else if n = 8 then [CHR 0x5C, CHR ''b'']
        else if 32 \<le> n then [c]
        else CHR 0x5C # ''u00'' @ [digit (n div 16), digit (n mod 16)])"

definition json_plain_str :: "string \<Rightarrow> string" where
  "json_plain_str s = CHR 0x22 # concat (List.map json_plain_char s) @ [CHR 0x22]"

fun json_plain :: "py_texts \<Rightarrow> pyval \<Rightarrow> string" where
  "json_plain tx (PStr s) = json_plain_str s"
| "json_plain tx (PList xs) = ''['' @ join '','' (List.map (json_plain tx) xs) @ '']''"
| "json_plain tx (PTuple xs) = ''['' @ join '','' (List.map (json_plain tx) xs) @ '']''"
| "json_plain tx (PDict d) =
    CHR 0x7B # join '',''
      (List.map (\<lambda>kv. json_plain_str (fst kv) @ '':'' @ snd kv)
        (sort_key fst (List.map (\<lambda>(k, v). (k, json_plain tx v)) d))) @ [CHR 0x7D]"
| "json_plain tx v = json_dumps tx v"

fun json_finite :: "pyval \<Rightarrow> bool" where
  "json_finite (PFloat w) = (case float_num w of Fin i \<Rightarrow> True | _ \<Rightarrow> False)"
| "json_finite (PList xs) = (\<forall>x \<in> set xs. json_finite x)"
| "json_finite (PTuple xs) = (\<forall>x \<in> set xs. json_finite x)"
| "json_finite (PDict d) = (\<forall>(k, v) \<in> set d. json_finite v)"
| "json_finite (PBytes s) = False"
| "json_finite (PSet xs) = False"
| "json_finite (PObj c) = False"
| "json_finite v = True"

definition json_bytes :: "py_texts \<Rightarrow> pyval \<Rightarrow> int" where
  "json_bytes tx v = int (length (utf8 (json_plain tx v)))"

definition json_size_bytes :: "py_texts \<Rightarrow> pyval \<Rightarrow> int checked" where
  "json_size_bytes tx v = (if json_finite v then Inr (json_bytes tx v) else Inl NotSerializable)"

section \<open>Forbidden fields\<close>

definition denylist_metadata_keys :: "string list" where
  "denylist_metadata_keys = [''denylisted_fields'', ''denylisted_argument_fields'', ''argument_denylist'']"

definition denylisted_of :: "pyval \<Rightarrow> string list" where
  "denylisted_of v =
    (case v of
       PStr s \<Rightarrow> [lower (strip s)]
     | _ \<Rightarrow>
        (case seq_items v of
           None \<Rightarrow> []
         | Some xs \<Rightarrow> List.map_filter (\<lambda>x. case x of PStr s \<Rightarrow> Some (lower (strip s)) | _ \<Rightarrow> None) xs))"

text \<open>The set of denylisted names (a \<open>frozenset\<close>, so the order and repetitions of the list do not matter).\<close>

definition normalize_denylisted_fields :: "pydict \<Rightarrow> string list" where
  "normalize_denylisted_fields metadata =
    filter (\<lambda>s. s \<noteq> []) (concat (List.map (\<lambda>k. denylisted_of (dict_get metadata k)) denylist_metadata_keys))"

definition denylisted_key :: "string list \<Rightarrow> path \<Rightarrow> string \<Rightarrow> bool" where
  "denylisted_key deny p k \<longleftrightarrow>
    lower (strip k) \<in> set deny \<or> join ''.'' (List.map lower (tl (p @ [k]))) \<in> set deny"

fun find_denylisted_paths :: "string list \<Rightarrow> pyval \<Rightarrow> path \<Rightarrow> path list"
  and denylisted_in_items :: "string list \<Rightarrow> pydict \<Rightarrow> path \<Rightarrow> path list"
  and denylisted_in_list :: "string list \<Rightarrow> pyval list \<Rightarrow> nat \<Rightarrow> path \<Rightarrow> path list" where
  "find_denylisted_paths deny (PDict d) p = (if deny = [] then [] else denylisted_in_items deny d p)"
| "find_denylisted_paths deny (PList xs) p = (if deny = [] then [] else denylisted_in_list deny xs 0 p)"
| "find_denylisted_paths deny (PTuple xs) p = (if deny = [] then [] else denylisted_in_list deny xs 0 p)"
| "find_denylisted_paths deny v p = []"
| "denylisted_in_items deny [] p = []"
| "denylisted_in_items deny ((k, v) # d) p =
    (if denylisted_key deny p k then [p @ [k]] else []) @ find_denylisted_paths deny v (p @ [k])
    @ denylisted_in_items deny d p"
| "denylisted_in_list deny [] i p = []"
| "denylisted_in_list deny (v # xs) i p =
    find_denylisted_paths deny v (p @ [show_nat i]) @ denylisted_in_list deny xs (Suc i) p"

definition is_secret_like_tool_key :: "string \<Rightarrow> bool" where
  "is_secret_like_tool_key k = is_sensitive_key sensitive_key_parts_default [] k"

fun find_secret_like_paths :: "pyval \<Rightarrow> path \<Rightarrow> path list"
  and secrets_in_items :: "pydict \<Rightarrow> path \<Rightarrow> path list"
  and secrets_in_list :: "pyval list \<Rightarrow> nat \<Rightarrow> path \<Rightarrow> path list" where
  "find_secret_like_paths (PDict d) p = secrets_in_items d p"
| "find_secret_like_paths (PList xs) p = secrets_in_list xs 0 p"
| "find_secret_like_paths (PTuple xs) p = secrets_in_list xs 0 p"
| "find_secret_like_paths v p = []"
| "secrets_in_items [] p = []"
| "secrets_in_items ((k, v) # d) p =
    (if is_secret_like_tool_key k then [p @ [k]] else []) @ find_secret_like_paths v (p @ [k]) @ secrets_in_items d p"
| "secrets_in_list [] i p = []"
| "secrets_in_list (v # xs) i p = find_secret_like_paths v (p @ [show_nat i]) @ secrets_in_list xs (Suc i) p"

section \<open>The schema subset\<close>

definition coerce_int :: "pyval \<Rightarrow> int option" where
  "coerce_int v = (case v of PInt i \<Rightarrow> Some i | _ \<Rightarrow> None)"

definition coerce_number :: "pyval \<Rightarrow> py_num option" where
  "coerce_number v = (case v of PBool b \<Rightarrow> None | _ \<Rightarrow> num_of v)"

fun is_json_number :: "pyval \<Rightarrow> bool" where
  "is_json_number (PInt i) = True"
| "is_json_number (PFloat w) = True"
| "is_json_number v = False"

fun collect_types :: "pyval list \<Rightarrow> string list \<Rightarrow> string list" where
  "collect_types [] acc = acc"
| "collect_types (PStr s # xs) acc =
    collect_types xs (if strip s \<noteq> [] \<and> strip s \<notin> set acc then acc @ [strip s] else acc)"
| "collect_types (_ # xs) acc = collect_types xs acc"

definition normalize_schema_types :: "pyval \<Rightarrow> string list" where
  "normalize_schema_types v =
    (case v of
       PStr s \<Rightarrow> if strip s \<noteq> [] then [strip s] else []
     | _ \<Rightarrow> (case seq_items v of None \<Rightarrow> [] | Some xs \<Rightarrow> collect_types xs []))"

definition matches_json_type :: "pyval \<Rightarrow> string \<Rightarrow> bool" where
  "matches_json_type v t =
    (if t = ''object'' then (case v of PDict d \<Rightarrow> True | _ \<Rightarrow> False)
     else if t = ''array'' then (case v of PList xs \<Rightarrow> True | _ \<Rightarrow> False)
     else if t = ''string'' then (case v of PStr s \<Rightarrow> True | _ \<Rightarrow> False)
     else if t = ''integer'' then (case v of PInt i \<Rightarrow> True | _ \<Rightarrow> False)
     else if t = ''number'' then is_json_number v
     else if t = ''boolean'' then (case v of PBool b \<Rightarrow> True | _ \<Rightarrow> False)
     else if t = ''null'' then v = PNone
     else True)"

text \<open>The checks of one value before its kind is looked at: type, enumeration, constant.\<close>

definition check_value :: "pyval \<Rightarrow> pydict \<Rightarrow> path \<Rightarrow> unit checked" where
  "check_value v s p =
    (let types = normalize_schema_types (dict_get s ''type'')
     in if types \<noteq> [] \<and> \<not> (\<exists>t \<in> set types. matches_json_type v t) then Inl (WrongType p types)
        else (case seq_items (dict_get s ''enum'') of
                Some xs \<Rightarrow> if \<not> py_in v xs then Inl (NotInEnum p) else Inr ()
              | None \<Rightarrow> Inr ()))"

definition check_const :: "pyval \<Rightarrow> pydict \<Rightarrow> path \<Rightarrow> unit checked" where
  "check_const v s p =
    (case map_of s ''const'' of Some c \<Rightarrow> if \<not> py_eq v c then Inl (NotConst p) else Inr () | None \<Rightarrow> Inr ())"

fun check_required :: "pyval list \<Rightarrow> pydict \<Rightarrow> path \<Rightarrow> unit checked" where
  "check_required [] d p = Inr ()"
| "check_required (PStr k # xs) d p = (if map_of d k = None then Inl (FieldRequired (p @ [k])) else check_required xs d p)"
| "check_required (_ # xs) d p = check_required xs d p"

definition check_count :: "(path \<Rightarrow> int \<Rightarrow> validation_fault) \<Rightarrow> (path \<Rightarrow> int \<Rightarrow> validation_fault) \<Rightarrow> pyval \<Rightarrow> pyval \<Rightarrow>
   nat \<Rightarrow> path \<Rightarrow> unit checked" where
  "check_count few many lo hi n p =
    (case coerce_int lo of
       Some m \<Rightarrow> if int n < m then Inl (few p m)
                 else (case coerce_int hi of Some k \<Rightarrow> if int n > k then Inl (many p k) else Inr () | None \<Rightarrow> Inr ())
     | None \<Rightarrow> (case coerce_int hi of Some k \<Rightarrow> if int n > k then Inl (many p k) else Inr () | None \<Rightarrow> Inr ()))"

definition check_object_shape :: "pydict \<Rightarrow> pydict \<Rightarrow> path \<Rightarrow> unit checked" where
  "check_object_shape d s p =
    try_bind (case seq_items (dict_get s ''required'') of Some xs \<Rightarrow> check_required xs d p | None \<Rightarrow> Inr ())
      (\<lambda>u. check_count TooFewProperties TooManyProperties (dict_get s ''minProperties'') (dict_get s ''maxProperties'')
             (length d) p)"

definition check_number :: "pyval \<Rightarrow> pydict \<Rightarrow> path \<Rightarrow> unit checked" where
  "check_number v s p =
    (case coerce_number v of
       None \<Rightarrow> Inr ()
     | Some x \<Rightarrow>
        (if (case coerce_number (dict_get s ''minimum'') of Some lo \<Rightarrow> num_less x lo | None \<Rightarrow> False) then Inl (TooSmall p)
         else if (case coerce_number (dict_get s ''maximum'') of Some hi \<Rightarrow> num_less hi x | None \<Rightarrow> False)
           then Inl (TooLarge p) else Inr ()))"

text \<open>\<open>property_schemas\<close>, \<open>additionalProperties\<close> and \<open>items\<close> of a schema.\<close>

definition property_schemas :: "pydict \<Rightarrow> pydict" where
  "property_schemas s = (case dict_get s ''properties'' of PDict ps \<Rightarrow> ps | _ \<Rightarrow> [])"

definition additional_properties :: "pydict \<Rightarrow> pyval" where
  "additional_properties s = (case map_of s ''additionalProperties'' of None \<Rightarrow> PBool True | Some v \<Rightarrow> v)"

text \<open>The schema for the value under a key of an object: the one of the property, or the additional one.\<close>

datatype child_rule = Forbidden | Unchecked | Checked pydict

definition child_rule :: "pydict \<Rightarrow> string \<Rightarrow> child_rule" where
  "child_rule s k =
    (case map_of (property_schemas s) k of
       Some (PDict child) \<Rightarrow> Checked child
     | _ \<Rightarrow>
        (if additional_properties s = PBool False then Forbidden
         else (case additional_properties s of PDict child \<Rightarrow> Checked child | _ \<Rightarrow> Unchecked)))"

function validate_against_schema :: "pyval \<Rightarrow> pydict \<Rightarrow> path \<Rightarrow> unit checked"
  and validate_items :: "pydict \<Rightarrow> pydict \<Rightarrow> path \<Rightarrow> unit checked"
  and validate_elements :: "pyval list \<Rightarrow> pydict \<Rightarrow> nat \<Rightarrow> path \<Rightarrow> unit checked" where
  "validate_against_schema v s p =
    try_bind (check_value v s p) (\<lambda>u. try_bind (check_const v s p) (\<lambda>u.
      case v of
        PDict d \<Rightarrow> try_bind (check_object_shape d s p) (\<lambda>u. validate_items d s p)
      | PList xs \<Rightarrow>
          try_bind (check_count TooFewItems TooManyItems (dict_get s ''minItems'') (dict_get s ''maxItems'') (length xs) p)
            (\<lambda>u. case dict_get s ''items'' of PDict item_schema \<Rightarrow> validate_elements xs item_schema 0 p | _ \<Rightarrow> Inr ())
      | PStr t \<Rightarrow>
          check_count TooShort TooLong (dict_get s ''minLength'') (dict_get s ''maxLength'') (length t) p
      | _ \<Rightarrow> if is_json_number v then check_number v s p else Inr ()))"
| "validate_items [] s p = Inr ()"
| "validate_items ((k, v) # d) s p =
    (case child_rule s k of
       Forbidden \<Rightarrow> Inl (FieldNotAllowed (p @ [k]))
     | Unchecked \<Rightarrow> validate_items d s p
     | Checked child \<Rightarrow>
         try_bind (validate_against_schema v child (p @ [k])) (\<lambda>u. validate_items d s p))"
| "validate_elements [] s i p = Inr ()"
| "validate_elements (v # xs) s i p =
    try_bind (validate_against_schema v s (p @ [show_nat i])) (\<lambda>u. validate_elements xs s (Suc i) p)"

  by pat_completeness auto

termination
  by (relation "measure (case_sum (\<lambda>(v, s, p). 2 * size v + 1)
        (case_sum (\<lambda>(d, s, p). 2 * size (PDict d)) (\<lambda>(xs, s, i, p). 2 * size (PList xs))))") simp_all

declare validate_against_schema.simps [simp del]

section \<open>The validator\<close>

definition validate_arguments ::
  "py_texts \<Rightarrow> int \<Rightarrow> resolved_tool \<Rightarrow> pydict \<Rightarrow> pydict checked" where
  "validate_arguments tx default_max_bytes t arguments =
    try_bind (to_plain_json (PDict arguments)) (\<lambda>normalized.
      case normalized of
        PDict d \<Rightarrow>
          try_bind (json_size_bytes tx (PDict d)) (\<lambda>payload_bytes.
            let max_bytes = (if rt_max_argument_bytes t = 0 then default_max_bytes else rt_max_argument_bytes t)
            in if payload_bytes > max_bytes then Inl (TooManyBytes max_bytes)
               else
                 (let denied = find_denylisted_paths (normalize_denylisted_fields (rt_metadata t)) (PDict d) [''arguments'']
                  in if denied \<noteq> [] then Inl (DenylistedFields denied)
                     else
                       (let secrets = find_secret_like_paths (PDict d) [''arguments'']
                        in if secrets \<noteq> [] then Inl (SecretLikeFields secrets)
                           else (case rt_input_schema t of
                                   None \<Rightarrow> Inr d
                                 | Some s \<Rightarrow>
                                     try_bind (validate_against_schema (PDict d) s [''arguments'']) (\<lambda>u. Inr d)))))
      | _ \<Rightarrow> Inl NotJsonObject)"

section \<open>What the schema subset means\<close>

definition within_count :: "pyval \<Rightarrow> pyval \<Rightarrow> nat \<Rightarrow> bool" where
  "within_count lo hi n \<longleftrightarrow>
    (case coerce_int lo of None \<Rightarrow> True | Some m \<Rightarrow> m \<le> int n)
    \<and> (case coerce_int hi of None \<Rightarrow> True | Some k \<Rightarrow> int n \<le> k)"

definition number_within :: "pydict \<Rightarrow> py_num \<Rightarrow> bool" where
  "number_within s x \<longleftrightarrow>
    (case coerce_number (dict_get s ''minimum'') of None \<Rightarrow> True | Some lo \<Rightarrow> \<not> num_less x lo)
    \<and> (case coerce_number (dict_get s ''maximum'') of None \<Rightarrow> True | Some hi \<Rightarrow> \<not> num_less hi x)"

definition admitted_value :: "pyval \<Rightarrow> pydict \<Rightarrow> bool" where
  "admitted_value v s \<longleftrightarrow>
    (let types = normalize_schema_types (dict_get s ''type'')
     in types = [] \<or> (\<exists>t \<in> set types. matches_json_type v t))
    \<and> (case seq_items (dict_get s ''enum'') of None \<Rightarrow> True | Some xs \<Rightarrow> py_in v xs)
    \<and> (case map_of s ''const'' of None \<Rightarrow> True | Some c \<Rightarrow> py_eq v c)"

function conforms :: "pyval \<Rightarrow> pydict \<Rightarrow> bool" where
  "conforms v s \<longleftrightarrow> admitted_value v s \<and>
    (case v of
       PDict d \<Rightarrow>
         (case seq_items (dict_get s ''required'') of
            None \<Rightarrow> True | Some xs \<Rightarrow> \<forall>x \<in> set xs. case x of PStr k \<Rightarrow> k \<in> fst ` set d | _ \<Rightarrow> True)
         \<and> within_count (dict_get s ''minProperties'') (dict_get s ''maxProperties'') (length d)
         \<and> (\<forall>(k, x) \<in> set d.
              case child_rule s k of Forbidden \<Rightarrow> False | Unchecked \<Rightarrow> True | Checked c \<Rightarrow> conforms x c)
     | PList xs \<Rightarrow>
         within_count (dict_get s ''minItems'') (dict_get s ''maxItems'') (length xs)
         \<and> (case dict_get s ''items'' of PDict c \<Rightarrow> \<forall>x \<in> set xs. conforms x c | _ \<Rightarrow> True)
     | PStr t \<Rightarrow> within_count (dict_get s ''minLength'') (dict_get s ''maxLength'') (length t)
     | PInt i \<Rightarrow> number_within s (int_num i)
     | PFloat w \<Rightarrow> number_within s (float_num w)
     | _ \<Rightarrow> True)"
  by pat_completeness auto

termination
  by (relation "measure (\<lambda>(v, s). py_size v)") (auto intro: py_size_member)

declare conforms.simps [simp del]

lemma check_count_within:
  "check_count few many lo hi n p = Inr () \<longleftrightarrow> within_count lo hi n"
  by (auto simp: check_count_def within_count_def split: option.split)

lemma check_value_admitted:
  "check_value v s p = Inr () \<and> check_const v s p = Inr () \<longleftrightarrow> admitted_value v s"
  by (auto simp: check_value_def check_const_def admitted_value_def Let_def split: option.split)

lemma check_number_within:
  "coerce_number v = Some x \<Longrightarrow> check_number v s p = Inr () \<longleftrightarrow> number_within s x"
  by (auto simp: check_number_def number_within_def split: option.split)

lemma check_required_within:
  "check_required xs d p = Inr () \<longleftrightarrow> (\<forall>x \<in> set xs. case x of PStr k \<Rightarrow> k \<in> fst ` set d | _ \<Rightarrow> True)"
  by (induction xs d p rule: check_required.induct) (auto simp: map_of_eq_None_iff)

lemma check_object_shape_within:
  "check_object_shape d s p = Inr () \<longleftrightarrow>
    (case seq_items (dict_get s ''required'') of
       None \<Rightarrow> True | Some xs \<Rightarrow> \<forall>x \<in> set xs. case x of PStr k \<Rightarrow> k \<in> fst ` set d | _ \<Rightarrow> True)
    \<and> within_count (dict_get s ''minProperties'') (dict_get s ''maxProperties'') (length d)"
  by (auto simp: check_object_shape_def check_count_within check_required_within split: option.split)

lemmas check_within = check_count_within check_number_within check_object_shape_within

lemma validate_step:
  "validate_against_schema v s p = Inr () \<longleftrightarrow> admitted_value v s \<and>
    (case v of
        PDict d \<Rightarrow> try_bind (check_object_shape d s p) (\<lambda>u. validate_items d s p)
      | PList xs \<Rightarrow>
          try_bind (check_count TooFewItems TooManyItems (dict_get s ''minItems'') (dict_get s ''maxItems'') (length xs) p)
            (\<lambda>u. case dict_get s ''items'' of PDict item_schema \<Rightarrow> validate_elements xs item_schema 0 p | _ \<Rightarrow> Inr ())
      | PStr t \<Rightarrow>
          check_count TooShort TooLong (dict_get s ''minLength'') (dict_get s ''maxLength'') (length t) p
      | _ \<Rightarrow> if is_json_number v then check_number v s p else Inr ()) = Inr ()"
  using check_value_admitted [of v s p] by (simp add: validate_against_schema.simps) blast

lemma validate_conforms:
  "validate_against_schema v s p = Inr () \<longleftrightarrow> conforms v s"
  "validate_items d s p = Inr () \<longleftrightarrow>
    (\<forall>(k, x) \<in> set d. case child_rule s k of Forbidden \<Rightarrow> False | Unchecked \<Rightarrow> True | Checked c \<Rightarrow> conforms x c)"
  "validate_elements xs s i p = Inr () \<longleftrightarrow> (\<forall>x \<in> set xs. conforms x s)"
proof (induction v s p and d s p and xs s i p
    rule: validate_against_schema_validate_items_validate_elements.induct)
  case (1 v s p)
  show ?case
  proof (cases v)
    case (PDict d)
    have "validate_items d s p = Inr () \<longleftrightarrow>
      (\<forall>(k, x) \<in> set d. case child_rule s k of Forbidden \<Rightarrow> False | Unchecked \<Rightarrow> True | Checked c \<Rightarrow> conforms x c)"
      if "admitted_value v s" "check_object_shape d s p = Inr ()"
      using "1.IH"(2) that check_value_admitted [of v s p] PDict by blast
    then show ?thesis unfolding PDict validate_step [of "PDict d"] by (auto simp: check_within conforms.simps [of "PDict d"])
  next
    case (PList xs)
    have "validate_elements xs c 0 p = Inr () \<longleftrightarrow> (\<forall>x \<in> set xs. conforms x c)"
      if "admitted_value v s" "dict_get s ''items'' = PDict c"
        "check_count TooFewItems TooManyItems (dict_get s ''minItems'') (dict_get s ''maxItems'') (length xs) p = Inr ()" for c
      using "1.IH"(1) that check_value_admitted [of v s p] PList by blast
    then show ?thesis unfolding PList validate_step [of "PList xs"]
      by (cases "dict_get s ''items''") (auto simp: check_within conforms.simps [of "PList xs"])
  qed (simp_all add: validate_step check_within conforms.simps coerce_number_def)
next
  case (3 k v d s p)
  then show ?case by (cases "child_rule s k") auto
qed auto

section \<open>What the validator lets through\<close>

fun json_value :: "pyval \<Rightarrow> bool" where
  "json_value (PDict d) = (\<forall>(k, v) \<in> set d. json_value v)"
| "json_value (PList xs) = (\<forall>x \<in> set xs. json_value x)"
| "json_value (PTuple xs) = False"
| "json_value (PBytes s) = False"
| "json_value (PSet xs) = False"
| "json_value (PObj c) = False"
| "json_value v = True"

text \<open>Every key of every mapping, at any depth.\<close>

fun every_key :: "(string \<Rightarrow> bool) \<Rightarrow> pyval \<Rightarrow> bool" where
  "every_key P (PDict d) = (\<forall>(k, v) \<in> set d. P k \<and> every_key P v)"
| "every_key P (PList xs) = (\<forall>x \<in> set xs. every_key P x)"
| "every_key P (PTuple xs) = (\<forall>x \<in> set xs. every_key P x)"
| "every_key P v = True"

lemma to_plain_json_value:
  "to_plain_json v = Inr w \<Longrightarrow> json_value w"
  "to_plain_items d = Inr e \<Longrightarrow> \<forall>(k, w) \<in> set e. json_value w"
  "to_plain_list xs = Inr ys \<Longrightarrow> \<forall>y \<in> set ys. json_value y"
  by (induction v and d and xs arbitrary: w and e and ys rule: to_plain_json_to_plain_items_to_plain_list.induct)
    fastforce+

lemma to_plain_json_fixed:
  "json_value v \<Longrightarrow> to_plain_json v = Inr v"
  "\<forall>(k, w) \<in> set d. json_value w \<Longrightarrow> to_plain_items d = Inr d"
  "\<forall>x \<in> set xs. json_value x \<Longrightarrow> to_plain_list xs = Inr xs"
  by (induction v and d and xs rule: to_plain_json_to_plain_items_to_plain_list.induct) auto

lemma no_secret_paths:
  "find_secret_like_paths v p = [] \<longleftrightarrow> every_key (\<lambda>k. \<not> is_secret_like_tool_key k) v"
  "secrets_in_items d p = [] \<longleftrightarrow>
    (\<forall>(k, v) \<in> set d. \<not> is_secret_like_tool_key k \<and> every_key (\<lambda>k. \<not> is_secret_like_tool_key k) v)"
  "secrets_in_list xs i p = [] \<longleftrightarrow> (\<forall>x \<in> set xs. every_key (\<lambda>k. \<not> is_secret_like_tool_key k) x)"
  by (induction v p and d p and xs i p rule: find_secret_like_paths_secrets_in_items_secrets_in_list.induct) auto

lemma no_denylisted_paths:
  "find_denylisted_paths deny v p = [] \<Longrightarrow> every_key (\<lambda>k. lower (strip k) \<notin> set deny) v"
  "deny \<noteq> [] \<Longrightarrow> denylisted_in_items deny d p = [] \<Longrightarrow>
    \<forall>(k, v) \<in> set d. lower (strip k) \<notin> set deny \<and> every_key (\<lambda>k. lower (strip k) \<notin> set deny) v"
  "deny \<noteq> [] \<Longrightarrow> denylisted_in_list deny xs i p = [] \<Longrightarrow>
    \<forall>x \<in> set xs. every_key (\<lambda>k. lower (strip k) \<notin> set deny) x"
proof (induction deny v p and deny d p and deny xs i p
    rule: find_denylisted_paths_denylisted_in_items_denylisted_in_list.induct)
  case (1 deny d p)
  have "every_key (\<lambda>k. True) v" for v by (induction v rule: every_key.induct [where P = "\<lambda>_. every_key (\<lambda>k. True)"]) auto
  with 1 show ?case by (cases "deny = []") auto
next
  case (2 deny xs p)
  have "every_key (\<lambda>k. True) v" for v by (induction v rule: every_key.induct [where P = "\<lambda>_. every_key (\<lambda>k. True)"]) auto
  with 2 show ?case by (cases "deny = []") auto
next
  case (3 deny xs p)
  have "every_key (\<lambda>k. True) v" for v by (induction v rule: every_key.induct [where P = "\<lambda>_. every_key (\<lambda>k. True)"]) auto
  with 3 show ?case by (cases "deny = []") auto
qed (auto simp: denylisted_key_def split: if_splits)

section \<open>Properties\<close>

text \<open>C16. The schema validator is the schema's meaning: it returns without an error exactly for the values that
  conform to the schema, whatever the order of its checks and the path it reports.\<close>

theorem validator_refines_schema:
  "validate_against_schema v s p = Inr () \<longleftrightarrow> conforms v s"
  by (rule validate_conforms(1))

text \<open>Conversion to plain JSON is typed and settled: its result consists of mappings, lists, texts, numbers,
  booleans and null only, and converting it again changes nothing; it fails only for a value of another type
  somewhere inside.\<close>

theorem plain_json_is_typed:
  assumes "to_plain_json v = Inr w"
  shows "json_value w \<and> to_plain_json w = Inr w"
  using to_plain_json_value(1) [OF assms] to_plain_json_fixed(1) by blast

theorem plain_json_is_typed_witness:
  "json_value (PDict [(''tags'', PList [PStr ''a'', PNone])])"
  using plain_json_is_typed [of "PDict [(''tags'', PTuple [PStr ''a'', PNone])]" "PDict [(''tags'', PList [PStr ''a'', PNone])]"]
  by simp

text \<open>C17. What reaches a tool: validated arguments are plain JSON within the size limit, have no key that is
  denylisted for the tool or looks like a credential at any depth, conform to the schema of the tool, and are
  accepted unchanged when validated again.\<close>

theorem validated_arguments_are_safe:
  assumes "validate_arguments tx limit t arguments = Inr d"
  shows "json_value (PDict d) \<and> json_finite (PDict d)
    \<and> json_bytes tx (PDict d) \<le> (if rt_max_argument_bytes t = 0 then limit else rt_max_argument_bytes t)
    \<and> every_key (\<lambda>k. lower (strip k) \<notin> set (normalize_denylisted_fields (rt_metadata t))) (PDict d)
    \<and> every_key (\<lambda>k. \<not> is_secret_like_tool_key k) (PDict d)
    \<and> (\<forall>s. rt_input_schema t = Some s \<longrightarrow> conforms (PDict d) s)
    \<and> validate_arguments tx limit t d = Inr d"
proof -
  let ?deny = "normalize_denylisted_fields (rt_metadata t)"
  from assms obtain e where e: "to_plain_json (PDict arguments) = Inr (PDict e)"
    by (auto simp: validate_arguments_def)
  with assms have d: "json_size_bytes tx (PDict e) = Inr (json_bytes tx (PDict e))" "json_finite (PDict e)"
    "json_bytes tx (PDict e) \<le> (if rt_max_argument_bytes t = 0 then limit else rt_max_argument_bytes t)"
    "find_denylisted_paths ?deny (PDict e) [''arguments''] = []"
    "find_secret_like_paths (PDict e) [''arguments''] = []"
    "(case rt_input_schema t of None \<Rightarrow> Inr e
      | Some s \<Rightarrow> try_bind (validate_against_schema (PDict e) s [''arguments'']) (\<lambda>u. Inr e)) = Inr d"
    by (auto simp: validate_arguments_def json_size_bytes_def Let_def simp del: to_plain_json.simps
        find_denylisted_paths.simps find_secret_like_paths.simps split: if_splits)
  from d(6) have [simp]: "d = e" by (auto split: option.splits)
  have schema: "conforms (PDict d) s" if "rt_input_schema t = Some s" for s
    using d(6) that validate_conforms(1) [of "PDict d" s] by auto
  have json: "json_value (PDict d)" using to_plain_json_value(1) [OF e] by simp
  then have "to_plain_json (PDict d) = Inr (PDict d)" by (rule to_plain_json_fixed(1))
  then have "validate_arguments tx limit t d = Inr d"
    using d by (simp add: validate_arguments_def Let_def del: to_plain_json.simps
        find_denylisted_paths.simps find_secret_like_paths.simps)
  moreover have "every_key (\<lambda>k. \<not> is_secret_like_tool_key k) (PDict d)"
    using d(5) unfolding no_secret_paths(1) by simp
  ultimately show ?thesis
    using json d(2,3) schema no_denylisted_paths(1) [OF d(4)]
    by (simp del: json_value.simps json_finite.simps every_key.simps)
qed

text \<open>A tool with a schema and a denylist, called with arguments it accepts.\<close>

definition plain_test_texts :: py_texts where
  "plain_test_texts = \<lparr>tx_digest = (\<lambda>s. s), tx_float_repr = (\<lambda>w. ''0.0''), tx_str = (\<lambda>v. [])\<rparr>"

definition search_tool :: resolved_tool where
  "search_tool = (sample_tool ''search'' ''find'')
    \<lparr>rt_input_schema := Some
       [(''type'', PStr ''object''), (''required'', PTuple [PStr ''query'']),
        (''properties'', PDict
          [(''query'', PDict [(''type'', PStr ''string''), (''minLength'', PInt 1)]),
           (''limit'', PDict [(''type'', PStr ''integer''), (''maximum'', PInt 50)])]),
        (''additionalProperties'', PBool False)],
     rt_metadata := [(''denylisted_fields'', PList [PStr '' Raw_SQL ''])]\<rparr>"

definition search_arguments :: pydict where
  "search_arguments = [(''query'', PStr ''bread''), (''limit'', PInt 10)]"

text \<open>What is accepted, and what is refused: a value outside the schema, a denylisted key, and every key that contains one of the
  sensitive parts anywhere, such as \<open>author\<close> (it contains \<open>auth\<close>) or \<open>keywords\<close>.\<close>

lemma checked_arguments:
  "validate_arguments plain_test_texts 65536 search_tool search_arguments = Inr search_arguments
   \<and> validate_arguments plain_test_texts 65536 search_tool [(''query'', PStr ''bread''), (''limit'', PInt 51)]
   = Inl (TooLarge [''arguments'', ''limit''])
   \<and> validate_arguments plain_test_texts 65536 search_tool [(''query'', PStr ''bread''), (''raw_sql'', PStr ''x'')]
   = Inl (DenylistedFields [[''arguments'', ''raw_sql'']])
   \<and> validate_arguments plain_test_texts 65536 (sample_tool ''search'' ''find'')
     [(''filter'', PDict [(''author'', PStr ''Rumi''), (''keywords'', PList [])])]
   = Inl (SecretLikeFields [[''arguments'', ''filter'', ''author''], [''arguments'', ''filter'', ''keywords'']])"
  by code_simp

lemmas search_accepted = checked_arguments [THEN conjunct1]
lemmas refused_arguments = checked_arguments [THEN conjunct2]

theorem validated_arguments_are_safe_witness:
  "json_bytes plain_test_texts (PDict search_arguments) \<le> 65536
   \<and> every_key (\<lambda>k. \<not> is_secret_like_tool_key k) (PDict search_arguments)"
proof -
  have "rt_max_argument_bytes search_tool = 65536" by (simp add: search_tool_def sample_tool_def)
  then show ?thesis using validated_arguments_are_safe [OF search_accepted] by auto
qed

end
