(* ===== verification/Tool_Errors.thy ===== *)
theory Tool_Errors
  imports Tool_Validation
begin

text \<open>
  The exceptions of the tool runtime (\<open>contracts/errors.py\<close>, \<open>tools/errors.py\<close>), the mapping of foreign
  exceptions (\<open>tools/mcp/errors.py\<close>) and their normalization by the gateway (\<open>tools/retry.py\<close>).

  An exception is kept with what the code looks at: the class, the message, and the status code of an
  HTTP error. \<open>CancelledExc\<close> is \<open>asyncio.CancelledError\<close>; \<open>OtherExc\<close> is any exception the code does not know,
  the \<open>GeneratorExit\<close> of a closed generator included.
\<close>

section \<open>Exceptions\<close>

datatype tool_class =
    ToolGatewayError
  | ToolNotFoundError
  | ToolDisabledError
  | ToolArgumentValidationError
  | ToolPolicyDeniedError
  | ToolPolicyApprovalRequiredError
  | ToolTimeoutError
  | ToolCancelledError
  | ToolResultTooLargeError
  | MCPClientError
  | MCPAuthenticationError
  | MCPTransportError
  | MCPDiscoveryError

text \<open>The message of an error: a text, or (for refused arguments) the fault it describes.\<close>

datatype error_text = Said string | About validation_fault

record tool_error =
  tle_class :: tool_class
  tle_message :: error_text

datatype tool_exc =
    ToolExc tool_error
  | ToolingConfigExc string
  | CancelledExc
  | HttpTimeoutExc
  | HttpStatusExc int
  | HttpExc
  | ValidationExc
  | McpExc
  | TimeoutExc string
  | ConnectionExc string
  | ValueExc string
  | PolicyExc pyerr
  | OtherExc string

definition tool_err :: "tool_class \<Rightarrow> string \<Rightarrow> tool_error" where
  "tool_err k m = \<lparr>tle_class = k, tle_message = Said m\<rparr>"

definition argument_err :: "validation_fault \<Rightarrow> tool_error" where
  "argument_err f = \<lparr>tle_class = ToolArgumentValidationError, tle_message = About f\<rparr>"

fun said :: "error_text \<Rightarrow> string option" where
  "said (Said m) = Some m"
| "said (About f) = None"

lemma tool_err_simps [simp]: "tle_class (tool_err k m) = k" "tle_message (tool_err k m) = Said m"
  "tle_class (argument_err f) = ToolArgumentValidationError"
  by (simp_all add: tool_err_def argument_err_def)

type_synonym 'a tool_res = "tool_exc + 'a"

text \<open>The subclasses the code tests for: an approval error is a denial, the MCP errors are client errors.\<close>

definition is_policy_denied_class :: "tool_class \<Rightarrow> bool" where
  "is_policy_denied_class k \<longleftrightarrow> k = ToolPolicyDeniedError \<or> k = ToolPolicyApprovalRequiredError"

section \<open>Foreign exceptions\<close>

definition map_http_status :: "int \<Rightarrow> tool_error" where
  "map_http_status code =
    (if code \<in> {401, 403} then tool_err MCPAuthenticationError ''The MCP server rejected backend authentication.''
     else if code \<in> {408, 504} then tool_err ToolTimeoutError ''The MCP request timed out.''
     else if code \<in> {429, 502, 503} then tool_err MCPTransportError ''The MCP server is temporarily unavailable.''
     else if code \<in> {400, 404, 405, 422} then tool_err MCPClientError ''The MCP server rejected the request.''
     else tool_err MCPTransportError ''The MCP transport failed with an HTTP error.'')"

text \<open>\<open>str(error)\<close> of the exceptions for which the code looks at it.\<close>

fun exc_text :: "tool_exc \<Rightarrow> string" where
  "exc_text (TimeoutExc m) = m"
| "exc_text (ConnectionExc m) = m"
| "exc_text (ValueExc m) = m"
| "exc_text (OtherExc m) = m"
| "exc_text (PolicyExc (ConfigurationError m)) = m"
| "exc_text (PolicyExc (PolicyDeniedError m)) = m"
| "exc_text (PolicyExc (PolicyApprovalRequiredError m)) = m"
| "exc_text (PolicyExc (LimitExceeded m)) = m"
| "exc_text (PolicyExc (TimedOut m)) = m"
| "exc_text _ = []"

fun map_mcp_exception :: "tool_exc \<Rightarrow> tool_exc" where
  "map_mcp_exception CancelledExc = CancelledExc"
| "map_mcp_exception (ToolExc e) = ToolExc e"
| "map_mcp_exception (ToolingConfigExc m) = ToolingConfigExc m"
| "map_mcp_exception HttpTimeoutExc = ToolExc (tool_err ToolTimeoutError ''The MCP request timed out.'')"
| "map_mcp_exception (HttpStatusExc code) = ToolExc (map_http_status code)"
| "map_mcp_exception HttpExc = ToolExc (tool_err MCPTransportError ''The MCP transport failed.'')"
| "map_mcp_exception ValidationExc = ToolExc (tool_err MCPClientError ''The MCP response payload was invalid.'')"
| "map_mcp_exception McpExc = ToolExc (tool_err MCPClientError ''The MCP server returned an error response.'')"
| "map_mcp_exception e =
    ToolExc (tool_err MCPClientError
      (if contains (lower (exc_text e)) ''unsupported protocol version''
       then ''The MCP server negotiated an unsupported protocol version.'' else ''The MCP client failed.''))"

text \<open>\<open>normalize_runtime_error\<close>, test by test.\<close>

fun own_tool_error :: "tool_exc \<Rightarrow> tool_error option" where
  "own_tool_error (ToolExc e) = Some e"
| "own_tool_error e = None"

fun unmapped_error :: "bool \<Rightarrow> tool_exc \<Rightarrow> tool_error" where
  "unmapped_error streaming CancelledExc = tool_err ToolCancelledError ''Tool execution was cancelled.''"
| "unmapped_error streaming (TimeoutExc m) = tool_err ToolTimeoutError ''Tool execution timed out.''"
| "unmapped_error streaming (ConnectionExc m) = tool_err MCPTransportError ''The MCP transport is unavailable.''"
| "unmapped_error streaming (ValueExc m) =
    tool_err ToolArgumentValidationError (if m = [] then ''Tool arguments were rejected.'' else m)"
| "unmapped_error streaming e =
    tool_err ToolGatewayError (if streaming then ''Tool streaming failed.'' else ''Tool execution failed.'')"

definition normalize_runtime_error :: "bool \<Rightarrow> tool_exc \<Rightarrow> tool_error" where
  "normalize_runtime_error streaming error =
    (case own_tool_error error of
       Some e \<Rightarrow> e
     | None \<Rightarrow>
        (case own_tool_error (map_mcp_exception error) of Some e \<Rightarrow> e | None \<Rightarrow> unmapped_error streaming error))"

text \<open>The branches for the built-in exceptions cannot be reached: the mapping has already made a client
  error of a time-out, a broken connection and a value error.\<close>

lemma builtin_failures_are_client_errors:
  "tle_class (normalize_runtime_error streaming (TimeoutExc m)) = MCPClientError"
  "tle_class (normalize_runtime_error streaming (ConnectionExc m)) = MCPClientError"
  "tle_class (normalize_runtime_error streaming (ValueExc m)) = MCPClientError"
  by (simp_all add: normalize_runtime_error_def)

lemma normalize_tool_error [simp]: "normalize_runtime_error streaming (ToolExc e) = e"
  by (simp add: normalize_runtime_error_def)

lemma cancellation_is_kept: "tle_class (normalize_runtime_error streaming CancelledExc) = ToolCancelledError"
  by (simp add: normalize_runtime_error_def)

section \<open>The error codes of the trace\<close>

definition error_code_for_error :: "tool_error option \<Rightarrow> string option" where
  "error_code_for_error error =
    (case error of
       None \<Rightarrow> None
     | Some e \<Rightarrow>
        Some (if is_policy_denied_class (tle_class e) then ''tool_policy_denied''
              else if tle_class e = ToolNotFoundError then ''tool_not_found''
              else if tle_class e = ToolDisabledError then ''tool_disabled''
              else if tle_class e = ToolArgumentValidationError then ''tool_argument_validation_failed''
              else if tle_class e = ToolCancelledError then ''tool_cancelled''
              else ''tool_execution_failed''))"

definition tool_policy_block_summary :: "string \<Rightarrow> tool_error option \<Rightarrow> string option" where
  "tool_policy_block_summary tool_name error =
    (case error of
       None \<Rightarrow> None
     | Some e \<Rightarrow>
        if \<not> is_policy_denied_class (tle_class e) then None
        else (case norm_text (said (tle_message e)) of
                Some m \<Rightarrow>
                  if contains (casefold m) ''policy'' then Some m
                  else Some (''Tool '' @ quoted tool_name @
                         (if tle_class e = ToolPolicyApprovalRequiredError then '' requires approval by policy.''
                          else '' blocked by policy.''))
              | None \<Rightarrow>
                  Some (''Tool '' @ quoted tool_name @
                    (if tle_class e = ToolPolicyApprovalRequiredError then '' requires approval by policy.''
                     else '' blocked by policy.''))))"

end
