(* ===== verification/Tool_Results.thy ===== *)
theory Tool_Results
  imports Tool_Errors
begin

text \<open>
  What a tool gives back (\<open>tools/mcp/protocol_models.py\<close>, \<open>contracts/tools.py\<close>) and its normalization
  (\<open>tools/result_normalizer.py\<close>): the content blocks, the structured dataset envelope, redaction, and the
  reduction of a result to the byte budget.

  A JSON value that holds NaN or an infinity makes \<open>json.dumps(..., allow_nan=False)\<close> raise a
  \<open>ValueError\<close>, which leaves the normalizer; a result that cannot be reduced raises
  \<open>ToolResultTooLargeError\<close>. Python's \<open>True\<close> as \<open>item_count\<close> is the count 1.
\<close>

section \<open>What the adapter returns\<close>

record mcp_content =
  mc_type :: string
  mc_text :: "string option"
  mc_json_value :: pyval
  mc_uri :: "string option"
  mc_mime_type :: "string option"
  mc_metadata :: pydict

record mcp_result =
  mr_tool_name :: string
  mr_status :: string
  mr_content :: "mcp_content list"
  mr_structured :: "pydict option"
  mr_metadata :: pydict
  mr_error_message :: "string option"

record mcp_stream_event =
  me_type :: string
  me_tool_name :: string
  me_text :: "string option"
  me_progress :: "64 word option"
  me_result :: "mcp_result option"
  me_error_message :: "string option"
  me_metadata :: pydict

definition valid_statuses :: "string list" where
  "valid_statuses = [''completed'', ''failed'', ''cancelled'', ''timeout'']"

definition valid_content_types :: "string list" where
  "valid_content_types = [''text'', ''json'', ''table'', ''file_ref'', ''image_ref'']"

definition valid_stream_types :: "string list" where
  "valid_stream_types = [''started'', ''progress'', ''delta'', ''metadata'', ''completed'', ''error'', ''cancelled'']"

definition required_text_or :: "string \<Rightarrow> string \<Rightarrow> string tool_res" where
  "required_text_or s message = (case norm_text (Some s) of None \<Rightarrow> Inl (ValueExc message) | Some t \<Rightarrow> Inr t)"

definition normalize_literal :: "string \<Rightarrow> string list \<Rightarrow> string \<Rightarrow> string \<Rightarrow> string tool_res" where
  "normalize_literal s valid dflt message =
    (case norm_text (Some s) of
       None \<Rightarrow> Inr dflt
     | Some t \<Rightarrow> if t \<notin> set valid then Inl (ValueExc message) else Inr t)"

definition mcp_content_post_init :: "mcp_content \<Rightarrow> mcp_content tool_res" where
  "mcp_content_post_init c =
    try_bind (normalize_literal (mc_type c) valid_content_types ''text'' ''MCP tool content type is invalid.'') (\<lambda>ty.
    Inr (c\<lparr>mc_type := ty, mc_text := norm_text (mc_text c), mc_uri := norm_text (mc_uri c),
           mc_mime_type := norm_text (mc_mime_type c)\<rparr>))"

definition mcp_result_post_init :: "mcp_result \<Rightarrow> mcp_result tool_res" where
  "mcp_result_post_init r =
    try_bind (required_text_or (mr_tool_name r) ''MCP tool name must not be empty.'') (\<lambda>name.
    try_bind (normalize_literal (mr_status r) valid_statuses ''failed'' ''MCP tool execution status is invalid.'') (\<lambda>status.
    Inr (r\<lparr>mr_tool_name := name, mr_status := status, mr_error_message := norm_text (mr_error_message r)\<rparr>)))"

definition mcp_stream_event_post_init :: "mcp_stream_event \<Rightarrow> mcp_stream_event tool_res" where
  "mcp_stream_event_post_init e =
    try_bind (normalize_literal (me_type e) valid_stream_types ''error'' ''MCP tool stream event type is invalid.'') (\<lambda>ty.
    try_bind (required_text_or (me_tool_name e) ''MCP tool name must not be empty.'') (\<lambda>name.
    Inr (e\<lparr>me_type := ty, me_tool_name := name, me_text := norm_text (me_text e),
           me_error_message := norm_text (me_error_message e)\<rparr>)))"

section \<open>What the gateway returns\<close>

record tool_content =
  tc_type :: string
  tc_text :: "string option"
  tc_json_value :: pyval
  tc_uri :: "string option"
  tc_mime_type :: "string option"
  tc_metadata :: pydict

record tool_summary =
  su_result_count :: "int option"
  su_bytes_returned :: "int option"
  su_truncated :: bool
  su_safe_message :: "string option"

record tool_error_detail =
  ted_code :: string
  ted_message :: string
  ted_category :: "string option"
  ted_retryable :: "bool option"
  ted_metadata :: pydict

record tool_result =
  xr_tool_name :: string
  xr_status :: string
  xr_content :: "tool_content list"
  xr_structured :: "pydict option"
  xr_summary :: "tool_summary option"
  xr_duration_ms :: "int option"
  xr_metadata :: pydict
  xr_error_detail :: "tool_error_detail option"

record tool_stream_event =
  te_type :: string
  te_tool_name :: string
  te_text :: "string option"
  te_progress :: "64 word option"
  te_result :: "tool_result option"
  te_error :: "tool_error_detail option"
  te_metadata :: pydict

definition new_tool_content ::
  "string \<Rightarrow> string option \<Rightarrow> pyval \<Rightarrow> string option \<Rightarrow> string option \<Rightarrow> pydict \<Rightarrow> tool_content tool_res" where
  "new_tool_content ty text value uri mime_type metadata =
    try_bind (normalize_literal ty valid_content_types ''text''
      ''Tool result content type must be one of: text, json, table, file_ref, image_ref.'') (\<lambda>t.
    Inr \<lparr>tc_type = t, tc_text = norm_text text, tc_json_value = value, tc_uri = norm_text uri,
         tc_mime_type = norm_text mime_type, tc_metadata = metadata\<rparr>)"

definition new_tool_error_detail ::
  "string \<Rightarrow> string \<Rightarrow> string \<Rightarrow> bool option \<Rightarrow> pydict \<Rightarrow> tool_error_detail tool_res" where
  "new_tool_error_detail code message category retryable metadata =
    try_bind (required_text_or code ''Tool error code must not be empty.'') (\<lambda>c.
    try_bind (required_text_or message ''Tool error message must not be empty.'') (\<lambda>m.
    Inr \<lparr>ted_code = c, ted_message = m, ted_category = norm_text (Some category),
         ted_retryable = retryable, ted_metadata = metadata\<rparr>))"

definition tool_result_post_init :: "tool_result \<Rightarrow> tool_result tool_res" where
  "tool_result_post_init r =
    try_bind (required_text_or (xr_tool_name r) ''Tool name must not be empty.'') (\<lambda>name.
    try_bind (normalize_literal (xr_status r) valid_statuses ''failed''
      ''Tool execution status must be one of: completed, failed, cancelled, timeout.'') (\<lambda>status.
    Inr (r\<lparr>xr_tool_name := name, xr_status := status\<rparr>)))"

definition xr_success :: "tool_result \<Rightarrow> bool" where
  "xr_success r \<longleftrightarrow> xr_status r = ''completed''"

text \<open>\<open>ToolExecutionResult.data\<close> and \<open>.error\<close>.\<close>

definition xr_data :: "tool_result \<Rightarrow> pyval" where
  "xr_data r =
    (case xr_structured r of
       Some d \<Rightarrow> PDict d
     | None \<Rightarrow>
        (case xr_content r of
           [c] \<Rightarrow> if tc_json_value c \<noteq> PNone then tc_json_value c
                  else if tc_text c \<noteq> None then py_opt_str (tc_text c) else py_opt_str (tc_uri c)
         | _ \<Rightarrow> PNone))"

definition xr_error :: "tool_result \<Rightarrow> string option" where
  "xr_error r =
    (case xr_error_detail r of
       Some e \<Rightarrow> Some (ted_message e)
     | None \<Rightarrow> (case xr_summary r of Some s \<Rightarrow> su_safe_message s | None \<Rightarrow> None))"

definition tool_stream_event_post_init :: "tool_stream_event \<Rightarrow> tool_stream_event tool_res" where
  "tool_stream_event_post_init e =
    try_bind (normalize_literal (te_type e) valid_stream_types ''error''
      ''Tool stream event type must be one of: started, progress, delta, metadata, completed, error, cancelled.'') (\<lambda>ty.
    try_bind (required_text_or (te_tool_name e) ''Tool name must not be empty.'') (\<lambda>name.
    Inr (e\<lparr>te_type := ty, te_tool_name := name, te_text := norm_text (te_text e)\<rparr>)))"

section \<open>Content blocks\<close>

record result_normalizer =
  nz_max_result_bytes :: int
  nz_text_chars :: nat
  nz_content_blocks :: nat
  nz_table_rows :: nat
  nz_file_refs :: nat

definition default_normalizer :: "int \<Rightarrow> result_normalizer" where
  "default_normalizer max_result_bytes =
    \<lparr>nz_max_result_bytes = max_result_bytes, nz_text_chars = 12000, nz_content_blocks = 20,
     nz_table_rows = 100, nz_file_refs = 50\<rparr>"

definition tool_redactor :: "nat \<Rightarrow> redactor" where
  "tool_redactor max_chars = default_redactor\<lparr>rd_max_chars := Some (int max_chars)\<rparr>"

definition redact_tool_payload :: "py_texts \<Rightarrow> nat \<Rightarrow> pyval \<Rightarrow> pyval" where
  "redact_tool_payload tx max_chars v = redact tx (tool_redactor max_chars) v"

definition truncate_text :: "nat \<Rightarrow> string \<Rightarrow> string" where
  "truncate_text max_chars text =
    (if length text \<le> max_chars then text
     else if max_chars \<le> length truncated_value then take max_chars truncated_value
     else take (max_chars - length truncated_value) text @ truncated_value)"

definition normalize_tool_metadata :: "py_texts \<Rightarrow> pydict \<Rightarrow> pydict" where
  "normalize_tool_metadata tx metadata =
    (case redact_tool_payload tx 512 (PDict metadata) of PDict d \<Rightarrow> d | _ \<Rightarrow> [])"

text \<open>\<open>list(value)\<close> of a \<open>Sequence\<close>, strings and bytes included.\<close>

definition sequence_list :: "pyval \<Rightarrow> pyval list option" where
  "sequence_list v =
    (case v of
       PStr s \<Rightarrow> Some (List.map (\<lambda>c. PStr [c]) s)
     | PBytes s \<Rightarrow> Some (List.map (\<lambda>c. PInt (of_char c)) s)
     | _ \<Rightarrow> seq_items v)"

definition normalize_table_value :: "py_texts \<Rightarrow> nat \<Rightarrow> nat \<Rightarrow> pyval \<Rightarrow> pyval \<times> bool" where
  "normalize_table_value tx max_rows max_chars v =
    (let whole = (let n = redact_tool_payload tx max_chars v in (n, \<not> py_eq n v))
     in case seq_items v of
          Some rows \<Rightarrow> (redact_tool_payload tx max_chars (PList (take max_rows rows)), length rows > max_rows)
        | None \<Rightarrow>
           (case v of
              PDict d \<Rightarrow>
                (case sequence_list (dict_get d ''rows'') of
                   Some rows \<Rightarrow>
                     (redact_tool_payload tx max_chars (PDict (dict_set ''rows'' (PList (take max_rows rows)) d)),
                      length rows > max_rows)
                 | None \<Rightarrow> whole)
            | _ \<Rightarrow> whole))"

definition normalize_content_item ::
  "py_texts \<Rightarrow> result_normalizer \<Rightarrow> mcp_content \<Rightarrow> (tool_content option \<times> bool) tool_res" where
  "normalize_content_item tx nz c =
    (let metadata = normalize_tool_metadata tx (mc_metadata c)
     in if mc_type c = ''text'' then
          (case mc_text c of
             None \<Rightarrow> Inr (None, False)
           | Some s \<Rightarrow>
              (let text = truncate_text (nz_text_chars nz) s
               in try_bind (new_tool_content ''text'' (Some text) PNone None None metadata) (\<lambda>b.
                    Inr (Some b, text \<noteq> s))))
        else if mc_type c = ''json'' then
          (let value = redact_tool_payload tx (nz_text_chars nz) (mc_json_value c)
           in try_bind (new_tool_content ''json'' None value None None metadata) (\<lambda>b.
                Inr (Some b, \<not> py_eq value (mc_json_value c))))
        else if mc_type c = ''table'' then
          (let (table_value, truncated) = normalize_table_value tx (nz_table_rows nz) (nz_text_chars nz) (mc_json_value c)
           in try_bind (new_tool_content ''table'' None table_value None None metadata) (\<lambda>b. Inr (Some b, truncated)))
        else if mc_type c \<in> set [''file_ref'', ''image_ref''] then
          try_bind (new_tool_content (mc_type c) None PNone (mc_uri c) (mc_mime_type c) metadata) (\<lambda>b. Inr (Some b, False))
        else Inr (None, False))"

text \<open>The loop over the first blocks, with the number of file references seen so far.\<close>

fun normalize_blocks ::
  "py_texts \<Rightarrow> result_normalizer \<Rightarrow> mcp_content list \<Rightarrow> nat \<Rightarrow> tool_content list \<Rightarrow> bool \<Rightarrow>
   (tool_content list \<times> bool) tool_res" where
  "normalize_blocks tx nz [] refs acc truncated = Inr (acc, truncated)"
| "normalize_blocks tx nz (c # cs) refs acc truncated =
    try_bind (normalize_content_item tx nz c) (\<lambda>(item, item_truncated).
      case item of
        None \<Rightarrow> normalize_blocks tx nz cs refs acc truncated
      | Some b \<Rightarrow>
          if tc_type b \<in> set [''file_ref'', ''image_ref''] then
            (if Suc refs > nz_file_refs nz then normalize_blocks tx nz cs (Suc refs) acc True
             else normalize_blocks tx nz cs (Suc refs) (acc @ [b]) (truncated \<or> item_truncated))
          else normalize_blocks tx nz cs refs (acc @ [b]) (truncated \<or> item_truncated))"

definition normalize_content_blocks ::
  "py_texts \<Rightarrow> result_normalizer \<Rightarrow> mcp_content list \<Rightarrow> (tool_content list \<times> bool) tool_res" where
  "normalize_content_blocks tx nz cs =
    normalize_blocks tx nz (take (nz_content_blocks nz) cs) 0 [] (length cs > nz_content_blocks nz)"

definition normalize_structured_content ::
  "py_texts \<Rightarrow> result_normalizer \<Rightarrow> pydict option \<Rightarrow> pydict option \<times> bool" where
  "normalize_structured_content tx nz structured =
    (case structured of
       None \<Rightarrow> (None, False)
     | Some d \<Rightarrow>
        (case redact_tool_payload tx (nz_text_chars nz) (PDict d) of
           PDict e \<Rightarrow> (Some e, \<not> py_eq (PDict e) (PDict d))
         | v \<Rightarrow> (Some [(''value'', v)], True)))"

section \<open>The structured dataset envelope\<close>

record dataset_envelope =
  de_status :: string
  de_structured :: "pydict option"
  de_metadata :: pydict
  de_error_detail :: "tool_error_detail option"
  de_result_count :: "int option"
  de_truncated :: bool
  de_summary_message :: "string option"

definition dataset_output_schema :: string where
  "dataset_output_schema = ''structured_dataset_v1''"

definition status_for_dataset_error :: "string \<Rightarrow> string" where
  "status_for_dataset_error code =
    (if code = ''timeout'' then ''timeout'' else if code = ''cancelled'' then ''cancelled'' else ''failed'')"

fun first_mapping :: "pyval list \<Rightarrow> pydict option" where
  "first_mapping [] = None"
| "first_mapping (PDict d # xs) = Some d"
| "first_mapping (x # xs) = first_mapping xs"

definition dataset_error_detail :: "pydict \<Rightarrow> string option \<Rightarrow> tool_error_detail tool_res" where
  "dataset_error_detail d summary_message =
    (case (case seq_items (dict_get d ''errors'') of None \<Rightarrow> None | Some xs \<Rightarrow> first_mapping xs) of
       Some item \<Rightarrow>
         new_tool_error_detail
           (case read_optional_text (dict_get item ''code'') of Some c \<Rightarrow> c | None \<Rightarrow> ''tool_failed'')
           (case read_optional_text (dict_get item ''message'') of
              Some m \<Rightarrow> str_default summary_message m
            | None \<Rightarrow> ''The MCP tool returned an error result.'')
           ''tool_execution''
           (case dict_get item ''retryable'' of PBool b \<Rightarrow> Some b | _ \<Rightarrow> None)
           (case dict_get item ''details'' of PDict m \<Rightarrow> m | _ \<Rightarrow> [])
     | None \<Rightarrow>
         new_tool_error_detail ''tool_failed'' (str_default summary_message ''The MCP tool returned an error result.'')
           ''tool_execution'' (Some False) [])"

text \<open>The count and the flag of the \<open>summary\<close> member; \<open>isinstance(True, int)\<close> holds in Python.\<close>

definition summary_count :: "pydict \<Rightarrow> int option" where
  "summary_count s =
    (case dict_get s ''item_count'' of
       PInt i \<Rightarrow> if 0 \<le> i then Some i else None
     | PBool b \<Rightarrow> Some (of_bool b)
     | _ \<Rightarrow> None)"

definition dataset_metadata :: "pydict \<Rightarrow> pydict" where
  "dataset_metadata meta =
    (let base = [(''output_schema'', PStr dataset_output_schema), (''schema_version'', dict_get meta ''schema_version'')]
     in case read_optional_text (dict_get meta ''dataset_id'') of
          Some i \<Rightarrow> base @ [(''dataset_id'', PStr i)]
        | None \<Rightarrow> base)"

definition adapt_dataset_envelope :: "pydict option \<Rightarrow> dataset_envelope option tool_res" where
  "adapt_dataset_envelope structured =
    (case structured of
       None \<Rightarrow> Inr None
     | Some d \<Rightarrow>
        (case (dict_get d ''ok'', dict_get d ''meta'') of
           (PBool ok, PDict meta) \<Rightarrow>
             if dict_get meta ''output_schema'' \<noteq> PStr dataset_output_schema then Inr None
             else
               (let summary = (case dict_get d ''summary'' of PDict s \<Rightarrow> Some s | _ \<Rightarrow> None);
                    message = (case summary of None \<Rightarrow> None | Some s \<Rightarrow> read_optional_text (dict_get s ''message''));
                    count = (case summary of None \<Rightarrow> None | Some s \<Rightarrow> summary_count s);
                    truncated = (case summary of None \<Rightarrow> False | Some s \<Rightarrow> dict_get s ''truncated'' = PBool True);
                    envelope = (\<lambda>status content detail.
                      \<lparr>de_status = status, de_structured = content, de_metadata = dataset_metadata meta,
                       de_error_detail = detail, de_result_count = count, de_truncated = truncated,
                       de_summary_message = message\<rparr>)
                in if ok then
                     (case (case dict_get d ''data'' of PDict e \<Rightarrow> dict_get e ''dataset'' | _ \<Rightarrow> PNone) of
                        PDict dataset \<Rightarrow> Inr (Some (envelope ''completed'' (Some dataset) None))
                      | _ \<Rightarrow>
                        try_bind (new_tool_error_detail ''tool_contract_error''
                          ''The MCP tool returned a structured dataset envelope without a dataset payload.''
                          ''tool_contract'' (Some False) []) (\<lambda>e.
                        Inr (Some (envelope ''failed'' None (Some e)))))
                   else
                     try_bind (dataset_error_detail d message) (\<lambda>e.
                     Inr (Some (envelope (status_for_dataset_error (ted_code e)) None (Some e)))))
         | _ \<Rightarrow> Inr None))"

section \<open>The byte budget\<close>

definition content_to_dict :: "tool_content \<Rightarrow> pyval" where
  "content_to_dict c =
    PDict [(''type'', PStr (tc_type c)), (''text'', py_opt_str (tc_text c)), (''json_value'', tc_json_value c),
      (''uri'', py_opt_str (tc_uri c)), (''mime_type'', py_opt_str (tc_mime_type c)), (''metadata'', PDict (tc_metadata c))]"

definition payload_of :: "tool_content list \<Rightarrow> pydict option \<Rightarrow> pydict \<Rightarrow> pyval" where
  "payload_of content structured metadata =
    PDict [(''content'', PList (List.map content_to_dict content)),
      (''structured_content'', case structured of None \<Rightarrow> PNone | Some d \<Rightarrow> PDict d), (''metadata'', PDict metadata)]"

text \<open>\<open>_payload_size_bytes\<close>; the message of the \<open>ValueError\<close> is the one of the standard library.\<close>

definition payload_size_bytes ::
  "py_texts \<Rightarrow> tool_content list \<Rightarrow> pydict option \<Rightarrow> pydict \<Rightarrow> int tool_res" where
  "payload_size_bytes tx content structured metadata =
    (let p = payload_of content structured metadata
     in if json_finite p then Inr (json_bytes tx p)
        else Inl (ValueExc ''Out of range float values are not JSON compliant''))"

definition result_omitted_text :: string where
  "result_omitted_text = ''Tool result omitted because it exceeded backend limits.''"

definition shrink_json_value :: "py_texts \<Rightarrow> pyval \<Rightarrow> pyval" where
  "shrink_json_value tx v =
    (case v of
       PStr s \<Rightarrow> PStr (truncate_text 256 s)
     | _ \<Rightarrow>
        (case seq_items v of
           None \<Rightarrow> PDict [(''truncated'', PBool True)]
         | Some [] \<Rightarrow> PList []
         | Some (x # xs) \<Rightarrow> PList [redact_tool_payload tx 256 x, PDict [(''truncated'', PBool True)]]))"

definition reduce_content_block ::
  "py_texts \<Rightarrow> result_normalizer \<Rightarrow> tool_content \<Rightarrow> tool_content tool_res" where
  "reduce_content_block tx nz b =
    (let metadata = dict_set ''truncated'' (PBool True) (tc_metadata b);
         omitted = new_tool_content ''text'' (Some result_omitted_text) PNone None None metadata
     in if tc_type b \<in> set [''json'', ''table''] then
          new_tool_content (tc_type b) None (shrink_json_value tx (tc_json_value b)) None None metadata
        else if tc_type b = ''text'' then
          (case tc_text b of
             Some s \<Rightarrow>
               new_tool_content ''text'' (Some (truncate_text (max 16 (nz_text_chars nz div 4)) s)) PNone None None metadata
           | None \<Rightarrow> omitted)
        else omitted)"

text \<open>The loop that pops the last block while more than one is left; \<open>Inr (Inl cs)\<close> are the blocks left when
  nothing fits, \<open>Inr (Inr cs)\<close> the ones that fit.\<close>

fun pop_until_fits ::
  "py_texts \<Rightarrow> int \<Rightarrow> pydict \<Rightarrow> tool_content list \<Rightarrow> (tool_content list + tool_content list) tool_res" where
  "pop_until_fits tx limit metadata cs =
    (if length cs \<le> 1 then Inr (Inl cs)
     else try_bind (payload_size_bytes tx (butlast cs) None metadata) (\<lambda>n.
            if n \<le> limit then Inr (Inr (butlast cs)) else pop_until_fits tx limit metadata (butlast cs)))"

declare pop_until_fits.simps [simp del]

type_synonym fitted = "tool_content list \<times> pydict option \<times> pydict \<times> bool"

definition place_holder :: "py_texts \<Rightarrow> int \<Rightarrow> pydict \<Rightarrow> fitted tool_res" where
  "place_holder tx limit metadata =
    try_bind (new_tool_content ''text'' (Some result_omitted_text) PNone None None [(''truncated'', PBool True)]) (\<lambda>b.
    try_bind (payload_size_bytes tx [b] None metadata) (\<lambda>n.
      if n \<le> limit then Inr ([b], None, metadata, True)
      else Inl (ToolExc (tool_err ToolResultTooLargeError ''Tool result exceeded configured backend result limits.''))))"

definition fit_to_budget ::
  "py_texts \<Rightarrow> result_normalizer \<Rightarrow> int \<Rightarrow> tool_content list \<Rightarrow> pydict option \<Rightarrow> pydict \<Rightarrow> fitted tool_res" where
  "fit_to_budget tx nz limit content structured metadata =
    try_bind (payload_size_bytes tx content structured metadata) (\<lambda>n.
      if n \<le> limit then Inr (content, structured, metadata, False)
      else
        (let reduced = [(''truncated'', PBool True)]
         in try_bind (payload_size_bytes tx content None reduced) (\<lambda>n.
              if n \<le> limit then Inr (content, None, reduced, True)
              else try_bind (pop_until_fits tx limit reduced content) (\<lambda>left.
                case left of
                  Inr cs \<Rightarrow> Inr (cs, None, reduced, True)
                | Inl [] \<Rightarrow> place_holder tx limit reduced
                | Inl (b # bs) \<Rightarrow>
                    try_bind (reduce_content_block tx nz b) (\<lambda>b'.
                    try_bind (payload_size_bytes tx [b'] None reduced) (\<lambda>n.
                      if n \<le> limit then Inr ([b'], None, reduced, True) else place_holder tx limit reduced))))))"

section \<open>The normalized result\<close>

definition seq_count :: "pyval \<Rightarrow> int option" where
  "seq_count v = map_option (\<lambda>xs. int (length xs)) (seq_items v)"

definition first_count :: "int option list \<Rightarrow> int \<Rightarrow> int" where
  "first_count counts dflt = (case List.map_filter (\<lambda>c. c) counts of [] \<Rightarrow> dflt | n # ns \<Rightarrow> n)"

definition infer_result_count :: "pydict option \<Rightarrow> tool_content list \<Rightarrow> int" where
  "infer_result_count structured content =
    first_count
      ((case structured of None \<Rightarrow> [] | Some d \<Rightarrow> [seq_count (dict_get d ''results''), seq_count (dict_get d ''rows'')]) @
       (case content of
          [b] \<Rightarrow>
            if tc_type b = ''table'' then
              [seq_count (tc_json_value b),
               case tc_json_value b of PDict d \<Rightarrow> seq_count (dict_get d ''rows'') | _ \<Rightarrow> None]
            else []
        | _ \<Rightarrow> []))
      (int (length content))"

definition summary_message_of :: "string \<Rightarrow> bool \<Rightarrow> tool_error_detail option \<Rightarrow> string option \<Rightarrow> string option" where
  "summary_message_of status truncated error_detail message =
    (case error_detail of
       Some e \<Rightarrow> Some (str_default message (ted_message e))
     | None \<Rightarrow>
        if status = ''completed'' \<and> truncated
        then Some (str_default message ''Tool result truncated to backend limits.'') else None)"

definition error_code_for_status :: "string \<Rightarrow> string" where
  "error_code_for_status status =
    (if status = ''timeout'' then ''tool_timeout'' else if status = ''cancelled'' then ''tool_cancelled'' else ''tool_failed'')"

definition result_error_detail ::
  "dataset_envelope option \<Rightarrow> string \<Rightarrow> mcp_result \<Rightarrow> tool_error_detail option tool_res" where
  "result_error_detail envelope status r =
    (case (case envelope of None \<Rightarrow> None | Some e \<Rightarrow> de_error_detail e) of
       Some d \<Rightarrow> Inr (Some d)
     | None \<Rightarrow>
        if status = ''completed'' then Inr None
        else try_bind (new_tool_error_detail (error_code_for_status status)
               (truncate_text 512 (str_default (mr_error_message r) ''Tool execution failed.''))
               ''tool_execution'' (Some (status = ''timeout'')) []) (\<lambda>e. Inr (Some e)))"

definition result_limit :: "result_normalizer \<Rightarrow> resolved_tool \<Rightarrow> int" where
  "result_limit nz t = (if rt_max_result_bytes t = 0 then nz_max_result_bytes nz else rt_max_result_bytes t)"

definition normalize_result ::
  "py_texts \<Rightarrow> result_normalizer \<Rightarrow> resolved_tool \<Rightarrow> mcp_result \<Rightarrow> int option \<Rightarrow> tool_result tool_res" where
  "normalize_result tx nz t r duration_ms =
    try_bind (adapt_dataset_envelope (mr_structured r)) (\<lambda>envelope.
    let status = (case envelope of None \<Rightarrow> mr_status r | Some e \<Rightarrow> de_status e)
    in try_bind (normalize_content_blocks tx nz (mr_content r)) (\<lambda>(content, content_truncated).
    let (structured, structured_truncated) = normalize_structured_content tx nz
          (case envelope of None \<Rightarrow> mr_structured r | Some e \<Rightarrow> de_structured e);
        metadata = (case envelope of
            None \<Rightarrow> normalize_tool_metadata tx (mr_metadata r)
          | Some e \<Rightarrow>
              if de_metadata e = [] then normalize_tool_metadata tx (mr_metadata r)
              else dict_merge (normalize_tool_metadata tx (mr_metadata r)) (normalize_tool_metadata tx (de_metadata e)));
        truncated = (content_truncated \<or> structured_truncated
          \<or> (case envelope of None \<Rightarrow> False | Some e \<Rightarrow> de_truncated e))
    in try_bind (result_error_detail envelope status r) (\<lambda>error_detail.
    try_bind (fit_to_budget tx nz (result_limit nz t) content structured metadata)
      (\<lambda>(content, structured, metadata, reduced).
    try_bind (payload_size_bytes tx content structured metadata) (\<lambda>bytes.
    tool_result_post_init
      \<lparr>xr_tool_name = rt_logical_name t, xr_status = status, xr_content = content, xr_structured = structured,
       xr_summary = Some
         \<lparr>su_result_count =
            (case (case envelope of None \<Rightarrow> None | Some e \<Rightarrow> de_result_count e) of
               Some n \<Rightarrow> Some n | None \<Rightarrow> Some (infer_result_count structured content)),
          su_bytes_returned = Some bytes, su_truncated = (truncated \<or> reduced),
          su_safe_message = norm_text (summary_message_of status (truncated \<or> reduced) error_detail
            (case envelope of None \<Rightarrow> None | Some e \<Rightarrow> de_summary_message e))\<rparr>,
       xr_duration_ms = duration_ms, xr_metadata = metadata, xr_error_detail = error_detail\<rparr>)))))"

definition plain_stream_event :: "string \<Rightarrow> string \<Rightarrow> pydict \<Rightarrow> tool_stream_event" where
  "plain_stream_event ty name metadata =
    \<lparr>te_type = ty, te_tool_name = name, te_text = None, te_progress = None, te_result = None, te_error = None,
     te_metadata = metadata\<rparr>"

text \<open>\<open>normalize_stream_event\<close>; 0 is the word of the float 0.0, and \<open>progress or 0.0\<close> keeps every other float.\<close>

definition normalize_tool_stream_event ::
  "py_texts \<Rightarrow> result_normalizer \<Rightarrow> resolved_tool \<Rightarrow> mcp_stream_event \<Rightarrow> int option \<Rightarrow> tool_stream_event tool_res" where
  "normalize_tool_stream_event tx nz t e duration_ms =
    (let name = rt_logical_name t;
         metadata = normalize_tool_metadata tx (me_metadata e);
         plain = (\<lambda>ty. plain_stream_event ty name metadata)
     in if me_type e \<in> set [''started'', ''metadata'', ''cancelled''] then tool_stream_event_post_init (plain (me_type e))
        else if me_type e = ''progress'' then
          tool_stream_event_post_init
            ((plain ''progress'')\<lparr>te_progress := Some (case me_progress e of
               None \<Rightarrow> 0 | Some w \<Rightarrow> if py_truth (PFloat w) then w else 0)\<rparr>)
        else if me_type e = ''delta'' then
          tool_stream_event_post_init
            ((plain ''delta'')\<lparr>te_text := Some (truncate_text (nz_text_chars nz) (str_default (me_text e) []))\<rparr>)
        else if me_type e = ''completed'' then
          try_bind (case me_result e of
              Some r \<Rightarrow> Inr r
            | None \<Rightarrow> mcp_result_post_init
                \<lparr>mr_tool_name = me_tool_name e, mr_status = ''completed'', mr_content = [], mr_structured = None,
                 mr_metadata = [], mr_error_message = None\<rparr>) (\<lambda>r.
          try_bind (normalize_result tx nz t r duration_ms) (\<lambda>x.
            tool_stream_event_post_init ((plain ''completed'')\<lparr>te_result := Some x\<rparr>)))
        else
          try_bind (new_tool_error_detail ''tool_stream_error''
            (truncate_text 512 (str_default (me_error_message e) ''Tool stream failed.'')) ''tool_stream'' (Some False) [])
            (\<lambda>d. tool_stream_event_post_init ((plain ''error'')\<lparr>te_error := Some d\<rparr>)))"

section \<open>Nothing sensitive remains, and nothing is too long\<close>

lemma child_sensitive_max_chars [simp]:
  "child_sensitive (rd\<lparr>rd_max_chars := m\<rparr>) sens k = child_sensitive rd sens k"
  by (simp add: child_sensitive_def)

lemma masked_max_chars [simp]: "masked (rd\<lparr>rd_max_chars := m\<rparr>) sens v = masked rd sens v"
  by (induction "rd\<lparr>rd_max_chars := m\<rparr>" sens v rule: masked.induct)
    (auto simp: masked.simps(1) names_secret_def simp del: masked_dict)

abbreviation tool_masked :: "pyval \<Rightarrow> bool" where
  "tool_masked \<equiv> masked default_redactor False"

lemma redact_tool_payload_masked: "tool_masked (redact_tool_payload tx n v)"
  using masked_redact_value [of "tool_redactor n" False tx v]
  by (simp add: redact_tool_payload_def redact_def tool_redactor_def)

lemma normalize_tool_metadata_masked: "tool_masked (PDict (normalize_tool_metadata tx md))"
proof (cases "redact_tool_payload tx 512 (PDict md)")
  case (PDict d)
  then show ?thesis
    using redact_tool_payload_masked [of tx 512 "PDict md"] by (simp add: normalize_tool_metadata_def del: masked.simps masked_dict)
qed (simp_all add: normalize_tool_metadata_def)

lemma tool_masked_set:
  "tool_masked (PDict d) \<Longrightarrow> masked default_redactor (child_sensitive default_redactor False k) v \<Longrightarrow>
    tool_masked (PDict (dict_set k v d))"
  by (auto dest!: dict_set_mem)

lemma tool_masked_merge: "tool_masked (PDict d) \<Longrightarrow> tool_masked (PDict e) \<Longrightarrow> tool_masked (PDict (dict_merge d e))"
proof (induction e arbitrary: d)
  case (Cons kv e)
  obtain k v where [simp]: "kv = (k, v)" by (cases kv)
  have "tool_masked (PDict (dict_set k v d))" by (rule tool_masked_set) (use Cons.prems in auto)
  then show ?case using Cons.IH [of "dict_set k v d"] Cons.prems(2) by (simp add: dict_merge_def del: masked.simps masked_dict) simp
qed (simp add: dict_merge_def)

lemma truncated_not_sensitive: "\<not> child_sensitive default_redactor False ''truncated''"
  by code_simp

lemma truncated_flag_masked: "tool_masked (PDict [(''truncated'', PBool True)])"
  by (simp add: truncated_not_sensitive)

lemma truncate_text_length: "length (truncate_text n s) \<le> n"
  by (auto simp: truncate_text_def truncated_value_def)

lemma truncate_text_fixed: "truncate_text n s = s \<Longrightarrow> length s \<le> n"
  by (metis truncate_text_length)

lemma norm_text_length: "norm_text x = Some s \<Longrightarrow> length s \<le> length (the x)"
  using length_strip_le by (auto simp: norm_text_def Let_def split: option.splits if_splits)

text \<open>A block of the result: bounded text, redacted value and metadata.\<close>

definition block_bounded :: "nat \<Rightarrow> tool_content \<Rightarrow> bool" where
  "block_bounded n b \<longleftrightarrow>
    (case tc_text b of None \<Rightarrow> True | Some s \<Rightarrow> length s \<le> n)
    \<and> tool_masked (tc_json_value b) \<and> tool_masked (PDict (tc_metadata b))"

lemma new_tool_content_bounded:
  assumes "new_tool_content ty s v uri mime md = Inr b" "tool_masked v" "tool_masked (PDict md)"
    and "s = None \<or> length (the s) \<le> n"
  shows "block_bounded n b"
  using assms norm_text_length [of s]
  by (auto simp: new_tool_content_def block_bounded_def norm_text_def simp del: masked.simps masked_dict split: option.splits)

lemma normalize_table_value_masked: "tool_masked (fst (normalize_table_value tx rows chars v))"
  by (simp add: normalize_table_value_def Let_def redact_tool_payload_masked
      split: option.split pyval.split del: masked.simps masked_dict)

lemma normalize_content_item_bounded:
  assumes "normalize_content_item tx nz c = Inr (Some b, tr)"
  shows "block_bounded (nz_text_chars nz) b"
proof -
  obtain v t where v: "normalize_table_value tx (nz_table_rows nz) (nz_text_chars nz) (mc_json_value c) = (v, t)"
    by force
  have masked: "tool_masked v" "tool_masked PNone"
    using normalize_table_value_masked [of tx "nz_table_rows nz" "nz_text_chars nz" "mc_json_value c"] v by simp_all
  show ?thesis
    using assms
    by (auto simp: normalize_content_item_def Let_def v masked normalize_tool_metadata_masked redact_tool_payload_masked
        truncate_text_length simp del: masked.simps masked_dict split: if_splits option.splits
        dest!: new_tool_content_bounded [where n = "nz_text_chars nz"] truncate_text_fixed)
qed

lemma normalize_blocks_bounded:
  assumes "normalize_blocks tx nz cs refs acc tr = Inr (out, tr')" "\<forall>b \<in> set acc. block_bounded (nz_text_chars nz) b"
  shows "(\<forall>b \<in> set out. block_bounded (nz_text_chars nz) b) \<and> length out \<le> length acc + length cs"
  using assms
proof (induction tx nz cs refs acc tr rule: normalize_blocks.induct)
  case (2 tx nz c cs refs acc tr)
  from "2.prems"(1) obtain item itr where item: "normalize_content_item tx nz c = Inr (item, itr)"
    by (auto split: prod.splits)
  show ?case
  proof (cases item)
    case None
    then show ?thesis using "2.IH"(1) [OF item refl None] "2.prems" item by fastforce
  next
    case (Some b)
    with item have b: "block_bounded (nz_text_chars nz) b" using normalize_content_item_bounded by blast
    show ?thesis
      using "2.IH"(2-4) [OF item refl Some] "2.prems" item Some b by (auto split: if_splits)
  qed
qed simp

lemma reduce_content_block_bounded:
  assumes "reduce_content_block tx nz b = Inr b'" "tool_masked (PDict (tc_metadata b))" "59 \<le> nz_text_chars nz"
  shows "block_bounded (nz_text_chars nz) b'"
proof -
  have md: "tool_masked (PDict (dict_set ''truncated'' (PBool True) (tc_metadata b)))"
    by (rule tool_masked_set) (use assms(2) truncated_not_sensitive in auto)
  have sh: "tool_masked (shrink_json_value tx (tc_json_value b))"
    using redact_tool_payload_masked truncated_flag_masked
    by (auto simp: shrink_json_value_def split: pyval.split option.split list.split)
  have len: "length (truncate_text (max 16 (nz_text_chars nz div 4)) s) \<le> nz_text_chars nz" for s
    using truncate_text_length [of "max 16 (nz_text_chars nz div 4)" s] assms(3) by linarith
  have om: "length result_omitted_text \<le> nz_text_chars nz" using assms(3) by (simp add: result_omitted_text_def)
  have none: "tool_masked PNone" by simp
  show ?thesis
    using assms(1) unfolding reduce_content_block_def Let_def
    by (auto split: if_splits option.splits simp del: masked.simps masked_dict
        intro: new_tool_content_bounded [OF _ sh md] new_tool_content_bounded [OF _ none md] simp: len om)
qed

lemma pop_until_fits_outcome:
  assumes "pop_until_fits tx limit md cs = Inr left"
  shows "(case left of
      Inr out \<Rightarrow> set out \<subseteq> set cs \<and> length out \<le> length cs
        \<and> (\<exists>n. payload_size_bytes tx out None md = Inr n \<and> n \<le> limit)
    | Inl out \<Rightarrow> set out \<subseteq> set cs \<and> length out \<le> 1)"
  using assms
proof (induction tx limit md cs rule: pop_until_fits.induct)
  case (1 tx limit md cs)
  show ?case
  proof (cases "length cs \<le> 1")
    case True
    then show ?thesis using "1.prems" by (auto simp: pop_until_fits.simps [of tx limit md cs] split: sum.splits)
  next
    case False
    with "1.prems" obtain n where n: "payload_size_bytes tx (butlast cs) None md = Inr n"
      by (auto simp: pop_until_fits.simps [of tx limit md cs])
    show ?thesis
    proof (cases "n \<le> limit")
      case True
      then show ?thesis
        using "1.prems" False n
        by (auto simp: pop_until_fits.simps [of tx limit md cs] split: sum.splits dest: in_set_butlastD)
    next
      case False
      then have "pop_until_fits tx limit md (butlast cs) = Inr left"
        using "1.prems" \<open>\<not> length cs \<le> 1\<close> n by (simp add: pop_until_fits.simps [of tx limit md cs])
      from "1.IH" [OF \<open>\<not> length cs \<le> 1\<close> n False this] show ?thesis
        by (auto split: sum.splits dest: in_set_butlastD)
    qed
  qed
qed

text \<open>What the reduction returns fits, and is made of the blocks it was given, their reduction, or the place holder.\<close>

lemma place_holder_outcome:
  assumes "place_holder tx limit md = Inr (content, structured, metadata, reduced)" "59 \<le> n"
  shows "structured = None \<and> metadata = md \<and> length content = 1 \<and> (\<forall>b \<in> set content. block_bounded n b)
    \<and> (\<exists>k. payload_size_bytes tx content structured metadata = Inr k \<and> k \<le> limit)"
proof -
  obtain b where b: "new_tool_content ''text'' (Some result_omitted_text) PNone None None
      [(''truncated'', PBool True)] = Inr b"
    using assms(1) by (auto simp: place_holder_def)
  obtain k where k: "payload_size_bytes tx [b] None md = Inr k"
    using assms(1) b by (auto simp: place_holder_def)
  have "block_bounded n b"
    using new_tool_content_bounded [OF b _ truncated_flag_masked] assms(2) by (simp add: result_omitted_text_def)
  then show ?thesis
    using assms(1) k by (cases "k \<le> limit") (auto simp: place_holder_def b)
qed

lemma fit_to_budget_outcome:
  assumes fit: "fit_to_budget tx nz limit cs s md = Inr (content, structured, metadata, reduced)"
    and "\<forall>b \<in> set cs. block_bounded (nz_text_chars nz) b" "59 \<le> nz_text_chars nz"
  shows "(\<exists>k. payload_size_bytes tx content structured metadata = Inr k \<and> k \<le> limit)
    \<and> (\<forall>b \<in> set content. block_bounded (nz_text_chars nz) b) \<and> length content \<le> max 1 (length cs)
    \<and> (structured = s \<or> structured = None) \<and> (metadata = md \<or> metadata = [(''truncated'', PBool True)])
    \<and> (\<not> reduced \<longrightarrow> content = cs \<and> structured = s \<and> metadata = md)"
proof -
  let ?r = "[(''truncated'', PBool True)]"
  from fit obtain n where n: "payload_size_bytes tx cs s md = Inr n" by (auto simp: fit_to_budget_def)
  show ?thesis
  proof (cases "n \<le> limit")
    case True
    then show ?thesis using fit n assms(2) by (simp add: fit_to_budget_def)
  next
    case False
    with fit n obtain k where k: "payload_size_bytes tx cs None ?r = Inr k"
      by (auto simp: fit_to_budget_def Let_def)
    show ?thesis
    proof (cases "k \<le> limit")
      case True
      then show ?thesis using fit n k False assms(2) by (simp add: fit_to_budget_def Let_def)
    next
      case nofit: False
      with fit n k False obtain left where left: "pop_until_fits tx limit ?r cs = Inr left"
        by (auto simp: fit_to_budget_def Let_def)
      show ?thesis
      proof (cases left)
        case (Inr out)
        then show ?thesis
          using pop_until_fits_outcome [OF left] fit n k False nofit left assms(2)
          by (auto simp: fit_to_budget_def Let_def)
      next
        case (Inl out)
        note out = pop_until_fits_outcome [OF left, unfolded Inl, simplified]
        show ?thesis
        proof (cases out)
          case Nil
          then have ph: "place_holder tx limit ?r = Inr (content, structured, metadata, reduced)"
            using fit n k False nofit left Inl by (simp add: fit_to_budget_def Let_def)
          then have "reduced" by (auto simp: place_holder_def split: if_splits)
          with place_holder_outcome [OF ph assms(3)] show ?thesis by auto
        next
          case (Cons b bs)
          then have step: "try_bind (reduce_content_block tx nz b) (\<lambda>b'.
              try_bind (payload_size_bytes tx [b'] None ?r) (\<lambda>n.
                if n \<le> limit then Inr ([b'], None, ?r, True) else place_holder tx limit ?r))
              = Inr (content, structured, metadata, reduced)"
            using fit n k False nofit left Inl by (simp add: fit_to_budget_def Let_def)
          then obtain b' m where b': "reduce_content_block tx nz b = Inr b'" "payload_size_bytes tx [b'] None ?r = Inr m"
            by auto
          have "b \<in> set cs" using out Cons by auto
          then have bb: "block_bounded (nz_text_chars nz) b'"
            using reduce_content_block_bounded [OF b'(1) _ assms(3)] assms(2) by (simp add: block_bounded_def)
          show ?thesis
          proof (cases "m \<le> limit")
            case True
            then show ?thesis using step b' bb by auto
          next
            case False
            then have ph: "place_holder tx limit ?r = Inr (content, structured, metadata, reduced)"
              using step b' by simp
            then have "reduced" by (auto simp: place_holder_def split: if_splits)
            with place_holder_outcome [OF ph assms(3)] show ?thesis by auto
          qed
        qed
      qed
    qed
  qed
qed

lemma adapt_dataset_envelope_status:
  assumes "adapt_dataset_envelope s = Inr (Some e)"
  shows "(de_status e = ''completed'' \<and> de_error_detail e = None)
    \<or> (de_status e \<in> {''failed'', ''timeout'', ''cancelled''} \<and> de_error_detail e \<noteq> None)"
proof -
  obtain d where d: "s = Some d" using assms by (cases s) (simp_all add: adapt_dataset_envelope_def)
  obtain ok where ok: "dict_get d ''ok'' = PBool ok"
    using assms d by (cases "dict_get d ''ok''") (simp_all add: adapt_dataset_envelope_def)
  obtain meta where meta: "dict_get d ''meta'' = PDict meta"
    using assms d ok by (cases "dict_get d ''meta''") (simp_all add: adapt_dataset_envelope_def)
  note run = assms [unfolded adapt_dataset_envelope_def, simplified d ok meta Let_def option.case prod.case pyval.case]
  show ?thesis
  proof (cases ok)
    case True
    let ?v = "case dict_get d ''data'' of PDict e \<Rightarrow> dict_get e ''dataset'' | _ \<Rightarrow> PNone"
    show ?thesis using run True by (cases ?v) (auto split: if_splits)
  next
    case False
    show ?thesis
      using run False by (auto simp: status_for_dataset_error_def split: if_splits)
  qed
qed

lemma result_error_detail_status:
  assumes "adapt_dataset_envelope s = Inr envelope" "result_error_detail envelope status r = Inr ed"
    and "status = (case envelope of None \<Rightarrow> mr_status r | Some e \<Rightarrow> de_status e)" "mr_status r \<in> set valid_statuses"
  shows "status \<in> set valid_statuses \<and> (status = ''completed'' \<longleftrightarrow> ed = None)"
proof (cases envelope)
  case None
  then show ?thesis using assms(2-4) by (auto simp: result_error_detail_def split: if_splits)
next
  case (Some e)
  have "(de_status e = ''completed'' \<and> de_error_detail e = None)
      \<or> (de_status e \<in> {''failed'', ''timeout'', ''cancelled''} \<and> de_error_detail e \<noteq> None)"
    using adapt_dataset_envelope_status assms(1) Some by blast
  then show ?thesis using assms(2,3) Some by (auto simp: result_error_detail_def valid_statuses_def)
qed

lemma normalize_literal_valid:
  "normalize_literal s valid_statuses d m = Inr t \<Longrightarrow> s \<in> set valid_statuses \<Longrightarrow> t = s"
  by (auto simp: normalize_literal_def valid_statuses_def norm_text_def Let_def reader_defs split: if_splits)

section \<open>Properties\<close>

text \<open>C38. What a tool sends back is bounded and redacted: a normalized result is within the byte limit of the
  tool, has at most 20 blocks with texts of at most 12000 characters, holds no unmasked value under a sensitive
  key in its JSON values, its structured content or its metadata, reports its own size, says so when it was
  reduced, and has an error detail exactly when its status is not \<open>completed\<close>.\<close>

theorem normalized_result_is_bounded:
  assumes "normalize_result tx (default_normalizer m) t r d = Inr x" "mr_status r \<in> set valid_statuses"
  shows "json_bytes tx (payload_of (xr_content x) (xr_structured x) (xr_metadata x)) \<le> result_limit (default_normalizer m) t
    \<and> map_option su_bytes_returned (xr_summary x) =
        Some (Some (json_bytes tx (payload_of (xr_content x) (xr_structured x) (xr_metadata x))))
    \<and> length (xr_content x) \<le> 20 \<and> (\<forall>b \<in> set (xr_content x). block_bounded 12000 b)
    \<and> (\<forall>s. xr_structured x = Some s \<longrightarrow> tool_masked (PDict s)) \<and> tool_masked (PDict (xr_metadata x))
    \<and> xr_status x \<in> set valid_statuses \<and> (xr_status x = ''completed'' \<longleftrightarrow> xr_error_detail x = None)"
proof -
  let ?nz = "default_normalizer m"
  obtain envelope where env: "adapt_dataset_envelope (mr_structured r) = Inr envelope"
    using assms(1) by (auto simp: normalize_result_def)
  define status where "status = (case envelope of None \<Rightarrow> mr_status r | Some e \<Rightarrow> de_status e)"
  define metadata0 where "metadata0 = (case envelope of
      None \<Rightarrow> normalize_tool_metadata tx (mr_metadata r)
    | Some e \<Rightarrow>
        if de_metadata e = [] then normalize_tool_metadata tx (mr_metadata r)
        else dict_merge (normalize_tool_metadata tx (mr_metadata r)) (normalize_tool_metadata tx (de_metadata e)))"
  obtain structured0 st where str: "normalize_structured_content tx ?nz
      (case envelope of None \<Rightarrow> mr_structured r | Some e \<Rightarrow> de_structured e) = (structured0, st)" by force
  note run = assms(1) [unfolded normalize_result_def env, simplified, folded status_def metadata0_def, unfolded str, simplified]
  from run obtain content0 ct where blocks: "normalize_content_blocks tx ?nz (mr_content r) = Inr (content0, ct)"
    by (auto simp: Let_def)
  from run blocks obtain ed where ed: "result_error_detail envelope status r = Inr ed" by (auto simp: Let_def)
  from run blocks ed obtain content structured metadata reduced where
    fit: "fit_to_budget tx ?nz (result_limit ?nz t) content0 structured0 metadata0 = Inr (content, structured, metadata, reduced)"
    by (auto simp: Let_def)
  from run blocks ed fit obtain bytes where bytes: "payload_size_bytes tx content structured metadata = Inr bytes"
    by (auto simp: Let_def)
  from run blocks ed fit bytes obtain smm where x: "tool_result_post_init
      \<lparr>xr_tool_name = rt_logical_name t, xr_status = status, xr_content = content, xr_structured = structured,
       xr_summary = Some smm, xr_duration_ms = d, xr_metadata = metadata, xr_error_detail = ed\<rparr> = Inr x"
    and smm: "su_bytes_returned smm = Some bytes"
    by (auto simp: Let_def)
  have "(\<forall>b \<in> set content0. block_bounded 12000 b) \<and> length content0 \<le> 20"
    using normalize_blocks_bounded [of tx ?nz "take 20 (mr_content r)" 0 "[]"] blocks
    by (fastforce simp: normalize_content_blocks_def default_normalizer_def)
  moreover have "tool_masked (PDict s)" if "structured0 = Some s" for s
    using str that redact_tool_payload_masked [of tx 12000]
    by (auto simp: normalize_structured_content_def default_normalizer_def redact_tool_payload_def redact_def
        simp del: masked.simps masked_dict split: option.splits) (metis redact_value.simps(1))+
  moreover have "tool_masked (PDict metadata0)"
    unfolding metadata0_def using normalize_tool_metadata_masked tool_masked_merge by (simp split: option.split del: masked.simps masked_dict)
  moreover note fit_to_budget_outcome [OF fit]
  moreover have "nz_text_chars ?nz = 12000" by (simp add: default_normalizer_def)
  moreover note result_error_detail_status [OF env ed status_def assms(2)] truncated_flag_masked
  moreover have "xr_content x = content \<and> xr_structured x = structured \<and> xr_metadata x = metadata
      \<and> xr_summary x = Some smm \<and> xr_error_detail x = ed \<and> (status \<in> set valid_statuses \<longrightarrow> xr_status x = status)"
    using x normalize_literal_valid [of status] by (auto simp: tool_result_post_init_def)
  moreover have "bytes = json_bytes tx (payload_of content structured metadata)"
    using bytes by (auto simp: payload_size_bytes_def Let_def split: if_splits)
  ultimately show ?thesis using smm bytes by (auto simp del: masked.simps masked_dict)
qed

text \<open>A dataset too large for its tool: the structured content is given up, the flag says so, the secret of the
  text-free block is masked.\<close>

definition small_tool :: resolved_tool where
  "small_tool = (sample_tool ''search'' ''find'')\<lparr>rt_max_result_bytes := 240\<rparr>"

definition large_result :: mcp_result where
  "large_result =
    \<lparr>mr_tool_name = ''find'', mr_status = ''completed'',
     mr_content = [\<lparr>mc_type = ''json'', mc_text = None, mc_json_value = PDict [(''api_key'', PStr ''s3cret'')],
       mc_uri = None, mc_mime_type = None, mc_metadata = []\<rparr>],
     mr_structured = Some [(''rows'', PList (replicate 40 (PStr ''bread'')))], mr_metadata = [], mr_error_message = None\<rparr>"

definition large_outcome :: "tool_result tool_res" where
  "large_outcome = normalize_result plain_test_texts (default_normalizer 262144) small_tool large_result None"

lemma large_outcome_ready:
  "case large_outcome of Inl e \<Rightarrow> False
    | Inr x \<Rightarrow> xr_structured x = None \<and> xr_status x = ''completed'' \<and> map_option su_truncated (xr_summary x) = Some True
        \<and> List.map tc_json_value (xr_content x) = [PDict [(''api_key'', PStr redacted_value)]]"
  by code_simp

theorem normalized_result_is_bounded_witness:
  "\<exists>x. large_outcome = Inr x \<and> xr_status x = ''completed'' \<and> xr_error_detail x = None
    \<and> json_bytes plain_test_texts (payload_of (xr_content x) (xr_structured x) (xr_metadata x)) \<le> 240"
proof -
  obtain x where x: "large_outcome = Inr x" "xr_status x = ''completed''"
    using large_outcome_ready by (auto split: sum.splits)
  have "mr_status large_result \<in> set valid_statuses" by (simp add: large_result_def valid_statuses_def)
  from normalized_result_is_bounded [OF x(1) [unfolded large_outcome_def] this] x show ?thesis
    by (auto simp: result_limit_def small_tool_def)
qed

text \<open>The text of a delta is stripped like a name, so the blank between two words that arrive in two events is
  lost, and an event of blanks only has no text.\<close>

lemma deltas_lose_blanks_all:
  "tool_stream_event_post_init ((plain_stream_event ''delta'' ''search'' [])\<lparr>te_text := Some ''two ''\<rparr>)
    = Inr ((plain_stream_event ''delta'' ''search'' [])\<lparr>te_text := Some ''two''\<rparr>)
   \<and> tool_stream_event_post_init ((plain_stream_event ''delta'' ''search'' [])\<lparr>te_text := Some '' ''\<rparr>)
    = Inr (plain_stream_event ''delta'' ''search'' [])"
  by code_simp

lemmas deltas_lose_blanks = parts2 [OF deltas_lose_blanks_all]

end
