(* ===== verification/Tool_Gateway.thy ===== *)
theory Tool_Gateway
  imports Tool_Results Service_Facts Retry_Loop
begin

text \<open>
  The tool gateway (\<open>tools/gateway.py\<close> with \<open>tools/retry.py\<close>): listing, execution and streaming of logical tools
  through the policy service, the argument validator, the MCP adapter and the result normalizer, with the
  trace events it records.

  \<^item> A run threads the policy service, counters and a chronological log: the policy answers, the requests
    sent to the adapter, the trace events, and the events a stream yields.
  \<^item> The adapter speaks to a server outside the repository: \<open>tenv_call n q\<close> is what it returns or raises in
    the \<open>n\<close>-th attempt of the run, \<open>tenv_stream n q\<close> the events it yields and the exception that ends them.
  \<^item> The consumer may close a stream at any yield (\<open>tenv_closes n\<close>, by the number of events yielded before).
  \<^item> \<open>_record_event\<close> swallows what the trace raises, so recording a trace event never fails.
\<close>

section \<open>Requests\<close>

record tool_request =
  tq_tool_name :: string
  tq_arguments :: pydict
  tq_scopes :: tool_scopes
  tq_timeout_seconds :: "int option"
  tq_idempotency_key :: "string option"
  tq_stream :: bool
  tq_metadata :: pydict

definition tool_request_post_init :: "tool_request \<Rightarrow> tool_request tool_res" where
  "tool_request_post_init q =
    try_bind (required_text_or (tq_tool_name q) ''Tool name must not be empty.'') (\<lambda>name.
    Inr (q\<lparr>tq_tool_name := name, tq_idempotency_key := norm_text (tq_idempotency_key q)\<rparr>))"

record adapter_request =
  ar_mcp_tool_name :: string
  ar_arguments :: pydict
  ar_timeout_seconds :: int
  ar_trace_id :: string
  ar_session_id :: "string option"
  ar_idempotency_key :: "string option"
  ar_metadata :: pydict

text \<open>\<open>AdapterRequestMetadata(...).to_mcp_request(...)\<close>, both constructors included.\<close>

definition new_adapter_request :: "adapter_request \<Rightarrow> adapter_request tool_res" where
  "new_adapter_request a =
    try_bind (required_text_or (ar_trace_id a) ''Tooling runtime values must not be empty.'') (\<lambda>trace_id.
    try_bind (required_text_or (ar_mcp_tool_name a) ''MCP tool name must not be empty.'') (\<lambda>name.
    Inr (a\<lparr>ar_mcp_tool_name := name, ar_trace_id := trace_id, ar_session_id := norm_text (ar_session_id a),
           ar_idempotency_key := norm_text (ar_idempotency_key a)\<rparr>)))"

definition tool_scopes_summary :: "tool_scopes \<Rightarrow> pydict" where
  "tool_scopes_summary s =
    [(''user_id_present'', PBool (ts_user_id s \<noteq> None)), (''project_id_present'', PBool (ts_project_id s \<noteq> None)),
     (''tenant_id_present'', PBool (ts_tenant_id s \<noteq> None)), (''session_id_present'', PBool (ts_session_id s \<noteq> None)),
     (''agent_name_present'', PBool (ts_agent_name s \<noteq> None)), (''usecase_present'', PBool (ts_usecase s \<noteq> None)),
     (''tool_group_present'', PBool (ts_tool_group s \<noteq> None)), (''tag_count'', PInt (int (length (ts_tags s))))]"

section \<open>Retries\<close>

definition tool_allows_retry :: "resolved_tool \<Rightarrow> string option \<Rightarrow> bool" where
  "tool_allows_retry t key \<longleftrightarrow>
    \<not> (rt_safety_level t \<in> {''destructive'', ''external_side_effect''})
    \<and> \<not> (rt_safety_level t = ''write'' \<and> \<not> truthy key)"

definition is_retryable_tool :: "tool_error \<Rightarrow> resolved_tool \<Rightarrow> string option \<Rightarrow> bool" where
  "is_retryable_tool e t key \<longleftrightarrow>
    tool_allows_retry t key \<and> (tle_class e = ToolTimeoutError \<or> tle_class e = MCPTransportError)"

definition retry_attempts_for_request :: "resolved_tool \<Rightarrow> int \<Rightarrow> string option \<Rightarrow> nat" where
  "retry_attempts_for_request t default_max_retries key =
    (let retries = max 0 default_max_retries
     in if retries = 0 then 1 else if \<not> tool_allows_retry t key then 1 else nat (retries + 1))"

definition result_retry_error :: "mcp_result \<Rightarrow> tool_error option" where
  "result_retry_error r =
    (if mr_status r = ''timeout'' then
       Some (tool_err ToolTimeoutError (str_default (mr_error_message r) ''Tool execution timed out.''))
     else if mr_status r = ''cancelled'' then
       Some (tool_err ToolCancelledError (str_default (mr_error_message r) ''Tool execution was cancelled.''))
     else if mr_status r = ''failed'' \<and> dict_get (mr_metadata r) ''retryable'' = PBool True then
       Some (tool_err MCPTransportError
         (str_default (mr_error_message r) ''The MCP transport returned a retryable failure.''))
     else None)"

section \<open>The gateway and a run of it\<close>

record tool_gateway =
  tg_settings :: tooling_settings
  tg_registry :: tool_registry
  tg_max_argument_bytes :: int
  tg_normalizer :: result_normalizer
  tg_component :: string

definition build_tool_gateway :: "tooling_settings \<Rightarrow> tool_registry \<Rightarrow> tool_gateway" where
  "build_tool_gateway settings registry =
    \<lparr>tg_settings = settings, tg_registry = registry,
     tg_max_argument_bytes = td_max_argument_bytes (tls_defaults settings),
     tg_normalizer = default_normalizer (td_max_result_bytes (tls_defaults settings)),
     tg_component = ''app.tools.gateway''\<rparr>"

record tool_trace =
  tt_event_type :: string
  tt_trace_id :: string
  tt_session_id :: string
  tt_user_id :: string
  tt_usecase :: "string option"
  tt_agent_name :: "string option"
  tt_strategy_name :: "string option"
  tt_component :: string
  tt_tool_name :: string
  tt_status :: string
  tt_severity :: string
  tt_duration_ms :: "int option"
  tt_error_type :: "tool_class option"
  tt_error_code :: "string option"
  tt_retryable :: "bool option"
  tt_payload :: pydict

datatype tool_event =
    PolicyAsked string string bool
  | AdapterCalled adapter_request
  | Traced tool_trace
  | ToolYielded tool_stream_event

record tool_env =
  tenv_texts :: py_texts
  tenv_clock :: "nat \<Rightarrow> clock_readings"
  tenv_duration :: "nat \<Rightarrow> int"
  tenv_call :: "nat \<Rightarrow> adapter_request \<Rightarrow> mcp_result tool_res"
  tenv_stream :: "nat \<Rightarrow> adapter_request \<Rightarrow> mcp_stream_event list \<times> tool_exc option"
  tenv_closes :: "nat \<Rightarrow> bool"

record tool_run =
  trun_service :: policy_service
  trun_checks :: nat
  trun_attempts :: nat
  trun_yields :: nat
  trun_log :: "tool_event list"

definition fresh_tool_run :: "policy_service \<Rightarrow> tool_run" where
  "fresh_tool_run sv =
    \<lparr>trun_service = sv, trun_checks = 0, trun_attempts = 0, trun_yields = 0, trun_log = []\<rparr>"

definition log_tool :: "tool_event \<Rightarrow> tool_run \<Rightarrow> tool_run" where
  "log_tool e s = s\<lparr>trun_log := trun_log s @ [e]\<rparr>"

section \<open>Trace events\<close>

definition drop_none_values :: "pydict \<Rightarrow> pydict" where
  "drop_none_values d = filter (\<lambda>(k, v). v \<noteq> PNone) d"

definition tool_trace_of ::
  "tool_gateway \<Rightarrow> orchestration_context \<Rightarrow> string \<Rightarrow> string \<Rightarrow> string \<Rightarrow> string \<Rightarrow> pydict \<Rightarrow> tool_trace" where
  "tool_trace_of gw c event_type tool_name status severity payload =
    (let rc = octx_request c;
         runtime = octx_runtime_metadata c
     in \<lparr>tt_event_type = event_type, tt_trace_id = str_default (rc_trace_id rc) ''trace_tool'',
         tt_session_id = rc_session_id rc, tt_user_id = rc_user_id rc, tt_usecase = rc_usecase rc,
         tt_agent_name = read_optional_text (dict_get runtime ''agent_name''),
         tt_strategy_name = read_optional_text (dict_get runtime ''strategy_name''),
         tt_component = tg_component gw, tt_tool_name = tool_name, tt_status = status, tt_severity = severity,
         tt_duration_ms = None, tt_error_type = None, tt_error_code = None, tt_retryable = None,
         tt_payload = payload\<rparr>)"

definition record_started ::
  "tool_env \<Rightarrow> tool_gateway \<Rightarrow> orchestration_context \<Rightarrow> string \<Rightarrow> tool_scopes \<Rightarrow> bool \<Rightarrow> int \<Rightarrow> tool_request \<Rightarrow>
   pydict \<Rightarrow> nat \<Rightarrow> tool_run \<Rightarrow> tool_run" where
  "record_started env gw c tool_name scopes stream timeout_seconds q arguments k s =
    (let payload = tool_scopes_summary scopes @
           [(''stream'', PBool stream), (''timeout_seconds'', PInt timeout_seconds),
            (''argument_count'', PInt (int (length arguments))),
            (''idempotency_key_present'', PBool (tq_idempotency_key q \<noteq> None)), (''attempt_count'', PInt (int k))]
           @ (if td_trace_arguments (tls_defaults (tg_settings gw))
              then [(''arguments'', redact_tool_payload (tenv_texts env) 1024 (PDict arguments))] else [])
     in log_tool (Traced (tool_trace_of gw c ''tool_call_started'' tool_name ''started'' ''info'' payload)) s)"

definition record_completed ::
  "tool_env \<Rightarrow> tool_gateway \<Rightarrow> orchestration_context \<Rightarrow> tool_result \<Rightarrow> tool_scopes \<Rightarrow> nat \<Rightarrow> int \<Rightarrow> tool_run \<Rightarrow> tool_run" where
  "record_completed env gw c x scopes k duration_ms s =
    (let int_of = (\<lambda>i. case i of None \<Rightarrow> PNone | Some n \<Rightarrow> PInt n);
         payload = tool_scopes_summary scopes @
           [(''status'', PStr (xr_status x)), (''duration_ms'', PInt duration_ms), (''attempt_count'', PInt (int k)),
            (''result_count'', case xr_summary x of None \<Rightarrow> PNone | Some u \<Rightarrow> int_of (su_result_count u)),
            (''bytes_returned'', case xr_summary x of None \<Rightarrow> PNone | Some u \<Rightarrow> int_of (su_bytes_returned u)),
            (''truncated'', PBool (case xr_summary x of None \<Rightarrow> False | Some u \<Rightarrow> su_truncated u)),
            (''content_block_count'', PInt (int (length (xr_content x))))]
           @ (if td_trace_results (tls_defaults (tg_settings gw))
              then [(''structured_content'', redact_tool_payload (tenv_texts env) 2048
                      (case xr_structured x of None \<Rightarrow> PNone | Some d \<Rightarrow> PDict d))] else [])
     in log_tool (Traced ((tool_trace_of gw c ''tool_call_completed'' (xr_tool_name x) ''completed'' ''info''
          (drop_none_values payload))\<lparr>tt_duration_ms := Some duration_ms\<rparr>)) s)"

definition record_failure ::
  "tool_gateway \<Rightarrow> orchestration_context \<Rightarrow> string \<Rightarrow> tool_scopes \<Rightarrow> tool_error option \<Rightarrow> nat \<Rightarrow> int option \<Rightarrow> string \<Rightarrow>
   string option \<Rightarrow> bool option \<Rightarrow> tool_run \<Rightarrow> tool_run" where
  "record_failure gw c tool_name scopes error k duration_ms status error_code retryable s =
    (let resolved_retryable = (if retryable = None \<and> error \<noteq> None then Some False else retryable);
         policy_decision = (case error of
             None \<Rightarrow> None
           | Some e \<Rightarrow>
               if tle_class e = ToolPolicyApprovalRequiredError then Some ''approval_required''
               else if tle_class e = ToolPolicyDeniedError then Some ''deny'' else None);
         payload = tool_scopes_summary scopes @
           [(''status'', PStr status), (''attempt_count'', PInt (int k)),
            (''retryable'', case resolved_retryable of None \<Rightarrow> PNone | Some b \<Rightarrow> PBool b),
            (''policy_decision'', py_opt_str policy_decision),
            (''policy_block_summary'', py_opt_str (tool_policy_block_summary tool_name error))]
     in log_tool (Traced ((tool_trace_of gw c ''tool_call_failed'' tool_name status ''warning''
            (drop_none_values payload))
          \<lparr>tt_duration_ms := duration_ms, tt_error_type := map_option tle_class error,
           tt_error_code := str_or error_code (error_code_for_error error),
           tt_retryable := resolved_retryable\<rparr>)) s)"

section \<open>Consent and preparation\<close>

definition effective_scopes :: "tool_scopes \<Rightarrow> orchestration_context \<Rightarrow> tool_scopes" where
  "effective_scopes scopes c =
    tool_scopes_post_init (scopes
      \<lparr>ts_user_id := str_or (ts_user_id scopes) (Some (rc_user_id (octx_request c))),
       ts_session_id := str_or (ts_session_id scopes) (Some (rc_session_id (octx_request c))),
       ts_agent_name := str_or (ts_agent_name scopes)
         (read_optional_text (dict_get (octx_runtime_metadata c) ''agent_name'')),
       ts_usecase := str_or (ts_usecase scopes) (rc_usecase (octx_request c))\<rparr>)"

definition empty_scopes :: tool_scopes where
  "empty_scopes =
    \<lparr>ts_user_id = None, ts_project_id = None, ts_tenant_id = None, ts_session_id = None, ts_agent_name = None,
     ts_usecase = None, ts_tool_group = None, ts_tags = [], ts_metadata = []\<rparr>"

text \<open>The policy request of \<open>_evaluate_policy\<close>; without a definition the tool is unknown and disabled.\<close>

definition tool_policy_request ::
  "tool_gateway \<Rightarrow> string \<Rightarrow> string \<Rightarrow> orchestration_context \<Rightarrow> tool_scopes \<Rightarrow> resolved_tool option \<Rightarrow> bool \<Rightarrow> bool \<Rightarrow>
   policy_request" where
  "tool_policy_request gw action tool_name c scopes defn streaming key_present =
    (case defn of
       None \<Rightarrow>
         build_tool_policy_request action (tg_component gw) tool_name scopes c False False None False False [] [] []
           key_present streaming
     | Some t \<Rightarrow>
         build_tool_policy_request action (tg_component gw) tool_name scopes c True (rt_enabled t)
           (Some (rt_safety_level t)) (rt_approval_required t) (rt_supports_streaming t) (rt_allowed_usecases t)
           (rt_allowed_agents t) (rt_allowed_strategies t) key_present streaming)"

definition evaluate_tool_policy ::
  "tool_env \<Rightarrow> orchestration_context \<Rightarrow> policy_request \<Rightarrow> tool_run \<Rightarrow> policy_decision tool_res \<times> tool_run" where
  "evaluate_tool_policy env c r s =
    (let (res, sv) = service_evaluate (tenv_texts env) (tenv_clock env (trun_checks s)) (trun_service s) r c;
         s1 = s\<lparr>trun_service := sv, trun_checks := trun_checks s + 1\<rparr>
     in case res of
          Inl e \<Rightarrow> (Inl (PolicyExc e), s1)
        | Inr d \<Rightarrow> (Inr d, log_tool (PolicyAsked (req_action r) (str_default (req_resource r) []) (dec_allowed d)) s1))"

definition tool_denied_error :: "policy_decision \<Rightarrow> tool_error" where
  "tool_denied_error d =
    tool_err (if dec_requires_approval d then ToolPolicyApprovalRequiredError else ToolPolicyDeniedError)
      (str_default (dec_reason d) ''Tool execution was denied by policy.'')"

definition effective_timeout :: "tool_gateway \<Rightarrow> tool_request \<Rightarrow> resolved_tool \<Rightarrow> bool \<Rightarrow> int" where
  "effective_timeout gw q t streaming =
    (case tq_timeout_seconds q of
       Some n \<Rightarrow>
         if n > 0 then n
         else if streaming then max (rt_timeout_seconds t) (td_stream_timeout_seconds (tls_defaults (tg_settings gw)))
         else rt_timeout_seconds t
     | None \<Rightarrow>
         if streaming then max (rt_timeout_seconds t) (td_stream_timeout_seconds (tls_defaults (tg_settings gw)))
         else rt_timeout_seconds t)"

text \<open>What an execution holds in its local variables once it is prepared.\<close>

record tool_job =
  jb_request :: tool_request
  jb_context :: orchestration_context
  jb_scopes :: tool_scopes
  jb_tool :: resolved_tool
  jb_arguments :: pydict
  jb_timeout_seconds :: int

definition not_found_error :: "string \<Rightarrow> tool_error" where
  "not_found_error name = tool_err ToolNotFoundError (''Unknown logical tool: '' @ name)"

definition no_streaming_error :: "string \<Rightarrow> tool_error" where
  "no_streaming_error name = tool_err ToolDisabledError (''Tool '' @ quoted name @ '' does not support streaming execution.'')"

definition prepare_execution ::
  "tool_env \<Rightarrow> tool_gateway \<Rightarrow> tool_request \<Rightarrow> orchestration_context \<Rightarrow> string \<Rightarrow> tool_scopes \<Rightarrow> bool \<Rightarrow> tool_run \<Rightarrow>
   tool_job tool_res \<times> tool_run" where
  "prepare_execution env gw q c action scopes streaming s =
    (let key_present = (tq_idempotency_key q \<noteq> None)
     in case resolve_entry (tg_registry gw) (tq_tool_name q) of
          None \<Rightarrow>
            (case evaluate_tool_policy env c
                (tool_policy_request gw action (tq_tool_name q) c scopes None streaming key_present) s of
               (Inl e, s1) \<Rightarrow> (Inl e, s1)
             | (Inr d, s1) \<Rightarrow>
                 (Inl (ToolExc (if \<not> dec_allowed d then tool_denied_error d else not_found_error (tq_tool_name q))), s1))
        | Some entry \<Rightarrow>
            (let t = re_definition entry
             in case evaluate_tool_policy env c
                  (tool_policy_request gw action (rt_logical_name t) c scopes (Some t) streaming key_present) s of
                  (Inl e, s1) \<Rightarrow> (Inl e, s1)
                | (Inr d, s1) \<Rightarrow>
                    if \<not> dec_allowed d then (Inl (ToolExc (tool_denied_error d)), s1)
                    else if streaming \<and> \<not> rt_supports_streaming t
                      then (Inl (ToolExc (no_streaming_error (rt_logical_name t))), s1)
                    else
                      (case validate_arguments (tenv_texts env) (tg_max_argument_bytes gw) t (tq_arguments q) of
                         Inl f \<Rightarrow> (Inl (ToolExc (argument_err f)), s1)
                       | Inr arguments \<Rightarrow>
                           (Inr \<lparr>jb_request = q, jb_context = c, jb_scopes = scopes, jb_tool = t,
                                jb_arguments = arguments, jb_timeout_seconds = effective_timeout gw q t streaming\<rparr>, s1))))"

definition build_adapter_request :: "tool_job \<Rightarrow> adapter_request tool_res" where
  "build_adapter_request j =
    new_adapter_request
      \<lparr>ar_mcp_tool_name = rt_mcp_tool_name (jb_tool j), ar_arguments = jb_arguments j,
       ar_timeout_seconds = jb_timeout_seconds j,
       ar_trace_id = str_default (rc_trace_id (octx_request (jb_context j))) ''trace_tool'',
       ar_session_id = Some (rc_session_id (octx_request (jb_context j))),
       ar_idempotency_key = tq_idempotency_key (jb_request j),
       ar_metadata = dict_merge
         [(''logical_tool_name'', PStr (rt_logical_name (jb_tool j))),
          (''tool_group'', py_opt_str (ts_tool_group (jb_scopes j)))] (tq_metadata (jb_request j))\<rparr>"

definition job_attempts :: "tool_gateway \<Rightarrow> tool_job \<Rightarrow> nat" where
  "job_attempts gw j =
    retry_attempts_for_request (jb_tool j) (td_max_retries (tls_defaults (tg_settings gw)))
      (tq_idempotency_key (jb_request j))"

definition start_attempt :: "tool_env \<Rightarrow> tool_gateway \<Rightarrow> tool_job \<Rightarrow> bool \<Rightarrow> nat \<Rightarrow> tool_run \<Rightarrow> tool_run" where
  "start_attempt env gw j streaming k s =
    (let s1 = record_started env gw (jb_context j) (rt_logical_name (jb_tool j)) (jb_scopes j) streaming
                (jb_timeout_seconds j) (jb_request j) (jb_arguments j) k s
     in s1\<lparr>trun_attempts := trun_attempts s1 + 1\<rparr>)"

text \<open>The failure event of an attempt whose exception ends the execution.\<close>

definition fail_attempt :: "tool_env \<Rightarrow> tool_gateway \<Rightarrow> tool_job \<Rightarrow> nat \<Rightarrow> tool_error \<Rightarrow> tool_run \<Rightarrow> tool_run" where
  "fail_attempt env gw j k e s =
    record_failure gw (jb_context j) (rt_logical_name (jb_tool j)) (jb_scopes j) (Some e) k
      (Some (tenv_duration env (trun_attempts s)))
      (if tle_class e = ToolCancelledError then ''cancelled'' else ''failed'') None None s"

section \<open>Execution\<close>

datatype tool_failure = Raised nat tool_error | Answered nat tool_error mcp_result

datatype tool_answer = Answer nat mcp_result | Unsent tool_exc

fun failure_error :: "tool_failure \<Rightarrow> tool_error" where
  "failure_error (Raised k e) = e"
| "failure_error (Answered k e r) = e"

text \<open>One attempt: an exception of the adapter and an answer that may be tried again are failures. A request
  that cannot be built raises before the adapter is called.\<close>

definition tool_attempt ::
  "tool_env \<Rightarrow> tool_gateway \<Rightarrow> tool_job \<Rightarrow> nat \<Rightarrow> tool_run \<Rightarrow> (tool_failure + tool_answer) \<times> tool_run" where
  "tool_attempt env gw j k s =
    (let s1 = start_attempt env gw j False k s
     in case build_adapter_request j of
          Inl exn \<Rightarrow> (Inr (Unsent exn), s1)
        | Inr a \<Rightarrow>
           (let s2 = log_tool (AdapterCalled a) s1
            in case tenv_call env (trun_attempts s) a of
                 Inl exn \<Rightarrow> (Inl (Raised k (normalize_runtime_error False exn)), s2)
               | Inr r \<Rightarrow>
                   (case result_retry_error r of
                      None \<Rightarrow> (Inr (Answer k r), s2)
                    | Some e \<Rightarrow> (Inl (Answered k e r), s2))))"

definition may_retry :: "tool_job \<Rightarrow> tool_error \<Rightarrow> bool" where
  "may_retry j e \<longleftrightarrow> is_retryable_tool e (jb_tool j) (tq_idempotency_key (jb_request j))"

fun tool_attempts ::
  "tool_env \<Rightarrow> tool_gateway \<Rightarrow> tool_job \<Rightarrow> nat \<Rightarrow> nat \<Rightarrow> tool_run \<Rightarrow> (tool_failure + tool_answer) option \<times> tool_run" where
  "tool_attempts env gw j 0 k s = (None, s)"
| "tool_attempts env gw j (Suc left) k s =
    (case tool_attempt env gw j k s of
       (Inr x, s') \<Rightarrow> (Some (Inr x), s')
     | (Inl f, s') \<Rightarrow>
         if may_retry j (failure_error f) \<and> 0 < left then tool_attempts env gw j left (Suc k) s'
         else (Some (Inl f), s'))"

text \<open>The rest of the loop body, for an answer that is not tried again: normalization, and the trace event.
  (What the normalizer raises is not caught, and not traced.)\<close>

definition finish_result ::
  "tool_env \<Rightarrow> tool_gateway \<Rightarrow> tool_job \<Rightarrow> nat \<Rightarrow> tool_error option \<Rightarrow> mcp_result \<Rightarrow> tool_run \<Rightarrow>
   tool_result tool_res \<times> tool_run" where
  "finish_result env gw j k retry_error r s =
    (let duration_ms = tenv_duration env (trun_attempts s)
     in case normalize_result (tenv_texts env) (tg_normalizer gw) (jb_tool j) r (Some duration_ms) of
          Inl e \<Rightarrow> (Inl e, s)
        | Inr x \<Rightarrow>
            (Inr x,
             if xr_success x then record_completed env gw (jb_context j) x (jb_scopes j) k duration_ms s
             else record_failure gw (jb_context j) (rt_logical_name (jb_tool j)) (jb_scopes j) retry_error k
                    (Some duration_ms) (xr_status x) (map_option ted_code (xr_error_detail x))
                    (case xr_error_detail x of None \<Rightarrow> None | Some d \<Rightarrow> ted_retryable d) s))"

definition run_job :: "tool_env \<Rightarrow> tool_gateway \<Rightarrow> tool_job \<Rightarrow> tool_run \<Rightarrow> tool_result tool_res \<times> tool_run" where
  "run_job env gw j s =
    (case tool_attempts env gw j (job_attempts gw j) 1 s of
       (None, s1) \<Rightarrow> (Inl (OtherExc ''Tool execution attempts exhausted without a result.''), s1)
     | (Some (Inr (Unsent exn)), s1) \<Rightarrow> (Inl exn, s1)
     | (Some (Inr (Answer k r)), s1) \<Rightarrow> finish_result env gw j k None r s1
     | (Some (Inl (Answered k e r)), s1) \<Rightarrow> finish_result env gw j k (Some e) r s1
     | (Some (Inl (Raised k e)), s1) \<Rightarrow> (Inl (ToolExc e), fail_attempt env gw j k e s1))"

text \<open>The first lines of \<open>_execute_internal\<close> and \<open>stream_execute\<close>: the disabled runtime, the preparation, and the
  failure event of a tool error.\<close>

definition disabled_error :: tool_error where
  "disabled_error = tool_err ToolDisabledError ''Tooling is disabled by configuration.''"

definition admit_execution ::
  "tool_env \<Rightarrow> tool_gateway \<Rightarrow> string \<Rightarrow> bool \<Rightarrow> tool_request \<Rightarrow> orchestration_context \<Rightarrow> tool_run \<Rightarrow>
   tool_job tool_res \<times> tool_run" where
  "admit_execution env gw action streaming q c s =
    (let scopes = effective_scopes (tq_scopes q) c
     in if \<not> tls_enabled (tg_settings gw) then
          (Inl (ToolExc disabled_error),
           record_failure gw c (tq_tool_name q) scopes (Some disabled_error) 0 None ''failed'' None None s)
        else
          (case prepare_execution env gw q c action scopes streaming s of
             (Inl (ToolExc e), s1) \<Rightarrow>
               (Inl (ToolExc e), record_failure gw c (tq_tool_name q) scopes (Some e) 0 None ''failed'' None None s1)
           | (Inl e, s1) \<Rightarrow> (Inl e, s1)
           | (Inr j, s1) \<Rightarrow> (Inr j, s1)))"

definition execute_internal ::
  "tool_env \<Rightarrow> tool_gateway \<Rightarrow> string \<Rightarrow> tool_request \<Rightarrow> orchestration_context \<Rightarrow> tool_run \<Rightarrow>
   tool_result tool_res \<times> tool_run" where
  "execute_internal env gw action q c s =
    (case admit_execution env gw action False q c s of
       (Inl e, s1) \<Rightarrow> (Inl e, s1)
     | (Inr j, s1) \<Rightarrow> run_job env gw j s1)"

definition tool_execute ::
  "tool_env \<Rightarrow> tool_gateway \<Rightarrow> tool_request \<Rightarrow> orchestration_context \<Rightarrow> tool_run \<Rightarrow> tool_result tool_res \<times> tool_run" where
  "tool_execute env gw q c s = execute_internal env gw ''tool.execute'' q c s"

definition call_tool ::
  "tool_env \<Rightarrow> tool_gateway \<Rightarrow> tool_request \<Rightarrow> orchestration_context \<Rightarrow> tool_run \<Rightarrow> tool_result tool_res \<times> tool_run" where
  "call_tool env gw q c s = execute_internal env gw ''tool.call'' q c s"

section \<open>Streaming\<close>

datatype tool_stream_end = ToolStreamReturned | ToolStreamRaised tool_exc

datatype forwarded = Finished | Interrupted tool_exc | RanOut

text \<open>A yield: the consumer takes the event (\<open>False\<close>) or closes the generator there (\<open>True\<close>), which raises
  \<open>GeneratorExit\<close> at the yield, inside the \<open>try\<close> block.\<close>

definition yield_tool :: "tool_env \<Rightarrow> tool_stream_event \<Rightarrow> tool_run \<Rightarrow> bool \<times> tool_run" where
  "yield_tool env e s =
    (tenv_closes env (trun_yields s), (log_tool (ToolYielded e) s)\<lparr>trun_yields := trun_yields s + 1\<rparr>)"

definition generator_exit :: tool_exc where
  "generator_exit = OtherExc []"

definition terminal_event :: "string \<Rightarrow> bool" where
  "terminal_event ty \<longleftrightarrow> ty \<in> {''completed'', ''cancelled'', ''error''}"

text \<open>The trace event of a terminal stream event, recorded before it is yielded.\<close>

definition trace_terminal ::
  "tool_env \<Rightarrow> tool_gateway \<Rightarrow> tool_job \<Rightarrow> nat \<Rightarrow> mcp_stream_event \<Rightarrow> tool_stream_event \<Rightarrow> tool_run \<Rightarrow> tool_run" where
  "trace_terminal env gw j k e n s =
    (let duration_ms = tenv_duration env (trun_attempts s);
         failed = (\<lambda>error status. record_failure gw (jb_context j) (rt_logical_name (jb_tool j)) (jb_scopes j)
           (Some error) k (Some duration_ms) status None None s)
     in if me_type e = ''completed'' then
          (case te_result n of
             Some x \<Rightarrow> record_completed env gw (jb_context j) x (jb_scopes j) k duration_ms s
           | None \<Rightarrow>
              record_completed env gw (jb_context j)
                \<lparr>xr_tool_name = rt_logical_name (jb_tool j), xr_status = ''completed'', xr_content = [],
                 xr_structured = None, xr_summary = None, xr_duration_ms = None, xr_metadata = [],
                 xr_error_detail = None\<rparr> (jb_scopes j) k duration_ms s)
        else if me_type e = ''cancelled'' then
          failed (tool_err ToolCancelledError ''Tool execution was cancelled.'') ''cancelled''
        else if me_type e = ''error'' then
          failed (tool_err ToolGatewayError
            (case te_error n of Some d \<Rightarrow> ted_message d | None \<Rightarrow> ''Tool stream failed.'')) ''failed''
        else s)"

fun forward_tool_events ::
  "tool_env \<Rightarrow> tool_gateway \<Rightarrow> tool_job \<Rightarrow> nat \<Rightarrow> mcp_stream_event list \<Rightarrow> tool_exc option \<Rightarrow> bool \<Rightarrow> tool_run \<Rightarrow>
   forwarded \<times> bool \<times> tool_run" where
  "forward_tool_events env gw j k [] ending saw s =
    (case ending of None \<Rightarrow> (RanOut, saw, s) | Some exn \<Rightarrow> (Interrupted exn, saw, s))"
| "forward_tool_events env gw j k (e # es) ending saw s =
    (case normalize_tool_stream_event (tenv_texts env) (tg_normalizer gw) (jb_tool j) e
        (if me_type e = ''completed'' then Some (tenv_duration env (trun_attempts s)) else None) of
       Inl exn \<Rightarrow> (Interrupted exn, saw, s)
     | Inr n \<Rightarrow>
        (case yield_tool env n (trace_terminal env gw j k e n s) of
           (True, s1) \<Rightarrow> (Interrupted generator_exit, True, s1)
         | (False, s1) \<Rightarrow>
             if terminal_event (me_type e) then (Finished, True, s1)
             else forward_tool_events env gw j k es ending True s1))"

definition missing_event_error :: tool_error where
  "missing_event_error = tool_err ToolGatewayError ''Tool stream ended without a terminal event.''"

text \<open>One attempt of a stream: it ends the stream, or it fails before any event and may be tried again.\<close>

definition stream_attempt_tool ::
  "tool_env \<Rightarrow> tool_gateway \<Rightarrow> tool_job \<Rightarrow> nat \<Rightarrow> tool_run \<Rightarrow> (tool_failure + tool_stream_end) \<times> tool_run" where
  "stream_attempt_tool env gw j k s =
    (let s1 = start_attempt env gw j True k s
     in case build_adapter_request j of
          Inl exn \<Rightarrow> (Inr (ToolStreamRaised exn), s1)
        | Inr a \<Rightarrow>
           (let (events, ending) = tenv_stream env (trun_attempts s) a
            in case forward_tool_events env gw j k events ending False (log_tool (AdapterCalled a) s1) of
                 (Finished, saw, s2) \<Rightarrow> (Inr ToolStreamReturned, s2)
               | (Interrupted exn, saw, s2) \<Rightarrow>
                   (let error = normalize_runtime_error True exn
                    in if saw then (Inr (ToolStreamRaised (ToolExc error)), fail_attempt env gw j k error s2)
                       else (Inl (Raised k error), s2))
               | (RanOut, saw, s2) \<Rightarrow>
                   (Inr (ToolStreamRaised (ToolExc missing_event_error)), fail_attempt env gw j k missing_event_error s2)))"

fun stream_tool_attempts ::
  "tool_env \<Rightarrow> tool_gateway \<Rightarrow> tool_job \<Rightarrow> nat \<Rightarrow> nat \<Rightarrow> tool_run \<Rightarrow>
   (tool_failure + tool_stream_end) option \<times> tool_run" where
  "stream_tool_attempts env gw j 0 k s = (None, s)"
| "stream_tool_attempts env gw j (Suc left) k s =
    (case stream_attempt_tool env gw j k s of
       (Inr x, s') \<Rightarrow> (Some (Inr x), s')
     | (Inl f, s') \<Rightarrow>
         if may_retry j (failure_error f) \<and> 0 < left then stream_tool_attempts env gw j left (Suc k) s'
         else (Some (Inl f), s'))"

definition stream_job :: "tool_env \<Rightarrow> tool_gateway \<Rightarrow> tool_job \<Rightarrow> tool_run \<Rightarrow> tool_stream_end \<times> tool_run" where
  "stream_job env gw j s =
    (case stream_tool_attempts env gw j (job_attempts gw j) 1 s of
       (None, s1) \<Rightarrow>
         (ToolStreamRaised (OtherExc ''Tool streaming attempts exhausted without a terminal event.''), s1)
     | (Some (Inr x), s1) \<Rightarrow> (x, s1)
     | (Some (Inl f), s1) \<Rightarrow>
         (ToolStreamRaised (ToolExc (failure_error f)),
          fail_attempt env gw j (case f of Raised k e \<Rightarrow> k | Answered k e r \<Rightarrow> k) (failure_error f) s1))"

definition stream_execute ::
  "tool_env \<Rightarrow> tool_gateway \<Rightarrow> tool_request \<Rightarrow> orchestration_context \<Rightarrow> tool_run \<Rightarrow> tool_stream_end \<times> tool_run" where
  "stream_execute env gw q c s =
    (case admit_execution env gw ''tool.stream_execute'' True q c s of
       (Inl e, s1) \<Rightarrow> (ToolStreamRaised e, s1)
     | (Inr j, s1) \<Rightarrow> stream_job env gw j s1)"

section \<open>Listing, health and capabilities\<close>

fun visible_tools ::
  "tool_env \<Rightarrow> tool_gateway \<Rightarrow> orchestration_context \<Rightarrow> tool_definition list \<Rightarrow> tool_run \<Rightarrow>
   tool_definition list tool_res \<times> tool_run" where
  "visible_tools env gw c [] s = (Inr [], s)"
| "visible_tools env gw c (t # ts) s =
    (case resolve_entry (tg_registry gw) (tdf_name t) of
       None \<Rightarrow> (Inl (ToolExc (not_found_error (tdf_name t))), s)
     | Some entry \<Rightarrow>
        (case evaluate_tool_policy env c
            (tool_policy_request gw ''tool.list'' (tdf_name t) c (effective_scopes empty_scopes c)
              (Some (re_definition entry)) False False) s of
           (Inl e, s1) \<Rightarrow> (Inl e, s1)
         | (Inr d, s1) \<Rightarrow>
            (case visible_tools env gw c ts s1 of
               (Inl e, s2) \<Rightarrow> (Inl e, s2)
             | (Inr vs, s2) \<Rightarrow> (Inr (if dec_allowed d then t # vs else vs), s2))))"

definition gateway_list_tools ::
  "tool_env \<Rightarrow> tool_gateway \<Rightarrow> orchestration_context \<Rightarrow> tool_filters \<Rightarrow> tool_run \<Rightarrow>
   (tool_definition list \<times> pydict) tool_res \<times> tool_run" where
  "gateway_list_tools env gw c f s =
    (if \<not> tls_enabled (tg_settings gw) then (Inr ([], [(''tooling_enabled'', PBool False)]), s)
     else
       (case visible_tools env gw c (list_registry (tg_registry gw) f) s of
          (Inl e, s1) \<Rightarrow> (Inl e, s1)
        | (Inr vs, s1) \<Rightarrow>
            (Inr (vs, [(''tooling_enabled'', PBool True), (''total_visible'', PInt (int (length vs)))]), s1)))"

definition gateway_get_tool ::
  "tool_env \<Rightarrow> tool_gateway \<Rightarrow> string \<Rightarrow> orchestration_context \<Rightarrow> tool_run \<Rightarrow>
   tool_definition option tool_res \<times> tool_run" where
  "gateway_get_tool env gw tool_name c s =
    (if \<not> tls_enabled (tg_settings gw) then (Inr None, s)
     else
       (case resolve_entry (tg_registry gw) tool_name of
          None \<Rightarrow> (Inr None, s)
        | Some entry \<Rightarrow>
           (case evaluate_tool_policy env c
               (tool_policy_request gw ''tool.get'' tool_name c (effective_scopes empty_scopes c)
                 (Some (re_definition entry)) False False) s of
              (Inl e, s1) \<Rightarrow> (Inl e, s1)
            | (Inr d, s1) \<Rightarrow>
                (Inr (if dec_allowed d then Some ((public_definition entry)\<lparr>tdf_metadata := []\<rparr>) else None), s1))))"

record tool_capability =
  tcp_name :: string
  tcp_display_name :: "string option"
  tcp_safety_level :: string
  tcp_supports_streaming :: bool
  tcp_approval_required :: bool
  tcp_tags :: "string list"

record tool_capabilities =
  tcs_enabled :: bool
  tcs_mcp_configured :: bool
  tcs_streaming_supported :: bool
  tcs_tools :: "tool_capability list"
  tcs_metadata :: pydict

definition gateway_capabilities :: "tool_gateway \<Rightarrow> tool_capabilities" where
  "gateway_capabilities gw =
    (let enabled = filter rt_enabled (List.map (re_definition \<circ> snd) (tr_entries (tg_registry gw)));
         tools = List.map (\<lambda>t. \<lparr>tcp_name = rt_logical_name t, tcp_display_name = rt_description t,
           tcp_safety_level = rt_safety_level t, tcp_supports_streaming = rt_supports_streaming t,
           tcp_approval_required = rt_approval_required t, tcp_tags = rt_tags t\<rparr>) enabled;
         server = tls_mcp_server (tg_settings gw)
     in \<lparr>tcs_enabled = tls_enabled (tg_settings gw), tcs_mcp_configured = truthy (mv_endpoint server),
         tcs_streaming_supported = list_ex tcp_supports_streaming tools,
         tcs_tools = (if tls_enabled (tg_settings gw) then tools else []),
         tcs_metadata = [(''server_name'', PStr (mv_name server)), (''transport'', PStr (mv_transport server)),
           (''discovery_enabled'', PBool (mv_tool_discovery_enabled server))]\<rparr>)"

section \<open>The state along a run\<close>

text \<open>The requests a log shows to have been sent to the adapter.\<close>

definition calls_of :: "tool_event list \<Rightarrow> adapter_request list" where
  "calls_of log = List.map_filter (\<lambda>e. case e of AdapterCalled a \<Rightarrow> Some a | _ \<Rightarrow> None) log"

lemma calls_of_simps [simp]:
  "calls_of [] = []" "calls_of (log @ log') = calls_of log @ calls_of log'"
  "calls_of [AdapterCalled a] = [a]" "calls_of [Traced t] = []" "calls_of [ToolYielded y] = []"
  "calls_of [PolicyAsked x n b] = []"
  by (simp_all add: calls_of_def List.map_filter_def)

lemma called_in_log: "AdapterCalled a \<in> set log \<longleftrightarrow> a \<in> set (calls_of log)"
  by (force simp: calls_of_def List.map_filter_def split: tool_event.splits)

lemma log_tool_fields [simp]:
  "trun_log (log_tool e s) = trun_log s @ [e]" "trun_attempts (log_tool e s) = trun_attempts s"
  "trun_yields (log_tool e s) = trun_yields s" "trun_checks (log_tool e s) = trun_checks s"
  "trun_service (log_tool e s) = trun_service s"
  by (simp_all add: log_tool_def)

lemma fresh_tool_run_fields [simp]:
  "trun_log (fresh_tool_run sv) = []" "trun_attempts (fresh_tool_run sv) = 0" "trun_checks (fresh_tool_run sv) = 0"
  "trun_service (fresh_tool_run sv) = sv"
  by (simp_all add: fresh_tool_run_def)

text \<open>Recording and yielding call nobody and start no attempt.\<close>

definition quiet :: "tool_run \<Rightarrow> tool_run \<Rightarrow> bool" where
  "quiet s s' \<longleftrightarrow> calls_of (trun_log s') = calls_of (trun_log s) \<and> trun_attempts s' = trun_attempts s"

lemma quiet_refl [simp]: "quiet s s"
  by (simp add: quiet_def)

lemma quiet_trans: "quiet s s' \<Longrightarrow> quiet s' s'' \<Longrightarrow> quiet s s''"
  by (simp add: quiet_def)

lemma quiet_records [simp]:
  "quiet s (record_started env gw c n sc st to q args k s)" "quiet s (record_completed env gw c x sc k d s)"
  "quiet s (record_failure gw c n sc er k du status code re s)" "quiet s (fail_attempt env gw j k e s)"
  "quiet s (snd (yield_tool env y s))" "quiet s (trace_terminal env gw j k ev y s)"
  by (simp_all add: quiet_def record_started_def record_completed_def record_failure_def fail_attempt_def
      yield_tool_def trace_terminal_def Let_def split: option.split)

lemma quiet_policy: "quiet s (snd (evaluate_tool_policy env c r s))"
  by (auto simp: quiet_def evaluate_tool_policy_def Let_def split: prod.split sum.split)

lemma quiet_finish: "quiet s (snd (finish_result env gw j k e r s))"
  by (simp add: finish_result_def Let_def split: sum.split)

lemma quiet_forward: "forward_tool_events env gw j k es ending saw s = (f, saw', s') \<Longrightarrow> quiet s s'"
proof (induction env gw j k es ending saw s rule: forward_tool_events.induct)
  case (2 env gw j k e es ending saw s)
  show ?case
  proof (cases "normalize_tool_stream_event (tenv_texts env) (tg_normalizer gw) (jb_tool j) e
      (if me_type e = ''completed'' then Some (tenv_duration env (trun_attempts s)) else None)")
    case (Inl exn)
    then show ?thesis using "2.prems" by simp
  next
    case (Inr n)
    let ?y = "yield_tool env n (trace_terminal env gw j k e n s)"
    have y: "quiet s (snd ?y)" by (rule quiet_trans [OF quiet_records(6) quiet_records(5)])
    obtain b s1 where b: "?y = (b, s1)" by force
    show ?thesis
      using "2.IH" [OF Inr b [symmetric]] "2.prems" Inr b y quiet_trans by (cases b) (auto split: if_splits)
  qed
qed (auto split: option.splits)

lemma start_attempt_calls:
  "calls_of (trun_log (start_attempt env gw j st k s)) = calls_of (trun_log s)"
  "trun_attempts (start_attempt env gw j st k s) = trun_attempts s + 1"
  using quiet_records(1) [of s env gw "jb_context j" "rt_logical_name (jb_tool j)" "jb_scopes j" st
      "jb_timeout_seconds j" "jb_request j" "jb_arguments j" k]
  by (simp_all add: start_attempt_def Let_def quiet_def)

text \<open>One attempt starts once and calls the adapter with the request of the job, if that can be built.\<close>

definition job_calls :: "tool_job \<Rightarrow> adapter_request list" where
  "job_calls j = (case build_adapter_request j of Inl e \<Rightarrow> [] | Inr a \<Rightarrow> [a])"

definition one_attempt :: "tool_job \<Rightarrow> tool_run \<Rightarrow> tool_run \<Rightarrow> bool" where
  "one_attempt j s s' \<longleftrightarrow>
    calls_of (trun_log s') = calls_of (trun_log s) @ job_calls j \<and> trun_attempts s' = trun_attempts s + 1"

lemma one_attempt_quiet: "one_attempt j s s' \<Longrightarrow> quiet s' s'' \<Longrightarrow> one_attempt j s s''"
  by (simp add: one_attempt_def quiet_def)

lemma tool_attempt_once: "one_attempt j s (snd (tool_attempt env gw j k s))"
  by (auto simp: tool_attempt_def one_attempt_def job_calls_def start_attempt_calls Let_def
      split: sum.split option.split)

lemma stream_attempt_once: "one_attempt j s (snd (stream_attempt_tool env gw j k s))"
proof (cases "build_adapter_request j")
  case (Inl e)
  then show ?thesis by (simp add: stream_attempt_tool_def one_attempt_def job_calls_def start_attempt_calls Let_def)
next
  case (Inr a)
  let ?s1 = "log_tool (AdapterCalled a) (start_attempt env gw j True k s)"
  obtain events ending where ev: "tenv_stream env (trun_attempts s) a = (events, ending)" by force
  obtain f saw s2 where f: "forward_tool_events env gw j k events ending False ?s1 = (f, saw, s2)" by (metis prod_cases3)
  have "one_attempt j s ?s1" using Inr by (simp add: one_attempt_def job_calls_def start_attempt_calls)
  then have s2: "one_attempt j s s2" using one_attempt_quiet quiet_forward [OF f] by blast
  then have "one_attempt j s (fail_attempt env gw j k e s2)" for e
    using one_attempt_quiet quiet_records(4) by blast
  with s2 show ?thesis using Inr ev f by (cases f) (simp_all add: stream_attempt_tool_def Let_def)
qed

interpretation execution: retry_loop "tool_attempt env gw j" "\<lambda>f. may_retry j (failure_error f)" "\<lambda>k f s. s"
  "\<lambda>k f s. s" trun_attempts "tool_attempts env gw j" for env gw j
  using tool_attempt_once [of j] by unfold_locales (simp_all add: one_attempt_def)

interpretation tool_streaming: retry_loop "stream_attempt_tool env gw j" "\<lambda>f. may_retry j (failure_error f)"
  "\<lambda>k f s. s" "\<lambda>k f s. s" trun_attempts "stream_tool_attempts env gw j" for env gw j
  using stream_attempt_once [of j] by unfold_locales (simp_all add: one_attempt_def)

text \<open>What the attempts of a job may have done: called the adapter with its request only, and not more often
  than an attempt was started.\<close>

definition attempted :: "tool_job \<Rightarrow> tool_run \<Rightarrow> tool_run \<Rightarrow> bool" where
  "attempted j s s' \<longleftrightarrow>
    set (calls_of (trun_log s')) \<subseteq> set (calls_of (trun_log s)) \<union> set (job_calls j)
    \<and> length (calls_of (trun_log s')) + trun_attempts s \<le> length (calls_of (trun_log s)) + trun_attempts s'"

lemma attempted_step: "attempted j s s' \<Longrightarrow> one_attempt j s' s'' \<Longrightarrow> attempted j s s''"
  by (auto simp: attempted_def one_attempt_def job_calls_def split: sum.splits)

lemma attempted_quiet: "attempted j s s' \<Longrightarrow> quiet s' s'' \<Longrightarrow> attempted j s s''"
  by (simp add: attempted_def quiet_def)

lemma attempted_refl: "attempted j s s"
  by (simp add: attempted_def)

lemma attempts_attempted:
  "attempted j s (snd (tool_attempts env gw j n k s))" "attempted j s (snd (stream_tool_attempts env gw j n k s))"
  by (rule execution.loop_invariant [where I = "attempted j s"]; blast intro: attempted_step tool_attempt_once attempted_refl)
    (rule tool_streaming.loop_invariant [where I = "attempted j s"]; blast intro: attempted_step stream_attempt_once attempted_refl)

lemma run_job_attempted:
  "attempted j s (snd (run_job env gw j s)) \<and> trun_attempts (snd (run_job env gw j s)) \<le> trun_attempts s + job_attempts gw j"
proof -
  let ?l = "tool_attempts env gw j (job_attempts gw j) 1 s"
  have q: "quiet (snd ?l) (snd (run_job env gw j s))"
    by (auto simp: run_job_def quiet_finish split: prod.split option.split sum.split tool_answer.split tool_failure.split)
  have "trun_attempts (snd (run_job env gw j s)) = trun_attempts (snd ?l)" using q by (simp add: quiet_def)
  then show ?thesis
    using attempted_quiet [OF attempts_attempted(1) q] execution.loop_calls [of s env gw j "job_attempts gw j" 1] by simp
qed

lemma stream_job_attempted:
  "attempted j s (snd (stream_job env gw j s)) \<and> trun_attempts (snd (stream_job env gw j s)) \<le> trun_attempts s + job_attempts gw j"
proof -
  let ?l = "stream_tool_attempts env gw j (job_attempts gw j) 1 s"
  have q: "quiet (snd ?l) (snd (stream_job env gw j s))"
    by (auto simp: stream_job_def split: prod.split option.split sum.split)
  have "trun_attempts (snd (stream_job env gw j s)) = trun_attempts (snd ?l)" using q by (simp add: quiet_def)
  then show ?thesis
    using attempted_quiet [OF attempts_attempted(2) q] tool_streaming.loop_calls [of s env gw j "job_attempts gw j" 1] by simp
qed

section \<open>Admission\<close>

text \<open>An execution that is admitted was allowed by the policy service for the tool it found, and its arguments
  were validated for it; nothing was called before.\<close>

lemma evaluate_tool_policy_Inr:
  assumes "evaluate_tool_policy env c r s = (Inr d, s1)"
  shows "fst (service_evaluate (tenv_texts env) (tenv_clock env (trun_checks s)) (trun_service s) r c) = Inr d"
  using assms by (auto simp: evaluate_tool_policy_def Let_def split: prod.splits sum.splits)

lemma prepare_execution_Inr:
  assumes "prepare_execution env gw q c action scopes streaming s = (Inr j, s1)"
  shows "\<exists>entry d. resolve_entry (tg_registry gw) (tq_tool_name q) = Some entry \<and> jb_tool j = re_definition entry
    \<and> fst (service_evaluate (tenv_texts env) (tenv_clock env (trun_checks s)) (trun_service s)
        (tool_policy_request gw action (rt_logical_name (jb_tool j)) c scopes (Some (jb_tool j)) streaming
          (tq_idempotency_key q \<noteq> None)) c) = Inr d \<and> dec_allowed d
    \<and> (streaming \<longrightarrow> rt_supports_streaming (jb_tool j))
    \<and> validate_arguments (tenv_texts env) (tg_max_argument_bytes gw) (jb_tool j) (tq_arguments q) = Inr (jb_arguments j)
    \<and> jb_request j = q \<and> jb_context j = c \<and> jb_scopes j = scopes"
proof (cases "resolve_entry (tg_registry gw) (tq_tool_name q)")
  case None
  then show ?thesis using assms by (auto simp: prepare_execution_def Let_def split: prod.splits sum.splits)
next
  case (Some entry)
  let ?t = "re_definition entry"
  let ?r = "tool_policy_request gw action (rt_logical_name ?t) c scopes (Some ?t) streaming (tq_idempotency_key q \<noteq> None)"
  obtain res s2 where ev: "evaluate_tool_policy env c ?r s = (res, s2)" by force
  show ?thesis
  proof (cases res)
    case (Inl e)
    then show ?thesis using assms Some ev by (simp add: prepare_execution_def Let_def)
  next
    case (Inr d)
    with evaluate_tool_policy_Inr ev
    have "fst (service_evaluate (tenv_texts env) (tenv_clock env (trun_checks s)) (trun_service s) ?r c) = Inr d" by blast
    then show ?thesis
      using assms Some ev Inr by (auto simp: prepare_execution_def Let_def split: if_splits sum.splits)
  qed
qed

lemma quiet_admit: "quiet s (snd (admit_execution env gw action streaming q c s))"
proof -
  have p: "quiet s (snd (prepare_execution env gw q c action scopes streaming s))" for scopes
    using quiet_policy [of s env c]
    by (auto simp: prepare_execution_def Let_def split: prod.split sum.split option.split) (metis snd_conv)+
  show ?thesis
  proof (cases "tls_enabled (tg_settings gw)")
    case True
    obtain res s1 where r: "prepare_execution env gw q c action (effective_scopes (tq_scopes q) c) streaming s = (res, s1)"
      by force
    have s1: "quiet s s1" using p [of "effective_scopes (tq_scopes q) c"] r by simp
    have "quiet s (record_failure gw c n sc e k d st co re s1)" for n sc e k d st co re
      by (rule quiet_trans [OF s1]) simp
    with s1 r True show ?thesis
      by (cases res; simp add: admit_execution_def Let_def; cases "projl res"; simp)
  qed (simp add: admit_execution_def Let_def)
qed

lemma admit_execution_Inr:
  assumes "admit_execution env gw action streaming q c s = (Inr j, s1)"
  shows "tls_enabled (tg_settings gw)
    \<and> prepare_execution env gw q c action (effective_scopes (tq_scopes q) c) streaming s = (Inr j, s1)"
  using assms by (auto simp: admit_execution_def Let_def split: if_splits prod.splits sum.splits tool_exc.splits)

text \<open>Both operations in one: the log of an execution or of a stream.\<close>

definition operation_log ::
  "tool_env \<Rightarrow> tool_gateway \<Rightarrow> string \<Rightarrow> tool_request \<Rightarrow> orchestration_context \<Rightarrow> tool_run \<Rightarrow> tool_event list" where
  "operation_log env gw action q c s =
    (if action = ''tool.stream_execute'' then trun_log (snd (stream_execute env gw q c s))
     else trun_log (snd (execute_internal env gw action q c s)))"

lemma operation_cases:
  obtains (refused) e s1 where "admit_execution env gw action (action = ''tool.stream_execute'') q c s = (Inl e, s1)"
      "calls_of (operation_log env gw action q c s) = calls_of (trun_log s)"
  | (admitted) j s1 where "admit_execution env gw action (action = ''tool.stream_execute'') q c s = (Inr j, s1)"
      "calls_of (trun_log s1) = calls_of (trun_log s)"
      "set (calls_of (operation_log env gw action q c s)) \<subseteq> set (calls_of (trun_log s)) \<union> set (job_calls j)"
      "length (calls_of (operation_log env gw action q c s)) \<le> length (calls_of (trun_log s)) + job_attempts gw j"
proof (cases "fst (admit_execution env gw action (action = ''tool.stream_execute'') q c s)")
  case (Inl e)
  then obtain s1 where a: "admit_execution env gw action (action = ''tool.stream_execute'') q c s = (Inl e, s1)"
    by (metis prod.collapse)
  have "quiet s s1" using quiet_admit [of s env gw action "action = ''tool.stream_execute''" q c] a by simp
  then have "calls_of (operation_log env gw action q c s) = calls_of (trun_log s)"
    using a by (auto simp: operation_log_def stream_execute_def execute_internal_def quiet_def)
  then show ?thesis by (rule refused [OF a])
next
  case (Inr j)
  then obtain s1 where a: "admit_execution env gw action (action = ''tool.stream_execute'') q c s = (Inr j, s1)"
    by (metis prod.collapse)
  have q: "quiet s s1" using quiet_admit [of s env gw action "action = ''tool.stream_execute''" q c] a by simp
  have "operation_log env gw action q c s \<in> {trun_log (snd (run_job env gw j s1)), trun_log (snd (stream_job env gw j s1))}"
    using a by (cases "action = ''tool.stream_execute''")
      (simp_all add: operation_log_def stream_execute_def execute_internal_def)
  then show ?thesis
    using admitted [OF a] q run_job_attempted [of j s1 env gw] stream_job_attempted [of j s1 env gw]
    by (auto simp: attempted_def quiet_def)
qed

end
