(* ===== verification/Tool_Safety.thy ===== *)
theory Tool_Safety
  imports Tool_Gateway
begin

text \<open>
  What every execution and every stream of the tool gateway guarantees, whatever the MCP server answers and
  wherever the consumer closes the stream: consent before any call, the arguments of the call validated,
  the number of calls bounded by what the safety level permits, and a refusal traced. The properties speak
  about the log of a run (\<open>operation_log\<close> of \<open>Tool_Gateway\<close>).
\<close>

section \<open>Admission\<close>

text \<open>The policy request an execution asks permission with.\<close>

definition asked_request ::
  "tool_gateway \<Rightarrow> string \<Rightarrow> tool_request \<Rightarrow> orchestration_context \<Rightarrow> policy_request" where
  "asked_request gw action q c =
    (let found = map_option re_definition (resolve_entry (tg_registry gw) (tq_tool_name q))
     in tool_policy_request gw action (case found of None \<Rightarrow> tq_tool_name q | Some t \<Rightarrow> rt_logical_name t) c
          (effective_scopes (tq_scopes q) c) found (action = ''tool.stream_execute'') (tq_idempotency_key q \<noteq> None))"

lemma job_calls_request:
  assumes "a \<in> set (job_calls j)"
  shows "ar_arguments a = jb_arguments j \<and> ar_mcp_tool_name a = strip (rt_mcp_tool_name (jb_tool j))
    \<and> ar_timeout_seconds a = jb_timeout_seconds j"
  using assms
  by (auto simp: job_calls_def build_adapter_request_def new_adapter_request_def required_text_or_def norm_text_def
      try_bind_eq_Inr Let_def split: sum.splits option.splits if_splits)

text \<open>A run that starts afresh has called nobody; a call it makes belongs to a job that was admitted.\<close>

lemma called_job:
  assumes "AdapterCalled a \<in> set (operation_log env gw action q c (fresh_tool_run sv))"
  obtains j s1 where "tls_enabled (tg_settings gw)" "a \<in> set (job_calls j)"
    "prepare_execution env gw q c action (effective_scopes (tq_scopes q) c) (action = ''tool.stream_execute'')
      (fresh_tool_run sv) = (Inr j, s1)"
proof (cases rule: operation_cases [of env gw action q c "fresh_tool_run sv"])
  case (refused e s1)
  then show ?thesis using assms by (simp add: called_in_log)
next
  case (admitted j s1)
  then show ?thesis
    using that [of j s1] admit_execution_Inr [OF admitted(1)] assms by (auto simp: called_in_log)
qed

lemma evaluate_asked:
  assumes "fst (service_evaluate (tenv_texts env) (tenv_clock env (trun_checks s)) (trun_service s) r c) = Inr d"
  shows "\<exists>s1. evaluate_tool_policy env c r s = (Inr d, s1)
    \<and> trun_log s1 = trun_log s @ [PolicyAsked (req_action r) (str_default (req_resource r) []) (dec_allowed d)]"
proof -
  obtain sv' where
    "service_evaluate (tenv_texts env) (tenv_clock env (trun_checks s)) (trun_service s) r c = (Inr d, sv')"
    using assms by (cases "service_evaluate (tenv_texts env) (tenv_clock env (trun_checks s)) (trun_service s) r c") auto
  then show ?thesis by (simp add: evaluate_tool_policy_def)
qed

lemma asked_action: "req_action (tool_policy_request gw action n c scopes t streaming key) = action"
  by (simp add: tool_policy_request_def build_tool_policy_request_def Let_def split: option.split)

text \<open>Conversely, an execution that passes the checks is admitted.\<close>

lemma admit_execution_ok:
  assumes "tls_enabled (tg_settings gw)" "resolve_entry (tg_registry gw) (tq_tool_name q) = Some entry"
    and "fst (service_evaluate (tenv_texts env) (tenv_clock env 0) sv (asked_request gw action q c) c) = Inr d"
    and "dec_allowed d" "action = ''tool.stream_execute'' \<longrightarrow> rt_supports_streaming (re_definition entry)"
    and "validate_arguments (tenv_texts env) (tg_max_argument_bytes gw) (re_definition entry) (tq_arguments q) = Inr args"
  shows "\<exists>j s1. admit_execution env gw action (action = ''tool.stream_execute'') q c (fresh_tool_run sv) = (Inr j, s1)"
proof -
  from evaluate_asked [of env "fresh_tool_run sv" "asked_request gw action q c" c d] assms(3) obtain s1 where
    "evaluate_tool_policy env c (asked_request gw action q c) (fresh_tool_run sv) = (Inr d, s1)" by auto
  with assms(1,2,4,5,6) show ?thesis
    by (simp add: admit_execution_def prepare_execution_def asked_request_def Let_def)
qed

text \<open>A gateway with one search tool, called by the agent it is configured for.\<close>

definition sample_tooling :: "int \<Rightarrow> tooling_settings" where
  "sample_tooling retries =
    \<lparr>tls_enabled = True,
     tls_defaults = \<lparr>td_timeout_seconds = 60, td_stream_timeout_seconds = 300, td_max_retries = retries,
       td_max_argument_bytes = 65536, td_max_result_bytes = 262144, td_trace_arguments = False,
       td_trace_results = False, td_discovery_on_startup = False, td_discovery_refresh_seconds = 0\<rparr>,
     tls_mcp_server = \<lparr>mv_name = ''main'', mv_enabled = True, mv_transport = ''http'', mv_timeout_seconds = 60,
       mv_stream_timeout_seconds = 300, mv_tool_discovery_enabled = False, mv_endpoint = None,
       mv_auth = \<lparr>ma_mode = ''none'', ma_token = None, ma_jwt = None, ma_token_url = None, ma_client_id = None,
         ma_client_secret = None, ma_scopes = []\<rparr>\<rparr>,
     tls_registry = \<lparr>trs_allow_discovered_tools = False, trs_require_configured_allowlist = True, trs_tools = []\<rparr>\<rparr>"

definition sample_gateway :: "resolved_tool \<Rightarrow> tool_gateway" where
  "sample_gateway t =
    build_tool_gateway (sample_tooling 1)
      (new_tool_registry [(rt_logical_name t, \<lparr>re_definition = t, re_source = ''configured'', re_metadata = []\<rparr>)]
        None True True)"

definition search_request :: tool_request where
  "search_request =
    \<lparr>tq_tool_name = ''search'', tq_arguments = search_arguments, tq_scopes = empty_scopes, tq_timeout_seconds = None,
     tq_idempotency_key = None, tq_stream = False, tq_metadata = []\<rparr>"

definition analyst_context :: orchestration_context where
  "analyst_context = sample_context\<lparr>octx_runtime_metadata := [(''agent_name'', PStr ''analyst'')]\<rparr>"

text \<open>A server that fails once and then answers.\<close>

definition flaky_env :: tool_env where
  "flaky_env =
    \<lparr>tenv_texts = plain_test_texts, tenv_clock = \<lambda>n. clock_at 0, tenv_duration = \<lambda>n. 0,
     tenv_call = \<lambda>n a. if n = 0 then Inl (ToolExc (tool_err MCPTransportError ''reset''))
       else Inr \<lparr>mr_tool_name = ar_mcp_tool_name a, mr_status = ''completed'', mr_content = [], mr_structured = None,
         mr_metadata = [], mr_error_message = None\<rparr>,
     tenv_stream = \<lambda>n a. ([], None), tenv_closes = \<lambda>n. False\<rparr>"

text \<open>The engine's verdict on the request of a run of the sample gateway.\<close>

definition tool_verdict :: "pyval \<Rightarrow> resolved_tool \<Rightarrow> string \<Rightarrow> decision_value option" where
  "tool_verdict config t action =
    (case build_policy_service config of
       Inl e \<Rightarrow> None
     | Inr sv \<Rightarrow> verdict_of (engine_evaluate (sv_engine sv)
         (asked_request (sample_gateway t) action search_request analyst_context) analyst_context))"

lemma tool_evaluation:
  assumes "tool_verdict config t action = Some v"
  obtains sv d where "build_policy_service config = Inr sv" "wf_decision d" "dec_decision d = Some v"
    "fst (service_evaluate (tenv_texts env) (tenv_clock env 0) sv
      (asked_request (sample_gateway t) action search_request analyst_context) analyst_context) = Inr d"
proof -
  let ?r = "asked_request (sample_gateway t) action search_request analyst_context"
  obtain sv where sv: "build_policy_service config = Inr sv"
    and v: "verdict_of (engine_evaluate (sv_engine sv) ?r analyst_context) = Some v"
    using assms unfolding tool_verdict_def by (cases "build_policy_service config") auto
  from v obtain d0 where d0: "engine_evaluate (sv_engine sv) ?r analyst_context = Inr d0" "dec_decision d0 = Some v"
    unfolding verdict_of_Some by blast
  have "sv_caches sv = []" "eng_registry (sv_engine sv) = load_default_policy_registry"
    using sv build_policy_service_registry [OF sv] by (auto simp: build_policy_service_def)
  from fresh_evaluation [OF this d0, of "tenv_texts env" "tenv_clock env 0"] obtain d sv' where
    "service_evaluate (tenv_texts env) (tenv_clock env 0) sv ?r analyst_context = (Inr d, sv')"
    "wf_decision d" "dec_decision d = Some v" by blast
  then show ?thesis using that [OF sv] by simp
qed

text \<open>An allowed execution of the sample tool with valid arguments is admitted, and its request is sent.\<close>

lemma sample_job:
  assumes "tenv_texts env = plain_test_texts" "tool_verdict config t action = Some Allow" "rt_logical_name t = ''search''" "strip (rt_mcp_tool_name t) = ''find''"
    and "validate_arguments plain_test_texts 65536 t search_arguments = Inr search_arguments"
    and "action \<noteq> ''tool.stream_execute''"
  obtains sv j s1 a where "build_policy_service config = Inr sv"
    "admit_execution env (sample_gateway t) action False search_request analyst_context (fresh_tool_run sv) = (Inr j, s1)"
    "jb_tool j = t" "jb_request j = search_request" "build_adapter_request j = Inr a"
proof -
  from tool_evaluation [OF assms(2)] obtain sv d where sv: "build_policy_service config = Inr sv" "wf_decision d"
    "dec_decision d = Some Allow" and ev: "fst (service_evaluate (tenv_texts env) (tenv_clock env 0) sv
      (asked_request (sample_gateway t) action search_request analyst_context) analyst_context) = Inr d" by blast
  have "dec_allowed d" using sv by (simp add: wf_decision_allowed)
  moreover have "resolve_entry (tg_registry (sample_gateway t)) (tq_tool_name search_request)
      = Some \<lparr>re_definition = t, re_source = ''configured'', re_metadata = []\<rparr>"
    using assms(3) by (simp add: sample_gateway_def build_tool_gateway_def new_tool_registry_def resolve_entry_def
        search_request_def)
  moreover have "validate_arguments (tenv_texts env) (tg_max_argument_bytes (sample_gateway t)) t
      (tq_arguments search_request) = Inr search_arguments" "tls_enabled (tg_settings (sample_gateway t))"
    using assms(1,5) by (simp_all add: sample_gateway_def build_tool_gateway_def search_request_def sample_tooling_def)
  ultimately obtain j s1 where
    j: "admit_execution env (sample_gateway t) action False search_request analyst_context (fresh_tool_run sv) = (Inr j, s1)"
    using admit_execution_ok [OF _ _ ev] assms(6) by fastforce
  from prepare_execution_Inr [OF conjunct2 [OF admit_execution_Inr [OF j]]] assms(3)
  have fields: "jb_tool j = t" "jb_request j = search_request" "jb_context j = analyst_context"
    by (auto simp: sample_gateway_def build_tool_gateway_def new_tool_registry_def resolve_entry_def search_request_def)
  have "norm_text (Some (str_default (rc_trace_id (octx_request analyst_context)) ''trace_tool'')) = Some ''t1''" by code_simp
  moreover have "norm_text (Some (rt_mcp_tool_name t)) = Some ''find''" using assms(4) by (simp add: norm_text_def)
  ultimately obtain a where "build_adapter_request j = Inr a"
    by (simp add: build_adapter_request_def new_adapter_request_def required_text_or_def fields)
  with sv(1) j fields show ?thesis using that by blast
qed

section \<open>Recovery\<close>

lemma tool_attempt_sent:
  assumes "build_adapter_request j = Inr a"
  shows "trun_attempts (snd (tool_attempt env gw j k s)) = trun_attempts s + 1"
    and "calls_of (trun_log (snd (tool_attempt env gw j k s))) = calls_of (trun_log s) @ [a]"
  using tool_attempt_once [of j s env gw k] assms by (simp_all add: one_attempt_def job_calls_def)

lemma tool_attempts_recover:
  assumes "build_adapter_request j = Inr a" "result_retry_error r = None"
    and "\<forall>i < m. \<exists>e. tenv_call env (trun_attempts s + i) a = Inl e \<and> may_retry j (normalize_runtime_error False e)"
    and "tenv_call env (trun_attempts s + m) a = Inr r" "m < n"
  shows "\<exists>s'. tool_attempts env gw j n k s = (Some (Inr (Answer (k + m) r)), s')
    \<and> trun_attempts s' = trun_attempts s + m + 1
    \<and> calls_of (trun_log s') = calls_of (trun_log s) @ replicate (m + 1) a"
  using assms(3-5)
proof (induction m arbitrary: n k s)
  case 0
  have "fst (tool_attempt env gw j k s) = Inr (Answer k r)"
    using 0 assms(1,2) by (simp add: tool_attempt_def Let_def)
  then obtain s' where s': "tool_attempt env gw j k s = (Inr (Answer k r), s')"
    by (cases "tool_attempt env gw j k s") simp
  show ?case
    using execution.loop_done [OF s'] 0 tool_attempt_sent [OF assms(1), of env gw k s] s' by simp
next
  case (Suc m)
  from Suc.prems(1) obtain e where e: "tenv_call env (trun_attempts s) a = Inl e"
    "may_retry j (normalize_runtime_error False e)" by fastforce
  then obtain s' where s': "tool_attempt env gw j k s = (Inl (Raised k (normalize_runtime_error False e)), s')"
    using assms(1) by (simp add: tool_attempt_def Let_def)
  note sent = tool_attempt_sent [OF assms(1), of env gw k s, unfolded s', simplified]
  obtain n' where n: "n = Suc n'" "m < n'" using Suc.prems(3) by (cases n) auto
  have "\<forall>i < m. \<exists>e. tenv_call env (trun_attempts s' + i) a = Inl e \<and> may_retry j (normalize_runtime_error False e)"
    using Suc.prems(1) sent(1) by (metis add.assoc add_Suc_right not_less_eq plus_1_eq_Suc)
  from Suc.IH [OF this _ n(2), of "Suc k"] show ?case
    using execution.loop_skip [OF s', of n'] e(2) Suc.prems(2) n sent by auto
qed

lemma execution_recovers:
  assumes "admit_execution env gw action False q c s = (Inr j, s1)" "build_adapter_request j = Inr a"
    and "\<forall>i < m. \<exists>e. tenv_call env (trun_attempts s1 + i) a = Inl e \<and> may_retry j (normalize_runtime_error False e)"
    and "tenv_call env (trun_attempts s1 + m) a = Inr r" "result_retry_error r = None" "m < job_attempts gw j"
  shows "fst (execute_internal env gw action q c s) =
      normalize_result (tenv_texts env) (tg_normalizer gw) (jb_tool j) r (Some (tenv_duration env (trun_attempts s1 + m + 1)))
    \<and> calls_of (trun_log (snd (execute_internal env gw action q c s))) = calls_of (trun_log s1) @ replicate (m + 1) a"
proof -
  from tool_attempts_recover [OF assms(2,5,3,4,6)] obtain s' where
    s': "tool_attempts env gw j (job_attempts gw j) 1 s1 = (Some (Inr (Answer (1 + m) r)), s')"
    "trun_attempts s' = trun_attempts s1 + m + 1" "calls_of (trun_log s') = calls_of (trun_log s1) @ replicate (m + 1) a"
    by blast
  have run: "execute_internal env gw action q c s = finish_result env gw j (1 + m) None r s'"
    using s'(1) assms(1) by (simp add: execute_internal_def run_job_def)
  show ?thesis
    using s'(2,3) quiet_finish [of s' env gw j "1 + m" None r]
    by (simp add: run quiet_def) (simp add: finish_result_def Let_def split: sum.split)
qed

text \<open>C8. Transient failures do not fail an execution: if the first \<open>m\<close> calls of the server fail with errors
  that may be tried again, \<open>m\<close> is within the attempts of the job, and the next call answers, the caller
  gets the normalized answer, after exactly \<open>m + 1\<close> calls with the same request.\<close>

theorem tool_failures_are_survived:
  assumes "admit_execution env gw action False q c s = (Inr j, s1)" "build_adapter_request j = Inr a"
    and "\<forall>i < m. \<exists>e. tenv_call env (trun_attempts s1 + i) a = Inl e \<and> may_retry j (normalize_runtime_error False e)"
    and "tenv_call env (trun_attempts s1 + m) a = Inr r" "result_retry_error r = None" "m < job_attempts gw j"
  shows "fst (execute_internal env gw action q c s) =
      normalize_result (tenv_texts env) (tg_normalizer gw) (jb_tool j) r (Some (tenv_duration env (trun_attempts s1 + m + 1)))
    \<and> calls_of (trun_log (snd (execute_internal env gw action q c s))) = calls_of (trun_log s1) @ replicate (m + 1) a"
  using execution_recovers [OF assms] .

lemma flaky_env_call:
  "tenv_call flaky_env 0 a = Inl (ToolExc (tool_err MCPTransportError ''reset''))"
  "tenv_call flaky_env (Suc n) a = Inr \<lparr>mr_tool_name = ar_mcp_tool_name a, mr_status = ''completed'', mr_content = [],
     mr_structured = None, mr_metadata = [], mr_error_message = None\<rparr>"
  by (simp_all add: flaky_env_def)

definition approval_tool :: resolved_tool where
  "approval_tool = (sample_tool ''search'' ''find'')\<lparr>rt_approval_required := True\<rparr>"

text \<open>A configuration whose default profile admits tools that are flagged for approval.\<close>

definition lenient_config :: pyval where
  "lenient_config = config_view [(''policy'', PDict [(''profiles'', PDict [(''default'', PDict
     [(''tools'', PDict [(''allow_approval_required_tools'', PBool True)])])])])]"

definition erase_tool :: resolved_tool where
  "erase_tool = (sample_tool ''search'' ''find'')\<lparr>rt_safety_level := ''destructive''\<rparr>"

text \<open>What the instances need of the policy engine and the validator, evaluated together.\<close>

lemma sample_tool_verdicts:
  "tool_verdict minimal_config search_tool ''tool.execute'' = Some Allow
   \<and> tool_verdict lenient_config approval_tool ''tool.call'' = Some Allow
   \<and> tool_verdict minimal_config erase_tool ''tool.stream_execute'' = Some Deny
   \<and> rt_logical_name approval_tool = ''search'' \<and> strip (rt_mcp_tool_name approval_tool) = ''find''
   \<and> strip (rt_mcp_tool_name search_tool) = ''find''
   \<and> validate_arguments plain_test_texts 65536 approval_tool search_arguments = Inr search_arguments"
  by code_simp

text \<open>The sample execution survives the failure of the first call.\<close>

lemma search_verdict: "tool_verdict minimal_config search_tool ''tool.execute'' = Some Allow"
  using sample_tool_verdicts by blast

lemma search_tool_names: "rt_logical_name search_tool = ''search''" "strip (rt_mcp_tool_name search_tool) = ''find''"
  using sample_tool_verdicts by (simp_all add: search_tool_def sample_tool_def)

theorem tool_failures_are_survived_witness:
  "\<exists>sv a. build_policy_service minimal_config = Inr sv
    \<and> calls_of (trun_log (snd (execute_internal flaky_env (sample_gateway search_tool) ''tool.execute'' search_request
        analyst_context (fresh_tool_run sv)))) = [a, a]"
proof -
  have "tenv_texts flaky_env = plain_test_texts" "''tool.execute'' \<noteq> ''tool.stream_execute''" by (simp_all add: flaky_env_def)
  from sample_job [OF this(1) search_verdict search_tool_names search_accepted this(2)] obtain sv j s1 a where
    sv: "build_policy_service minimal_config = Inr sv"
    and j: "admit_execution flaky_env (sample_gateway search_tool) ''tool.execute'' False search_request analyst_context
      (fresh_tool_run sv) = (Inr j, s1)" "build_adapter_request j = Inr a"
    and fields: "jb_tool j = search_tool" "jb_request j = search_request" by metis
  have q: "quiet (fresh_tool_run sv) s1"
    using quiet_admit [of "fresh_tool_run sv" flaky_env "sample_gateway search_tool" "''tool.execute''" False
        search_request analyst_context] j(1) by simp
  then have s1: "trun_attempts s1 = 0" "calls_of (trun_log s1) = []" by (simp_all add: quiet_def)
  have "may_retry j (normalize_runtime_error False (ToolExc (tool_err MCPTransportError ''reset'')))
    \<and> 1 < job_attempts (sample_gateway search_tool) j"
    unfolding may_retry_def job_attempts_def fields by code_simp
  with tool_failures_are_survived [OF j, of 1] s1 sv show ?thesis
    by (auto simp: flaky_env_call result_retry_error_def numeral_2_eq_2)
qed

section \<open>Consent\<close>

text \<open>With a server that always answers, the sample tool is called whenever the engine allows it.\<close>

definition steady_env :: tool_env where
  "steady_env = flaky_env\<lparr>tenv_call := \<lambda>n. tenv_call flaky_env (Suc n)\<rparr>"

lemma sample_called:
  assumes "tool_verdict config t action = Some Allow" "rt_logical_name t = ''search''" "strip (rt_mcp_tool_name t) = ''find''"
    and "validate_arguments plain_test_texts 65536 t search_arguments = Inr search_arguments"
    and "action \<noteq> ''tool.stream_execute''"
  obtains sv a where "build_policy_service config = Inr sv"
    "AdapterCalled a \<in> set (operation_log steady_env (sample_gateway t) action search_request analyst_context (fresh_tool_run sv))"
proof -
  have tx: "tenv_texts steady_env = plain_test_texts" by (simp add: steady_env_def flaky_env_def)
  obtain sv j s1 a where sv: "build_policy_service config = Inr sv"
    and adm: "admit_execution steady_env (sample_gateway t) action False search_request analyst_context (fresh_tool_run sv)
      = (Inr j, s1)" "jb_tool j = t" "jb_request j = search_request" and req: "build_adapter_request j = Inr a"
    by (rule sample_job [OF tx assms])
  note j = adm(1) req
  have "0 < job_attempts (sample_gateway t) j"
    by (simp add: job_attempts_def retry_attempts_for_request_def max_def Let_def)
  with execution_recovers [OF j, of 0] have
    "a \<in> set (calls_of (trun_log (snd (execute_internal steady_env (sample_gateway t) action search_request
      analyst_context (fresh_tool_run sv)))))"
    by (simp add: steady_env_def flaky_env_call result_retry_error_def)
  then have "AdapterCalled a \<in> set (operation_log steady_env (sample_gateway t) action search_request analyst_context
      (fresh_tool_run sv))"
    using assms(5) by (simp add: operation_log_def called_in_log)
  with sv show ?thesis by (rule that)
qed

text \<open>C4. Consent and validation: a tool is called by an execution or a stream only if tooling is enabled, the
  registry knows the tool under the requested name, the policy service answered the request for exactly
  this tool, action and scopes with an allow, streaming is supported where it is asked for, and what is
  sent to the server is the validated arguments under the configured name of the tool.\<close>

theorem tool_calls_need_consent:
  assumes "AdapterCalled a \<in> set (operation_log env gw action q c (fresh_tool_run sv))"
  shows "tls_enabled (tg_settings gw)
    \<and> (\<exists>entry t d. resolve_entry (tg_registry gw) (tq_tool_name q) = Some entry \<and> t = re_definition entry
        \<and> fst (service_evaluate (tenv_texts env) (tenv_clock env 0) sv (asked_request gw action q c) c) = Inr d
        \<and> dec_allowed d
        \<and> (action = ''tool.stream_execute'' \<longrightarrow> rt_supports_streaming t)
        \<and> validate_arguments (tenv_texts env) (tg_max_argument_bytes gw) t (tq_arguments q) = Inr (ar_arguments a)
        \<and> ar_mcp_tool_name a = strip (rt_mcp_tool_name t))"
proof (rule called_job [OF assms])
  fix j s1
  assume on: "tls_enabled (tg_settings gw)" and a: "a \<in> set (job_calls j)"
    and p: "prepare_execution env gw q c action (effective_scopes (tq_scopes q) c) (action = ''tool.stream_execute'')
      (fresh_tool_run sv) = (Inr j, s1)"
  from prepare_execution_Inr [OF p] on job_calls_request [OF a] show ?thesis
    by (auto simp: asked_request_def)
qed

theorem tool_calls_need_consent_witness:
  "\<exists>sv a. build_policy_service minimal_config = Inr sv \<and> ar_arguments a = search_arguments
    \<and> AdapterCalled a \<in> set (operation_log steady_env (sample_gateway search_tool) ''tool.execute'' search_request
        analyst_context (fresh_tool_run sv))"
proof -
  have "''tool.execute'' \<noteq> ''tool.stream_execute''" by simp
  from sample_called [OF search_verdict search_tool_names search_accepted this] obtain sv a where
    sv: "build_policy_service minimal_config = Inr sv"
    and a: "AdapterCalled a \<in> set (operation_log steady_env (sample_gateway search_tool) ''tool.execute'' search_request
      analyst_context (fresh_tool_run sv))" by blast
  from tool_calls_need_consent [OF a] search_accepted have "ar_arguments a = search_arguments"
    by (auto simp: sample_gateway_def build_tool_gateway_def new_tool_registry_def resolve_entry_def search_request_def
        flaky_env_def steady_env_def sample_tooling_def search_tool_names(1))
  with sv a show ?thesis by blast
qed

section \<open>What the profile permits\<close>

text \<open>C5. Permission by configuration: in the first run of a service built from a configuration, the gateway built
  for any tooling settings and registry calls the server only for an enabled tool, and only as far as the
  policy profile of that configuration permits its safety level: approval flags, writes, destructive
  and externally effective tools.\<close>

theorem tool_calls_are_permitted:
  assumes "build_policy_service config = Inr sv" "gw = build_tool_gateway settings registry"
    and "AdapterCalled a \<in> set (operation_log env gw action q c (fresh_tool_run sv))"
    and "action \<in> set tool_execution_actions"
    and "p = resolve_policy_profile (sv_engine sv) (asked_request gw action q c) c"
  shows "\<exists>entry t. resolve_entry registry (tq_tool_name q) = Some entry \<and> t = re_definition entry \<and> rt_enabled t
    \<and> (rt_approval_required t \<longrightarrow> pt_allow_approval_required_tools (pp_tools p))
    \<and> (rt_safety_level t = ''write'' \<longrightarrow> pt_allow_write_tools (pp_tools p)
        \<and> (pa_require_approval_for_write_tools (pp_approval p) \<longrightarrow> tq_idempotency_key q \<noteq> None))
    \<and> (rt_safety_level t = ''destructive'' \<longrightarrow> pt_allow_destructive_tools (pp_tools p)
        \<and> \<not> pa_require_approval_for_destructive_tools (pp_approval p))
    \<and> (rt_safety_level t = ''external_side_effect'' \<longrightarrow> pt_allow_external_side_effect_tools (pp_tools p)
        \<and> \<not> pa_require_approval_for_external_side_effect_tools (pp_approval p))"
proof (rule called_job [OF assms(3)])
  fix j s1
  assume "prepare_execution env gw q c action (effective_scopes (tq_scopes q) c) (action = ''tool.stream_execute'')
      (fresh_tool_run sv) = (Inr j, s1)"
  from prepare_execution_Inr [OF this] obtain entry d where e: "resolve_entry (tg_registry gw) (tq_tool_name q) = Some entry"
    and ev: "fst (service_evaluate (tenv_texts env) (tenv_clock env 0) sv (asked_request gw action q c) c) = Inr d"
      "dec_allowed d"
    by (auto simp: asked_request_def)
  let ?t = "re_definition entry"
  have r: "asked_request gw action q c = build_tool_policy_request action ''app.tools.gateway'' (rt_logical_name ?t)
      (effective_scopes (tq_scopes q) c) c True (rt_enabled ?t) (Some (rt_safety_level ?t)) (rt_approval_required ?t)
      (rt_supports_streaming ?t) (rt_allowed_usecases ?t) (rt_allowed_agents ?t) (rt_allowed_strategies ?t)
      (tq_idempotency_key q \<noteq> None) (action = ''tool.stream_execute'')"
    using e by (simp add: asked_request_def tool_policy_request_def assms(2) build_tool_gateway_def)
  obtain d0 where d0: "engine_evaluate (sv_engine sv) (asked_request gw action q c) c = Inr d0" "dec_decision d0 = Some Allow"
    by (rule first_answer [OF assms(1) ev])
  have "startswith ''app.tools.gateway'' ''tools.'' \<or> startswith ''app.tools.gateway'' ''app.tools''" by code_simp
  from tool_execution_consent [OF build_policy_service_registry [OF assms(1)] r assms(4) this d0 assms(5)] e
  show ?thesis by (auto simp: assms(2) build_tool_gateway_def)
qed

lemma approval_facts:
  "tool_verdict lenient_config approval_tool ''tool.call'' = Some Allow" "rt_logical_name approval_tool = ''search''"
  "strip (rt_mcp_tool_name approval_tool) = ''find''"
  "validate_arguments plain_test_texts 65536 approval_tool search_arguments = Inr search_arguments"
  "''tool.call'' \<noteq> ''tool.stream_execute''"
  using sample_tool_verdicts by simp_all

theorem tool_calls_are_permitted_witness:
  "\<exists>sv. build_policy_service lenient_config = Inr sv
    \<and> pt_allow_approval_required_tools (pp_tools (resolve_policy_profile (sv_engine sv)
        (asked_request (sample_gateway approval_tool) ''tool.call'' search_request analyst_context) analyst_context))"
proof -
  from sample_called [OF approval_facts] obtain sv a where sv: "build_policy_service lenient_config = Inr sv"
    and a: "AdapterCalled a \<in> set (operation_log steady_env (sample_gateway approval_tool) ''tool.call'' search_request
      analyst_context (fresh_tool_run sv))" by blast
  have "''tool.call'' \<in> set tool_execution_actions" by (simp add: tool_execution_actions_def)
  from tool_calls_are_permitted [OF sv sample_gateway_def a this refl] sv show ?thesis
    by (auto simp: new_tool_registry_def resolve_entry_def approval_tool_def sample_tool_def search_request_def)
qed

section \<open>The number of calls\<close>

text \<open>What the safety level and the idempotency key permit: one call, or one more than the configured retries.\<close>

definition permitted_calls :: "tool_gateway \<Rightarrow> tool_request \<Rightarrow> nat" where
  "permitted_calls gw q =
    (case resolve_entry (tg_registry gw) (tq_tool_name q) of
       None \<Rightarrow> 0
     | Some entry \<Rightarrow>
        let level = rt_safety_level (re_definition entry)
        in if level = ''destructive'' \<or> level = ''external_side_effect''
              \<or> level = ''write'' \<and> tq_idempotency_key q \<in> {None, Some []} then 1
           else 1 + nat (td_max_retries (tls_defaults (tg_settings gw))))"

lemma job_attempts_permitted:
  assumes "prepare_execution env gw q c action scopes streaming s = (Inr j, s1)"
  shows "job_attempts gw j \<le> permitted_calls gw q"
  using prepare_execution_Inr [OF assms]
  by (auto simp: job_attempts_def retry_attempts_for_request_def permitted_calls_def tool_allows_retry_def truthy_def
      Let_def nat_add_distrib split: option.splits)

text \<open>C6. Bounded calls: an execution or a stream ends (the definitions are total), and calls the server
  not at all when tooling is disabled or the tool unknown, at most once for a destructive or externally
  effective tool and for a write without an idempotency key, and otherwise at most once more than the
  configured number of retries.\<close>

theorem tool_calls_are_bounded:
  "length (calls_of (operation_log env gw action q c (fresh_tool_run sv)))
    \<le> (if tls_enabled (tg_settings gw) then permitted_calls gw q else 0)"
proof (cases rule: operation_cases [of env gw action q c "fresh_tool_run sv"])
  case (admitted j s1)
  then show ?thesis using admit_execution_Inr [OF admitted(1)] job_attempts_permitted by fastforce
qed simp

section \<open>Refusals\<close>

lemma refused_preparation:
  assumes "fst (service_evaluate (tenv_texts env) (tenv_clock env 0) sv (asked_request gw action q c) c) = Inr d"
    and "\<not> dec_allowed d"
  shows "\<exists>s1 n. prepare_execution env gw q c action (effective_scopes (tq_scopes q) c) (action = ''tool.stream_execute'')
      (fresh_tool_run sv) = (Inl (ToolExc (tool_denied_error d)), s1) \<and> trun_log s1 = [PolicyAsked action n False]"
proof -
  from evaluate_asked [of env "fresh_tool_run sv" "asked_request gw action q c" c d] assms obtain s1 n where
    "evaluate_tool_policy env c (asked_request gw action q c) (fresh_tool_run sv) = (Inr d, s1)"
    "trun_log s1 = [PolicyAsked action n False]"
    by (auto simp: asked_request_def asked_action Let_def)
  with assms(2) show ?thesis
    by (cases "resolve_entry (tg_registry gw) (tq_tool_name q)")
      (auto simp: prepare_execution_def asked_request_def Let_def)
qed

text \<open>C7. A refusal is an error and a trace event: when the policy service does not allow the execution, the
  caller gets the denial (or the demand for approval), the log holds the policy answer and one failure
  event with the code of a policy denial that is not retryable, and the server is not called.\<close>

theorem refused_tool_is_traced:
  assumes "tls_enabled (tg_settings gw)"
    and "fst (service_evaluate (tenv_texts env) (tenv_clock env 0) sv (asked_request gw action q c) c) = Inr d"
    and "\<not> dec_allowed d" "e = tool_denied_error d"
  shows "(\<exists>n t. operation_log env gw action q c (fresh_tool_run sv) = [PolicyAsked action n False, Traced t]
      \<and> tt_event_type t = ''tool_call_failed'' \<and> tt_tool_name t = tq_tool_name q
      \<and> tt_error_type t = Some (tle_class e) \<and> tt_error_code t = Some ''tool_policy_denied''
      \<and> tt_retryable t = Some False)
    \<and> (if action = ''tool.stream_execute''
       then fst (stream_execute env gw q c (fresh_tool_run sv)) = ToolStreamRaised (ToolExc e)
       else fst (execute_internal env gw action q c (fresh_tool_run sv)) = Inl (ToolExc e))"
proof -
  from refused_preparation [OF assms(2,3)] obtain s1 n where
    p: "prepare_execution env gw q c action (effective_scopes (tq_scopes q) c) (action = ''tool.stream_execute'')
      (fresh_tool_run sv) = (Inl (ToolExc e), s1)" and log: "trun_log s1 = [PolicyAsked action n False]"
    unfolding assms(4) by blast
  have code: "error_code_for_error (Some e) = Some ''tool_policy_denied''"
    by (simp add: assms(4) error_code_for_error_def tool_denied_error_def tool_err_def is_policy_denied_class_def)
  have traced: "\<exists>t. record_failure gw c (tq_tool_name q) sc (Some e) 0 None ''failed'' None None s1
        = log_tool (Traced t) s1 \<and> tt_event_type t = ''tool_call_failed'' \<and> tt_tool_name t = tq_tool_name q
      \<and> tt_error_type t = Some (tle_class e) \<and> tt_error_code t = Some ''tool_policy_denied''
      \<and> tt_retryable t = Some False" for sc
    unfolding record_failure_def Let_def by (intro exI conjI, rule refl) (simp_all add: tool_trace_of_def code Let_def)
  obtain s2 where a: "admit_execution env gw action (action = ''tool.stream_execute'') q c (fresh_tool_run sv)
      = (Inl (ToolExc e), s2)"
    and s2: "s2 = record_failure gw c (tq_tool_name q) (effective_scopes (tq_scopes q) c) (Some e) 0 None ''failed'' None None s1"
    using p assms(1) by (simp add: admit_execution_def Let_def)
  have "trun_log s2 = operation_log env gw action q c (fresh_tool_run sv)
    \<and> (if action = ''tool.stream_execute''
       then fst (stream_execute env gw q c (fresh_tool_run sv)) = ToolStreamRaised (ToolExc e)
       else fst (execute_internal env gw action q c (fresh_tool_run sv)) = Inl (ToolExc e))"
    using a by (cases "action = ''tool.stream_execute''")
      (simp_all add: operation_log_def stream_execute_def execute_internal_def)
  moreover from traced [of "effective_scopes (tq_scopes q) c"] log have
    "\<exists>n t. trun_log s2 = [PolicyAsked action n False, Traced t]
      \<and> tt_event_type t = ''tool_call_failed'' \<and> tt_tool_name t = tq_tool_name q
      \<and> tt_error_type t = Some (tle_class e) \<and> tt_error_code t = Some ''tool_policy_denied''
      \<and> tt_retryable t = Some False"
    unfolding s2 by auto
  ultimately show ?thesis by simp
qed

theorem refused_tool_is_traced_witness:
  "\<exists>sv e. build_policy_service minimal_config = Inr sv
    \<and> fst (stream_execute flaky_env (sample_gateway erase_tool) search_request analyst_context (fresh_tool_run sv))
      = ToolStreamRaised (ToolExc e)"
proof -
  have "tool_verdict minimal_config erase_tool ''tool.stream_execute'' = Some Deny"
    using sample_tool_verdicts by blast
  from tool_evaluation [OF this, of flaky_env] obtain sv d where
    sv: "build_policy_service minimal_config = Inr sv" "wf_decision d" "dec_decision d = Some Deny"
    "fst (service_evaluate (tenv_texts flaky_env) (tenv_clock flaky_env 0) sv (asked_request (sample_gateway erase_tool)
        ''tool.stream_execute'' search_request analyst_context) analyst_context) = Inr d" by blast
  have "\<not> dec_allowed d" "tls_enabled (tg_settings (sample_gateway erase_tool))"
    using sv(2,3) by (simp_all add: wf_decision_allowed sample_gateway_def build_tool_gateway_def sample_tooling_def)
  from refused_tool_is_traced [OF this(2) sv(4) this(1) refl] sv(1) show ?thesis by auto
qed

end
