(* ===== verification/Health_Report.thy ===== *)
theory Health_Report
  imports Tool_Gateway Policy_Redaction
begin

text \<open>
  What the backend reports of its health and of its tools: the health result of the tool gateway
  (\<open>tools/gateway.py\<close>), the shape it has among the foundation checks (\<open>tools/health.py\<close>), the tool capability
  payload (\<open>tools/capabilities.py\<close>), and the aggregation of all checks (\<open>observability/health.py\<close>).

  \<^item> A registered check is an outcome here: what it raises, or what it returns, in each of the three forms.
  \<^item> The health of the fake MCP adapter, which the gateway asks for, is a parameter: the class name of what it
    raises, or its status, authentication mode, error and tool count.
\<close>

section \<open>The health of the tool gateway\<close>

record tool_health =
  th_status :: string
  th_tooling_enabled :: bool
  th_mcp_configured :: bool
  th_mcp_status :: string
  th_tools_configured :: nat
  th_tools_discovered :: "nat option"
  th_tools_enabled :: nat
  th_registry_status :: string
  th_error :: "string option"
  th_metadata :: pydict

definition text_or_unknown :: "string \<Rightarrow> string" where
  "text_or_unknown s = str_default (Some (strip s)) ''unknown''"

definition new_tool_health :: "tool_health \<Rightarrow> tool_health" where
  "new_tool_health h =
    h\<lparr>th_status := text_or_unknown (th_status h), th_mcp_status := text_or_unknown (th_mcp_status h),
      th_registry_status := text_or_unknown (th_registry_status h), th_error := norm_text (th_error h)\<rparr>"

record adapter_report =
  ap_status :: string
  ap_auth_mode :: string
  ap_error :: "string option"
  ap_tool_count :: nat

text \<open>The branches that fill the local variables of \<open>health\<close>: status of the server, state of the discovery,
  authentication mode, error and number of discovered tools.\<close>

record health_probe =
  hp_mcp_status :: string
  hp_discovery_state :: string
  hp_auth_mode :: string
  hp_error :: "string option"
  hp_discovered :: "nat option"

definition probe_health :: "tool_gateway \<Rightarrow> (string + adapter_report) option \<Rightarrow> health_probe" where
  "probe_health gw fake =
    (let server = tls_mcp_server (tg_settings gw);
         snapshot = tr_snapshot (tg_registry gw);
         probe = (\<lambda>status state er n. \<lparr>hp_mcp_status = status, hp_discovery_state = state,
           hp_auth_mode = ma_mode (mv_auth server), hp_error = er, hp_discovered = n\<rparr>);
         idle = (if mv_tool_discovery_enabled server then ''pending'' else ''disabled'')
     in if \<not> tls_enabled (tg_settings gw) then probe ''disabled'' ''disabled'' None (Some 0)
        else if \<not> truthy (mv_endpoint server) then probe ''not_configured'' idle None None
        else
          (case snapshot of
             Some sn \<Rightarrow>
               if truthy (sn_error sn) then
                 probe ''error'' ''error'' (sn_error sn)
                   (Some (if sn_discovered_at sn \<noteq> None then length (sn_tools sn) else 0))
               else if sn_discovered_at sn \<noteq> None then probe ''ok'' ''ok'' None (Some (length (sn_tools sn)))
               else
                 (case fake of
                    None \<Rightarrow> probe ''not_checked'' idle None None
                  | Some (Inl cls) \<Rightarrow> probe ''error'' ''error'' (Some cls) (Some 0)
                  | Some (Inr r) \<Rightarrow>
                      (probe (ap_status r) (if ap_status r = ''ok'' then ''ok'' else ''error'') (ap_error r)
                        (Some (ap_tool_count r)))\<lparr>hp_auth_mode := ap_auth_mode r\<rparr>)
           | None \<Rightarrow>
               (case fake of
                  None \<Rightarrow> probe ''not_checked'' idle None None
                | Some (Inl cls) \<Rightarrow> probe ''error'' ''error'' (Some cls) (Some 0)
                | Some (Inr r) \<Rightarrow>
                    (probe (ap_status r) (if ap_status r = ''ok'' then ''ok'' else ''error'') (ap_error r)
                      (Some (ap_tool_count r)))\<lparr>hp_auth_mode := ap_auth_mode r\<rparr>)))"

definition gateway_health :: "tool_gateway \<Rightarrow> (string + adapter_report) option \<Rightarrow> tool_health" where
  "gateway_health gw fake =
    (let st = tg_settings gw;
         server = tls_mcp_server st;
         p = probe_health gw fake;
         snapshot_error = (case tr_snapshot (tg_registry gw) of None \<Rightarrow> False | Some sn \<Rightarrow> truthy (sn_error sn));
         registry_state =
           (if snapshot_error then ''degraded''
            else if hp_error p \<noteq> None \<and> tls_enabled st then ''degraded''
            else if \<not> tls_enabled st then ''disabled'' else ''ok'');
         status =
           (if \<not> tls_enabled st then ''disabled''
            else if \<not> truthy (mv_endpoint server) then ''not_configured''
            else if hp_mcp_status p = ''error'' \<or> registry_state = ''degraded'' then ''degraded'' else ''ok'')
     in new_tool_health
          \<lparr>th_status = status, th_tooling_enabled = tls_enabled st, th_mcp_configured = truthy (mv_endpoint server),
           th_mcp_status = hp_mcp_status p, th_tools_configured = length (tr_configured (tg_registry gw)),
           th_tools_discovered = hp_discovered p,
           th_tools_enabled = length (filter (\<lambda>(n, e). rt_enabled (re_definition e)) (tr_entries (tg_registry gw))),
           th_registry_status = registry_state, th_error = hp_error p,
           th_metadata =
             [(''server_name'', PStr (mv_name server)), (''transport'', PStr (mv_transport server)),
              (''auth_mode'', PStr (hp_auth_mode p)), (''discovery_enabled'', PBool (mv_tool_discovery_enabled server)),
              (''discovery_state'', PStr (hp_discovery_state p))]\<rparr>)"

section \<open>Foundation checks\<close>

record health_check_result =
  hr_status :: string
  hr_details :: pydict

definition normalize_tool_health_status :: "string \<Rightarrow> string" where
  "normalize_tool_health_status s =
    (if s = ''ok'' then ''ok''
     else if s \<in> {''degraded'', ''error''} then ''degraded''
     else if s \<in> {''disabled'', ''not_configured''} then ''not_configured''
     else ''not_checked'')"

definition int_or_none :: "nat option \<Rightarrow> pyval" where
  "int_or_none n = (case n of None \<Rightarrow> PNone | Some k \<Rightarrow> PInt (int k))"

definition add_text :: "string \<Rightarrow> pyval \<Rightarrow> pydict \<Rightarrow> pydict" where
  "add_text key v d = (case read_optional_text v of None \<Rightarrow> d | Some t \<Rightarrow> dict_set key (PStr t) d)"

definition build_tooling_health_check :: "tool_health \<Rightarrow> bool \<Rightarrow> health_check_result" where
  "build_tooling_health_check h expose_provider_details =
    (let md = th_metadata h;
         details =
           [(''configured'', PBool (th_mcp_configured h)), (''tooling_enabled'', PBool (th_tooling_enabled h)),
            (''adapter_reachable'', PBool (th_mcp_status h = ''ok'')), (''mcp_status'', PStr (th_mcp_status h)),
            (''discovery_enabled'', PBool (py_truth (dict_get md ''discovery_enabled''))),
            (''discovery_state'', PStr (str_default (read_optional_text (dict_get md ''discovery_state'')) ''not_checked'')),
            (''tools_configured'', PInt (int (th_tools_configured h))),
            (''tools_discovered'', int_or_none (th_tools_discovered h)),
            (''tools_enabled'', PInt (int (th_tools_enabled h))), (''registry_status'', PStr (th_registry_status h))];
         d1 = (if th_error h \<noteq> None then dict_set ''error_present'' (PBool True) details else details);
         d2 = (if expose_provider_details
               then add_text ''identity_mode'' (dict_get md ''auth_mode'')
                      (add_text ''server_name'' (dict_get md ''server_name'')
                        (add_text ''transport'' (dict_get md ''transport'') d1))
               else d1)
     in \<lparr>hr_status = normalize_tool_health_status (th_status h), hr_details = d2\<rparr>)"

section \<open>Tool capabilities\<close>

definition count_level :: "tool_capability list \<Rightarrow> (string \<times> nat) list \<Rightarrow> (string \<times> nat) list" where
  "count_level tools acc =
    fold (\<lambda>t levels. dict_set (tcp_safety_level t)
        (Suc (case map_of levels (tcp_safety_level t) of None \<Rightarrow> 0 | Some n \<Rightarrow> n)) levels) tools acc"

definition zero_levels :: "(string \<times> nat) list" where
  "zero_levels = [(''read_only'', 0), (''write'', 0), (''destructive'', 0), (''external_side_effect'', 0)]"

definition build_tool_capabilities_payload :: "tool_capabilities \<Rightarrow> bool \<Rightarrow> pydict" where
  "build_tool_capabilities_payload cs include_tool_names =
    (let tools = tcs_tools cs;
         levels = count_level tools zero_levels;
         d0 = [(''enabled'', PBool (tcs_enabled cs)), (''configured'', PBool (tcs_mcp_configured cs)),
               (''streaming_supported'', PBool (tcs_streaming_supported cs)),
               (''total_tools'', PInt (int (length tools))),
               (''approval_required_tools'', PInt (int (length (filter tcp_approval_required tools)))),
               (''safety_levels'', PDict (List.map (\<lambda>(k, n). (k, PInt (int n))) levels))];
         d1 = add_text ''transport'' (dict_get (tcs_metadata cs) ''transport'') d0;
         d2 = (case dict_get (tcs_metadata cs) ''discovery_enabled'' of
                 PBool b \<Rightarrow> dict_set ''discovery_enabled'' (PBool b) d1 | _ \<Rightarrow> d1)
     in if include_tool_names
        then dict_set ''available_tools'' (PList (List.map PStr (sort (List.map tcp_name tools)))) d2 else d2)"

section \<open>The aggregator\<close>

datatype check_outcome =
    CheckRaised string
  | CheckResult health_check_result
  | CheckComponent string bool pydict
  | CheckMapping pydict

definition coerce_status :: "pyval \<Rightarrow> string" where
  "coerce_status v =
    (case v of
       PStr s \<Rightarrow> if s \<in> {''ok'', ''degraded'', ''failed'', ''not_configured'', ''not_checked''} then s else ''not_checked''
     | _ \<Rightarrow> ''not_checked'')"

definition merge_status :: "string \<Rightarrow> string \<Rightarrow> string" where
  "merge_status current new =
    (if current = ''failed'' \<or> new = ''failed'' then ''failed''
     else if current = ''degraded'' \<or> new = ''degraded'' then ''degraded''
     else if current = ''ok'' \<or> new = ''ok'' then ''ok''
     else if current = ''not_configured'' \<or> new = ''not_configured'' then ''not_configured''
     else ''not_checked'')"

text \<open>What a check returns, as a dictionary; what it raises is a failure of its own.\<close>

definition normalize_health_result :: "check_outcome \<Rightarrow> pydict" where
  "normalize_health_result outcome =
    (case outcome of
       CheckRaised cls \<Rightarrow> []
     | CheckResult r \<Rightarrow> dict_merge [(''status'', PStr (hr_status r))] (hr_details r)
     | CheckComponent status configured details \<Rightarrow>
         dict_merge [(''status'', PStr status), (''configured'', PBool configured)] details
     | CheckMapping d \<Rightarrow>
         dict_merge [(''status'', PStr (coerce_status (dict_get d ''status'')))] (filter (\<lambda>(k, v). k \<noteq> ''status'') d))"

definition evaluate_check :: "string \<Rightarrow> check_outcome \<Rightarrow> pydict" where
  "evaluate_check name outcome =
    (case outcome of
       CheckRaised cls \<Rightarrow>
         [(''status'', PStr ''failed''), (''error_type'', PStr cls), (''component'', PStr name)]
     | _ \<Rightarrow> normalize_health_result outcome)"

definition redact_check_payload :: "py_texts \<Rightarrow> redactor \<Rightarrow> bool \<Rightarrow> pydict \<Rightarrow> pydict" where
  "redact_check_payload tx rd include_details payload =
    (case redact tx rd (PDict payload) of
       PDict redacted \<Rightarrow>
         (let status = (''status'', PStr (coerce_status (dict_get redacted ''status'')))
          in if include_details then dict_merge [status] (filter (\<lambda>(k, v). k \<noteq> ''status'') redacted) else [status])
     | _ \<Rightarrow> [(''status'', PStr ''failed'')])"

definition evaluate_health ::
  "py_texts \<Rightarrow> redactor \<Rightarrow> bool \<Rightarrow> (string \<times> check_outcome) list \<Rightarrow> string \<times> (string \<times> pydict) list" where
  "evaluate_health tx rd include_details checks =
    fold (\<lambda>(name, outcome) (overall, acc).
        let payload = redact_check_payload tx rd include_details (evaluate_check name outcome)
        in (merge_status overall (coerce_status (dict_get payload ''status'')), dict_set name payload acc))
      checks (''ok'', [])"

section \<open>What is reported\<close>

lemma coerce_status_known:
  "coerce_status v \<in> {''ok'', ''degraded'', ''failed'', ''not_configured'', ''not_checked''}"
  by (simp add: coerce_status_def split: pyval.split)

lemma coerce_status_idem [simp]: "coerce_status (PStr (coerce_status v)) = coerce_status v"
  using coerce_status_known [of v] by (simp add: coerce_status_def [of "PStr x" for x])

lemma dict_get_merge_other:
  "k \<notin> fst ` set e \<Longrightarrow> dict_get (dict_merge d e) k = dict_get d k"
  by (induction e arbitrary: d) (auto simp: dict_merge_def)

definition reported_status :: "py_texts \<Rightarrow> redactor \<Rightarrow> bool \<Rightarrow> string \<times> check_outcome \<Rightarrow> string" where
  "reported_status tx rd include_details c =
    coerce_status (dict_get (redact_check_payload tx rd include_details (evaluate_check (fst c) (snd c))) ''status'')"

text \<open>The overall status is the most severe one that is reported, and at least \<open>ok\<close>: whatever the checks
  raise or return, the report names every one of them, it says \<open>failed\<close> exactly when some check reports a
  failure, \<open>degraded\<close> exactly when none failed and one is degraded, and \<open>ok\<close> otherwise.\<close>

lemma health_is_the_worst:
  "fst (evaluate_health tx rd b checks) =
    (if ''failed'' \<in> reported_status tx rd b ` set checks then ''failed''
     else if ''degraded'' \<in> reported_status tx rd b ` set checks then ''degraded'' else ''ok'')"
proof -
  let ?f = "\<lambda>(name, outcome) (overall, acc).
        let payload = redact_check_payload tx rd b (evaluate_check name outcome)
        in (merge_status overall (coerce_status (dict_get payload ''status'')), dict_set name payload acc)"
  have "fst (fold ?f checks (s, acc)) =
    (if s = ''failed'' \<or> ''failed'' \<in> reported_status tx rd b ` set checks then ''failed''
     else if s = ''degraded'' \<or> ''degraded'' \<in> reported_status tx rd b ` set checks then ''degraded'' else ''ok'')"
    if "s \<in> {''failed'', ''degraded'', ''ok''}" for s acc
    using that
  proof (induction checks arbitrary: s acc)
    case (Cons c cs)
    obtain name outcome where c: "c = (name, outcome)" by force
    let ?s = "merge_status s (reported_status tx rd b c)"
    have "?s \<in> {''failed'', ''degraded'', ''ok''}" using Cons.prems by (auto simp: merge_status_def)
    from Cons.IH [OF this] show ?case
      using Cons.prems by (auto simp: c Let_def reported_status_def merge_status_def)
  qed auto
  then show ?thesis by (simp add: evaluate_health_def)
qed

text \<open>A check that raises is reported as failed.\<close>

lemma dict_get_merge_same: "dict_get (dict_merge [(k, v)] (filter (\<lambda>(k', v'). k' \<noteq> k) d)) k = v"
  by (subst dict_get_merge_other) auto

lemma reported_status_default:
  "reported_status tx default_redactor b (name, outcome) =
    coerce_status (redact_value tx default_redactor False (dict_get (evaluate_check name outcome) ''status''))"
proof -
  have plain: "\<not> child_sensitive default_redactor False ''status''" by code_simp
  have "dict_get (List.map (\<lambda>(k, v). (k, redact_value tx default_redactor (child_sensitive default_redactor False k) v)) d) ''status''
      = redact_value tx default_redactor False (dict_get d ''status'')" for d
    using plain by (induction d) (auto simp: serialize_scalar_def)
  then show ?thesis
    by (simp add: reported_status_def redact_check_payload_def redact_def dict_get_merge_same Let_def)
qed

lemma raised_check_fails: "reported_status tx default_redactor b (name, CheckRaised cls) = ''failed''"
proof -
  have "rd_max_chars default_redactor = None" by (simp add: default_redactor_def)
  then show ?thesis
    by (simp add: reported_status_default evaluate_check_def serialize_scalar_def truncate_string_def coerce_status_def)
qed

end
