(* ===== verification/Orch_Models.thy ===== *)
theory Orch_Models
  imports Orch_Errors
begin

text \<open>
  The request and result models of the orchestration layer (\<open>orchestration/models.py\<close>): conversation messages,
  step summaries, plan steps and plans, task assessments, and the summaries of tool calls, memory searches,
  memory updates and citations, with the readers \<open>from_mapping\<close> and the writers \<open>as_dict\<close>.

  \<^item> \<open>new_X\<close> is the constructor with its \<open>__post_init__\<close>, \<open>X_from_mapping\<close> and \<open>X_as_dict\<close> are the methods.
  \<^item> \<open>json.loads\<close> and \<open>JSONDecoder.raw_decode\<close> are parameters of the readers of text (\<open>json_reader\<close>): their
    numbers and code points go beyond the value model. \<open>None\<close> is \<open>JSONDecodeError\<close>.
\<close>

section \<open>Normalization\<close>

definition py_or :: "pyval \<Rightarrow> pyval \<Rightarrow> pyval" where
  "py_or a b = (if py_truth a then a else b)"

text \<open>\<open>_normalize_optional_text\<close>, of any value and of a text that may be missing.\<close>

definition opt_text :: "pyval \<Rightarrow> string option" where
  "opt_text v =
    (case v of PStr s \<Rightarrow> (let n = strip s in if n = [] then None else Some (normalize_text n)) | _ \<Rightarrow> None)"

definition norm_opt :: "string option \<Rightarrow> string option" where
  "norm_opt s = opt_text (py_opt_str s)"

definition opt_int :: "pyval \<Rightarrow> int option" where
  "opt_int v = (case v of PInt i \<Rightarrow> if i \<ge> 0 then Some i else None | _ \<Rightarrow> None)"

definition norm_int :: "int option \<Rightarrow> int option" where
  "norm_int i = (case i of None \<Rightarrow> None | Some n \<Rightarrow> if n \<ge> 0 then Some n else None)"

definition required_identifier :: "string \<Rightarrow> string res" where
  "required_identifier s = (if strip s = [] then Inl ValueError else Inr (normalize_text s))"

definition identifier_tuple :: "pyval list \<Rightarrow> string list" where
  "identifier_tuple vs = List.map_filter opt_text vs"

definition identifier_sequence :: "pyval \<Rightarrow> string list" where
  "identifier_sequence v = (case seq_items v of None \<Rightarrow> [] | Some vs \<Rightarrow> identifier_tuple vs)"

text \<open>\<open>sanitize_metadata(v if isinstance(v, Mapping) else {})\<close>.\<close>

definition mapping_metadata :: "pyval \<Rightarrow> pydict" where
  "mapping_metadata v = sanitize_metadata (Some (case v of PDict d \<Rightarrow> d | _ \<Rightarrow> []))"

definition put_text :: "string \<Rightarrow> string option \<Rightarrow> pydict \<Rightarrow> pydict" where
  "put_text key s d = (case s of None \<Rightarrow> d | Some t \<Rightarrow> d @ [(key, PStr t)])"

definition put_int :: "string \<Rightarrow> int option \<Rightarrow> pydict \<Rightarrow> pydict" where
  "put_int key i d = (case i of None \<Rightarrow> d | Some n \<Rightarrow> d @ [(key, PInt n)])"

definition put_dict :: "string \<Rightarrow> pydict \<Rightarrow> pydict \<Rightarrow> pydict" where
  "put_dict key e d = (if e = [] then d else d @ [(key, PDict e)])"

section \<open>Conversation messages\<close>

record conv_message =
  cm_role :: string
  cm_content :: string
  cm_created_at :: "string option"
  cm_request_id :: "string option"
  cm_turn_id :: "string option"
  cm_trace_id :: "string option"
  cm_metadata :: pydict

definition set_default_text :: "string \<Rightarrow> string option \<Rightarrow> pydict \<Rightarrow> pydict" where
  "set_default_text key s d = (case s of None \<Rightarrow> d | Some t \<Rightarrow> dict_setdefault key (PStr t) d)"

definition enrich_conversation_metadata :: "conv_message \<Rightarrow> pydict" where
  "enrich_conversation_metadata m =
    set_default_text ''trace_id'' (cm_trace_id m)
      (set_default_text ''turn_id'' (cm_turn_id m)
        (set_default_text ''request_id'' (cm_request_id m) (sanitize_metadata (Some (cm_metadata m)))))"

definition new_conv_message :: "conv_message \<Rightarrow> conv_message res" where
  "new_conv_message m =
    try_bind (required_identifier (cm_role m)) (\<lambda>role.
      let n = m\<lparr>cm_role := role, cm_content := normalize_text (cm_content m),
                cm_created_at := norm_opt (cm_created_at m), cm_request_id := norm_opt (cm_request_id m),
                cm_turn_id := norm_opt (cm_turn_id m), cm_trace_id := norm_opt (cm_trace_id m)\<rparr>
      in Inr (n\<lparr>cm_metadata := enrich_conversation_metadata n\<rparr>))"

definition conv_message_from_mapping :: "pydict \<Rightarrow> conv_message res" where
  "conv_message_from_mapping item =
    (let raw = (case dict_get item ''metadata'' of PDict d \<Rightarrow> d | _ \<Rightarrow> []);
         id_of = (\<lambda>key. str_or (opt_text (dict_get item key)) (opt_text (dict_get raw key)))
     in new_conv_message
          \<lparr>cm_role = str_default (opt_text (dict_get item ''role'')) ''assistant'',
           cm_content = str_default (opt_text (dict_get item ''content'')) [],
           cm_created_at = opt_text (dict_get item ''created_at''), cm_request_id = id_of ''request_id'',
           cm_turn_id = id_of ''turn_id'', cm_trace_id = id_of ''trace_id'',
           cm_metadata = sanitize_metadata (Some raw)\<rparr>)"

definition conv_message_as_dict :: "conv_message \<Rightarrow> pydict" where
  "conv_message_as_dict m =
    put_dict ''metadata'' (cm_metadata m)
      (put_text ''created_at'' (cm_created_at m)
        [(''role'', PStr (cm_role m)), (''content'', PStr (cm_content m))])"

section \<open>Step summaries\<close>

record step_summary =
  sp_step_id :: string
  sp_step_type :: string
  sp_status :: string
  sp_started_at :: "string option"
  sp_completed_at :: "string option"
  sp_duration_ms :: "int option"
  sp_safe_message :: "string option"
  sp_metadata :: pydict

definition new_step_summary :: "step_summary \<Rightarrow> step_summary res" where
  "new_step_summary s =
    try_bind (required_identifier (sp_step_id s)) (\<lambda>step_id.
    try_bind (required_identifier (sp_step_type s)) (\<lambda>step_type.
    try_bind (required_identifier (sp_status s)) (\<lambda>status.
    Inr \<lparr>sp_step_id = step_id, sp_step_type = step_type, sp_status = status,
         sp_started_at = norm_opt (sp_started_at s), sp_completed_at = norm_opt (sp_completed_at s),
         sp_duration_ms = norm_int (sp_duration_ms s), sp_safe_message = norm_opt (sp_safe_message s),
         sp_metadata = sanitize_metadata (Some (sp_metadata s))\<rparr>)))"

definition step_summary_from_mapping :: "pydict \<Rightarrow> step_summary res" where
  "step_summary_from_mapping item =
    new_step_summary
      \<lparr>sp_step_id = str_default (opt_text (py_or (dict_get item ''step_id'') (dict_get item ''id''))) ''step'',
       sp_step_type = str_default (opt_text (py_or (dict_get item ''step_type'') (dict_get item ''type''))) ''unknown'',
       sp_status = str_default (opt_text (dict_get item ''status'')) ''completed'',
       sp_started_at = opt_text (dict_get item ''started_at''), sp_completed_at = opt_text (dict_get item ''completed_at''),
       sp_duration_ms = opt_int (dict_get item ''duration_ms''),
       sp_safe_message = opt_text (py_or (dict_get item ''safe_message'') (dict_get item ''message'')),
       sp_metadata = mapping_metadata (dict_get item ''metadata'')\<rparr>"

definition step_summary_as_dict :: "step_summary \<Rightarrow> pydict" where
  "step_summary_as_dict s =
    put_dict ''metadata'' (sp_metadata s)
      (put_text ''safe_message'' (sp_safe_message s)
        (put_int ''duration_ms'' (sp_duration_ms s)
          (put_text ''completed_at'' (sp_completed_at s)
            (put_text ''started_at'' (sp_started_at s)
              [(''step_id'', PStr (sp_step_id s)), (''step_type'', PStr (sp_step_type s)),
               (''status'', PStr (sp_status s))]))))"

text \<open>\<open>build_step_summary\<close> of \<open>orchestration/strategy_steps.py\<close>.\<close>

definition build_step_summary ::
  "string \<Rightarrow> string \<Rightarrow> string \<Rightarrow> int option \<Rightarrow> string option \<Rightarrow> pydict \<Rightarrow> step_summary res" where
  "build_step_summary step_id step_type status duration_ms safe_message metadata =
    new_step_summary
      \<lparr>sp_step_id = step_id, sp_step_type = step_type, sp_status = status, sp_started_at = None,
       sp_completed_at = None, sp_duration_ms = duration_ms, sp_safe_message = safe_message,
       sp_metadata = sanitize_metadata (Some metadata)\<rparr>"

section \<open>Plans\<close>

definition allowed_plan_actions :: "string list" where
  "allowed_plan_actions =
    [''memory_search'', ''tool_call'', ''agent_invoke'', ''llm_call'', ''request_user_input'', ''finalize'']"

record plan_step =
  ps_step_id :: string
  ps_action_type :: string
  ps_name :: string
  ps_inputs :: pydict
  ps_depends_on :: "string list"

definition new_plan_step :: "plan_step \<Rightarrow> plan_step res" where
  "new_plan_step s =
    try_bind (required_identifier (ps_step_id s)) (\<lambda>step_id.
    try_bind (required_identifier (ps_action_type s)) (\<lambda>action.
    if action \<notin> set allowed_plan_actions then Inl ValueError
    else try_bind (required_identifier (ps_name s)) (\<lambda>name.
    Inr \<lparr>ps_step_id = step_id, ps_action_type = action, ps_name = name,
         ps_inputs = sanitize_metadata (Some (ps_inputs s)),
         ps_depends_on = List.map_filter (\<lambda>t. norm_opt (Some t)) (ps_depends_on s)\<rparr>)))"

definition plan_step_from_mapping :: "pydict \<Rightarrow> plan_step res" where
  "plan_step_from_mapping item =
    new_plan_step
      \<lparr>ps_step_id = str_default (opt_text (py_or (dict_get item ''step_id'') (dict_get item ''id''))) ''step'',
       ps_action_type = str_default (opt_text (py_or (dict_get item ''action_type'') (dict_get item ''action''))) ''finalize'',
       ps_name = str_default (opt_text (dict_get item ''name'')) ''step'',
       ps_inputs = mapping_metadata (dict_get item ''inputs''),
       ps_depends_on = identifier_sequence (dict_get item ''depends_on'')\<rparr>"

definition plan_step_as_dict :: "plan_step \<Rightarrow> pydict" where
  "plan_step_as_dict s =
    (let d = put_dict ''inputs'' (ps_inputs s)
               [(''step_id'', PStr (ps_step_id s)), (''action_type'', PStr (ps_action_type s)),
                (''name'', PStr (ps_name s))]
     in if ps_depends_on s = [] then d else d @ [(''depends_on'', PList (List.map PStr (ps_depends_on s)))])"

record strategy_plan =
  sl_plan_id :: string
  sl_steps :: "plan_step list"
  sl_safe_goal :: "string option"

definition new_strategy_plan :: "strategy_plan \<Rightarrow> strategy_plan res" where
  "new_strategy_plan p =
    try_bind (required_identifier (sl_plan_id p)) (\<lambda>plan_id.
    Inr (p\<lparr>sl_plan_id := plan_id, sl_safe_goal := norm_opt (sl_safe_goal p)\<rparr>))"

text \<open>The loop over the raw steps, which must be mappings.\<close>

fun plan_steps_from :: "pyval list \<Rightarrow> plan_step list res" where
  "plan_steps_from [] = Inr []"
| "plan_steps_from (PDict d # vs) =
    try_bind (plan_step_from_mapping d) (\<lambda>s. try_bind (plan_steps_from vs) (\<lambda>ss. Inr (s # ss)))"
| "plan_steps_from (v # vs) = Inl TypeError"

definition strategy_plan_from_mapping :: "pydict \<Rightarrow> strategy_plan res" where
  "strategy_plan_from_mapping item =
    (case seq_items (dict_get item ''steps'') of
       None \<Rightarrow> Inl TypeError
     | Some vs \<Rightarrow>
        try_bind (plan_steps_from vs) (\<lambda>steps.
        new_strategy_plan
          \<lparr>sl_plan_id = str_default (opt_text (py_or (dict_get item ''plan_id'') (dict_get item ''id''))) ''plan'',
           sl_steps = steps,
           sl_safe_goal = opt_text (py_or (dict_get item ''safe_goal'') (dict_get item ''goal''))\<rparr>))"

definition strategy_plan_as_dict :: "strategy_plan \<Rightarrow> pydict" where
  "strategy_plan_as_dict p =
    put_text ''safe_goal'' (sl_safe_goal p)
      [(''plan_id'', PStr (sl_plan_id p)), (''steps'', PList (List.map (\<lambda>s. PDict (plan_step_as_dict s)) (sl_steps p)))]"

definition plan_action_types :: "strategy_plan \<Rightarrow> string list" where
  "plan_action_types p = List.map ps_action_type (sl_steps p)"

section \<open>Task assessments\<close>

record task_assessment =
  ta_request_kind :: string
  ta_response_mode :: string
  ta_direct_answer_eligible :: bool
  ta_direct_answer :: "string option"
  ta_clarification_question :: "string option"
  ta_missing_required_inputs :: "string list"
  ta_required_computations :: "string list"
  ta_suggested_task_list :: "plan_step list"
  ta_preferred_agents :: "string list"
  ta_preferred_tools :: "string list"
  ta_visualization_intent :: bool
  ta_safe_goal :: "string option"
  ta_metadata :: pydict

definition assessment_modes :: "string list" where
  "assessment_modes = [''direct_answer'', ''request_user_input'', ''planned_execution'']"

definition norm_identifiers :: "string list \<Rightarrow> string list" where
  "norm_identifiers xs = List.map_filter (\<lambda>t. norm_opt (Some t)) xs"

definition new_task_assessment :: "task_assessment \<Rightarrow> task_assessment res" where
  "new_task_assessment a =
    try_bind (required_identifier (ta_request_kind a)) (\<lambda>kind.
    try_bind (required_identifier (ta_response_mode a)) (\<lambda>mode.
    if mode \<notin> set assessment_modes then Inl ValueError
    else
      (let n = \<lparr>ta_request_kind = kind, ta_response_mode = mode,
             ta_direct_answer_eligible = ta_direct_answer_eligible a,
             ta_direct_answer = norm_opt (ta_direct_answer a),
             ta_clarification_question = norm_opt (ta_clarification_question a),
             ta_missing_required_inputs = norm_identifiers (ta_missing_required_inputs a),
             ta_required_computations = norm_identifiers (ta_required_computations a),
             ta_suggested_task_list = ta_suggested_task_list a,
             ta_preferred_agents = norm_identifiers (ta_preferred_agents a),
             ta_preferred_tools = norm_identifiers (ta_preferred_tools a),
             ta_visualization_intent = ta_visualization_intent a, ta_safe_goal = norm_opt (ta_safe_goal a),
             ta_metadata = sanitize_metadata (Some (ta_metadata a))\<rparr>
       in if mode = ''direct_answer'' then
            (if ta_direct_answer n = None then Inl ValueError else Inr (n\<lparr>ta_direct_answer_eligible := True\<rparr>))
          else if mode = ''request_user_input'' then
            (if ta_clarification_question n = None then Inl ValueError
             else Inr (n\<lparr>ta_direct_answer_eligible := False\<rparr>))
          else if ta_suggested_task_list n = [] then Inl ValueError else Inr n)))"

fun step_mappings :: "pyval list \<Rightarrow> pydict list res" where
  "step_mappings [] = Inr []"
| "step_mappings (PDict d # vs) = try_bind (step_mappings vs) (\<lambda>ds. Inr (d # ds))"
| "step_mappings (v # vs) = Inl TypeError"

definition assessment_step_mappings :: "pyval \<Rightarrow> pydict list res" where
  "assessment_step_mappings v =
    (if v = PNone then Inr []
     else (case seq_items v of None \<Rightarrow> Inl TypeError | Some vs \<Rightarrow> step_mappings vs))"

definition chart_tokens :: "string list" where
  "chart_tokens = [''chart'', ''graph'', ''plot'', ''visual'']"

definition folded_text :: "pyval \<Rightarrow> string" where
  "folded_text v = casefold (str_default (opt_text v) [])"

definition looks_like_visualization_step :: "pydict \<Rightarrow> bool" where
  "looks_like_visualization_step raw =
    (let action = folded_text (py_or (dict_get raw ''action_type'') (dict_get raw ''action''));
         name = folded_text (dict_get raw ''name'')
     in list_ex (contains (action @ '' '' @ name)) chart_tokens
        \<or> (case dict_get raw ''inputs'' of
             PDict inputs \<Rightarrow> list_ex (\<lambda>(k, v). list_ex (contains (folded_text (PStr k))) chart_tokens) inputs
           | _ \<Rightarrow> False))"

definition looks_like_visualization_assessment :: "pydict \<Rightarrow> pydict list \<Rightarrow> bool" where
  "looks_like_visualization_assessment payload raw_steps =
    (list_ex (contains (folded_text (py_or (dict_get payload ''request_kind'') (dict_get payload ''kind''))))
       [''visual'', ''chart'', ''graph'', ''plot'']
     \<or> list_ex (\<lambda>n. contains (casefold n) ''chart'' \<or> contains (casefold n) ''visual'')
         (identifier_sequence (dict_get payload ''preferred_agents''))
     \<or> list_ex looks_like_visualization_step raw_steps)"

definition chart_step :: plan_step where
  "chart_step =
    \<lparr>ps_step_id = ''chart_1'', ps_action_type = ''agent_invoke'', ps_name = ''chart_agent'', ps_inputs = [],
     ps_depends_on = []\<rparr>"

fun plan_steps_of :: "pydict list \<Rightarrow> plan_step list res" where
  "plan_steps_of [] = Inr []"
| "plan_steps_of (d # ds) =
    try_bind (plan_step_from_mapping d) (\<lambda>s. try_bind (plan_steps_of ds) (\<lambda>ss. Inr (s # ss)))"

definition assessment_steps :: "pydict \<Rightarrow> pydict list \<Rightarrow> plan_step list res" where
  "assessment_steps payload raw_steps =
    (let charted = looks_like_visualization_assessment payload raw_steps
     in case plan_steps_of raw_steps of
          Inl e \<Rightarrow> if charted then Inr [chart_step] else Inl e
        | Inr steps \<Rightarrow> Inr (if steps \<noteq> [] then steps else if charted then [chart_step] else []))"

definition coerce_visualization_intent :: "pydict \<Rightarrow> pydict list \<Rightarrow> bool" where
  "coerce_visualization_intent payload raw_steps =
    (case dict_get payload ''visualization_intent'' of
       PBool b \<Rightarrow> b
     | PStr s \<Rightarrow> strip s \<noteq> [] \<or> looks_like_visualization_assessment payload raw_steps
     | _ \<Rightarrow> looks_like_visualization_assessment payload raw_steps)"

definition assessment_payload :: "pydict \<Rightarrow> pydict" where
  "assessment_payload item =
    (case dict_get item ''assessment'' of
       PDict d \<Rightarrow> d
     | _ \<Rightarrow> (case dict_get item ''task_assessment'' of PDict d \<Rightarrow> d | _ \<Rightarrow> item))"

definition task_assessment_from_mapping :: "pydict \<Rightarrow> task_assessment res" where
  "task_assessment_from_mapping item =
    (let payload = assessment_payload item;
         got = dict_get payload;
         listed = (if got ''suggested_task_list'' = PNone then got ''tasks'' else got ''suggested_task_list'');
         mode = opt_text (py_or (got ''response_mode'') (got ''branch''))
     in try_bind (assessment_step_mappings listed) (\<lambda>raw_steps.
        try_bind (assessment_steps payload raw_steps) (\<lambda>steps.
        let intent = coerce_visualization_intent payload raw_steps;
            agents = identifier_sequence (got ''preferred_agents'')
        in new_task_assessment
             \<lparr>ta_request_kind = str_default (opt_text (py_or (got ''request_kind'') (got ''kind''))) ''general_request'',
              ta_response_mode = str_default mode ''planned_execution'',
              ta_direct_answer_eligible = read_bool (got ''direct_answer_eligible'') (mode = Some ''direct_answer''),
              ta_direct_answer = opt_text (py_or (got ''direct_answer'') (got ''answer'')),
              ta_clarification_question = opt_text (py_or (got ''clarification_question'') (got ''question'')),
              ta_missing_required_inputs =
                identifier_sequence (py_or (got ''missing_required_inputs'') (got ''missing_inputs'')),
              ta_required_computations =
                identifier_sequence (py_or (got ''required_deterministic_computations'') (got ''deterministic_computations'')),
              ta_suggested_task_list = steps,
              ta_preferred_agents = (if intent \<and> ''chart_agent'' \<notin> set agents then [''chart_agent''] else agents),
              ta_preferred_tools = identifier_sequence (got ''preferred_tools''),
              ta_visualization_intent = intent,
              ta_safe_goal = opt_text (py_or (got ''safe_goal'') (got ''goal'')),
              ta_metadata = mapping_metadata (got ''metadata'')\<rparr>)))"

definition py_strs_list :: "string list \<Rightarrow> pyval" where
  "py_strs_list xs = PList (List.map PStr xs)"

definition task_assessment_as_dict :: "task_assessment \<Rightarrow> pydict" where
  "task_assessment_as_dict a =
    put_dict ''metadata'' (ta_metadata a)
      (put_text ''safe_goal'' (ta_safe_goal a)
        (put_text ''clarification_question'' (ta_clarification_question a)
          (put_text ''direct_answer'' (ta_direct_answer a)
            [(''request_kind'', PStr (ta_request_kind a)), (''response_mode'', PStr (ta_response_mode a)),
             (''direct_answer_eligible'', PBool (ta_direct_answer_eligible a)),
             (''missing_required_inputs'', py_strs_list (ta_missing_required_inputs a)),
             (''required_deterministic_computations'', py_strs_list (ta_required_computations a)),
             (''suggested_task_list'', PList (List.map (\<lambda>s. PDict (plan_step_as_dict s)) (ta_suggested_task_list a))),
             (''preferred_agents'', py_strs_list (ta_preferred_agents a)),
             (''preferred_tools'', py_strs_list (ta_preferred_tools a)),
             (''visualization_intent'', PBool (ta_visualization_intent a))])))"

section \<open>JSON in text\<close>

record json_reader =
  jr_loads :: "string \<Rightarrow> pyval option"
  jr_raw_decode :: "string \<Rightarrow> pyval option"

text \<open>\<open>str.splitlines\<close> on code points 0..255.\<close>

definition line_break :: "char \<Rightarrow> bool" where
  "line_break c \<longleftrightarrow> (of_char c :: nat) \<in> {10, 11, 12, 13, 28, 29, 30, 133}"

fun split_lines :: "string \<Rightarrow> string \<Rightarrow> string list" where
  "split_lines cur [] = (if cur = [] then [] else [cur])"
| "split_lines cur [c] = (if line_break c then [cur] else [cur @ [c]])"
| "split_lines cur (c # d # s) =
    (if (of_char c :: nat) = 13 \<and> (of_char d :: nat) = 10 then cur # split_lines [] s
     else if line_break c then cur # split_lines [] (d # s)
     else split_lines (cur @ [c]) (d # s))"

fun join_lines :: "string list \<Rightarrow> string" where
  "join_lines [] = []"
| "join_lines [l] = l"
| "join_lines (l # ls) = l @ CHR 0x0A # join_lines ls"

definition fence :: string where
  "fence = ''```''"

definition strip_json_fence :: "string \<Rightarrow> string" where
  "strip_json_fence text =
    (let n = strip text;
         ls = split_lines [] n
     in if \<not> startswith n fence then n
        else if 2 \<le> length ls \<and> startswith (hd ls) fence \<and> strip (last ls) = fence
          then strip (join_lines (butlast (tl ls))) else n)"

definition decode_mapping :: "json_reader \<Rightarrow> string \<Rightarrow> pydict option" where
  "decode_mapping jr text = (case jr_loads jr text of Some (PDict d) \<Rightarrow> Some d | _ \<Rightarrow> None)"

text \<open>The first mapping that can be decoded at an opening brace of the text.\<close>

fun first_mapping_at :: "json_reader \<Rightarrow> string \<Rightarrow> pydict option" where
  "first_mapping_at jr [] = None"
| "first_mapping_at jr (c # s) =
    (if c = CHR ''{'' then
       (case jr_raw_decode jr (c # s) of Some (PDict d) \<Rightarrow> Some d | _ \<Rightarrow> first_mapping_at jr s)
     else first_mapping_at jr s)"

definition extract_json_mapping :: "json_reader \<Rightarrow> string \<Rightarrow> pydict option" where
  "extract_json_mapping jr text =
    (let n = strip text
     in if n = [] then None
        else
          (case decode_mapping jr n of
             Some d \<Rightarrow> Some d
           | None \<Rightarrow>
              (case (if strip_json_fence n \<noteq> n then decode_mapping jr (strip_json_fence n) else None) of
                 Some d \<Rightarrow> Some d
               | None \<Rightarrow> first_mapping_at jr n)))"

definition task_assessment_from_payload :: "json_reader \<Rightarrow> pyval \<Rightarrow> task_assessment res" where
  "task_assessment_from_payload jr v =
    (case v of
       PDict d \<Rightarrow> task_assessment_from_mapping d
     | PStr s \<Rightarrow>
        (case extract_json_mapping jr s of None \<Rightarrow> Inl TypeError | Some d \<Rightarrow> task_assessment_from_mapping d)
     | _ \<Rightarrow> Inl TypeError)"

section \<open>Summaries\<close>

record tool_call_summary =
  tk_tool_name :: string
  tk_status :: string
  tk_safe_message :: "string option"
  tk_duration_ms :: "int option"
  tk_metadata :: pydict

definition new_tool_call_summary :: "tool_call_summary \<Rightarrow> tool_call_summary res" where
  "new_tool_call_summary t =
    try_bind (required_identifier (tk_tool_name t)) (\<lambda>name.
    try_bind (required_identifier (tk_status t)) (\<lambda>status.
    Inr \<lparr>tk_tool_name = name, tk_status = status, tk_safe_message = norm_opt (tk_safe_message t),
         tk_duration_ms = norm_int (tk_duration_ms t), tk_metadata = sanitize_metadata (Some (tk_metadata t))\<rparr>))"

definition tool_call_summary_from_mapping :: "pydict \<Rightarrow> tool_call_summary res" where
  "tool_call_summary_from_mapping item =
    new_tool_call_summary
      \<lparr>tk_tool_name = str_default (opt_text (py_or (py_or (dict_get item ''tool_name'') (dict_get item ''name''))
          (dict_get item ''tool''))) ''tool'',
       tk_status = str_default (opt_text (dict_get item ''status'')) ''completed'',
       tk_safe_message = opt_text (py_or (py_or (dict_get item ''safe_message'') (dict_get item ''summary''))
          (dict_get item ''message'')),
       tk_duration_ms = opt_int (dict_get item ''duration_ms''),
       tk_metadata = mapping_metadata (dict_get item ''metadata'')\<rparr>"

definition tool_call_summary_as_dict :: "tool_call_summary \<Rightarrow> pydict" where
  "tool_call_summary_as_dict t =
    put_dict ''metadata'' (tk_metadata t)
      (put_int ''duration_ms'' (tk_duration_ms t)
        (put_text ''safe_message'' (tk_safe_message t)
          [(''tool_name'', PStr (tk_tool_name t)), (''status'', PStr (tk_status t))]))"

record memory_search_summary =
  mk_source :: "string option"
  mk_result_count :: int
  mk_duration_ms :: "int option"
  mk_metadata :: pydict

definition new_memory_search_summary :: "memory_search_summary \<Rightarrow> memory_search_summary" where
  "new_memory_search_summary m =
    \<lparr>mk_source = norm_opt (mk_source m), mk_result_count = max (mk_result_count m) 0,
     mk_duration_ms = norm_int (mk_duration_ms m), mk_metadata = sanitize_metadata (Some (mk_metadata m))\<rparr>"

definition plain_int :: "pyval \<Rightarrow> int option" where
  "plain_int v = (case v of PInt i \<Rightarrow> Some i | _ \<Rightarrow> None)"

definition memory_search_summary_from_mapping :: "pydict \<Rightarrow> memory_search_summary" where
  "memory_search_summary_from_mapping item =
    new_memory_search_summary
      \<lparr>mk_source = opt_text (py_or (dict_get item ''source'') (dict_get item ''scope'')),
       mk_result_count =
         (case plain_int (dict_get item ''result_count'') of
            Some n \<Rightarrow> n
          | None \<Rightarrow> (case plain_int (dict_get item ''count'') of Some n \<Rightarrow> n | None \<Rightarrow> 0)),
       mk_duration_ms = opt_int (dict_get item ''duration_ms''),
       mk_metadata = mapping_metadata (dict_get item ''metadata'')\<rparr>"

definition memory_search_summary_as_dict :: "memory_search_summary \<Rightarrow> pydict" where
  "memory_search_summary_as_dict m =
    put_dict ''metadata'' (mk_metadata m)
      (put_int ''duration_ms'' (mk_duration_ms m)
        (put_text ''source'' (mk_source m) [(''result_count'', PInt (mk_result_count m))]))"

record memory_update_summary =
  mu_operation :: string
  mu_status :: string
  mu_safe_message :: "string option"
  mu_metadata :: pydict

definition new_memory_update_summary :: "memory_update_summary \<Rightarrow> memory_update_summary res" where
  "new_memory_update_summary m =
    try_bind (required_identifier (mu_operation m)) (\<lambda>operation.
    try_bind (required_identifier (mu_status m)) (\<lambda>status.
    Inr \<lparr>mu_operation = operation, mu_status = status, mu_safe_message = norm_opt (mu_safe_message m),
         mu_metadata = sanitize_metadata (Some (mu_metadata m))\<rparr>))"

definition memory_update_summary_from_mapping :: "pydict \<Rightarrow> memory_update_summary res" where
  "memory_update_summary_from_mapping item =
    new_memory_update_summary
      \<lparr>mu_operation = str_default (opt_text (py_or (py_or (dict_get item ''operation'') (dict_get item ''type''))
          (dict_get item ''action''))) ''memory_update'',
       mu_status = str_default (opt_text (dict_get item ''status'')) ''completed'',
       mu_safe_message = opt_text (py_or (py_or (dict_get item ''safe_message'') (dict_get item ''summary''))
          (dict_get item ''message'')),
       mu_metadata = mapping_metadata (dict_get item ''metadata'')\<rparr>"

definition memory_update_summary_as_dict :: "memory_update_summary \<Rightarrow> pydict" where
  "memory_update_summary_as_dict m =
    put_dict ''metadata'' (mu_metadata m)
      (put_text ''safe_message'' (mu_safe_message m)
        [(''operation'', PStr (mu_operation m)), (''status'', PStr (mu_status m))])"

record citation_summary =
  ci_label :: "string option"
  ci_source :: "string option"
  ci_metadata :: pydict

definition new_citation_summary :: "citation_summary \<Rightarrow> citation_summary" where
  "new_citation_summary c =
    \<lparr>ci_label = norm_opt (ci_label c), ci_source = norm_opt (ci_source c),
     ci_metadata = sanitize_metadata (Some (ci_metadata c))\<rparr>"

definition citation_summary_from_mapping :: "pydict \<Rightarrow> citation_summary" where
  "citation_summary_from_mapping item =
    new_citation_summary
      \<lparr>ci_label = opt_text (py_or (dict_get item ''label'') (dict_get item ''title'')),
       ci_source = opt_text (py_or (py_or (dict_get item ''source'') (dict_get item ''url'')) (dict_get item ''id'')),
       ci_metadata = mapping_metadata (dict_get item ''metadata'')\<rparr>"

definition citation_summary_as_dict :: "citation_summary \<Rightarrow> pydict" where
  "citation_summary_as_dict c =
    put_dict ''metadata'' (ci_metadata c) (put_text ''source'' (ci_source c) (put_text ''label'' (ci_label c) []))"

section \<open>Reading back\<close>

text \<open>A text the normalization leaves as it is, and one that may be missing.\<close>

definition settled_text :: "string \<Rightarrow> bool" where
  "settled_text s \<longleftrightarrow> s \<noteq> [] \<and> strip s = s \<and> length s \<le> max_text_chars"

definition settled_opt :: "string option \<Rightarrow> bool" where
  "settled_opt s \<longleftrightarrow> (case s of None \<Rightarrow> True | Some t \<Rightarrow> settled_text t)"

definition settled_metadata :: "pydict \<Rightarrow> bool" where
  "settled_metadata d \<longleftrightarrow> clean_metadata 0 (PDict d) \<and> short_texts (PDict d)"

lemma normalize_settled [simp]: "settled_text s \<Longrightarrow> normalize_text s = s"
  by (simp add: settled_text_def normalize_text_def)

lemma opt_text_settled [simp]: "settled_text s \<Longrightarrow> opt_text (PStr s) = Some s"
  by (simp add: opt_text_def settled_text_def normalize_text_def)

lemma opt_text_simps [simp]: "opt_text PNone = None" "opt_text (PInt i) = None" "opt_text (PDict d) = None"
  by (simp_all add: opt_text_def)

lemma norm_opt_settled [simp]: "settled_opt s \<Longrightarrow> norm_opt s = s"
  by (cases s) (simp_all add: norm_opt_def py_opt_str_def settled_opt_def)

lemma required_settled [simp]: "settled_text s \<Longrightarrow> required_identifier s = Inr s"
  by (simp add: required_identifier_def settled_text_def normalize_text_def)

lemma metadata_settled [simp]:
  "settled_metadata d \<Longrightarrow> sanitize_metadata (Some d) = d"
  by (simp add: settled_metadata_def sanitize_metadata_id)

lemma sanitize_empty [simp]: "sanitize_metadata (Some []) = []"
  by (simp add: sanitize_metadata_def max_metadata_items_def)

lemma settled_truth [simp]: "settled_text s \<Longrightarrow> py_truth (PStr s)"
  by (simp add: settled_text_def)

lemma str_default_settled [simp]: "settled_text s \<Longrightarrow> str_default (Some s) d = s"
  by (cases s) (simp_all add: settled_text_def str_default_def)

lemma str_default_None [simp]: "str_default None d = d"
  by (simp add: str_default_def)

lemma dict_get_snoc [simp]:
  "k' \<noteq> k \<Longrightarrow> dict_get (d @ [(k, v)]) k' = dict_get d k'"
  "k \<notin> fst ` set d \<Longrightarrow> dict_get (d @ [(k, v)]) k = v"
  by (induction d) auto

lemma dict_get_absent: "k \<notin> fst ` set d \<Longrightarrow> dict_get d k = PNone"
  by (induction d) auto

lemma put_keys [simp]:
  "k' \<in> fst ` set (put_text k s d) \<longleftrightarrow> k' \<in> fst ` set d \<or> s \<noteq> None \<and> k' = k"
  "k' \<in> fst ` set (put_int k i d) \<longleftrightarrow> k' \<in> fst ` set d \<or> i \<noteq> None \<and> k' = k"
  "k' \<in> fst ` set (put_dict k e d) \<longleftrightarrow> k' \<in> fst ` set d \<or> e \<noteq> [] \<and> k' = k"
  by (auto simp: put_text_def put_int_def put_dict_def split: option.splits)

lemma get_put_other [simp]:
  assumes "k' \<noteq> k"
  shows "dict_get (put_text k s d) k' = dict_get d k'" "dict_get (put_int k i d) k' = dict_get d k'"
    "dict_get (put_dict k e d) k' = dict_get d k'"
  using assms by (simp_all add: put_text_def put_int_def put_dict_def split: option.split)

lemma get_put_same [simp]:
  assumes "k \<notin> fst ` set d"
  shows "dict_get (put_text k s d) k = py_opt_str s"
    "dict_get (put_int k i d) k = (case i of None \<Rightarrow> PNone | Some n \<Rightarrow> PInt n)"
    "dict_get (put_dict k e d) k = (if e = [] then PNone else PDict e)"
  using assms by (simp_all add: put_text_def put_int_def put_dict_def py_opt_str_def dict_get_absent split: option.split)

lemma opt_text_py_opt [simp]: "settled_opt s \<Longrightarrow> opt_text (py_opt_str s) = s"
  by (cases s) (simp_all add: py_opt_str_def settled_opt_def)

lemma opt_text_falsy: "\<not> py_truth v \<Longrightarrow> opt_text v = None"
  by (cases v) (auto simp: opt_text_def strip_def rstrip_def)

lemma py_or_settled [simp]:
  "settled_text s \<Longrightarrow> py_or (PStr s) v = PStr s" "opt_text (py_or v PNone) = opt_text v"
  by (auto simp: py_or_def settled_text_def opt_text_falsy)

text \<open>A step summary as the store holds it.\<close>

definition settled_step :: "step_summary \<Rightarrow> bool" where
  "settled_step s \<longleftrightarrow> settled_text (sp_step_id s) \<and> settled_text (sp_step_type s) \<and> settled_text (sp_status s)
    \<and> settled_opt (sp_started_at s) \<and> settled_opt (sp_completed_at s) \<and> settled_opt (sp_safe_message s)
    \<and> norm_int (sp_duration_ms s) = sp_duration_ms s \<and> settled_metadata (sp_metadata s)"

lemma mapping_metadata_settled:
  "settled_metadata d \<Longrightarrow> mapping_metadata (if d = [] then PNone else PDict d) = d"
  by (cases "d = []") (simp_all add: mapping_metadata_def)

lemma opt_int_norm: "norm_int i = i \<Longrightarrow> opt_int (case i of None \<Rightarrow> PNone | Some n \<Rightarrow> PInt n) = i"
  by (cases i) (auto simp: opt_int_def norm_int_def)

lemma step_summary_round_trip:
  assumes "settled_step s"
  shows "step_summary_from_mapping (step_summary_as_dict s) = Inr s"
  using assms
  by (simp add: settled_step_def step_summary_from_mapping_def step_summary_as_dict_def new_step_summary_def
      mapping_metadata_settled opt_int_norm)

end
