(* ===== verification/Orch_State.thy ===== *)
theory Orch_State
  imports Orch_Models
begin

text \<open>
  The workflow state between turns: the stored document and its default (\<open>contracts/state.py\<close>), the snapshot
  orchestration is given, and the delta it returns (\<open>orchestration/state_delta.py\<close>).

  \<^item> A document is a dictionary of JSON values, so no object occurs in it twice and \<open>deepcopy\<close> is the identity.
  \<^item> The time stamp of a new document is an argument.
\<close>

section \<open>Documents\<close>

definition session_id_char :: "char \<Rightarrow> bool" where
  "session_id_char c \<longleftrightarrow>
    (let n = (of_char c :: nat)
     in 65 \<le> n \<and> n \<le> 90 \<or> 97 \<le> n \<and> n \<le> 122 \<or> 48 \<le> n \<and> n \<le> 57 \<or> n \<in> {95, 46, 58, 45})"

definition normalize_state_session_id :: "pyval \<Rightarrow> string res" where
  "normalize_state_session_id v =
    (case v of
       PStr s \<Rightarrow>
         (let n = strip s
          in if 3 \<le> length n \<and> length n \<le> 128 \<and> list_all session_id_char n then Inr n else Inl ValueError)
     | _ \<Rightarrow> Inl ValueError)"

definition default_workflow_state :: "string \<Rightarrow> string \<Rightarrow> pydict res" where
  "default_workflow_state session_id timestamp =
    try_bind (normalize_state_session_id (PStr session_id)) (\<lambda>sid.
    Inr [(''version'', PInt 1), (''session_id'', PStr sid), (''conversation'', PDict [(''messages'', PList [])]),
         (''workflow'', PDict [(''current_step'', PNone), (''checkpoint'', PNone), (''scratch'', PDict []),
            (''pending_actions'', PList [])]),
         (''last_result'', PDict [(''agent_name'', PNone), (''strategy_name'', PNone), (''llm_profile'', PNone)]),
         (''metadata'', PDict [(''created_at'', PStr timestamp), (''loaded_empty'', PBool True)])])"

section \<open>Snapshots\<close>

record state_snapshot =
  wf_session_id :: string
  wf_version :: int
  wf_messages :: "conv_message list"
  wf_active_usecase :: "string option"
  wf_active_agent :: "string option"
  wf_step_summaries :: "step_summary list"
  wf_pending_approvals :: "pydict list"
  wf_metadata :: pydict

definition as_mappings :: "pyval list \<Rightarrow> pydict list" where
  "as_mappings vs = List.map_filter (\<lambda>v. case v of PDict d \<Rightarrow> Some d | _ \<Rightarrow> None) vs"

text \<open>\<open>_sanitize_pending_approvals\<close>, of mappings; what is not a mapping is skipped before.\<close>

definition sanitize_approvals :: "pydict list \<Rightarrow> pydict list" where
  "sanitize_approvals ds = List.map (\<lambda>d. sanitize_metadata (Some d)) ds"

definition new_snapshot :: "state_snapshot \<Rightarrow> state_snapshot" where
  "new_snapshot s =
    s\<lparr>wf_pending_approvals := sanitize_approvals (wf_pending_approvals s),
      wf_metadata := sanitize_metadata (Some (wf_metadata s))\<rparr>"

definition sub_dict :: "pydict \<Rightarrow> string \<Rightarrow> pydict" where
  "sub_dict d k = (case dict_get d k of PDict e \<Rightarrow> e | _ \<Rightarrow> [])"

definition sub_list :: "pydict \<Rightarrow> string \<Rightarrow> pyval list" where
  "sub_list d k = (case dict_get d k of PList xs \<Rightarrow> xs | _ \<Rightarrow> [])"

definition read_all :: "(pydict \<Rightarrow> 'a res) \<Rightarrow> pyval list \<Rightarrow> 'a list" where
  "read_all f vs = List.map_filter (\<lambda>d. case f d of Inl e \<Rightarrow> None | Inr x \<Rightarrow> Some x) (as_mappings vs)"

definition project_messages :: "pydict \<Rightarrow> conv_message list" where
  "project_messages state = read_all conv_message_from_mapping (sub_list (sub_dict state ''conversation'') ''messages'')"

definition project_step_summaries :: "pydict \<Rightarrow> step_summary list" where
  "project_step_summaries state =
    read_all step_summary_from_mapping (sub_list (sub_dict state ''workflow'') ''step_summaries'')"

definition read_version :: "pydict \<Rightarrow> int" where
  "read_version state = (case dict_get state ''version'' of PInt n \<Rightarrow> if n > 0 then n else 1 | _ \<Rightarrow> 1)"

definition snapshot_from_document :: "string \<Rightarrow> pydict \<Rightarrow> int option \<Rightarrow> state_snapshot" where
  "snapshot_from_document session_id state version =
    new_snapshot
      \<lparr>wf_session_id = session_id,
       wf_version = (case version of Some n \<Rightarrow> if n > 0 then n else read_version state | None \<Rightarrow> read_version state),
       wf_messages = project_messages state,
       wf_active_usecase = read_optional_text (dict_get (sub_dict state ''metadata'') ''usecase''),
       wf_active_agent = read_optional_text (dict_get (sub_dict state ''last_result'') ''agent_name''),
       wf_step_summaries = project_step_summaries state,
       wf_pending_approvals =
         sanitize_approvals (as_mappings (sub_list (sub_dict state ''workflow'') ''pending_actions'')),
       wf_metadata = sanitize_metadata (Some (sub_dict state ''metadata''))\<rparr>"

text \<open>A record of the store; its two dates are their ISO text.\<close>

record state_record =
  rec_session_id :: string
  rec_state :: pydict
  rec_version :: "int option"
  rec_found :: bool
  rec_loaded_empty :: bool
  rec_message_count :: int
  rec_reset_generation :: int
  rec_created_at :: "string option"
  rec_updated_at :: "string option"
  rec_metadata :: pydict

definition snapshot_from_record :: "state_record \<Rightarrow> state_snapshot" where
  "snapshot_from_record r =
    snapshot_from_document (rec_session_id r) (rec_state r)
      (Some (case rec_version r of Some n \<Rightarrow> n | None \<Rightarrow> read_version (rec_state r)))"

section \<open>Deltas\<close>

record state_delta =
  de_append_messages :: "conv_message list"
  de_set_active_usecase :: "string option"
  de_set_active_agent :: "string option"
  de_append_step_summaries :: "step_summary list"
  de_append_pending_approvals :: "pydict list"
  de_metadata_patch :: pydict

definition new_state_delta :: "state_delta \<Rightarrow> state_delta" where
  "new_state_delta d =
    d\<lparr>de_append_pending_approvals := sanitize_approvals (de_append_pending_approvals d),
      de_metadata_patch := sanitize_metadata (Some (de_metadata_patch d))\<rparr>"

definition state_delta_to_dict :: "state_delta \<Rightarrow> pydict" where
  "state_delta_to_dict d =
    [(''append_messages'', PList (List.map (\<lambda>m. PDict (conv_message_as_dict m)) (de_append_messages d))),
     (''set_active_usecase'', py_opt_str (de_set_active_usecase d)),
     (''set_active_agent'', py_opt_str (de_set_active_agent d)),
     (''append_step_summaries'', PList (List.map (\<lambda>s. PDict (step_summary_as_dict s)) (de_append_step_summaries d))),
     (''append_pending_approvals'', PList (List.map PDict (de_append_pending_approvals d))),
     (''metadata_patch'', PDict (de_metadata_patch d))]"

definition ensure_dict :: "string \<Rightarrow> pydict \<Rightarrow> pydict" where
  "ensure_dict key d = (case dict_get d key of PDict e \<Rightarrow> d | _ \<Rightarrow> dict_set key (PDict []) d)"

text \<open>Storing back a list that was extended in place, and a section that was changed in place.\<close>

definition extend_list :: "string \<Rightarrow> pyval list \<Rightarrow> pydict \<Rightarrow> pydict" where
  "extend_list key vs d = dict_set key (PList (sub_list d key @ vs)) d"

definition set_opt_text :: "string \<Rightarrow> string option \<Rightarrow> pydict \<Rightarrow> pydict" where
  "set_opt_text key s d = (case s of None \<Rightarrow> d | Some t \<Rightarrow> dict_set key (PStr t) d)"

definition change_section :: "string \<Rightarrow> (pydict \<Rightarrow> pydict) \<Rightarrow> pydict \<Rightarrow> pydict" where
  "change_section key f d = dict_set key (PDict (f (sub_dict d key))) d"

definition apply_state_delta :: "pydict \<Rightarrow> state_delta \<Rightarrow> pydict" where
  "apply_state_delta state d =
    (let updated = ensure_dict ''last_result'' (ensure_dict ''metadata'' (ensure_dict ''workflow''
           (ensure_dict ''conversation'' state)))
     in change_section ''conversation''
          (extend_list ''messages'' (List.map (\<lambda>m. PDict (conv_message_as_dict m)) (de_append_messages d)))
        (change_section ''workflow''
          (extend_list ''pending_actions'' (List.map PDict (de_append_pending_approvals d))
           \<circ> extend_list ''step_summaries'' (List.map (\<lambda>s. PDict (step_summary_as_dict s)) (de_append_step_summaries d)))
        (change_section ''metadata''
          (\<lambda>md. dict_merge (set_opt_text ''usecase'' (de_set_active_usecase d) md) (de_metadata_patch d))
        (change_section ''last_result'' (set_opt_text ''agent_name'' (de_set_active_agent d)) updated))))"

section \<open>What the next turn sees\<close>

lemma map_filter_append [simp]: "List.map_filter f (xs @ ys) = List.map_filter f xs @ List.map_filter f ys"
  by (simp add: List.map_filter_def)

lemma as_mappings_append [simp]: "as_mappings (xs @ ys) = as_mappings xs @ as_mappings ys"
  by (simp add: as_mappings_def)

lemma as_mappings_dicts [simp]: "as_mappings (List.map (\<lambda>x. PDict (f x)) xs) = List.map f xs"
  by (induction xs) (simp_all add: as_mappings_def List.map_filter_def)

lemma read_all_append [simp]: "read_all f (xs @ ys) = read_all f xs @ read_all f ys"
  by (simp add: read_all_def)

lemma read_all_written:
  "\<forall>x \<in> set xs. f (g x) = Inr x \<Longrightarrow> read_all f (List.map (\<lambda>x. PDict (g x)) xs) = xs"
  by (induction xs) (simp_all add: read_all_def as_mappings_def List.map_filter_def)

lemma sub_dict_set [simp]: "sub_dict (dict_set k (PDict e) d) k' = (if k' = k then e else sub_dict d k')"
  by (simp add: sub_dict_def)

lemma sub_list_set [simp]: "sub_list (dict_set k (PList e) d) k' = (if k' = k then e else sub_list d k')"
  by (simp add: sub_list_def)

lemma sub_dict_ensure [simp]: "sub_dict (ensure_dict k d) k' = sub_dict d k'"
  by (auto simp: ensure_dict_def sub_dict_def split: pyval.split)

lemma sub_dict_change [simp]:
  "sub_dict (change_section k f d) k' = (if k' = k then f (sub_dict d k) else sub_dict d k')"
  by (simp add: change_section_def)

lemma sub_list_extend [simp]:
  "sub_list (extend_list k vs d) k' = (if k' = k then sub_list d k @ vs else sub_list d k')"
  by (simp add: extend_list_def)

lemma apply_state_delta_sections:
  "sub_dict (apply_state_delta state d) ''conversation'' =
    extend_list ''messages'' (List.map (\<lambda>m. PDict (conv_message_as_dict m)) (de_append_messages d))
      (sub_dict state ''conversation'')"
  "sub_dict (apply_state_delta state d) ''workflow'' =
    extend_list ''pending_actions'' (List.map PDict (de_append_pending_approvals d))
      (extend_list ''step_summaries'' (List.map (\<lambda>s. PDict (step_summary_as_dict s)) (de_append_step_summaries d))
        (sub_dict state ''workflow''))"
  "sub_dict (apply_state_delta state d) ''metadata'' =
    dict_merge (set_opt_text ''usecase'' (de_set_active_usecase d) (sub_dict state ''metadata'')) (de_metadata_patch d)"
  "sub_dict (apply_state_delta state d) ''last_result'' =
    set_opt_text ''agent_name'' (de_set_active_agent d) (sub_dict state ''last_result'')"
  by (simp_all add: apply_state_delta_def Let_def)

text \<open>A message as the store holds it: texts that the normalization leaves as they are, and the identifiers the
  ones in the metadata.\<close>

definition settled_conv :: "conv_message \<Rightarrow> bool" where
  "settled_conv m \<longleftrightarrow> settled_text (cm_role m) \<and> (cm_content m = [] \<or> settled_text (cm_content m))
    \<and> settled_opt (cm_created_at m) \<and> settled_metadata (cm_metadata m)
    \<and> cm_request_id m = opt_text (dict_get (cm_metadata m) ''request_id'')
    \<and> cm_turn_id m = opt_text (dict_get (cm_metadata m) ''turn_id'')
    \<and> cm_trace_id m = opt_text (dict_get (cm_metadata m) ''trace_id'')"

lemma set_default_present: "opt_text (dict_get d k) = s \<Longrightarrow> set_default_text k s d = d"
  by (auto simp: set_default_text_def dict_setdefault_def dict_get_def split: option.splits)

lemma settled_opt_metadata:
  assumes "settled_metadata d"
  shows "settled_opt (opt_text (dict_get d k))"
proof (cases "map_of d k")
  case (Some v)
  then have "(k, v) \<in> set d" by (rule map_of_SomeD)
  then have "short_texts v" using assms by (auto simp: settled_metadata_def)
  then show ?thesis
    using Some by (cases v) (auto simp: dict_get_def opt_text_def settled_opt_def settled_text_def normalize_text_def)
qed (simp add: dict_get_def settled_opt_def)

lemma empty_text: "opt_text (PStr []) = None" "normalize_text [] = []"
  by (simp_all add: opt_text_def normalize_text_def strip_def rstrip_def)

lemma conv_message_round_trip:
  assumes "settled_conv m"
  shows "conv_message_from_mapping (conv_message_as_dict m) = Inr m"
proof -
  note s = assms [unfolded settled_conv_def]
  have ids: "settled_opt (cm_request_id m)" "settled_opt (cm_turn_id m)" "settled_opt (cm_trace_id m)"
    using s settled_opt_metadata by metis+
  have enriched: "enrich_conversation_metadata m = cm_metadata m"
    using s by (simp add: enrich_conversation_metadata_def set_default_present)
  have content: "str_default (opt_text (PStr (cm_content m))) [] = cm_content m" "normalize_text (cm_content m) = cm_content m"
    using s by (auto simp: empty_text)
  have md: "(case (if cm_metadata m = [] then PNone else PDict (cm_metadata m)) of PDict d \<Rightarrow> d | _ \<Rightarrow> []) = cm_metadata m"
    by simp
  have built: "conv_message_from_mapping (conv_message_as_dict m) = new_conv_message m"
    using s md content(1)
    by (cases m) (simp add: conv_message_from_mapping_def conv_message_as_dict_def Let_def)
  have "required_identifier (cm_role m) = Inr (cm_role m)" "norm_opt (cm_created_at m) = cm_created_at m" using s by simp_all
  then show ?thesis
    unfolding built by (simp add: new_conv_message_def ids content(2) enriched)
qed

lemma map_of_dict_merge: "distinct (List.map fst e) \<Longrightarrow> map_of (dict_merge d e) = map_of d ++ map_of e"
proof (induction e arbitrary: d)
  case (Cons x e)
  obtain k v where x: "x = (k, v)" by force
  have "dict_merge d (x # e) = dict_merge (dict_set k v d) e" by (simp add: dict_merge_def x)
  moreover have "k \<notin> dom (map_of e)" using Cons.prems by (auto simp: x dom_map_of_conv_image_fst)
  ultimately show ?case
    using Cons by (auto simp: x fun_eq_iff map_add_def dom_def split: option.splits)
qed (simp add: dict_merge_def)

lemma distinct_sanitized: "distinct (List.map fst (sanitize_metadata (Some d)))"
proof -
  have "distinct (List.map fst (fold store_metadata_item items acc))" if "distinct (List.map fst acc)" for items acc
    using that by (induction items arbitrary: acc) (simp_all add: store_metadata_item_def Let_def)
  from this [of "[]"] show ?thesis by (simp add: sanitize_metadata_def)
qed

lemma dict_get_merge:
  "distinct (List.map fst e) \<Longrightarrow> dict_get (dict_merge d e) k = (if dict_has e k then dict_get e k else dict_get d k)"
  by (auto simp: dict_get_def dict_has_def map_of_dict_merge map_add_def split: option.splits)

lemma dict_get_set_opt [simp]:
  "dict_get (set_opt_text k s d) k' = (if k' = k \<and> s \<noteq> None then py_opt_str s else dict_get d k')"
  by (cases s) (simp_all add: set_opt_text_def py_opt_str_def)

text \<open>C39. The next turn sees what this one recorded: if the messages and steps of a delta are in the form that the
  models give them and within their limits (texts stripped and at most 8000 characters long, metadata that the sanitizer leaves as
  it is), applying the delta to any document and taking the snapshot of the result is the snapshot of the document extended by
  the delta: messages, steps and approvals in
  order and nothing lost, whatever else the document holds, the active agent the one the delta sets, if
  any, and the active use case the one the metadata patch or the delta sets, if any.\<close>

theorem applied_delta_is_visible:
  assumes "\<forall>m \<in> set (de_append_messages d). settled_conv m" "\<forall>s \<in> set (de_append_step_summaries d). settled_step s"
    and "d = new_state_delta d0"
    and "old = snapshot_from_document sid state v" "new = snapshot_from_document sid (apply_state_delta state d) v"
  shows "wf_messages new = wf_messages old @ de_append_messages d
    \<and> wf_step_summaries new = wf_step_summaries old @ de_append_step_summaries d
    \<and> wf_pending_approvals new =
        wf_pending_approvals old @ sanitize_approvals (sanitize_approvals (de_append_pending_approvals d))
    \<and> wf_active_agent new =
        (case de_set_active_agent d of None \<Rightarrow> wf_active_agent old | Some a \<Rightarrow> read_optional_text (PStr a))
    \<and> wf_active_usecase new =
        (if dict_has (de_metadata_patch d) ''usecase'' then read_optional_text (dict_get (de_metadata_patch d) ''usecase'')
         else case de_set_active_usecase d of None \<Rightarrow> wf_active_usecase old | Some u \<Rightarrow> read_optional_text (PStr u))"
proof -
  have "distinct (List.map fst (de_metadata_patch d))" by (simp add: assms(3) new_state_delta_def distinct_sanitized)
  moreover have "read_all conv_message_from_mapping (List.map (\<lambda>m. PDict (conv_message_as_dict m)) (de_append_messages d))
      = de_append_messages d"
    using assms(1) conv_message_round_trip by (intro read_all_written) blast
  moreover have "read_all step_summary_from_mapping
      (List.map (\<lambda>s. PDict (step_summary_as_dict s)) (de_append_step_summaries d)) = de_append_step_summaries d"
    using assms(2) step_summary_round_trip by (intro read_all_written) blast
  moreover have "as_mappings (List.map PDict ds) = ds" for ds
    using as_mappings_dicts [of "\<lambda>x. x" ds] by simp
  ultimately show ?thesis
    unfolding assms(4,5)
    by (simp add: snapshot_from_document_def new_snapshot_def project_messages_def project_step_summaries_def
        apply_state_delta_sections dict_get_merge sanitize_approvals_def py_opt_str_def split: option.split)
qed

text \<open>A delta that appends one message, applied to the document of a new session.\<close>

definition greeting :: conv_message where
  "greeting =
    \<lparr>cm_role = ''user'', cm_content = ''hello'', cm_created_at = None, cm_request_id = Some ''r1'', cm_turn_id = None,
     cm_trace_id = None, cm_metadata = [(''request_id'', PStr ''r1'')]\<rparr>"

definition greeting_delta :: state_delta where
  "greeting_delta =
    \<lparr>de_append_messages = [greeting], de_set_active_usecase = Some ''support'', de_set_active_agent = None,
     de_append_step_summaries = [], de_append_pending_approvals = [], de_metadata_patch = []\<rparr>"

theorem applied_delta_is_visible_witness:
  "\<exists>state. default_workflow_state ''s-1'' ''2025-01-01T00:00:00+00:00'' = Inr state
    \<and> wf_messages (snapshot_from_document ''s-1'' (apply_state_delta state greeting_delta) None) = [greeting]
    \<and> wf_active_usecase (snapshot_from_document ''s-1'' (apply_state_delta state greeting_delta) None) = Some ''support''"
proof -
  have all: "settled_text ''user''
     \<and> settled_text ''hello''
     \<and> settled_text ''r1''
     \<and> strip ''request_id'' = ''request_id''
     \<and> \<not> is_blocked_key ''request_id''
     \<and> read_optional_text (PStr ''support'') = Some ''support''
     \<and> new_state_delta greeting_delta = greeting_delta
     \<and> (case default_workflow_state ''s-1'' ''2025-01-01T00:00:00+00:00'' of Inl e \<Rightarrow> False
      | Inr state \<Rightarrow> wf_messages (snapshot_from_document ''s-1'' state None) = [])"
    by code_simp
  note facts = parts8 [OF all]
  have "settled_conv greeting"
    using facts(1-5) by (simp add: settled_conv_def greeting_def settled_opt_def settled_metadata_def
        max_metadata_items_def max_metadata_depth_def max_text_chars_def settled_text_def)
  then have "\<forall>m \<in> set (de_append_messages greeting_delta). settled_conv m"
    "\<forall>s \<in> set (de_append_step_summaries greeting_delta). settled_step s" by (simp_all add: greeting_delta_def)
  from applied_delta_is_visible [OF this facts(7) [symmetric] refl refl] facts(6,8) show ?thesis
    by (auto simp: greeting_delta_def dict_has_def split: sum.splits)
qed

end
