(* ===== verification/Agents_Config.thy ===== *)
theory Agents_Config
  imports Config_View
begin

text \<open>
  \<open>get_agents_settings\<close> of \<open>config/view.py\<close>: the defaults of all agents and the settings of every plugin, which
  default to them. A plugin section becomes a view of its own; the sections are those under \<open>agents.plugins\<close>,
  or, when there is none, the entries of \<open>agents\<close> other than \<open>defaults\<close> and \<open>plugins\<close>.
\<close>

section \<open>Settings\<close>

record agent_capabilities =
  ac_answer :: bool
  ac_review :: bool
  ac_stream :: bool
  ac_memory_read :: bool
  ac_memory_write :: bool
  ac_memory_candidate_extract :: bool
  ac_tool_intents :: bool
  ac_tool_execute :: bool
  ac_self_managed_memory :: bool
  ac_self_managed_tools :: bool

record agent_limits =
  al_max_prompt_context_bytes :: int
  al_max_output_chars :: int
  al_max_tool_intents :: int
  al_max_memory_candidates :: int
  al_max_llm_calls :: int
  al_max_self_managed_tool_calls :: int
  al_max_self_managed_memory_searches :: int

record agent_context_policy =
  ax_require_context_for_grounded_claims :: bool
  ax_cite_context_labels :: bool
  ax_max_context_items :: int
  ax_max_context_bytes :: int
  ax_allow_untrusted_context_instructions :: bool

record agent_memory_settings =
  am_search_enabled :: bool
  am_write_enabled :: bool
  am_allowed_project_ids :: "string list"
  am_default_project_id :: "string option"

record agent_plugin_settings =
  ap_name :: string
  ap_type :: string
  ap_enabled :: bool
  ap_display_name :: "string option"
  ap_description :: "string option"
  ap_llm_profile :: "string option"
  ap_prompt_profile :: "string option"
  ap_capabilities :: agent_capabilities
  ap_limits :: agent_limits
  ap_context_policy :: agent_context_policy
  ap_allowed_tool_intents :: "string list"
  ap_allowed_memory_scopes :: "string list"
  ap_memory :: agent_memory_settings
  ap_expose_metadata :: bool
  ap_stream_llm_deltas :: bool
  ap_module :: "string option"
  ap_class_name :: "string option"
  ap_system_prompt :: "string option"
  ap_developer_prompt :: "string option"
  ap_metadata :: pydict

record agents_settings =
  ag_enabled :: bool
  ag_stream_llm_deltas :: bool
  ag_expose_agent_metadata :: bool
  ag_strict_prompt_profile_validation :: bool
  ag_known_prompt_profiles :: "string list"
  ag_allow_self_managed_tools :: bool
  ag_allow_self_managed_memory :: bool
  ag_allow_memory_write :: bool
  ag_limits :: agent_limits
  ag_context_policy :: agent_context_policy
  ag_plugins :: "(string \<times> agent_plugin_settings) list"

section \<open>Reading\<close>

definition agent_plugin_sections :: "pyval \<Rightarrow> pydict res" where
  "agent_plugin_sections config =
    (case config_get config ''agents.plugins'' PNone of
       PNone \<Rightarrow>
         (case config_get config ''agents'' (PDict []) of
            PDict d \<Rightarrow> Inr (filter (\<lambda>(k, v). k \<noteq> ''defaults'' \<and> k \<noteq> ''plugins'') d)
          | _ \<Rightarrow> invalid_value ''agents'' ''mapping'')
     | PDict d \<Rightarrow> Inr d
     | _ \<Rightarrow> invalid_value ''agents.plugins'' ''mapping'')"

definition read_default_agent_limits :: "pyval \<Rightarrow> agent_limits res" where
  "read_default_agent_limits config =
    try_bind (cfg_int config ''agents.defaults.max_prompt_context_bytes'' 32000) (\<lambda>max_prompt_context_bytes.
    try_bind (cfg_int config ''agents.defaults.max_output_chars'' 12000) (\<lambda>max_output_chars.
    try_bind (cfg_int config ''agents.defaults.max_tool_intents'' 3) (\<lambda>max_tool_intents.
    try_bind (cfg_int config ''agents.defaults.max_memory_candidates'' 5) (\<lambda>max_memory_candidates.
    try_bind (cfg_int config ''agents.defaults.max_llm_calls'' 1) (\<lambda>max_llm_calls.
    try_bind (cfg_int config ''agents.defaults.max_self_managed_tool_calls'' 0) (\<lambda>max_self_managed_tool_calls.
    try_bind (cfg_int config ''agents.defaults.max_self_managed_memory_searches'' 0) (\<lambda>max_self_managed_memory_searches.
    Inr \<lparr>al_max_prompt_context_bytes = max_prompt_context_bytes,
      al_max_output_chars = max_output_chars,
      al_max_tool_intents = max_tool_intents,
      al_max_memory_candidates = max_memory_candidates,
      al_max_llm_calls = max_llm_calls,
      al_max_self_managed_tool_calls = max_self_managed_tool_calls,
      al_max_self_managed_memory_searches = max_self_managed_memory_searches\<rparr>)))))))"

definition default_agent_context_policy :: "agent_limits \<Rightarrow> agent_context_policy" where
  "default_agent_context_policy limits =
    \<lparr>ax_require_context_for_grounded_claims = False, ax_cite_context_labels = True, ax_max_context_items = 8,
     ax_max_context_bytes = al_max_prompt_context_bytes limits, ax_allow_untrusted_context_instructions = False\<rparr>"

definition read_agent_capabilities :: "pyval \<Rightarrow> agent_capabilities res" where
  "read_agent_capabilities view =
    try_bind (cfg_bool view ''agent.capabilities.answer'' True) (\<lambda>answer.
    try_bind (cfg_bool view ''agent.capabilities.review'' False) (\<lambda>review.
    try_bind (cfg_bool view ''agent.capabilities.stream'' True) (\<lambda>stream.
    try_bind (cfg_bool view ''agent.capabilities.memory_read'' False) (\<lambda>memory_read.
    try_bind (cfg_bool view ''agent.capabilities.memory_write'' False) (\<lambda>memory_write.
    try_bind (cfg_bool view ''agent.capabilities.memory_candidate_extract'' False) (\<lambda>memory_candidate_extract.
    try_bind (cfg_bool view ''agent.capabilities.tool_intents'' False) (\<lambda>tool_intents.
    try_bind (cfg_bool view ''agent.capabilities.tool_execute'' False) (\<lambda>tool_execute.
    try_bind (cfg_bool view ''agent.capabilities.self_managed_memory'' False) (\<lambda>self_managed_memory.
    try_bind (cfg_bool view ''agent.capabilities.self_managed_tools'' False) (\<lambda>self_managed_tools.
    Inr \<lparr>ac_answer = answer,
      ac_review = review,
      ac_stream = stream,
      ac_memory_read = memory_read,
      ac_memory_write = memory_write,
      ac_memory_candidate_extract = memory_candidate_extract,
      ac_tool_intents = tool_intents,
      ac_tool_execute = tool_execute,
      ac_self_managed_memory = self_managed_memory,
      ac_self_managed_tools = self_managed_tools\<rparr>))))))))))"

definition read_agent_limits :: "pyval \<Rightarrow> agent_limits \<Rightarrow> agent_limits res" where
  "read_agent_limits view dl =
    try_bind (cfg_int view ''agent.limits.max_prompt_context_bytes'' (al_max_prompt_context_bytes dl)) (\<lambda>max_prompt_context_bytes.
    try_bind (cfg_int view ''agent.limits.max_output_chars'' (al_max_output_chars dl)) (\<lambda>max_output_chars.
    try_bind (cfg_int view ''agent.limits.max_tool_intents'' (al_max_tool_intents dl)) (\<lambda>max_tool_intents.
    try_bind (cfg_int view ''agent.limits.max_memory_candidates'' (al_max_memory_candidates dl)) (\<lambda>max_memory_candidates.
    try_bind (cfg_int view ''agent.limits.max_llm_calls'' (al_max_llm_calls dl)) (\<lambda>max_llm_calls.
    try_bind (cfg_int view ''agent.limits.max_self_managed_tool_calls'' (al_max_self_managed_tool_calls dl)) (\<lambda>max_self_managed_tool_calls.
    try_bind (cfg_int view ''agent.limits.max_self_managed_memory_searches'' (al_max_self_managed_memory_searches dl)) (\<lambda>max_self_managed_memory_searches.
    Inr \<lparr>al_max_prompt_context_bytes = max_prompt_context_bytes,
      al_max_output_chars = max_output_chars,
      al_max_tool_intents = max_tool_intents,
      al_max_memory_candidates = max_memory_candidates,
      al_max_llm_calls = max_llm_calls,
      al_max_self_managed_tool_calls = max_self_managed_tool_calls,
      al_max_self_managed_memory_searches = max_self_managed_memory_searches\<rparr>)))))))"

definition read_agent_context_policy :: "pyval \<Rightarrow> agent_context_policy \<Rightarrow> agent_context_policy res" where
  "read_agent_context_policy view dp =
    try_bind (cfg_bool view ''agent.context_policy.require_context_for_grounded_claims'' (ax_require_context_for_grounded_claims dp)) (\<lambda>require_context_for_grounded_claims.
    try_bind (cfg_bool view ''agent.context_policy.cite_context_labels'' (ax_cite_context_labels dp)) (\<lambda>cite_context_labels.
    try_bind (cfg_int view ''agent.context_policy.max_context_items'' (ax_max_context_items dp)) (\<lambda>max_context_items.
    try_bind (cfg_int view ''agent.context_policy.max_context_bytes'' (ax_max_context_bytes dp)) (\<lambda>max_context_bytes.
    try_bind (cfg_bool view ''agent.context_policy.allow_untrusted_context_instructions'' (ax_allow_untrusted_context_instructions dp)) (\<lambda>allow_untrusted_context_instructions.
    Inr \<lparr>ax_require_context_for_grounded_claims = require_context_for_grounded_claims,
      ax_cite_context_labels = cite_context_labels,
      ax_max_context_items = max_context_items,
      ax_max_context_bytes = max_context_bytes,
      ax_allow_untrusted_context_instructions = allow_untrusted_context_instructions\<rparr>)))))"

definition read_agent_memory :: "pyval \<Rightarrow> agent_memory_settings res" where
  "read_agent_memory view =
    try_bind (cfg_bool view ''agent.memory.search_enabled'' False) (\<lambda>search_enabled.
    try_bind (cfg_bool view ''agent.memory.write_enabled'' False) (\<lambda>write_enabled.
    try_bind (cfg_str_tuple view ''agent.memory.allowed_project_ids'' []) (\<lambda>allowed_project_ids.
    try_bind (cfg_optional_str_or_none view ''agent.memory.default_project_id'') (\<lambda>default_project_id.
    Inr \<lparr>am_search_enabled = search_enabled,
      am_write_enabled = write_enabled,
      am_allowed_project_ids = allowed_project_ids,
      am_default_project_id = default_project_id\<rparr>))))"

definition read_agent_plugin ::
  "pyval \<Rightarrow> string \<Rightarrow> pydict \<Rightarrow> agent_limits \<Rightarrow> agent_context_policy \<Rightarrow> agent_plugin_settings res" where
  "read_agent_plugin config name plugin_section dl dp =
    (let view = config_view [(''agent'', unfreeze (PDict plugin_section))] in
    try_bind (cfg_str view ''agent.type'' ''custom'') (\<lambda>type.
    try_bind (cfg_bool config ''agents.defaults.enabled'' True) (\<lambda>default_enabled.
    try_bind (cfg_bool view ''agent.enabled'' default_enabled) (\<lambda>enabled.
    try_bind (cfg_optional_str_or_none view ''agent.display_name'') (\<lambda>display_name.
    try_bind (cfg_optional_str_or_none view ''agent.description'') (\<lambda>description.
    try_bind (cfg_optional_str_or_none view ''agent.llm_profile'') (\<lambda>llm_profile.
    try_bind (cfg_optional_str_or_none view ''agent.prompt_profile'') (\<lambda>prompt_profile.
    try_bind (read_agent_capabilities view) (\<lambda>capabilities.
    try_bind (read_agent_limits view dl) (\<lambda>limits.
    try_bind (read_agent_context_policy view dp) (\<lambda>context_policy.
    try_bind (cfg_str_tuple view ''agent.allowed_tool_intents'' []) (\<lambda>allowed_tool_intents.
    try_bind (cfg_str_tuple view ''agent.allowed_memory_scopes'' []) (\<lambda>allowed_memory_scopes.
    try_bind (read_agent_memory view) (\<lambda>memory.
    try_bind (cfg_bool config ''agents.defaults.expose_agent_metadata'' True) (\<lambda>default_expose.
    try_bind (cfg_bool view ''agent.expose_metadata'' default_expose) (\<lambda>expose_metadata.
    try_bind (cfg_bool config ''agents.defaults.stream_llm_deltas'' True) (\<lambda>default_deltas.
    try_bind (cfg_bool view ''agent.stream_llm_deltas'' default_deltas) (\<lambda>stream_llm_deltas.
    try_bind (cfg_optional_str_or_none view ''agent.module'') (\<lambda>module.
    try_bind (cfg_optional_str_or_none view ''agent.class_name'') (\<lambda>class_name.
    try_bind (cfg_optional_str_or_none view ''agent.prompts.system_prompt'') (\<lambda>system_prompt.
    try_bind (cfg_optional_str_or_none view ''agent.prompts.developer_prompt'') (\<lambda>developer_prompt.
    try_bind (cfg_mapping_dict view ''agent.metadata'') (\<lambda>metadata.
    Inr \<lparr>ap_name = name,
      ap_type = type,
      ap_enabled = enabled,
      ap_display_name = display_name,
      ap_description = description,
      ap_llm_profile = llm_profile,
      ap_prompt_profile = prompt_profile,
      ap_capabilities = capabilities,
      ap_limits = limits,
      ap_context_policy = context_policy,
      ap_allowed_tool_intents = allowed_tool_intents,
      ap_allowed_memory_scopes = allowed_memory_scopes,
      ap_memory = memory,
      ap_expose_metadata = expose_metadata,
      ap_stream_llm_deltas = stream_llm_deltas,
      ap_module = module,
      ap_class_name = class_name,
      ap_system_prompt = system_prompt,
      ap_developer_prompt = developer_prompt,
      ap_metadata = metadata\<rparr>)))))))))))))))))))))))"

fun read_agent_plugins ::
  "pyval \<Rightarrow> agent_limits \<Rightarrow> agent_context_policy \<Rightarrow> pydict \<Rightarrow> (string \<times> agent_plugin_settings) list \<Rightarrow>
   (string \<times> agent_plugin_settings) list res" where
  "read_agent_plugins config dl dp [] acc = Inr acc"
| "read_agent_plugins config dl dp ((name, PDict plugin_section) # rest) acc =
    try_bind (read_agent_plugin config name plugin_section dl dp) (\<lambda>p.
      read_agent_plugins config dl dp rest (dict_set name p acc))"
| "read_agent_plugins config dl dp ((name, _) # rest) acc =
    Inl (ConfigurationError (''Invalid config value at agents.plugins.'' @ name @ '': expected mapping.''))"

definition get_agents_settings :: "pyval \<Rightarrow> agents_settings res" where
  "get_agents_settings config =
    try_bind (agent_plugin_sections config) (\<lambda>plugin_sections.
    try_bind (read_default_agent_limits config) (\<lambda>limits.
    try_bind (read_agent_plugins config limits (default_agent_context_policy limits) plugin_sections []) (\<lambda>plugins.
    try_bind (cfg_bool config ''agents.defaults.enabled'' True) (\<lambda>enabled.
    try_bind (cfg_bool config ''agents.defaults.stream_llm_deltas'' True) (\<lambda>stream_llm_deltas.
    try_bind (cfg_bool config ''agents.defaults.expose_agent_metadata'' True) (\<lambda>expose_agent_metadata.
    try_bind (cfg_bool config ''agents.defaults.strict_prompt_profile_validation'' False) (\<lambda>strict_prompt_profile_validation.
    try_bind (cfg_str_tuple config ''agents.defaults.known_prompt_profiles'' []) (\<lambda>known_prompt_profiles.
    try_bind (cfg_bool config ''agents.defaults.allow_self_managed_tools'' False) (\<lambda>allow_self_managed_tools.
    try_bind (cfg_bool config ''agents.defaults.allow_self_managed_memory'' False) (\<lambda>allow_self_managed_memory.
    try_bind (cfg_bool config ''agents.defaults.allow_memory_write'' False) (\<lambda>allow_memory_write.
    Inr \<lparr>ag_enabled = enabled,
      ag_stream_llm_deltas = stream_llm_deltas,
      ag_expose_agent_metadata = expose_agent_metadata,
      ag_strict_prompt_profile_validation = strict_prompt_profile_validation,
      ag_known_prompt_profiles = known_prompt_profiles,
      ag_allow_self_managed_tools = allow_self_managed_tools,
      ag_allow_self_managed_memory = allow_self_managed_memory,
      ag_allow_memory_write = allow_memory_write,
      ag_limits = limits,
      ag_context_policy = default_agent_context_policy limits,
      ag_plugins = plugins\<rparr>)))))))))))"

declare get_agents_settings_def [reader_defs] read_agent_plugin_def [reader_defs] read_agent_memory_def [reader_defs]
  read_agent_context_policy_def [reader_defs] read_agent_limits_def [reader_defs]
  read_agent_capabilities_def [reader_defs] default_agent_context_policy_def [reader_defs]
  read_default_agent_limits_def [reader_defs] agent_plugin_sections_def [reader_defs]

end
