(* ===== verification/Memory_Scopes.thy ===== *)
theory Memory_Scopes
  imports Agents_Config Orch_Config Orch_Models Policy_Requests
begin

text \<open>
  The scopes of memory operations (\<open>memory/scopes.py\<close>) and the errors of the memory gateway
  (\<open>contracts/errors.py\<close>): which user, project, tenant and session one operation is about, resolved from what
  it names, from the request, from the runtime and from the projects the configuration allows.
\<close>

section \<open>Errors\<close>

datatype memory_class =
    MemoryGatewayError
  | MemoryDisabledError
  | MemoryInvalidScopeError
  | MemoryNotFoundError
  | MemoryPolicyDeniedError
  | MemoryPolicyApprovalRequiredError
  | MemoryAdapterError
  | MemoryIngestionError
  | MemoryPrivacyError

text \<open>An exception of a memory operation: one of the classes above, one of other code that passes through, or
  one of the adapter by its class name.\<close>

datatype memory_exc =
    MemoryExc memory_class string
  | OtherExc pyerr
  | AdapterExc string

type_synonym 'a mem_res = "memory_exc + 'a"

definition lift_err :: "'a res \<Rightarrow> 'a mem_res" where
  "lift_err m = (case m of Inl e \<Rightarrow> Inl (OtherExc e) | Inr x \<Rightarrow> Inr x)"

lemma lift_err_eq_Inr [simp]: "lift_err m = Inr x \<longleftrightarrow> m = Inr x"
  by (cases m) (simp_all add: lift_err_def)

section \<open>Summaries\<close>

definition scope_summary :: "memory_scope \<Rightarrow> pydict" where
  "scope_summary scope =
    (let n = ms_normalized scope;
         s0 = ms_summary n;
         s1 = (case read_optional_text (dict_get (ms_metadata n) ''project_scope_resolution'') of
                 None \<Rightarrow> s0 | Some t \<Rightarrow> dict_set ''project_scope_resolution'' (PStr t) s0)
     in case read_positive_int (dict_get (ms_metadata n) ''project_scope_allowed_count'') of
          None \<Rightarrow> s1 | Some k \<Rightarrow> dict_set ''project_scope_allowed_count'' k s1)"

section \<open>Projects\<close>

record project_scope_settings =
  px_allowed_project_ids :: "string list"
  px_usecase_default_project_id :: "string option"
  px_agent_default_project_id :: "string option"

definition resolve_allowed_project_ids :: "string list \<Rightarrow> string list \<Rightarrow> string list" where
  "resolve_allowed_project_ids usecase_ids agent_ids =
    (if usecase_ids \<noteq> [] \<and> agent_ids \<noteq> [] then filter (\<lambda>p. p \<in> set agent_ids) usecase_ids
     else if usecase_ids \<noteq> [] then usecase_ids else if agent_ids \<noteq> [] then agent_ids else [])"

text \<open>\<open>try: ... except ConfigurationError: None\<close>; other exceptions leave the function.\<close>

definition config_or_none :: "'a res \<Rightarrow> 'a option res" where
  "config_or_none m =
    (case m of Inl (ConfigurationError _) \<Rightarrow> Inr None | Inl e \<Rightarrow> Inl e | Inr x \<Rightarrow> Inr (Some x))"

definition usecase_projects :: "orchestration_settings option \<Rightarrow> string option \<Rightarrow> string list \<times> string option" where
  "usecase_projects settings usecase_name =
    (case settings of
       None \<Rightarrow> ([], None)
     | Some s \<Rightarrow>
        (case usecase_name of
           None \<Rightarrow> ([], None)
         | Some n \<Rightarrow>
            (case map_of (os_usecases s) n of
               None \<Rightarrow> ([], None)
             | Some u \<Rightarrow> (um_allowed_project_ids (us_memory u), um_default_project_id (us_memory u)))))"

definition agent_projects :: "agents_settings option \<Rightarrow> string option \<Rightarrow> string list \<times> string option" where
  "agent_projects settings agent_name =
    (case settings of
       None \<Rightarrow> ([], None)
     | Some s \<Rightarrow>
        (case agent_name of
           None \<Rightarrow> ([], None)
         | Some n \<Rightarrow>
            (case map_of (ag_plugins s) n of
               None \<Rightarrow> ([], None)
             | Some p \<Rightarrow> (am_allowed_project_ids (ap_memory p), am_default_project_id (ap_memory p)))))"

definition read_project_scope_settings ::
  "pyval \<Rightarrow> string option \<Rightarrow> string option \<Rightarrow> project_scope_settings mem_res" where
  "read_project_scope_settings config usecase_name agent_name =
    try_bind (lift_err (config_or_none (get_orchestration_settings config))) (\<lambda>orchestration.
    try_bind (lift_err (config_or_none (get_agents_settings config))) (\<lambda>agents.
    let (usecase_ids, usecase_default) = usecase_projects orchestration usecase_name;
        (agent_ids, agent_default) = agent_projects agents agent_name;
        allowed = resolve_allowed_project_ids usecase_ids agent_ids
    in if usecase_ids \<noteq> [] \<and> agent_ids \<noteq> [] \<and> allowed = [] then
         Inl (MemoryExc MemoryInvalidScopeError
           ''No allowed memory project_id is shared by the active use case and agent.'')
       else
         Inr \<lparr>px_allowed_project_ids = allowed, px_usecase_default_project_id = usecase_default,
              px_agent_default_project_id = agent_default\<rparr>))"

definition default_in_allowed :: "string option \<Rightarrow> string list \<Rightarrow> string option" where
  "default_in_allowed v allowed = (case v of None \<Rightarrow> None | Some p \<Rightarrow> if p \<in> set allowed then Some p else None)"

definition resolve_configured_project_id ::
  "string option \<Rightarrow> project_scope_settings \<Rightarrow> (string option \<times> string option) mem_res" where
  "resolve_configured_project_id explicit settings =
    (let allowed = px_allowed_project_ids settings
     in case explicit of
          Some p \<Rightarrow>
            if allowed \<noteq> [] \<and> p \<notin> set allowed then
              Inl (MemoryExc MemoryInvalidScopeError
                (''Requested memory project_id '' @ quoted p @ '' is not allowed.''))
            else Inr (Some p, Some ''explicit'')
        | None \<Rightarrow>
            if allowed = [] then Inr (None, None)
            else
              (case default_in_allowed (px_usecase_default_project_id settings) allowed of
                 Some p \<Rightarrow> Inr (Some p, Some ''usecase_default'')
               | None \<Rightarrow>
                  (case default_in_allowed (px_agent_default_project_id settings) allowed of
                     Some p \<Rightarrow> Inr (Some p, Some ''agent_default'')
                   | None \<Rightarrow>
                      (case allowed of
                         [p] \<Rightarrow> Inr (Some p, Some ''singleton_intersection'')
                       | _ \<Rightarrow> Inl (MemoryExc MemoryInvalidScopeError
                               ''Memory project scope is ambiguous; provide project_id explicitly or configure a default_project_id.'')))))"

text \<open>The first of the values that are given, when they are all the same.\<close>

definition resolve_explicit_project_id :: "string option list \<Rightarrow> string option mem_res" where
  "resolve_explicit_project_id values =
    (case List.map_filter (\<lambda>v. v) values of
       [] \<Rightarrow> Inr None
     | p # ps \<Rightarrow>
        if list_all (\<lambda>q. q = p) ps then Inr (Some p)
        else Inl (MemoryExc MemoryInvalidScopeError ''Cross-project memory scope overrides are not allowed.''))"

section \<open>Resolution\<close>

text \<open>What the operation, the request and the runtime name, in this order.\<close>

definition scope_usecase :: "memory_scope \<Rightarrow> orchestration_context \<Rightarrow> string option" where
  "scope_usecase n c =
    str_or (str_or (ms_usecase n) (norm_text (rc_usecase (octx_request c))))
      (read_optional_text
        (py_or (dict_get (octx_runtime_metadata c) ''usecase_name'') (dict_get (octx_runtime_metadata c) ''usecase'')))"

definition scope_agent :: "memory_scope \<Rightarrow> orchestration_context \<Rightarrow> string option" where
  "scope_agent n c = str_or (ms_agent_name n) (read_optional_text (dict_get (octx_runtime_metadata c) ''agent_name''))"

definition named_projects :: "memory_scope \<Rightarrow> orchestration_context \<Rightarrow> string option list" where
  "named_projects n c =
    [ms_project_id n, read_optional_text (dict_get (rc_metadata (octx_request c)) ''project_id''),
     read_optional_text (dict_get (octx_runtime_metadata c) ''project_id'')]"

definition request_user :: "orchestration_context \<Rightarrow> string option" where
  "request_user c = norm_text (Some (rc_user_id (octx_request c)))"

definition put_resolution :: "string option \<Rightarrow> string list \<Rightarrow> memory_scope \<Rightarrow> memory_scope" where
  "put_resolution resolution allowed s =
    (let s1 = (case resolution of
                 None \<Rightarrow> s
               | Some t \<Rightarrow> s\<lparr>ms_metadata := dict_set ''project_scope_resolution'' (PStr t) (ms_metadata s)\<rparr>)
     in if allowed = [] then s1
        else s1\<lparr>ms_metadata :=
               dict_set ''project_scope_allowed_count'' (PInt (int (length allowed))) (ms_metadata s1)\<rparr>)"

definition assemble_scope ::
  "memory_scope \<Rightarrow> orchestration_context \<Rightarrow> string option \<Rightarrow> string option \<Rightarrow> memory_scope" where
  "assemble_scope n c user project =
    (let rc = octx_request c
     in memory_scope_post_init
          \<lparr>ms_user_id = user, ms_project_id = project,
           ms_tenant_id = str_or (str_or (ms_tenant_id n)
               (read_optional_text (dict_get (rc_metadata rc) ''tenant_id'')))
             (read_optional_text (dict_get (octx_runtime_metadata c) ''tenant_id'')),
           ms_session_id = str_or (ms_session_id n) (norm_text (Some (rc_session_id rc))),
           ms_agent_name = scope_agent n c, ms_usecase = scope_usecase n c,
           ms_source_id = ms_source_id n, ms_document_id = ms_document_id n, ms_tags = ms_tags n,
           ms_metadata = ms_metadata n\<rparr>)"

definition resolve_memory_scope :: "memory_scope \<Rightarrow> orchestration_context \<Rightarrow> string \<Rightarrow> memory_scope mem_res" where
  "resolve_memory_scope scope c default_scope =
    (let n = ms_normalized scope
     in if ms_user_id n \<noteq> None \<and> request_user c \<noteq> None \<and> ms_user_id n \<noteq> request_user c then
          Inl (MemoryExc MemoryInvalidScopeError ''Cross-user memory scope overrides are not allowed.'')
        else
          try_bind (resolve_explicit_project_id (named_projects n c)) (\<lambda>explicit.
          try_bind (read_project_scope_settings (octx_config c) (scope_usecase n c) (scope_agent n c)) (\<lambda>settings.
          try_bind (resolve_configured_project_id explicit settings) (\<lambda>(project, resolution).
          let user = (if ms_user_id n = None \<and> project = None \<and> default_scope = ''user'' then request_user c
                      else ms_user_id n)
          in Inr (put_resolution resolution (px_allowed_project_ids settings)
               (assemble_scope n c user project))))))"

definition scope_to_policy_scope :: "memory_scope \<Rightarrow> pydict" where
  "scope_to_policy_scope scope =
    (let n = ms_normalized scope
     in [(''user_id'', py_opt_str (ms_user_id n)), (''project_id'', py_opt_str (ms_project_id n)),
         (''tenant_id'', py_opt_str (ms_tenant_id n)), (''session_id'', py_opt_str (ms_session_id n)),
         (''agent_name'', py_opt_str (ms_agent_name n)), (''usecase'', py_opt_str (ms_usecase n)),
         (''source_id'', py_opt_str (ms_source_id n)), (''document_id'', py_opt_str (ms_document_id n)),
         (''tags'', py_strs_list (ms_tags n)), (''metadata'', PDict (ms_metadata n))])"

section \<open>Whose memory it is\<close>

lemma norm_read_text [simp]: "norm_text (read_optional_text v) = read_optional_text v"
  by (cases v) (auto simp: read_optional_text_def norm_text_def Let_def split: option.splits)

lemma norm_str_or: "norm_text a = a \<Longrightarrow> norm_text b = b \<Longrightarrow> norm_text (str_or a b) = str_or a b"
  by (cases "(a, b)" rule: str_or.cases) auto

lemma scope_names_settled:
  assumes "ms_normalized n = n"
  shows "norm_text (scope_usecase n c) = scope_usecase n c" and "norm_text (scope_agent n c) = scope_agent n c"
    and "\<And>x. x \<in> set (named_projects n c) \<Longrightarrow> norm_text x = x"
proof -
  have n: "norm_text (ms_usecase n) = ms_usecase n" "norm_text (ms_agent_name n) = ms_agent_name n"
    "norm_text (ms_project_id n) = ms_project_id n"
    using arg_cong [OF assms, of ms_usecase] arg_cong [OF assms, of ms_agent_name]
      arg_cong [OF assms, of ms_project_id]
    by (simp_all add: ms_normalized_def memory_scope_post_init_def)
  show "norm_text (scope_usecase n c) = scope_usecase n c" "norm_text (scope_agent n c) = scope_agent n c"
    unfolding scope_usecase_def scope_agent_def by (intro norm_str_or n norm_read_text norm_text_idem)+
  show "norm_text x = x" if "x \<in> set (named_projects n c)" for x
    using that n(3) by (auto simp: named_projects_def)
qed

lemma memory_scope_normalized_idem [simp]: "ms_normalized (ms_normalized s) = ms_normalized s"
  by (simp add: ms_normalized_def memory_scope_post_init_def)

lemma put_resolution_fields [simp]:
  "ms_user_id (put_resolution x a s) = ms_user_id s" "ms_project_id (put_resolution x a s) = ms_project_id s"
  "ms_tenant_id (put_resolution x a s) = ms_tenant_id s" "ms_session_id (put_resolution x a s) = ms_session_id s"
  "ms_agent_name (put_resolution x a s) = ms_agent_name s" "ms_usecase (put_resolution x a s) = ms_usecase s"
  "ms_source_id (put_resolution x a s) = ms_source_id s" "ms_document_id (put_resolution x a s) = ms_document_id s"
  "ms_tags (put_resolution x a s) = ms_tags s"
  by (simp_all add: put_resolution_def Let_def split: option.split)

lemma explicit_project_named:
  assumes "resolve_explicit_project_id vs = Inr p"
  shows "(p = None \<longrightarrow> set vs \<subseteq> {None}) \<and> (\<forall>q. Some q \<in> set vs \<longrightarrow> p = Some q) \<and> (p \<noteq> None \<longrightarrow> p \<in> set vs)"
proof -
  have m: "set (List.map_filter (\<lambda>v. v) vs) = {q. Some q \<in> set vs}" for vs :: "string option list"
    by (auto simp: List.map_filter_def intro!: image_eqI [where x = "Some _"])
  show ?thesis
  proof (cases "List.map_filter (\<lambda>v. v) vs")
    case Nil
    with m [of vs] have "\<forall>q. Some q \<notin> set vs" by auto
    then have "set vs \<subseteq> {None}" by (metis insertI1 not_None_eq subsetI)
    with Nil assms \<open>\<forall>q. Some q \<notin> set vs\<close> show ?thesis by (simp add: resolve_explicit_project_id_def)
  next
    case (Cons a as)
    with assms have "p = Some a" "\<forall>q \<in> set as. q = a"
      by (auto simp: resolve_explicit_project_id_def list_all_iff split: if_splits)
    with Cons m [of vs] show ?thesis by auto
  qed
qed

lemma configured_project_allowed:
  assumes "resolve_configured_project_id e settings = Inr (p, t)"
  shows "(px_allowed_project_ids settings \<noteq> [] \<longrightarrow> p \<in> Some ` set (px_allowed_project_ids settings))
    \<and> (e \<noteq> None \<longrightarrow> p = e) \<and> (px_allowed_project_ids settings = [] \<longrightarrow> p = e)"
proof (cases e)
  case (Some q)
  with assms show ?thesis by (auto simp: resolve_configured_project_id_def Let_def split: if_splits)
next
  case None
  note e = this
  show ?thesis
  proof (cases "px_allowed_project_ids settings")
    case Nil
    with assms e show ?thesis by (simp add: resolve_configured_project_id_def)
  next
    case (Cons a as)
    with assms e show ?thesis
      by (auto simp: resolve_configured_project_id_def default_in_allowed_def Let_def
          split: option.splits if_splits list.splits)
  qed
qed

lemma resolve_memory_scope_cases:
  assumes "resolve_memory_scope scope c default_scope = Inr s"
  obtains explicit settings project resolution
  where "ms_user_id (ms_normalized scope) \<in> {None, request_user c} \<or> request_user c = None"
    and "resolve_explicit_project_id (named_projects (ms_normalized scope) c) = Inr explicit"
    and "read_project_scope_settings (octx_config c) (scope_usecase (ms_normalized scope) c)
      (scope_agent (ms_normalized scope) c) = Inr settings"
    and "resolve_configured_project_id explicit settings = Inr (project, resolution)"
    and "ms_user_id s = norm_text (if ms_user_id (ms_normalized scope) = None \<and> project = None \<and> default_scope = ''user''
      then request_user c else ms_user_id (ms_normalized scope))"
    and "ms_project_id s = norm_text project"
    and "ms_usecase s = norm_text (scope_usecase (ms_normalized scope) c)"
    and "ms_agent_name s = norm_text (scope_agent (ms_normalized scope) c)"
proof -
  let ?n = "ms_normalized scope"
  let ?foreign = "ms_user_id ?n \<noteq> None \<and> request_user c \<noteq> None \<and> ms_user_id ?n \<noteq> request_user c"
  have user: "\<not> ?foreign"
  proof
    assume ?foreign
    with assms show False unfolding resolve_memory_scope_def Let_def by simp
  qed
  from assms obtain e p q where
    "resolve_explicit_project_id (named_projects ?n c) = Inr e"
    "read_project_scope_settings (octx_config c) (scope_usecase ?n c) (scope_agent ?n c) = Inr p"
    and q: "resolve_configured_project_id e p = Inr q"
    and rest: "(\<lambda>(project, resolution).
        let user = (if ms_user_id ?n = None \<and> project = None \<and> default_scope = ''user'' then request_user c
                    else ms_user_id ?n)
        in Inr (put_resolution resolution (px_allowed_project_ids p) (assemble_scope ?n c user project))) q
      = (Inr s :: memory_scope mem_res)"
    unfolding resolve_memory_scope_def Let_def if_not_P [OF user] try_bind_eq_Inr by blast
  moreover obtain project resolution where p: "q = (project, resolution)" by (cases q)
  moreover from rest have "s = put_resolution resolution (px_allowed_project_ids p)
      (assemble_scope ?n c (if ms_user_id ?n = None \<and> project = None \<and> default_scope = ''user'' then request_user c
        else ms_user_id ?n) project)"
    unfolding p Let_def by simp
  moreover have "ms_user_id ?n \<in> {None, request_user c} \<or> request_user c = None" using user by blast
  ultimately show thesis
    using that [of e p project resolution] by (simp add: assemble_scope_def memory_scope_post_init_def Let_def)
qed

text \<open>C15. Whose a resolved scope is: its user is the one that the operation names, which is the user of the request
  whenever that has one; if the operation names none, it is the user of the request when no project is named or allowed and the
  default scope is the user's, and nobody otherwise. Its project is the one that the operation, the request and the runtime all
  name, and when the configuration of the use case and the agent lists projects, it is one of these; without such a list no
  project comes from anywhere else.\<close>

theorem resolved_scope_is_owned:
  assumes "resolve_memory_scope scope c default_scope = Inr s"
    and "named = set (named_projects (ms_normalized scope) c)" "asked = ms_user_id (ms_normalized scope)"
  shows "(asked \<noteq> None \<and> request_user c \<noteq> None \<longrightarrow> asked = request_user c)
    \<and> (\<forall>q. Some q \<in> named \<longrightarrow> ms_project_id s = Some q)
    \<and> (\<exists>settings. read_project_scope_settings (octx_config c) (ms_usecase s) (ms_agent_name s) = Inr settings
        \<and> ms_user_id s = (if asked \<noteq> None then asked
            else if named \<subseteq> {None} \<and> px_allowed_project_ids settings = [] \<and> default_scope = ''user'' then request_user c
            else None)
        \<and> (px_allowed_project_ids settings \<noteq> [] \<longrightarrow>
            (\<exists>p. p \<in> set (px_allowed_project_ids settings) \<and> ms_project_id s = norm_text (Some p)))
        \<and> (px_allowed_project_ids settings = [] \<longrightarrow> ms_project_id s \<in> named \<union> {None}))"
proof -
  from assms(1) obtain explicit settings project resolution where
    user: "ms_user_id (ms_normalized scope) \<in> {None, request_user c} \<or> request_user c = None"
    and explicit: "resolve_explicit_project_id (named_projects (ms_normalized scope) c) = Inr explicit"
    and settings: "read_project_scope_settings (octx_config c) (scope_usecase (ms_normalized scope) c)
      (scope_agent (ms_normalized scope) c) = Inr settings"
    and project: "resolve_configured_project_id explicit settings = Inr (project, resolution)"
    and fields: "ms_user_id s = norm_text (if ms_user_id (ms_normalized scope) = None \<and> project = None
        \<and> default_scope = ''user'' then request_user c else ms_user_id (ms_normalized scope))"
      "ms_project_id s = norm_text project"
      "ms_usecase s = norm_text (scope_usecase (ms_normalized scope) c)"
      "ms_agent_name s = norm_text (scope_agent (ms_normalized scope) c)"
    by (rule resolve_memory_scope_cases)
  note settled = scope_names_settled [OF memory_scope_normalized_idem [of scope], where c = c]
  note e = explicit_project_named [OF explicit]
  note a = configured_project_allowed [OF project]
  have u: "norm_text (request_user c) = request_user c"
    "norm_text (ms_user_id (ms_normalized scope)) = ms_user_id (ms_normalized scope)"
    by (simp_all add: request_user_def ms_normalized_def memory_scope_post_init_def)
  have 1: "asked \<noteq> None \<and> request_user c \<noteq> None \<longrightarrow> asked = request_user c"
    using user unfolding assms(3) by auto
  have "project = None \<longleftrightarrow> named \<subseteq> {None} \<and> px_allowed_project_ids settings = []"
    using a e unfolding assms(2) by (cases explicit) auto
  then have 5: "ms_user_id s = (if asked \<noteq> None then asked
      else if named \<subseteq> {None} \<and> px_allowed_project_ids settings = [] \<and> default_scope = ''user'' then request_user c else None)"
    using u unfolding fields(1) assms(3) by auto
  have 2: "ms_project_id s = Some q" if "Some q \<in> named" for q
  proof -
    have "explicit = Some q" using that e assms(2) by blast
    moreover have "norm_text (Some q) = Some q" using that settled(3) assms(2) by blast
    ultimately show ?thesis using a fields(2) by simp
  qed
  have 3: "ms_project_id s \<in> named \<union> {None}" if "px_allowed_project_ids settings = []"
    using that a e settled(3) assms(2) unfolding fields(2) by (cases explicit) auto
  have 4: "\<exists>p. p \<in> set (px_allowed_project_ids settings) \<and> ms_project_id s = norm_text (Some p)"
    if "px_allowed_project_ids settings \<noteq> []"
    using that a unfolding fields(2) by blast
  from 1 2 3 4 5 settings show ?thesis unfolding fields(3,4) settled(1,2) by blast
qed

text \<open>A request for one project of the two that the use case allows.\<close>

definition project_config :: pyval where
  "project_config = config_view
    [(''orchestration'', PDict [(''usecases'', PDict [(''support'', PDict
        [(''memory'', PDict [(''allowed_project_ids'', PList [PStr ''p1'', PStr ''p2''])])])])])]"

definition project_context :: orchestration_context where
  "project_context =
    \<lparr>octx_request = \<lparr>rc_user_id = ''u1'', rc_session_id = ''s1'', rc_message = ''hello'', rc_usecase = Some ''support'',
       rc_trace_id = None, rc_metadata = [(''project_id'', PStr ''p2'')]\<rparr>,
     octx_runtime_metadata = [], octx_config = project_config\<rparr>"

definition open_scope :: memory_scope where
  "open_scope =
    \<lparr>ms_user_id = None, ms_project_id = None, ms_tenant_id = None, ms_session_id = None, ms_agent_name = None,
     ms_usecase = None, ms_source_id = None, ms_document_id = None, ms_tags = [], ms_metadata = []\<rparr>"

lemma project_scope_resolves_all:
  "(case resolve_memory_scope open_scope project_context ''project'' of Inl e \<Rightarrow> False
   | Inr s \<Rightarrow> ms_usecase s = Some ''support'' \<and> ms_agent_name s = None)
   \<and> Some ''p2'' \<in> set (named_projects (ms_normalized open_scope) project_context)"
  by code_simp

lemmas project_scope_resolves = parts2 [OF project_scope_resolves_all]

theorem resolved_scope_is_owned_witness:
  "\<exists>s. resolve_memory_scope open_scope project_context ''project'' = Inr s \<and> ms_project_id s = Some ''p2''
    \<and> ms_user_id s = None"
proof -
  from project_scope_resolves(1) obtain s where s: "resolve_memory_scope open_scope project_context ''project'' = Inr s"
    by (auto split: sum.splits)
  have "ms_user_id (ms_normalized open_scope) = None"
    by (simp add: ms_normalized_def memory_scope_post_init_def open_scope_def)
  with resolved_scope_is_owned [OF s refl refl] project_scope_resolves(2) s show ?thesis by auto
qed

end
