(* ===== verification/Memory_Models.thy ===== *)
theory Memory_Models
  imports Memory_Scopes Py_Equal
begin

text \<open>
  The values the memory gateway takes and returns (\<open>contracts/memory.py\<close>) with what their constructors do, and the
  shaping of records for callers and traces (\<open>memory/redaction.py\<close>, \<open>memory/stats.py\<close>). Scores are Python numbers
  and stay \<open>pyval\<close>; dates are the texts the adapter gives.
\<close>

section \<open>Records\<close>

record memory_source =
  msc_source_id :: "string option"
  msc_document_id :: "string option"
  msc_chunk_id :: "string option"
  msc_source_uri :: "string option"
  msc_source_hash :: "string option"
  msc_chunk_index :: "int option"
  msc_section_path :: "string list"
  msc_title :: "string option"
  msc_metadata :: pydict

definition new_memory_source :: "memory_source \<Rightarrow> memory_source" where
  "new_memory_source s =
    s\<lparr>msc_source_id := norm_text (msc_source_id s), msc_document_id := norm_text (msc_document_id s),
      msc_chunk_id := norm_text (msc_chunk_id s), msc_source_uri := norm_text (msc_source_uri s),
      msc_source_hash := norm_text (msc_source_hash s), msc_title := norm_text (msc_title s),
      msc_section_path := norm_texts (msc_section_path s)\<rparr>"

definition empty_source :: memory_source where
  "empty_source =
    \<lparr>msc_source_id = None, msc_document_id = None, msc_chunk_id = None, msc_source_uri = None, msc_source_hash = None,
     msc_chunk_index = None, msc_section_path = [], msc_title = None, msc_metadata = []\<rparr>"

definition no_scope :: memory_scope where
  "no_scope =
    \<lparr>ms_user_id = None, ms_project_id = None, ms_tenant_id = None, ms_session_id = None, ms_agent_name = None,
     ms_usecase = None, ms_source_id = None, ms_document_id = None, ms_tags = [], ms_metadata = []\<rparr>"

record memory_record =
  rcd_memory_id :: string
  rcd_text :: string
  rcd_memory_type :: string
  rcd_scope :: memory_scope
  rcd_metadata :: pydict
  rcd_status :: string
  rcd_source :: "memory_source option"
  rcd_importance :: pyval
  rcd_confidence :: pyval
  rcd_created_at :: "string option"
  rcd_updated_at :: "string option"
  rcd_expires_at :: "string option"
  rcd_tags :: "string list"
  rcd_title :: "string option"
  rcd_summary :: "string option"

text \<open>\<open>x.strip()\<close>, refused when nothing is left.\<close>

definition needed_text :: "string \<Rightarrow> string res" where
  "needed_text s = (if strip s = [] then Inl ValueError else Inr (strip s))"

definition new_memory_record :: "memory_record \<Rightarrow> memory_record res" where
  "new_memory_record r =
    try_bind (needed_text (rcd_memory_id r)) (\<lambda>memory_id.
    try_bind (needed_text (rcd_text r)) (\<lambda>text.
    try_bind (needed_text (rcd_memory_type r)) (\<lambda>memory_type.
    Inr (r\<lparr>rcd_memory_id := memory_id, rcd_text := text, rcd_memory_type := memory_type,
           rcd_scope := ms_normalized (rcd_scope r),
           rcd_status := str_default (norm_text (Some (rcd_status r))) ''active'', rcd_tags := norm_texts (rcd_tags r),
           rcd_title := norm_text (rcd_title r), rcd_summary := norm_text (rcd_summary r)\<rparr>))))"

definition rcd_source_id :: "memory_record \<Rightarrow> string option" where
  "rcd_source_id r = (case rcd_source r of None \<Rightarrow> None | Some s \<Rightarrow> msc_source_id s)"

definition rcd_document_id :: "memory_record \<Rightarrow> string option" where
  "rcd_document_id r = (case rcd_source r of None \<Rightarrow> None | Some s \<Rightarrow> msc_document_id s)"

definition rcd_chunk_id :: "memory_record \<Rightarrow> string option" where
  "rcd_chunk_id r = (case rcd_source r of None \<Rightarrow> None | Some s \<Rightarrow> msc_chunk_id s)"

record memory_score =
  sco_final_score :: pyval
  sco_vector_score :: pyval
  sco_bm25_score :: pyval
  sco_reranker_score :: pyval
  sco_temporal_score :: pyval
  sco_importance_score :: pyval
  sco_user_rating_score :: pyval
  sco_graph_score :: pyval
  sco_component_scores :: pydict
  sco_normalized_scores :: pydict
  sco_metadata :: pydict

definition final_score_only :: "pyval \<Rightarrow> memory_score" where
  "final_score_only v =
    \<lparr>sco_final_score = v, sco_vector_score = PNone, sco_bm25_score = PNone, sco_reranker_score = PNone,
     sco_temporal_score = PNone, sco_importance_score = PNone, sco_user_rating_score = PNone, sco_graph_score = PNone,
     sco_component_scores = [], sco_normalized_scores = [], sco_metadata = []\<rparr>"

record memory_hit =
  hit_memory_id :: string
  hit_text :: string
  hit_score :: pyval
  hit_memory_type :: "string option"
  hit_source_id :: "string option"
  hit_chunk_id :: "string option"
  hit_metadata :: pydict
  hit_record :: "memory_record option"
  hit_score_details :: "memory_score option"
  hit_match_reason :: "string option"
  hit_highlights :: "string list"
  hit_related_records :: "memory_record list"

definition coerce_record ::
  "memory_record option \<Rightarrow> string \<Rightarrow> string \<Rightarrow> string option \<Rightarrow> string option \<Rightarrow> string option \<Rightarrow> pydict \<Rightarrow> memory_record res" where
  "coerce_record v memory_id text memory_type source_id chunk_id metadata =
    (case v of
       Some r \<Rightarrow> Inr r
     | None \<Rightarrow>
        new_memory_record
          \<lparr>rcd_memory_id = memory_id, rcd_text = text,
           rcd_memory_type = (if truthy memory_type then the memory_type else ''observation''), rcd_scope = no_scope,
           rcd_metadata = metadata, rcd_status = ''active'',
           rcd_source = (if source_id \<noteq> None \<or> chunk_id \<noteq> None
             then Some (new_memory_source (empty_source\<lparr>msc_source_id := source_id, msc_chunk_id := chunk_id\<rparr>)) else None),
           rcd_importance = PNone, rcd_confidence = PNone, rcd_created_at = None, rcd_updated_at = None,
           rcd_expires_at = None, rcd_tags = [], rcd_title = None, rcd_summary = None\<rparr>)"

definition new_memory_hit :: "memory_hit \<Rightarrow> memory_hit res" where
  "new_memory_hit h =
    try_bind (needed_text (hit_memory_id h)) (\<lambda>memory_id.
    try_bind (needed_text (hit_text h)) (\<lambda>text.
    try_bind (coerce_record (hit_record h) memory_id text (norm_text (hit_memory_type h))
        (norm_text (hit_source_id h)) (norm_text (hit_chunk_id h)) (hit_metadata h)) (\<lambda>r.
    let h1 = h\<lparr>hit_record := Some r, hit_memory_id := rcd_memory_id r, hit_text := rcd_text r,
              hit_memory_type := Some (rcd_memory_type r), hit_source_id := rcd_source_id r,
              hit_chunk_id := rcd_chunk_id r\<rparr>
    in Inr (case hit_score_details h of
              None \<Rightarrow> if hit_score h = PNone then h1
                       else h1\<lparr>hit_score_details := Some (final_score_only (hit_score h))\<rparr>
            | Some d \<Rightarrow> if hit_score h = PNone then h1\<lparr>hit_score := sco_final_score d\<rparr> else h1))))"

section \<open>Requests\<close>

record memory_filters =
  mfl_kinds :: "string list"
  mfl_tags :: "string list"
  mfl_status :: "string list"
  mfl_source_ids :: "string list"
  mfl_document_ids :: "string list"
  mfl_created_after :: "string option"
  mfl_created_before :: "string option"
  mfl_metadata :: pydict

record memory_query =
  sq_text :: string
  sq_scope :: memory_scope
  sq_memory_types :: "string list option"
  sq_limit :: "int option"
  sq_include_document_chunks :: bool
  sq_metadata :: pydict
  sq_filters :: "memory_filters option"
  sq_candidate_k :: "int option"
  sq_include_agent_memories :: bool
  sq_include_graph_context :: bool
  sq_max_result_chars :: "int option"
  sq_query_id :: "string option"
  sq_top_k :: "int option"

definition new_memory_query :: "memory_query \<Rightarrow> memory_query res" where
  "new_memory_query q =
    try_bind (needed_text (sq_text q)) (\<lambda>text.
    let limit = (case sq_limit q of Some n \<Rightarrow> n | None \<Rightarrow> (case sq_top_k q of Some k \<Rightarrow> k | None \<Rightarrow> 10));
        types = (case sq_memory_types q of None \<Rightarrow> None
                 | Some ts \<Rightarrow> if norm_texts ts = [] then None else Some (norm_texts ts))
    in Inr (q\<lparr>sq_text := text, sq_scope := ms_normalized (sq_scope q), sq_query_id := norm_text (sq_query_id q),
              sq_memory_types := types, sq_limit := Some limit,
              sq_top_k := Some (case sq_top_k q of Some k \<Rightarrow> k | None \<Rightarrow> limit)\<rparr>))"

record get_request =
  gq_identifier :: string
  gq_scope :: memory_scope
  gq_lookup_kind :: string
  gq_include_related :: bool
  gq_metadata :: pydict

definition new_get_request :: "get_request \<Rightarrow> get_request res" where
  "new_get_request q =
    try_bind (needed_text (gq_identifier q)) (\<lambda>i.
    Inr (q\<lparr>gq_identifier := i, gq_scope := ms_normalized (gq_scope q)\<rparr>))"

record chunk_request =
  cq_chunk_id :: string
  cq_scope :: memory_scope
  cq_before :: int
  cq_after :: int
  cq_metadata :: pydict

definition new_chunk_request :: "chunk_request \<Rightarrow> chunk_request res" where
  "new_chunk_request q =
    try_bind (needed_text (cq_chunk_id q)) (\<lambda>i.
    if cq_before q < 0 \<or> cq_after q < 0 then Inl ValueError
    else Inr (q\<lparr>cq_chunk_id := i, cq_scope := ms_normalized (cq_scope q)\<rparr>))"

record write_request =
  wq_text :: string
  wq_scope :: memory_scope
  wq_memory_type :: string
  wq_stable_key :: "string option"
  wq_importance :: pyval
  wq_confidence :: pyval
  wq_ttl_days :: "int option"
  wq_tags :: "string list"
  wq_source :: "memory_source option"
  wq_allow_retrieval :: "bool option"
  wq_allow_llm_context :: "bool option"
  wq_metadata :: pydict

definition new_write_request :: "write_request \<Rightarrow> write_request res" where
  "new_write_request q =
    try_bind (needed_text (wq_text q)) (\<lambda>text.
    try_bind (needed_text (wq_memory_type q)) (\<lambda>memory_type.
    Inr (q\<lparr>wq_text := text, wq_scope := ms_normalized (wq_scope q), wq_memory_type := memory_type,
           wq_stable_key := norm_text (wq_stable_key q), wq_tags := norm_texts (wq_tags q)\<rparr>)))"

text \<open>What the policy request builder reads of a write.\<close>

definition policy_write :: "write_request \<Rightarrow> memory_write" where
  "policy_write q =
    \<lparr>mw_memory_type = wq_memory_type q, mw_stable_key = wq_stable_key q, mw_allow_retrieval = wq_allow_retrieval q,
     mw_allow_llm_context = wq_allow_llm_context q, mw_metadata = wq_metadata q\<rparr>"

record lifecycle_request =
  lq_memory_id :: string
  lq_scope :: memory_scope
  lq_reason :: "string option"
  lq_metadata :: pydict

definition new_lifecycle_request :: "lifecycle_request \<Rightarrow> lifecycle_request res" where
  "new_lifecycle_request q =
    try_bind (needed_text (lq_memory_id q)) (\<lambda>i.
    Inr (q\<lparr>lq_memory_id := i, lq_scope := ms_normalized (lq_scope q), lq_reason := norm_text (lq_reason q)\<rparr>))"

text \<open>\<open>MemorySupersedeRequest\<close> (old and new) and \<open>MemoryContradictRequest\<close> (a and b) have the same shape.\<close>

record pair_request =
  pq_first_id :: string
  pq_second_id :: string
  pq_scope :: memory_scope
  pq_reason :: "string option"
  pq_metadata :: pydict

definition new_pair_request :: "pair_request \<Rightarrow> pair_request res" where
  "new_pair_request q =
    (if strip (pq_first_id q) = [] \<or> strip (pq_second_id q) = [] then Inl ValueError
     else Inr (q\<lparr>pq_first_id := strip (pq_first_id q), pq_second_id := strip (pq_second_id q),
                pq_scope := ms_normalized (pq_scope q), pq_reason := norm_text (pq_reason q)\<rparr>))"

record forget_request =
  fq_memory_id :: string
  fq_scope :: memory_scope
  fq_reason :: "string option"
  fq_hard_delete :: bool
  fq_metadata :: pydict

definition new_forget_request :: "forget_request \<Rightarrow> forget_request res" where
  "new_forget_request q =
    try_bind (needed_text (fq_memory_id q)) (\<lambda>i.
    Inr (q\<lparr>fq_memory_id := i, fq_scope := ms_normalized (fq_scope q), fq_reason := norm_text (fq_reason q)\<rparr>))"

record ingest_request =
  iq_source_id :: string
  iq_scope :: memory_scope
  iq_document_id :: "string option"
  iq_content :: "string option"
  iq_path :: "string option"
  iq_source_uri :: "string option"
  iq_source_hash :: "string option"
  iq_title :: "string option"
  iq_content_type :: string
  iq_replace_existing :: bool
  iq_mark_missing_chunks_removed :: bool
  iq_metadata :: pydict

definition new_ingest_request :: "ingest_request \<Rightarrow> ingest_request res" where
  "new_ingest_request q =
    try_bind (needed_text (iq_source_id q)) (\<lambda>source_id.
    if norm_text (iq_content q) = None \<and> norm_text (iq_path q) = None then Inl ValueError
    else Inr (q\<lparr>iq_source_id := source_id, iq_scope := ms_normalized (iq_scope q),
                iq_document_id := norm_text (iq_document_id q), iq_content := norm_text (iq_content q),
                iq_path := norm_text (iq_path q), iq_source_uri := norm_text (iq_source_uri q),
                iq_source_hash := norm_text (iq_source_hash q), iq_title := norm_text (iq_title q),
                iq_content_type := (if strip (iq_content_type q) = [] then ''text/markdown''
                                    else strip (iq_content_type q))\<rparr>))"

record delete_request =
  dq_scope :: memory_scope
  dq_hard_delete :: bool
  dq_require_confirmation :: bool
  dq_metadata :: pydict

record export_request =
  eq_scope :: memory_scope
  eq_include_content :: bool
  eq_metadata :: pydict

section \<open>Results\<close>

record search_result =
  sr_results :: "memory_hit list"
  sr_query_id :: "string option"
  sr_total_candidates :: "int option"
  sr_search_strategy :: "string option"
  sr_metadata :: pydict

definition new_search_result :: "search_result \<Rightarrow> search_result" where
  "new_search_result r =
    r\<lparr>sr_query_id := norm_text (sr_query_id r), sr_search_strategy := norm_text (sr_search_strategy r),
      sr_total_candidates := Some (case sr_total_candidates r of Some n \<Rightarrow> n
                                   | None \<Rightarrow> int (length (sr_results r)))\<rparr>"

record chunk_result =
  cr_chunk :: memory_hit
  cr_before :: "memory_hit list"
  cr_after :: "memory_hit list"
  cr_metadata :: pydict

definition ordered_results :: "chunk_result \<Rightarrow> memory_hit list" where
  "ordered_results r = cr_before r @ [cr_chunk r] @ cr_after r"

record write_result =
  wr_operation :: string
  wr_status :: string
  wr_record :: "memory_record option"
  wr_changed :: bool
  wr_affected_ids :: "string list"
  wr_metadata :: pydict

definition new_write_result :: "write_result \<Rightarrow> write_result res" where
  "new_write_result r =
    try_bind (needed_text (wr_operation r)) (\<lambda>operation.
    Inr (r\<lparr>wr_operation := operation, wr_status := (if strip (wr_status r) = [] then ''ok'' else strip (wr_status r)),
           wr_affected_ids := norm_texts (wr_affected_ids r)\<rparr>))"

definition wr_memory_id :: "write_result \<Rightarrow> string option" where
  "wr_memory_id r =
    (case wr_record r of
       Some d \<Rightarrow> Some (rcd_memory_id d)
     | None \<Rightarrow> (case wr_affected_ids r of [] \<Rightarrow> None | i # is \<Rightarrow> Some i))"

record ingest_result =
  ir_source_id :: string
  ir_document_id :: "string option"
  ir_source_hash :: "string option"
  ir_status :: string
  ir_chunks_created :: int
  ir_chunks_updated :: int
  ir_chunks_unchanged :: int
  ir_chunks_removed :: int
  ir_skipped_unchanged_document :: bool
  ir_metadata :: pydict

record delete_result =
  dr_scope :: memory_scope
  dr_deleted_count :: int
  dr_hard_delete :: bool
  dr_metadata :: pydict

record export_result =
  er_scope :: memory_scope
  er_records :: "memory_record list"
  er_exported_at :: "string option"
  er_metadata :: pydict

definition new_export_result :: "export_result \<Rightarrow> export_result" where
  "new_export_result r = r\<lparr>er_scope := ms_normalized (er_scope r), er_exported_at := norm_text (er_exported_at r)\<rparr>"

record stats_result =
  st_total_records :: int
  st_scope_counts :: "(string \<times> int) list"
  st_status_counts :: "(string \<times> int) list"
  st_type_counts :: "(string \<times> int) list"
  st_status :: string
  st_provider :: "string option"
  st_configured :: bool
  st_metadata :: pydict

definition new_stats_result :: "stats_result \<Rightarrow> stats_result" where
  "new_stats_result r =
    r\<lparr>st_status := (if strip (st_status r) = [] then ''ok'' else strip (st_status r)),
      st_provider := norm_text (st_provider r)\<rparr>"

section \<open>Shaping\<close>

definition truncate_memory_text :: "int \<Rightarrow> string \<Rightarrow> string" where
  "truncate_memory_text max_chars t =
    (let s = strip t
     in if s = [] then [] else if max_chars \<le> 0 \<or> int (length s) \<le> max_chars then s
        else if max_chars \<le> 3 then take (nat max_chars) s
        else rstrip (take (nat (max_chars - 3)) s) @ ''...'')"

text \<open>\<open>truncate_text(t) or t\<close>.\<close>

definition bound_text :: "int \<Rightarrow> string \<Rightarrow> string" where
  "bound_text max_chars t = (let b = truncate_memory_text max_chars t in if b = [] then t else b)"

definition bound_record :: "int \<Rightarrow> memory_record \<Rightarrow> memory_record res" where
  "bound_record max_chars r =
    new_memory_record
      (r\<lparr>rcd_text := bound_text max_chars (rcd_text r),
         rcd_title := map_option (truncate_memory_text max_chars) (rcd_title r),
         rcd_summary := map_option (truncate_memory_text max_chars) (rcd_summary r)\<rparr>)"

fun map_res :: "('a \<Rightarrow> 'b res) \<Rightarrow> 'a list \<Rightarrow> 'b list res" where
  "map_res f [] = Inr []"
| "map_res f (x # xs) = try_bind (f x) (\<lambda>y. try_bind (map_res f xs) (\<lambda>ys. Inr (y # ys)))"

definition plain_record_of_hit :: "memory_hit \<Rightarrow> memory_record res" where
  "plain_record_of_hit h =
    coerce_record None (hit_memory_id h) (hit_text h) (hit_memory_type h) None None (hit_metadata h)"

definition bound_hit :: "int \<Rightarrow> memory_hit \<Rightarrow> memory_hit res" where
  "bound_hit max_chars h =
    try_bind (case hit_record h of Some r \<Rightarrow> Inr r | None \<Rightarrow> plain_record_of_hit h) (\<lambda>r.
    try_bind (bound_record max_chars r) (\<lambda>bounded.
    try_bind (map_res (bound_record max_chars) (hit_related_records h)) (\<lambda>related.
    new_memory_hit
      (h\<lparr>hit_text := bound_text max_chars (hit_text h),
         hit_highlights := List.map (bound_text max_chars) (hit_highlights h),
         hit_related_records := related, hit_record := Some bounded\<rparr>))))"

definition hash_text :: "py_texts \<Rightarrow> string \<Rightarrow> string" where
  "hash_text tx t = ''sha256:'' @ tx_digest tx t"

text \<open>\<open>max\<close> and \<open>min\<close> of a nonempty list of numbers: the first of the largest, the first of the smallest.\<close>

definition score_less :: "pyval \<Rightarrow> pyval \<Rightarrow> bool" where
  "score_less a b =
    (case (num_of a, num_of b) of (Some x, Some y) \<Rightarrow> num_less x y | _ \<Rightarrow> False)"

definition summarize_scores :: "memory_hit list \<Rightarrow> pydict" where
  "summarize_scores hits =
    (case filter (\<lambda>v. num_of v \<noteq> None) (List.map hit_score hits) of
       [] \<Rightarrow> [(''max_score'', PNone), (''min_score'', PNone)]
     | v # vs \<Rightarrow>
        [(''max_score'', fold (\<lambda>x m. if score_less m x then x else m) vs v),
         (''min_score'', fold (\<lambda>x m. if score_less x m then x else m) vs v)])"

definition redact_record :: "bool \<Rightarrow> int \<Rightarrow> memory_record \<Rightarrow> pydict" where
  "redact_record include_text max_chars r =
    [(''memory_id'', PStr (rcd_memory_id r)), (''memory_type'', PStr (rcd_memory_type r)),
     (''status'', PStr (rcd_status r)), (''scope'', PDict (ms_summary (rcd_scope r))),
     (''source_id'', py_opt_str (rcd_source_id r)), (''document_id'', py_opt_str (rcd_document_id r)),
     (''chunk_id'', py_opt_str (rcd_chunk_id r)), (''tag_count'', PInt (int (length (rcd_tags r)))),
     (''metadata'', PDict (rcd_metadata r))]
    @ (if include_text then [(''text'', PStr (truncate_memory_text max_chars (rcd_text r)))] else [])"

definition empty_memory_stats :: "string \<Rightarrow> bool \<Rightarrow> string \<Rightarrow> pydict \<Rightarrow> stats_result" where
  "empty_memory_stats provider configured status metadata =
    new_stats_result
      \<lparr>st_total_records = 0, st_scope_counts = [], st_status_counts = [], st_type_counts = [], st_status = status,
       st_provider = Some provider, st_configured = configured, st_metadata = metadata\<rparr>"

text \<open>\<open>d[k] = d.get(k, 0) + 1\<close>.\<close>

definition count_key :: "string \<Rightarrow> (string \<times> int) list \<Rightarrow> (string \<times> int) list" where
  "count_key k d = dict_set k ((case map_of d k of None \<Rightarrow> 0 | Some n \<Rightarrow> n) + 1) d"

definition summarize_records :: "string option \<Rightarrow> bool \<Rightarrow> string \<Rightarrow> memory_record list \<Rightarrow> stats_result" where
  "summarize_records provider configured status records =
    new_stats_result
      \<lparr>st_total_records = int (length records),
       st_scope_counts = fold (\<lambda>r. count_key (classify_memory_scope (rcd_scope r))) records [],
       st_status_counts = fold (\<lambda>r. count_key (rcd_status r)) records [],
       st_type_counts = fold (\<lambda>r. count_key (rcd_memory_type r)) records [], st_status = status,
       st_provider = provider, st_configured = configured, st_metadata = []\<rparr>"

definition scope_matches :: "memory_scope \<Rightarrow> memory_scope \<Rightarrow> bool" where
  "scope_matches record_scope expected \<longleftrightarrow>
    (let r = ms_normalized record_scope;
         agrees = (\<lambda>f. f expected = None \<or> f expected = f r)
     in agrees ms_user_id \<and> agrees ms_project_id \<and> agrees ms_tenant_id \<and> agrees ms_session_id
        \<and> agrees ms_agent_name \<and> agrees ms_usecase \<and> agrees ms_source_id \<and> agrees ms_document_id
        \<and> list_all (\<lambda>t. t \<in> set (ms_tags r)) (ms_tags expected))"

definition filter_records_by_scope :: "memory_record list \<Rightarrow> memory_scope option \<Rightarrow> memory_record list" where
  "filter_records_by_scope records scope =
    (case scope of
       None \<Rightarrow> records
     | Some s \<Rightarrow> filter (\<lambda>r. scope_matches (rcd_scope r) (ms_normalized s)) records)"

section \<open>Bounded texts\<close>

lemma length_rstrip [simp]: "length (rstrip s) \<le> length s"
  by (simp add: rstrip_def) (metis length_dropWhile_le length_rev)

lemma length_strip [simp]: "length (strip s) \<le> length s"
  by (simp add: strip_def) (metis length_dropWhile_le length_rstrip le_trans)

lemma truncated_length:
  assumes "0 < n"
  shows "int (length (truncate_memory_text n t)) \<le> n"
proof -
  let ?k = "nat (n - 3)"
  have "length (rstrip (take ?k (strip t))) \<le> ?k"
    by (rule le_trans [OF length_rstrip]) simp
  then show ?thesis using assms by (auto simp: truncate_memory_text_def Let_def)
qed

lemma bound_text_length: "0 < n \<Longrightarrow> int (length (bound_text n t)) \<le> n \<or> strip (bound_text n t) = []"
proof (cases "truncate_memory_text n t = []")
  case True
  assume "0 < n"
  have "strip t = []"
  proof (rule ccontr)
    assume "strip t \<noteq> []"
    with True \<open>0 < n\<close> show False by (auto simp: truncate_memory_text_def Let_def split: if_splits)
  qed
  with True show ?thesis by (simp add: bound_text_def)
qed (use truncated_length [of n t] in \<open>simp add: bound_text_def\<close>)

definition record_within :: "int \<Rightarrow> memory_record \<Rightarrow> bool" where
  "record_within n r \<longleftrightarrow> int (length (rcd_text r)) \<le> n
    \<and> (case rcd_title r of None \<Rightarrow> True | Some t \<Rightarrow> int (length t) \<le> n)
    \<and> (case rcd_summary r of None \<Rightarrow> True | Some t \<Rightarrow> int (length t) \<le> n)"

definition hit_within :: "int \<Rightarrow> memory_hit \<Rightarrow> bool" where
  "hit_within n h \<longleftrightarrow> int (length (hit_text h)) \<le> n
    \<and> (\<forall>x \<in> set (hit_highlights h). int (length x) \<le> n \<or> strip x = [])
    \<and> (\<forall>r \<in> set (hit_related_records h). record_within n r)
    \<and> (\<exists>r. hit_record h = Some r \<and> record_within n r)"

lemma norm_text_shorter: "norm_text (Some s) = Some t \<Longrightarrow> length t \<le> length s"
  by (auto simp: norm_text_def Let_def split: if_splits)

lemma bound_record_within:
  assumes "0 < n" "bound_record n r = Inr r'"
  shows "record_within n r'"
proof -
  have opt: "case norm_text (map_option (truncate_memory_text n) t) of None \<Rightarrow> True | Some x \<Rightarrow> int (length x) \<le> n" for t
  proof (cases t)
    case (Some s)
    show ?thesis
    proof (cases "norm_text (Some (truncate_memory_text n s))")
      case (Some x)
      from norm_text_shorter [OF this] truncated_length [OF assms(1), of s] show ?thesis
        using Some \<open>t = Some s\<close> by simp
    qed (simp add: Some)
  qed simp
  from assms(2) have body: "strip (bound_text n (rcd_text r)) \<noteq> []" "rcd_text r' = strip (bound_text n (rcd_text r))"
    and others: "rcd_title r' = norm_text (map_option (truncate_memory_text n) (rcd_title r))"
      "rcd_summary r' = norm_text (map_option (truncate_memory_text n) (rcd_summary r))"
    by (auto simp: bound_record_def new_memory_record_def needed_text_def split: if_splits)
  have "int (length (rcd_text r')) \<le> n"
    using bound_text_length [OF assms(1), of "rcd_text r"] body(1) length_strip [of "bound_text n (rcd_text r)"]
    unfolding body(2) by linarith
  then show ?thesis unfolding record_within_def others using opt by blast
qed

lemma map_res_Inr:
  "map_res f xs = Inr ys \<Longrightarrow> length ys = length xs \<and> (\<forall>y \<in> set ys. \<exists>x \<in> set xs. f x = Inr y)"
proof (induction xs arbitrary: ys)
  case (Cons x xs)
  from Cons.prems obtain z zs where z: "f x = Inr z" "map_res f xs = Inr zs" "ys = z # zs" by auto
  with Cons.IH [OF z(2)] show ?case by auto
qed simp

lemma bound_hit_within:
  assumes "0 < n" "bound_hit n h = Inr h'"
  shows "hit_within n h'"
proof -
  from assms(2) obtain r bounded related where b: "bound_record n r = Inr bounded"
    and rel: "map_res (bound_record n) (hit_related_records h) = Inr related"
    and h': "new_memory_hit (h\<lparr>hit_text := bound_text n (hit_text h),
         hit_highlights := List.map (bound_text n) (hit_highlights h),
         hit_related_records := related, hit_record := Some bounded\<rparr>) = Inr h'"
    by (auto simp: bound_hit_def)
  from h' have "hit_record h' = Some bounded" "hit_text h' = rcd_text bounded"
    "hit_highlights h' = List.map (bound_text n) (hit_highlights h)" "hit_related_records h' = related"
    by (auto simp: new_memory_hit_def coerce_record_def Let_def split: option.splits if_splits)
  moreover have "\<forall>r \<in> set related. record_within n r"
    using map_res_Inr [OF rel] bound_record_within [OF assms(1)] by blast
  moreover note bound_record_within [OF assms(1) b]
  ultimately show ?thesis
    using bound_text_length [OF assms(1)] by (auto simp: hit_within_def record_within_def)
qed

end
