(* ===== verification/Memory_Config.thy ===== *)
theory Memory_Config
  imports Config_View
begin

text \<open>
  \<open>get_memory_settings\<close> of \<open>config/view.py\<close>: the settings of the memory gateway, its store, search, scoring,
  lifecycle and privacy, with the older paths that are read when the newer ones give nothing.

  A path is the text the two resolvers of \<open>config/loader.py\<close> make of the configured one; they look at the file
  system, so they are a parameter (\<open>path_resolver\<close>).
\<close>

section \<open>Settings\<close>

record path_resolver =
  pr_backend :: "string \<Rightarrow> string"
  pr_data :: "string \<Rightarrow> string \<Rightarrow> string"

record memory_defaults =
  mdf_default_scope :: string
  mdf_top_k :: int
  mdf_include_agent_memories :: bool
  mdf_include_document_chunks :: bool
  mdf_include_graph_context :: bool
  mdf_max_result_chars :: int
  mdf_max_total_context_chars :: int
  mdf_trace_query_capture :: string
  mdf_trace_result_content_capture :: string

record memory_database_settings =
  mdb_path :: string
  mdb_create_if_missing :: bool
  mdb_schema_version :: int
  mdb_embedded_single_process :: bool

record memory_embeddings_settings =
  meb_provider :: string
  meb_model :: string
  meb_model_version :: "string option"
  meb_dimension :: "int option"
  meb_batch_size :: int
  meb_normalize :: bool
  meb_dimension_mismatch :: string

record memory_reranker_settings =
  mrk_enabled :: bool
  mrk_provider :: string
  mrk_model :: string
  mrk_model_version :: "string option"
  mrk_top_n :: int

record memory_chunking_settings =
  mck_strategy :: string
  mck_max_tokens :: int
  mck_overlap_tokens :: int
  mck_include_heading_path :: bool
  mck_include_frontmatter_in_embedding :: bool
  mck_preserve_code_blocks :: bool
  mck_removed_chunk_policy :: string

record memory_search_settings =
  msr_limit_max :: int
  msr_vector_top_n :: int
  msr_fts_top_n :: int
  msr_rrf_k :: int
  msr_graph_expansion_enabled :: bool
  msr_graph_expansion_hops :: int
  msr_final_top_k :: int
  msr_include_component_scores :: bool
  msr_include_debug :: bool

record memory_lifecycle_settings =
  mlc_allow_writes :: bool
  mlc_default_ttl_days :: "int option"
  mlc_contradiction_policy :: string
  mlc_supersede_policy :: string
  mlc_require_durable_scope_for_writes :: bool
  mlc_allow_session_scope_only_writes :: bool
  mlc_require_durable_scope_for_delete_export :: bool

record memory_privacy_settings =
  mpv_default_sensitivity :: string
  mpv_allow_llm_context_default :: bool
  mpv_allow_retrieval_default :: bool
  mpv_delete_by_scope_requires_confirm :: bool
  mpv_enable_export_by_scope :: bool
  mpv_enable_delete_by_scope :: bool
  mpv_hard_delete_enabled :: bool
  mpv_tombstone_on_forget :: bool
  mpv_require_policy_approval_for_delete_export :: bool

record memory_store_settings =
  mst_config_path :: "string option"
  mst_database :: memory_database_settings
  mst_embeddings :: memory_embeddings_settings
  mst_reranker :: memory_reranker_settings
  mst_fastembed_cache_dir :: "string option"
  mst_fastembed_local_files_only :: bool

record memory_scoring_weights =
  mw_reranker :: pyval
  mw_retrieval_fusion :: pyval
  mw_vector :: pyval
  mw_full_text :: pyval
  mw_temporal :: pyval
  mw_importance :: pyval
  mw_confidence :: pyval
  mw_graph :: pyval
  mw_user_rating :: pyval

record memory_settings =
  mem_enabled :: bool
  mem_provider :: string
  mem_required :: bool
  mem_defaults :: memory_defaults
  mem_store :: memory_store_settings
  mem_chunking :: memory_chunking_settings
  mem_search :: memory_search_settings
  mem_weights :: memory_scoring_weights
  mem_lifecycle :: memory_lifecycle_settings
  mem_privacy :: memory_privacy_settings
  mem_deep_check_enabled :: bool

section \<open>Reading\<close>

definition cfg_float :: "pyval \<Rightarrow> string \<Rightarrow> pyval \<Rightarrow> pyval res" where
  "cfg_float config path dflt =
    (case config_get config path dflt of
       PInt i \<Rightarrow> Inr (PInt i) | PFloat w \<Rightarrow> Inr (PFloat w) | _ \<Rightarrow> invalid_value path ''float'')"

definition cfg_resolved_path :: "pyval \<Rightarrow> string \<Rightarrow> (string \<Rightarrow> string) \<Rightarrow> string option res" where
  "cfg_resolved_path config path resolve =
    (case config_get config path PNone of
       PNone \<Rightarrow> Inr None
     | PStr s \<Rightarrow> Inr (if strip s = [] then None else Some (resolve (strip s)))
     | _ \<Rightarrow> invalid_value path ''str'')"

definition memory_base_dir :: "pyval \<Rightarrow> path_resolver \<Rightarrow> string" where
  "memory_base_dir config ps =
    pr_backend ps
      (case read_optional_text (config_get config ''persistence.base_dir'' PNone) of
         Some s \<Rightarrow> s
       | None \<Rightarrow>
          (case read_optional_text (config_get config ''app.data_dir'' PNone) of Some s \<Rightarrow> s | None \<Rightarrow> ''data''))"

text \<open>\<open>a or b\<close> and \<open>a if a is not None else b\<close> where \<open>b\<close> is read only when it is needed.\<close>

definition or_read :: "string option \<Rightarrow> string option res \<Rightarrow> string option res" where
  "or_read a b = (if truthy a then Inr a else b)"

definition else_read :: "'a option \<Rightarrow> 'a option res \<Rightarrow> 'a option res" where
  "else_read a b = (case a of Some x \<Rightarrow> Inr (Some x) | None \<Rightarrow> b)"

definition read_memory_defaults :: "pyval \<Rightarrow> string \<Rightarrow> int \<Rightarrow> memory_defaults res" where
  "read_memory_defaults config default_scope top_k =
    try_bind (cfg_bool config ''memory.defaults.include_agent_memories'' True) (\<lambda>include_agent_memories.
    try_bind (cfg_bool config ''memory.defaults.include_document_chunks'' True) (\<lambda>include_document_chunks.
    try_bind (cfg_bool config ''memory.defaults.include_graph_context'' True) (\<lambda>include_graph_context.
    try_bind (cfg_int config ''memory.defaults.max_result_chars'' 1200) (\<lambda>max_result_chars.
    try_bind (cfg_int config ''memory.defaults.max_total_context_chars'' 8000) (\<lambda>max_total_context_chars.
    try_bind (cfg_str config ''memory.defaults.trace_query_capture'' ''none'') (\<lambda>trace_query_capture.
    try_bind (cfg_str config ''memory.defaults.trace_result_content_capture'' ''none'') (\<lambda>trace_result_content_capture.
    Inr \<lparr>mdf_default_scope = default_scope,
      mdf_top_k = top_k,
      mdf_include_agent_memories = include_agent_memories,
      mdf_include_document_chunks = include_document_chunks,
      mdf_include_graph_context = include_graph_context,
      mdf_max_result_chars = max_result_chars,
      mdf_max_total_context_chars = max_total_context_chars,
      mdf_trace_query_capture = trace_query_capture,
      mdf_trace_result_content_capture = trace_result_content_capture\<rparr>)))))))"

definition read_memory_database :: "pyval \<Rightarrow> string \<Rightarrow> memory_database_settings res" where
  "read_memory_database config path =
    try_bind (cfg_bool config ''memory.store.database.create_if_missing'' True) (\<lambda>create_if_missing.
    try_bind (cfg_int config ''memory.store.database.schema_version'' 1) (\<lambda>schema_version.
    try_bind (cfg_bool config ''memory.store.database.embedded_single_process'' True) (\<lambda>embedded_single_process.
    Inr \<lparr>mdb_path = path,
      mdb_create_if_missing = create_if_missing,
      mdb_schema_version = schema_version,
      mdb_embedded_single_process = embedded_single_process\<rparr>)))"

definition read_memory_embeddings :: "pyval \<Rightarrow> memory_embeddings_settings res" where
  "read_memory_embeddings config =
    try_bind (cfg_str config ''memory.store.embeddings.provider'' ''fastembed'') (\<lambda>provider.
    try_bind (cfg_str config ''memory.store.embeddings.model'' ''BAAI/bge-small-en-v1.5'') (\<lambda>model.
    try_bind (cfg_optional_str_or_none config ''memory.store.embeddings.model_version'') (\<lambda>model_version.
    try_bind (cfg_optional_int config ''memory.store.embeddings.dimension'') (\<lambda>dimension.
    try_bind (cfg_int config ''memory.store.embeddings.batch_size'' 64) (\<lambda>batch_size.
    try_bind (cfg_bool config ''memory.store.embeddings.normalize'' True) (\<lambda>normalize.
    try_bind (cfg_str config ''memory.store.embeddings.dimension_mismatch'' ''error'') (\<lambda>dimension_mismatch.
    Inr \<lparr>meb_provider = provider,
      meb_model = model,
      meb_model_version = model_version,
      meb_dimension = dimension,
      meb_batch_size = batch_size,
      meb_normalize = normalize,
      meb_dimension_mismatch = dimension_mismatch\<rparr>)))))))"

definition read_memory_reranker :: "pyval \<Rightarrow> memory_reranker_settings res" where
  "read_memory_reranker config =
    try_bind (cfg_bool config ''memory.store.reranker.enabled'' True) (\<lambda>enabled.
    try_bind (cfg_str config ''memory.store.reranker.provider'' ''fastembed'') (\<lambda>provider.
    try_bind (cfg_str config ''memory.store.reranker.model'' ''Xenova/ms-marco-MiniLM-L-6-v2'') (\<lambda>model.
    try_bind (cfg_optional_str_or_none config ''memory.store.reranker.model_version'') (\<lambda>model_version.
    try_bind (cfg_int config ''memory.store.reranker.top_n'' 60) (\<lambda>top_n.
    Inr \<lparr>mrk_enabled = enabled,
      mrk_provider = provider,
      mrk_model = model,
      mrk_model_version = model_version,
      mrk_top_n = top_n\<rparr>)))))"

definition read_memory_chunking :: "pyval \<Rightarrow> memory_chunking_settings res" where
  "read_memory_chunking config =
    try_bind (cfg_str config ''memory.chunking.strategy'' ''markdown_section'') (\<lambda>strategy.
    try_bind (cfg_int config ''memory.chunking.max_tokens'' 350) (\<lambda>max_tokens.
    try_bind (cfg_int config ''memory.chunking.overlap_tokens'' 50) (\<lambda>overlap_tokens.
    try_bind (cfg_bool config ''memory.chunking.include_heading_path'' True) (\<lambda>include_heading_path.
    try_bind (cfg_bool config ''memory.chunking.include_frontmatter_in_embedding'' True) (\<lambda>include_frontmatter_in_embedding.
    try_bind (cfg_bool config ''memory.chunking.preserve_code_blocks'' True) (\<lambda>preserve_code_blocks.
    try_bind (cfg_str config ''memory.chunking.removed_chunk_policy'' ''mark_removed'') (\<lambda>removed_chunk_policy.
    Inr \<lparr>mck_strategy = strategy,
      mck_max_tokens = max_tokens,
      mck_overlap_tokens = overlap_tokens,
      mck_include_heading_path = include_heading_path,
      mck_include_frontmatter_in_embedding = include_frontmatter_in_embedding,
      mck_preserve_code_blocks = preserve_code_blocks,
      mck_removed_chunk_policy = removed_chunk_policy\<rparr>)))))))"

definition read_memory_search :: "pyval \<Rightarrow> int \<Rightarrow> memory_search_settings res" where
  "read_memory_search config limit_max =
    try_bind (cfg_int config ''memory.search.vector_top_n'' 30) (\<lambda>vector_top_n.
    try_bind (cfg_int config ''memory.search.fts_top_n'' 30) (\<lambda>fts_top_n.
    try_bind (cfg_int config ''memory.search.rrf_k'' 60) (\<lambda>rrf_k.
    try_bind (cfg_bool config ''memory.search.graph_expansion_enabled'' True) (\<lambda>graph_expansion_enabled.
    try_bind (cfg_int config ''memory.search.graph_expansion_hops'' 1) (\<lambda>graph_expansion_hops.
    try_bind (cfg_int config ''memory.search.final_top_k'' 10) (\<lambda>final_top_k.
    try_bind (cfg_bool config ''memory.search.include_component_scores'' True) (\<lambda>include_component_scores.
    try_bind (cfg_bool config ''memory.search.include_debug'' False) (\<lambda>include_debug.
    Inr \<lparr>msr_limit_max = limit_max,
      msr_vector_top_n = vector_top_n,
      msr_fts_top_n = fts_top_n,
      msr_rrf_k = rrf_k,
      msr_graph_expansion_enabled = graph_expansion_enabled,
      msr_graph_expansion_hops = graph_expansion_hops,
      msr_final_top_k = final_top_k,
      msr_include_component_scores = include_component_scores,
      msr_include_debug = include_debug\<rparr>))))))))"

definition read_memory_lifecycle :: "pyval \<Rightarrow> bool \<Rightarrow> memory_lifecycle_settings res" where
  "read_memory_lifecycle config allow_writes =
    try_bind (cfg_optional_int config ''memory.lifecycle.default_ttl_days'') (\<lambda>default_ttl_days.
    try_bind (cfg_str config ''memory.lifecycle.contradiction_policy'' ''keep_both_mark_conflict'') (\<lambda>contradiction_policy.
    try_bind (cfg_str config ''memory.lifecycle.supersede_policy'' ''mark_previous_superseded'') (\<lambda>supersede_policy.
    try_bind (cfg_bool config ''memory.lifecycle.require_durable_scope_for_writes'' True) (\<lambda>require_durable_scope_for_writes.
    try_bind (cfg_bool config ''memory.lifecycle.allow_session_scope_only_writes'' False) (\<lambda>allow_session_scope_only_writes.
    try_bind (cfg_bool config ''memory.lifecycle.require_durable_scope_for_delete_export'' True) (\<lambda>require_durable_scope_for_delete_export.
    Inr \<lparr>mlc_allow_writes = allow_writes,
      mlc_default_ttl_days = default_ttl_days,
      mlc_contradiction_policy = contradiction_policy,
      mlc_supersede_policy = supersede_policy,
      mlc_require_durable_scope_for_writes = require_durable_scope_for_writes,
      mlc_allow_session_scope_only_writes = allow_session_scope_only_writes,
      mlc_require_durable_scope_for_delete_export = require_durable_scope_for_delete_export\<rparr>))))))"

definition read_memory_privacy :: "pyval \<Rightarrow> memory_privacy_settings res" where
  "read_memory_privacy config =
    try_bind (cfg_str config ''memory.privacy.default_sensitivity'' ''internal'') (\<lambda>default_sensitivity.
    try_bind (cfg_bool config ''memory.privacy.allow_llm_context_default'' True) (\<lambda>allow_llm_context_default.
    try_bind (cfg_bool config ''memory.privacy.allow_retrieval_default'' True) (\<lambda>allow_retrieval_default.
    try_bind (cfg_bool config ''memory.privacy.delete_by_scope_requires_confirm'' True) (\<lambda>delete_by_scope_requires_confirm.
    try_bind (cfg_bool config ''memory.privacy.enable_export_by_scope'' False) (\<lambda>enable_export_by_scope.
    try_bind (cfg_bool config ''memory.privacy.enable_delete_by_scope'' False) (\<lambda>enable_delete_by_scope.
    try_bind (cfg_bool config ''memory.privacy.hard_delete_enabled'' False) (\<lambda>hard_delete_enabled.
    try_bind (cfg_bool config ''memory.privacy.tombstone_on_forget'' True) (\<lambda>tombstone_on_forget.
    try_bind (cfg_bool config ''memory.privacy.require_policy_approval_for_delete_export'' True) (\<lambda>require_policy_approval_for_delete_export.
    Inr \<lparr>mpv_default_sensitivity = default_sensitivity,
      mpv_allow_llm_context_default = allow_llm_context_default,
      mpv_allow_retrieval_default = allow_retrieval_default,
      mpv_delete_by_scope_requires_confirm = delete_by_scope_requires_confirm,
      mpv_enable_export_by_scope = enable_export_by_scope,
      mpv_enable_delete_by_scope = enable_delete_by_scope,
      mpv_hard_delete_enabled = hard_delete_enabled,
      mpv_tombstone_on_forget = tombstone_on_forget,
      mpv_require_policy_approval_for_delete_export = require_policy_approval_for_delete_export\<rparr>)))))))))"

definition read_memory_weights :: "pyval \<Rightarrow> memory_scoring_weights res" where
  "read_memory_weights config =
    try_bind (cfg_float config ''memory.scoring.weights.reranker'' (PFloat 4601778099247172813)) (\<lambda>reranker.
    try_bind (cfg_float config ''memory.scoring.weights.retrieval_fusion'' (PFloat 4594572339843380019)) (\<lambda>retrieval_fusion.
    try_bind (cfg_float config ''memory.scoring.weights.vector'' (PFloat 4591870180066957722)) (\<lambda>vector.
    try_bind (cfg_float config ''memory.scoring.weights.full_text'' (PFloat 4590429028186199163)) (\<lambda>full_text.
    try_bind (cfg_float config ''memory.scoring.weights.temporal'' (PFloat 4589708452245819884)) (\<lambda>temporal.
    try_bind (cfg_float config ''memory.scoring.weights.importance'' (PFloat 4588807732320345784)) (\<lambda>importance.
    try_bind (cfg_float config ''memory.scoring.weights.confidence'' (PFloat 4585925428558828667)) (\<lambda>confidence.
    try_bind (cfg_float config ''memory.scoring.weights.graph'' (PFloat 4584304132692975288)) (\<lambda>graph.
    try_bind (cfg_float config ''memory.scoring.weights.user_rating'' (PFloat 4581421828931458171)) (\<lambda>user_rating.
    Inr \<lparr>mw_reranker = reranker,
      mw_retrieval_fusion = retrieval_fusion,
      mw_vector = vector,
      mw_full_text = full_text,
      mw_temporal = temporal,
      mw_importance = importance,
      mw_confidence = confidence,
      mw_graph = graph,
      mw_user_rating = user_rating\<rparr>)))))))))"

definition read_memory_store :: "pyval \<Rightarrow> path_resolver \<Rightarrow> string option \<Rightarrow> string \<Rightarrow> memory_store_settings res" where
  "read_memory_store config ps config_path path =
    try_bind (read_memory_database config path) (\<lambda>database.
    try_bind (read_memory_embeddings config) (\<lambda>embeddings.
    try_bind (read_memory_reranker config) (\<lambda>reranker.
    try_bind (cfg_resolved_path config ''memory.store.fastembed.cache_dir'' (pr_backend ps)) (\<lambda>cache_dir.
    try_bind (cfg_bool config ''memory.store.fastembed.local_files_only'' False) (\<lambda>local_files_only.
    Inr \<lparr>mst_config_path = config_path,
      mst_database = database,
      mst_embeddings = embeddings,
      mst_reranker = reranker,
      mst_fastembed_cache_dir = cache_dir,
      mst_fastembed_local_files_only = local_files_only\<rparr>)))))"

fun the_path :: "string option list \<Rightarrow> string \<Rightarrow> string" where
  "the_path [] d = d"
| "the_path (Some p # ps) d = p"
| "the_path (None # ps) d = the_path ps d"

definition get_memory_settings :: "path_resolver \<Rightarrow> pyval \<Rightarrow> memory_settings res" where
  "get_memory_settings ps config =
    try_bind (cfg_optional_bool config ''memory.enabled'') (\<lambda>enabled0.
    try_bind (cfg_optional_bool config ''memory.required'') (\<lambda>required0.
    try_bind (cfg_resolved_path config ''memory.store.config_path'' (pr_backend ps)) (\<lambda>config_path0.
    try_bind (else_read config_path0 (cfg_resolved_path config ''persistence.memory.memory_store.config_path'' (pr_backend ps))) (\<lambda>config_path.
    try_bind (cfg_resolved_path config ''memory.store.database.path'' (\<lambda>v. pr_data ps v (memory_base_dir config ps))) (\<lambda>path1.
    try_bind (cfg_resolved_path config ''persistence.memory.memory_store.database_path'' (\<lambda>v. pr_data ps v (memory_base_dir config ps))) (\<lambda>path2.
    try_bind (cfg_resolved_path config ''persistence.memory.config.database_path'' (pr_backend ps)) (\<lambda>path3.
    try_bind (cfg_optional_str_or_none config ''memory.defaults.default_scope'') (\<lambda>scope0.
    try_bind (or_read scope0 (cfg_optional_str_or_none config ''persistence.memory.memory_store.default_scope'')) (\<lambda>scope1.
    try_bind (cfg_optional_int config ''memory.defaults.top_k'') (\<lambda>top_k0.
    try_bind (else_read top_k0 (cfg_optional_int config ''persistence.memory.memory_store.search_limit_default'')) (\<lambda>top_k.
    try_bind (cfg_optional_int config ''memory.search.limit_max'') (\<lambda>limit0.
    try_bind (else_read limit0 (cfg_optional_int config ''persistence.memory.memory_store.search_limit_max'')) (\<lambda>limit_max.
    try_bind (cfg_optional_bool config ''memory.lifecycle.allow_writes'') (\<lambda>writes0.
    try_bind (else_read writes0 (cfg_optional_bool config ''persistence.memory.memory_store.allow_writes'')) (\<lambda>allow_writes.
    try_bind (case enabled0 of Some b \<Rightarrow> Inr b | None \<Rightarrow> cfg_bool config ''features.memory_enabled'' False) (\<lambda>enabled.
    try_bind (cfg_optional_str_or_none config ''memory.provider'') (\<lambda>provider0.
    try_bind (or_read provider0 (cfg_optional_str_or_none config ''persistence.memory.provider'')) (\<lambda>provider.
    try_bind (case required0 of Some b \<Rightarrow> Inr b | None \<Rightarrow> cfg_bool config ''persistence.memory.required'' False) (\<lambda>required.
    try_bind (read_memory_defaults config (str_default scope1 ''project'') (case top_k of Some n \<Rightarrow> n | None \<Rightarrow> 10)) (\<lambda>defaults.
    try_bind (read_memory_store config ps config_path (the_path [path1, path2, path3] (pr_data ps ''memory'' (memory_base_dir config ps)))) (\<lambda>store.
    try_bind (read_memory_chunking config) (\<lambda>chunking.
    try_bind (read_memory_search config (case limit_max of Some n \<Rightarrow> n | None \<Rightarrow> 30)) (\<lambda>search.
    try_bind (read_memory_weights config) (\<lambda>weights.
    try_bind (read_memory_lifecycle config (allow_writes = Some True)) (\<lambda>lifecycle.
    try_bind (read_memory_privacy config) (\<lambda>privacy.
    try_bind (cfg_bool config ''memory.health.deep_check_enabled'' False) (\<lambda>deep_check_enabled.
    Inr \<lparr>mem_enabled = enabled,
      mem_provider = str_default provider ''memory_store'',
      mem_required = required,
      mem_defaults = defaults,
      mem_store = store,
      mem_chunking = chunking,
      mem_search = search,
      mem_weights = weights,
      mem_lifecycle = lifecycle,
      mem_privacy = privacy,
      mem_deep_check_enabled = deep_check_enabled\<rparr>)))))))))))))))))))))))))))"

declare get_memory_settings_def [reader_defs] read_memory_store_def [reader_defs] read_memory_weights_def [reader_defs]
  read_memory_privacy_def [reader_defs] read_memory_lifecycle_def [reader_defs] read_memory_search_def [reader_defs]
  read_memory_chunking_def [reader_defs] read_memory_reranker_def [reader_defs] read_memory_embeddings_def [reader_defs]
  read_memory_database_def [reader_defs] read_memory_defaults_def [reader_defs] memory_base_dir_def [reader_defs]
  cfg_resolved_path_def [reader_defs] cfg_float_def [reader_defs] or_read_def [reader_defs] else_read_def [reader_defs]

end
