(* ===== verification/Memory_Gateway.thy ===== *)
theory Memory_Gateway
  imports Memory_Models Memory_Config Service_Facts
begin

text \<open>
  The memory gateway (\<open>memory/gateway.py\<close>): scope resolution, guards, policy check, the call of the adapter, the
  bounds on what it returns, and the trace events.

  \<^item> Every operation first makes an operation record out of its arguments, or raises; \<open>perform\<close> then runs it as
    \<open>_execute\<close> does. The record holds what the Python method passes to \<open>_execute\<close>.
  \<^item> The adapter stands for a database outside the model: the answer to the one call of an operation is a
    parameter, a result or an exception.
  \<^item> \<open>_record_event\<close> swallows what the trace store raises, so recording an event never fails.
\<close>

section \<open>The gateway and a run of it\<close>

record memory_gateway =
  mg_settings :: memory_settings
  mg_component :: string

definition new_memory_gateway :: "memory_settings \<Rightarrow> memory_gateway" where
  "new_memory_gateway settings = \<lparr>mg_settings = settings, mg_component = ''app.memory.gateway''\<rparr>"

datatype memory_call =
    SearchCall memory_query
  | GetCall get_request
  | ChunkCall chunk_request
  | UpsertCall write_request
  | PromoteCall lifecycle_request
  | SupersedeCall pair_request
  | ContradictCall pair_request
  | ExpireCall lifecycle_request
  | ForgetCall forget_request
  | IngestCall ingest_request
  | DeleteCall delete_request
  | ExportCall export_request
  | StatsCall "memory_scope option"

record memory_trace =
  mt_event_type :: string
  mt_trace_id :: string
  mt_session_id :: string
  mt_component :: string
  mt_status :: string
  mt_severity :: string
  mt_user_id :: string
  mt_usecase :: "string option"
  mt_agent_name :: "string option"
  mt_strategy_name :: "string option"
  mt_provider :: string
  mt_duration_ms :: "int option"
  mt_error_type :: "string option"
  mt_payload :: pydict

datatype memory_event =
    MemoryCalled memory_call
  | MemoryTraced memory_trace

text \<open>What the adapter raises: an error of the memory classes, or any other \<open>Exception\<close> by its class name. A
  cancellation is no \<open>Exception\<close> and leaves the operation at once.\<close>

datatype adapter_failure =
    RaisedMemory memory_class string
  | RaisedOther string
  | Cancelled

datatype memory_outcome = Raised memory_exc | WasCancelled

record mem_env =
  menv_texts :: py_texts
  menv_clock :: clock_readings
  menv_duration :: int

record mem_run =
  mrun_service :: policy_service
  mrun_log :: "memory_event list"

definition fresh_mem_run :: "policy_service \<Rightarrow> mem_run" where
  "fresh_mem_run sv = \<lparr>mrun_service = sv, mrun_log = []\<rparr>"

definition log_memory :: "memory_event \<Rightarrow> mem_run \<Rightarrow> mem_run" where
  "log_memory e s = s\<lparr>mrun_log := mrun_log s @ [e]\<rparr>"

section \<open>One operation\<close>

record 'r mem_op =
  op_action :: string
  op_resource :: "string option"
  op_scope :: memory_scope
  op_call :: memory_call
  op_write :: "memory_write option"
  op_disabled :: "('r \<times> pydict) option"
  op_require_enabled :: bool
  op_started :: "(string \<times> pydict) option"
  op_completed :: string
  op_failed :: "string option"
  op_success :: "'r \<Rightarrow> 'r res"
  op_payload :: "'r \<Rightarrow> int \<Rightarrow> pydict"

definition memory_trace_of ::
  "memory_gateway \<Rightarrow> orchestration_context \<Rightarrow> string \<Rightarrow> string \<Rightarrow> string \<Rightarrow> int option \<Rightarrow> string option \<Rightarrow> pydict \<Rightarrow>
   memory_trace" where
  "memory_trace_of gw c event_type status severity duration error_type payload =
    (let rc = octx_request c;
         runtime = octx_runtime_metadata c
     in \<lparr>mt_event_type = event_type,
         mt_trace_id = (if truthy (rc_trace_id rc) then the (rc_trace_id rc) else ''trace_memory''),
         mt_session_id = rc_session_id rc, mt_component = mg_component gw, mt_status = status, mt_severity = severity,
         mt_user_id = rc_user_id rc, mt_usecase = rc_usecase rc,
         mt_agent_name = read_optional_text (dict_get runtime ''agent_name''),
         mt_strategy_name = read_optional_text (dict_get runtime ''strategy_name''),
         mt_provider = mem_provider (mg_settings gw), mt_duration_ms = duration, mt_error_type = error_type,
         mt_payload = payload\<rparr>)"

text \<open>\<open>action.split(".", 1)[1]\<close>.\<close>

definition action_name :: "string \<Rightarrow> string" where
  "action_name action = tl (dropWhile (\<lambda>ch. ch \<noteq> CHR ''.'') action)"

definition memory_disabled_error :: memory_exc where
  "memory_disabled_error = MemoryExc MemoryDisabledError ''Memory is disabled by configuration.''"

definition memory_policy_request ::
  "memory_gateway \<Rightarrow> orchestration_context \<Rightarrow> 'r mem_op \<Rightarrow> policy_request" where
  "memory_policy_request gw c op =
    build_memory_policy_request (op_action op) (mg_component gw) (op_scope op) c (op_resource op)
      (mem_provider (mg_settings gw)) (op_write op)"

definition policy_to_memory :: "pyerr \<Rightarrow> memory_exc" where
  "policy_to_memory e =
    (case e of
       PolicyApprovalRequiredError m \<Rightarrow> MemoryExc MemoryPolicyApprovalRequiredError m
     | PolicyDeniedError m \<Rightarrow> MemoryExc MemoryPolicyDeniedError m
     | e \<Rightarrow> OtherExc e)"

definition require_policy ::
  "mem_env \<Rightarrow> memory_gateway \<Rightarrow> orchestration_context \<Rightarrow> 'r mem_op \<Rightarrow> mem_run \<Rightarrow> unit mem_res \<times> mem_run" where
  "require_policy env gw c op s =
    (case service_require_allowed (menv_texts env) (menv_clock env) (mrun_service s) (memory_policy_request gw c op) c of
       (Inl e, sv) \<Rightarrow> (Inl (policy_to_memory e), s\<lparr>mrun_service := sv\<rparr>)
     | (Inr u, sv) \<Rightarrow> (Inr u, s\<lparr>mrun_service := sv\<rparr>))"

definition wrap_operation_error :: "string \<Rightarrow> adapter_failure \<Rightarrow> memory_exc" where
  "wrap_operation_error action f =
    (case f of
       RaisedMemory k m \<Rightarrow> MemoryExc k m
     | _ \<Rightarrow>
        if action = ''memory.ingest_document'' then
          MemoryExc MemoryIngestionError ''Memory document ingestion failed.''
        else if action \<in> {''memory.delete_by_scope'', ''memory.export_by_scope''} then
          MemoryExc MemoryPrivacyError ''Memory privacy operation failed.''
        else MemoryExc MemoryAdapterError ''Memory adapter operation failed.'')"

definition failure_class :: "(memory_class \<Rightarrow> string) \<Rightarrow> adapter_failure \<Rightarrow> string" where
  "failure_class name_of f = (case f of RaisedMemory k m \<Rightarrow> name_of k | RaisedOther n \<Rightarrow> n | Cancelled \<Rightarrow> ''CancelledError'')"

fun memory_class_name :: "memory_class \<Rightarrow> string" where
  "memory_class_name MemoryGatewayError = ''MemoryGatewayError''"
| "memory_class_name MemoryDisabledError = ''MemoryDisabledError''"
| "memory_class_name MemoryInvalidScopeError = ''MemoryInvalidScopeError''"
| "memory_class_name MemoryNotFoundError = ''MemoryNotFoundError''"
| "memory_class_name MemoryPolicyDeniedError = ''MemoryPolicyDeniedError''"
| "memory_class_name MemoryPolicyApprovalRequiredError = ''MemoryPolicyApprovalRequiredError''"
| "memory_class_name MemoryAdapterError = ''MemoryAdapterError''"
| "memory_class_name MemoryIngestionError = ''MemoryIngestionError''"
| "memory_class_name MemoryPrivacyError = ''MemoryPrivacyError''"

definition trace_memory ::
  "memory_gateway \<Rightarrow> orchestration_context \<Rightarrow> string \<Rightarrow> string \<Rightarrow> string \<Rightarrow> int option \<Rightarrow> string option \<Rightarrow> pydict \<Rightarrow>
   mem_run \<Rightarrow> mem_run" where
  "trace_memory gw c event_type status severity duration error_type payload =
    log_memory (MemoryTraced (memory_trace_of gw c event_type status severity duration error_type payload))"

text \<open>The part of \<open>_execute\<close> after the policy check: the call and its outcome.\<close>

definition call_adapter ::
  "mem_env \<Rightarrow> memory_gateway \<Rightarrow> orchestration_context \<Rightarrow> 'r mem_op \<Rightarrow> adapter_failure + 'r \<Rightarrow> mem_run \<Rightarrow>
   (memory_outcome + 'r) \<times> mem_run" where
  "call_adapter env gw c op answer s =
    (let duration = max 0 (menv_duration env);
         s0 = (case op_started op of None \<Rightarrow> s | Some (e, p) \<Rightarrow> trace_memory gw c e ''started'' ''info'' None None p s);
         s1 = log_memory (MemoryCalled (op_call op)) s0
     in case answer of
          Inl Cancelled \<Rightarrow> (Inl WasCancelled, s1)
        | Inl f \<Rightarrow>
            (Inl (Raised (wrap_operation_error (op_action op) f)),
             case op_failed op of
               None \<Rightarrow> s1
             | Some e \<Rightarrow> trace_memory gw c e ''failed'' ''warning'' (Some duration)
                 (Some (failure_class memory_class_name f))
                 (dict_merge (scope_summary (op_scope op))
                   [(''operation'', PStr (action_name (op_action op))), (''duration_ms'', PInt duration)]) s1)
        | Inr raw \<Rightarrow>
            (case op_success op raw of
               Inl e \<Rightarrow> (Inl (Raised (OtherExc e)), s1)
             | Inr r \<Rightarrow>
                 (Inr r, trace_memory gw c (op_completed op) ''completed'' ''info'' (Some duration) None
                    (op_payload op r duration) s1)))"

definition mem_execute ::
  "mem_env \<Rightarrow> memory_gateway \<Rightarrow> orchestration_context \<Rightarrow> 'r mem_op \<Rightarrow> adapter_failure + 'r \<Rightarrow> mem_run \<Rightarrow>
   (memory_outcome + 'r) \<times> mem_run" where
  "mem_execute env gw c op answer s =
    (let checked = (case require_policy env gw c op s of
                      (Inl e, s1) \<Rightarrow> (Inl (Raised e), s1)
                    | (Inr u, s1) \<Rightarrow> call_adapter env gw c op answer s1)
     in if \<not> mem_enabled (mg_settings gw) then
          (case op_disabled op of
             Some (r, summary) \<Rightarrow>
               (Inr r, trace_memory gw c (op_completed op) ''completed'' ''info'' None None
                  (dict_merge (dict_merge (scope_summary (op_scope op))
                    [(''operation'', PStr (action_name (op_action op))), (''disabled'', PBool True)]) summary) s)
           | None \<Rightarrow> if op_require_enabled op then (Inl (Raised memory_disabled_error), s) else checked)
        else checked)"

text \<open>A method of the gateway: its operation record, or what it raises before, and its execution.\<close>

definition perform ::
  "mem_env \<Rightarrow> memory_gateway \<Rightarrow> orchestration_context \<Rightarrow> 'r mem_op mem_res \<Rightarrow> adapter_failure + 'r \<Rightarrow> mem_run \<Rightarrow>
   (memory_outcome + 'r) \<times> mem_run" where
  "perform env gw c op answer s =
    (case op of Inl e \<Rightarrow> (Inl (Raised e), s) | Inr op \<Rightarrow> mem_execute env gw c op answer s)"

section \<open>Scopes and guards\<close>

definition gateway_scope :: "memory_gateway \<Rightarrow> memory_scope \<Rightarrow> orchestration_context \<Rightarrow> memory_scope mem_res" where
  "gateway_scope gw scope c =
    resolve_memory_scope scope c (mdf_default_scope (mem_defaults (mg_settings gw)))"

text \<open>A read keeps the user and project of the resolved scope and the other dimensions of the explicit one.\<close>

definition gateway_read_scope :: "memory_gateway \<Rightarrow> memory_scope \<Rightarrow> orchestration_context \<Rightarrow> memory_scope mem_res" where
  "gateway_read_scope gw scope c =
    (let explicit = ms_normalized scope
     in try_bind (gateway_scope gw scope c) (\<lambda>resolved.
        Inr (memory_scope_post_init
          (explicit\<lparr>ms_user_id := ms_user_id resolved, ms_project_id := ms_project_id resolved,
                    ms_metadata := dict_merge (ms_metadata explicit) (ms_metadata resolved)\<rparr>))))"

definition guard :: "bool \<Rightarrow> memory_class \<Rightarrow> string \<Rightarrow> unit mem_res" where
  "guard b k m = (if b then Inr () else Inl (MemoryExc k m))"

definition ensure_write_scope :: "memory_gateway \<Rightarrow> memory_scope \<Rightarrow> unit mem_res" where
  "ensure_write_scope gw scope =
    (let lifecycle = mem_lifecycle (mg_settings gw)
     in guard (ms_has_durable_scope scope
          \<or> mlc_allow_session_scope_only_writes lifecycle \<and> ms_session_id scope \<noteq> None
          \<or> \<not> mlc_require_durable_scope_for_writes lifecycle)
        MemoryInvalidScopeError ''Memory writes require at least one durable scope.'')"

definition ensure_delete_export_scope :: "memory_gateway \<Rightarrow> memory_scope \<Rightarrow> unit mem_res" where
  "ensure_delete_export_scope gw scope =
    guard (\<not> mlc_require_durable_scope_for_delete_export (mem_lifecycle (mg_settings gw)) \<or> ms_has_durable_scope scope)
      MemoryInvalidScopeError ''Delete and export operations require a durable memory scope.''"

definition ensure_memory_enabled :: "memory_gateway \<Rightarrow> unit mem_res" where
  "ensure_memory_enabled gw =
    guard (mem_enabled (mg_settings gw)) MemoryDisabledError ''Memory is disabled by configuration.''"

definition ensure_delete_by_scope_enabled :: "memory_gateway \<Rightarrow> unit mem_res" where
  "ensure_delete_by_scope_enabled gw =
    guard (mpv_enable_delete_by_scope (mem_privacy (mg_settings gw))) MemoryPrivacyError
      ''Delete by scope is disabled by configuration.''"

definition ensure_export_by_scope_enabled :: "memory_gateway \<Rightarrow> unit mem_res" where
  "ensure_export_by_scope_enabled gw =
    guard (mpv_enable_export_by_scope (mem_privacy (mg_settings gw))) MemoryPrivacyError
      ''Export by scope is disabled by configuration.''"

definition ensure_hard_delete_allowed :: "memory_gateway \<Rightarrow> unit mem_res" where
  "ensure_hard_delete_allowed gw =
    guard (mpv_hard_delete_enabled (mem_privacy (mg_settings gw))) MemoryPrivacyError
      ''Hard delete is disabled by configuration.''"

definition ensure_delete_confirmation :: "memory_gateway \<Rightarrow> delete_request \<Rightarrow> unit mem_res" where
  "ensure_delete_confirmation gw q =
    guard (dq_require_confirmation q \<or> \<not> mpv_delete_by_scope_requires_confirm (mem_privacy (mg_settings gw)))
      MemoryPrivacyError ''Delete by scope requires explicit confirmation.''"

definition ensure_explicit_durable_scope :: "memory_scope \<Rightarrow> unit mem_res" where
  "ensure_explicit_durable_scope scope =
    guard (ms_has_durable_scope (ms_normalized scope)) MemoryInvalidScopeError
      ''Delete and export operations require an explicit durable scope.''"

section \<open>Bounds\<close>

definition bound_search_limit :: "memory_gateway \<Rightarrow> int option \<Rightarrow> int" where
  "bound_search_limit gw v =
    (let limit = (case v of Some n \<Rightarrow> if n \<le> 0 then mdf_top_k (mem_defaults (mg_settings gw)) else n
                  | None \<Rightarrow> mdf_top_k (mem_defaults (mg_settings gw)))
     in max 1 (min limit (msr_limit_max (mem_search (mg_settings gw)))))"

definition max_result_chars :: "memory_gateway \<Rightarrow> int option \<Rightarrow> int" where
  "max_result_chars gw v =
    (let limit = mdf_max_result_chars (mem_defaults (mg_settings gw))
     in case v of Some n \<Rightarrow> if n \<le> 0 then limit else min n limit | None \<Rightarrow> limit)"

definition default_chars :: "memory_gateway \<Rightarrow> int" where
  "default_chars gw = mdf_max_result_chars (mem_defaults (mg_settings gw))"

definition bound_search_result :: "int \<Rightarrow> int \<Rightarrow> search_result \<Rightarrow> search_result res" where
  "bound_search_result limit max_chars r =
    try_bind (map_res (bound_hit max_chars) (take (nat limit) (sr_results r))) (\<lambda>hits.
    Inr (new_search_result (r\<lparr>sr_results := hits\<rparr>)))"

definition bound_write_result :: "memory_gateway \<Rightarrow> write_result \<Rightarrow> write_result res" where
  "bound_write_result gw r =
    (case wr_record r of
       None \<Rightarrow> Inr r
     | Some d \<Rightarrow> try_bind (bound_record (default_chars gw) d) (\<lambda>b. new_write_result (r\<lparr>wr_record := Some b\<rparr>)))"

definition bound_chunk_result :: "memory_gateway \<Rightarrow> chunk_result option \<Rightarrow> chunk_result option res" where
  "bound_chunk_result gw v =
    (case v of
       None \<Rightarrow> Inr None
     | Some r \<Rightarrow>
        try_bind (bound_hit (default_chars gw) (cr_chunk r)) (\<lambda>chunk.
        try_bind (map_res (bound_hit (default_chars gw)) (cr_before r)) (\<lambda>before.
        try_bind (map_res (bound_hit (default_chars gw)) (cr_after r)) (\<lambda>after.
        Inr (Some (r\<lparr>cr_chunk := chunk, cr_before := before, cr_after := after\<rparr>))))))"

definition bound_export_result :: "memory_gateway \<Rightarrow> export_result \<Rightarrow> export_result res" where
  "bound_export_result gw r =
    try_bind (map_res (bound_record (default_chars gw)) (er_records r)) (\<lambda>records.
    Inr (new_export_result (r\<lparr>er_records := records\<rparr>)))"

definition bound_record_option :: "memory_gateway \<Rightarrow> memory_record option \<Rightarrow> memory_record option res" where
  "bound_record_option gw v =
    (case v of None \<Rightarrow> Inr None | Some r \<Rightarrow> try_bind (bound_record (default_chars gw) r) (\<lambda>b. Inr (Some b)))"

end
