(* ===== verification/Memory_Operations.thy ===== *)
theory Memory_Operations
  imports Memory_Gateway
begin

text \<open>
  The operations of the memory gateway: for each public method the operation record it passes to \<open>_execute\<close>, with the
  guards it checks before, and the gateway that stands in when the provider is unavailable.
\<close>

section \<open>Reads\<close>

definition dict_over :: "pydict \<Rightarrow> pydict \<Rightarrow> pydict" where
  "dict_over scope_part rest = dict_merge scope_part rest"

definition search_payload :: "py_texts \<Rightarrow> memory_scope \<Rightarrow> memory_query \<Rightarrow> pydict" where
  "search_payload tx scope q =
    dict_over (scope_summary scope)
      [(''operation'', PStr ''search''), (''query_chars'', PInt (int (length (sq_text q)))),
       (''query_hash'', PStr (hash_text tx (sq_text q)))]"

definition search_op ::
  "py_texts \<Rightarrow> memory_gateway \<Rightarrow> memory_query \<Rightarrow> orchestration_context \<Rightarrow> search_result mem_op mem_res" where
  "search_op tx gw q c =
    try_bind (gateway_read_scope gw (sq_scope q) c) (\<lambda>scope.
    let limit = bound_search_limit gw (sq_limit q);
        max_chars = max_result_chars gw (sq_max_result_chars q)
    in try_bind (lift_err (new_memory_query
         (q\<lparr>sq_scope := scope, sq_limit := Some limit, sq_max_result_chars := Some max_chars,
            sq_top_k := Some limit\<rparr>))) (\<lambda>n.
       Inr \<lparr>op_action = ''memory.search'', op_resource = None, op_scope = scope, op_call = SearchCall n, op_write = None,
            op_disabled = Some (new_search_result \<lparr>sr_results = [], sr_query_id = sq_query_id n,
                sr_total_candidates = Some 0, sr_search_strategy = Some ''disabled'', sr_metadata = []\<rparr>,
              [(''result_count'', PInt 0)]),
            op_require_enabled = False,
            op_started = Some (''memory_search_started'', dict_over (search_payload tx scope n)
              [(''top_k'', PInt limit), (''include_document_chunks'', PBool (sq_include_document_chunks n))]),
            op_completed = ''memory_search_completed'', op_failed = Some ''memory_search_failed'',
            op_success = bound_search_result limit max_chars,
            op_payload = (\<lambda>r d. dict_over (search_payload tx scope n)
              ([(''result_count'', PInt (int (length (sr_results r)))), (''duration_ms'', PInt d)]
               @ summarize_scores (sr_results r)))\<rparr>))"

definition get_op :: "memory_gateway \<Rightarrow> get_request \<Rightarrow> orchestration_context \<Rightarrow> memory_record option mem_op mem_res" where
  "get_op gw q c =
    try_bind (gateway_read_scope gw (gq_scope q) c) (\<lambda>scope.
    try_bind (lift_err (new_get_request (q\<lparr>gq_scope := scope\<rparr>))) (\<lambda>n.
    let payload = dict_over (scope_summary scope)
          [(''operation'', PStr ''get''), (''lookup_kind'', PStr (gq_lookup_kind n))]
    in Inr \<lparr>op_action = ''memory.get'', op_resource = Some (gq_identifier n), op_scope = scope, op_call = GetCall n,
            op_write = None, op_disabled = Some (None, [(''found'', PBool False)]), op_require_enabled = False,
            op_started = Some (''memory_get_started'', dict_over payload [(''identifier_present'', PBool True)]),
            op_completed = ''memory_get_completed'', op_failed = Some ''memory_get_failed'',
            op_success = bound_record_option gw,
            op_payload = (\<lambda>r d. dict_over payload
              [(''found'', PBool (r \<noteq> None)), (''duration_ms'', PInt d),
               (''content_chars'', PInt (case r of None \<Rightarrow> 0 | Some x \<Rightarrow> int (length (rcd_text x))))])\<rparr>))"

definition chunk_op :: "memory_gateway \<Rightarrow> chunk_request \<Rightarrow> orchestration_context \<Rightarrow> chunk_result option mem_op mem_res" where
  "chunk_op gw q c =
    try_bind (gateway_read_scope gw (cq_scope q) c) (\<lambda>scope.
    try_bind (lift_err (new_chunk_request (q\<lparr>cq_scope := scope\<rparr>))) (\<lambda>n.
    let payload = dict_over (scope_summary scope)
          [(''operation'', PStr ''get_chunk_context''), (''lookup_kind'', PStr ''chunk_context'')]
    in Inr \<lparr>op_action = ''memory.get'', op_resource = Some (cq_chunk_id n), op_scope = scope, op_call = ChunkCall n,
            op_write = None, op_disabled = Some (None, [(''found'', PBool False)]), op_require_enabled = False,
            op_started = Some (''memory_get_started'', dict_over payload
              [(''identifier_present'', PBool True), (''before'', PInt (cq_before n)), (''after'', PInt (cq_after n))]),
            op_completed = ''memory_get_completed'', op_failed = Some ''memory_get_failed'',
            op_success = bound_chunk_result gw,
            op_payload = (\<lambda>r d. dict_over payload
              [(''found'', PBool (r \<noteq> None)), (''duration_ms'', PInt d),
               (''result_count'', PInt (case r of None \<Rightarrow> 0 | Some x \<Rightarrow> int (length (ordered_results x)))),
               (''content_chars'', PInt (case r of None \<Rightarrow> 0
                  | Some x \<Rightarrow> sum_list (List.map (\<lambda>h. int (length (hit_text h))) (ordered_results x))))])\<rparr>))"

definition stats_op :: "memory_gateway \<Rightarrow> memory_scope option \<Rightarrow> orchestration_context \<Rightarrow> stats_result mem_op mem_res" where
  "stats_op gw scopes c =
    try_bind (gateway_read_scope gw (case scopes of None \<Rightarrow> no_scope | Some s \<Rightarrow> s) c) (\<lambda>scope.
    Inr \<lparr>op_action = ''memory.stats'', op_resource = None, op_scope = scope, op_call = StatsCall (Some scope), op_write = None,
         op_disabled = None, op_require_enabled = True, op_started = None, op_completed = ''memory_stats_checked'',
         op_failed = None, op_success = Inr,
         op_payload = (\<lambda>r d. dict_over (scope_summary scope)
           [(''operation'', PStr ''stats''), (''duration_ms'', PInt d), (''total_records'', PInt (st_total_records r)),
            (''scope_count'', PInt (int (length (st_scope_counts r)))),
            (''status_count'', PInt (int (length (st_status_counts r)))),
            (''type_count'', PInt (int (length (st_type_counts r))))])\<rparr>)"

section \<open>Writes\<close>

text \<open>What the writing operations share: the trace events of a lifecycle change and the bound on the result.\<close>

definition write_op ::
  "memory_gateway \<Rightarrow> memory_scope \<Rightarrow> string \<Rightarrow> string option \<Rightarrow> memory_call \<Rightarrow> string \<Rightarrow> pydict \<Rightarrow>
   (write_result \<Rightarrow> pydict) \<Rightarrow> write_result mem_op" where
  "write_op gw scope operation resource call completed started_rest extra =
    \<lparr>op_action = ''memory.'' @ operation, op_resource = resource, op_scope = scope, op_call = call, op_write = None,
     op_disabled = None, op_require_enabled = True,
     op_started = Some (''memory_write_started'',
       dict_over (scope_summary scope) ((''operation'', PStr operation) # started_rest)),
     op_completed = completed, op_failed = Some ''memory_write_failed'', op_success = bound_write_result gw,
     op_payload = (\<lambda>r d. dict_over (scope_summary scope)
       ([(''operation'', PStr operation), (''status'', PStr (wr_status r)), (''duration_ms'', PInt d),
         (''affected_count'', PInt (int (length (wr_affected_ids r))))] @ extra r))\<rparr>"

definition write_scope :: "memory_gateway \<Rightarrow> memory_scope \<Rightarrow> orchestration_context \<Rightarrow> memory_scope mem_res" where
  "write_scope gw scope c =
    try_bind (gateway_scope gw scope c) (\<lambda>resolved.
    try_bind (ensure_write_scope gw resolved) (\<lambda>_. Inr resolved))"

definition upsert_op :: "memory_gateway \<Rightarrow> write_request \<Rightarrow> orchestration_context \<Rightarrow> write_result mem_op mem_res" where
  "upsert_op gw q c =
    try_bind (write_scope gw (wq_scope q) c) (\<lambda>scope.
    try_bind (lift_err (new_write_request (q\<lparr>wq_scope := scope\<rparr>))) (\<lambda>n.
    Inr ((write_op gw scope ''upsert'' (wq_stable_key n) (UpsertCall n) ''memory_write_completed''
        [(''memory_type'', PStr (wq_memory_type n)), (''stable_key_present'', PBool (wq_stable_key n \<noteq> None)),
         (''content_chars'', PInt (int (length (wq_text n))))]
        (\<lambda>r. [(''memory_id_present'', PBool (wr_memory_id r \<noteq> None))]))
      \<lparr>op_write := Some (policy_write n)\<rparr>)))"

definition lifecycle_op ::
  "memory_gateway \<Rightarrow> string \<Rightarrow> (lifecycle_request \<Rightarrow> memory_call) \<Rightarrow> lifecycle_request \<Rightarrow> orchestration_context \<Rightarrow>
   write_result mem_op mem_res" where
  "lifecycle_op gw operation call q c =
    try_bind (write_scope gw (lq_scope q) c) (\<lambda>scope.
    try_bind (lift_err (new_lifecycle_request (q\<lparr>lq_scope := scope\<rparr>))) (\<lambda>n.
    Inr (write_op gw (lq_scope n) operation (Some (lq_memory_id n)) (call n) ''memory_lifecycle_updated''
        [(''affected_count'', PInt 1)] (\<lambda>r. []))))"

definition promote_op where "promote_op gw = lifecycle_op gw ''promote'' PromoteCall"

definition expire_op where "expire_op gw = lifecycle_op gw ''expire'' ExpireCall"

definition pair_op ::
  "memory_gateway \<Rightarrow> string \<Rightarrow> (pair_request \<Rightarrow> memory_call) \<Rightarrow> (pair_request \<Rightarrow> string) \<Rightarrow> pair_request \<Rightarrow>
   orchestration_context \<Rightarrow> write_result mem_op mem_res" where
  "pair_op gw operation call resource q c =
    try_bind (write_scope gw (pq_scope q) c) (\<lambda>scope.
    try_bind (lift_err (new_pair_request (q\<lparr>pq_scope := scope\<rparr>))) (\<lambda>n.
    Inr (write_op gw scope operation (Some (resource n)) (call n) ''memory_lifecycle_updated''
        [(''affected_count'', PInt 2)] (\<lambda>r. []))))"

definition supersede_op where "supersede_op gw = pair_op gw ''supersede'' SupersedeCall pq_second_id"

definition contradict_op where "contradict_op gw = pair_op gw ''contradict'' ContradictCall pq_first_id"

definition forget_op :: "memory_gateway \<Rightarrow> forget_request \<Rightarrow> orchestration_context \<Rightarrow> write_result mem_op mem_res" where
  "forget_op gw q c =
    try_bind (ensure_memory_enabled gw) (\<lambda>_.
    try_bind (if fq_hard_delete q then ensure_hard_delete_allowed gw else Inr ()) (\<lambda>_.
    try_bind (write_scope gw (fq_scope q) c) (\<lambda>scope.
    try_bind (lift_err (new_forget_request (q\<lparr>fq_scope := scope\<rparr>))) (\<lambda>n.
    Inr (write_op gw scope ''forget'' (Some (fq_memory_id n)) (ForgetCall n) ''memory_lifecycle_updated''
        [(''hard_delete'', PBool (fq_hard_delete n)), (''affected_count'', PInt 1)]
        (\<lambda>r. [(''hard_delete'', PBool (fq_hard_delete n))]))))))"

definition ingest_op :: "memory_gateway \<Rightarrow> ingest_request \<Rightarrow> orchestration_context \<Rightarrow> ingest_result mem_op mem_res" where
  "ingest_op gw q c =
    try_bind (write_scope gw (iq_scope q) c) (\<lambda>scope.
    try_bind (lift_err (new_ingest_request (q\<lparr>iq_scope := scope\<rparr>))) (\<lambda>n.
    Inr \<lparr>op_action = ''memory.ingest_document'', op_resource = Some (iq_source_id n), op_scope = scope,
         op_call = IngestCall n, op_write = None, op_disabled = None, op_require_enabled = True,
         op_started = Some (''document_ingest_started'', dict_over (scope_summary scope)
           [(''operation'', PStr ''ingest_document''), (''source_id_present'', PBool True),
            (''document_id_present'', PBool (iq_document_id n \<noteq> None)),
            (''content_chars'', PInt (case iq_content n of None \<Rightarrow> 0 | Some t \<Rightarrow> int (length t))),
            (''path_present'', PBool (iq_path n \<noteq> None))]),
         op_completed = ''document_ingest_completed'', op_failed = Some ''document_ingest_failed'', op_success = Inr,
         op_payload = (\<lambda>r d. dict_over (scope_summary scope)
           [(''operation'', PStr ''ingest_document''), (''duration_ms'', PInt d),
            (''chunks_created'', PInt (ir_chunks_created r)), (''chunks_updated'', PInt (ir_chunks_updated r)),
            (''chunks_unchanged'', PInt (ir_chunks_unchanged r)), (''chunks_removed'', PInt (ir_chunks_removed r))])\<rparr>))"

section \<open>Deletion and export by scope\<close>

definition delete_op :: "memory_gateway \<Rightarrow> delete_request \<Rightarrow> orchestration_context \<Rightarrow> delete_result mem_op mem_res" where
  "delete_op gw q c =
    try_bind (ensure_memory_enabled gw) (\<lambda>_.
    try_bind (ensure_delete_by_scope_enabled gw) (\<lambda>_.
    try_bind (if dq_hard_delete q then ensure_hard_delete_allowed gw else Inr ()) (\<lambda>_.
    try_bind (ensure_delete_confirmation gw q) (\<lambda>_.
    try_bind (ensure_explicit_durable_scope (dq_scope q)) (\<lambda>_.
    try_bind (gateway_read_scope gw (dq_scope q) c) (\<lambda>scope.
    try_bind (ensure_delete_export_scope gw scope) (\<lambda>_.
    let n = q\<lparr>dq_scope := ms_normalized scope\<rparr>;
        payload = dict_over (scope_summary scope) [(''operation'', PStr ''delete_by_scope'')]
    in Inr \<lparr>op_action = ''memory.delete_by_scope'', op_resource = None, op_scope = scope, op_call = DeleteCall n,
            op_write = None, op_disabled = None, op_require_enabled = True,
            op_started = Some (''memory_delete_by_scope_started'', dict_over payload
              [(''hard_delete'', PBool (dq_hard_delete n)),
               (''require_confirmation'', PBool (dq_require_confirmation n))]),
            op_completed = ''memory_delete_by_scope_completed'', op_failed = Some ''memory_delete_by_scope_failed'',
            op_success = Inr,
            op_payload = (\<lambda>r d. dict_over payload
              [(''duration_ms'', PInt d), (''deleted_count'', PInt (dr_deleted_count r)),
               (''hard_delete'', PBool (dr_hard_delete r))])\<rparr>)))))))"

definition export_op :: "memory_gateway \<Rightarrow> export_request \<Rightarrow> orchestration_context \<Rightarrow> export_result mem_op mem_res" where
  "export_op gw q c =
    try_bind (ensure_memory_enabled gw) (\<lambda>_.
    try_bind (ensure_export_by_scope_enabled gw) (\<lambda>_.
    try_bind (ensure_explicit_durable_scope (eq_scope q)) (\<lambda>_.
    try_bind (gateway_read_scope gw (eq_scope q) c) (\<lambda>scope.
    try_bind (ensure_delete_export_scope gw scope) (\<lambda>_.
    let n = q\<lparr>eq_scope := ms_normalized scope\<rparr>
    in Inr \<lparr>op_action = ''memory.export_by_scope'', op_resource = None, op_scope = scope, op_call = ExportCall n,
            op_write = None, op_disabled = None, op_require_enabled = True, op_started = None,
            op_completed = ''memory_export_by_scope_completed'', op_failed = Some ''memory_export_by_scope_failed'',
            op_success = bound_export_result gw,
            op_payload = (\<lambda>r d. dict_over (scope_summary scope)
              [(''operation'', PStr ''export_by_scope''), (''duration_ms'', PInt d),
               (''record_count'', PInt (int (length (er_records r)))),
               (''include_content'', PBool (eq_include_content n))])\<rparr>)))))"

section \<open>The methods\<close>

definition memory_search where "memory_search env gw q c = perform env gw c (search_op (menv_texts env) gw q c)"
definition memory_get where "memory_get env gw q c = perform env gw c (get_op gw q c)"
definition memory_chunk_context where "memory_chunk_context env gw q c = perform env gw c (chunk_op gw q c)"
definition memory_upsert where "memory_upsert env gw q c = perform env gw c (upsert_op gw q c)"
definition memory_promote where "memory_promote env gw q c = perform env gw c (promote_op gw q c)"
definition memory_supersede where "memory_supersede env gw q c = perform env gw c (supersede_op gw q c)"
definition memory_contradict where "memory_contradict env gw q c = perform env gw c (contradict_op gw q c)"
definition memory_expire where "memory_expire env gw q c = perform env gw c (expire_op gw q c)"
definition memory_forget where "memory_forget env gw q c = perform env gw c (forget_op gw q c)"
definition memory_ingest where "memory_ingest env gw q c = perform env gw c (ingest_op gw q c)"
definition memory_delete where "memory_delete env gw q c = perform env gw c (delete_op gw q c)"
definition memory_export where "memory_export env gw q c = perform env gw c (export_op gw q c)"

text \<open>\<open>stats\<close>: an empty report when memory is disabled; without a context the adapter's own report, which no policy is
  asked about and whose exceptions are not wrapped (\<open>adapter_exception\<close>).\<close>

definition adapter_exception :: "adapter_failure \<Rightarrow> memory_outcome" where
  "adapter_exception f =
    (case f of RaisedMemory k m \<Rightarrow> Raised (MemoryExc k m) | RaisedOther n \<Rightarrow> Raised (AdapterExc n) | Cancelled \<Rightarrow> WasCancelled)"

definition memory_stats ::
  "mem_env \<Rightarrow> memory_gateway \<Rightarrow> memory_scope option \<Rightarrow> orchestration_context option \<Rightarrow> adapter_failure + stats_result \<Rightarrow>
   mem_run \<Rightarrow> (memory_outcome + stats_result) \<times> mem_run" where
  "memory_stats env gw scopes context answer s =
    (if \<not> mem_enabled (mg_settings gw) then
       (Inr (empty_memory_stats (mem_provider (mg_settings gw)) True ''ok'' [(''enabled'', PBool False)]), s)
     else
       (case context of
          None \<Rightarrow> (case answer of Inl f \<Rightarrow> Inl (adapter_exception f) | Inr r \<Rightarrow> Inr r,
                   log_memory (MemoryCalled (StatsCall scopes)) s)
        | Some c \<Rightarrow> perform env gw c (stats_op gw scopes c) answer s))"

text \<open>The gateway for a provider that is disabled or cannot be built.\<close>

record unavailable_gateway =
  ug_provider :: string
  ug_required :: bool
  ug_reason :: string
  ug_status :: string

definition raise_unavailable :: "unavailable_gateway \<Rightarrow> string \<Rightarrow> memory_exc" where
  "raise_unavailable g operation =
    (let message = ''Memory gateway is not available for '' @ operation @ ''.''
     in if ug_provider g \<in> {'''', ''disabled'', ''none''} \<or> ug_reason g = ''disabled''
        then MemoryExc MemoryDisabledError message else MemoryExc MemoryGatewayError message)"

definition unavailable_stats :: "unavailable_gateway \<Rightarrow> stats_result" where
  "unavailable_stats g = empty_memory_stats (ug_provider g) False (ug_status g) [(''reason'', PStr (ug_reason g))]"

end
