(* ===== verification/Memory_Safety.thy ===== *)
theory Memory_Safety
  imports Memory_Operations
begin

text \<open>
  What the memory gateway lets through to the adapter: only what the settings admit and the policy service allowed,
  and what it returns of the answer: within the limits of the settings.
\<close>

section \<open>What a call is about\<close>

fun call_action :: "memory_call \<Rightarrow> string" where
  "call_action (SearchCall q) = ''memory.search''"
| "call_action (GetCall q) = ''memory.get''"
| "call_action (ChunkCall q) = ''memory.get''"
| "call_action (UpsertCall q) = ''memory.upsert''"
| "call_action (PromoteCall q) = ''memory.promote''"
| "call_action (SupersedeCall q) = ''memory.supersede''"
| "call_action (ContradictCall q) = ''memory.contradict''"
| "call_action (ExpireCall q) = ''memory.expire''"
| "call_action (ForgetCall q) = ''memory.forget''"
| "call_action (IngestCall q) = ''memory.ingest_document''"
| "call_action (DeleteCall q) = ''memory.delete_by_scope''"
| "call_action (ExportCall q) = ''memory.export_by_scope''"
| "call_action (StatsCall s) = ''memory.stats''"

fun call_scope :: "memory_call \<Rightarrow> memory_scope" where
  "call_scope (SearchCall q) = sq_scope q"
| "call_scope (GetCall q) = gq_scope q"
| "call_scope (ChunkCall q) = cq_scope q"
| "call_scope (UpsertCall q) = wq_scope q"
| "call_scope (PromoteCall q) = lq_scope q"
| "call_scope (SupersedeCall q) = pq_scope q"
| "call_scope (ContradictCall q) = pq_scope q"
| "call_scope (ExpireCall q) = lq_scope q"
| "call_scope (ForgetCall q) = fq_scope q"
| "call_scope (IngestCall q) = iq_scope q"
| "call_scope (DeleteCall q) = dq_scope q"
| "call_scope (ExportCall q) = eq_scope q"
| "call_scope (StatsCall s) = (case s of None \<Rightarrow> no_scope | Some s \<Rightarrow> s)"

fun call_resource :: "memory_call \<Rightarrow> string option" where
  "call_resource (GetCall q) = Some (gq_identifier q)"
| "call_resource (ChunkCall q) = Some (cq_chunk_id q)"
| "call_resource (UpsertCall q) = wq_stable_key q"
| "call_resource (PromoteCall q) = Some (lq_memory_id q)"
| "call_resource (SupersedeCall q) = Some (pq_second_id q)"
| "call_resource (ContradictCall q) = Some (pq_first_id q)"
| "call_resource (ExpireCall q) = Some (lq_memory_id q)"
| "call_resource (ForgetCall q) = Some (fq_memory_id q)"
| "call_resource (IngestCall q) = Some (iq_source_id q)"
| "call_resource q = None"

fun call_write :: "memory_call \<Rightarrow> memory_write option" where
  "call_write (UpsertCall q) = Some (policy_write q)"
| "call_write q = None"

definition call_request :: "memory_gateway \<Rightarrow> orchestration_context \<Rightarrow> memory_call \<Rightarrow> policy_request" where
  "call_request gw c q =
    build_memory_policy_request (call_action q) (mg_component gw) (call_scope q) c (call_resource q)
      (mem_provider (mg_settings gw)) (call_write q)"

text \<open>What the settings require of a call.\<close>

definition write_scope_ok :: "memory_gateway \<Rightarrow> memory_scope \<Rightarrow> bool" where
  "write_scope_ok gw s \<longleftrightarrow>
    (let lifecycle = mem_lifecycle (mg_settings gw)
     in ms_has_durable_scope s \<or> mlc_allow_session_scope_only_writes lifecycle \<and> ms_session_id s \<noteq> None
        \<or> \<not> mlc_require_durable_scope_for_writes lifecycle)"

fun call_guarded :: "memory_gateway \<Rightarrow> memory_call \<Rightarrow> bool" where
  "call_guarded gw (SearchCall q) =
    (\<exists>k. sq_limit q = Some k \<and> sq_top_k q = Some k \<and> 1 \<le> k \<and> k \<le> max 1 (msr_limit_max (mem_search (mg_settings gw))))"
| "call_guarded gw (GetCall q) = True"
| "call_guarded gw (ChunkCall q) = (0 \<le> cq_before q \<and> 0 \<le> cq_after q)"
| "call_guarded gw (StatsCall s) = True"
| "call_guarded gw (ForgetCall q) =
    (write_scope_ok gw (fq_scope q) \<and> (fq_hard_delete q \<longrightarrow> mpv_hard_delete_enabled (mem_privacy (mg_settings gw))))"
| "call_guarded gw (DeleteCall q) =
    (let privacy = mem_privacy (mg_settings gw)
     in mpv_enable_delete_by_scope privacy \<and> (dq_hard_delete q \<longrightarrow> mpv_hard_delete_enabled privacy)
        \<and> (mpv_delete_by_scope_requires_confirm privacy \<longrightarrow> dq_require_confirmation q)
        \<and> (mlc_require_durable_scope_for_delete_export (mem_lifecycle (mg_settings gw)) \<longrightarrow>
            ms_has_durable_scope (dq_scope q)))"
| "call_guarded gw (ExportCall q) =
    (mpv_enable_export_by_scope (mem_privacy (mg_settings gw))
     \<and> (mlc_require_durable_scope_for_delete_export (mem_lifecycle (mg_settings gw)) \<longrightarrow>
         ms_has_durable_scope (eq_scope q)))"
| "call_guarded gw q = write_scope_ok gw (call_scope q)"

text \<open>An operation record that says what its call is about.\<close>

definition op_faithful :: "memory_gateway \<Rightarrow> 'r mem_op \<Rightarrow> bool" where
  "op_faithful gw op \<longleftrightarrow>
    op_action op = call_action (op_call op) \<and> op_scope op = call_scope (op_call op)
    \<and> op_resource op = call_resource (op_call op) \<and> op_write op = call_write (op_call op)
    \<and> (op_require_enabled op \<or> op_disabled op \<noteq> None) \<and> call_guarded gw (op_call op)"

section \<open>Settled scopes\<close>

lemma ms_normalized_fields:
  "ms_normalized s = s \<longleftrightarrow>
    norm_text (ms_user_id s) = ms_user_id s \<and> norm_text (ms_project_id s) = ms_project_id s
    \<and> norm_text (ms_tenant_id s) = ms_tenant_id s \<and> norm_text (ms_session_id s) = ms_session_id s
    \<and> norm_text (ms_agent_name s) = ms_agent_name s \<and> norm_text (ms_usecase s) = ms_usecase s
    \<and> norm_text (ms_source_id s) = ms_source_id s \<and> norm_text (ms_document_id s) = ms_document_id s
    \<and> norm_texts (ms_tags s) = ms_tags s"
  by (cases s) (simp add: ms_normalized_def memory_scope_post_init_def)

lemma ms_normalized_post_init [simp]: "ms_normalized (memory_scope_post_init s) = memory_scope_post_init s"
  by (simp add: ms_normalized_def memory_scope_post_init_def)

lemma put_resolution_settled: "ms_normalized s = s \<Longrightarrow> ms_normalized (put_resolution t a s) = put_resolution t a s"
  by (simp add: ms_normalized_fields)

lemma resolved_scope_settled:
  assumes "resolve_memory_scope scope c d = Inr s"
  shows "ms_normalized s = s"
proof -
  from assms obtain t a x where "s = put_resolution t a (memory_scope_post_init x)"
    by (auto simp: resolve_memory_scope_def assemble_scope_def Let_def split: if_splits prod.splits)
  then show ?thesis by (simp add: put_resolution_settled)
qed

lemma gateway_scope_settled: "gateway_scope gw scope c = Inr s \<Longrightarrow> ms_normalized s = s"
  unfolding gateway_scope_def by (rule resolved_scope_settled)

lemma read_scope_settled: "gateway_read_scope gw scope c = Inr s \<Longrightarrow> ms_normalized s = s"
  by (auto simp: gateway_read_scope_def Let_def)

lemma guard_eq_Inr [simp]: "guard b k m = Inr u \<longleftrightarrow> b"
  by (simp add: guard_def)

lemma write_scope_Inr:
  assumes "write_scope gw scope c = Inr s"
  shows "ms_normalized s = s" "write_scope_ok gw s"
proof -
  from assms have g: "gateway_scope gw scope c = Inr s" "ensure_write_scope gw s = Inr ()"
    by (auto simp: write_scope_def)
  from gateway_scope_settled [OF g(1)] show "ms_normalized s = s" .
  from g(2) show "write_scope_ok gw s" by (simp add: ensure_write_scope_def write_scope_ok_def Let_def)
qed

section \<open>Every operation is faithful\<close>

lemma write_op_fields [simp]:
  "op_action (write_op gw s n r q e p x) = ''memory.'' @ n" "op_scope (write_op gw s n r q e p x) = s"
  "op_resource (write_op gw s n r q e p x) = r" "op_call (write_op gw s n r q e p x) = q"
  "op_write (write_op gw s n r q e p x) = None" "op_require_enabled (write_op gw s n r q e p x)"
  by (simp_all add: write_op_def)

lemma search_limit_range:
  "1 \<le> bound_search_limit gw v" "bound_search_limit gw v \<le> max 1 (msr_limit_max (mem_search (mg_settings gw)))"
  by (auto simp: bound_search_limit_def Let_def)

lemma search_op_faithful: "search_op tx gw q c = Inr op \<Longrightarrow> op_faithful gw op"
  using search_limit_range [of gw "sq_limit q"]
  by (auto simp: search_op_def op_faithful_def new_memory_query_def Let_def read_scope_settled)

lemma get_op_faithful: "get_op gw q c = Inr op \<Longrightarrow> op_faithful gw op"
  by (auto simp: get_op_def op_faithful_def new_get_request_def Let_def read_scope_settled)

lemma chunk_op_faithful: "chunk_op gw q c = Inr op \<Longrightarrow> op_faithful gw op"
  by (auto simp: chunk_op_def op_faithful_def new_chunk_request_def Let_def read_scope_settled split: if_splits)

lemma stats_op_faithful: "stats_op gw scopes c = Inr op \<Longrightarrow> op_faithful gw op"
  by (auto simp: stats_op_def op_faithful_def)

lemma upsert_op_faithful: "upsert_op gw q c = Inr op \<Longrightarrow> op_faithful gw op"
  by (auto simp: upsert_op_def op_faithful_def new_write_request_def write_scope_Inr)

lemma promote_op_faithful: "promote_op gw q c = Inr op \<Longrightarrow> op_faithful gw op"
  by (auto simp: promote_op_def lifecycle_op_def op_faithful_def new_lifecycle_request_def write_scope_Inr)

lemma expire_op_faithful: "expire_op gw q c = Inr op \<Longrightarrow> op_faithful gw op"
  by (auto simp: expire_op_def lifecycle_op_def op_faithful_def new_lifecycle_request_def write_scope_Inr)

lemma supersede_op_faithful: "supersede_op gw q c = Inr op \<Longrightarrow> op_faithful gw op"
  by (auto simp: supersede_op_def pair_op_def op_faithful_def new_pair_request_def write_scope_Inr split: if_splits)

lemma contradict_op_faithful: "contradict_op gw q c = Inr op \<Longrightarrow> op_faithful gw op"
  by (auto simp: contradict_op_def pair_op_def op_faithful_def new_pair_request_def write_scope_Inr split: if_splits)

lemma forget_op_faithful:
  assumes "forget_op gw q c = Inr op"
  shows "op_faithful gw op"
proof -
  from assms obtain scope where w: "write_scope gw (fq_scope q) c = Inr scope"
    and hard: "(if fq_hard_delete q then ensure_hard_delete_allowed gw else Inr ()) = Inr ()"
    and n: "try_bind (lift_err (new_forget_request (q\<lparr>fq_scope := scope\<rparr>))) (\<lambda>n.
      Inr (write_op gw scope ''forget'' (Some (fq_memory_id n)) (ForgetCall n) ''memory_lifecycle_updated''
        [(''hard_delete'', PBool (fq_hard_delete n)), (''affected_count'', PInt 1)]
        (\<lambda>r. [(''hard_delete'', PBool (fq_hard_delete n))]))) = Inr op"
    unfolding forget_op_def try_bind_eq_Inr by fastforce
  have "fq_hard_delete q \<longrightarrow> mpv_hard_delete_enabled (mem_privacy (mg_settings gw))"
    using hard by (auto simp: ensure_hard_delete_allowed_def)
  with n write_scope_Inr [OF w] show ?thesis
    by (auto simp: op_faithful_def new_forget_request_def)
qed

lemma new_ingest_scope: "new_ingest_request q = Inr n \<Longrightarrow> iq_scope n = ms_normalized (iq_scope q)"
  unfolding new_ingest_request_def by (cases "norm_text (iq_content q) = None \<and> norm_text (iq_path q) = None") auto

lemma ingest_op_faithful:
  assumes "ingest_op gw q c = Inr op"
  shows "op_faithful gw op"
proof -
  from assms obtain scope n where w: "write_scope gw (iq_scope q) c = Inr scope"
    and n: "new_ingest_request (q\<lparr>iq_scope := scope\<rparr>) = Inr n"
    and op: "op_action op = ''memory.ingest_document''" "op_resource op = Some (iq_source_id n)" "op_scope op = scope"
      "op_call op = IngestCall n" "op_write op = None" "op_require_enabled op"
    unfolding ingest_op_def try_bind_eq_Inr lift_err_eq_Inr by fastforce
  have "iq_scope n = scope" using new_ingest_scope [OF n] write_scope_Inr(1) [OF w] by simp
  with op write_scope_Inr(2) [OF w] show ?thesis by (simp add: op_faithful_def)
qed

lemma delete_op_faithful: "delete_op gw q c = Inr op \<Longrightarrow> op_faithful gw op"
  by (auto simp: delete_op_def op_faithful_def Let_def read_scope_settled ensure_delete_by_scope_enabled_def
      ensure_hard_delete_allowed_def ensure_delete_confirmation_def ensure_delete_export_scope_def split: if_splits)

lemma export_op_faithful: "export_op gw q c = Inr op \<Longrightarrow> op_faithful gw op"
  by (auto simp: export_op_def op_faithful_def Let_def read_scope_settled ensure_export_by_scope_enabled_def
      ensure_delete_export_scope_def)

lemmas operation_faithful =
  search_op_faithful get_op_faithful chunk_op_faithful stats_op_faithful upsert_op_faithful promote_op_faithful
  expire_op_faithful supersede_op_faithful contradict_op_faithful forget_op_faithful ingest_op_faithful
  delete_op_faithful export_op_faithful

section \<open>Runs\<close>

definition calls_of_run :: "memory_event list \<Rightarrow> memory_call list" where
  "calls_of_run log = List.map_filter (\<lambda>e. case e of MemoryCalled q \<Rightarrow> Some q | _ \<Rightarrow> None) log"

lemma calls_of_run_append [simp]: "calls_of_run (a @ b) = calls_of_run a @ calls_of_run b"
  by (simp add: calls_of_run_def List.map_filter_def)

lemma calls_of_run_simps [simp]:
  "calls_of_run [] = []" "calls_of_run (MemoryCalled q # l) = q # calls_of_run l"
  "calls_of_run (MemoryTraced t # l) = calls_of_run l"
  by (simp_all add: calls_of_run_def List.map_filter_simps)

lemma set_calls_of_run: "q \<in> set (calls_of_run log) \<longleftrightarrow> MemoryCalled q \<in> set log"
  by (induction log) (auto simp: calls_of_run_def List.map_filter_simps split: memory_event.splits)

lemma call_adapter_calls:
  "calls_of_run (mrun_log (snd (call_adapter env gw c op answer s))) = calls_of_run (mrun_log s) @ [op_call op]"
  by (auto simp: call_adapter_def Let_def log_memory_def trace_memory_def split: sum.splits option.splits adapter_failure.splits)

lemma require_policy_log: "mrun_log (snd (require_policy env gw c op s)) = mrun_log s"
  by (auto simp: require_policy_def split: sum.splits prod.splits)

text \<open>What an operation added to the log, when it called the adapter.\<close>

lemma perform_calls:
  assumes "perform env gw c op answer s = (out, s')" "\<And>op'. op = Inr op' \<Longrightarrow> op_faithful gw op'"
  shows "calls_of_run (mrun_log s') = calls_of_run (mrun_log s)
    \<or> (\<exists>op'. op = Inr op' \<and> mem_enabled (mg_settings gw) \<and> op_faithful gw op'
        \<and> calls_of_run (mrun_log s') = calls_of_run (mrun_log s) @ [op_call op']
        \<and> fst (service_require_allowed (menv_texts env) (menv_clock env) (mrun_service s)
            (call_request gw c (op_call op')) c) = Inr ())"
proof (cases op)
  case (Inl e)
  with assms(1) show ?thesis by (simp add: perform_def)
next
  case (Inr op')
  with assms(2) have f: "op_faithful gw op'" by blast
  then have r: "memory_policy_request gw c op' = call_request gw c (op_call op')"
    by (simp add: op_faithful_def memory_policy_request_def call_request_def)
  have e: "mem_execute env gw c op' answer s = (out, s')" using assms(1) Inr by (simp add: perform_def)
  show ?thesis
  proof (cases "mem_enabled (mg_settings gw)")
    case False
    with e f show ?thesis
      by (auto simp: mem_execute_def op_faithful_def log_memory_def trace_memory_def split: option.splits)
  next
    case True
    show ?thesis
    proof (cases "require_policy env gw c op' s")
      case (Pair u s1)
      note log = require_policy_log [of env gw c op' s, unfolded Pair snd_conv]
      show ?thesis
      proof (cases u)
        case (Inl x)
        with True e Pair log show ?thesis by (auto simp: mem_execute_def)
      next
        case (Inr y)
        have allowed: "fst (service_require_allowed (menv_texts env) (menv_clock env) (mrun_service s)
            (call_request gw c (op_call op')) c) = Inr ()"
          using Pair unfolding Inr require_policy_def r by (auto split: sum.splits prod.splits)
        from True e Pair Inr have "s' = snd (call_adapter env gw c op' answer s1)" by (simp add: mem_execute_def)
        with call_adapter_calls [of env gw c op' answer s1] log have "calls_of_run (mrun_log s')
          = calls_of_run (mrun_log s) @ [op_call op']" by simp
        with True f allowed \<open>op = Inr op'\<close> show ?thesis by blast
      qed
    qed
  qed
qed

text \<open>One operation of the gateway for a context, with whatever the adapter answers. Statistics may also be asked for without
  the context.\<close>

inductive memory_step :: "mem_env \<Rightarrow> memory_gateway \<Rightarrow> orchestration_context \<Rightarrow> mem_run \<Rightarrow> mem_run \<Rightarrow> bool"
  for env gw c where
  search: "memory_search env gw q c answer s = (out, s') \<Longrightarrow> memory_step env gw c s s'"
| get: "memory_get env gw q c answer s = (out, s') \<Longrightarrow> memory_step env gw c s s'"
| chunk_context: "memory_chunk_context env gw q c answer s = (out, s') \<Longrightarrow> memory_step env gw c s s'"
| upsert: "memory_upsert env gw q c answer s = (out, s') \<Longrightarrow> memory_step env gw c s s'"
| promote: "memory_promote env gw q c answer s = (out, s') \<Longrightarrow> memory_step env gw c s s'"
| supersede: "memory_supersede env gw q c answer s = (out, s') \<Longrightarrow> memory_step env gw c s s'"
| contradict: "memory_contradict env gw q c answer s = (out, s') \<Longrightarrow> memory_step env gw c s s'"
| expire: "memory_expire env gw q c answer s = (out, s') \<Longrightarrow> memory_step env gw c s s'"
| forget: "memory_forget env gw q c answer s = (out, s') \<Longrightarrow> memory_step env gw c s s'"
| ingest: "memory_ingest env gw q c answer s = (out, s') \<Longrightarrow> memory_step env gw c s s'"
| delete: "memory_delete env gw q c answer s = (out, s') \<Longrightarrow> memory_step env gw c s s'"
| export: "memory_export env gw q c answer s = (out, s') \<Longrightarrow> memory_step env gw c s s'"
| stats: "memory_stats env gw scopes (Some c) answer s = (out, s') \<Longrightarrow> memory_step env gw c s s'"
| plain_stats: "memory_stats env gw scopes None answer s = (out, s') \<Longrightarrow> memory_step env gw c s s'"

lemmas method_defs = memory_search_def memory_get_def memory_chunk_context_def memory_upsert_def memory_promote_def
  memory_supersede_def memory_contradict_def memory_expire_def memory_forget_def memory_ingest_def memory_delete_def
  memory_export_def

text \<open>A step makes no call, or one call that the settings admit and the service allowed, or asks for the statistics without a
  context.\<close>

definition plain_stats_call :: "memory_gateway \<Rightarrow> memory_call \<Rightarrow> bool" where
  "plain_stats_call gw q \<longleftrightarrow> mem_enabled (mg_settings gw) \<and> (\<exists>scopes. q = StatsCall scopes)"


definition consented_call ::
  "mem_env \<Rightarrow> memory_gateway \<Rightarrow> orchestration_context \<Rightarrow> policy_service \<Rightarrow> memory_call \<Rightarrow> bool" where
  "consented_call env gw c sv q \<longleftrightarrow>
    mem_enabled (mg_settings gw) \<and> call_guarded gw q
    \<and> fst (service_require_allowed (menv_texts env) (menv_clock env) sv (call_request gw c q) c) = Inr ()"

lemma perform_consented:
  assumes "perform env gw c op answer s = (out, s')" "\<And>op'. op = Inr op' \<Longrightarrow> op_faithful gw op'"
  shows "calls_of_run (mrun_log s') = calls_of_run (mrun_log s)
    \<or> (\<exists>q. calls_of_run (mrun_log s') = calls_of_run (mrun_log s) @ [q] \<and> consented_call env gw c (mrun_service s) q)"
  using perform_calls [OF assms] by (auto simp: consented_call_def op_faithful_def)

lemma stats_consented:
  assumes "memory_stats env gw scopes (Some c) answer s = (out, s')"
  shows "calls_of_run (mrun_log s') = calls_of_run (mrun_log s)
    \<or> (\<exists>q. calls_of_run (mrun_log s') = calls_of_run (mrun_log s) @ [q] \<and> consented_call env gw c (mrun_service s) q)"
  using assms
  by (cases "mem_enabled (mg_settings gw)") (simp_all add: memory_stats_def perform_consented [OF _ stats_op_faithful])

lemma plain_stats_calls:
  assumes "memory_stats env gw scopes None answer s = (out, s')"
  shows "mem_enabled (mg_settings gw) \<and> calls_of_run (mrun_log s') = calls_of_run (mrun_log s) @ [StatsCall scopes]
    \<or> s' = s"
  using assms by (auto simp: memory_stats_def log_memory_def split: if_splits)

lemma memory_step_consented:
  assumes "memory_step env gw c s s'"
  shows "calls_of_run (mrun_log s') = calls_of_run (mrun_log s)
    \<or> (\<exists>q. calls_of_run (mrun_log s') = calls_of_run (mrun_log s) @ [q]
        \<and> (consented_call env gw c (mrun_service s) q
          \<or> plain_stats_call gw q \<and> (\<exists>scopes answer out. q = StatsCall scopes \<and> memory_stats env gw scopes None answer s = (out, s'))))"
  using assms
proof cases
  case (stats scopes answer out)
  from stats_consented [OF this] show ?thesis by blast
next
  case (plain_stats scopes answer out)
  from plain_stats_calls [OF this] this show ?thesis unfolding plain_stats_call_def by blast
qed (unfold method_defs, (drule perform_consented, erule operation_faithful, blast)+)

section \<open>Sample runs\<close>

definition sample_memory_settings :: memory_settings where
  "sample_memory_settings =
    \<lparr>mem_enabled = True, mem_provider = ''memory_store'', mem_required = False,
     mem_defaults = \<lparr>mdf_default_scope = ''user'', mdf_top_k = 10, mdf_include_agent_memories = True,
       mdf_include_document_chunks = True, mdf_include_graph_context = False, mdf_max_result_chars = 4,
       mdf_max_total_context_chars = 1000, mdf_trace_query_capture = ''none'', mdf_trace_result_content_capture = ''none''\<rparr>,
     mem_store = \<lparr>mst_config_path = None,
       mst_database = \<lparr>mdb_path = ''memory'', mdb_create_if_missing = True, mdb_schema_version = 1,
         mdb_embedded_single_process = True\<rparr>,
       mst_embeddings = \<lparr>meb_provider = ''fake'', meb_model = ''m'', meb_model_version = None, meb_dimension = None,
         meb_batch_size = 1, meb_normalize = True, meb_dimension_mismatch = ''error''\<rparr>,
       mst_reranker = \<lparr>mrk_enabled = False, mrk_provider = ''none'', mrk_model = ''m'', mrk_model_version = None, mrk_top_n = 1\<rparr>,
       mst_fastembed_cache_dir = None, mst_fastembed_local_files_only = False\<rparr>,
     mem_chunking = \<lparr>mck_strategy = ''markdown'', mck_max_tokens = 100, mck_overlap_tokens = 0, mck_include_heading_path = True,
       mck_include_frontmatter_in_embedding = False, mck_preserve_code_blocks = True, mck_removed_chunk_policy = ''expire''\<rparr>,
     mem_search = \<lparr>msr_limit_max = 2, msr_vector_top_n = 1, msr_fts_top_n = 1, msr_rrf_k = 60,
       msr_graph_expansion_enabled = False, msr_graph_expansion_hops = 1, msr_final_top_k = 1,
       msr_include_component_scores = False, msr_include_debug = False\<rparr>,
     mem_weights = \<lparr>mw_reranker = PInt 0, mw_retrieval_fusion = PInt 0, mw_vector = PInt 0, mw_full_text = PInt 0,
       mw_temporal = PInt 0, mw_importance = PInt 0, mw_confidence = PInt 0, mw_graph = PInt 0, mw_user_rating = PInt 0\<rparr>,
     mem_lifecycle = \<lparr>mlc_allow_writes = True, mlc_default_ttl_days = None, mlc_contradiction_policy = ''mark'',
       mlc_supersede_policy = ''mark'', mlc_require_durable_scope_for_writes = True,
       mlc_allow_session_scope_only_writes = False, mlc_require_durable_scope_for_delete_export = True\<rparr>,
     mem_privacy = \<lparr>mpv_default_sensitivity = ''normal'', mpv_allow_llm_context_default = True,
       mpv_allow_retrieval_default = True, mpv_delete_by_scope_requires_confirm = True, mpv_enable_export_by_scope = False,
       mpv_enable_delete_by_scope = False, mpv_hard_delete_enabled = False, mpv_tombstone_on_forget = True,
       mpv_require_policy_approval_for_delete_export = True\<rparr>,
     mem_deep_check_enabled = False\<rparr>"

definition sample_memory_gateway :: memory_gateway where
  "sample_memory_gateway = new_memory_gateway sample_memory_settings"

definition sample_menv :: mem_env where
  "sample_menv = \<lparr>menv_texts = plain_texts, menv_clock = clock_at 0, menv_duration = 1\<rparr>"

definition writing_config :: pyval where
  "writing_config = config_view [(''policy'', PDict [(''profiles'', PDict [(''default'', PDict
     [(''memory'', PDict [(''allow_writes'', PBool True)])])])])]"

definition sample_promotion :: lifecycle_request where
  "sample_promotion = \<lparr>lq_memory_id = ''m1'', lq_scope = open_scope, lq_reason = None, lq_metadata = []\<rparr>"

text \<open>The call of an operation record, the engine's verdict on its request, and the calls of two operations.\<close>

definition call_of :: "'r mem_op mem_res \<Rightarrow> memory_call mem_res" where
  "call_of op = try_bind op (\<lambda>x. Inr (op_call x))"

lemma try_bind_assoc: "try_bind (try_bind m f) g = try_bind m (\<lambda>x. try_bind (f x) g)"
  by (cases m) simp_all

lemma call_of_promote:
  "call_of (promote_op gw q c) = try_bind (write_scope gw (lq_scope q) c) (\<lambda>scope.
    try_bind (lift_err (new_lifecycle_request (q\<lparr>lq_scope := scope\<rparr>))) (\<lambda>n. Inr (PromoteCall n)))"
  by (simp add: call_of_def promote_op_def lifecycle_op_def try_bind_assoc)

lemma call_of_search:
  "call_of (search_op tx gw q c) = try_bind (gateway_read_scope gw (sq_scope q) c) (\<lambda>scope.
    let limit = bound_search_limit gw (sq_limit q)
    in try_bind (lift_err (new_memory_query
         (q\<lparr>sq_scope := scope, sq_limit := Some limit, sq_max_result_chars := Some (max_result_chars gw (sq_max_result_chars q)),
            sq_top_k := Some limit\<rparr>))) (\<lambda>n. Inr (SearchCall n)))"
  by (simp add: call_of_def search_op_def Let_def try_bind_assoc)

definition op_verdict :: "pyval \<Rightarrow> memory_call mem_res \<Rightarrow> decision_value option" where
  "op_verdict config call =
    (case call of
       Inl e \<Rightarrow> None
     | Inr q \<Rightarrow>
        (case build_policy_service config of
           Inl e \<Rightarrow> None
         | Inr sv \<Rightarrow> verdict_of (engine_evaluate (sv_engine sv)
             (call_request sample_memory_gateway sample_context q) sample_context)))"

lemma allowed_call:
  assumes "op_verdict config (call_of op) = Some Allow" "\<And>x. op = Inr x \<Longrightarrow> op_faithful sample_memory_gateway x"
    and "\<And>x. op = Inr x \<Longrightarrow> \<exists>r. op_success x raw = Inr r"
  obtains sv x r s where "build_policy_service config = Inr sv" "op = Inr x" "op_success x raw = Inr r"
    "perform sample_menv sample_memory_gateway sample_context op (Inr raw) (fresh_mem_run sv) = (Inr r, s)"
    "calls_of_run (mrun_log s) = [op_call x]"
proof -
  obtain sv where sv: "build_policy_service config = Inr sv"
    using assms(1) unfolding op_verdict_def by (cases "build_policy_service config") (auto split: sum.splits)
  obtain x where x: "op = Inr x" using assms(1) unfolding op_verdict_def call_of_def by (cases op) auto
  obtain r where r: "op_success x raw = Inr r" using assms(3) [OF x] by blast
  from assms(2) [OF x] have req: "memory_policy_request sample_memory_gateway sample_context x
      = call_request sample_memory_gateway sample_context (op_call x)"
    by (simp add: op_faithful_def memory_policy_request_def call_request_def)
  obtain d0 where d0: "engine_evaluate (sv_engine sv) (call_request sample_memory_gateway sample_context (op_call x))
      sample_context = Inr d0" "dec_decision d0 = Some Allow"
    using assms(1) sv x unfolding op_verdict_def call_of_def by (auto simp: verdict_of_Some)
  have "sv_caches sv = []" "eng_registry (sv_engine sv) = load_default_policy_registry"
    using sv build_policy_service_registry [OF sv] by (auto simp: build_policy_service_def)
  from fresh_evaluation [OF this d0] obtain d sv' where
    "service_evaluate plain_texts (clock_at 0) sv (call_request sample_memory_gateway sample_context (op_call x))
      sample_context = (Inr d, sv')" "wf_decision d" "dec_decision d = Some Allow" by blast
  then have "require_policy sample_menv sample_memory_gateway sample_context x (fresh_mem_run sv)
    = (Inr (), (fresh_mem_run sv)\<lparr>mrun_service := sv'\<rparr>)"
    by (simp add: require_policy_def service_require_allowed_def req sample_menv_def fresh_mem_run_def wf_decision_def)
  then have e: "perform sample_menv sample_memory_gateway sample_context op (Inr raw) (fresh_mem_run sv)
    = call_adapter sample_menv sample_memory_gateway sample_context x (Inr raw) ((fresh_mem_run sv)\<lparr>mrun_service := sv'\<rparr>)"
    by (simp add: x perform_def mem_execute_def sample_memory_gateway_def new_memory_gateway_def sample_memory_settings_def)
  let ?out = "call_adapter sample_menv sample_memory_gateway sample_context x (Inr raw) ((fresh_mem_run sv)\<lparr>mrun_service := sv'\<rparr>)"
  have "fst ?out = Inr r" by (simp add: call_adapter_def Let_def r)
  then have "?out = (Inr r, snd ?out)" by (metis prod.collapse)
  moreover have "calls_of_run (mrun_log (snd ?out)) = [op_call x]" by (simp add: call_adapter_calls fresh_mem_run_def)
  ultimately show ?thesis using that [OF sv x r] e by simp
qed

definition promotion_answer :: write_result where
  "promotion_answer =
    \<lparr>wr_operation = ''promote'', wr_status = ''completed'', wr_record = None, wr_changed = True, wr_affected_ids = [''m1''],
     wr_metadata = []\<rparr>"

text \<open>A search for five records where two are the maximum, answered with three longer than the four characters that the settings allow.\<close>

definition long_hit :: memory_hit where
  "long_hit =
    \<lparr>hit_memory_id = ''m1'', hit_text = ''long text'', hit_score = PInt 1, hit_memory_type = None, hit_source_id = None,
     hit_chunk_id = None, hit_metadata = [], hit_record = None, hit_score_details = None, hit_match_reason = None,
     hit_highlights = [], hit_related_records = []\<rparr>"

definition sample_query :: memory_query where
  "sample_query =
    \<lparr>sq_text = ''find'', sq_scope = open_scope, sq_memory_types = None, sq_limit = Some 5, sq_include_document_chunks = False,
     sq_metadata = [], sq_filters = None, sq_candidate_k = None, sq_include_agent_memories = True,
     sq_include_graph_context = False, sq_max_result_chars = None, sq_query_id = None, sq_top_k = None\<rparr>"

definition sample_hits :: search_result where
  "sample_hits =
    \<lparr>sr_results = [long_hit, long_hit, long_hit], sr_query_id = None, sr_total_candidates = None, sr_search_strategy = None,
     sr_metadata = []\<rparr>"

text \<open>What the instances need of the policy engine and of the bounds, evaluated together.\<close>

lemma sample_memory_facts:
  "op_verdict writing_config (call_of (promote_op sample_memory_gateway sample_promotion sample_context)) = Some Allow
   \<and> op_verdict minimal_config (call_of (search_op plain_texts sample_memory_gateway sample_query sample_context)) = Some Allow
   \<and> (case bound_write_result sample_memory_gateway promotion_answer of Inl e \<Rightarrow> False | Inr r \<Rightarrow> True)
   \<and> (case bound_search_result 2 4 sample_hits of Inl e \<Rightarrow> False | Inr r \<Rightarrow> True)
   \<and> bound_search_limit sample_memory_gateway (Some 5) = 2 \<and> max_result_chars sample_memory_gateway None = 4
   \<and> default_chars sample_memory_gateway = 4"
  unfolding call_of_promote call_of_search by code_simp

lemma promotion_allowed:
  "op_verdict writing_config (call_of (promote_op sample_memory_gateway sample_promotion sample_context)) = Some Allow"
  using sample_memory_facts by blast

lemma promotion_answer_bounded: "case bound_write_result sample_memory_gateway promotion_answer of Inl e \<Rightarrow> False | Inr r \<Rightarrow> True"
  using sample_memory_facts by blast

lemma sample_promotion_runs:
  obtains sv q s where "build_policy_service writing_config = Inr sv"
    "memory_step sample_menv sample_memory_gateway sample_context (fresh_mem_run sv) s"
    "calls_of_run (mrun_log s) = [q]" "call_action q = ''memory.promote''"
proof -
  let ?raw = promotion_answer
  have "\<exists>r. op_success x ?raw = Inr r" if "promote_op sample_memory_gateway sample_promotion sample_context = Inr x" for x
    using that promotion_answer_bounded by (auto simp: promote_op_def lifecycle_op_def write_op_def split: sum.splits)
  from allowed_call [OF promotion_allowed promote_op_faithful [of _ sample_promotion sample_context] this] obtain sv x r s where
    run: "build_policy_service writing_config = Inr sv" "promote_op sample_memory_gateway sample_promotion sample_context = Inr x"
      "perform sample_menv sample_memory_gateway sample_context
        (promote_op sample_memory_gateway sample_promotion sample_context) (Inr ?raw) (fresh_mem_run sv) = (Inr r, s)"
      "calls_of_run (mrun_log s) = [op_call x]" by metis
  have "call_action (op_call x) = ''memory.promote''"
    using run(2) by (auto simp: promote_op_def lifecycle_op_def)
  with run memory_step.promote [unfolded memory_promote_def] that show ?thesis by blast
qed

section \<open>What reaches the adapter\<close>

text \<open>C11. Whatever an operation of the memory gateway does, it calls the adapter at most once, and only if memory is
  enabled and the settings admit the call; and, unless the call asks for the statistics and was made without a context, the
  policy service, in the state the operation found it, allowed the request for exactly the action, scope, resource and record
  of that call. (Statistics without a context are given to any caller; so is the health of the adapter, which is no operation here.)\<close>

theorem memory_calls_need_consent:
  assumes "memory_step env gw c s s'" "calls_of_run (mrun_log s') \<noteq> calls_of_run (mrun_log s)"
  shows "\<exists>q. calls_of_run (mrun_log s') = calls_of_run (mrun_log s) @ [q]
    \<and> mem_enabled (mg_settings gw) \<and> call_guarded gw q
    \<and> (fst (service_require_allowed (menv_texts env) (menv_clock env) (mrun_service s) (call_request gw c q) c) = Inr ()
       \<or> (\<exists>scopes answer out. q = StatsCall scopes \<and> memory_stats env gw scopes None answer s = (out, s')))"
proof -
  from memory_step_consented [OF assms(1)] assms(2) obtain q where
    q: "calls_of_run (mrun_log s') = calls_of_run (mrun_log s) @ [q]"
      "consented_call env gw c (mrun_service s) q
       \<or> plain_stats_call gw q \<and> (\<exists>scopes answer out. q = StatsCall scopes \<and> memory_stats env gw scopes None answer s = (out, s'))"
    by blast
  then show ?thesis
    unfolding consented_call_def plain_stats_call_def by (intro exI [of _ q]) (auto simp del: split_paired_Ex)
qed

theorem memory_calls_need_consent_witness:
  "\<exists>sv q. build_policy_service writing_config = Inr sv \<and> call_action q = ''memory.promote''
    \<and> fst (service_require_allowed plain_texts (clock_at 0) sv (call_request sample_memory_gateway sample_context q)
        sample_context) = Inr ()"
proof -
  obtain sv q s where run: "build_policy_service writing_config = Inr sv"
    "memory_step sample_menv sample_memory_gateway sample_context (fresh_mem_run sv) s"
    "calls_of_run (mrun_log s) = [q]" "call_action q = ''memory.promote''"
    by (rule sample_promotion_runs)
  have "q \<noteq> StatsCall scopes" for scopes using run(4) by auto
  with memory_calls_need_consent [OF run(2)] run show ?thesis by (auto simp: fresh_mem_run_def sample_menv_def)
qed

text \<open>Runs of operations, by any number of contexts.\<close>

inductive memory_runs :: "memory_gateway \<Rightarrow> mem_run \<Rightarrow> mem_run \<Rightarrow> bool" for gw s0 where
  start: "memory_runs gw s0 s0"
| op: "memory_runs gw s0 s \<Longrightarrow> memory_step env gw c s s' \<Longrightarrow> memory_runs gw s0 s'"

text \<open>C13. In every run of the gateway, deletion by scope reaches the adapter only if it is enabled, hard deletion only
  if that is, both only with the confirmation and the durable scope the settings ask for, export only if it is
  enabled, writes only with a durable scope as far as the settings ask for it, and a search asks for at
  least one and at most the configured number of records.\<close>

theorem memory_calls_are_guarded:
  assumes "memory_runs gw (fresh_mem_run sv) s" "MemoryCalled q \<in> set (mrun_log s)"
  shows "mem_enabled (mg_settings gw) \<and> call_guarded gw q"
proof -
  have "\<forall>q \<in> set (calls_of_run (mrun_log s)). mem_enabled (mg_settings gw) \<and> call_guarded gw q"
    using assms(1)
  proof induction
    case start
    show ?case by (simp add: fresh_mem_run_def)
  next
    case (op s env c s')
    with memory_step_consented [OF op.hyps(2)] show ?case
      by (auto simp: consented_call_def plain_stats_call_def simp del: split_paired_Ex)
  qed
  with assms(2) show ?thesis by (simp add: set_calls_of_run)
qed

theorem memory_calls_are_guarded_witness:
  "\<exists>sv q s. memory_runs sample_memory_gateway (fresh_mem_run sv) s \<and> MemoryCalled q \<in> set (mrun_log s)
    \<and> write_scope_ok sample_memory_gateway (call_scope q)"
proof -
  obtain sv q s where run: "build_policy_service writing_config = Inr sv"
    "memory_step sample_menv sample_memory_gateway sample_context (fresh_mem_run sv) s"
    "calls_of_run (mrun_log s) = [q]" "call_action q = ''memory.promote''"
    by (rule sample_promotion_runs)
  have runs: "memory_runs sample_memory_gateway (fresh_mem_run sv) s"
    by (rule memory_runs.op [OF memory_runs.start run(2)])
  have q: "MemoryCalled q \<in> set (mrun_log s)" using run(3) by (simp add: set_calls_of_run [symmetric])
  have "call_guarded sample_memory_gateway q \<Longrightarrow> write_scope_ok sample_memory_gateway (call_scope q)"
    using run(4) by (cases q) auto
  with memory_calls_are_guarded [OF runs q] runs q show ?thesis by blast
qed

text \<open>The service says yes only if it evaluated to an allow.\<close>

lemma require_allowed_evaluates:
  assumes "fst (service_require_allowed tx ck sv r c) = Inr ()"
  obtains d where "fst (service_evaluate tx ck sv r c) = Inr d" "dec_allowed d"
  using assms by (auto simp: service_require_allowed_def split: sum.splits prod.splits if_splits)

text \<open>C12. In the first operation over a service built from a configuration, a record is written, changed, forgotten,
  ingested, deleted by scope or exported only if the policy profile enables memory writes, no approval of
  them is pending, the operation is not an administrative one, the record is not marked sensitive, and
  the profile needs no scope or the scope is not the global one.\<close>

theorem memory_writes_are_permitted:
  assumes "build_policy_service config = Inr sv" "mg_component gw = ''app.memory.gateway''"
    and "memory_step env gw c (fresh_mem_run sv) s" "MemoryCalled q \<in> set (mrun_log s)"
    and "call_action q \<in> set memory_write_actions"
    and "p = resolve_policy_profile (sv_engine sv) (call_request gw c q) c"
  shows "pm_allow_writes (pp_memory p) \<and> \<not> pa_require_approval_for_memory_writes (pp_approval p)
    \<and> call_action q \<notin> set memory_admin_actions
    \<and> (\<forall>w. call_write q = Some w \<longrightarrow> memory_write_sensitivity w \<noteq> Some ''sensitive'')
    \<and> (pm_require_scope (pp_memory p) \<longrightarrow> classify_memory_scope (call_scope q) \<noteq> ''global'')"
proof -
  have "\<not> plain_stats_call gw q" using assms(5) by (auto simp: plain_stats_call_def memory_write_actions_def)
  with memory_step_consented [OF assms(3)] assms(4) have "consented_call env gw c sv q"
    by (auto simp: set_calls_of_run [symmetric] fresh_mem_run_def simp del: split_paired_Ex)
  then have "fst (service_require_allowed (menv_texts env) (menv_clock env) sv (call_request gw c q) c) = Inr ()"
    by (simp add: consented_call_def)
  from require_allowed_evaluates [OF this] obtain d where
    d: "fst (service_evaluate (menv_texts env) (menv_clock env) sv (call_request gw c q) c) = Inr d" "dec_allowed d" .
  from first_answer [OF assms(1) d] obtain d0 where d0: "engine_evaluate (sv_engine sv) (call_request gw c q) c = Inr d0"
    "dec_decision d0 = Some Allow" .
  have "startswith ''app.memory.gateway'' ''memory.'' \<or> startswith ''app.memory.gateway'' ''app.memory''"
    by simp
  with memory_write_consent [OF build_policy_service_registry [OF assms(1)] _ assms(5) _ d0 assms(6)]
  show ?thesis unfolding call_request_def assms(2) by blast
qed

theorem memory_writes_are_permitted_witness:
  "\<exists>sv q. build_policy_service writing_config = Inr sv \<and> call_action q = ''memory.promote''
    \<and> pm_allow_writes (pp_memory (resolve_policy_profile (sv_engine sv)
        (call_request sample_memory_gateway sample_context q) sample_context))"
proof -
  obtain sv q s where run: "build_policy_service writing_config = Inr sv"
    "memory_step sample_menv sample_memory_gateway sample_context (fresh_mem_run sv) s"
    "calls_of_run (mrun_log s) = [q]" "call_action q = ''memory.promote''"
    by (rule sample_promotion_runs)
  have "MemoryCalled q \<in> set (mrun_log s)" using run(3) by (simp add: set_calls_of_run [symmetric])
  moreover have "mg_component sample_memory_gateway = ''app.memory.gateway''"
    by (simp add: sample_memory_gateway_def new_memory_gateway_def)
  moreover have "call_action q \<in> set memory_write_actions" by (simp add: run(4) memory_write_actions_def)
  ultimately show ?thesis using memory_writes_are_permitted [OF run(1) _ run(2) _ _ refl, of q] run by blast
qed

section \<open>What comes back\<close>

text \<open>C14. A search that succeeds returns at most the asked-for number of hits, itself within the configured maximum,
  and when the limit of characters is positive, every text of a hit and of the records in it, their titles and
  summaries have at most that many characters, which is at most the configured number.\<close>

theorem memory_search_is_bounded:
  assumes "memory_search env gw q c answer s = (Inr r, s')"
  shows "int (length (sr_results r)) \<le> bound_search_limit gw (sq_limit q)
    \<and> bound_search_limit gw (sq_limit q) \<le> max 1 (msr_limit_max (mem_search (mg_settings gw)))
    \<and> max_result_chars gw (sq_max_result_chars q) \<le> default_chars gw
    \<and> (0 < default_chars gw \<longrightarrow> list_all (hit_within (max_result_chars gw (sq_max_result_chars q))) (sr_results r))"
proof -
  let ?limit = "bound_search_limit gw (sq_limit q)" and ?chars = "max_result_chars gw (sq_max_result_chars q)"
  from assms obtain op where op: "search_op (menv_texts env) gw q c = Inr op" and e: "mem_execute env gw c op answer s = (Inr r, s')"
    by (auto simp: memory_search_def perform_def split: sum.splits)
  from op have success: "op_success op = bound_search_result ?limit ?chars"
    and disabled: "\<exists>x y. op_disabled op = Some (x, y) \<and> sr_results x = []"
    by (auto simp: search_op_def Let_def new_search_result_def)
  have "sr_results r = [] \<or> (\<exists>raw. bound_search_result ?limit ?chars raw = Inr r)"
  proof (cases "mem_enabled (mg_settings gw)")
    case False
    with e disabled show ?thesis by (auto simp: mem_execute_def)
  next
    case True
    with e obtain s1 where "call_adapter env gw c op answer s1 = (Inr r, s')"
      by (auto simp: mem_execute_def split: sum.splits prod.splits)
    with success show ?thesis
      by (auto simp: call_adapter_def Let_def split: sum.splits adapter_failure.splits)
  qed
  moreover have "1 \<le> ?limit" by (rule search_limit_range)
  moreover have chars: "0 < default_chars gw \<Longrightarrow> 0 < ?chars" "?chars \<le> default_chars gw"
    by (auto simp: max_result_chars_def default_chars_def Let_def split: option.split)
  moreover have "int (length (sr_results r)) \<le> ?limit \<and> (0 < ?chars \<longrightarrow> list_all (hit_within ?chars) (sr_results r))"
    if "bound_search_result ?limit ?chars raw = Inr r" "1 \<le> ?limit" for raw
  proof -
    from that(1) obtain hits where "map_res (bound_hit ?chars) (take (nat ?limit) (sr_results raw)) = Inr hits"
      "sr_results r = hits"
      by (auto simp: bound_search_result_def new_search_result_def)
    with map_res_Inr [OF this(1)] that(2) bound_hit_within [of ?chars] show ?thesis
      by (fastforce simp: list_all_iff)
  qed
  ultimately show ?thesis using search_limit_range(2) [of gw "sq_limit q"] by auto
qed

lemma sample_search_allowed:
  "op_verdict minimal_config (call_of (search_op plain_texts sample_memory_gateway sample_query sample_context)) = Some Allow"
  using sample_memory_facts by blast

lemma sample_search_facts:
  "case bound_search_result 2 4 sample_hits of Inl e \<Rightarrow> False | Inr r \<Rightarrow> True"
  "bound_search_limit sample_memory_gateway (Some 5) = 2 \<and> max_result_chars sample_memory_gateway None = 4
    \<and> default_chars sample_memory_gateway = 4"
  using sample_memory_facts by blast+

theorem memory_search_is_bounded_witness:
  "\<exists>sv r s. memory_search sample_menv sample_memory_gateway sample_query sample_context (Inr sample_hits)
      (fresh_mem_run sv) = (Inr r, s)
    \<and> int (length (sr_results r)) \<le> 2 \<and> list_all (hit_within 4) (sr_results r)"
proof -
  have e: "memory_search sample_menv sample_memory_gateway sample_query sample_context
    = perform sample_menv sample_memory_gateway sample_context
        (search_op plain_texts sample_memory_gateway sample_query sample_context)"
    by (simp add: memory_search_def sample_menv_def fun_eq_iff)
  have fields: "sq_limit sample_query = Some 5" "sq_max_result_chars sample_query = None" by (simp_all add: sample_query_def)
  have "\<exists>r. op_success x sample_hits = Inr r"
    if "search_op plain_texts sample_memory_gateway sample_query sample_context = Inr x" for x
    using that sample_search_facts by (auto simp: search_op_def Let_def fields split: sum.splits)
  from allowed_call [OF sample_search_allowed search_op_faithful [of plain_texts _ sample_query sample_context] this] obtain sv r s where
    "memory_search sample_menv sample_memory_gateway sample_query sample_context (Inr sample_hits) (fresh_mem_run sv)
      = (Inr r, s)" unfolding e by metis
  with memory_search_is_bounded [OF this] sample_search_facts(2) show ?thesis by (auto simp: fields)
qed

end
