(* ===== verification/Session_Replay.thy ===== *)
theory Session_Replay
  imports Orch_State Py_Text
begin

text \<open>
  What the session boundary shows of chart artifacts (\<open>session/mapping.py\<close>): public artifacts with a retrieval path
  in place of the internal reference, the metadata of a chat response, and the bounded payload stored with an
  assistant message so that its charts can be shown again.

  An artifact is the dictionary that \<open>model_dump\<close> makes of it; the JSON of the size limits is that of
  \<open>dumps_json\<close>, whose length does not depend on the order of the keys.
\<close>

section \<open>Texts\<close>

text \<open>\<open>urllib.parse.quote(s, safe="")\<close> on code points 0..255.\<close>

definition unreserved :: "char \<Rightarrow> bool" where
  "unreserved c \<longleftrightarrow>
    (let n = (of_char c :: nat)
     in 48 \<le> n \<and> n \<le> 57 \<or> 65 \<le> n \<and> n \<le> 90 \<or> 97 \<le> n \<and> n \<le> 122 \<or> n \<in> {45, 46, 95, 126})"

definition hex_upper :: "nat \<Rightarrow> char" where
  "hex_upper n = ''0123456789ABCDEF'' ! n"

definition quote_byte :: "char \<Rightarrow> string" where
  "quote_byte c =
    (let n = (of_char c :: nat) in if unreserved c then [c] else [CHR ''%'', hex_upper (n div 16), hex_upper (n mod 16)])"

definition url_quote :: "string \<Rightarrow> string" where
  "url_quote s = concat (List.map quote_byte (utf8 s))"

text \<open>\<open>s.replace(old, new)\<close> for a nonempty \<open>old\<close>.\<close>

function replace_text :: "string \<Rightarrow> string \<Rightarrow> string \<Rightarrow> string" where
  "replace_text old new s =
    (if old = [] then s
     else case s of
       [] \<Rightarrow> []
     | c # rest \<Rightarrow>
        if startswith s old then new @ replace_text old new (drop (length old) s)
        else c # replace_text old new rest)"
  by pat_completeness auto
termination
  by (relation "measure (\<lambda>(old, new, s). length s)") auto

declare replace_text.simps [simp del]

definition rstrip_char :: "char \<Rightarrow> string \<Rightarrow> string" where
  "rstrip_char ch s = rev (dropWhile (\<lambda>c. c = ch) (rev s))"

definition endpoint_slot :: string where
  "endpoint_slot = ''{artifact_id}''"

section \<open>Public artifacts\<close>

definition public_artifact_data_ref :: "string \<Rightarrow> string option \<Rightarrow> string option" where
  "public_artifact_data_ref artifact_id endpoint0 =
    (case norm_text endpoint0 of
       None \<Rightarrow> None
     | Some endpoint \<Rightarrow>
        (let i = url_quote artifact_id
         in if contains endpoint endpoint_slot then Some (replace_text endpoint_slot i endpoint)
            else if rstrip_char (CHR ''/'') endpoint = [] then Some (''/artifacts/'' @ i)
            else Some (rstrip_char (CHR ''/'') endpoint @ ''/'' @ i)))"

definition project_public_artifact :: "pydict \<Rightarrow> string option \<Rightarrow> bool \<Rightarrow> pydict option" where
  "project_public_artifact payload endpoint force_reference =
    (case read_optional_text (dict_get payload ''artifact_id'') of
       None \<Rightarrow> if force_reference then None else Some payload
     | Some i \<Rightarrow>
        if force_reference then
          (case public_artifact_data_ref i endpoint of
             None \<Rightarrow> None
           | Some r \<Rightarrow>
              Some (dict_set ''data_ref'' (PStr r) (dict_set ''data'' PNone (dict_set ''data_mode'' (PStr ''reference'') payload))))
        else if read_optional_text (dict_get payload ''data_mode'') = Some ''reference'' then
          (case public_artifact_data_ref i endpoint of
             None \<Rightarrow> Some payload
           | Some r \<Rightarrow> Some (dict_set ''data_ref'' (PStr r) payload))
        else Some payload)"

definition project_public_artifacts :: "pydict list \<Rightarrow> string option \<Rightarrow> pydict list" where
  "project_public_artifacts artifacts endpoint =
    List.map_filter (\<lambda>a. project_public_artifact a endpoint False) artifacts"

section \<open>Response metadata\<close>

definition artifact_delivery_mode :: "pydict list \<Rightarrow> string" where
  "artifact_delivery_mode artifacts =
    (case remdups (List.map_filter (\<lambda>a. read_optional_text (dict_get a ''data_mode'')) artifacts) of
       [] \<Rightarrow> ''inline'' | [m] \<Rightarrow> m | _ \<Rightarrow> ''mixed'')"

definition summary_artifact_id :: "pydict \<Rightarrow> string option" where
  "summary_artifact_id item =
    (case read_optional_text (dict_get item ''source_artifact_id'') of
       Some i \<Rightarrow> Some i
     | None \<Rightarrow> (case dict_get item ''content'' of
                 PDict content \<Rightarrow> read_optional_text (dict_get content ''artifact_id'') | _ \<Rightarrow> None))"

fun first_occurrences :: "string list \<Rightarrow> string list \<Rightarrow> string list" where
  "first_occurrences [] seen = []"
| "first_occurrences (x # xs) seen =
    (if x \<in> set seen then first_occurrences xs seen else x # first_occurrences xs (x # seen))"

definition context_summary_ids :: "pydict list \<Rightarrow> string list" where
  "context_summary_ids contributions = first_occurrences (List.map_filter summary_artifact_id contributions) []"

definition visualization_response_metadata :: "pydict list \<Rightarrow> pydict list \<Rightarrow> pydict" where
  "visualization_response_metadata artifacts contributions =
    (let n = int (length artifacts);
         ids = context_summary_ids contributions;
         m1 = (if artifacts = [] then []
               else [(''artifact_count'', PInt n), (''artifact_delivery_mode'', PStr (artifact_delivery_mode artifacts))]);
         m2 = (if artifacts = [] \<and> ids = [] then m1 else dict_set ''context_summary_added'' (PBool (ids \<noteq> [])) m1)
     in case ids of
          [] \<Rightarrow> m2
        | [i] \<Rightarrow> dict_set ''context_summary_id'' (PStr i) (dict_set ''context_summary_ids'' (py_strs_list ids) m2)
        | _ \<Rightarrow> dict_set ''context_summary_ids'' (py_strs_list ids) m2)"

definition non_negative_int :: "pyval \<Rightarrow> int option" where
  "non_negative_int v = (case v of PInt n \<Rightarrow> if n < 0 then None else Some n | _ \<Rightarrow> None)"

definition mapping_pending_task_count :: "pydict \<Rightarrow> int option" where
  "mapping_pending_task_count metadata =
    (case non_negative_int (dict_get metadata ''plan_step_count'') of
       None \<Rightarrow> None
     | Some planned \<Rightarrow>
        Some (max (planned - int_else (non_negative_int (dict_get metadata ''executed_step_count'')) 0) 0))"

definition merge_session_result_metadata :: "pydict \<Rightarrow> pydict list \<Rightarrow> pydict list \<Rightarrow> pydict" where
  "merge_session_result_metadata base artifacts contributions =
    (let m = dict_setdefault ''generated_artifact_count'' (PInt (int (length artifacts)))
               (dict_merge (sanitize_metadata (Some base)) (visualization_response_metadata artifacts contributions))
     in if dict_has m ''pending_task_count'' then m
        else
          (case mapping_pending_task_count m of
             None \<Rightarrow> m | Some n \<Rightarrow> dict_set ''pending_task_count'' (PInt n) m))"

section \<open>Replay\<close>

record replay_settings =
  rs_enabled :: bool
  rs_prefer_inline :: bool
  rs_max_artifacts_per_message :: int
  rs_max_inline_artifact_bytes :: int
  rs_max_total_bytes_per_message :: int

record replay_payload =
  rp_artifacts :: "pydict list"
  rp_metadata :: pydict

definition serialized_json_bytes :: "py_texts \<Rightarrow> pydict \<Rightarrow> int" where
  "serialized_json_bytes tx d = int (length (json_dumps tx (PDict d)))"

definition inline_candidate :: "pydict \<Rightarrow> string option \<Rightarrow> pydict option" where
  "inline_candidate artifact endpoint =
    (case project_public_artifact artifact endpoint False of
       None \<Rightarrow> None
     | Some a \<Rightarrow>
        if read_optional_text (dict_get a ''data_mode'') \<noteq> Some ''inline'' then None
        else (case dict_get a ''data'' of PList _ \<Rightarrow> Some a | _ \<Rightarrow> None))"

definition reference_candidate :: "pydict \<Rightarrow> string option \<Rightarrow> pydict option" where
  "reference_candidate artifact endpoint =
    (if norm_text endpoint = None then None else project_public_artifact artifact endpoint True)"

text \<open>A candidate with the mode it is tried in: inline (\<open>True\<close>) or by reference.\<close>

definition replay_candidates :: "pydict \<Rightarrow> string option \<Rightarrow> replay_settings \<Rightarrow> (bool \<times> pydict) list" where
  "replay_candidates artifact endpoint s =
    (let inline = inline_candidate artifact endpoint;
         reference = reference_candidate artifact endpoint
     in (case inline of None \<Rightarrow> [] | Some a \<Rightarrow> if rs_prefer_inline s \<or> reference = None then [(True, a)] else [])
        @ (case reference of None \<Rightarrow> [] | Some a \<Rightarrow> [(False, a)])
        @ (case inline of None \<Rightarrow> [] | Some a \<Rightarrow> if \<not> rs_prefer_inline s \<and> reference \<noteq> None then [(True, a)] else []))"

fun try_candidates ::
  "py_texts \<Rightarrow> replay_settings \<Rightarrow> int \<Rightarrow> (bool \<times> pydict) list \<Rightarrow> string \<Rightarrow> pydict option \<times> int \<times> string option" where
  "try_candidates tx s used [] reason = (None, 0, Some reason)"
| "try_candidates tx s used ((inline, a) # rest) reason =
    (let n = serialized_json_bytes tx a
     in if inline \<and> rs_max_inline_artifact_bytes s < n then try_candidates tx s used rest ''inline_artifact_too_large''
        else if rs_max_total_bytes_per_message s < used + n
          then try_candidates tx s used rest ''message_replay_budget_exceeded''
        else (Some a, n, None))"

definition select_replay_artifact ::
  "py_texts \<Rightarrow> pydict \<Rightarrow> string option \<Rightarrow> replay_settings \<Rightarrow> int \<Rightarrow> pydict option \<times> int \<times> string option" where
  "select_replay_artifact tx artifact endpoint s used =
    (case replay_candidates artifact endpoint s of
       [] \<Rightarrow>
         (None, 0, Some (if read_optional_text (dict_get artifact ''data_mode'') = Some ''reference''
                         then ''reference_replay_unavailable'' else ''inline_replay_unavailable''))
     | candidates \<Rightarrow> try_candidates tx s used candidates ''history_replay_unavailable'')"

fun select_replays ::
  "py_texts \<Rightarrow> string option \<Rightarrow> replay_settings \<Rightarrow> pydict list \<Rightarrow> int \<Rightarrow> string option \<Rightarrow> pydict list \<times> string option" where
  "select_replays tx endpoint s [] used reason = ([], reason)"
| "select_replays tx endpoint s (a # rest) used reason =
    (case select_replay_artifact tx a endpoint s used of
       (None, n, why) \<Rightarrow> select_replays tx endpoint s rest used (str_or reason why)
     | (Some b, n, why) \<Rightarrow>
        (let (bs, r) = select_replays tx endpoint s rest (used + n) reason in (b # bs, r)))"

text \<open>\<open>xs[:n]\<close>.\<close>

definition py_take :: "int \<Rightarrow> 'a list \<Rightarrow> 'a list" where
  "py_take n xs = (if 0 \<le> n then take (nat n) xs else take (nat (int (length xs) + n)) xs)"

definition build_history_replay :: "py_texts \<Rightarrow> pydict list \<Rightarrow> string option \<Rightarrow> replay_settings \<Rightarrow> replay_payload" where
  "build_history_replay tx artifacts endpoint s =
    (if artifacts = [] then \<lparr>rp_artifacts = [], rp_metadata = []\<rparr>
     else
       (let m0 = [(''artifact_count'', PInt (int (length artifacts))),
                  (''artifact_delivery_mode'', PStr (artifact_delivery_mode artifacts))]
        in if \<not> rs_enabled s then
             \<lparr>rp_artifacts = [], rp_metadata = m0 @ [(''artifact_replay_status'', PStr ''disabled''),
                (''artifact_replay_reason'', PStr ''history_replay_disabled'')]\<rparr>
           else
             (let k = rs_max_artifacts_per_message s;
                  (replays, reason0) = select_replays tx endpoint s (py_take k artifacts) 0 None;
                  reason = (if k < int (length artifacts) then str_or reason0 (Some ''artifact_limit_exceeded'') else reason0);
                  expected = min (int (length artifacts)) k;
                  m1 = m0 @ (if replays = [] then [] else [(''visualizations'', PList (List.map PDict replays))]);
                  m2 = (if replays = [] then
                          [(''artifact_replay_status'', PStr ''unavailable''),
                           (''artifact_replay_reason'',
                            PStr (if truthy reason then the reason else ''history_replay_unavailable''))]
                        else if int (length replays) < expected \<or> expected < int (length artifacts) then
                          (''artifact_replay_status'', PStr ''partial'')
                          # (case reason of None \<Rightarrow> [] | Some r \<Rightarrow> [(''artifact_replay_reason'', PStr r)])
                        else [(''artifact_replay_status'', PStr ''available'')])
              in \<lparr>rp_artifacts = replays, rp_metadata = m1 @ m2\<rparr>)))"

section \<open>The replay payload is bounded\<close>

definition total_bytes :: "py_texts \<Rightarrow> pydict list \<Rightarrow> int" where
  "total_bytes tx ds = sum_list (List.map (serialized_json_bytes tx) ds)"

lemma try_candidates_fits:
  assumes "try_candidates tx s used cs reason = (Some a, n, why)"
  shows "n = serialized_json_bytes tx a \<and> used + n \<le> rs_max_total_bytes_per_message s
    \<and> (\<exists>inline. (inline, a) \<in> set cs \<and> (inline \<longrightarrow> n \<le> rs_max_inline_artifact_bytes s))"
  using assms
proof (induction cs arbitrary: reason)
  case (Cons c rest)
  obtain inline b where c: "c = (inline, b)" by fastforce
  let ?n = "serialized_json_bytes tx b"
  have "(\<exists>r. try_candidates tx s used rest r = (Some a, n, why))
    \<or> \<not> (inline \<and> rs_max_inline_artifact_bytes s < ?n) \<and> \<not> rs_max_total_bytes_per_message s < used + ?n \<and> a = b \<and> n = ?n"
    using Cons.prems unfolding c try_candidates.simps Let_def by (auto split: if_splits)
  then show ?case
  proof
    assume "\<exists>r. try_candidates tx s used rest r = (Some a, n, why)"
    with Cons.IH show ?thesis by (metis list.set_intros(2))
  next
    assume "\<not> (inline \<and> rs_max_inline_artifact_bytes s < ?n) \<and> \<not> rs_max_total_bytes_per_message s < used + ?n
      \<and> a = b \<and> n = ?n"
    then have "n = ?n" "used + n \<le> rs_max_total_bytes_per_message s" "inline \<longrightarrow> n \<le> rs_max_inline_artifact_bytes s" "a = b"
      by linarith+
    moreover have "(inline, b) \<in> set (c # rest)" by (simp add: c)
    ultimately show ?thesis by blast
  qed
qed simp

lemma select_replay_fits:
  assumes "select_replay_artifact tx artifact endpoint s used = (Some a, n, why)"
  shows "n = serialized_json_bytes tx a \<and> used + n \<le> rs_max_total_bytes_per_message s
    \<and> (\<exists>inline. (inline, a) \<in> set (replay_candidates artifact endpoint s)
        \<and> (inline \<longrightarrow> n \<le> rs_max_inline_artifact_bytes s))"
proof (cases "replay_candidates artifact endpoint s")
  case Nil
  with assms show ?thesis by (simp add: select_replay_artifact_def)
next
  case (Cons c cs)
  with assms have "try_candidates tx s used (replay_candidates artifact endpoint s) ''history_replay_unavailable'' = (Some a, n, why)"
    by (simp add: select_replay_artifact_def)
  from try_candidates_fits [OF this] show ?thesis .
qed

lemma select_replays_fit:
  assumes "used \<le> rs_max_total_bytes_per_message s"
  shows "used + total_bytes tx (fst (select_replays tx endpoint s as used reason)) \<le> rs_max_total_bytes_per_message s
    \<and> length (fst (select_replays tx endpoint s as used reason)) \<le> length as"
  using assms
proof (induction tx endpoint s as used reason rule: select_replays.induct)
  case (1 tx endpoint s used reason)
  then show ?case by (simp add: total_bytes_def)
next
  case (2 tx endpoint s a rest used reason)
  obtain x n why where sel: "select_replay_artifact tx a endpoint s used = (x, n, why)" by (metis prod_cases3)
  show ?case
  proof (cases x)
    case None
    with 2 sel show ?thesis by (simp add: le_SucI)
  next
    case (Some b)
    from select_replay_fits [OF sel [unfolded Some]] have "n = serialized_json_bytes tx b"
      "used + n \<le> rs_max_total_bytes_per_message s" by auto
    moreover from this 2(2) [OF sel [symmetric] Some refl]
    have "used + n + total_bytes tx (fst (select_replays tx endpoint s rest (used + n) reason))
        \<le> rs_max_total_bytes_per_message s
      \<and> length (fst (select_replays tx endpoint s rest (used + n) reason)) \<le> length rest" by simp
    moreover obtain bs r where "select_replays tx endpoint s rest (used + n) reason = (bs, r)" by fastforce
    ultimately show ?thesis using sel Some by (simp add: total_bytes_def)
  qed
qed

text \<open>The charts stored with an assistant message stay within the settings: at most the configured number of
  artifacts, whose JSON has together at most the configured number of bytes, and nothing when replay is disabled.\<close>

theorem history_replay_is_bounded:
  assumes "0 \<le> rs_max_total_bytes_per_message s" "0 \<le> rs_max_artifacts_per_message s"
  shows "total_bytes tx (rp_artifacts (build_history_replay tx artifacts endpoint s)) \<le> rs_max_total_bytes_per_message s
    \<and> int (length (rp_artifacts (build_history_replay tx artifacts endpoint s))) \<le> rs_max_artifacts_per_message s
    \<and> (\<not> rs_enabled s \<longrightarrow> rp_artifacts (build_history_replay tx artifacts endpoint s) = [])"
proof -
  let ?as = "py_take (rs_max_artifacts_per_message s) artifacts"
  have "int (length ?as) \<le> rs_max_artifacts_per_message s" using assms(2) by (simp add: py_take_def)
  with select_replays_fit [OF assms(1), of tx endpoint ?as None] assms show ?thesis
    by (auto simp: build_history_replay_def Let_def total_bytes_def split: prod.splits)
qed

definition sample_replay_settings :: replay_settings where
  "sample_replay_settings =
    \<lparr>rs_enabled = True, rs_prefer_inline = True, rs_max_artifacts_per_message = 3, rs_max_inline_artifact_bytes = 1000,
     rs_max_total_bytes_per_message = 1500\<rparr>"

definition sample_chart :: pydict where
  "sample_chart =
    [(''artifact_id'', PStr ''a 1''), (''data_mode'', PStr ''inline''), (''data'', PList [PDict [(''x'', PInt 1)]])]"

definition no_texts :: py_texts where
  "no_texts = \<lparr>tx_digest = (\<lambda>s. s), tx_float_repr = (\<lambda>w. []), tx_str = (\<lambda>v. [])\<rparr>"

theorem history_replay_is_bounded_witness:
  "rp_artifacts (build_history_replay no_texts [sample_chart, sample_chart] None sample_replay_settings)
      = [sample_chart, sample_chart]
    \<and> total_bytes no_texts (rp_artifacts (build_history_replay no_texts [sample_chart, sample_chart] None
        sample_replay_settings)) \<le> 1500"
proof
  show "rp_artifacts (build_history_replay no_texts [sample_chart, sample_chart] None sample_replay_settings)
      = [sample_chart, sample_chart]" by code_simp
  show "total_bytes no_texts (rp_artifacts (build_history_replay no_texts [sample_chart, sample_chart] None
        sample_replay_settings)) \<le> 1500"
    using history_replay_is_bounded [of sample_replay_settings no_texts "[sample_chart, sample_chart]" None]
    by (simp add: sample_replay_settings_def)
qed

end
