(* ===== verification/Orch_Results.thy ===== *)
theory Orch_Results
  imports Orch_State Session_Replay
begin

text \<open>
  The result of a turn (\<open>orchestration/models.py\<close>, \<open>orchestration/result_builder.py\<close>) and the events of a streamed one
  (\<open>orchestration/events.py\<close>). The charts and context contributions of a result are validated Pydantic models; here
  each is the dictionary that \<open>model_dump\<close> makes of it.
\<close>

section \<open>Results\<close>

record orch_result =
  or_answer :: string
  or_session_id :: string
  or_trace_id :: string
  or_usecase :: string
  or_strategy_name :: string
  or_agent_name :: "string option"
  or_llm_profile :: "string option"
  or_steps :: "step_summary list"
  or_tool_calls :: "tool_call_summary list"
  or_memory_searches :: "memory_search_summary list"
  or_memory_updates :: "memory_update_summary list"
  or_citations :: "citation_summary list"
  or_artifacts :: "pydict list"
  or_context_contributions :: "pydict list"
  or_state_delta :: "state_delta option"
  or_finish_reason :: string
  or_duration_ms :: "int option"
  or_metadata :: pydict

definition new_orch_result :: "orch_result \<Rightarrow> orch_result res" where
  "new_orch_result r =
    try_bind (required_identifier (or_session_id r)) (\<lambda>session_id.
    try_bind (required_identifier (or_trace_id r)) (\<lambda>trace_id.
    try_bind (required_identifier (or_usecase r)) (\<lambda>usecase.
    try_bind (required_identifier (or_strategy_name r)) (\<lambda>strategy_name.
    try_bind (required_identifier (or_finish_reason r)) (\<lambda>finish_reason.
    Inr (r\<lparr>or_answer := normalize_text (or_answer r), or_session_id := session_id, or_trace_id := trace_id,
           or_usecase := usecase, or_strategy_name := strategy_name, or_agent_name := norm_opt (or_agent_name r),
           or_llm_profile := norm_opt (or_llm_profile r), or_finish_reason := finish_reason,
           or_duration_ms := norm_int (or_duration_ms r), or_metadata := sanitize_metadata (Some (or_metadata r))\<rparr>))))))"

text \<open>\<open>build_orchestration_result\<close>, given summaries; it sanitizes the metadata before the constructor does.\<close>

definition build_orch_result :: "orch_result \<Rightarrow> orch_result res" where
  "build_orch_result r = new_orch_result (r\<lparr>or_metadata := sanitize_metadata (Some (or_metadata r))\<rparr>)"

fun tool_summaries_from :: "pydict list \<Rightarrow> tool_call_summary list res" where
  "tool_summaries_from [] = Inr []"
| "tool_summaries_from (d # ds) =
    try_bind (tool_call_summary_from_mapping d) (\<lambda>t. try_bind (tool_summaries_from ds) (\<lambda>ts. Inr (t # ts)))"

definition tool_call_legacy_dict :: "tool_call_summary \<Rightarrow> pydict" where
  "tool_call_legacy_dict t =
    put_dict ''metadata'' (tk_metadata t)
      (put_int ''duration_ms'' (tk_duration_ms t)
        (put_text ''safe_message'' (tk_safe_message t)
          [(''tool_name'', PStr (tk_tool_name t)), (''status'', PStr (tk_status t))]))"

definition memory_update_legacy_dict :: "memory_update_summary \<Rightarrow> pydict" where
  "memory_update_legacy_dict m =
    put_dict ''metadata'' (mu_metadata m)
      (put_text ''safe_message'' (mu_safe_message m)
        [(''operation'', PStr (mu_operation m)), (''status'', PStr (mu_status m))])"

definition citation_legacy_dict :: "citation_summary \<Rightarrow> pydict" where
  "citation_legacy_dict c =
    put_dict ''metadata'' (ci_metadata c) (put_text ''source'' (ci_source c) (put_text ''label'' (ci_label c) []))"

text \<open>The result as the contract between orchestration and its older callers has it.\<close>

record contract_result =
  kr_answer :: string
  kr_session_id :: string
  kr_trace_id :: "string option"
  kr_agent_name :: "string option"
  kr_strategy_name :: "string option"
  kr_llm_profile :: "string option"
  kr_tool_calls :: "pydict list"
  kr_memory_updates :: "pydict list"
  kr_citations :: "pydict list"
  kr_artifacts :: "pydict list"
  kr_context_contributions :: "pydict list"
  kr_metadata :: pydict

definition put_list :: "string \<Rightarrow> pydict list \<Rightarrow> pydict \<Rightarrow> pydict" where
  "put_list key ds d = (if ds = [] then d else dict_set key (PList (List.map PDict ds)) d)"

definition orch_result_to_contract :: "orch_result \<Rightarrow> contract_result" where
  "orch_result_to_contract r =
    (let m0 = dict_set ''finish_reason'' (PStr (or_finish_reason r)) (dict_set ''usecase'' (PStr (or_usecase r)) (or_metadata r));
         m1 = (case or_duration_ms r of None \<Rightarrow> m0 | Some n \<Rightarrow> dict_set ''duration_ms'' (PInt n) m0);
         m2 = put_list ''memory_searches'' (List.map memory_search_summary_as_dict (or_memory_searches r))
                (put_list ''steps'' (List.map step_summary_as_dict (or_steps r)) m1);
         m3 = (case or_state_delta r of None \<Rightarrow> m2 | Some d \<Rightarrow> dict_set ''state_delta'' (PDict (state_delta_to_dict d)) m2)
     in \<lparr>kr_answer = or_answer r, kr_session_id = or_session_id r, kr_trace_id = Some (or_trace_id r),
         kr_agent_name = or_agent_name r, kr_strategy_name = Some (or_strategy_name r), kr_llm_profile = or_llm_profile r,
         kr_tool_calls = List.map tool_call_legacy_dict (or_tool_calls r),
         kr_memory_updates = List.map memory_update_legacy_dict (or_memory_updates r),
         kr_citations = List.map citation_legacy_dict (or_citations r), kr_artifacts = or_artifacts r,
         kr_context_contributions = or_context_contributions r, kr_metadata = sanitize_metadata (Some m3)\<rparr>)"

section \<open>Events\<close>

record orch_event =
  ose_type :: string
  ose_trace_id :: string
  ose_session_id :: string
  ose_text :: "string option"
  ose_result :: "orch_result option"
  ose_error :: "error_detail option"
  ose_metadata :: pydict

definition new_orch_event :: "orch_event \<Rightarrow> orch_event res" where
  "new_orch_event e =
    try_bind (normalize_identifier (ose_type e)) (\<lambda>type0.
    try_bind (normalize_identifier (ose_trace_id e)) (\<lambda>trace_id.
    try_bind (normalize_identifier (ose_session_id e)) (\<lambda>session_id.
    Inr (e\<lparr>ose_type := type0, ose_trace_id := trace_id, ose_session_id := session_id,
           ose_text := (case ose_text e of Some (c # t) \<Rightarrow> Some (c # t) | _ \<Rightarrow> None),
           ose_metadata := sanitize_metadata (Some (ose_metadata e))\<rparr>))))"

definition plain_event :: "string \<Rightarrow> string \<Rightarrow> string \<Rightarrow> pydict \<Rightarrow> orch_event" where
  "plain_event type0 trace_id session_id metadata =
    \<lparr>ose_type = type0, ose_trace_id = trace_id, ose_session_id = session_id, ose_text = None, ose_result = None,
     ose_error = None, ose_metadata = metadata\<rparr>"

definition event_started :: "string \<Rightarrow> string \<Rightarrow> pydict \<Rightarrow> orch_event res" where
  "event_started trace_id session_id metadata =
    new_orch_event (plain_event ''orchestration.started'' trace_id session_id metadata)"

definition event_strategy_selected ::
  "string \<Rightarrow> string \<Rightarrow> string \<Rightarrow> string option \<Rightarrow> string option \<Rightarrow> string option \<Rightarrow> pydict \<Rightarrow> orch_event res" where
  "event_strategy_selected trace_id session_id strategy usecase agent llm_profile metadata =
    new_orch_event (plain_event ''strategy.selected'' trace_id session_id
      (set_opt_text ''llm_profile'' llm_profile (set_opt_text ''agent_name'' agent (set_opt_text ''usecase'' usecase
        (dict_set ''strategy_name'' (PStr strategy) metadata)))))"

definition event_response_delta :: "string \<Rightarrow> string \<Rightarrow> string \<Rightarrow> pydict \<Rightarrow> orch_event res" where
  "event_response_delta trace_id session_id t metadata =
    new_orch_event ((plain_event ''response.delta'' trace_id session_id metadata)\<lparr>ose_text := Some t\<rparr>)"

definition event_response_completed :: "string \<Rightarrow> string \<Rightarrow> string \<Rightarrow> int option \<Rightarrow> pydict \<Rightarrow> orch_event res" where
  "event_response_completed trace_id session_id finish_reason duration_ms metadata =
    (let p = dict_set ''finish_reason'' (PStr finish_reason) metadata
     in new_orch_event (plain_event ''response.completed'' trace_id session_id
          (case duration_ms of None \<Rightarrow> p | Some n \<Rightarrow> dict_set ''duration_ms'' (PInt n) p)))"

definition event_completed :: "string \<Rightarrow> string \<Rightarrow> orch_result \<Rightarrow> pydict \<Rightarrow> orch_event res" where
  "event_completed trace_id session_id r metadata =
    new_orch_event ((plain_event ''orchestration.completed'' trace_id session_id metadata)\<lparr>ose_result := Some r\<rparr>)"

definition event_error :: "string \<Rightarrow> string \<Rightarrow> error_detail \<Rightarrow> pydict \<Rightarrow> orch_event res" where
  "event_error trace_id session_id detail metadata =
    new_orch_event ((plain_event ''orchestration.error'' trace_id session_id metadata)\<lparr>ose_error := Some detail\<rparr>)"

definition event_cancelled :: "string \<Rightarrow> string \<Rightarrow> pydict \<Rightarrow> orch_event res" where
  "event_cancelled trace_id session_id metadata =
    new_orch_event (plain_event ''orchestration.cancelled'' trace_id session_id metadata)"

end
