(* ===== verification/Session_Config.thy ===== *)
theory Session_Config
  imports Config_View
begin

text \<open>
  \<open>get_session_settings\<close> of \<open>config/view.py\<close>: the settings of the session service. A value of the wrong type
  raises; the arguments of a constructor are read in the order in which they are written.
\<close>

section \<open>Settings\<close>

record session_identifier_settings =
  sid_prefix :: string
  sid_accept_client_session_id :: bool
  sid_generate_when_missing :: bool
  sid_max_length :: int
  sid_allowed_pattern :: string

record session_defaults_settings =
  sdf_default_user_id :: string
  sdf_default_usecase :: string
  sdf_default_history_limit :: int
  sdf_max_history_limit :: int
  sdf_timezone_metadata_key :: string

record session_lifecycle_settings =
  slc_create_on_first_chat :: bool
  slc_resume_existing_sessions :: bool
  slc_reject_unknown_client_session_id :: bool
  slc_update_last_seen_on_load :: bool
  slc_save_after_failed_orchestration :: bool
  slc_save_after_cancelled_stream :: bool

record session_concurrency_settings =
  scc_mode :: string
  scc_conflict_policy :: string
  scc_max_retries :: int

record session_state_settings =
  sst_save_on_chat_completion :: bool
  sst_save_on_stream_completion :: bool
  sst_save_on_stream_cancellation :: bool
  sst_save_on_stream_failure :: bool
  sst_save_each_stream_delta :: bool

record session_history_settings =
  shs_enabled :: bool
  shs_include_tool_summaries :: bool
  shs_include_system_messages :: bool
  shs_include_metadata :: bool
  shs_max_message_chars :: int
  shs_redaction_enabled :: bool

record session_management_settings =
  smg_list_enabled :: bool
  smg_delete_enabled :: bool
  smg_default_list_limit :: int
  smg_max_list_limit :: int

record session_tracing_settings =
  str_record_session_created :: bool
  str_record_session_resumed :: bool
  str_record_session_reset :: bool
  str_record_state_loaded :: bool
  str_record_state_saved :: bool
  str_record_history_returned :: bool
  str_record_stream_lifecycle :: bool

record session_settings =
  ses_enabled :: bool
  ses_identifiers :: session_identifier_settings
  ses_defaults :: session_defaults_settings
  ses_lifecycle :: session_lifecycle_settings
  ses_concurrency :: session_concurrency_settings
  ses_state :: session_state_settings
  ses_history :: session_history_settings
  ses_tracing :: session_tracing_settings
  ses_management :: session_management_settings

section \<open>Reading\<close>

definition read_session_identifier :: "pyval \<Rightarrow> session_identifier_settings res" where
  "read_session_identifier config =
    try_bind (cfg_str config ''session.identifiers.prefix'' ''session'') (\<lambda>prefix.
    try_bind (cfg_bool config ''session.identifiers.accept_client_session_id'' True) (\<lambda>accept_client_session_id.
    try_bind (cfg_bool config ''session.identifiers.generate_when_missing'' True) (\<lambda>generate_when_missing.
    try_bind (cfg_int config ''session.identifiers.max_length'' 128) (\<lambda>max_length.
    try_bind (cfg_str config ''session.identifiers.allowed_pattern'' ''^[A-Za-z0-9_.:-]{3,128}$'') (\<lambda>allowed_pattern.
    Inr \<lparr>sid_prefix = prefix,
      sid_accept_client_session_id = accept_client_session_id,
      sid_generate_when_missing = generate_when_missing,
      sid_max_length = max_length,
      sid_allowed_pattern = allowed_pattern\<rparr>)))))"

definition read_session_defaults :: "pyval \<Rightarrow> session_defaults_settings res" where
  "read_session_defaults config =
    try_bind (cfg_str config ''session.defaults.default_user_id'' ''local_user'') (\<lambda>default_user_id.
    try_bind (cfg_required_str config ''app.active_usecase'') (\<lambda>fallback0.
    try_bind (cfg_optional_str config ''session.defaults.default_usecase'' fallback0) (\<lambda>default_usecase.
    try_bind (cfg_int config ''session.defaults.default_history_limit'' 50) (\<lambda>default_history_limit.
    try_bind (cfg_int config ''session.defaults.max_history_limit'' 200) (\<lambda>max_history_limit.
    try_bind (cfg_str config ''session.defaults.timezone_metadata_key'' ''timezone'') (\<lambda>timezone_metadata_key.
    Inr \<lparr>sdf_default_user_id = default_user_id,
      sdf_default_usecase = default_usecase,
      sdf_default_history_limit = default_history_limit,
      sdf_max_history_limit = max_history_limit,
      sdf_timezone_metadata_key = timezone_metadata_key\<rparr>))))))"

definition read_session_lifecycle :: "pyval \<Rightarrow> session_lifecycle_settings res" where
  "read_session_lifecycle config =
    try_bind (cfg_bool config ''session.lifecycle.create_on_first_chat'' True) (\<lambda>create_on_first_chat.
    try_bind (cfg_bool config ''session.lifecycle.resume_existing_sessions'' True) (\<lambda>resume_existing_sessions.
    try_bind (cfg_bool config ''session.lifecycle.reject_unknown_client_session_id'' False) (\<lambda>reject_unknown_client_session_id.
    try_bind (cfg_bool config ''session.lifecycle.update_last_seen_on_load'' True) (\<lambda>update_last_seen_on_load.
    try_bind (cfg_bool config ''session.lifecycle.save_after_failed_orchestration'' True) (\<lambda>save_after_failed_orchestration.
    try_bind (cfg_bool config ''session.lifecycle.save_after_cancelled_stream'' True) (\<lambda>save_after_cancelled_stream.
    Inr \<lparr>slc_create_on_first_chat = create_on_first_chat,
      slc_resume_existing_sessions = resume_existing_sessions,
      slc_reject_unknown_client_session_id = reject_unknown_client_session_id,
      slc_update_last_seen_on_load = update_last_seen_on_load,
      slc_save_after_failed_orchestration = save_after_failed_orchestration,
      slc_save_after_cancelled_stream = save_after_cancelled_stream\<rparr>))))))"

definition read_session_concurrency :: "pyval \<Rightarrow> session_concurrency_settings res" where
  "read_session_concurrency config =
    try_bind (cfg_str config ''session.concurrency.mode'' ''optimistic_version'') (\<lambda>mode.
    try_bind (cfg_str config ''session.concurrency.conflict_policy'' ''reject'') (\<lambda>conflict_policy.
    try_bind (cfg_int config ''session.concurrency.max_retries'' 1) (\<lambda>max_retries.
    Inr \<lparr>scc_mode = mode,
      scc_conflict_policy = conflict_policy,
      scc_max_retries = max_retries\<rparr>)))"

definition read_session_state :: "pyval \<Rightarrow> session_state_settings res" where
  "read_session_state config =
    try_bind (cfg_bool config ''session.state.save_on_chat_completion'' True) (\<lambda>save_on_chat_completion.
    try_bind (cfg_bool config ''session.state.save_on_stream_completion'' True) (\<lambda>save_on_stream_completion.
    try_bind (cfg_bool config ''session.state.save_on_stream_cancellation'' True) (\<lambda>save_on_stream_cancellation.
    try_bind (cfg_bool config ''session.state.save_on_stream_failure'' True) (\<lambda>save_on_stream_failure.
    try_bind (cfg_bool config ''session.state.save_each_stream_delta'' False) (\<lambda>save_each_stream_delta.
    Inr \<lparr>sst_save_on_chat_completion = save_on_chat_completion,
      sst_save_on_stream_completion = save_on_stream_completion,
      sst_save_on_stream_cancellation = save_on_stream_cancellation,
      sst_save_on_stream_failure = save_on_stream_failure,
      sst_save_each_stream_delta = save_each_stream_delta\<rparr>)))))"

definition read_session_history :: "pyval \<Rightarrow> session_history_settings res" where
  "read_session_history config =
    try_bind (cfg_bool config ''session.history.enabled'' False) (\<lambda>enabled.
    try_bind (cfg_bool config ''session.history.include_tool_summaries'' False) (\<lambda>include_tool_summaries.
    try_bind (cfg_bool config ''session.history.include_system_messages'' False) (\<lambda>include_system_messages.
    try_bind (cfg_bool config ''session.history.include_metadata'' True) (\<lambda>include_metadata.
    try_bind (cfg_int config ''session.history.max_message_chars'' 4000) (\<lambda>max_message_chars.
    try_bind (cfg_bool config ''session.history.redaction_enabled'' True) (\<lambda>redaction_enabled.
    Inr \<lparr>shs_enabled = enabled,
      shs_include_tool_summaries = include_tool_summaries,
      shs_include_system_messages = include_system_messages,
      shs_include_metadata = include_metadata,
      shs_max_message_chars = max_message_chars,
      shs_redaction_enabled = redaction_enabled\<rparr>))))))"

definition read_session_management :: "pyval \<Rightarrow> session_management_settings res" where
  "read_session_management config =
    try_bind (cfg_bool config ''session.management.list_enabled'' False) (\<lambda>list_enabled.
    try_bind (cfg_bool config ''session.management.delete_enabled'' False) (\<lambda>delete_enabled.
    try_bind (cfg_int config ''session.management.default_list_limit'' 50) (\<lambda>default_list_limit.
    try_bind (cfg_int config ''session.management.max_list_limit'' 200) (\<lambda>max_list_limit.
    Inr \<lparr>smg_list_enabled = list_enabled,
      smg_delete_enabled = delete_enabled,
      smg_default_list_limit = default_list_limit,
      smg_max_list_limit = max_list_limit\<rparr>))))"

definition read_session_tracing :: "pyval \<Rightarrow> session_tracing_settings res" where
  "read_session_tracing config =
    try_bind (cfg_bool config ''session.tracing.record_session_created'' True) (\<lambda>record_session_created.
    try_bind (cfg_bool config ''session.tracing.record_session_resumed'' True) (\<lambda>record_session_resumed.
    try_bind (cfg_bool config ''session.tracing.record_session_reset'' True) (\<lambda>record_session_reset.
    try_bind (cfg_bool config ''session.tracing.record_state_loaded'' True) (\<lambda>record_state_loaded.
    try_bind (cfg_bool config ''session.tracing.record_state_saved'' True) (\<lambda>record_state_saved.
    try_bind (cfg_bool config ''session.tracing.record_history_returned'' True) (\<lambda>record_history_returned.
    try_bind (cfg_bool config ''session.tracing.record_stream_lifecycle'' True) (\<lambda>record_stream_lifecycle.
    Inr \<lparr>str_record_session_created = record_session_created,
      str_record_session_resumed = record_session_resumed,
      str_record_session_reset = record_session_reset,
      str_record_state_loaded = record_state_loaded,
      str_record_state_saved = record_state_saved,
      str_record_history_returned = record_history_returned,
      str_record_stream_lifecycle = record_stream_lifecycle\<rparr>)))))))"

definition get_session_settings :: "pyval \<Rightarrow> session_settings res" where
  "get_session_settings config =
    try_bind (cfg_bool config ''session.enabled'' True) (\<lambda>enabled.
    try_bind (read_session_identifier config) (\<lambda>identifiers.
    try_bind (read_session_defaults config) (\<lambda>defaults.
    try_bind (read_session_lifecycle config) (\<lambda>lifecycle.
    try_bind (read_session_concurrency config) (\<lambda>concurrency.
    try_bind (read_session_state config) (\<lambda>state.
    try_bind (read_session_history config) (\<lambda>history.
    try_bind (read_session_management config) (\<lambda>management.
    try_bind (read_session_tracing config) (\<lambda>tracing.
    Inr \<lparr>ses_enabled = enabled,
      ses_identifiers = identifiers,
      ses_defaults = defaults,
      ses_lifecycle = lifecycle,
      ses_concurrency = concurrency,
      ses_state = state,
      ses_history = history,
      ses_tracing = tracing,
      ses_management = management\<rparr>)))))))))"

declare read_session_identifier_def [reader_defs] read_session_defaults_def [reader_defs] read_session_lifecycle_def [reader_defs] read_session_concurrency_def [reader_defs] read_session_state_def [reader_defs] read_session_history_def [reader_defs] read_session_management_def [reader_defs] read_session_tracing_def [reader_defs] get_session_settings_def [reader_defs]

end
