(* ===== verification/Session_History.thy ===== *)
theory Session_History
  imports Session_Config Orch_State Session_Replay
begin

text \<open>
  What a client sees of a stored conversation (\<open>session/history.py\<close>): the messages of the visible roles, cut to the
  configured length, with the metadata and charts that are known to be safe.

  The safe keys are a set in the code, so the order of the metadata they give is not determined there; here it is
  alphabetical.
\<close>

section \<open>Settings and bounds\<close>

definition safe_history_keys :: "string list" where
  "safe_history_keys =
    [''artifact_delivery_mode'', ''artifact_replay_reason'', ''artifact_replay_status'', ''mode'', ''trace_fragment'',
     ''trace_id'', ''transport'', ''usecase'']"

definition max_history_visualizations :: nat where "max_history_visualizations = 8"
definition max_history_warnings :: nat where "max_history_warnings = 8"
definition max_history_rows :: nat where "max_history_rows = 5000"
definition max_history_row_fields :: nat where "max_history_row_fields = 32"

record history_message =
  hm_role :: string
  hm_content :: string
  hm_created_at :: "string option"
  hm_artifacts :: "pydict list"
  hm_metadata :: pydict

record history_result =
  hr_trace_id :: string
  hr_session_id :: string
  hr_messages :: "history_message list"
  hr_truncated :: bool
  hr_metadata :: pydict

section \<open>Values\<close>

definition scalar_value :: "pyval \<Rightarrow> pyval option" where
  "scalar_value v =
    (case v of
       PNone \<Rightarrow> Some v | PBool b \<Rightarrow> Some v | PInt i \<Rightarrow> Some v | PFloat w \<Rightarrow> Some v
     | PStr s \<Rightarrow> map_option PStr (read_optional_text v)
     | _ \<Rightarrow> None)"

text \<open>The loops over the items of a mapping: a blank key and a value that is not projected are skipped.\<close>

fun project_items :: "(pyval \<Rightarrow> pyval option) \<Rightarrow> pydict \<Rightarrow> pydict \<Rightarrow> pydict" where
  "project_items f [] acc = acc"
| "project_items f ((k, v) # items) acc =
    project_items f items
      (case (read_optional_text (PStr k), f v) of (Some key, Some x) \<Rightarrow> dict_set key x acc | _ \<Rightarrow> acc)"

definition project_text_list :: "pyval \<Rightarrow> nat \<Rightarrow> string list" where
  "project_text_list v limit =
    (case v of PList xs \<Rightarrow> List.map_filter read_optional_text (take limit xs) | _ \<Rightarrow> [])"

definition encoding_value :: "pyval \<Rightarrow> pyval option" where
  "encoding_value v =
    (case v of
       PStr s \<Rightarrow> map_option PStr (read_optional_text v)
     | PList xs \<Rightarrow> (let ts = project_text_list v 12 in if ts = [] then None else Some (py_strs_list ts))
     | _ \<Rightarrow> None)"

definition project_string_mapping :: "pyval \<Rightarrow> pydict" where
  "project_string_mapping v = (case v of PDict d \<Rightarrow> project_items encoding_value (take 16 d) [] | _ \<Rightarrow> [])"

definition project_scalar_mapping :: "pyval \<Rightarrow> pydict" where
  "project_scalar_mapping v = (case v of PDict d \<Rightarrow> project_items scalar_value (take 16 d) [] | _ \<Rightarrow> [])"

definition project_row :: "pydict \<Rightarrow> pydict" where
  "project_row row = project_items scalar_value (take max_history_row_fields row) []"

definition project_data_rows :: "pyval \<Rightarrow> pydict list option" where
  "project_data_rows v =
    (case v of PList xs \<Rightarrow> Some (List.map project_row (as_mappings (take max_history_rows xs))) | _ \<Rightarrow> None)"

section \<open>Charts\<close>

text \<open>The data of a chart and its reference, as far as the mode of the chart admits it.\<close>

definition chart_payload :: "pydict \<Rightarrow> (pyval \<times> pyval) option" where
  "chart_payload item =
    (let ref = read_optional_text (dict_get item ''data_ref'')
     in case read_optional_text (dict_get item ''data_mode'') of
          None \<Rightarrow> None
        | Some mode \<Rightarrow>
            if mode = ''reference'' then if ref = None then None else Some (PNone, py_opt_str ref)
            else if mode = ''inline'' then
              (case project_data_rows (dict_get item ''data'') of
                 None \<Rightarrow> None | Some rows \<Rightarrow> Some (PList (List.map PDict rows), py_opt_str ref))
            else None)"

definition project_history_artifact :: "pydict \<Rightarrow> pydict option" where
  "project_history_artifact item =
    (let text = (\<lambda>k. read_optional_text (dict_get item k))
     in case (text ''artifact_id'', text ''chart_type'', text ''title'', text ''renderer'', text ''spec_version'',
              chart_payload item) of
          (Some artifact_id, Some chart_type, Some title, Some renderer, Some spec_version, Some (data, data_ref)) \<Rightarrow>
            (let encoding = project_string_mapping (dict_get item ''encoding'')
             in if encoding = [] then None
                else Some
                  [(''artifact_id'', PStr artifact_id),
                   (''type'', PStr (case text ''type'' of Some t \<Rightarrow> t | None \<Rightarrow> ''chart'')),
                   (''chart_type'', PStr chart_type), (''title'', PStr title),
                   (''description'', PStr (case text ''description'' of Some t \<Rightarrow> t | None \<Rightarrow> [])),
                   (''renderer'', PStr renderer), (''spec_version'', PStr spec_version),
                   (''data_mode'', py_opt_str (text ''data_mode'')), (''data'', data), (''data_ref'', data_ref),
                   (''encoding'', PDict encoding), (''options'', PDict (project_scalar_mapping (dict_get item ''options''))),
                   (''warnings'', py_strs_list (project_text_list (dict_get item ''warnings'') max_history_warnings)),
                   (''metadata'', PDict (project_scalar_mapping (dict_get item ''metadata'')))])
        | _ \<Rightarrow> None)"

definition project_history_artifacts :: "pyval \<Rightarrow> pydict list" where
  "project_history_artifacts v =
    (case iter_items v of
       None \<Rightarrow> []
     | Some xs \<Rightarrow> List.map_filter project_history_artifact (as_mappings (take max_history_visualizations xs)))"

section \<open>Messages\<close>

definition normalize_visible_role :: "pyval \<Rightarrow> bool \<Rightarrow> bool \<Rightarrow> string option" where
  "normalize_visible_role role include_system include_tools =
    (case role of
       PStr s \<Rightarrow>
         (let r = lower (strip s)
          in if r = ''system'' then if include_system then Some r else None
             else if r = ''tool'' then if include_tools then Some r else None
             else if r \<in> {''user'', ''assistant''} then Some r else None)
     | _ \<Rightarrow> None)"

definition put_charts :: "pydict list \<Rightarrow> pydict \<Rightarrow> pydict" where
  "put_charts charts d = (if charts = [] then d else dict_set ''visualizations'' (PList (List.map PDict charts)) d)"

definition safe_message_metadata :: "pydict \<Rightarrow> pydict" where
  "safe_message_metadata metadata =
    (let texts = List.map_filter (\<lambda>k. case read_optional_text (dict_get metadata k) of
                     None \<Rightarrow> None | Some t \<Rightarrow> Some (k, PStr t)) safe_history_keys;
         counted = (case non_negative_int (dict_get metadata ''artifact_count'') of
                      None \<Rightarrow> texts | Some n \<Rightarrow> texts @ [(''artifact_count'', PInt n)])
     in put_charts (project_history_artifacts (dict_get metadata ''visualizations'')) counted)"

text \<open>\<open>s[:n]\<close>, and \<open>s[-n:]\<close>, which is all of \<open>s\<close> for 0.\<close>

definition py_drop_to_last :: "int \<Rightarrow> 'a list \<Rightarrow> 'a list" where
  "py_drop_to_last n xs =
    (if n = 0 then xs else if 0 < n then drop (length xs - nat n) xs else drop (nat (- n)) xs)"

text \<open>\<open>isinstance(v, str)\<close>, \<open>isinstance(v, dict)\<close>: the value of the type, if it is one.\<close>

definition only_text :: "pyval \<Rightarrow> string option" where
  "only_text v = (case v of PStr s \<Rightarrow> Some s | _ \<Rightarrow> None)"

definition only_dict :: "pyval \<Rightarrow> pydict option" where
  "only_dict v = (case v of PDict d \<Rightarrow> Some d | _ \<Rightarrow> None)"

definition put_usecase :: "string option \<Rightarrow> pydict \<Rightarrow> pydict" where
  "put_usecase session_usecase d =
    (case session_usecase of
       Some u \<Rightarrow> if \<not> dict_has d ''usecase'' \<and> \<not> dict_has d ''mode'' then dict_set ''usecase'' (PStr u) d else d
     | None \<Rightarrow> d)"

definition history_metadata ::
  "session_history_settings \<Rightarrow> string \<Rightarrow> pydict option \<Rightarrow> string option \<Rightarrow> pydict list \<Rightarrow> pydict" where
  "history_metadata settings content raw session_usecase charts =
    (let m0 = [(''message_chars'', PInt (int (length content)))];
         m1 = (if int (length content) > shs_max_message_chars settings
               then m0 @ [(''content_truncated'', PBool True)] else m0);
         m2 = (case raw of None \<Rightarrow> m1 | Some d \<Rightarrow> dict_merge m1 (safe_message_metadata d))
     in put_charts charts (put_usecase session_usecase m2))"

text \<open>The charts of a message, or those of its metadata.\<close>

definition message_charts :: "pydict \<Rightarrow> pydict list" where
  "message_charts d =
    (let own = project_history_artifacts (dict_get d ''artifacts'')
     in case only_dict (dict_get d ''metadata'') of
          Some m \<Rightarrow> if own = [] then project_history_artifacts (dict_get m ''visualizations'') else own
        | None \<Rightarrow> own)"

definition project_message :: "session_history_settings \<Rightarrow> string option \<Rightarrow> pyval \<Rightarrow> history_message option" where
  "project_message settings session_usecase v =
    (case only_dict v of
       None \<Rightarrow> None
     | Some d \<Rightarrow>
         (case normalize_visible_role (dict_get d ''role'') (shs_include_system_messages settings)
                 (shs_include_tool_summaries settings) of
            None \<Rightarrow> None
          | Some role \<Rightarrow>
              (case only_text (dict_get d ''content'') of
                 None \<Rightarrow> None
               | Some content \<Rightarrow>
                   Some \<lparr>hm_role = role, hm_content = py_take (shs_max_message_chars settings) content,
                         hm_created_at = only_text (dict_get d ''created_at''), hm_artifacts = message_charts d,
                         hm_metadata = (if shs_include_metadata settings
                           then history_metadata settings content (only_dict (dict_get d ''metadata'')) session_usecase
                                  (message_charts d)
                           else [])\<rparr>)))"

text \<open>\<open>state.get("conversation", {}).get("messages", [])\<close>: a conversation that is no dictionary raises.\<close>

definition stored_messages :: "pydict \<Rightarrow> pyval list res" where
  "stored_messages state =
    (case map_of state ''conversation'' of
       None \<Rightarrow> Inr []
     | Some (PDict c) \<Rightarrow> Inr (sub_list c ''messages'')
     | Some _ \<Rightarrow> Inl AttributeError)"

definition project_session_history ::
  "string \<Rightarrow> string \<Rightarrow> pydict \<Rightarrow> int \<Rightarrow> session_history_settings \<Rightarrow> history_result res" where
  "project_session_history trace_id session_id state limit settings =
    try_bind (stored_messages state) (\<lambda>messages.
    let usecase = read_optional_text (dict_get (sub_dict state ''metadata'') ''usecase'');
        projected = List.map_filter (project_message settings usecase) messages;
        bounded = py_drop_to_last limit projected
    in Inr \<lparr>hr_trace_id = trace_id, hr_session_id = session_id, hr_messages = bounded,
            hr_truncated = (length bounded < length projected),
            hr_metadata = [(''limit'', PInt limit), (''returned_count'', PInt (int (length bounded)))]\<rparr>)"

section \<open>What is shown\<close>

text \<open>A safe chart: the fourteen fields of a descriptor, the rows and mappings flat and bounded.\<close>

definition flat_dict :: "nat \<Rightarrow> pydict \<Rightarrow> bool" where
  "flat_dict n d \<longleftrightarrow> length d \<le> n \<and> list_all (\<lambda>(k, v). scalar_value v = Some v) d"

definition safe_rows :: "pyval \<Rightarrow> bool" where
  "safe_rows v \<longleftrightarrow>
    (case v of
       PNone \<Rightarrow> True
     | PList rows \<Rightarrow> length rows \<le> max_history_rows
         \<and> list_all (\<lambda>r. case r of PDict d \<Rightarrow> flat_dict max_history_row_fields d | _ \<Rightarrow> False) rows
     | _ \<Rightarrow> False)"

definition chart_fields :: "string list" where
  "chart_fields =
    [''artifact_id'', ''type'', ''chart_type'', ''title'', ''description'', ''renderer'', ''spec_version'', ''data_mode'',
     ''data'', ''data_ref'', ''encoding'', ''options'', ''warnings'', ''metadata'']"

definition safe_chart :: "pydict \<Rightarrow> bool" where
  "safe_chart d \<longleftrightarrow> List.map fst d = chart_fields \<and> safe_rows (dict_get d ''data'')
    \<and> (\<forall>k \<in> {''options'', ''metadata''}. flat_dict 16 (sub_dict d k))
    \<and> length (sub_list d ''warnings'') \<le> max_history_warnings"

definition visible_role :: "session_history_settings \<Rightarrow> string \<Rightarrow> bool" where
  "visible_role s r \<longleftrightarrow> r \<in> {''user'', ''assistant''} \<or> r = ''system'' \<and> shs_include_system_messages s
    \<or> r = ''tool'' \<and> shs_include_tool_summaries s"

definition history_keys :: "string list" where
  "history_keys = [''message_chars'', ''content_truncated'', ''artifact_count'', ''visualizations''] @ safe_history_keys"

definition safe_message :: "session_history_settings \<Rightarrow> history_message \<Rightarrow> bool" where
  "safe_message s m \<longleftrightarrow> visible_role s (hm_role m) \<and> int (length (hm_content m)) \<le> shs_max_message_chars s
    \<and> length (hm_artifacts m) \<le> max_history_visualizations \<and> list_all safe_chart (hm_artifacts m)
    \<and> fst ` set (hm_metadata m) \<subseteq> set history_keys"

lemma scalar_value_flat: "scalar_value v = Some x \<Longrightarrow> scalar_value x = Some x"
proof (cases v)
  case (PStr s)
  assume "scalar_value v = Some x"
  with PStr obtain t where t: "read_optional_text (PStr s) = Some t" "x = PStr t" by (auto simp: scalar_value_def)
  from read_optional_text_normal [OF t(1)] show ?thesis
    by (simp add: t(2) scalar_value_def read_optional_text_def Let_def)
qed (auto simp: scalar_value_def)

lemma length_dict_set: "length (dict_set k v d) \<le> Suc (length d)"
  unfolding dict_set_def by (induction d) auto

lemma project_items_flat:
  assumes "list_all (\<lambda>(k, v). scalar_value v = Some v) acc"
  shows "list_all (\<lambda>(k, v). scalar_value v = Some v) (project_items scalar_value items acc)
    \<and> length (project_items scalar_value items acc) \<le> length items + length acc"
  using assms
proof (induction scalar_value items acc rule: project_items.induct)
  case (2 k v items acc)
  let ?acc = "case (read_optional_text (PStr k), scalar_value v) of (Some key, Some x) \<Rightarrow> dict_set key x acc | _ \<Rightarrow> acc"
  have "list_all (\<lambda>(k, v). scalar_value v = Some v) ?acc"
    using 2(2) scalar_value_flat by (fastforce simp: list_all_iff dest: dict_set_mem split: option.split)
  moreover have "length ?acc \<le> Suc (length acc)" using length_dict_set by (auto split: option.split intro: le_SucI)
  ultimately show ?case using 2(1) by fastforce
qed simp

lemma flat_project: "n = m \<Longrightarrow> flat_dict m (project_items scalar_value (take n d) [])"
  using project_items_flat [of "[]" "take n d"] by (simp add: flat_dict_def)

lemma flat_scalar_mapping: "flat_dict 16 (project_scalar_mapping v)"
  by (cases v) (simp_all add: project_scalar_mapping_def flat_project, simp_all add: flat_dict_def)

lemma length_as_mappings: "length (as_mappings xs) \<le> length xs"
  by (induction xs) (auto simp: as_mappings_def List.map_filter_simps split: pyval.splits)

lemma length_map_filter: "length (List.map_filter f xs) \<le> length xs"
  by (simp add: List.map_filter_def)

lemma safe_data_rows:
  assumes "project_data_rows v = Some rows"
  shows "safe_rows (PList (List.map PDict rows))"
proof -
  from assms obtain xs where "rows = List.map project_row (as_mappings (take max_history_rows xs))"
    by (auto simp: project_data_rows_def split: pyval.splits)
  moreover have "length (as_mappings (take max_history_rows xs)) \<le> max_history_rows"
    using length_as_mappings [of "take max_history_rows xs"] by simp
  ultimately show ?thesis by (auto simp: safe_rows_def list_all_iff project_row_def intro: flat_project)
qed

lemma chart_payload_safe: "chart_payload item = Some (data, ref) \<Longrightarrow> safe_rows data"
  using safe_data_rows
  by (auto simp: chart_payload_def Let_def safe_rows_def split: option.splits if_splits)

lemma project_artifact_safe:
  assumes "project_history_artifact item = Some d"
  shows "safe_chart d"
proof -
  from assms obtain i t0 c t s0 r v m data ref enc where
    p: "chart_payload item = Some (data, ref)"
    and d: "d = [(''artifact_id'', PStr i), (''type'', PStr t0), (''chart_type'', PStr c), (''title'', PStr t),
      (''description'', PStr s0), (''renderer'', PStr r), (''spec_version'', PStr v), (''data_mode'', m), (''data'', data),
      (''data_ref'', ref), (''encoding'', PDict enc), (''options'', PDict (project_scalar_mapping (dict_get item ''options''))),
      (''warnings'', py_strs_list (project_text_list (dict_get item ''warnings'') max_history_warnings)),
      (''metadata'', PDict (project_scalar_mapping (dict_get item ''metadata'')))]"
    unfolding project_history_artifact_def Let_def by (auto split: option.splits if_splits)
  have w: "length (project_text_list x n) \<le> n" for x n
    by (cases x) (auto simp: project_text_list_def intro: order.trans [OF length_map_filter])
  show ?thesis
    using chart_payload_safe [OF p] flat_scalar_mapping w
    unfolding d safe_chart_def chart_fields_def by (simp add: sub_dict_def sub_list_def py_strs_list_def)
qed

lemma project_artifacts_safe:
  "length (project_history_artifacts v) \<le> max_history_visualizations" "list_all safe_chart (project_history_artifacts v)"
proof -
  have "length (List.map_filter f (as_mappings (take n xs))) \<le> n" for f :: "pydict \<Rightarrow> pydict option" and n xs
    using length_map_filter [of f "as_mappings (take n xs)"] length_as_mappings [of "take n xs"] by simp
  then show "length (project_history_artifacts v) \<le> max_history_visualizations"
    by (simp add: project_history_artifacts_def split: option.split)
  show "list_all safe_chart (project_history_artifacts v)"
    by (auto simp: project_history_artifacts_def list_all_iff List.map_filter_def project_artifact_safe split: option.split)
qed

lemma keys_put_charts: "fst ` set (put_charts cs d) \<subseteq> insert ''visualizations'' (fst ` set d)"
  by (auto simp: put_charts_def fst_dict_set)

lemma keys_dict_merge: "fst ` set (dict_merge d e) = fst ` set d \<union> fst ` set e"
proof (induction e arbitrary: d)
  case (Cons x e)
  obtain k v where x: "x = (k, v)" by force
  have "dict_merge d (x # e) = dict_merge (dict_set k v d) e" by (simp add: dict_merge_def x)
  then show ?case by (simp add: Cons.IH fst_dict_set x)
qed (simp add: dict_merge_def)

lemma keys_safe_metadata: "fst ` set (safe_message_metadata d) \<subseteq> set history_keys"
proof -
  have "fst ` set (List.map_filter (\<lambda>k. case read_optional_text (dict_get d k) of None \<Rightarrow> None | Some t \<Rightarrow> Some (k, PStr t)) ks)
      \<subseteq> set ks" for ks
    by (induction ks) (auto simp: List.map_filter_simps split: option.splits)
  note texts = this [of safe_history_keys]
  show ?thesis
    unfolding safe_message_metadata_def Let_def
    by (rule order.trans [OF keys_put_charts]) (use texts in \<open>auto simp: history_keys_def split: option.split\<close>)
qed

lemma keys_put_usecase: "fst ` set (put_usecase u d) \<subseteq> insert ''usecase'' (fst ` set d)"
  by (cases u) (simp_all add: put_usecase_def fst_dict_set subset_insertI)

lemma keys_history_metadata: "fst ` set (history_metadata s content raw u cs) \<subseteq> set history_keys"
proof -
  let ?m0 = "[(''message_chars'', PInt (int (length content)))]"
  let ?m1 = "if int (length content) > shs_max_message_chars s then ?m0 @ [(''content_truncated'', PBool True)] else ?m0"
  let ?m2 = "case raw of None \<Rightarrow> ?m1 | Some d \<Rightarrow> dict_merge ?m1 (safe_message_metadata d)"
  have m1: "fst ` set ?m1 \<subseteq> set history_keys" by (simp add: history_keys_def)
  have m2: "fst ` set ?m2 \<subseteq> set history_keys"
  proof (cases raw)
    case (Some d)
    then show ?thesis using m1 keys_safe_metadata [of d] by (simp only: keys_dict_merge option.case Un_subset_iff)
  qed (use m1 in \<open>simp only: option.case\<close>)
  have "''visualizations'' \<in> set history_keys" "''usecase'' \<in> set history_keys"
    by (simp_all add: history_keys_def safe_history_keys_def)
  then have "insert ''visualizations'' (insert ''usecase'' (fst ` set ?m2)) \<subseteq> set history_keys"
    using m2 by (simp only: insert_subset)
  moreover have "fst ` set (history_metadata s content raw u cs) \<subseteq> insert ''visualizations'' (insert ''usecase'' (fst ` set ?m2))"
    unfolding history_metadata_def Let_def
    by (rule order.trans [OF keys_put_charts insert_mono [OF keys_put_usecase]])
  ultimately show ?thesis by (rule order.trans [rotated])
qed

lemma role_visible:
  "normalize_visible_role v (shs_include_system_messages s) (shs_include_tool_summaries s) = Some r \<Longrightarrow> visible_role s r"
  by (auto simp: normalize_visible_role_def visible_role_def Let_def split: pyval.splits if_splits)

lemma length_py_take: "0 \<le> n \<Longrightarrow> int (length (py_take n xs)) \<le> n"
  by (simp add: py_take_def)

lemma message_charts_safe:
  "length (message_charts d) \<le> max_history_visualizations" "list_all safe_chart (message_charts d)"
  by (simp_all add: message_charts_def Let_def project_artifacts_safe split: option.split)

lemma project_message_safe:
  assumes "project_message s u v = Some m" "0 \<le> shs_max_message_chars s"
  shows "safe_message s m"
proof -
  from assms(1) obtain d content where
    *: "normalize_visible_role (dict_get d ''role'') (shs_include_system_messages s) (shs_include_tool_summaries s)
      = Some (hm_role m)" "hm_content m = py_take (shs_max_message_chars s) content" "hm_artifacts m = message_charts d"
    "hm_metadata m = (if shs_include_metadata s
      then history_metadata s content (only_dict (dict_get d ''metadata'')) u (message_charts d) else [])"
    by (auto simp: project_message_def split: option.splits)
  have "fst ` set (hm_metadata m) \<subseteq> set history_keys" unfolding *(4)
    by (cases "shs_include_metadata s") (simp_all only: if_True if_False keys_history_metadata list.set image_empty empty_subsetI)
  then show ?thesis
    using role_visible [OF *(1)] length_py_take [OF assms(2)]
    unfolding safe_message_def by (simp add: *(2,3) message_charts_safe)
qed

text \<open>C29. The history that a client reads is bounded and safe whatever the stored document holds: at most the asked-for
  number of messages, the last visible ones in order; each with a role that the settings show, at most the
  configured number of characters, at most eight charts made of flat, bounded parts, and metadata
  under the listed keys only.\<close>

theorem history_is_bounded_and_safe:
  assumes "project_session_history trace_id sid state limit settings = Inr r" "0 < limit"
    and "0 \<le> shs_max_message_chars settings"
  shows "int (length (hr_messages r)) \<le> limit \<and> list_all (safe_message settings) (hr_messages r)
    \<and> (\<exists>older messages. stored_messages state = Inr messages
        \<and> List.map_filter (project_message settings (read_optional_text (dict_get (sub_dict state ''metadata'') ''usecase''))) messages
          = older @ hr_messages r \<and> (hr_truncated r \<longleftrightarrow> older \<noteq> []))"
proof -
  let ?f = "project_message settings (read_optional_text (dict_get (sub_dict state ''metadata'') ''usecase''))"
  from assms(1) obtain messages where m: "stored_messages state = Inr messages"
    and r: "hr_messages r = py_drop_to_last limit (List.map_filter ?f messages)"
      "hr_truncated r \<longleftrightarrow> length (hr_messages r) < length (List.map_filter ?f messages)"
    by (auto simp: project_session_history_def Let_def)
  let ?all = "List.map_filter ?f messages" and ?n = "length (List.map_filter ?f messages) - nat limit"
  have last: "hr_messages r = drop ?n ?all" using r(1) assms(2) by (simp add: py_drop_to_last_def)
  have "list_all (safe_message settings) ?all"
    using project_message_safe [OF _ assms(3)] by (auto simp: list_all_iff List.map_filter_def)
  then have "list_all (safe_message settings) (hr_messages r)"
    unfolding last list_all_iff by (meson in_set_dropD)
  moreover have "?all = take ?n ?all @ hr_messages r" by (simp add: last)
  moreover have "hr_truncated r \<longleftrightarrow> take ?n ?all \<noteq> []" using r(2) last assms(2) by auto
  moreover have "int (length (hr_messages r)) \<le> limit" using assms(2) by (simp add: last)
  ultimately show ?thesis using m by metis
qed

definition sample_history_settings :: session_history_settings where
  "sample_history_settings =
    \<lparr>shs_enabled = True, shs_include_tool_summaries = False, shs_include_system_messages = False,
     shs_include_metadata = True, shs_max_message_chars = 4, shs_redaction_enabled = True\<rparr>"

definition sample_conversation :: pydict where
  "sample_conversation =
    [(''conversation'', PDict [(''messages'', PList
       [PDict [(''role'', PStr ''system''), (''content'', PStr ''secret'')],
        PDict [(''role'', PStr ''User''), (''content'', PStr ''good morning''), (''metadata'', PDict [(''prompt'', PStr ''x'')])],
        PDict [(''role'', PStr ''assistant''), (''content'', PStr ''hi'')]])])]"

theorem history_is_bounded_and_safe_witness:
  "\<exists>r. project_session_history ''t'' ''s'' sample_conversation 1 sample_history_settings = Inr r
    \<and> int (length (hr_messages r)) \<le> 1 \<and> list_all (safe_message sample_history_settings) (hr_messages r)"
proof -
  obtain r where r: "project_session_history ''t'' ''s'' sample_conversation 1 sample_history_settings = Inr r"
    by (simp add: project_session_history_def stored_messages_def sample_conversation_def Let_def)
  from history_is_bounded_and_safe [OF r] r show ?thesis by (simp add: sample_history_settings_def)
qed

end
