(* ===== verification/Conversation_Window.thy ===== *)
theory Conversation_Window
  imports Session_History Orch_Config Memory_Models
begin

text \<open>
  The part of the conversation that a prompt is given (\<open>orchestration/conversation_context.py\<close>): the last visible
  messages within the limits, and the stored summary of those before.
\<close>

section \<open>Visible messages\<close>

definition message_request_id :: "conv_message \<Rightarrow> string option" where
  "message_request_id m =
    (case cm_request_id m of
       Some i \<Rightarrow> Some i
     | None \<Rightarrow> read_optional_text (dict_get (cm_metadata m) ''request_id''))"

definition is_current_user_message :: "string option \<Rightarrow> conv_message \<Rightarrow> bool" where
  "is_current_user_message request_id m \<longleftrightarrow>
    request_id \<noteq> None \<and> lower (strip (cm_role m)) = ''user'' \<and> message_request_id m = request_id"

text \<open>The constructor raises only for a blank role, and the roles that pass are not blank.\<close>

definition visible_message :: "conversation_context_settings \<Rightarrow> conv_message \<Rightarrow> conv_message option" where
  "visible_message s m =
    (case normalize_visible_role (PStr (cm_role m)) False False of
       None \<Rightarrow> None
     | Some role \<Rightarrow>
        if role = ''assistant'' \<and> \<not> cc_include_assistant_messages s then None
        else (case new_conv_message (m\<lparr>cm_role := role\<rparr>) of Inl e \<Rightarrow> None | Inr n \<Rightarrow> Some n))"

definition visible_messages :: "conversation_context_settings \<Rightarrow> string option \<Rightarrow> conv_message list \<Rightarrow> conv_message list" where
  "visible_messages s request_id ms =
    List.map_filter (visible_message s) (filter (\<lambda>m. \<not> is_current_user_message request_id m) ms)"

section \<open>Limits\<close>

definition content_chars :: "conv_message list \<Rightarrow> int" where
  "content_chars ms = sum_list (List.map (\<lambda>m. int (length (cm_content m))) ms)"

definition apply_message_limit :: "int \<Rightarrow> conv_message list \<Rightarrow> conv_message list \<times> bool" where
  "apply_message_limit n ms =
    (if n \<le> 0 then ([], ms \<noteq> [])
     else if int (length ms) \<le> n then (ms, False)
     else (py_drop_to_last n ms, True))"

text \<open>The loop that drops the oldest message while there is more than one and the text is too long.\<close>

fun drop_oldest :: "int \<Rightarrow> conv_message list \<Rightarrow> conv_message list" where
  "drop_oldest n (m # m' # ms) =
    (if content_chars (m # m' # ms) > n then drop_oldest n (m' # ms) else m # m' # ms)"
| "drop_oldest n ms = ms"

definition cut_content :: "int \<Rightarrow> string \<Rightarrow> string" where
  "cut_content n s = (let t = truncate_memory_text n s in if t = [] then take (nat n) s else t)"

definition apply_char_limit :: "int \<Rightarrow> conv_message list \<Rightarrow> conv_message list \<times> bool" where
  "apply_char_limit n ms =
    (if n \<le> 0 then ([], ms \<noteq> [])
     else if content_chars ms \<le> n then (ms, False)
     else
       (let bounded = drop_oldest n ms
        in if bounded = [] then ([], True)
           else if content_chars bounded \<le> n then (bounded, True)
           else
             (let m = last bounded
              in (case new_conv_message (m\<lparr>cm_content := cut_content n (cm_content m)\<rparr>) of
                    Inl e \<Rightarrow> butlast bounded | Inr x \<Rightarrow> butlast bounded @ [x], True))))"

definition apply_limits :: "conversation_context_settings \<Rightarrow> conv_message list \<Rightarrow> conv_message list \<times> bool" where
  "apply_limits s ms =
    (let (by_count, t1) = apply_message_limit (cc_max_messages s) ms;
         (by_chars, t2) = apply_char_limit (cc_max_chars s) by_count
     in (by_chars, t1 \<or> t2))"

section \<open>Summaries\<close>

definition should_use_summary :: "conversation_context_settings \<Rightarrow> int \<Rightarrow> bool \<Rightarrow> bool" where
  "should_use_summary s visible truncated \<longleftrightarrow>
    0 < visible \<and> (truncated \<or> cc_summary_threshold_messages s \<le> visible)"

definition summary_role_label :: "string \<Rightarrow> string option" where
  "summary_role_label role = map_of [(''user'', ''User''), (''assistant'', ''Assistant'')] (lower (strip role))"

definition summary_line :: "conv_message \<Rightarrow> string option" where
  "summary_line m =
    (case (summary_role_label (cm_role m), norm_text (Some (cm_content m))) of
       (Some label, Some content) \<Rightarrow> Some (''- '' @ label @ '': '' @ content)
     | _ \<Rightarrow> None)"

fun summary_lines :: "int \<Rightarrow> conv_message list \<Rightarrow> string list \<Rightarrow> int \<Rightarrow> string list" where
  "summary_lines n [] lines used = lines"
| "summary_lines n (m # ms) lines used =
    (case summary_line m of
       None \<Rightarrow> summary_lines n ms lines used
     | Some line \<Rightarrow>
        (let separator = (if lines = [] then 0 else 1);
             total = used + separator + int (length line);
             remaining = n - used - separator
         in if total \<le> n then summary_lines n ms (lines @ [line]) total
            else if remaining \<le> 8 then lines
            else lines @ [cut_content remaining line]))"

definition summary_text :: "int \<Rightarrow> conv_message list \<Rightarrow> string option" where
  "summary_text n ms =
    (if n \<le> 0 \<or> ms = [] then None
     else (case summary_lines n ms [] 0 of [] \<Rightarrow> None | lines \<Rightarrow> Some (join [CHR 0x0A] lines)))"

definition session_summary_key :: string where
  "session_summary_key = ''session_summary''"

definition remove_summary :: "pydict \<Rightarrow> pydict" where
  "remove_summary state =
    (case dict_get state ''metadata'' of
       PDict md \<Rightarrow> dict_set ''metadata'' (PDict (dict_pop session_summary_key md)) state
     | _ \<Rightarrow> state)"

definition state_session_id :: "pydict \<Rightarrow> string" where
  "state_session_id state =
    (case dict_get state ''session_id'' of PStr s \<Rightarrow> if strip s = [] then ''session'' else s | _ \<Rightarrow> ''session'')"

definition refresh_session_summary :: "conversation_context_settings \<Rightarrow> string option \<Rightarrow> pydict \<Rightarrow> pydict" where
  "refresh_session_summary s updated_at state =
    (if \<not> cc_enabled s then remove_summary state
     else
       (let visible = visible_messages s None (wf_messages (snapshot_from_document (state_session_id state) state None));
            (bounded, truncated) = apply_limits s visible
        in if \<not> should_use_summary s (int (length visible)) truncated then remove_summary state
           else
             (let source = take (length visible - length bounded) visible
              in case summary_text (cc_summary_max_chars s) source of
                   None \<Rightarrow> remove_summary state
                 | Some t \<Rightarrow>
                     change_section ''metadata''
                       (dict_set session_summary_key (PDict
                          [(''text'', PStr t), (''summary_message_count'', PInt (int (length source))),
                           (''visible_message_count'', PInt (int (length visible))), (''updated_at'', py_opt_str updated_at),
                           (''mode'', PStr ''deterministic_rollup'')])) state)))"

section \<open>The window\<close>

record context_window =
  cw_enabled :: bool
  cw_messages :: "conv_message list"
  cw_session_summary :: "string option"
  cw_session_summary_used :: bool
  cw_truncated :: bool
  cw_current_turn_deduped :: bool
  cw_visible_message_count :: int

definition plain_window :: "bool \<Rightarrow> context_window" where
  "plain_window enabled =
    \<lparr>cw_enabled = enabled, cw_messages = [], cw_session_summary = None, cw_session_summary_used = False,
     cw_truncated = False, cw_current_turn_deduped = False, cw_visible_message_count = 0\<rparr>"

definition resolve_session_summary ::
  "state_snapshot \<Rightarrow> conversation_context_settings \<Rightarrow> int \<Rightarrow> bool \<Rightarrow> string option" where
  "resolve_session_summary state s visible truncated =
    (if \<not> should_use_summary s visible truncated then None
     else read_optional_text (dict_get (sub_dict (wf_metadata state) session_summary_key) ''text''))"

definition project_context_window ::
  "state_snapshot option \<Rightarrow> conversation_context_settings \<Rightarrow> string option \<Rightarrow> context_window" where
  "project_context_window snapshot s request_id =
    (if \<not> cc_enabled s then plain_window False
     else case snapshot of
       None \<Rightarrow> plain_window True
     | Some state \<Rightarrow>
        (let visible = visible_messages s request_id (wf_messages state);
             (bounded, truncated) = apply_limits s visible;
             summary = resolve_session_summary state s (int (length visible)) truncated
         in \<lparr>cw_enabled = True, cw_messages = bounded, cw_session_summary = summary,
             cw_session_summary_used = (summary \<noteq> None), cw_truncated = truncated,
             cw_current_turn_deduped = (length visible \<noteq> length (wf_messages state)),
             cw_visible_message_count = int (length visible)\<rparr>))"

section \<open>Bounds\<close>

lemma normalize_text_shorter: "length (normalize_text s) \<le> max (length s) 8002" "length s \<le> 8000 \<Longrightarrow> length (normalize_text s) \<le> length s"
proof -
  show "length s \<le> 8000 \<Longrightarrow> length (normalize_text s) \<le> length s"
    using le_trans [OF length_strip_le [of s]] by (simp add: normalize_text_def Let_def max_text_chars_def)
  have "length (rstrip (take 7999 (strip s))) \<le> 7999" using length_rstrip [of "take 7999 (strip s)"] by simp
  then show "length (normalize_text s) \<le> max (length s) 8002"
    using length_strip_le [of s] by (cases "length (strip s) \<le> 8000") (auto simp: normalize_text_def Let_def max_text_chars_def)
qed

lemma cut_content_length: "0 < n \<Longrightarrow> int (length (cut_content n s)) \<le> n"
  using truncated_length [of n s] by (auto simp: cut_content_def Let_def)

lemma new_conv_message_fields:
  assumes "new_conv_message m = Inr n"
  shows "cm_content n = normalize_text (cm_content m)" "cm_role n = normalize_text (cm_role m)"
  using assms by (auto simp: new_conv_message_def required_identifier_def Let_def split: if_splits)

lemma length_drop_oldest: "length (drop_oldest n ms) \<le> length ms"
  by (induction n ms rule: drop_oldest.induct) (auto split: if_splits)

lemma set_drop_oldest: "set (drop_oldest n ms) \<subseteq> set ms"
  by (induction n ms rule: drop_oldest.induct) (auto split: if_splits)

lemma drop_oldest_single: "content_chars (drop_oldest n ms) \<le> n \<or> length (drop_oldest n ms) \<le> 1"
  by (induction n ms rule: drop_oldest.induct) auto

definition char_bound :: "int \<Rightarrow> int" where
  "char_bound n = (if n \<le> 8000 then max 0 n else max n 8002)"

lemma char_limit_bound:
  "content_chars (fst (apply_char_limit n ms)) \<le> char_bound n \<and> length (fst (apply_char_limit n ms)) \<le> length ms"
proof (cases "n \<le> 0 \<or> content_chars ms \<le> n \<or> drop_oldest n ms = [] \<or> content_chars (drop_oldest n ms) \<le> n")
  case True
  then show ?thesis
    using length_drop_oldest [of n ms] by (auto simp: apply_char_limit_def Let_def char_bound_def content_chars_def)
next
  case False
  then obtain m where m: "drop_oldest n ms = [m]"
    using drop_oldest_single [of n ms] by (cases "drop_oldest n ms") auto
  let ?new = "new_conv_message (m\<lparr>cm_content := cut_content n (cm_content m)\<rparr>)"
  have out: "fst (apply_char_limit n ms) = (case ?new of Inl e \<Rightarrow> [] | Inr x \<Rightarrow> [x])"
    using False by (simp add: apply_char_limit_def Let_def m split: sum.split)
  have len: "1 \<le> length ms" using length_drop_oldest [of n ms] m by simp
  show ?thesis
  proof (cases ?new)
    case (Inl e)
    with out show ?thesis by (simp add: content_chars_def char_bound_def max_def)
  next
    case (Inr x)
    have c: "int (length (cut_content n (cm_content m))) \<le> n" using False cut_content_length by simp
    have "cm_content x = normalize_text (cut_content n (cm_content m))" using new_conv_message_fields(1) [OF Inr] by simp
    then have "int (length (cm_content x)) \<le> char_bound n"
      using c normalize_text_shorter [of "cut_content n (cm_content m)"] by (auto simp: char_bound_def)
    with out Inr len show ?thesis by (simp add: content_chars_def)
  qed
qed

lemma message_limit_bound: "int (length (fst (apply_message_limit n ms))) \<le> max 0 n"
  by (auto simp: apply_message_limit_def py_drop_to_last_def)

lemma limits_bound:
  "content_chars (fst (apply_limits s ms)) \<le> char_bound (cc_max_chars s)
   \<and> int (length (fst (apply_limits s ms))) \<le> max 0 (cc_max_messages s)"
proof -
  let ?by = "fst (apply_message_limit (cc_max_messages s) ms)"
  have "fst (apply_limits s ms) = fst (apply_char_limit (cc_max_chars s) ?by)"
    by (simp add: apply_limits_def Let_def split_beta)
  moreover have "int (length (fst (apply_char_limit (cc_max_chars s) ?by))) \<le> max 0 (cc_max_messages s)"
    using char_limit_bound [of "cc_max_chars s" ?by] message_limit_bound [of "cc_max_messages s" ms] by linarith
  ultimately show ?thesis using char_limit_bound [of "cc_max_chars s" ?by] by (simp only:)
qed

definition window_role :: "conversation_context_settings \<Rightarrow> string \<Rightarrow> bool" where
  "window_role s r \<longleftrightarrow> r = ''user'' \<or> r = ''assistant'' \<and> cc_include_assistant_messages s"

lemma role_texts_all:
  "normalize_text ''user'' = ''user''
   \<and> normalize_text ''assistant'' = ''assistant''"
  by code_simp

lemmas role_texts = parts2 [OF role_texts_all]

lemma visible_message_role:
  assumes "visible_message s m = Some n"
  shows "window_role s (cm_role n)"
proof -
  from assms obtain role where r: "normalize_visible_role (PStr (cm_role m)) False False = Some role"
    "role = ''assistant'' \<longrightarrow> cc_include_assistant_messages s" "new_conv_message (m\<lparr>cm_role := role\<rparr>) = Inr n"
    by (auto simp: visible_message_def split: option.splits if_splits sum.splits)
  from r(1) have "role = ''user'' \<or> role = ''assistant''"
    by (auto simp: normalize_visible_role_def Let_def split: if_splits)
  with r(2) new_conv_message_fields(2) [OF r(3)] show ?thesis by (auto simp: window_role_def role_texts)
qed

lemma limits_role:
  assumes "\<forall>m \<in> set ms. window_role s (cm_role m)" "m \<in> set (fst (apply_limits s ms))"
  shows "window_role s (cm_role m)"
proof -
  let ?by = "fst (apply_message_limit (cc_max_messages s) ms)"
  have kept: "\<forall>m \<in> set ?by. window_role s (cm_role m)"
    using assms(1) by (auto simp: apply_message_limit_def py_drop_to_last_def dest: in_set_dropD)
  have m: "m \<in> set (fst (apply_char_limit (cc_max_chars s) ?by))"
    using assms(2) by (simp add: apply_limits_def Let_def split_beta)
  let ?d = "drop_oldest (cc_max_chars s) ?by"
  have "m \<in> set ?by \<or> m \<in> set ?d
    \<or> (?d \<noteq> [] \<and> (\<exists>t. new_conv_message ((last ?d)\<lparr>cm_content := t\<rparr>) = Inr m))"
    using m by (auto simp: apply_char_limit_def Let_def dest: in_set_butlastD split: if_splits sum.splits)
  then show ?thesis
  proof (elim disjE conjE exE)
    fix t assume d: "?d \<noteq> []" and t: "new_conv_message ((last ?d)\<lparr>cm_content := t\<rparr>) = Inr m"
    have "window_role s (cm_role (last ?d))" using kept set_drop_oldest d last_in_set by blast
    with new_conv_message_fields(2) [OF t] show ?thesis by (auto simp: window_role_def role_texts)
  qed (use kept set_drop_oldest in blast)+
qed

text \<open>C30. The conversation that a prompt is given stays within its limits: at most the configured number of messages,
  only of the user and, if configured, of the assistant, whose texts have together at most the configured number
  of characters (a limit above 8000 can be exceeded by the two characters that the dots of a cut text add), and nothing of the
  message of the current turn.\<close>

theorem context_window_is_bounded:
  assumes "cc_enabled s"
  shows "int (length (cw_messages (project_context_window (Some state) s request_id))) \<le> max 0 (cc_max_messages s)
    \<and> content_chars (cw_messages (project_context_window (Some state) s request_id)) \<le> char_bound (cc_max_chars s)
    \<and> list_all (\<lambda>m. window_role s (cm_role m)) (cw_messages (project_context_window (Some state) s request_id))
    \<and> cw_messages (project_context_window
          (Some (state\<lparr>wf_messages := filter (\<lambda>m. \<not> is_current_user_message request_id m) (wf_messages state)\<rparr>)) s request_id)
      = cw_messages (project_context_window (Some state) s request_id)"
proof -
  let ?v = "visible_messages s request_id (wf_messages state)"
  have w: "cw_messages (project_context_window (Some state) s request_id) = fst (apply_limits s ?v)"
    using assms by (simp add: project_context_window_def Let_def split_beta)
  have "\<forall>m \<in> set ?v. window_role s (cm_role m)"
    by (auto simp: visible_messages_def List.map_filter_def visible_message_role)
  then have "list_all (\<lambda>m. window_role s (cm_role m)) (fst (apply_limits s ?v))"
    using limits_role by (fastforce simp: list_all_iff)
  moreover have "visible_messages s request_id (filter (\<lambda>m. \<not> is_current_user_message request_id m) (wf_messages state)) = ?v"
    by (simp add: visible_messages_def)
  ultimately show ?thesis
    using limits_bound [of s ?v] assms
    by (simp add: w) (simp add: project_context_window_def Let_def split_beta resolve_session_summary_def)
qed

lemma length_join_snoc:
  "length (join sep (xs @ [x])) = (if xs = [] then length x else length (join sep xs) + length sep + length x)"
  by (induction sep xs rule: join.induct) auto

lemma summary_lines_bound:
  assumes "used = int (length (join [CHR 0x0A] lines))" "used \<le> n"
  shows "int (length (join [CHR 0x0A] (summary_lines n ms lines used))) \<le> n"
  using assms
proof (induction n ms lines used rule: summary_lines.induct)
  case (2 n m ms lines used)
  show ?case
  proof (cases "summary_line m")
    case None
    with 2 show ?thesis by simp
  next
    case (Some line)
    let ?sep = "if lines = [] then 0 else 1 :: int"
    have snoc: "int (length (join [CHR 0x0A] (lines @ [x]))) = used + ?sep + int (length x)" for x
      using 2(3) by (simp add: length_join_snoc)
    show ?thesis
    proof (cases "used + ?sep + int (length line) \<le> n")
      case True
      then have "summary_lines n (m # ms) lines used = summary_lines n ms (lines @ [line]) (used + ?sep + int (length line))"
        using Some by (simp add: Let_def)
      moreover have "int (length (join [CHR 0x0A] (summary_lines n ms (lines @ [line]) (used + ?sep + int (length line))))) \<le> n"
        by (rule 2(2) [OF Some refl refl refl True snoc [symmetric] True])
      ultimately show ?thesis by (simp only:)
    next
      case False
      with Some 2(3,4) snoc [of "cut_content (n - used - ?sep) line"] cut_content_length [of "n - used - ?sep" line]
      show ?thesis by (auto simp: Let_def)
    qed
  qed
qed simp

text \<open>The summary that is stored for the messages before the window is never longer than configured.\<close>

theorem summary_is_bounded:
  assumes "summary_text n ms = Some t"
  shows "int (length t) \<le> n \<and> 0 < n"
proof -
  from assms have "0 < n" and t: "t = join [CHR 0x0A] (summary_lines n ms [] 0)"
    by (auto simp: summary_text_def split: if_splits list.splits)
  with summary_lines_bound [of 0 "[]" n ms] show ?thesis by simp
qed

definition sample_context_settings :: conversation_context_settings where
  "sample_context_settings =
    \<lparr>cc_enabled = True, cc_mode = ''window'', cc_max_messages = 2, cc_max_chars = 10, cc_include_assistant_messages = True,
     cc_summary_threshold_messages = 24, cc_summary_max_chars = 20\<rparr>"

definition sample_snapshot :: state_snapshot where
  "sample_snapshot =
    \<lparr>wf_session_id = ''s-1'', wf_version = 1, wf_messages = [greeting, greeting, greeting], wf_active_usecase = None,
     wf_active_agent = None, wf_step_summaries = [], wf_pending_approvals = [], wf_metadata = []\<rparr>"

theorem context_window_is_bounded_witness:
  "cc_enabled sample_context_settings
    \<and> int (length (cw_messages (project_context_window (Some sample_snapshot) sample_context_settings None))) \<le> 2"
proof -
  have e: "cc_enabled sample_context_settings" "cc_max_messages sample_context_settings = 2"
    by (simp_all add: sample_context_settings_def)
  from context_window_is_bounded [OF e(1), of sample_snapshot None] e show ?thesis by simp
qed

theorem summary_is_bounded_witness: "\<exists>t. summary_text 20 [greeting] = Some t \<and> int (length t) \<le> 20"
proof -
  have "summary_text 20 [greeting] = Some ''- User: hello''" by code_simp
  from summary_is_bounded [OF this] this show ?thesis by blast
qed

end
