(* ===== verification/Session_State.thy ===== *)
theory Session_State
  imports Orch_Results Conversation_Window
begin

text \<open>
  The document of a session between two turns (\<open>session/lifecycle.py\<close>): what is repaired when it is loaded, the message
  of the user that is appended, and what the result of the turn, or its failure, writes into it.

  A document is a dictionary of JSON values in which no object occurs twice, so a section that is changed in place is
  stored back under its key.
\<close>

section \<open>Normalization\<close>

definition ensure_list :: "string \<Rightarrow> pydict \<Rightarrow> pydict" where
  "ensure_list key d = (case dict_get d key of PList xs \<Rightarrow> d | _ \<Rightarrow> dict_set key (PList []) d)"

definition normalize_session_state :: "pyval \<Rightarrow> string \<Rightarrow> string \<Rightarrow> pydict res" where
  "normalize_session_state v session_id now =
    try_bind (case v of PDict d \<Rightarrow> Inr d | _ \<Rightarrow> default_workflow_state session_id now) (\<lambda>d.
    Inr (ensure_dict ''metadata''
      (change_section ''last_result''
        (dict_setdefault ''llm_profile'' PNone \<circ> dict_setdefault ''strategy_name'' PNone \<circ> dict_setdefault ''agent_name'' PNone)
      (change_section ''workflow''
        (dict_setdefault ''pending_actions'' (PList []) \<circ> dict_setdefault ''scratch'' (PDict [])
         \<circ> dict_setdefault ''checkpoint'' PNone \<circ> dict_setdefault ''current_step'' PNone)
      (change_section ''conversation'' (ensure_list ''messages'')
        (dict_set ''session_id'' (PStr session_id) (dict_setdefault ''version'' (PInt 1) d)))))))"

definition session_messages :: "pydict \<Rightarrow> pyval list" where
  "session_messages state = sub_list (sub_dict state ''conversation'') ''messages''"

definition state_message_count :: "pydict \<Rightarrow> int" where
  "state_message_count state = int (length (session_messages state))"

section \<open>The message of the user\<close>

definition replace_separators :: "string \<Rightarrow> string" where
  "replace_separators s = List.map (\<lambda>c. if c \<in> {CHR ''-'', CHR ''/'', CHR '' ''} then CHR ''_'' else c) s"

definition normalize_transport_label :: "pyval \<Rightarrow> string option" where
  "normalize_transport_label v =
    (case read_optional_text v of
       None \<Rightarrow> None
     | Some n \<Rightarrow>
        (let token = replace_separators (casefold n)
         in if token \<in> {''request_response'', ''non_streaming''} then Some ''request/response''
            else if token = ''streaming'' then Some ''streaming'' else Some n))"

definition user_message_metadata :: "request_context \<Rightarrow> string \<Rightarrow> pydict" where
  "user_message_metadata rc usecase =
    (let request_id = read_optional_text (dict_get (rc_metadata rc) ''request_id'')
     in put_text ''transport'' (normalize_transport_label (dict_get (rc_metadata rc) ''transport''))
          (put_text ''trace_id'' (norm_text (rc_trace_id rc))
            (put_text ''turn_id'' request_id (put_text ''request_id'' request_id [(''usecase'', PStr usecase)]))))"

definition user_message :: "request_context \<Rightarrow> string \<Rightarrow> string \<Rightarrow> pydict" where
  "user_message rc usecase created_at =
    [(''role'', PStr ''user''), (''content'', PStr (rc_message rc)), (''created_at'', PStr created_at),
     (''metadata'', PDict (user_message_metadata rc usecase))]"

record prepared_session =
  pss_state :: pydict
  pss_loaded_empty :: bool
  pss_message_count_before :: int

definition prepare_state_for_chat ::
  "state_record \<Rightarrow> string \<Rightarrow> request_context \<Rightarrow> string \<Rightarrow> string \<Rightarrow> prepared_session res" where
  "prepare_state_for_chat rec session_id rc usecase created_at =
    try_bind (normalize_session_state (PDict (rec_state rec)) session_id created_at) (\<lambda>n.
    Inr \<lparr>pss_state =
           change_section ''metadata''
             (dict_set ''loaded_empty'' (PBool False) \<circ> dict_set ''usecase'' (PStr usecase)
              \<circ> dict_setdefault ''created_at'' (PStr created_at))
           (change_section ''workflow'' (dict_set ''current_step'' (PStr ''responding''))
           (change_section ''conversation'' (extend_list ''messages'' [PDict (user_message rc usecase created_at)]) n)),
         pss_loaded_empty = (rec_loaded_empty rec \<or> py_truth (dict_get (sub_dict n ''metadata'') ''loaded_empty'')),
         pss_message_count_before = state_message_count n\<rparr>)"

section \<open>The result of the turn\<close>

definition opt_entry :: "string \<Rightarrow> string option \<Rightarrow> pydict" where
  "opt_entry key v = (case v of None \<Rightarrow> [] | Some t \<Rightarrow> [(key, PStr t)])"

definition fallback_state_delta :: "orch_result \<Rightarrow> state_delta res" where
  "fallback_state_delta r =
    try_bind (new_conv_message
      \<lparr>cm_role = ''assistant'', cm_content = or_answer r, cm_created_at = None, cm_request_id = None, cm_turn_id = None,
       cm_trace_id = None,
       cm_metadata = [(''agent_name'', py_opt_str (or_agent_name r)), (''strategy_name'', PStr (or_strategy_name r)),
         (''llm_profile'', py_opt_str (or_llm_profile r))]\<rparr>) (\<lambda>m.
    Inr (new_state_delta
      \<lparr>de_append_messages = [m], de_set_active_usecase = Some (or_usecase r), de_set_active_agent = or_agent_name r,
       de_append_step_summaries = [], de_append_pending_approvals = [],
       de_metadata_patch = (''last_strategy'', PStr (or_strategy_name r)) # opt_entry ''last_agent'' (or_agent_name r)
         @ opt_entry ''last_llm_profile'' (or_llm_profile r)\<rparr>))"

text \<open>What an appended message gets that it does not have.\<close>

definition annotate_message ::
  "string \<Rightarrow> string option \<Rightarrow> string \<Rightarrow> string \<Rightarrow> string \<Rightarrow> replay_payload \<Rightarrow> pydict \<Rightarrow> pydict" where
  "annotate_message usecase transport trace_id request_id created_at replay message =
    (let m1 = (case dict_get message ''created_at'' of
                 PStr s \<Rightarrow> if strip s = [] then dict_set ''created_at'' (PStr created_at) message else message
               | _ \<Rightarrow> dict_set ''created_at'' (PStr created_at) message);
         assistant = (dict_get message ''role'' = PStr ''assistant'');
         m2 = (if assistant \<and> rp_artifacts replay \<noteq> [] \<and> \<not> (\<exists>xs. dict_get message ''artifacts'' = PList xs)
               then dict_set ''artifacts'' (PList (List.map PDict (rp_artifacts replay))) (ensure_dict ''metadata'' m1)
               else ensure_dict ''metadata'' m1);
         common = dict_setdefault ''trace_id'' (PStr trace_id) \<circ> dict_setdefault ''turn_id'' (PStr request_id)
           \<circ> dict_setdefault ''request_id'' (PStr request_id)
           \<circ> (case transport of None \<Rightarrow> (\<lambda>d. d) | Some t \<Rightarrow> dict_setdefault ''transport'' (PStr t))
           \<circ> dict_setdefault ''usecase'' (PStr usecase)
     in change_section ''metadata''
          (\<lambda>d. if assistant then fold (\<lambda>(k, v). dict_setdefault k v) (rp_metadata replay) (common d) else common d) m2)"

definition annotate_value ::
  "string \<Rightarrow> string option \<Rightarrow> string \<Rightarrow> string \<Rightarrow> string \<Rightarrow> replay_payload \<Rightarrow> pyval \<Rightarrow> pyval" where
  "annotate_value usecase transport trace_id request_id created_at replay v =
    (case v of PDict d \<Rightarrow> PDict (annotate_message usecase transport trace_id request_id created_at replay d) | _ \<Rightarrow> v)"

definition annotate_appended ::
  "nat \<Rightarrow> string \<Rightarrow> string option \<Rightarrow> string \<Rightarrow> string \<Rightarrow> string \<Rightarrow> replay_payload \<Rightarrow> pydict \<Rightarrow> pydict" where
  "annotate_appended n usecase transport trace_id request_id created_at replay state =
    (if n = 0 then state
     else change_section ''conversation''
       (\<lambda>c. let xs = sub_list c ''messages''; k = length xs - n
            in dict_set ''messages''
                 (PList (take k xs @ List.map (annotate_value usecase transport trace_id request_id created_at replay) (drop k xs))) c)
       state)"

definition lifecycle_pending_task_count :: "pydict \<Rightarrow> int" where
  "lifecycle_pending_task_count metadata =
    (case non_negative_int (dict_get metadata ''plan_step_count'') of
       None \<Rightarrow> 0
     | Some planned \<Rightarrow> max (planned - int_else (non_negative_int (dict_get metadata ''executed_step_count'')) 0) 0)"

definition text_list :: "pyval \<Rightarrow> string list" where
  "text_list v = (case v of PList xs \<Rightarrow> List.map_filter read_optional_text xs | _ \<Rightarrow> [])"

definition put_texts :: "string \<Rightarrow> string list \<Rightarrow> pydict \<Rightarrow> pydict" where
  "put_texts key ts d = (if ts = [] then d else d @ [(key, py_strs_list ts)])"

definition pending_task_flow :: "orch_result \<Rightarrow> string \<Rightarrow> string \<Rightarrow> string \<Rightarrow> string \<Rightarrow> pydict" where
  "pending_task_flow r response_mode request_id trace_id updated_at =
    (let md = or_metadata r;
         needs = py_truth (dict_get md ''needs_user_input'');
         d0 = put_text ''safe_goal'' (read_optional_text (dict_get md ''safe_goal''))
                (put_text ''request_kind'' (read_optional_text (dict_get md ''request_kind''))
                  [(''response_mode'', PStr response_mode), (''needs_user_input'', PBool needs),
                   (''pending_task_count'', PInt (lifecycle_pending_task_count md)),
                   (''generated_artifact_count'', PInt (int (length (or_artifacts r))))])
              @ [(''request_id'', PStr request_id), (''trace_id'', PStr trace_id), (''updated_at'', PStr updated_at)]
     in put_texts ''preferred_tools'' (text_list (dict_get md ''preferred_tools''))
          (put_texts ''preferred_agents'' (text_list (dict_get md ''preferred_agents''))
            (put_texts ''required_deterministic_computations'' (text_list (dict_get md ''required_deterministic_computations''))
              (put_texts ''plan_actions'' (text_list (dict_get md ''plan_actions''))
                (put_texts ''missing_required_inputs'' (text_list (dict_get md ''missing_required_inputs''))
                  (if needs then put_text ''clarification_question'' (norm_text (Some (or_answer r))) d0 else d0))))))"

definition update_task_flow :: "orch_result \<Rightarrow> string \<Rightarrow> string \<Rightarrow> string \<Rightarrow> pydict \<Rightarrow> pydict" where
  "update_task_flow r request_id trace_id updated_at md =
    (case read_optional_text (dict_get (or_metadata r) ''response_mode'') of
       None \<Rightarrow> dict_pop ''pending_task_flow'' md
     | Some mode \<Rightarrow> dict_set ''pending_task_flow'' (PDict (pending_task_flow r mode request_id trace_id updated_at)) md)"

record turn_identity =
  ti_trace_id :: string
  ti_request_id :: string
  ti_user_id_hash :: "string option"
  ti_client_host :: "string option"
  ti_user_agent :: "string option"

definition result_metadata :: "orch_result \<Rightarrow> turn_identity \<Rightarrow> string \<Rightarrow> pydict \<Rightarrow> pydict" where
  "result_metadata r who completed_at md =
    update_task_flow r (ti_request_id who) (ti_trace_id who) completed_at
      (set_opt_text ''last_user_agent'' (ti_user_agent who)
        (set_opt_text ''last_client_host'' (ti_client_host who)
          (set_opt_text ''user_id_hash'' (ti_user_id_hash who)
            (dict_merge md
              [(''trace_id'', PStr (ti_trace_id who)), (''request_id'', PStr (ti_request_id who)),
               (''usecase'', PStr (or_usecase r)), (''updated_at'', PStr completed_at), (''loaded_empty'', PBool False)]))))"

definition apply_orch_result ::
  "py_texts \<Rightarrow> pydict \<Rightarrow> orch_result \<Rightarrow> conversation_context_settings \<Rightarrow> replay_settings \<Rightarrow> request_context \<Rightarrow> turn_identity \<Rightarrow>
   string \<Rightarrow> string option \<Rightarrow> pydict res" where
  "apply_orch_result tx state r context_settings replay_s rc who completed_at endpoint =
    try_bind (case or_state_delta r of Some d \<Rightarrow> Inr d | None \<Rightarrow> fallback_state_delta r) (\<lambda>delta.
    let replay = build_history_replay tx (or_artifacts r) endpoint replay_s;
        annotated = annotate_appended (length (de_append_messages delta)) (or_usecase r)
          (normalize_transport_label (dict_get (rc_metadata rc) ''transport'')) (ti_trace_id who) (ti_request_id who)
          completed_at replay (apply_state_delta state delta);
        updated = change_section ''metadata'' (result_metadata r who completed_at)
          (dict_set ''last_result'' (PDict [(''agent_name'', py_opt_str (or_agent_name r)),
              (''strategy_name'', PStr (or_strategy_name r)), (''llm_profile'', py_opt_str (or_llm_profile r))])
            (change_section ''workflow'' (dict_set ''current_step'' (PStr ''answered'')) annotated))
    in Inr (refresh_session_summary context_settings (Some completed_at) updated))"

text \<open>\<open>mark_stream_interrupted\<close> and \<open>mark_stream_failed\<close>.\<close>

definition mark_stream :: "string \<Rightarrow> conversation_context_settings \<Rightarrow> string \<Rightarrow> pydict \<Rightarrow> pydict" where
  "mark_stream status s at state =
    refresh_session_summary s (Some at)
      (change_section ''workflow'' (dict_set ''current_step'' (PStr status))
        (change_section ''metadata'' (dict_set ''updated_at'' (PStr at) \<circ> dict_set ''stream_status'' (PStr status)) state))"

definition mark_stream_interrupted :: "conversation_context_settings \<Rightarrow> string \<Rightarrow> pydict \<Rightarrow> pydict" where
  "mark_stream_interrupted = mark_stream ''cancelled''"

definition mark_stream_failed :: "conversation_context_settings \<Rightarrow> string \<Rightarrow> pydict \<Rightarrow> pydict" where
  "mark_stream_failed = mark_stream ''failed''"

section \<open>What a turn does to the document\<close>

text \<open>A document in the shape the session service relies on.\<close>

definition has_dict :: "pydict \<Rightarrow> string \<Rightarrow> bool" where
  "has_dict d k \<longleftrightarrow> (case dict_get d k of PDict e \<Rightarrow> True | _ \<Rightarrow> False)"

definition session_shape :: "string \<Rightarrow> pydict \<Rightarrow> bool" where
  "session_shape session_id d \<longleftrightarrow> dict_get d ''session_id'' = PStr session_id
    \<and> list_all (has_dict d) [''conversation'', ''workflow'', ''last_result'', ''metadata'']
    \<and> (\<exists>xs. dict_get (sub_dict d ''conversation'') ''messages'' = PList xs)"

lemma has_dict_simps [simp]:
  "has_dict (dict_set k v d) k' \<longleftrightarrow> (if k' = k then (case v of PDict e \<Rightarrow> True | _ \<Rightarrow> False) else has_dict d k')"
  "has_dict (change_section k f d) k' \<longleftrightarrow> k' = k \<or> has_dict d k'"
  "has_dict (ensure_dict k d) k' \<longleftrightarrow> k' = k \<or> has_dict d k'"
  by (auto simp: has_dict_def change_section_def ensure_dict_def split: pyval.splits)

lemma dict_get_sections [simp]:
  "dict_get (change_section k f d) k' = (if k' = k then PDict (f (sub_dict d k)) else dict_get d k')"
  "k' \<noteq> k \<Longrightarrow> dict_get (ensure_dict k d) k' = dict_get d k'"
  by (auto simp: change_section_def ensure_dict_def split: pyval.splits)

lemma dict_get_setdefault [simp]:
  "dict_get (dict_setdefault k v d) k' = (if k' = k \<and> \<not> dict_has d k then v else dict_get d k')"
  by (auto simp: dict_get_def dict_has_def)

lemma sub_list_setdefault [simp]: "k \<noteq> k' \<Longrightarrow> sub_list (dict_setdefault k' v d) k = sub_list d k"
  by (simp add: sub_list_def)

lemma sub_dict_setdefault [simp]: "k \<noteq> k' \<Longrightarrow> sub_dict (dict_setdefault k' v d) k = sub_dict d k"
  by (simp add: sub_dict_def)

lemma ensure_list_messages [simp]:
  "sub_list (ensure_list k d) k = sub_list d k" "\<exists>xs. dict_get (ensure_list k d) k = PList xs"
  by (auto simp: ensure_list_def sub_list_def split: pyval.splits)

lemma sub_dict_other: "k' \<noteq> k \<Longrightarrow> sub_dict (dict_set k v d) k' = sub_dict d k'"
  by (simp add: sub_dict_def)

text \<open>C28. Whatever is stored for a session, a turn can start from it: the document it gets has the shape the service
  relies on, keeps every stored message in order and adds exactly the message of the user at the end.\<close>

theorem prepared_state_is_shaped:
  "\<exists>p. prepare_state_for_chat rec session_id rc usecase created_at = Inr p
    \<and> session_shape session_id (pss_state p)
    \<and> session_messages (pss_state p) = session_messages (rec_state rec) @ [PDict (user_message rc usecase created_at)]
    \<and> pss_message_count_before p = int (length (session_messages (rec_state rec)))"
  by (auto simp: prepare_state_for_chat_def normalize_session_state_def session_shape_def session_messages_def
      state_message_count_def extend_list_def sub_dict_other)

lemma dict_get_pop [simp]: "dict_get (dict_pop k d) k' = (if k' = k then PNone else dict_get d k')"
  by (simp add: dict_get_def)

lemma summary_sections:
  "k \<noteq> ''metadata'' \<Longrightarrow> dict_get (refresh_session_summary s t d) k = dict_get d k"
  "k \<noteq> session_summary_key \<Longrightarrow> dict_get (sub_dict (refresh_session_summary s t d) ''metadata'') k = dict_get (sub_dict d ''metadata'') k"
  by (auto simp: refresh_session_summary_def remove_summary_def Let_def sub_dict_def
      split: prod.splits option.splits pyval.splits)

lemma sub_dict_cong: "dict_get d k = dict_get e k \<Longrightarrow> sub_dict d k = sub_dict e k"
  by (simp add: sub_dict_def)

lemma result_metadata_owner:
  assumes "ti_user_id_hash who = Some h"
  shows "dict_get (result_metadata r who t md) ''user_id_hash'' = PStr h"
  using assms
  by (auto simp: result_metadata_def update_task_flow_def py_opt_str_def split: option.split)

text \<open>C27. The session belongs to whoever spoke last: after a turn of any user that has an identity the document names
  that user as its owner, whoever owned it before, and nothing in the turn compares the two.\<close>

theorem turn_takes_ownership:
  assumes "apply_orch_result tx state r context_settings replay_s rc who completed_at endpoint = Inr state'"
    and "ti_user_id_hash who = Some h"
  shows "dict_get (sub_dict state' ''metadata'') ''user_id_hash'' = PStr h"
proof -
  have "''user_id_hash'' \<noteq> session_summary_key" by (simp add: session_summary_key_def)
  then show ?thesis
    using assms result_metadata_owner [OF assms(2)]
    by (auto simp: apply_orch_result_def Let_def summary_sections split: option.splits)
qed

lemma annotate_appended_messages:
  "session_messages (annotate_appended n u t tr rq at replay d) =
    (let xs = session_messages d; k = length xs - n
     in take k xs @ List.map (annotate_value u t tr rq at replay) (drop k xs))"
  by (simp add: annotate_appended_def session_messages_def Let_def)

text \<open>The role and the text of an appended message stay what the delta says.\<close>

definition says :: "pyval \<Rightarrow> string \<Rightarrow> string \<Rightarrow> bool" where
  "says v role text \<longleftrightarrow> (\<exists>d. v = PDict d \<and> dict_get d ''role'' = PStr role \<and> dict_get d ''content'' = PStr text)"

lemma annotated_field:
  assumes "k \<notin> {''created_at'', ''artifacts'', ''metadata''}"
  shows "dict_get (annotate_message u t tr rq at replay d) k = dict_get d k"
  using assms by (auto simp: annotate_message_def Let_def ensure_dict_def split: pyval.split)

lemma annotated_says:
  "says (annotate_value u t tr rq at replay (PDict (conv_message_as_dict m))) (cm_role m) (cm_content m)"
  by (simp add: says_def annotate_value_def annotated_field conv_message_as_dict_def put_dict_def put_text_def
      split: option.split)

lemma result_delta_messages:
  assumes "(case or_state_delta r of Some d \<Rightarrow> Inr d | None \<Rightarrow> fallback_state_delta r) = Inr delta"
  shows "case or_state_delta r of Some d \<Rightarrow> de_append_messages delta = de_append_messages d
    | None \<Rightarrow> \<exists>m. de_append_messages delta = [m] \<and> cm_role m = ''assistant'' \<and> cm_content m = normalize_text (or_answer r)"
proof (cases "or_state_delta r")
  case (Some d)
  with assms show ?thesis by simp
next
  case None
  from assms [unfolded None option.case fallback_state_delta_def] obtain m where
    "new_conv_message \<lparr>cm_role = ''assistant'', cm_content = or_answer r, cm_created_at = None, cm_request_id = None,
       cm_turn_id = None, cm_trace_id = None,
       cm_metadata = [(''agent_name'', py_opt_str (or_agent_name r)), (''strategy_name'', PStr (or_strategy_name r)),
         (''llm_profile'', py_opt_str (or_llm_profile r))]\<rparr> = Inr m"
    and "de_append_messages delta = [m]"
    by (auto simp: try_bind_eq_Inr new_state_delta_def)
  with new_conv_message_fields [OF this(1)] None show ?thesis by (simp add: role_texts)
qed

text \<open>What a result adds to the conversation: the messages of its delta, or its answer, each by role and text.\<close>

definition result_messages :: "orch_result \<Rightarrow> (string \<times> string) list" where
  "result_messages r =
    (case or_state_delta r of
       Some d \<Rightarrow> List.map (\<lambda>m. (cm_role m, cm_content m)) (de_append_messages d)
     | None \<Rightarrow> [(''assistant'', normalize_text (or_answer r))])"

text \<open>C26. The result of a turn only adds to the conversation: every message that was there stays as it was, in order,
  and after them come the messages of the delta of the result, each with its role and its text, or, when the result has no
  delta, one message of the assistant with the answer, cut to the limit of a text.\<close>

theorem turn_keeps_the_conversation:
  assumes "apply_orch_result tx state r context_settings replay_s rc who completed_at endpoint = Inr state'"
  shows "\<exists>added. session_messages state' = session_messages state @ added
    \<and> list_all2 (\<lambda>v (role, text). says v role text) added (result_messages r)"
proof -
  let ?annotate = "annotate_value (or_usecase r) (normalize_transport_label (dict_get (rc_metadata rc) ''transport''))
      (ti_trace_id who) (ti_request_id who) completed_at (build_history_replay tx (or_artifacts r) endpoint replay_s)"
    and ?new = "\<lambda>delta. List.map (\<lambda>m. PDict (conv_message_as_dict m)) (de_append_messages delta)"
  from assms obtain delta where delta: "(case or_state_delta r of Some d \<Rightarrow> Inr d | None \<Rightarrow> fallback_state_delta r) = Inr delta"
    by (auto simp: apply_orch_result_def try_bind_eq_Inr)
  have "session_messages (refresh_session_summary s t d) = session_messages d" for s t d
    by (simp add: session_messages_def sub_dict_cong [OF summary_sections(1)])
  moreover have "session_messages (apply_state_delta state delta) = session_messages state @ ?new delta"
    by (simp add: session_messages_def apply_state_delta_sections)
  moreover have "session_messages (change_section ''metadata'' f d) = session_messages d"
    "session_messages (dict_set ''last_result'' (PDict e) d) = session_messages d"
    "session_messages (change_section ''workflow'' f d) = session_messages d" for f d e
    by (simp_all add: session_messages_def)
  ultimately have "session_messages state' = session_messages state @ List.map ?annotate (?new delta)"
    using assms by (auto simp: apply_orch_result_def delta Let_def annotate_appended_messages)
  moreover have "list_all2 (\<lambda>v (role, text). says v role text) (List.map ?annotate (?new delta)) (result_messages r)"
  proof -
    have "result_messages r = List.map (\<lambda>m. (cm_role m, cm_content m)) (de_append_messages delta)"
      using result_delta_messages [OF delta] by (auto simp: result_messages_def split: option.splits)
    then show ?thesis by (simp add: list_all2_map1 list_all2_map2 annotated_says list.rel_refl)
  qed
  ultimately show ?thesis by blast
qed

section \<open>Samples\<close>

definition sample_turn_result :: orch_result where
  "sample_turn_result =
    \<lparr>or_answer = ''hi'', or_session_id = ''s-1'', or_trace_id = ''t'', or_usecase = ''u'', or_strategy_name = ''echo'',
     or_agent_name = None, or_llm_profile = None, or_steps = [], or_tool_calls = [], or_memory_searches = [],
     or_memory_updates = [], or_citations = [], or_artifacts = [], or_context_contributions = [],
     or_state_delta = Some \<lparr>de_append_messages = [greeting], de_set_active_usecase = None, de_set_active_agent = None,
       de_append_step_summaries = [], de_append_pending_approvals = [], de_metadata_patch = []\<rparr>,
     or_finish_reason = ''stop'', or_duration_ms = None, or_metadata = []\<rparr>"

definition sample_turn ::
  "pydict \<Rightarrow> string \<Rightarrow> pydict res" where
  "sample_turn state user =
    apply_orch_result \<lparr>tx_digest = (\<lambda>s. s), tx_float_repr = (\<lambda>w. ''0.0''), tx_str = (\<lambda>v. [])\<rparr> state sample_turn_result
      sample_context_settings
      \<lparr>rs_enabled = False, rs_prefer_inline = True, rs_max_artifacts_per_message = 1, rs_max_inline_artifact_bytes = 1,
       rs_max_total_bytes_per_message = 1\<rparr>
      \<lparr>rc_user_id = user, rc_session_id = ''s-1'', rc_message = ''hello'', rc_usecase = None, rc_trace_id = None, rc_metadata = []\<rparr>
      \<lparr>ti_trace_id = ''t'', ti_request_id = ''r'', ti_user_id_hash = Some user, ti_client_host = None, ti_user_agent = None\<rparr>
      ''2024'' None"

text \<open>A session of another user.\<close>

definition owned_document :: pydict where
  "owned_document = [(''metadata'', PDict [(''user_id_hash'', PStr ''alice'')])]"

lemma sample_turn_runs: "\<exists>state'. sample_turn owned_document ''mallory'' = Inr state'"
  by (simp add: sample_turn_def apply_orch_result_def sample_turn_result_def Let_def)

theorem turn_takes_ownership_witness:
  "\<exists>state'. sample_turn owned_document ''mallory'' = Inr state'
    \<and> dict_get (sub_dict owned_document ''metadata'') ''user_id_hash'' = PStr ''alice''
    \<and> dict_get (sub_dict state' ''metadata'') ''user_id_hash'' = PStr ''mallory''"
proof -
  obtain state' where run: "sample_turn owned_document ''mallory'' = Inr state'" using sample_turn_runs by blast
  have "dict_get (sub_dict owned_document ''metadata'') ''user_id_hash'' = PStr ''alice''" by code_simp
  with run turn_takes_ownership [OF run [unfolded sample_turn_def]] show ?thesis by simp
qed

theorem turn_keeps_the_conversation_witness:
  "\<exists>state' v. sample_turn owned_document ''mallory'' = Inr state'
    \<and> session_messages state' = session_messages owned_document @ [v] \<and> says v ''user'' ''hello''"
proof -
  obtain state' where run: "sample_turn owned_document ''mallory'' = Inr state'" using sample_turn_runs by blast
  from turn_keeps_the_conversation [OF run [unfolded sample_turn_def]] run show ?thesis
    by (auto simp: sample_turn_result_def result_messages_def greeting_def list_all2_Cons2)
qed

end
