(* ===== verification/Service_Config.thy ===== *)
theory Service_Config
  imports Session_Config Memory_Config Session_Replay
begin

text \<open>
  The sections of the configuration that the service around the chat reads (\<open>config/view.py\<close>):
  observability, health, deployment, API and visualization, and the retrieval endpoint that
  \<open>session/mapping.py\<close> takes from the last. The resolvers of paths are a parameter (\<open>path_resolver\<close>).
\<close>

section \<open>Observability and health\<close>

record observability_settings =
  obs_log_level :: string
  obs_structured_logging :: bool
  obs_trace_enabled :: bool
  obs_trace_payloads_enabled :: bool
  obs_trace_store_required :: bool
  obs_redact_secrets :: bool
  obs_include_stack_traces_in_logs :: bool
  obs_include_stack_traces_in_traces :: bool
  obs_max_trace_payload_chars :: int
  obs_slow_request_ms :: int
  obs_slow_llm_call_ms :: int
  obs_slow_tool_call_ms :: int
  obs_metrics_enabled :: bool

record health_settings =
  hls_expose_config_summary :: bool
  hls_expose_provider_names :: bool
  hls_expose_secret_values :: bool
  hls_include_component_details :: bool

definition get_observability_settings :: "pyval \<Rightarrow> observability_settings res" where
  "get_observability_settings config =
    try_bind (cfg_str config ''observability.log_level'' ''INFO'') (\<lambda>log_level.
    try_bind (cfg_bool config ''observability.structured_logging'' True) (\<lambda>structured_logging.
    try_bind (cfg_bool config ''observability.trace_enabled'' True) (\<lambda>trace_enabled.
    try_bind (cfg_bool config ''observability.trace_payloads_enabled'' True) (\<lambda>trace_payloads_enabled.
    try_bind (cfg_bool config ''observability.trace_store_required'' True) (\<lambda>trace_store_required.
    try_bind (cfg_bool config ''observability.redact_secrets'' True) (\<lambda>redact_secrets.
    try_bind (cfg_bool config ''observability.include_stack_traces_in_logs'' False) (\<lambda>include_stack_traces_in_logs.
    try_bind (cfg_bool config ''observability.include_stack_traces_in_traces'' False) (\<lambda>include_stack_traces_in_traces.
    try_bind (cfg_int config ''observability.max_trace_payload_chars'' 8000) (\<lambda>max_trace_payload_chars.
    try_bind (cfg_int config ''observability.slow_request_ms'' 5000) (\<lambda>slow_request_ms.
    try_bind (cfg_int config ''observability.slow_llm_call_ms'' 30000) (\<lambda>slow_llm_call_ms.
    try_bind (cfg_int config ''observability.slow_tool_call_ms'' 10000) (\<lambda>slow_tool_call_ms.
    try_bind (cfg_bool config ''observability.metrics_enabled'' True) (\<lambda>metrics_enabled.
    Inr \<lparr>obs_log_level = log_level,
      obs_structured_logging = structured_logging,
      obs_trace_enabled = trace_enabled,
      obs_trace_payloads_enabled = trace_payloads_enabled,
      obs_trace_store_required = trace_store_required,
      obs_redact_secrets = redact_secrets,
      obs_include_stack_traces_in_logs = include_stack_traces_in_logs,
      obs_include_stack_traces_in_traces = include_stack_traces_in_traces,
      obs_max_trace_payload_chars = max_trace_payload_chars,
      obs_slow_request_ms = slow_request_ms,
      obs_slow_llm_call_ms = slow_llm_call_ms,
      obs_slow_tool_call_ms = slow_tool_call_ms,
      obs_metrics_enabled = metrics_enabled\<rparr>)))))))))))))"

definition get_health_settings :: "pyval \<Rightarrow> health_settings res" where
  "get_health_settings config =
    try_bind (cfg_bool config ''health.expose_config_summary'' True) (\<lambda>expose_config_summary.
    try_bind (cfg_bool config ''health.expose_provider_names'' True) (\<lambda>expose_provider_names.
    try_bind (cfg_bool config ''health.expose_secret_values'' False) (\<lambda>expose_secret_values.
    try_bind (cfg_bool config ''health.include_component_details'' True) (\<lambda>include_component_details.
    Inr \<lparr>hls_expose_config_summary = expose_config_summary,
      hls_expose_provider_names = expose_provider_names,
      hls_expose_secret_values = expose_secret_values,
      hls_include_component_details = include_component_details\<rparr>))))"

section \<open>Deployment\<close>

record deployment_metrics_settings =
  dpm_enabled :: bool
  dpm_bind_host :: string
  dpm_port :: int

record deployment_readiness_settings =
  dpr_enabled :: bool
  dpr_bind_host :: "string option"
  dpr_port :: "int option"

record deployment_settings =
  dep_profile :: string
  dep_host :: string
  dep_port :: int
  dep_public_base_url :: "string option"
  dep_log_dir :: string
  dep_runtime_dir :: string
  dep_graceful_shutdown_seconds :: int
  dep_metrics :: deployment_metrics_settings
  dep_readiness :: deployment_readiness_settings

text \<open>A path that must not be blank.\<close>

definition cfg_backend_path :: "pyval \<Rightarrow> path_resolver \<Rightarrow> string \<Rightarrow> string \<Rightarrow> string res" where
  "cfg_backend_path config ps path fallback =
    try_bind (cfg_str config path fallback) (\<lambda>s.
      if strip s = [] then invalid_value path ''non-empty str'' else Inr (pr_backend ps (strip s)))"

definition read_deployment_metrics :: "pyval \<Rightarrow> deployment_metrics_settings res" where
  "read_deployment_metrics config =
    try_bind (cfg_bool config ''deployment.metrics.enabled'' True) (\<lambda>enabled.
    try_bind (cfg_str config ''deployment.metrics.bind_host'' ''127.0.0.1'') (\<lambda>bind_host.
    try_bind (cfg_int config ''deployment.metrics.port'' 9102) (\<lambda>port.
    Inr \<lparr>dpm_enabled = enabled,
      dpm_bind_host = bind_host,
      dpm_port = port\<rparr>)))"

definition read_deployment_readiness :: "pyval \<Rightarrow> deployment_readiness_settings res" where
  "read_deployment_readiness config =
    try_bind (cfg_bool config ''deployment.readiness.enabled'' True) (\<lambda>enabled.
    try_bind (cfg_optional_str_or_none config ''deployment.readiness.bind_host'') (\<lambda>bind_host.
    try_bind (cfg_optional_int config ''deployment.readiness.port'') (\<lambda>port.
    Inr \<lparr>dpr_enabled = enabled,
      dpr_bind_host = bind_host,
      dpr_port = port\<rparr>)))"

definition deployment_fields :: "pyval \<Rightarrow> string \<Rightarrow> string \<Rightarrow> string \<Rightarrow> deployment_settings res" where
  "deployment_fields config log_dir profile runtime_dir =
    try_bind (cfg_str config ''deployment.host'' ''127.0.0.1'') (\<lambda>host.
    try_bind (cfg_int config ''deployment.port'' 8000) (\<lambda>port.
    try_bind (cfg_optional_str_or_none config ''deployment.public_base_url'') (\<lambda>public_base_url.
    try_bind (cfg_int config ''deployment.graceful_shutdown_seconds'' 20) (\<lambda>graceful_shutdown_seconds.
    try_bind (read_deployment_metrics config) (\<lambda>metrics.
    try_bind (read_deployment_readiness config) (\<lambda>readiness.
    Inr \<lparr>dep_profile = profile,
      dep_host = host,
      dep_port = port,
      dep_public_base_url = public_base_url,
      dep_log_dir = log_dir,
      dep_runtime_dir = runtime_dir,
      dep_graceful_shutdown_seconds = graceful_shutdown_seconds,
      dep_metrics = metrics,
      dep_readiness = readiness\<rparr>))))))"

definition get_deployment_settings :: "pyval \<Rightarrow> path_resolver \<Rightarrow> deployment_settings res" where
  "get_deployment_settings config ps =
    try_bind (cfg_str config ''app.environment'' ''local'') (\<lambda>environment.
    try_bind (cfg_str config ''deployment.profile'' environment) (\<lambda>profile.
    try_bind (cfg_backend_path config ps ''deployment.log_dir'' ''logs'') (\<lambda>log_dir.
    try_bind (cfg_backend_path config ps ''deployment.runtime_dir'' ''runtime'') (\<lambda>runtime_dir.
    deployment_fields config log_dir profile runtime_dir))))"

section \<open>API\<close>

record cors_settings =
  cor_enabled :: bool
  cor_allow_origins :: "string list"
  cor_allow_credentials :: bool
  cor_allow_methods :: "string list"
  cor_allow_headers :: "string list"

record api_request_limit_settings =
  arl_max_body_bytes :: int
  arl_max_message_chars :: int
  arl_max_metadata_bytes :: int
  arl_request_timeout_seconds :: int
  arl_stream_timeout_seconds :: int

record api_session_settings =
  ase_accept_client_session_id :: bool
  ase_create_session_when_missing :: bool
  ase_session_id_header :: string

record api_tracing_settings =
  atr_accept_client_trace_id :: bool
  atr_response_trace_header :: string
  atr_record_request_received :: bool
  atr_record_response_returned :: bool
  atr_record_validation_errors :: bool

record api_debug_routes_settings =
  adr_enabled :: bool
  adr_require_localhost :: bool
  adr_restart_enabled :: bool
  adr_max_trace_events :: int
  adr_max_search_results :: int

record api_sse_settings =
  ass_heartbeat_seconds :: int
  ass_send_trace_id_event :: bool
  ass_send_metadata_events :: bool

record api_settings =
  api_enabled :: bool
  api_base_path :: string
  api_docs_enabled :: bool
  api_openapi_enabled :: bool
  api_cors :: cors_settings
  api_request_limits :: api_request_limit_settings
  api_sessions :: api_session_settings
  api_tracing :: api_tracing_settings
  api_debug_routes :: api_debug_routes_settings
  api_sse :: api_sse_settings

definition read_cors :: "pyval \<Rightarrow> cors_settings res" where
  "read_cors config =
    try_bind (cfg_bool config ''api.cors.enabled'' False) (\<lambda>enabled.
    try_bind (cfg_str_tuple config ''api.cors.allow_origins'' []) (\<lambda>allow_origins.
    try_bind (cfg_bool config ''api.cors.allow_credentials'' True) (\<lambda>allow_credentials.
    try_bind (cfg_str_tuple config ''api.cors.allow_methods'' [''GET'', ''POST'', ''OPTIONS'']) (\<lambda>allow_methods.
    try_bind (cfg_str_tuple config ''api.cors.allow_headers'' [''Authorization'', ''Content-Type'', ''X-Request-Id'', ''X-Trace-Id'']) (\<lambda>allow_headers.
    Inr \<lparr>cor_enabled = enabled,
      cor_allow_origins = allow_origins,
      cor_allow_credentials = allow_credentials,
      cor_allow_methods = allow_methods,
      cor_allow_headers = allow_headers\<rparr>)))))"

definition read_api_request_limit :: "pyval \<Rightarrow> api_request_limit_settings res" where
  "read_api_request_limit config =
    try_bind (cfg_int config ''api.request_limits.max_body_bytes'' 1048576) (\<lambda>max_body_bytes.
    try_bind (cfg_int config ''api.request_limits.max_message_chars'' 20000) (\<lambda>max_message_chars.
    try_bind (cfg_int config ''api.request_limits.max_metadata_bytes'' 65536) (\<lambda>max_metadata_bytes.
    try_bind (cfg_int config ''api.request_limits.request_timeout_seconds'' 120) (\<lambda>request_timeout_seconds.
    try_bind (cfg_int config ''api.request_limits.stream_timeout_seconds'' 300) (\<lambda>stream_timeout_seconds.
    Inr \<lparr>arl_max_body_bytes = max_body_bytes,
      arl_max_message_chars = max_message_chars,
      arl_max_metadata_bytes = max_metadata_bytes,
      arl_request_timeout_seconds = request_timeout_seconds,
      arl_stream_timeout_seconds = stream_timeout_seconds\<rparr>)))))"

definition read_api_session :: "pyval \<Rightarrow> session_settings \<Rightarrow> api_session_settings res" where
  "read_api_session config session =
    try_bind (cfg_str config ''api.sessions.session_id_header'' ''X-Session-Id'') (\<lambda>session_id_header.
    Inr \<lparr>ase_accept_client_session_id = sid_accept_client_session_id (ses_identifiers session),
      ase_create_session_when_missing = sid_generate_when_missing (ses_identifiers session),
      ase_session_id_header = session_id_header\<rparr>)"

definition read_api_tracing :: "pyval \<Rightarrow> api_tracing_settings res" where
  "read_api_tracing config =
    try_bind (cfg_bool config ''api.tracing.accept_client_trace_id'' True) (\<lambda>accept_client_trace_id.
    try_bind (cfg_str config ''api.tracing.response_trace_header'' ''X-Trace-Id'') (\<lambda>response_trace_header.
    try_bind (cfg_bool config ''api.tracing.record_request_received'' True) (\<lambda>record_request_received.
    try_bind (cfg_bool config ''api.tracing.record_response_returned'' True) (\<lambda>record_response_returned.
    try_bind (cfg_bool config ''api.tracing.record_validation_errors'' True) (\<lambda>record_validation_errors.
    Inr \<lparr>atr_accept_client_trace_id = accept_client_trace_id,
      atr_response_trace_header = response_trace_header,
      atr_record_request_received = record_request_received,
      atr_record_response_returned = record_response_returned,
      atr_record_validation_errors = record_validation_errors\<rparr>)))))"

definition read_api_debug_routes :: "pyval \<Rightarrow> api_debug_routes_settings res" where
  "read_api_debug_routes config =
    try_bind (cfg_bool config ''api.debug_routes.enabled'' False) (\<lambda>enabled.
    try_bind (cfg_bool config ''api.debug_routes.require_localhost'' True) (\<lambda>require_localhost.
    try_bind (cfg_bool config ''api.debug_routes.restart_enabled'' False) (\<lambda>restart_enabled.
    try_bind (cfg_int config ''api.debug_routes.max_trace_events'' 500) (\<lambda>max_trace_events.
    try_bind (cfg_int config ''api.debug_routes.max_search_results'' 50) (\<lambda>max_search_results.
    Inr \<lparr>adr_enabled = enabled,
      adr_require_localhost = require_localhost,
      adr_restart_enabled = restart_enabled,
      adr_max_trace_events = max_trace_events,
      adr_max_search_results = max_search_results\<rparr>)))))"

definition read_api_sse :: "pyval \<Rightarrow> api_sse_settings res" where
  "read_api_sse config =
    try_bind (cfg_int config ''api.sse.heartbeat_seconds'' 15) (\<lambda>heartbeat_seconds.
    try_bind (cfg_bool config ''api.sse.send_trace_id_event'' True) (\<lambda>send_trace_id_event.
    try_bind (cfg_bool config ''api.sse.send_metadata_events'' True) (\<lambda>send_metadata_events.
    Inr \<lparr>ass_heartbeat_seconds = heartbeat_seconds,
      ass_send_trace_id_event = send_trace_id_event,
      ass_send_metadata_events = send_metadata_events\<rparr>)))"

definition api_fields :: "pyval \<Rightarrow> session_settings \<Rightarrow> api_settings res" where
  "api_fields config session =
    try_bind (cfg_bool config ''api.enabled'' True) (\<lambda>enabled.
    try_bind (cfg_str config ''api.base_path'' '''') (\<lambda>base_path.
    try_bind (cfg_bool config ''api.docs_enabled'' True) (\<lambda>docs_enabled.
    try_bind (cfg_bool config ''api.openapi_enabled'' True) (\<lambda>openapi_enabled.
    try_bind (read_cors config) (\<lambda>cors.
    try_bind (read_api_request_limit config) (\<lambda>request_limits.
    try_bind (read_api_session config session) (\<lambda>sessions.
    try_bind (read_api_tracing config) (\<lambda>tracing.
    try_bind (read_api_debug_routes config) (\<lambda>debug_routes.
    try_bind (read_api_sse config) (\<lambda>sse.
    Inr \<lparr>api_enabled = enabled,
      api_base_path = base_path,
      api_docs_enabled = docs_enabled,
      api_openapi_enabled = openapi_enabled,
      api_cors = cors,
      api_request_limits = request_limits,
      api_sessions = sessions,
      api_tracing = tracing,
      api_debug_routes = debug_routes,
      api_sse = sse\<rparr>))))))))))"

definition get_api_settings :: "pyval \<Rightarrow> api_settings res" where
  "get_api_settings config = try_bind (get_session_settings config) (api_fields config)"

section \<open>Visualization\<close>

definition chart_types :: "string list" where
  "chart_types =
    [''bar'', ''grouped_bar'', ''stacked_bar'', ''horizontal_bar'', ''line'', ''multi_line'', ''area'',
     ''pie'', ''donut'', ''scatter'', ''bubble'', ''histogram'', ''box_plot'', ''heatmap'', ''treemap'',
     ''waterfall'', ''gantt'', ''radar'', ''table'']"

definition chart_renderers :: "string list" where
  "chart_renderers = [''echarts'']"

definition default_safe_metadata :: "string list" where
  "default_safe_metadata = [''source'', ''source_agent'', ''currency'', ''unit'', ''usecase'']"

definition default_aliases :: "(string \<times> string) list" where
  "default_aliases =
    [(''bar graph'', ''bar''),
     (''bar chart'', ''bar''),
     (''column chart'', ''bar''),
     (''grouped bar graph'', ''grouped_bar''),
     (''stacked bar graph'', ''stacked_bar''),
     (''line graph'', ''line''),
     (''trend chart'', ''line''),
     (''pie graph'', ''pie''),
     (''donut graph'', ''donut''),
     (''scatter plot'', ''scatter''),
     (''correlation plot'', ''scatter''),
     (''gantt chart'', ''gantt'')]"

text \<open>\<open>str.upper\<close>: the letters a-z and the Latin-1 small letters, the sharp s to two letters. (The capitals of the
  micro sign and of y with diaeresis lie outside the modelled range; they are left as they are.)\<close>

definition upper_char :: "char \<Rightarrow> string" where
  "upper_char c =
    (let n = (of_char c :: nat)
     in if 97 \<le> n \<and> n \<le> 122 \<or> 224 \<le> n \<and> n \<le> 254 \<and> n \<noteq> 247 then [char_of (n - 32)]
        else if n = 223 then ''SS'' else [c])"

definition upper :: "string \<Rightarrow> string" where
  "upper s = concat (List.map upper_char s)"

record sqlite_store_settings =
  sq_path :: string
  sq_create_parent_dirs :: bool
  sq_initialize_schema :: bool
  sq_journal_mode :: string
  sq_synchronous :: string
  sq_busy_timeout_ms :: int
  sq_foreign_keys :: bool
  sq_required :: bool

record charts_limits_settings =
  vli_max_rows_inline :: int
  vli_max_rows_artifact_store :: int
  vli_max_series :: int
  vli_max_categories :: int
  vli_max_artifact_bytes :: int

record charts_sample_data_settings =
  vsd_enabled :: bool
  vsd_require_explicit_opt_in :: bool
  vsd_max_rows :: int

record charts_context_summary_settings =
  vcs_enabled :: bool
  vcs_mode :: string
  vcs_max_tokens_per_chart_summary :: int
  vcs_max_chart_summaries_per_session_context :: int
  vcs_max_total_visualization_context_tokens :: int
  vcs_include_data_ref :: bool
  vcs_include_aggregate_stats :: bool
  vcs_include_extrema :: bool
  vcs_include_trend_summary :: bool
  vcs_include_sample_rows :: bool
  vcs_max_sample_rows :: int
  vcs_eviction_policy :: string
  vcs_allow_full_dataset_in_context :: bool

record charts_artifact_store_settings =
  vas_enabled :: bool
  vas_provider :: string
  vas_ttl_seconds :: int
  vas_allow_reference_data_mode :: bool
  vas_public_retrieval_enabled :: bool
  vas_retrieval_endpoint :: "string option"
  vas_exact_followup_retrieval_enabled :: bool
  vas_sqlite :: "sqlite_store_settings option"

record visualization_runtime_settings =
  vrs_enabled :: bool
  vrs_default_renderer :: string
  vrs_allowed_renderers :: "string list"
  vrs_artifact_spec_version :: string
  vrs_allowed_chart_types :: "string list"
  vrs_aliases :: "(string \<times> string) list"
  vrs_safe_metadata_allowlist :: "string list"
  vrs_limits :: charts_limits_settings
  vrs_sample_data :: charts_sample_data_settings
  vrs_context_summary :: charts_context_summary_settings
  vrs_artifact_store :: charts_artifact_store_settings
  vrs_history_replay :: replay_settings

definition read_aliases :: "pyval \<Rightarrow> (string \<times> string) list res" where
  "read_aliases config =
    (if config_get config ''visualization.aliases'' PNone = PNone then Inr default_aliases
     else cfg_str_mapping config ''visualization.aliases'')"

definition read_charts_sqlite :: "pyval \<Rightarrow> path_resolver \<Rightarrow> bool \<Rightarrow> sqlite_store_settings res" where
  "read_charts_sqlite config ps required =
    (let base_dir = memory_base_dir config ps
     in try_bind (cfg_resolved_path config ''visualization.artifact_store.sqlite.path'' (\<lambda>v. pr_data ps v base_dir)) (\<lambda>path.
        try_bind (cfg_bool config ''visualization.artifact_store.sqlite.create_parent_dirs'' True) (\<lambda>create_parent_dirs.
        try_bind (cfg_bool config ''visualization.artifact_store.sqlite.initialize_schema'' True) (\<lambda>initialize_schema.
        try_bind (cfg_str config ''visualization.artifact_store.sqlite.journal_mode'' ''WAL'') (\<lambda>journal_mode.
        try_bind (cfg_str config ''visualization.artifact_store.sqlite.synchronous'' ''NORMAL'') (\<lambda>synchronous.
        try_bind (cfg_int config ''visualization.artifact_store.sqlite.busy_timeout_ms'' 5000) (\<lambda>busy_timeout_ms.
        try_bind (cfg_bool config ''visualization.artifact_store.sqlite.foreign_keys'' True) (\<lambda>foreign_keys.
        Inr \<lparr>sq_path = (case path of Some p \<Rightarrow> p | None \<Rightarrow> pr_data ps ''visualization_artifacts.db'' base_dir),
          sq_create_parent_dirs = create_parent_dirs, sq_initialize_schema = initialize_schema,
          sq_journal_mode = upper journal_mode, sq_synchronous = upper synchronous,
          sq_busy_timeout_ms = busy_timeout_ms, sq_foreign_keys = foreign_keys, sq_required = required\<rparr>))))))))"

definition read_charts_limits :: "pyval \<Rightarrow> charts_limits_settings res" where
  "read_charts_limits config =
    try_bind (cfg_int config ''visualization.limits.max_rows_inline'' 500) (\<lambda>max_rows_inline.
    try_bind (cfg_int config ''visualization.limits.max_rows_artifact_store'' 5000) (\<lambda>max_rows_artifact_store.
    try_bind (cfg_int config ''visualization.limits.max_series'' 12) (\<lambda>max_series.
    try_bind (cfg_int config ''visualization.limits.max_categories'' 100) (\<lambda>max_categories.
    try_bind (cfg_int config ''visualization.limits.max_artifact_bytes'' 262144) (\<lambda>max_artifact_bytes.
    Inr \<lparr>vli_max_rows_inline = max_rows_inline,
      vli_max_rows_artifact_store = max_rows_artifact_store,
      vli_max_series = max_series,
      vli_max_categories = max_categories,
      vli_max_artifact_bytes = max_artifact_bytes\<rparr>)))))"

definition read_charts_sample_data :: "pyval \<Rightarrow> charts_sample_data_settings res" where
  "read_charts_sample_data config =
    try_bind (cfg_bool config ''visualization.sample_data.enabled'' False) (\<lambda>enabled.
    try_bind (cfg_bool config ''visualization.sample_data.require_explicit_opt_in'' True) (\<lambda>require_explicit_opt_in.
    try_bind (cfg_int config ''visualization.sample_data.max_rows'' 24) (\<lambda>max_rows.
    Inr \<lparr>vsd_enabled = enabled,
      vsd_require_explicit_opt_in = require_explicit_opt_in,
      vsd_max_rows = max_rows\<rparr>)))"

definition read_charts_context_summary :: "pyval \<Rightarrow> charts_context_summary_settings res" where
  "read_charts_context_summary config =
    try_bind (cfg_bool config ''visualization.context_summary.enabled'' True) (\<lambda>enabled.
    try_bind (cfg_str config ''visualization.context_summary.mode'' ''summary_only'') (\<lambda>mode.
    try_bind (cfg_int config ''visualization.context_summary.max_tokens_per_chart_summary'' 600) (\<lambda>max_tokens_per_chart_summary.
    try_bind (cfg_int config ''visualization.context_summary.max_chart_summaries_per_session_context'' 5) (\<lambda>max_chart_summaries_per_session_context.
    try_bind (cfg_int config ''visualization.context_summary.max_total_visualization_context_tokens'' 1800) (\<lambda>max_total_visualization_context_tokens.
    try_bind (cfg_bool config ''visualization.context_summary.include_data_ref'' True) (\<lambda>include_data_ref.
    try_bind (cfg_bool config ''visualization.context_summary.include_aggregate_stats'' True) (\<lambda>include_aggregate_stats.
    try_bind (cfg_bool config ''visualization.context_summary.include_extrema'' True) (\<lambda>include_extrema.
    try_bind (cfg_bool config ''visualization.context_summary.include_trend_summary'' True) (\<lambda>include_trend_summary.
    try_bind (cfg_bool config ''visualization.context_summary.include_sample_rows'' False) (\<lambda>include_sample_rows.
    try_bind (cfg_int config ''visualization.context_summary.max_sample_rows'' 0) (\<lambda>max_sample_rows.
    try_bind (cfg_str config ''visualization.context_summary.eviction_policy'' ''most_recent_relevant'') (\<lambda>eviction_policy.
    try_bind (cfg_bool config ''visualization.context_summary.allow_full_dataset_in_context'' False) (\<lambda>allow_full_dataset_in_context.
    Inr \<lparr>vcs_enabled = enabled,
      vcs_mode = mode,
      vcs_max_tokens_per_chart_summary = max_tokens_per_chart_summary,
      vcs_max_chart_summaries_per_session_context = max_chart_summaries_per_session_context,
      vcs_max_total_visualization_context_tokens = max_total_visualization_context_tokens,
      vcs_include_data_ref = include_data_ref,
      vcs_include_aggregate_stats = include_aggregate_stats,
      vcs_include_extrema = include_extrema,
      vcs_include_trend_summary = include_trend_summary,
      vcs_include_sample_rows = include_sample_rows,
      vcs_max_sample_rows = max_sample_rows,
      vcs_eviction_policy = eviction_policy,
      vcs_allow_full_dataset_in_context = allow_full_dataset_in_context\<rparr>)))))))))))))"

definition read_charts_artifact_store :: "pyval \<Rightarrow> bool \<Rightarrow> string \<Rightarrow> sqlite_store_settings option \<Rightarrow> charts_artifact_store_settings res" where
  "read_charts_artifact_store config enabled0 provider sqlite =
    try_bind (cfg_int config ''visualization.artifact_store.ttl_seconds'' 3600) (\<lambda>ttl_seconds.
    try_bind (cfg_bool config ''visualization.artifact_store.allow_reference_data_mode'' False) (\<lambda>allow_reference_data_mode.
    try_bind (cfg_bool config ''visualization.artifact_store.public_retrieval_enabled'' False) (\<lambda>public_retrieval_enabled.
    try_bind (cfg_optional_str_or_none config ''visualization.artifact_store.retrieval_endpoint'') (\<lambda>retrieval_endpoint.
    try_bind (cfg_bool config ''visualization.artifact_store.exact_followup_retrieval_enabled'' True) (\<lambda>exact_followup_retrieval_enabled.
    Inr \<lparr>vas_enabled = enabled0,
      vas_provider = provider,
      vas_ttl_seconds = ttl_seconds,
      vas_allow_reference_data_mode = allow_reference_data_mode,
      vas_public_retrieval_enabled = public_retrieval_enabled,
      vas_retrieval_endpoint = retrieval_endpoint,
      vas_exact_followup_retrieval_enabled = exact_followup_retrieval_enabled,
      vas_sqlite = sqlite\<rparr>)))))"

definition read_history_replay :: "pyval \<Rightarrow> replay_settings res" where
  "read_history_replay config =
    try_bind (cfg_bool config ''visualization.history_replay.enabled'' True) (\<lambda>enabled.
    try_bind (cfg_bool config ''visualization.history_replay.prefer_inline'' True) (\<lambda>prefer_inline.
    try_bind (cfg_int config ''visualization.history_replay.max_artifacts_per_message'' 3) (\<lambda>max_artifacts_per_message.
    try_bind (cfg_int config ''visualization.history_replay.max_inline_artifact_bytes'' 65536) (\<lambda>max_inline_artifact_bytes.
    try_bind (cfg_int config ''visualization.history_replay.max_total_bytes_per_message'' 131072) (\<lambda>max_total_bytes_per_message.
    Inr \<lparr>rs_enabled = enabled,
      rs_prefer_inline = prefer_inline,
      rs_max_artifacts_per_message = max_artifacts_per_message,
      rs_max_inline_artifact_bytes = max_inline_artifact_bytes,
      rs_max_total_bytes_per_message = max_total_bytes_per_message\<rparr>)))))"

definition visualization_fields :: "pyval \<Rightarrow> bool \<Rightarrow> string \<Rightarrow> sqlite_store_settings option \<Rightarrow> visualization_runtime_settings res" where
  "visualization_fields config enabled0 provider sqlite =
    try_bind (cfg_bool config ''visualization.enabled'' True) (\<lambda>enabled.
    try_bind (cfg_str config ''visualization.default_renderer'' (hd chart_renderers)) (\<lambda>default_renderer.
    try_bind (cfg_str_tuple config ''visualization.allowed_renderers'' chart_renderers) (\<lambda>allowed_renderers.
    try_bind (cfg_str config ''visualization.artifact_spec_version'' ''1.0'') (\<lambda>artifact_spec_version.
    try_bind (cfg_str_tuple config ''visualization.allowed_chart_types'' chart_types) (\<lambda>allowed_chart_types.
    try_bind (read_aliases config) (\<lambda>aliases.
    try_bind (cfg_str_tuple config ''visualization.safe_metadata_allowlist'' default_safe_metadata) (\<lambda>safe_metadata_allowlist.
    try_bind (read_charts_limits config) (\<lambda>limits.
    try_bind (read_charts_sample_data config) (\<lambda>sample_data.
    try_bind (read_charts_context_summary config) (\<lambda>context_summary.
    try_bind (read_charts_artifact_store config enabled0 provider sqlite) (\<lambda>artifact_store.
    try_bind (read_history_replay config) (\<lambda>history_replay.
    Inr \<lparr>vrs_enabled = enabled,
      vrs_default_renderer = default_renderer,
      vrs_allowed_renderers = allowed_renderers,
      vrs_artifact_spec_version = artifact_spec_version,
      vrs_allowed_chart_types = allowed_chart_types,
      vrs_aliases = aliases,
      vrs_safe_metadata_allowlist = safe_metadata_allowlist,
      vrs_limits = limits,
      vrs_sample_data = sample_data,
      vrs_context_summary = context_summary,
      vrs_artifact_store = artifact_store,
      vrs_history_replay = history_replay\<rparr>))))))))))))"

definition get_charts_settings :: "pyval \<Rightarrow> path_resolver \<Rightarrow> visualization_runtime_settings res" where
  "get_charts_settings config ps =
    try_bind (cfg_bool config ''visualization.artifact_store.enabled'' False) (\<lambda>enabled0.
    try_bind (cfg_str config ''visualization.artifact_store.provider'' ''disabled'') (\<lambda>provider.
    try_bind (if lower (strip provider) = ''sqlite''
              then try_bind (read_charts_sqlite config ps enabled0) (\<lambda>s. Inr (Some s)) else Inr None) (\<lambda>sqlite.
    visualization_fields config enabled0 provider sqlite)))"

definition public_artifact_endpoint :: "pyval \<Rightarrow> path_resolver \<Rightarrow> string option" where
  "public_artifact_endpoint config ps =
    (case get_charts_settings config ps of
       Inl e \<Rightarrow> None
     | Inr s \<Rightarrow>
        if \<not> vrs_enabled s \<or> \<not> vas_public_retrieval_enabled (vrs_artifact_store s) then None
        else norm_text (vas_retrieval_endpoint (vrs_artifact_store s)))"

declare get_observability_settings_def [reader_defs]
  get_health_settings_def [reader_defs]
  read_deployment_metrics_def [reader_defs]
  read_deployment_readiness_def [reader_defs]
  deployment_fields_def [reader_defs]
  read_cors_def [reader_defs]
  read_api_request_limit_def [reader_defs]
  read_api_session_def [reader_defs]
  read_api_tracing_def [reader_defs]
  read_api_debug_routes_def [reader_defs]
  read_api_sse_def [reader_defs]
  api_fields_def [reader_defs]
  read_charts_limits_def [reader_defs]
  read_charts_sample_data_def [reader_defs]
  read_charts_context_summary_def [reader_defs]
  read_charts_artifact_store_def [reader_defs]
  read_history_replay_def [reader_defs]
  visualization_fields_def [reader_defs]
  get_deployment_settings_def [reader_defs]
  get_api_settings_def [reader_defs]
  get_charts_settings_def [reader_defs]
  read_aliases_def [reader_defs]
  read_charts_sqlite_def [reader_defs]
  public_artifact_endpoint_def [reader_defs]

end
