(* ===== verification/Session_Store.thy ===== *)
theory Session_Store
  imports Service_Config Session_History
begin

text \<open>
  The store of the workflow state (\<open>persistence/sqlite_workflow_state_store.py\<close>, \<open>persistence/serialization.py\<close>): one
  versioned document per session, saved only if the version is still the expected one.

  \<^item> The three tables of \<open>sqlite_workflow_state_schema.py\<close> are association lists with the session identifier as
    key; a transaction is one step. What the connection raises is a parameter of each operation.
  \<^item> A document is kept as the value that \<open>json.loads\<close> makes of the stored text: the saved value as JSON, with
    the keys of every dictionary sorted.
  \<^item> A date is its ISO text; the time of an operation is an argument. Decoding bytes, \<open>str\<close>, \<open>repr\<close> of a float and
    SHA-256 are parameters.
\<close>

section \<open>Values as JSON\<close>

record store_env =
  sev_texts :: py_texts
  sev_decode :: "string \<Rightarrow> string"

fun py_type_name :: "pyval \<Rightarrow> string" where
  "py_type_name PNone = ''NoneType''"
| "py_type_name (PBool b) = ''bool''"
| "py_type_name (PInt i) = ''int''"
| "py_type_name (PFloat w) = ''float''"
| "py_type_name (PStr s) = ''str''"
| "py_type_name (PBytes s) = ''bytes''"
| "py_type_name (PList xs) = ''list''"
| "py_type_name (PTuple xs) = ''tuple''"
| "py_type_name (PSet xs) = ''frozenset''"
| "py_type_name (PDict d) = ''dict''"
| "py_type_name (PObj c) = c"

definition set_sort_key :: "store_env \<Rightarrow> pyval \<Rightarrow> string" where
  "set_sort_key env v = py_type_name v @ '':'' @ tx_str (sev_texts env) v"

fun jsonable :: "store_env \<Rightarrow> pyval \<Rightarrow> pyval" where
  "jsonable env (PList xs) = PList (List.map (jsonable env) xs)"
| "jsonable env (PTuple xs) = PList (List.map (jsonable env) xs)"
| "jsonable env (PSet xs) = PList (List.map snd
    (sort_key fst (List.map (\<lambda>x. (set_sort_key env x, jsonable env x)) xs)))"
| "jsonable env (PDict d) = PDict (List.map (\<lambda>(k, v). (k, jsonable env v)) d)"
| "jsonable env (PBytes s) = PStr (sev_decode env s)"
| "jsonable env (PObj c) = PStr (''<'' @ c @ ''>'')"
| "jsonable env v = v"

text \<open>What \<open>json.loads\<close> reads back of \<open>dumps_canonical_json\<close>.\<close>

fun canonical :: "pyval \<Rightarrow> pyval" where
  "canonical (PList xs) = PList (List.map canonical xs)"
| "canonical (PDict d) = PDict (sort_key fst (List.map (\<lambda>(k, v). (k, canonical v)) d))"
| "canonical v = v"

text \<open>\<open>json.dumps(v, ensure_ascii=False, sort_keys=True, separators=(",", ":"))\<close>.\<close>

definition json_raw_char :: "char \<Rightarrow> string" where
  "json_raw_char c = (if 127 \<le> (of_char c :: nat) then [c] else json_char c)"

definition json_raw_str :: "string \<Rightarrow> string" where
  "json_raw_str s = CHR 0x22 # concat (List.map json_raw_char s) @ [CHR 0x22]"

fun dumps_canonical :: "py_texts \<Rightarrow> pyval \<Rightarrow> string" where
  "dumps_canonical tx (PStr s) = json_raw_str s"
| "dumps_canonical tx (PList xs) = ''['' @ join '','' (List.map (dumps_canonical tx) xs) @ '']''"
| "dumps_canonical tx (PDict d) =
    CHR 0x7B # join '',''
      (List.map (\<lambda>kv. json_raw_str (fst kv) @ '':'' @ snd kv)
        (sort_key fst (List.map (\<lambda>(k, v). (k, dumps_canonical tx v)) d))) @ [CHR 0x7D]"
| "dumps_canonical tx v = json_dumps tx v"

definition extract_message_count :: "pydict \<Rightarrow> int" where
  "extract_message_count state = int (length (sub_list (sub_dict state ''conversation'') ''messages''))"

definition extract_current_step :: "pydict \<Rightarrow> string option" where
  "extract_current_step state = only_text (dict_get (sub_dict state ''workflow'') ''current_step'')"

definition extract_checkpoint_name :: "pydict \<Rightarrow> string option" where
  "extract_checkpoint_name state = only_text (dict_get (sub_dict (sub_dict state ''workflow'') ''checkpoint'') ''name'')"

section \<open>Sensitive keys\<close>

definition upper_ascii :: "char \<Rightarrow> bool" where
  "upper_ascii c \<longleftrightarrow> (let n = (of_char c :: nat) in 65 \<le> n \<and> n \<le> 90)"

definition key_char :: "char \<Rightarrow> bool" where
  "key_char c \<longleftrightarrow> (let n = (of_char c :: nat) in 97 \<le> n \<and> n \<le> 122 \<or> 48 \<le> n \<and> n \<le> 57)"

text \<open>An underscore before every capital that is not the first character.\<close>

definition snake_case :: "string \<Rightarrow> string" where
  "snake_case key =
    (case key of
       [] \<Rightarrow> []
     | c # rest \<Rightarrow> lower (c # concat (List.map (\<lambda>x. if upper_ascii x then [CHR ''_'', x] else [x]) rest)))"

text \<open>The tokens of a key: the runs of letters and digits; joined by underscores they are the normalized key.\<close>

definition key_tokens :: "string \<Rightarrow> string list" where
  "key_tokens key =
    filter (\<lambda>t. t \<noteq> []) (split_on CHR ''_'' (List.map (\<lambda>c. if key_char c then c else CHR ''_'') (snake_case key)))"

definition sensitive_key_tokens :: "string list" where
  "sensitive_key_tokens =
    [''authorization'', ''auth'', ''bearer'', ''cookie'', ''credential'', ''credentials'', ''jwt'', ''password'',
     ''secret'', ''token'']"

definition sensitive_key_combinations :: "string list list" where
  "sensitive_key_combinations =
    [[''api'', ''key''], [''client'', ''secret''], [''connection'', ''string''], [''refresh'', ''token''],
     [''private'', ''key''], [''access'', ''token'']]"

definition state_key_is_sensitive :: "string \<Rightarrow> bool" where
  "state_key_is_sensitive key \<longleftrightarrow>
    (let tokens = key_tokens key
     in tokens = [''key''] \<or> list_ex (\<lambda>t. t \<in> set sensitive_key_tokens) tokens
        \<or> list_ex (list_all (\<lambda>p. p \<in> set tokens)) sensitive_key_combinations)"

fun has_sensitive_key :: "pyval \<Rightarrow> bool" where
  "has_sensitive_key (PDict d) = list_ex (\<lambda>(k, b). state_key_is_sensitive k \<or> b) (List.map (\<lambda>(k, v). (k, has_sensitive_key v)) d)"
| "has_sensitive_key (PList xs) = list_ex (\<lambda>b. b) (List.map has_sensitive_key xs)"
| "has_sensitive_key v = False"

section \<open>Tables\<close>

record workflow_store_settings = sqlite_store_settings +
  wss_max_state_bytes :: int
  wss_max_history_messages :: int
  wss_reset_mode :: string
  wss_store_user_id :: bool
  wss_store_user_id_hash :: bool

record session_row =
  wfs_user_id :: "string option"
  wfs_user_id_hash :: "string option"
  wfs_usecase :: "string option"
  wfs_status :: string
  wfs_created_at :: string
  wfs_updated_at :: string
  wfs_last_activity_at :: string
  wfs_reset_count :: int

record state_row =
  cur_version :: int
  cur_state :: pydict
  cur_hash :: string
  cur_size :: int
  cur_message_count :: int
  cur_step :: "string option"
  cur_checkpoint :: "string option"
  cur_created_at :: string
  cur_updated_at :: string
  cur_reset_generation :: int

record reset_row =
  rst_session_id :: string
  rst_trace_id :: "string option"
  rst_reason :: "string option"
  rst_generation :: int
  rst_cleared_version :: "int option"
  rst_at :: string

record workflow_store =
  db_sessions :: "(string \<times> session_row) list"
  db_states :: "(string \<times> state_row) list"
  db_resets :: "reset_row list"

definition empty_store :: workflow_store where
  "empty_store = \<lparr>db_sessions = [], db_states = [], db_resets = []\<rparr>"

datatype store_error =
    StoreInvalid
  | StoreSerialization
  | StoreSize
  | StoreConflict
  | StoreConfiguration
  | StoreUnavailable

definition store_session_id :: "pyval \<Rightarrow> store_error + string" where
  "store_session_id v = (case normalize_state_session_id v of Inl e \<Rightarrow> Inl StoreInvalid | Inr s \<Rightarrow> Inr s)"

section \<open>Loading\<close>

definition text_date :: "string \<Rightarrow> string option" where
  "text_date s = (if strip s = [] then None else Some s)"

definition store_load :: "workflow_store \<Rightarrow> store_error option \<Rightarrow> string \<Rightarrow> pyval \<Rightarrow> store_error + state_record" where
  "store_load db failure now v =
    try_bind (store_session_id v) (\<lambda>sid.
    case failure of Some e \<Rightarrow> Inl e | None \<Rightarrow>
      (case map_of (db_states db) sid of
         None \<Rightarrow>
           (case default_workflow_state sid now of
              Inl e \<Rightarrow> Inl StoreInvalid
            | Inr state \<Rightarrow>
                Inr \<lparr>rec_session_id = sid, rec_state = state, rec_version = None, rec_found = False, rec_loaded_empty = True,
                     rec_message_count = 0,
                     rec_reset_generation = (case map_of (db_sessions db) sid of None \<Rightarrow> 0 | Some s \<Rightarrow> wfs_reset_count s),
                     rec_created_at = None, rec_updated_at = None, rec_metadata = []\<rparr>)
       | Some row \<Rightarrow>
           Inr \<lparr>rec_session_id = sid, rec_state = cur_state row, rec_version = Some (cur_version row), rec_found = True,
                rec_loaded_empty = py_truth (dict_get (sub_dict (cur_state row) ''metadata'') ''loaded_empty''),
                rec_message_count = cur_message_count row, rec_reset_generation = cur_reset_generation row,
                rec_created_at = text_date (cur_created_at row), rec_updated_at = text_date (cur_updated_at row),
                rec_metadata = []\<rparr>))"

section \<open>Saving\<close>

record prepared_state =
  prs_state :: pydict
  prs_stored :: pydict
  prs_hash :: string
  prs_size :: int
  prs_message_count :: int
  prs_step :: "string option"
  prs_checkpoint :: "string option"

definition prepare_for_storage ::
  "store_env \<Rightarrow> 'a workflow_store_settings_scheme \<Rightarrow> pydict \<Rightarrow> store_error + prepared_state" where
  "prepare_for_storage env settings state =
    (case jsonable env (PDict state) of
       PDict d \<Rightarrow>
         if has_sensitive_key (PDict d) then Inl StoreSerialization
         else
           (let size = int (length (utf8 (dumps_canonical (sev_texts env) (PDict d))))
            in if size > wss_max_state_bytes settings then Inl StoreSize
               else Inr \<lparr>prs_state = d, prs_stored = (case canonical (PDict d) of PDict c \<Rightarrow> c | _ \<Rightarrow> []),
                         prs_hash = tx_digest (sev_texts env) (dumps_canonical (sev_texts env) (PDict d)), prs_size = size,
                         prs_message_count = extract_message_count d, prs_step = extract_current_step d,
                         prs_checkpoint = extract_checkpoint_name d\<rparr>)
     | _ \<Rightarrow> Inl StoreSerialization)"

record session_fields =
  sf_user_id :: "string option"
  sf_user_id_hash :: "string option"
  sf_usecase :: "string option"

definition extract_session_fields :: "'a workflow_store_settings_scheme \<Rightarrow> pydict \<Rightarrow> session_fields" where
  "extract_session_fields settings metadata =
    \<lparr>sf_user_id = (if wss_store_user_id settings then read_optional_text (dict_get metadata ''user_id'') else None),
     sf_user_id_hash =
       (if wss_store_user_id_hash settings then read_optional_text (dict_get metadata ''user_id_hash'') else None),
     sf_usecase = read_optional_text (dict_get metadata ''usecase'')\<rparr>"

definition coalesce :: "'a option \<Rightarrow> 'a option \<Rightarrow> 'a option" where
  "coalesce x y = (case x of None \<Rightarrow> y | Some a \<Rightarrow> Some a)"

definition upsert_session :: "string \<Rightarrow> string \<Rightarrow> session_fields \<Rightarrow> workflow_store \<Rightarrow> workflow_store" where
  "upsert_session sid now f db =
    (let row = (case map_of (db_sessions db) sid of
           None \<Rightarrow>
             \<lparr>wfs_user_id = sf_user_id f, wfs_user_id_hash = sf_user_id_hash f, wfs_usecase = sf_usecase f,
              wfs_status = ''active'', wfs_created_at = now, wfs_updated_at = now, wfs_last_activity_at = now,
              wfs_reset_count = 0\<rparr>
         | Some old \<Rightarrow>
             old\<lparr>wfs_user_id := coalesce (sf_user_id f) (wfs_user_id old),
                 wfs_user_id_hash := coalesce (sf_user_id_hash f) (wfs_user_id_hash old),
                 wfs_usecase := coalesce (sf_usecase f) (wfs_usecase old), wfs_status := ''active'',
                 wfs_updated_at := now, wfs_last_activity_at := now\<rparr>)
     in db\<lparr>db_sessions := dict_set sid row (db_sessions db)\<rparr>)"

definition reset_count_of :: "workflow_store \<Rightarrow> string \<Rightarrow> int" where
  "reset_count_of db sid = (case map_of (db_sessions db) sid of None \<Rightarrow> 0 | Some s \<Rightarrow> wfs_reset_count s)"

text \<open>The insertion that becomes an update of the current row.\<close>

definition upsert_state :: "string \<Rightarrow> string \<Rightarrow> prepared_state \<Rightarrow> int \<Rightarrow> workflow_store \<Rightarrow> workflow_store" where
  "upsert_state sid now p generation db =
    (let old = map_of (db_states db) sid;
         row = \<lparr>cur_version = (case old of None \<Rightarrow> 1 | Some r \<Rightarrow> cur_version r + 1), cur_state = prs_stored p,
                cur_hash = prs_hash p, cur_size = prs_size p, cur_message_count = prs_message_count p, cur_step = prs_step p,
                cur_checkpoint = prs_checkpoint p,
                cur_created_at = (case old of None \<Rightarrow> now | Some r \<Rightarrow> cur_created_at r), cur_updated_at = now,
                cur_reset_generation = generation\<rparr>
     in db\<lparr>db_states := dict_set sid row (db_states db)\<rparr>)"

record save_result =
  svr_session_id :: string
  svr_state :: pydict
  svr_version :: int
  svr_size :: int
  svr_message_count :: int
  svr_reset_generation :: int

definition version_of :: "workflow_store \<Rightarrow> string \<Rightarrow> int option" where
  "version_of db sid = map_option cur_version (map_of (db_states db) sid)"

text \<open>The rows that a save writes, in one transaction.\<close>

definition commit_save ::
  "'a workflow_store_settings_scheme \<Rightarrow> string \<Rightarrow> string \<Rightarrow> prepared_state \<Rightarrow> pydict \<Rightarrow> workflow_store \<Rightarrow> workflow_store" where
  "commit_save settings now sid p metadata db =
    (let db1 = upsert_session sid now (extract_session_fields settings metadata) db
     in upsert_state sid now p (reset_count_of db1 sid) db1)"

definition store_save ::
  "store_env \<Rightarrow> 'a workflow_store_settings_scheme \<Rightarrow> store_error option \<Rightarrow> string \<Rightarrow> pyval \<Rightarrow> pydict \<Rightarrow> int option \<Rightarrow> pydict \<Rightarrow>
   workflow_store \<Rightarrow> (store_error + save_result) \<times> workflow_store" where
  "store_save env settings failure now v state expected metadata db =
    (case store_session_id v of
       Inl e \<Rightarrow> (Inl e, db)
     | Inr sid \<Rightarrow>
        (case prepare_for_storage env settings state of
           Inl e \<Rightarrow> (Inl e, db)
         | Inr p \<Rightarrow>
            (case failure of
               Some e \<Rightarrow> (Inl e, db)
             | None \<Rightarrow>
                if expected \<noteq> None \<and> version_of db sid \<noteq> expected then (Inl StoreConflict, db)
                else
                  (let db2 = commit_save settings now sid p metadata db
                   in (Inr \<lparr>svr_session_id = sid, svr_state = prs_state p,
                            svr_version = (case version_of db2 sid of Some n \<Rightarrow> n | None \<Rightarrow> 1), svr_size = prs_size p,
                            svr_message_count = prs_message_count p, svr_reset_generation = reset_count_of db2 sid\<rparr>, db2)))))"

section \<open>Resetting, listing, deleting\<close>

record reset_result =
  rsr_session_id :: string
  rsr_version :: "int option"
  rsr_generation :: int
  rsr_cleared_version :: "int option"
  rsr_state :: "pydict option"
  rsr_deleted :: bool

definition reset_deletes :: "'a workflow_store_settings_scheme \<Rightarrow> bool" where
  "reset_deletes settings \<longleftrightarrow> wss_reset_mode settings = ''delete_state_row''"

definition empty_prepared ::
  "store_env \<Rightarrow> 'a workflow_store_settings_scheme \<Rightarrow> string \<Rightarrow> string \<Rightarrow> store_error + prepared_state option" where
  "empty_prepared env settings sid now =
    (if reset_deletes settings then Inr None
     else case default_workflow_state sid now of
       Inl e \<Rightarrow> Inl StoreInvalid
     | Inr state \<Rightarrow> try_bind (prepare_for_storage env settings state) (\<lambda>p. Inr (Some p)))"

definition mark_reset ::
  "string \<Rightarrow> string \<Rightarrow> string option \<Rightarrow> pydict \<Rightarrow> int option \<Rightarrow> workflow_store \<Rightarrow> workflow_store" where
  "mark_reset sid now reason metadata cleared db =
    (let generation = reset_count_of db sid + 1
     in db\<lparr>db_sessions := List.map (\<lambda>(k, row). (k, if k = sid
              then row\<lparr>wfs_status := ''active'', wfs_reset_count := generation, wfs_updated_at := now,
                       wfs_last_activity_at := now\<rparr> else row)) (db_sessions db),
          db_resets := db_resets db @ [\<lparr>rst_session_id = sid,
            rst_trace_id = read_optional_text (dict_get metadata ''trace_id''), rst_reason = reason,
            rst_generation = generation, rst_cleared_version = cleared, rst_at = now\<rparr>]\<rparr>)"

text \<open>The rows that a reset writes: the current row deleted, or replaced by an empty state.\<close>

definition commit_reset ::
  "'a workflow_store_settings_scheme \<Rightarrow> string \<Rightarrow> string \<Rightarrow> prepared_state option \<Rightarrow> string option \<Rightarrow> pydict \<Rightarrow>
   workflow_store \<Rightarrow> workflow_store" where
  "commit_reset settings now sid p reason metadata db =
    (let db1 = upsert_session sid now (extract_session_fields settings metadata) db;
         db2 = mark_reset sid now reason metadata (version_of db1 sid) db1
     in case p of
          None \<Rightarrow> db2\<lparr>db_states := dict_pop sid (db_states db2)\<rparr>
        | Some q \<Rightarrow> upsert_state sid now (q\<lparr>prs_message_count := 0, prs_step := None, prs_checkpoint := None\<rparr>)
            (reset_count_of db2 sid) db2)"

definition store_reset ::
  "store_env \<Rightarrow> 'a workflow_store_settings_scheme \<Rightarrow> store_error option \<Rightarrow> string \<Rightarrow> pyval \<Rightarrow> string option \<Rightarrow> pydict \<Rightarrow>
   workflow_store \<Rightarrow> (store_error + reset_result) \<times> workflow_store" where
  "store_reset env settings failure now v reason metadata db =
    (case store_session_id v of
       Inl e \<Rightarrow> (Inl e, db)
     | Inr sid \<Rightarrow>
        (case empty_prepared env settings sid now of
           Inl e \<Rightarrow> (Inl e, db)
         | Inr p \<Rightarrow>
            (case failure of
               Some e \<Rightarrow> (Inl e, db)
             | None \<Rightarrow>
                (let db3 = commit_reset settings now sid p reason metadata db
                 in (Inr \<lparr>rsr_session_id = sid, rsr_version = (if p = None then None else version_of db3 sid),
                          rsr_generation = reset_count_of db3 sid, rsr_cleared_version = version_of db sid,
                          rsr_state = map_option prs_state p, rsr_deleted = (p = None)\<rparr>, db3)))))"

record session_summary =
  sms_session_id :: string
  sms_usecase :: "string option"
  sms_status :: string
  sms_created_at :: "string option"
  sms_updated_at :: "string option"
  sms_last_activity_at :: "string option"
  sms_reset_count :: int
  sms_message_count :: int

record session_list =
  sls_sessions :: "session_summary list"
  sls_limit :: int
  sls_has_more :: bool

definition summary_of :: "workflow_store \<Rightarrow> string \<times> session_row \<Rightarrow> session_summary" where
  "summary_of db x =
    (let row = snd x
     in \<lparr>sms_session_id = fst x, sms_usecase = norm_text (wfs_usecase row),
         sms_status = (case norm_text (Some (wfs_status row)) of Some s \<Rightarrow> s | None \<Rightarrow> ''unknown''),
         sms_created_at = text_date (wfs_created_at row), sms_updated_at = text_date (wfs_updated_at row),
         sms_last_activity_at = text_date (wfs_last_activity_at row), sms_reset_count = wfs_reset_count row,
         sms_message_count = (case map_of (db_states db) (fst x) of None \<Rightarrow> 0 | Some r \<Rightarrow> cur_message_count r)\<rparr>)"

text \<open>By the last activity, the latest first, and by identifier among equals.\<close>

definition list_order :: "(string \<times> session_row) list \<Rightarrow> (string \<times> session_row) list" where
  "list_order rows = rev (sort_key (\<lambda>x. wfs_last_activity_at (snd x)) (rev (sort_key fst rows)))"

definition store_list :: "workflow_store \<Rightarrow> store_error option \<Rightarrow> int \<Rightarrow> store_error + session_list" where
  "store_list db failure limit =
    (if limit < 1 then Inl StoreInvalid
     else case failure of Some e \<Rightarrow> Inl e | None \<Rightarrow>
       (let rows = take (nat (limit + 1)) (list_order (db_sessions db))
        in Inr \<lparr>sls_sessions = List.map (summary_of db) (take (nat limit) rows), sls_limit = limit,
                sls_has_more = (limit < int (length rows))\<rparr>))"

definition store_delete ::
  "'a workflow_store_settings_scheme \<Rightarrow> store_error option \<Rightarrow> pyval \<Rightarrow> workflow_store \<Rightarrow> (store_error + string \<times> bool) \<times> workflow_store" where
  "store_delete settings failure v db =
    (case store_session_id v of
       Inl e \<Rightarrow> (Inl e, db)
     | Inr sid \<Rightarrow>
        (case failure of
           Some e \<Rightarrow> (Inl e, db)
         | None \<Rightarrow>
            if map_of (db_sessions db) sid = None then (Inr (sid, False), db)
            else
              (let db1 = db\<lparr>db_sessions := dict_pop sid (db_sessions db)\<rparr>
               in (Inr (sid, True),
                   if sq_foreign_keys settings
                   then db1\<lparr>db_states := dict_pop sid (db_states db),
                            db_resets := filter (\<lambda>r. rst_session_id r \<noteq> sid) (db_resets db)\<rparr>
                   else db1))))"

section \<open>Versions\<close>

lemma upsert_session_states [simp]: "db_states (upsert_session sid now f db) = db_states db"
  by (simp add: upsert_session_def Let_def)

lemma mark_reset_states [simp]: "db_states (mark_reset sid now reason metadata cleared db) = db_states db"
  by (simp add: mark_reset_def Let_def)

lemma upsert_state_sessions [simp]: "db_sessions (upsert_state sid now p g db) = db_sessions db"
  by (simp add: upsert_state_def Let_def)

lemma version_same_states: "db_states db = db_states db' \<Longrightarrow> version_of db s = version_of db' s"
  by (simp add: version_of_def)

text \<open>The row that an insertion writes, and the rows it leaves.\<close>

lemma upsert_state_row:
  obtains row where "map_of (db_states (upsert_state sid now p g db)) sid = Some row"
    "cur_version row = (case version_of db sid of None \<Rightarrow> 1 | Some n \<Rightarrow> n + 1)" "cur_state row = prs_stored p"
    "cur_message_count row = prs_message_count p"
  by (rule that) (auto simp: upsert_state_def Let_def version_of_def split: option.split)

lemma upsert_state_other: "s \<noteq> sid \<Longrightarrow> map_of (db_states (upsert_state sid now p g db)) s = map_of (db_states db) s"
  by (simp add: upsert_state_def Let_def)

lemma commit_save_row:
  obtains row where "map_of (db_states (commit_save settings now sid p metadata db)) sid = Some row"
    "cur_version row = (case version_of db sid of None \<Rightarrow> 1 | Some n \<Rightarrow> n + 1)" "cur_state row = prs_stored p"
    "cur_message_count row = prs_message_count p"
proof -
  let ?db1 = "upsert_session sid now (extract_session_fields settings metadata) db"
  have "version_of ?db1 sid = version_of db sid" by (rule version_same_states) simp
  then show thesis
    using that upsert_state_row [of sid now p "reset_count_of ?db1 sid" ?db1]
    unfolding commit_save_def Let_def by metis
qed

lemma commit_save_other:
  "s \<noteq> sid \<Longrightarrow> map_of (db_states (commit_save settings now sid p metadata db)) s = map_of (db_states db) s"
  by (simp add: commit_save_def Let_def upsert_state_other)

text \<open>What a save that succeeded did.\<close>

lemma store_save_Inr:
  assumes "store_save env settings failure now v state expected metadata db = (Inr r, db')"
  obtains sid p where "store_session_id v = Inr sid" "prepare_for_storage env settings state = Inr p"
    "expected = None \<or> version_of db sid = expected" "db' = commit_save settings now sid p metadata db"
    "svr_version r = (case version_of db sid of None \<Rightarrow> 1 | Some n \<Rightarrow> n + 1)" "svr_message_count r = prs_message_count p"
proof -
  from assms obtain sid p where *: "store_session_id v = Inr sid" "prepare_for_storage env settings state = Inr p"
    "expected = None \<or> version_of db sid = expected" "db' = commit_save settings now sid p metadata db"
    "svr_version r = (case version_of (commit_save settings now sid p metadata db) sid of Some n \<Rightarrow> n | None \<Rightarrow> 1)"
    "svr_message_count r = prs_message_count p"
    by (auto simp: store_save_def Let_def split: sum.splits option.splits if_splits)
  obtain row where "map_of (db_states (commit_save settings now sid p metadata db)) sid = Some row"
    "cur_version row = (case version_of db sid of None \<Rightarrow> 1 | Some n \<Rightarrow> n + 1)"
    by (rule commit_save_row)
  then have "svr_version r = (case version_of db sid of None \<Rightarrow> 1 | Some n \<Rightarrow> n + 1)"
    by (simp add: *(5) version_of_def)
  with *(1-4,6) show thesis using that by blast
qed

lemma store_save_Inl: "store_save env settings failure now v state expected metadata db = (Inl e, db') \<Longrightarrow> db' = db"
  by (auto simp: store_save_def Let_def split: sum.splits option.splits if_splits)

lemma store_reset_cases:
  assumes "store_reset env settings failure now v reason metadata db = (out, db')"
  obtains "db' = db" | sid p where "db' = commit_reset settings now sid p reason metadata db"
  using assms that by (fastforce simp: store_reset_def Let_def split: sum.splits option.splits)

lemma store_delete_states:
  "store_delete settings failure v db = (out, db') \<Longrightarrow>
    db_states db' = db_states db \<or> (\<exists>sid. db_states db' = dict_pop sid (db_states db))"
  by (auto simp: store_delete_def Let_def split: sum.splits option.splits if_splits)

text \<open>The steps of any number of clients: saves, resets in either mode, and deletions.\<close>

inductive store_step ::
  "store_env \<Rightarrow> 'a workflow_store_settings_scheme \<Rightarrow> workflow_store \<Rightarrow> workflow_store \<Rightarrow> bool" for env settings where
  save: "store_save env settings failure now v state expected metadata db = (out, db') \<Longrightarrow> store_step env settings db db'"
| reset: "store_reset env settings failure now v reason metadata db = (out, db') \<Longrightarrow> store_step env settings db db'"
| delete: "store_delete settings failure v db = (out, db') \<Longrightarrow> store_step env settings db db'"

inductive store_runs ::
  "store_env \<Rightarrow> 'a workflow_store_settings_scheme \<Rightarrow> workflow_store \<Rightarrow> workflow_store \<Rightarrow> bool" for env settings db0 where
  stop: "store_runs env settings db0 db0"
| go: "store_runs env settings db0 db \<Longrightarrow> store_step env settings db db' \<Longrightarrow> store_runs env settings db0 db'"

text \<open>A step leaves the row of a session as it is, raises its version, or removes it.\<close>

definition row_kept_or_newer :: "string \<Rightarrow> workflow_store \<Rightarrow> workflow_store \<Rightarrow> bool" where
  "row_kept_or_newer sid db db' \<longleftrightarrow>
    map_of (db_states db') sid = map_of (db_states db) sid
    \<or> (\<exists>row. map_of (db_states db') sid = Some row
        \<and> (\<forall>old. map_of (db_states db) sid = Some old \<longrightarrow> cur_version old < cur_version row))"

lemma upsert_state_newer:
  assumes "db_states db1 = db_states db"
  shows "row_kept_or_newer sid db (upsert_state sid' now p g db1)"
proof (cases "sid' = sid")
  case True
  obtain row where "map_of (db_states (upsert_state sid now p g db1)) sid = Some row"
    "cur_version row = (case version_of db1 sid of None \<Rightarrow> 1 | Some n \<Rightarrow> n + 1)"
    by (rule upsert_state_row)
  moreover have "version_of db1 sid = version_of db sid" by (rule version_same_states [OF assms])
  ultimately show ?thesis using assms
    by (auto simp: True row_kept_or_newer_def version_of_def)
qed (simp add: row_kept_or_newer_def upsert_state_other assms)

definition row_dropped :: "string \<Rightarrow> workflow_store \<Rightarrow> bool" where
  "row_dropped sid db \<longleftrightarrow> map_of (db_states db) sid = None"

lemma row_kept: "map_of (db_states db') sid = map_of (db_states db) sid \<Longrightarrow> row_kept_or_newer sid db db'"
  by (simp add: row_kept_or_newer_def)

lemma popped_row:
  "db_states db' = dict_pop sid' (db_states db) \<Longrightarrow> row_kept_or_newer sid db db' \<or> row_dropped sid db'"
  by (cases "sid' = sid") (simp_all add: row_dropped_def row_kept_or_newer_def)

lemma commit_reset_row: "row_kept_or_newer sid db (commit_reset settings now sid' p reason metadata db)
    \<or> row_dropped sid (commit_reset settings now sid' p reason metadata db)"
proof (cases p)
  case None
  then show ?thesis by (intro popped_row) (simp add: commit_reset_def Let_def)
next
  case (Some q)
  then show ?thesis by (simp add: commit_reset_def Let_def upsert_state_newer)
qed

lemma store_step_newer:
  assumes "store_step env settings db db'"
  shows "row_kept_or_newer sid db db' \<or> row_dropped sid db'"
  using assms
proof cases
  case (save failure now v state expected metadata out)
  show ?thesis
  proof (cases out)
    case (Inl e)
    with save have "db' = db" by (auto dest: store_save_Inl)
    then show ?thesis by (simp add: row_kept)
  next
    case (Inr r)
    show ?thesis
      by (rule store_save_Inr [OF save [unfolded Inr]])
        (simp add: commit_save_def Let_def upsert_state_newer)
  qed
next
  case (reset failure now v reason metadata out)
  then show ?thesis
    by (elim store_reset_cases) (simp_all add: row_kept commit_reset_row)
next
  case (delete failure v out)
  from store_delete_states [OF this] show ?thesis using popped_row by (auto intro: row_kept)
qed

lemma row_newer_trans:
  "row_kept_or_newer sid a b \<Longrightarrow> row_kept_or_newer sid b c \<Longrightarrow> row_kept_or_newer sid a c"
  unfolding row_kept_or_newer_def by (elim disjE exE conjE) (simp_all, force)

text \<open>Over a run the row is kept or newer, unless it was gone at some point in between.\<close>

lemma store_runs_newer:
  "store_runs env settings db0 db \<Longrightarrow> row_kept_or_newer sid db0 db
    \<or> (\<exists>mid. store_runs env settings db0 mid \<and> store_runs env settings mid db \<and> row_dropped sid mid)"
proof (induction rule: store_runs.induct)
  case stop
  show ?case by (simp add: row_kept)
next
  case (go db db')
  note runs = store_runs.go [OF go.hyps]
  from store_step_newer [OF go.hyps(2), of sid] go.IH show ?case
    using runs store_runs.stop [of env settings db'] store_runs.go [OF _ go.hyps(2)] row_newer_trans by meson
qed

section \<open>The stored document\<close>

text \<open>A document of JSON values, and when another one says the same: the same scalars, lists of the same items, and
  dictionaries with the same keys and the same values, in whatever order. A tuple comes back as a list.\<close>

fun json_document :: "pyval \<Rightarrow> bool" where
  "json_document (PDict d) = (\<forall>(k, v) \<in> set d. json_document v)"
| "json_document (PList xs) = (\<forall>x \<in> set xs. json_document x)"
| "json_document (PTuple xs) = (\<forall>x \<in> set xs. json_document x)"
| "json_document (PSet xs) = False"
| "json_document (PBytes s) = False"
| "json_document (PObj c) = False"
| "json_document v = True"

inductive same_json :: "pyval \<Rightarrow> pyval \<Rightarrow> bool" where
  none: "same_json PNone PNone"
| bool: "same_json (PBool b) (PBool b)"
| int: "same_json (PInt i) (PInt i)"
| float: "same_json (PFloat w) (PFloat w)"
| str: "same_json (PStr s) (PStr s)"
| items: "length xs = length ys \<Longrightarrow> \<forall>i < length xs. same_json (xs ! i) (ys ! i) \<Longrightarrow> same_json (PList xs) (PList ys)"
| tuple: "length xs = length ys \<Longrightarrow> \<forall>i < length xs. same_json (xs ! i) (ys ! i) \<Longrightarrow> same_json (PTuple xs) (PList ys)"
| fields: "\<forall>k. map_of e k = None \<longleftrightarrow> map_of d k = None \<Longrightarrow>
    \<forall>k v w. map_of d k = Some v \<longrightarrow> map_of e k = Some w \<longrightarrow> same_json v w \<Longrightarrow> same_json (PDict d) (PDict e)"

lemma map_of_sorted:
  fixes d :: "('k::linorder \<times> 'v) list"
  shows "map_of (sort_key fst d) k = map_of d k"
proof -
  have "map_of xs k = map_of (filter (\<lambda>x. fst x = k) xs) k" for xs :: "('k \<times> 'v) list"
    by (induction xs) auto
  moreover have "filter (\<lambda>x. fst x = k) (sort_key fst d) = filter (\<lambda>x. fst x = k) d"
    by (rule sort_key_stable)
  ultimately show ?thesis by metis
qed

lemma stored_same_json: "json_document v \<Longrightarrow> same_json v (canonical (jsonable env v))"
proof (induction v rule: json_document.induct)
  case (1 d)
  let ?e = "sort_key fst (List.map (\<lambda>(k, v). (k, canonical v)) (List.map (\<lambda>(k, v). (k, jsonable env v)) d))"
  have m: "map_of ?e k = map_option (\<lambda>v. canonical (jsonable env v)) (map_of d k)" for k
    unfolding map_of_sorted by (induction d) auto
  have "same_json v w" if "map_of d k = Some v" "map_of ?e k = Some w" for k v w
  proof -
    from that m have "w = canonical (jsonable env v)" by simp
    moreover from that(1) have "(k, v) \<in> set d" by (rule map_of_SomeD)
    ultimately show ?thesis using 1 by auto
  qed
  moreover have "\<forall>k. map_of ?e k = None \<longleftrightarrow> map_of d k = None" by (simp only: m map_option_is_None simp_thms)
  ultimately have "same_json (PDict d) (PDict ?e)" by (intro same_json.fields) blast+
  then show ?case by (simp only: jsonable.simps canonical.simps)
qed (auto intro!: same_json.intros)

lemma prepared_same_json:
  assumes "prepare_for_storage env settings state = Inr p" "json_document (PDict state)"
  shows "same_json (PDict state) (PDict (prs_stored p))"
proof -
  have "canonical (jsonable env (PDict state)) = PDict (prs_stored p)"
    using assms(1) by (auto simp: prepare_for_storage_def Let_def split: if_splits)
  with stored_same_json [OF assms(2), of env] show ?thesis by simp
qed

section \<open>Samples\<close>

definition sample_store_env :: store_env where
  "sample_store_env = \<lparr>sev_texts = \<lparr>tx_digest = (\<lambda>s. s), tx_float_repr = (\<lambda>w. ''0.0''), tx_str = (\<lambda>v. [])\<rparr>, sev_decode = (\<lambda>s. s)\<rparr>"

definition sample_store_settings :: workflow_store_settings where
  "sample_store_settings =
    \<lparr>sq_path = ''state.db'', sq_create_parent_dirs = True, sq_initialize_schema = True, sq_journal_mode = ''WAL'',
     sq_synchronous = ''NORMAL'', sq_busy_timeout_ms = 5000, sq_foreign_keys = True, sq_required = True,
     wss_max_state_bytes = 1048576, wss_max_history_messages = 50, wss_reset_mode = ''replace_with_empty_state'',
     wss_store_user_id = False, wss_store_user_id_hash = True\<rparr>"

definition sample_save :: "string \<Rightarrow> int \<Rightarrow> int option \<Rightarrow> workflow_store \<Rightarrow> (store_error + save_result) \<times> workflow_store" where
  "sample_save sid n expected db =
    store_save sample_store_env sample_store_settings None ''t0'' (PStr sid) [(''a'', PInt n)] expected [] db"

text \<open>The store after the first turns of two sessions.\<close>

definition sample_db :: workflow_store where
  "sample_db = snd (sample_save ''s-1'' 1 None empty_store)"

definition sample_db2 :: workflow_store where
  "sample_db2 = snd (sample_save ''s-2'' 1 None sample_db)"

text \<open>A reset that deletes the row, then a first save of another client, then the save that still expects version 1.\<close>

definition deleting_settings :: workflow_store_settings where
  "deleting_settings = sample_store_settings\<lparr>wss_reset_mode := ''delete_state_row''\<rparr>"

definition restarted_db :: workflow_store where
  "restarted_db =
    snd (store_save sample_store_env deleting_settings None ''t2'' (PStr ''s-1'') [(''a'', PInt 7)] None []
      (snd (store_reset sample_store_env deleting_settings None ''t1'' (PStr ''s-1'') None [] sample_db)))"

definition restarted_save :: "(store_error + save_result) \<times> workflow_store" where
  "restarted_save =
    store_save sample_store_env deleting_settings None ''t3'' (PStr ''s-1'') [(''a'', PInt 2)] (Some 1) [] restarted_db"

lemma sample_store_runs_all:
  "(case sample_save ''s-1'' 1 None empty_store of (Inl e, _) \<Rightarrow> False | (Inr r, _) \<Rightarrow> True)
   \<and> (case sample_save ''s-1'' 2 (Some 1) sample_db2 of (Inl e, _) \<Rightarrow> False | (Inr r, _) \<Rightarrow> svr_version r = 2)
   \<and> (case sample_save ''s-1'' 2 (Some 1) (snd (sample_save ''s-1'' 3 (Some 1) sample_db)) of
     (Inl e, _) \<Rightarrow> e = StoreConflict | (Inr r, _) \<Rightarrow> False)
   \<and> (case store_load sample_db None ''t1'' (PStr ''s-1'') of Inl e \<Rightarrow> False | Inr rec \<Rightarrow> rec_found rec \<and> rec_version rec = Some 1)
   \<and> (case store_load empty_store None ''t0'' (PStr ''s-1'') of Inl e \<Rightarrow> False | Inr rec \<Rightarrow>
     \<not> rec_found rec \<and> rec_version rec = None \<and> rec_session_id rec = ''s-1'')
   \<and> (case prepare_for_storage sample_store_env sample_store_settings [(''a'', PInt 2)] of
     Inl e \<Rightarrow> False | Inr p \<Rightarrow> prs_stored p = [(''a'', PInt 2)])
   \<and> (case restarted_save of (Inl e, db) \<Rightarrow> False
      | (Inr r, db) \<Rightarrow> svr_version r = 2
          \<and> map_option cur_state (map_of (db_states restarted_db) ''s-1'') = Some [(''a'', PInt 7)]
          \<and> map_option cur_state (map_of (db_states db) ''s-1'') = Some [(''a'', PInt 2)])"
  by code_simp

lemmas sample_store_runs = parts7 [OF sample_store_runs_all]

text \<open>The versions that start again: after a reset that deletes the row and a first save, which gets version 1 like the
  row that was loaded before, the save of the client that loaded it replaces the other one.\<close>

lemma restarted_version_is_overwritten:
  "case restarted_save of (Inl e, db) \<Rightarrow> False
   | (Inr r, db) \<Rightarrow> svr_version r = 2
       \<and> map_option cur_state (map_of (db_states restarted_db) ''s-1'') = Some [(''a'', PInt 7)]
       \<and> map_option cur_state (map_of (db_states db) ''s-1'') = Some [(''a'', PInt 2)]"
  by (rule sample_store_runs(7))

section \<open>What clients may rely on\<close>

text \<open>C23. No update of an existing session is lost while its row stays: whatever saves, resets and deletions of any
  clients come in between, a save that expects the version its client loaded has the next version if it succeeds, and
  then the stored row is still the one that was loaded, or the row was gone at some point in between, by a deletion or
  by a reset that deletes rows, after which the versions start again.\<close>

theorem no_update_is_lost:
  assumes "store_load db None now v = Inr rec" "rec_found rec" "store_runs env settings db db1"
    and "store_save env settings failure now' v state (rec_version rec) metadata db1 = (Inr r, db2)"
  shows "Some (svr_version r) = map_option (\<lambda>n. n + 1) (rec_version rec)
    \<and> (map_of (db_states db1) (rec_session_id rec) = map_of (db_states db) (rec_session_id rec)
       \<or> (\<exists>mid. store_runs env settings db mid \<and> store_runs env settings mid db1
             \<and> map_of (db_states mid) (rec_session_id rec) = None))"
proof -
  from assms(1,2) obtain sid row where sid: "store_session_id v = Inr sid" "rec_session_id rec = sid"
    and row: "map_of (db_states db) sid = Some row" "rec_version rec = Some (cur_version row)"
    by (auto simp: store_load_def split: option.splits sum.splits)
  from assms(4) show ?thesis
  proof (rule store_save_Inr)
    fix sid' p
    assume *: "store_session_id v = Inr sid'" "rec_version rec = None \<or> version_of db1 sid' = rec_version rec"
      "svr_version r = (case version_of db1 sid' of None \<Rightarrow> 1 | Some n \<Rightarrow> n + 1)"
    then have v: "sid' = sid" "version_of db1 sid = Some (cur_version row)" using sid row by auto
    have "map_of (db_states db1) sid = map_of (db_states db) sid" if "row_kept_or_newer sid db db1"
      using that v(2) row(1) by (auto simp: row_kept_or_newer_def version_of_def)
    with store_runs_newer [OF assms(3), of sid] show ?thesis
      using *(3) v sid(2) row(2) unfolding row_dropped_def by auto
  qed
qed

theorem no_update_is_lost_witness:
  "\<exists>rec r db2. store_load sample_db None ''t1'' (PStr ''s-1'') = Inr rec
    \<and> sample_save ''s-1'' 2 (rec_version rec) sample_db2 = (Inr r, db2)
    \<and> Some (svr_version r) = map_option (\<lambda>n. n + 1) (rec_version rec)"
proof -
  obtain rec where rec: "store_load sample_db None ''t1'' (PStr ''s-1'') = Inr rec" "rec_found rec" "rec_version rec = Some 1"
    using sample_store_runs(4) by (simp split: sum.splits)
  obtain r db2 where save: "sample_save ''s-1'' 2 (Some 1) sample_db2 = (Inr r, db2)"
    using sample_store_runs(2) by (simp split: prod.splits sum.splits)
  have "store_step sample_store_env sample_store_settings sample_db sample_db2"
    by (rule store_step.save) (simp add: sample_db2_def sample_save_def prod_eq_iff)
  note runs = store_runs.go [OF store_runs.stop this]
  have "sample_save ''s-1'' 2 (rec_version rec) sample_db2 = (Inr r, db2)" using rec save by simp
  from no_update_is_lost [OF rec(1,2) runs this [unfolded sample_save_def]] this rec(1) show ?thesis by blast
qed

text \<open>C24. The first turns of a session are not protected: when the store has no row, the version a client expects is
  none and is not compared, so of two clients that both loaded the new session the second save
  replaces what the first one saved, and both succeed: the store then has the document of the second.\<close>

theorem first_save_is_overwritten:
  assumes "store_load db None now v = Inr rec" "\<not> rec_found rec"
    and "store_save env settings None now1 v state1 (rec_version rec) metadata1 db = (Inr r1, db1)"
    and "prepare_for_storage env settings state2 = Inr p2" "json_document (PDict state2)"
  shows "\<exists>r2 db2 row. store_save env settings None now2 v state2 (rec_version rec) metadata2 db1 = (Inr r2, db2)
    \<and> map_of (db_states db2) (rec_session_id rec) = Some row \<and> same_json (PDict state2) (PDict (cur_state row))"
proof -
  from assms(1,2) obtain sid where sid: "store_session_id v = Inr sid" "rec_session_id rec = sid" "rec_version rec = None"
    by (auto simp: store_load_def split: option.splits sum.splits)
  let ?db2 = "commit_save settings now2 sid p2 metadata2 db1"
  obtain row where "map_of (db_states ?db2) sid = Some row" "cur_state row = prs_stored p2" by (rule commit_save_row)
  moreover have "\<exists>r2. store_save env settings None now2 v state2 None metadata2 db1 = (Inr r2, ?db2)"
    by (simp add: store_save_def sid(1) assms(4) Let_def)
  ultimately show ?thesis using prepared_same_json [OF assms(4,5)] by (auto simp: sid)
qed

theorem first_save_is_overwritten_witness:
  "\<exists>r2 db2 row. sample_save ''s-1'' 2 None sample_db = (Inr r2, db2)
    \<and> map_of (db_states db2) ''s-1'' = Some row \<and> same_json (PDict [(''a'', PInt 2)]) (PDict (cur_state row))"
proof -
  obtain rec where rec: "store_load empty_store None ''t0'' (PStr ''s-1'') = Inr rec" "\<not> rec_found rec" "rec_version rec = None"
    and sid: "rec_session_id rec = ''s-1''"
    using sample_store_runs(5) by (simp split: sum.splits)
  obtain r where save: "sample_save ''s-1'' 1 None empty_store = (Inr r, sample_db)"
    using sample_store_runs(1) by (auto simp: sample_db_def split: prod.splits sum.splits)
  obtain p where p: "prepare_for_storage sample_store_env sample_store_settings [(''a'', PInt 2)] = Inr p"
    using sample_store_runs(6) by (simp split: sum.splits)
  have "json_document (PDict [(''a'', PInt 2)])" by simp
  from first_save_is_overwritten [OF rec(1,2) _ p(1) this] save
  show ?thesis by (simp add: rec(3) sid sample_save_def)
qed

text \<open>C25. What was saved is what is loaded next: after a save of a document of JSON values that succeeded, the next load
  finds a document with the same values at every place, under the version and the number of messages that the save returned.\<close>

theorem saved_state_is_loaded:
  assumes "store_save env settings failure now v state expected metadata db = (Inr r, db')" "json_document (PDict state)"
  shows "\<exists>rec. store_load db' None now' v = Inr rec \<and> rec_found rec \<and> same_json (PDict state) (PDict (rec_state rec))
    \<and> rec_version rec = Some (svr_version r) \<and> rec_message_count rec = svr_message_count r"
  using assms(1)
proof (rule store_save_Inr)
  fix sid p
  assume *: "store_session_id v = Inr sid" "prepare_for_storage env settings state = Inr p"
    "db' = commit_save settings now sid p metadata db" "svr_message_count r = prs_message_count p"
    "svr_version r = (case version_of db sid of None \<Rightarrow> 1 | Some n \<Rightarrow> n + 1)"
  obtain row where row: "map_of (db_states db') sid = Some row"
    "cur_version row = (case version_of db sid of None \<Rightarrow> 1 | Some n \<Rightarrow> n + 1)" "cur_state row = prs_stored p"
    "cur_message_count row = prs_message_count p"
    unfolding *(3) by (rule commit_save_row)
  from prepared_same_json [OF *(2) assms(2)] * row show ?thesis by (simp add: store_load_def)
qed

theorem saved_state_is_loaded_witness:
  "\<exists>r db rec. sample_save ''s-1'' 1 None empty_store = (Inr r, db) \<and> store_load db None ''t1'' (PStr ''s-1'') = Inr rec
    \<and> same_json (PDict [(''a'', PInt 1)]) (PDict (rec_state rec)) \<and> rec_version rec = Some (svr_version r)"
proof -
  obtain r db where save: "sample_save ''s-1'' 1 None empty_store = (Inr r, db)"
    using sample_store_runs(1) by (simp split: prod.splits sum.splits)
  have "json_document (PDict [(''a'', PInt 1)])" by simp
  from saved_state_is_loaded [OF save [unfolded sample_save_def] this] save show ?thesis by metis
qed

end
