(* ===== verification/Spec2Isabelle.thy ===== *)
theory Spec2Isabelle
  imports Service_Facts LLM_Reports Policy_Redaction Orch_Limits Orch_Fallback Tool_Safety Health_Report Orch_State Agents_Config Memory_Safety
    Session_State Session_Store
begin

text \<open>
  \<^bold>\<open>What this development is about.\<close>
  The program is the backend of a chat application (\<open>src/backend/app\<close>): a session service takes a request,
  the orchestration runtime chooses a use case and a strategy, the strategy calls agents, tools, memory and
  language models through one gateway each, and each gateway asks one policy service for permission, redacts
  what it shows and records what it did. The development models the deciding parts of that chain: the policy
  service and its engine, the redactor, the settings they all read from the configuration, the LLM gateway,
  the tool gateway, the orchestration limits, errors, fallback, the state documents, and the health reports.

  \<^bold>\<open>Conventions.\<close>
  A Python value is a \<open>pyval\<close> (\<open>Py_Prelude\<close>): None, bool, unbounded int, float, text, list, dict, set and
  opaque objects; a dict is an association list in insertion order (\<open>pydict\<close>). Text is a list of characters
  with code points 0 to 255, so \<open>strip\<close>, \<open>lower\<close> and \<open>casefold\<close> are those of Python on that range (\<open>Py_Text\<close>).
  A function that can raise returns \<open>pyerr + 'a\<close> (or a sum with the error type of its component), and every
  raise, early return and handler is a branch. A float is the bit pattern of its IEEE number: only comparison
  and equality are used, which \<open>Py_Equal\<close> defines with Python's equality of numbers. The state of a service is
  a record that every operation returns changed; a run is an inductive relation between such states.

  \<^bold>\<open>Theories and sources\<close> (paths under \<open>src/backend/app\<close>).
  \<^item> \<open>Py_Text\<close>, \<open>Py_Prelude\<close>, \<open>Py_Equal\<close>: the built-ins of Python that the sources use, with the lemmas on
    them; \<open>Service_Facts\<close>: lemmas about runs of the policy service.
  \<^item> \<open>Policy_Contracts\<close> (\<open>contracts/policy.py\<close>, \<open>policy/models.py\<close>), \<open>Policy_Settings\<close>, \<open>Policy_Config\<close>
    (\<open>policy/settings.py\<close>, \<open>config/view.py\<close>), \<open>Policy_Matching\<close> (\<open>policy/registry.py\<close>),
    \<open>Policy_Access_Rules\<close>, \<open>Policy_Data_Rules\<close>, \<open>Policy_Exposure_Rules\<close> (the rule modules of \<open>policy/\<close>),
    \<open>Policy_Engine\<close> (\<open>policy/engine.py\<close>, \<open>policy/rule_loader.py\<close>), \<open>Policy_Requests\<close> (the request builders),
    \<open>Policy_Cache\<close>, \<open>Policy_Audit\<close>, \<open>Policy_Service\<close>, \<open>Policy_Redaction\<close> (the modules of those names), and
    \<open>Policy_Safety\<close>: what holds of a request that the default registry allows.
  \<^item> \<open>Config_View\<close>, \<open>Orch_Config\<close>, \<open>LLM_Config\<close>, \<open>Tool_Config\<close>, \<open>Agents_Config\<close>, \<open>Memory_Config\<close>: \<open>config/view.py\<close>.
  \<^item> \<open>Retry_Loop\<close>, \<open>Fallback_Plan\<close>: the interfaces of the retry and fallback loops, as locales that the gateways
    interpret; \<open>LLM_Models\<close>, \<open>LLM_Resolver\<close>, \<open>LLM_Gateway\<close>, \<open>LLM_Reports\<close>, \<open>LLM_Safety\<close>: \<open>llm/\<close> and
    \<open>contracts/llm.py\<close>.
  \<^item> \<open>Tool_Errors\<close>, \<open>Tool_Registry\<close>, \<open>Tool_Validation\<close>, \<open>Tool_Results\<close>, \<open>Tool_Gateway\<close>, \<open>Tool_Safety\<close>:
    \<open>tools/\<close> and \<open>contracts/tools.py\<close>; \<open>Health_Report\<close>: \<open>tools/health.py\<close>, \<open>tools/capabilities.py\<close>,
    \<open>observability/health.py\<close>.
  \<^item> \<open>Orch_Errors\<close>, \<open>Orch_Limits\<close>, \<open>Orch_Fallback\<close>, \<open>Orch_Models\<close>, \<open>Orch_State\<close>: the modules \<open>errors\<close>, \<open>limits\<close>,
    \<open>fallback\<close>, \<open>cancellation\<close>, \<open>models\<close> and \<open>state_delta\<close> of \<open>orchestration/\<close>, and \<open>contracts/state.py\<close>.
  \<^item> \<open>Memory_Scopes\<close>, \<open>Memory_Models\<close>, \<open>Memory_Gateway\<close>, \<open>Memory_Operations\<close>: the modules \<open>scopes\<close>, \<open>redaction\<close>,
    \<open>stats\<close> and \<open>gateway\<close> of \<open>memory/\<close> and \<open>contracts/memory.py\<close>; \<open>Memory_Safety\<close>: what the memory gateway lets
    through to the adapter and what comes back.
  \<^item> \<open>Session_Replay\<close>: the artifacts, metadata and replay payloads of \<open>session/mapping.py\<close>.
  \<^item> \<open>Session_Config\<close>, \<open>Service_Config\<close>: the session, observability, health, deployment, API and visualization
    sections of \<open>config/view.py\<close>; \<open>Orch_Results\<close>: \<open>orchestration/result_builder.py\<close>, \<open>orchestration/events.py\<close>.
  \<^item> \<open>Session_History\<close>, \<open>Session_State\<close>: \<open>session/history.py\<close>, \<open>session/lifecycle.py\<close>; \<open>Conversation_Window\<close>:
    \<open>orchestration/conversation_context.py\<close>; \<open>Session_Store\<close>: \<open>persistence/sqlite_workflow_state_store.py\<close> with its
    schema and \<open>persistence/serialization.py\<close>.

  \<^bold>\<open>What the lemmas show.\<close>
  The policy engine is a function of the kinds of decisions the matching rules give (refinement), and the
  service gives its answers, fresh or remembered for the same key; the safety lemmas of \<open>Policy_Safety\<close> read
  an allow backwards into what must hold of the request and the profile. The gateway lemmas carry this to the
  calls: no provider and no tool is called without an allow for exactly what is called, the number of calls is
  bounded by the settings, a transient failure within the retries is survived, and a refusal makes no call. The
  rest are invariants (the limits of a turn, the bounded cache and audit log), bounds (sanitized metadata, tool
  results), round trips (configuration, errors, state documents), the refinement of the schema validator, and
  the totality of what loops. What a document, a path, a secret key or a message is in these statements is defined
  apart from the code (\<open>same_json\<close>, \<open>value_at\<close>, \<open>leaf_at\<close> and \<open>names_secret\<close>, \<open>says\<close>), so that they do not follow an
  error of it. Where the code falls short of what its documents ask for the lemmas say what it does: a call for
  statistics without a context is not checked, versions of a session start again after its row is deleted, a first
  save is never a conflict, and a turn does not compare its user with the owner of the session.

  \<^bold>\<open>Parameters.\<close>
  What is not under \<open>src\<close> is a parameter: the digest and the JSON rendering of the cache key, \<open>repr\<close> of a float,
  the clocks, the JSON parser (\<open>json_reader\<close>), the path resolvers, and what providers and the MCP server answer,
  which is one script of answers and failures per run, read in order, so that a lemma for every script holds for
  every behaviour of the other side. Concurrency of one event loop is the order of the steps of a run.

  \<^bold>\<open>Bounds.\<close>
  No definition runs on fuel: recursion is structural or has a measure (the size of a value, the number of
  attempts left, the length of a script). A loop over attempts ends because the attempts do.

  \<^bold>\<open>Not modelled.\<close>
  The HTTP routes, the SQLite stores, the MCP client and the providers' HTTP code are I/O over third-party
  packages. The Pydantic schemas only restate the configuration. The numerical parts of the visualization
  package need float arithmetic. Logging to sinks is left out where nothing is computed from it. Of the orchestration the runtime, the
  strategies and the agents are left out: they only sequence calls of the gateways modelled here, and which ones
  follows from plugin code found at run time. The session service (\<open>session/service.py\<close>) is represented by what it
  computes, the session documents, histories and policy requests, and not by its asynchronous shell.
\<close>

section \<open>The service as its callers see it\<close>

text \<open>C2. The service serves engine decisions only: whatever a running service, built with the default
  registry, returns for a request is the decision of the engine for it, plain or in its stored form, or
  the stored form of the decision the same engine gave earlier in the run for a request with the same cache
  key under the same profile, less than the time to live ago.\<close>

theorem service_serves_engine_decisions:
  assumes "build_policy_service config = Inr sv0" "service_runs tx sv0 log sv"
    and "service_evaluate tx ck sv r c = (Inr d, sv')"
  shows "\<exists>r' c' d0 t. engine_evaluate (sv_engine sv0) r' c' = Inr d0 \<and> d \<in> {d0, sanitize_decision d0}
    \<and> (r' = r \<and> c' = c \<or>
       (t, r', c', d0) \<in> set log
       \<and> build_policy_cache_key tx r' c' (pp_name (profile_of sv0 r c)) =
         build_policy_cache_key tx r c (pp_name (profile_of sv0 r c))
       \<and> pp_name (profile_of sv0 r' c') = pp_name (profile_of sv0 r c)
       \<and> ck_get ck < t + cache_ttl (decision_cache_for_profile sv (profile_of sv0 r c)))"
proof -
  have ok: "service_ok tx log sv" by (rule service_runs_ok [OF assms(2) build_policy_service_ok [OF assms(1)]])
  have eng: "sv_engine sv = sv_engine sv0" by (rule service_runs_engine [OF assms(2)])
  from service_evaluate_source [OF ok assms(3)] show ?thesis
    unfolding eng by (cases; blast)
qed

text \<open>C10. A call site that asks for permission gets it exactly when the evaluated decision is an allow: a
  denial is raised as a policy denial and a demand for approval as an approval error, and the state of
  the service is the one after the evaluation.\<close>

theorem require_allowed_enforces:
  assumes "build_policy_service config = Inr sv0" "service_runs tx sv0 log sv"
    and "service_evaluate tx ck sv r c = (Inr d, sv')"
  shows "snd (service_require_allowed tx ck sv r c) = sv'
    \<and> (fst (service_require_allowed tx ck sv r c) = Inr () \<longleftrightarrow> dec_decision d = Some Allow)
    \<and> ((\<exists>m. fst (service_require_allowed tx ck sv r c) = Inl (PolicyDeniedError m)) \<longleftrightarrow> dec_decision d = Some Deny)
    \<and> ((\<exists>m. fst (service_require_allowed tx ck sv r c) = Inl (PolicyApprovalRequiredError m)) \<longleftrightarrow>
        dec_decision d = Some ApprovalRequired)"
proof -
  have ok: "service_ok tx log sv" by (rule service_runs_ok [OF assms(2) build_policy_service_ok [OF assms(1)]])
  have "eng_registry (sv_engine sv) = load_default_policy_registry"
    using build_policy_service_registry [OF assms(1)] service_runs_engine [OF assms(2)] by simp
  note wf = service_decision_wf [OF ok this assms(3)]
  from wf require_allowed_cases [OF assms(3) wf] show ?thesis
    by (elim wf_decision_cases) simp_all
qed

lemma sample_first_verdicts:
  "first_verdict (sample_fallback_request True) = Some Deny \<and> first_verdict (sample_fallback_request False) = Some Allow
   \<and> fallback_admitted (normalize_orchestration_error TimeoutExn) (Some ''planner'') (Some ''direct'') False False
   \<and> oe_code (normalize_orchestration_error TimeoutExn) = ''orchestration_timeout''
   \<and> oe_class (normalize_orchestration_error TimeoutExn) = OrchestrationTimeoutError
   \<and> norm_text (Some ''planner'') = Some ''planner'' \<and> norm_text (Some ''direct'') = Some ''direct''"
  unfolding fallback_admitted_def by code_simp

theorem service_serves_engine_decisions_witness:
  "\<exists>sv d sv' r' c' d0. build_policy_service minimal_config = Inr sv
    \<and> service_evaluate plain_texts (clock_at 0) sv (sample_fallback_request True) sample_context = (Inr d, sv')
    \<and> engine_evaluate (sv_engine sv) r' c' = Inr d0 \<and> d \<in> {d0, sanitize_decision d0}"
proof -
  have "first_verdict (sample_fallback_request True) = Some Deny" using sample_first_verdicts by blast
  from first_evaluation [OF this] obtain sv d sv' where
    sv: "build_policy_service minimal_config = Inr sv"
    "service_evaluate plain_texts (clock_at 0) sv (sample_fallback_request True) sample_context = (Inr d, sv')"
    by blast
  from service_serves_engine_decisions [OF sv(1) service_runs.start sv(2)] sv show ?thesis by blast
qed

theorem require_allowed_enforces_witness:
  "\<exists>sv. build_policy_service minimal_config = Inr sv
    \<and> fst (service_require_allowed plain_texts (clock_at 0) sv (sample_fallback_request False) sample_context) = Inr ()
    \<and> (\<exists>m. fst (service_require_allowed plain_texts (clock_at 0) sv (sample_fallback_request True) sample_context)
          = Inl (PolicyDeniedError m))"
proof -
  have "first_verdict (sample_fallback_request False) = Some Allow" using sample_first_verdicts by blast
  from first_evaluation [OF this] obtain sv d sv' where
    sv: "build_policy_service minimal_config = Inr sv"
    "service_evaluate plain_texts (clock_at 0) sv (sample_fallback_request False) sample_context = (Inr d, sv')"
    "dec_decision d = Some Allow" by blast
  have "first_verdict (sample_fallback_request True) = Some Deny" using sample_first_verdicts by blast
  from first_evaluation [OF this] sv(1) obtain d' sv'' where
    sv': "service_evaluate plain_texts (clock_at 0) sv (sample_fallback_request True) sample_context = (Inr d', sv'')"
    "dec_decision d' = Some Deny" by auto
  from require_allowed_enforces [OF sv(1) service_runs.start sv(2)]
    require_allowed_enforces [OF sv(1) service_runs.start sv'(1)] sv sv'(2) show ?thesis by blast
qed

text \<open>C21. A cached permission hides the circumstances of a fallback: once a fallback was allowed, a second
  request for it within the time to live is allowed from the cache, whatever it reports of denials, side
  effects, a started response or broader permissions, which the engine is not asked about any more.\<close>

theorem cached_fallback_is_not_reconsidered:
  assumes "sv_caches sv = []" "eng_registry (sv_engine sv) = load_default_policy_registry"
    and "r = build_fallback_policy_request c failed fallback failure denied side_effect started broader"
    and "r' = build_fallback_policy_request c failed fallback failure' denied' side_effect' started' broader'"
    and "engine_evaluate (sv_engine sv) r c = Inr d"
    and "s = pp_decision_cache (profile_of sv r c)" "pdc_enabled s" "0 < pdc_max_entries s"
    and "ck_trim ck < ck_put ck + 1000000 * max (pdc_ttl_seconds s) 1"
    and "ck_get ck' < ck_put ck + 1000000 * max (pdc_ttl_seconds s) 1"
  shows "fst (service_evaluate tx ck' (snd (service_evaluate tx ck sv r c)) r' c) = Inr (sanitize_decision d)"
proof -
  let ?n = "pp_name (profile_of sv r c)"
  obtain cache where look: "lookup_of tx ck sv r c = (None, cache)" "cache_wf cache" "dc_settings cache = s"
    using fresh_lookup [OF assms(1) refl] assms(6) by metis
  let ?sv = "snd (service_evaluate tx ck sv r c)" and ?put = "snd (cache_put tx (ck_put ck) (ck_trim ck) cache r c ?n d)"
  have prof: "profile_of ?sv r' c = profile_of sv r c"
    unfolding assms(3,4) by (simp, rule fallback_profile_same)
  have "map_of (sv_caches ?sv) ?n = Some ?put"
    using service_evaluate_miss(2) [OF look(1) assms(5)] by simp
  then have cache: "decision_cache_for_profile ?sv (profile_of sv r c) = ?put"
    by (simp add: decision_cache_for_profile_def)
  have "fst (cache_get tx (ck_get ck') ?put r c ?n) = Some (sanitize_decision d)"
    using assms(7-10) look(2,3)
    by (intro cache_get_after_put) (simp_all add: cache_enabled_def cache_limit_def cache_ttl_def)
  moreover have "cache_get tx (ck_get ck') ?put r' c ?n = cache_get tx (ck_get ck') ?put r c ?n"
    unfolding assms(3,4) by (intro cache_get_same_key fallback_key_same)
  ultimately have "fst (lookup_of tx ck' ?sv r' c) = Some (sanitize_decision d)"
    unfolding prof cache by simp
  then show ?thesis
    by (metis prod.collapse service_evaluate_hit(1))
qed

theorem cached_fallback_is_not_reconsidered_witness:
  "verdict_of (engine_evaluate (sample_engine sample_profile) (sample_fallback_request True) sample_context) = Some Deny
   \<and> verdict_of (fst (service_evaluate plain_texts (clock_at 29000000)
       (snd (service_evaluate plain_texts (clock_at 0) (fresh_service (sample_engine sample_profile))
          (sample_fallback_request False) sample_context))
       (sample_fallback_request True) sample_context)) = Some Allow"
proof
  show "verdict_of (engine_evaluate (sample_engine sample_profile) (sample_fallback_request True) sample_context)
      = Some Deny" using sample_engine_verdicts by blast
  have "verdict_of (engine_evaluate (sample_engine sample_profile) (sample_fallback_request False) sample_context)
      = Some Allow" by (rule sample_allowed) simp
  then obtain d where d: "engine_evaluate (sample_engine sample_profile) (sample_fallback_request False) sample_context
      = Inr d" "dec_decision d = Some Allow" unfolding verdict_of_Some by blast
  have wf: "wf_decision d" using default_registry.engine_verdict [OF sample_registry d(1)] by blast
  have cache: "pp_decision_cache (resolve_policy_profile (sample_engine sample_profile)
      (sample_fallback_request False) sample_context) = default_decision_cache_settings"
    using sample_engine_verdicts by blast
  have "fst (service_evaluate plain_texts (clock_at 29000000)
       (snd (service_evaluate plain_texts (clock_at 0) (fresh_service (sample_engine sample_profile))
          (sample_fallback_request False) sample_context))
       (sample_fallback_request True) sample_context) = Inr (sanitize_decision d)"
    by (rule cached_fallback_is_not_reconsidered [OF _ _ refl refl _ refl])
       (simp_all add: d(1) cache default_decision_cache_settings_def)
  then show "verdict_of (fst (service_evaluate plain_texts (clock_at 29000000)
       (snd (service_evaluate plain_texts (clock_at 0) (fresh_service (sample_engine sample_profile))
          (sample_fallback_request False) sample_context))
       (sample_fallback_request True) sample_context)) = Some Allow"
    using wf d(2) by (simp add: verdict_of_def)
qed

text \<open>C19. Degraded execution needs consent: when a failed strategy is to be replaced, the replacement is
  admitted only for a failure the classification admits and only if the policy service, asked in the
  state it is in, allows the fallback; every other outcome is a refusal or an error.\<close>

theorem fallback_needs_consent:
  assumes "service_ok tx log sv" "eng_registry (sv_engine sv) = load_default_policy_registry"
    and "enforce_fallback_policy tx ck sv c x failed fallback side_effect started broader = (Inr fd, sv')"
    and "fd_allowed fd"
  shows "fallback_admitted (normalize_orchestration_error x) failed fallback side_effect started
    \<and> (\<exists>d. fst (service_evaluate tx ck sv (fallback_request c fd side_effect started broader) c) = Inr d
         \<and> dec_decision d = Some Allow)"
proof -
  obtain d0 where d0: "decide_fallback x failed fallback side_effect started = Inr d0"
    "fd_allowed d0 \<longleftrightarrow> fallback_admitted (normalize_orchestration_error x) failed fallback side_effect started"
    "fd_fallback_strategy d0 = norm_text fallback"
    using decide_fallback_total by blast
  let ?r = "fallback_request c d0 side_effect started broader"
  have blocked: "blocked_by_policy d0 m = Inr fd \<Longrightarrow> \<not> fd_allowed fd" for m
    by (auto simp: blocked_by_policy_def new_fallback_decision_def split: sum.splits)
  have admitted: "fd_allowed d0" "fd_fallback_strategy d0 \<noteq> None"
  proof -
    show "fd_allowed d0"
    proof (rule ccontr)
      assume "\<not> fd_allowed d0"
      with assms(3,4) show False by (simp add: enforce_fallback_policy_def d0(1))
    qed
    with d0(2,3) show "fd_fallback_strategy d0 \<noteq> None" by (simp add: fallback_admitted_def)
  qed
  have enforced: "fd = d0 \<and> fst (service_require_allowed tx ck sv ?r c) = Inr ()"
    using assms(3,4) admitted blocked
    by (auto simp: enforce_fallback_policy_def d0(1) Let_def split: prod.splits sum.splits pyerr.splits)
  then obtain d sv'' where ev: "service_evaluate tx ck sv ?r c = (Inr d, sv'')"
    by (cases "service_evaluate tx ck sv ?r c"; cases "fst (service_evaluate tx ck sv ?r c)")
       (auto simp: service_require_allowed_def)
  note wf = service_decision_wf [OF assms(1,2) ev]
  from wf require_allowed_cases [OF ev wf] enforced have "dec_decision d = Some Allow"
    by (elim wf_decision_cases) simp_all
  with ev admitted(1) d0(2) enforced show ?thesis by simp
qed

text \<open>A planner that timed out, with a direct answer as its fallback.\<close>

abbreviation "degrade \<equiv>
  enforce_fallback_policy plain_texts (clock_at 0) (fresh_service (sample_engine sample_profile)) sample_context
    TimeoutExn (Some ''planner'') (Some ''direct'') False False False"

lemma degrade_result: "\<exists>fd sv'. degrade = (Inr fd, sv') \<and> fd_allowed fd"
proof -
  let ?sv = "fresh_service (sample_engine sample_profile)"
  have admitted: "fallback_admitted (normalize_orchestration_error TimeoutExn) (Some ''planner'') (Some ''direct'') False False"
    "oe_code (normalize_orchestration_error TimeoutExn) = ''orchestration_timeout''"
    "oe_class (normalize_orchestration_error TimeoutExn) = OrchestrationTimeoutError"
    "norm_text (Some ''planner'') = Some ''planner''" "norm_text (Some ''direct'') = Some ''direct''"
    using sample_first_verdicts by blast+
  then obtain fd where fd: "decide_fallback TimeoutExn (Some ''planner'') (Some ''direct'') False False = Inr fd"
    "fd_allowed fd" "fd_fallback_strategy fd = Some ''direct''"
    "fallback_request sample_context fd False False False = sample_fallback_request False"
    using decide_fallback_total [of TimeoutExn "Some ''planner''" "Some ''direct''" False False]
    by (auto simp: fallback_request_def)
  have "verdict_of (engine_evaluate (sample_engine sample_profile) (sample_fallback_request False) sample_context)
      = Some Allow" by (rule sample_allowed) simp
  then obtain d0 where "engine_evaluate (sv_engine ?sv) (sample_fallback_request False) sample_context = Inr d0"
    "dec_decision d0 = Some Allow" unfolding verdict_of_Some by auto
  from fresh_evaluation [OF _ _ this] obtain d sv' where
    ev: "service_evaluate plain_texts (clock_at 0) ?sv (sample_fallback_request False) sample_context = (Inr d, sv')"
    "wf_decision d" "dec_decision d = Some Allow" by fastforce
  from require_allowed_cases [OF ev(1,2)] ev(3) fd show ?thesis
    by (simp add: enforce_fallback_policy_def)
qed

theorem fallback_needs_consent_witness:
  "\<exists>fd sv'. degrade = (Inr fd, sv') \<and> fd_allowed fd
    \<and> fallback_admitted (normalize_orchestration_error TimeoutExn) (Some ''planner'') (Some ''direct'') False False"
proof -
  obtain fd sv' where fd: "degrade = (Inr fd, sv')" "fd_allowed fd" using degrade_result by blast
  have ok: "service_ok plain_texts [] (fresh_service (sample_engine sample_profile))"
    by (simp add: service_ok_empty)
  have "eng_registry (sv_engine (fresh_service (sample_engine sample_profile))) = load_default_policy_registry"
    by simp
  from fallback_needs_consent [OF ok this fd] fd show ?thesis by blast
qed

end
